(* ===== verification/Prelude.thy ===== *)
theory Prelude
  imports Complex_Main "HOL-Library.Sublist"
begin

text \<open>
  Generic vocabulary of the development: names for the model's types, the string operations of
  the Python standard library that the sources use (split, join, replace, strip, lower, membership),
  decimal rendering of integers, banker's rounding of floats (modelled by exact rationals), and
  the collections of simplification rules the component theories share.
\<close>

named_theorems py_simps "rules that evaluate the model of the Python standard library"
named_theorems frame_simps "a table or key that an operation leaves alone"

type_synonym uuid = string
type_synonym time = int  \<comment> \<open>microseconds since the epoch, UTC\<close>

subsection \<open>Exceptions\<close>

text \<open>
  The exceptions the modelled code raises or tells apart, each with the fact that matters to a
  handler.  A fallible Python function returns a \<open>res\<close>: \<open>Inl\<close> the exception, \<open>Inr\<close> the value.
\<close>

datatype exn =
    ValueError string
  | TypeError string
  | KeyError string
  | AttributeError string
  | OSErr string
  | TimeoutErr
  | RedisError string
  | RedisConnectionError
  | IntegrityError string
  | DataError string
  | OperationalError string
  | HTTPException int string
  | NeuralOpsError int string  \<comment> \<open>status and code\<close>
  | NotFound string
  | OtherError string

type_synonym 'a res = "exn + 'a"

definition is_redis_error :: "exn \<Rightarrow> bool" where
  "is_redis_error e = (case e of RedisError _ \<Rightarrow> True | RedisConnectionError \<Rightarrow> True | _ \<Rightarrow> False)"

lemma is_redis_error_simps [simp, py_simps]:
  "is_redis_error (RedisError m)" "is_redis_error RedisConnectionError"
  "\<not> is_redis_error (ValueError m)" "\<not> is_redis_error (IntegrityError m)"
  by (simp_all add: is_redis_error_def)

subsection \<open>Truthiness and defaults\<close>

text \<open>\<open>x or d\<close> for a string that may be missing: both \<open>None\<close> and the empty string are false.\<close>

definition str_or :: "string option \<Rightarrow> string \<Rightarrow> string" where
  "str_or x d = (case x of None \<Rightarrow> d | Some s \<Rightarrow> if s = [] then d else s)"

definition nonempty :: "string option \<Rightarrow> string option" where
  "nonempty x = (case x of None \<Rightarrow> None | Some s \<Rightarrow> if s = [] then None else Some s)"

definition get_or :: "'a option \<Rightarrow> 'a \<Rightarrow> 'a" where
  "get_or x d = (case x of None \<Rightarrow> d | Some v \<Rightarrow> v)"

definition or_none :: "int \<Rightarrow> int option" where
  "or_none n = (if n = 0 then None else Some n)"

lemma str_or_simps [simp, py_simps]:
  "str_or None d = d" "str_or (Some []) d = d" "str_or (Some (c # s)) d = c # s"
  by (simp_all add: str_or_def)

lemma get_or_simps [simp, py_simps]: "get_or None d = d" "get_or (Some v) d = v"
  by (simp_all add: get_or_def)

lemma nonempty_simps [simp, py_simps]:
  "nonempty None = None" "nonempty (Some []) = None" "nonempty (Some (c # s)) = Some (c # s)"
  by (simp_all add: nonempty_def)

lemma nonempty_Some_iff: "nonempty x = Some s \<longleftrightarrow> x = Some s \<and> s \<noteq> []"
  by (auto simp: nonempty_def split: option.splits)

subsection \<open>Strings\<close>

fun split_on :: "char \<Rightarrow> string \<Rightarrow> string list" where
  "split_on c [] = [[]]"
| "split_on c (x # xs) =
     (if x = c then [] # split_on c xs
      else (case split_on c xs of [] \<Rightarrow> [[x]] | w # ws \<Rightarrow> (x # w) # ws))"

fun join :: "string \<Rightarrow> string list \<Rightarrow> string" where
  "join sep [] = []"
| "join sep [w] = w"
| "join sep (w # v # ws) = w @ sep @ join sep (v # ws)"

lemma split_on_nonempty [simp]: "split_on c s \<noteq> []"
  by (induction c s rule: split_on.induct) (auto split: list.splits)

lemma join_split_on: "join [c] (split_on c s) = s"
proof (induction c s rule: split_on.induct)
  case (1 c)
  show ?case by simp
next
  case (2 c x xs)
  show ?case
  proof (cases "x = c")
    case True
    then show ?thesis
      using 2(1) by (cases "split_on c xs") auto
  next
    case False
    then show ?thesis
      using 2(2) by (cases "split_on c xs"; cases "tl (split_on c xs)") auto
  qed
qed

lemma split_on_no_sep: "c \<notin> set s \<Longrightarrow> split_on c s = [s]"
  by (induction s) auto

definition last_n :: "nat \<Rightarrow> 'a list \<Rightarrow> 'a list" where
  "last_n n xs = drop (length xs - n) xs"

definition replace_char :: "char \<Rightarrow> char \<Rightarrow> string \<Rightarrow> string" where
  "replace_char a b s = map (\<lambda>x. if x = a then b else x) s"

fun contains :: "string \<Rightarrow> string \<Rightarrow> bool" where
  "contains p [] = (p = [])"
| "contains p (x # xs) = (prefix p (x # xs) \<or> contains p xs)"

lemma contains_iff: "contains p s \<longleftrightarrow> (\<exists>a b. s = a @ p @ b)"
proof (induction s)
  case Nil
  then show ?case by simp
next
  case (Cons x xs)
  show ?case
  proof
    assume "contains p (x # xs)"
    then consider "prefix p (x # xs)" | "contains p xs" by auto
    then show "\<exists>a b. x # xs = a @ p @ b"
    proof cases
      case 1
      then obtain b where "x # xs = [] @ p @ b" by (auto simp: prefix_def)
      then show ?thesis by blast
    next
      case 2
      with Cons.IH obtain a b where "xs = a @ p @ b" by blast
      then have "x # xs = (x # a) @ p @ b" by simp
      then show ?thesis by blast
    qed
  next
    assume "\<exists>a b. x # xs = a @ p @ b"
    then obtain a b where ab: "x # xs = a @ p @ b" by blast
    show "contains p (x # xs)"
    proof (cases a)
      case Nil
      with ab have "prefix p (x # xs)" by (simp add: prefix_def)
      then show ?thesis by simp
    next
      case (Cons y ys)
      with ab have "xs = ys @ p @ b" by simp
      with Cons.IH have "contains p xs" by blast
      then show ?thesis by simp
    qed
  qed
qed

fun replace_first :: "string \<Rightarrow> string \<Rightarrow> string \<Rightarrow> string" where
  "replace_first p r [] = (if p = [] then r else [])"
| "replace_first p r (x # xs) =
     (if prefix p (x # xs) then r @ drop (length p) (x # xs) else x # replace_first p r xs)"

lemma replace_first_absent: "\<not> contains p s \<Longrightarrow> replace_first p r s = s"
  by (induction s) auto

lemma replace_first_present:
  assumes "contains p s"
  shows "\<exists>a b. s = a @ p @ b \<and> replace_first p r s = a @ r @ b"
  using assms
proof (induction s)
  case Nil
  then show ?case by auto
next
  case (Cons x xs)
  show ?case
  proof (cases "prefix p (x # xs)")
    case True
    then obtain b where b: "x # xs = p @ b" by (auto simp: prefix_def)
    from True have "replace_first p r (x # xs) = r @ drop (length p) (x # xs)" by simp
    also have "\<dots> = r @ b" by (simp add: b)
    finally show ?thesis using b by (metis append_Nil)
  next
    case False
    with Cons.prems have "contains p xs" by simp
    from Cons.IH [OF this] obtain a b
      where ab: "xs = a @ p @ b" "replace_first p r xs = a @ r @ b" by blast
    then have "x # xs = (x # a) @ p @ b" "replace_first p r (x # xs) = (x # a) @ r @ b"
      using False by auto
    then show ?thesis by blast
  qed
qed

definition is_space :: "char \<Rightarrow> bool" where
  "is_space c = (c \<in> set [CHR 0x20, CHR 0x09, CHR 0x0A, CHR 0x0B, CHR 0x0C, CHR 0x0D,
                          CHR 0x1C, CHR 0x1D, CHR 0x1E, CHR 0x1F])"

definition strip :: "string \<Rightarrow> string" where
  "strip s = rev (dropWhile is_space (rev (dropWhile is_space s)))"

definition rstrip_char :: "char \<Rightarrow> string \<Rightarrow> string" where
  "rstrip_char c s = rev (dropWhile (\<lambda>x. x = c) (rev s))"

definition removesuffix :: "string \<Rightarrow> string \<Rightarrow> string" where
  "removesuffix suf s = (if suffix suf s then take (length s - length suf) s else s)"

definition lower_char :: "char \<Rightarrow> char" where
  "lower_char c = (let n = (of_char c :: nat) in
     if 65 \<le> n \<and> n \<le> 90 then char_of (n + 32) else c)"

definition lower :: "string \<Rightarrow> string" where
  "lower s = map lower_char s"

subsection \<open>Order-preserving deduplication\<close>

fun dedup_onto :: "'a list \<Rightarrow> 'a list \<Rightarrow> 'a list" where
  "dedup_onto seen [] = []"
| "dedup_onto seen (x # xs) =
     (if x \<in> set seen then dedup_onto seen xs else x # dedup_onto (x # seen) xs)"

lemma set_dedup_onto: "set (dedup_onto seen xs) = set xs - set seen"
  by (induction seen xs rule: dedup_onto.induct) auto

lemma distinct_dedup_onto: "distinct (dedup_onto seen xs)"
  by (induction seen xs rule: dedup_onto.induct) (auto simp: set_dedup_onto)

lemma dedup_onto_subseq: "subseq (dedup_onto seen xs) xs"
  by (induction seen xs rule: dedup_onto.induct) auto

subsection \<open>Decimal rendering\<close>

fun digits :: "nat \<Rightarrow> string" where
  "digits n = (if n < 10 then [''0123456789'' ! n]
               else digits (n div 10) @ [''0123456789'' ! (n mod 10)])"

declare digits.simps [simp del]

definition str_int :: "int \<Rightarrow> string" where
  "str_int i = (if i < 0 then CHR ''-'' # digits (nat (- i)) else digits (nat i))"

definition digit_val :: "char \<Rightarrow> nat" where
  "digit_val c = of_char c - 48"

definition digits_val :: "string \<Rightarrow> nat" where
  "digits_val s = foldl (\<lambda>a c. 10 * a + digit_val c) 0 s"

lemma digit_val_nth: "n < 10 \<Longrightarrow> digit_val (''0123456789'' ! n) = n"
  by (auto simp: digit_val_def less_Suc_eq numeral_eq_Suc)

lemma digits_val_digits: "digits_val (digits n) = n"
proof (induction n rule: digits.induct)
  case (1 n)
  show ?case
  proof (cases "n < 10")
    case True
    then show ?thesis by (subst digits.simps) (simp add: digits_val_def digit_val_nth)
  next
    case False
    with 1 have "digits_val (digits (n div 10)) = n div 10" by simp
    then have "digits_val (digits n) = 10 * (n div 10) + n mod 10"
      using False by (subst digits.simps) (simp add: digits_val_def digit_val_nth)
    then show ?thesis by simp
  qed
qed

lemma set_digits: "set (digits n) \<subseteq> set ''0123456789''"
proof (induction n rule: digits.induct)
  case (1 n)
  show ?case
  proof (cases "n < 10")
    case True
    then have "''0123456789'' ! n \<in> set ''0123456789''" by (intro nth_mem) simp
    with True show ?thesis by (subst digits.simps) simp
  next
    case False
    have "''0123456789'' ! (n mod 10) \<in> set ''0123456789''" by (intro nth_mem) simp
    with False 1 show ?thesis by (subst digits.simps) simp
  qed
qed

lemma digits_inj: "digits m = digits n \<Longrightarrow> m = n"
  by (metis digits_val_digits)

lemma digits_not_minus: "digits n \<noteq> CHR ''-'' # s"
proof
  assume "digits n = CHR ''-'' # s"
  then have "CHR ''-'' \<in> set (digits n)" by simp
  with set_digits show False by fastforce
qed

lemma str_int_inj: "str_int i = str_int j \<Longrightarrow> i = j"
  using digits_not_minus digits_not_minus [symmetric]
  by (auto simp: str_int_def dest!: digits_inj split: if_splits)

lemma str_int_no_colon: "CHR '':'' \<notin> set (str_int i)"
  using set_digits [of "nat i"] set_digits [of "nat (- i)"]
  by (auto simp: str_int_def)

subsection \<open>Floats as exact rationals\<close>

definition clamp01 :: "rat \<Rightarrow> rat" where
  "clamp01 x = max 0 (min 1 x)"

definition round_half_even :: "rat \<Rightarrow> int" where
  "round_half_even x =
     (let f = \<lfloor>x\<rfloor>; d = x - of_int f in
      if d < 1/2 then f else if 1/2 < d then f + 1 else if even f then f else f + 1)"

text \<open>\<open>round(x, 4)\<close>\<close>

definition round4 :: "rat \<Rightarrow> rat" where
  "round4 x = of_int (round_half_even (10000 * x)) / 10000"

lemma clamp01_bounds: "0 \<le> clamp01 x" "clamp01 x \<le> 1"
  by (auto simp: clamp01_def)

lemma clamp01_id: "0 \<le> x \<Longrightarrow> x \<le> 1 \<Longrightarrow> clamp01 x = x"
  by (auto simp: clamp01_def)

lemma clamp01_mono: "x \<le> y \<Longrightarrow> clamp01 x \<le> clamp01 y"
  by (auto simp: clamp01_def max_def min_def)

lemma round_half_even_of_int [simp]: "round_half_even (of_int n) = n"
  by (simp add: round_half_even_def Let_def)

lemma round_half_even_floor: "\<lfloor>x\<rfloor> \<le> round_half_even x \<and> round_half_even x \<le> \<lfloor>x\<rfloor> + 1"
  by (auto simp: round_half_even_def Let_def)

lemma round_half_even_mono:
  assumes "x \<le> y" shows "round_half_even x \<le> round_half_even y"
proof (cases "\<lfloor>x\<rfloor> = \<lfloor>y\<rfloor>")
  case True
  with assms show ?thesis by (auto simp: round_half_even_def Let_def)
next
  case False
  with assms have "\<lfloor>x\<rfloor> + 1 \<le> \<lfloor>y\<rfloor>" using floor_mono [of x y] by linarith
  then show ?thesis
    using round_half_even_floor [of x] round_half_even_floor [of y] by linarith
qed

lemma round4_mono: "x \<le> y \<Longrightarrow> round4 x \<le> round4 y"
  by (simp add: round4_def divide_right_mono round_half_even_mono)

lemma round4_0 [simp]: "round4 0 = 0"
  using round_half_even_of_int [of 0] by (simp add: round4_def del: round_half_even_of_int)

lemma round4_1 [simp]: "round4 1 = 1"
  using round_half_even_of_int [of 10000] by (simp add: round4_def del: round_half_even_of_int)

lemma round4_bounds: "0 \<le> x \<Longrightarrow> x \<le> 1 \<Longrightarrow> 0 \<le> round4 x \<and> round4 x \<le> 1"
  using round4_mono [of 0 x] round4_mono [of x 1] by simp

subsection \<open>Lists\<close>

lemma find_SomeD: "List.find P xs = Some x \<Longrightarrow> P x \<and> x \<in> set xs"
  by (induction xs) (auto split: if_splits)

lemma find_None_iff': "List.find P xs = None \<longleftrightarrow> (\<forall>x \<in> set xs. \<not> P x)"
  by (auto simp: find_None_iff)

lemma count_filter_le_1_unique:
  "length (filter P xs) \<le> 1 \<Longrightarrow> x \<in> set xs \<Longrightarrow> y \<in> set xs \<Longrightarrow> P x \<Longrightarrow> P y \<Longrightarrow> x = y"
  by (induction xs) (auto simp: filter_empty_conv split: if_splits)

end
