(* ===== verification/Json.thy ===== *)
theory Json
  imports Prelude
begin

text \<open>
  JSON values as the Celery messages, the JSONB columns and the outbox payloads carry them, the
  parts of the standard library's \<open>uuid\<close> and \<open>datetime\<close> modules that the sources use to
  build them, and the lookups the consumers apply to them.
\<close>

datatype json =
    JNull
  | JBool bool
  | JInt int
  | JFlt rat
  | JStr string
  | JArr "json list"
  | JObj "(string \<times> json) list"

subsection \<open>Lookups\<close>

text \<open>\<open>d.get(k)\<close> on a decoded object; a missing key is \<open>None\<close>, which JSON's null is too.\<close>

fun jget :: "string \<Rightarrow> json \<Rightarrow> json" where
  "jget k (JObj kvs) = (case map_of kvs k of None \<Rightarrow> JNull | Some v \<Rightarrow> v)"
| "jget k _ = JNull"

fun jhas :: "string \<Rightarrow> json \<Rightarrow> bool" where
  "jhas k (JObj kvs) = (map_of kvs k \<noteq> None)"
| "jhas k _ = False"

fun truthy :: "json \<Rightarrow> bool" where
  "truthy JNull = False"
| "truthy (JBool b) = b"
| "truthy (JInt i) = (i \<noteq> 0)"
| "truthy (JFlt q) = (q \<noteq> 0)"
| "truthy (JStr s) = (s \<noteq> [])"
| "truthy (JArr xs) = (xs \<noteq> [])"
| "truthy (JObj kvs) = (kvs \<noteq> [])"

fun jstring :: "json \<Rightarrow> string option" where
  "jstring (JStr s) = Some s"
| "jstring _ = None"

fun jint :: "json \<Rightarrow> int option" where
  "jint (JInt i) = Some i"
| "jint _ = None"

fun jarr :: "json \<Rightarrow> json list" where
  "jarr (JArr xs) = xs"
| "jarr _ = []"

definition jopt :: "('a \<Rightarrow> json) \<Rightarrow> 'a option \<Rightarrow> json" where
  "jopt f x = (case x of None \<Rightarrow> JNull | Some v \<Rightarrow> f v)"

abbreviation jstrs :: "string list \<Rightarrow> json" where
  "jstrs xs \<equiv> JArr (map JStr xs)"

lemma jopt_simps [simp, py_simps]: "jopt f None = JNull" "jopt f (Some v) = f v"
  by (simp_all add: jopt_def)

subsection \<open>\<open>uuid.UUID\<close>\<close>

text \<open>
  \<open>uuid.UUID(s)\<close> drops \<open>urn:\<close> and \<open>uuid:\<close>, strips braces, drops the hyphens and wants 32 hex
  digits; \<open>str\<close> of the result is the lowercase form with hyphens at the usual places, which is how
  the model represents a UUID object.
\<close>

definition hex_chars :: string where
  "hex_chars = ''0123456789abcdef''"

function replace_all :: "string \<Rightarrow> string \<Rightarrow> string \<Rightarrow> string" where
  "replace_all p r s =
     (if p = [] \<or> s = [] then s
      else if prefix p s then r @ replace_all p r (drop (length p) s)
      else hd s # replace_all p r (tl s))"
  by pat_completeness auto
termination
  by (relation "measure (\<lambda>(p, r, s). length s)") (auto simp: length_greater_0_conv)

declare replace_all.simps [simp del]

definition strip_chars :: "string \<Rightarrow> string \<Rightarrow> string" where
  "strip_chars cs s =
     rev (dropWhile (\<lambda>c. c \<in> set cs) (rev (dropWhile (\<lambda>c. c \<in> set cs) s)))"

definition uuid_hex :: "string \<Rightarrow> string" where
  "uuid_hex s = filter (\<lambda>c. c \<noteq> CHR ''-'')
     (strip_chars ''{}'' (replace_all ''uuid:'' [] (replace_all ''urn:'' [] s)))"

definition hyphenate :: "string \<Rightarrow> uuid" where
  "hyphenate h = take 8 h @ ''-'' @ take 4 (drop 8 h) @ ''-'' @ take 4 (drop 12 h) @ ''-'' @
                 take 4 (drop 16 h) @ ''-'' @ drop 20 h"

definition uuid_parse :: "string \<Rightarrow> uuid option" where
  "uuid_parse s =
     (let h = lower (uuid_hex s) in
      if length h = 32 \<and> list_all (\<lambda>c. c \<in> set hex_chars) h then Some (hyphenate h) else None)"

text \<open>A string is a UUID in canonical form when parsing gives it back.\<close>

definition is_uuid :: "string \<Rightarrow> bool" where
  "is_uuid s = (uuid_parse s = Some s)"

subsection \<open>\<open>float(s)\<close> and \<open>repr(s)\<close>\<close>

text \<open>
  Decimal texts with optional sign, fraction and exponent.  The names of the infinities and of NaN,
  which have no rational value, are treated as malformed.
\<close>

definition is_digit :: "char \<Rightarrow> bool" where
  "is_digit c = (c \<in> set ''0123456789'')"

text \<open>\<open>int(s)\<close>\<close>

definition int_of_string :: "string \<Rightarrow> int option" where
  "int_of_string s =
     (let t = strip s; (neg, ds) = (case t of CHR ''-'' # r \<Rightarrow> (True, r)
                                      | CHR ''+'' # r \<Rightarrow> (False, r) | _ \<Rightarrow> (False, t))
      in if ds \<noteq> [] \<and> list_all is_digit ds
         then Some (if neg then - int (digits_val ds) else int (digits_val ds)) else None)"

definition decimal :: "string \<Rightarrow> rat option" where
  "decimal s =
     (let ip = takeWhile is_digit s in
      case dropWhile is_digit s of
        [] \<Rightarrow> if ip = [] then None else Some (of_nat (digits_val ip))
      | c # fp \<Rightarrow>
          if c = CHR ''.'' \<and> list_all is_digit fp \<and> (ip \<noteq> [] \<or> fp \<noteq> [])
          then Some (of_nat (digits_val ip) + of_nat (digits_val fp) / 10 ^ length fp)
          else None)"

definition scale10 :: "int \<Rightarrow> rat \<Rightarrow> rat" where
  "scale10 e q = (if 0 \<le> e then q * 10 ^ nat e else q / 10 ^ nat (- e))"

definition float_of_string :: "string \<Rightarrow> rat option" where
  "float_of_string s =
     (let t = lower (strip s);
          (neg, u) = (case t of CHR ''-'' # r \<Rightarrow> (True, r) | CHR ''+'' # r \<Rightarrow> (False, r)
                       | _ \<Rightarrow> (False, t));
          m = takeWhile (\<lambda>c. c \<noteq> CHR ''e'') u;
          ex = (case dropWhile (\<lambda>c. c \<noteq> CHR ''e'') u of [] \<Rightarrow> Some 0 | _ # r \<Rightarrow> int_of_string r)
      in case (decimal m, ex) of
           (Some q, Some e) \<Rightarrow> Some (if neg then - scale10 e q else scale10 e q)
         | _ \<Rightarrow> None)"

text \<open>\<open>float(v)\<close> of a decoded value that is not \<open>None\<close>; \<open>None\<close> when it raises.\<close>

definition json_float :: "json \<Rightarrow> rat option" where
  "json_float v = (case v of JInt i \<Rightarrow> Some (of_int i) | JFlt q \<Rightarrow> Some q
     | JBool b \<Rightarrow> Some (if b then 1 else 0) | JStr s \<Rightarrow> float_of_string s | _ \<Rightarrow> None)"

text \<open>
  \<open>str(v)\<close>.  The values this is applied to come from a validated event or from the database and are texts,
  integers, booleans or missing; the model writes a question mark for any other.
\<close>

definition py_str :: "json \<Rightarrow> string" where
  "py_str v = (case v of JStr s \<Rightarrow> s | JInt i \<Rightarrow> str_int i
     | JBool b \<Rightarrow> if b then ''True'' else ''False'' | JNull \<Rightarrow> ''None'' | _ \<Rightarrow> ''?'')"

text \<open>\<open>str(d.get(k) or dflt)\<close> and \<open>int(d.get(k) or 0)\<close>\<close>

definition str_of :: "string \<Rightarrow> string \<Rightarrow> json \<Rightarrow> string" where
  "str_of k dflt d = (let v = jget k d in if truthy v then py_str v else dflt)"

definition int_or_0 :: "string \<Rightarrow> json \<Rightarrow> int res" where
  "int_or_0 k d =
     (let v = jget k d in
      if \<not> truthy v then Inr 0
      else case v of
             JInt i \<Rightarrow> Inr i
           | JBool b \<Rightarrow> Inr 1
           | JFlt q \<Rightarrow> Inr (if 0 \<le> q then \<lfloor>q\<rfloor> else \<lceil>q\<rceil>)
           | JStr s \<Rightarrow> (case int_of_string s of None \<Rightarrow> Inl (ValueError s) | Some i \<Rightarrow> Inr i)
           | _ \<Rightarrow> Inl (TypeError ''int''))"

definition hex_digit :: "nat \<Rightarrow> char" where
  "hex_digit n = hex_chars ! n"

definition repr_char :: "char \<Rightarrow> char \<Rightarrow> string" where
  "repr_char q c =
     (let n = (of_char c :: nat) in
      if c = q \<or> n = 92 then [CHR 0x5C, c]
      else if n = 10 then CHR 0x5C # ''n''
      else if n = 13 then CHR 0x5C # ''r''
      else if n = 9 then CHR 0x5C # ''t''
      else if n < 32 \<or> 127 \<le> n \<and> n \<le> 160 \<or> n = 173
           then CHR 0x5C # CHR ''x'' # [hex_digit (n div 16), hex_digit (n mod 16)]
      else [c])"

definition repr :: "string \<Rightarrow> string" where
  "repr s =
     (let q = (if CHR 0x27 \<in> set s \<and> CHR 0x22 \<notin> set s then CHR 0x22 else CHR 0x27)
      in q # concat (map (repr_char q) s) @ [q])"

subsection \<open>\<open>datetime.isoformat\<close>\<close>

text \<open>Gregorian date of a day number (days since 1970-01-01), by the usual era arithmetic.\<close>

definition civil_of_days :: "int \<Rightarrow> int \<times> int \<times> int" where
  "civil_of_days days =
     (let z = days + 719468;
          era = z div 146097;
          doe = z mod 146097;
          yoe = (doe - doe div 1460 + doe div 36524 - doe div 146096) div 365;
          doy = doe - (365 * yoe + yoe div 4 - yoe div 100);
          mp = (5 * doy + 2) div 153;
          d = doy - (153 * mp + 2) div 5 + 1;
          m = (if mp < 10 then mp + 3 else mp - 9);
          y = yoe + era * 400
      in (if m \<le> 2 then y + 1 else y, m, d))"

definition pad :: "nat \<Rightarrow> int \<Rightarrow> string" where
  "pad w n = (let s = str_int n in replicate (w - length s) (CHR ''0'') @ s)"

definition isoformat :: "time \<Rightarrow> string" where
  "isoformat t =
     (let secs = t div 1000000; us = t mod 1000000; (y, m, d) = civil_of_days (secs div 86400);
          r = secs mod 86400
      in pad 4 y @ ''-'' @ pad 2 m @ ''-'' @ pad 2 d @ ''T'' @ pad 2 (r div 3600) @ '':'' @
         pad 2 ((r div 60) mod 60) @ '':'' @ pad 2 (r mod 60) @
         (if us = 0 then [] else ''.'' @ pad 6 us) @ ''+00:00'')"

end
