(* ===== verification/Redis_Api.thy ===== *)
theory Redis_Api
  imports Json
begin

text \<open>
  The Redis server is not part of the repository.  Every component that talks to it takes the client
  as an argument: a record of the operations the sources call, over a server state of an arbitrary
  type.  The locale states what the documentation of the commands promises about them, and the
  in-memory server at the end, which also follows a script of failures, satisfies it.
\<close>

text \<open>Values are texts; \<open>Num q\<close> stands for the decimal text of a number.\<close>

datatype rval = Text string | Num rat

text \<open>A reply as the client decodes it, where the sources use the text itself.\<close>

definition reply_str :: "rval \<Rightarrow> string" where
  "reply_str v = (case v of Text s \<Rightarrow> s | Num q \<Rightarrow> str_int \<lfloor>q\<rfloor>)"

datatype rcmd = CSet string rval | CDel string

record 's redis =
  r_get :: "string \<Rightarrow> 's \<Rightarrow> rval option res \<times> 's"
  r_set :: "string \<Rightarrow> rval \<Rightarrow> 's \<Rightarrow> unit res \<times> 's"
  r_set_nx :: "string \<Rightarrow> rval \<Rightarrow> int \<Rightarrow> 's \<Rightarrow> bool res \<times> 's"
  r_setex :: "string \<Rightarrow> int \<Rightarrow> rval \<Rightarrow> 's \<Rightarrow> unit res \<times> 's"
  r_delete :: "string \<Rightarrow> 's \<Rightarrow> int res \<times> 's"
  r_incr :: "string \<Rightarrow> 's \<Rightarrow> int res \<times> 's"
  r_expire :: "string \<Rightarrow> int \<Rightarrow> 's \<Rightarrow> unit res \<times> 's"
  r_exec :: "rcmd list \<Rightarrow> 's \<Rightarrow> unit res \<times> 's"

type_synonym kv = "string \<Rightarrow> rval option"

fun apply_cmd :: "rcmd \<Rightarrow> kv \<Rightarrow> kv" where
  "apply_cmd (CSet k v) m = m(k \<mapsto> v)"
| "apply_cmd (CDel k) m = m(k := None)"

text \<open>
  What a reply tells about the keys.  A reply that is an exception tells nothing about the state (the
  command may have been executed before the connection was lost), only that it is one of the client
  library's exceptions.  Keys expire between the handlers, not inside one.
\<close>

locale redis_server =
  fixes R :: "'s redis"
    and view :: "'s \<Rightarrow> kv"
  assumes get_ok: "r_get R k s = (Inr x, s') \<Longrightarrow> x = view s k \<and> view s' = view s"
    and set_ok: "r_set R k v s = (Inr u, s') \<Longrightarrow> view s' = (view s)(k \<mapsto> v)"
    and set_nx_ok: "r_set_nx R k v ttl s = (Inr b, s') \<Longrightarrow>
          b = (view s k = None) \<and> view s' = (if b then (view s)(k \<mapsto> v) else view s)"
    and setex_ok: "r_setex R k ttl v s = (Inr u, s') \<Longrightarrow> view s' = (view s)(k \<mapsto> v)"
    and delete_ok: "r_delete R k s = (Inr n, s') \<Longrightarrow> view s' = (view s)(k := None)"
    and incr_ok: "r_incr R k s = (Inr n, s') \<Longrightarrow>
          (view s k = None \<and> n = 1 \<or> view s k = Some (Num (of_int (n - 1)))) \<and>
          view s' = (view s)(k \<mapsto> Num (of_int n))"
    and expire_ok: "r_expire R k ttl s = (Inr u, s') \<Longrightarrow> view s' = view s"
    and exec_ok: "r_exec R cmds s = (Inr u, s') \<Longrightarrow> view s' = fold apply_cmd cmds (view s)"
    and get_err: "r_get R k s = (Inl e, s') \<Longrightarrow> is_redis_error e"
    and set_err: "r_set R k v s = (Inl e, s') \<Longrightarrow> is_redis_error e"
    and set_nx_err: "r_set_nx R k v ttl s = (Inl e, s') \<Longrightarrow> is_redis_error e"
    and setex_err: "r_setex R k ttl v s = (Inl e, s') \<Longrightarrow> is_redis_error e"
    and delete_err: "r_delete R k s = (Inl e, s') \<Longrightarrow> is_redis_error e"
    and incr_err: "r_incr R k s = (Inl e, s') \<Longrightarrow> is_redis_error e"
    and expire_err: "r_expire R k ttl s = (Inl e, s') \<Longrightarrow> is_redis_error e"
    and exec_err: "r_exec R cmds s = (Inl e, s') \<Longrightarrow> is_redis_error e"
begin

lemmas replies = get_ok set_ok set_nx_ok setex_ok delete_ok incr_ok expire_ok exec_ok
lemmas failures = get_err set_err set_nx_err setex_err delete_err incr_err expire_err exec_err

lemma get_cases [consumes 0, case_names reply failure]:
  obtains s' where "r_get R k s = (Inr (view s k), s')" "view s' = view s"
  | e s' where "r_get R k s = (Inl e, s')" "is_redis_error e"
proof (cases "r_get R k s")
  case (Pair r s')
  then show ?thesis
    by (cases r) (use get_ok get_err that in blast)+
qed

end

subsection \<open>The server in memory\<close>

record mem =
  m_store :: "string \<Rightarrow> (rval \<times> int option) option"
  m_now :: int
  m_fail :: "bool list"  \<comment> \<open>does the next operation, the one after it, and so on, fail\<close>

definition mem_view :: "mem \<Rightarrow> kv" where
  "mem_view s k = map_option fst (m_store s k)"

definition mem_op :: "(mem \<Rightarrow> 'a res \<times> mem) \<Rightarrow> mem \<Rightarrow> 'a res \<times> mem" where
  "mem_op f s =
     (case m_fail s of
        [] \<Rightarrow> f s
      | True # fs \<Rightarrow> (Inl RedisConnectionError, s\<lparr>m_fail := fs\<rparr>)
      | False # fs \<Rightarrow> f (s\<lparr>m_fail := fs\<rparr>))"

fun mem_cmd :: "rcmd \<Rightarrow> (string \<Rightarrow> (rval \<times> int option) option) \<Rightarrow>
    (string \<Rightarrow> (rval \<times> int option) option)" where
  "mem_cmd (CSet k v) m = m(k \<mapsto> (v, None))"
| "mem_cmd (CDel k) m = m(k := None)"

definition mem :: "mem redis" where
  "mem = \<lparr>
     r_get = (\<lambda>k. mem_op (\<lambda>s. (Inr (mem_view s k), s))),
     r_set = (\<lambda>k v. mem_op (\<lambda>s. (Inr (), s\<lparr>m_store := (m_store s)(k \<mapsto> (v, None))\<rparr>))),
     r_set_nx = (\<lambda>k v ttl. mem_op (\<lambda>s.
        if m_store s k = None
        then (Inr True, s\<lparr>m_store := (m_store s)(k \<mapsto> (v, Some (m_now s + ttl)))\<rparr>)
        else (Inr False, s))),
     r_setex = (\<lambda>k ttl v. mem_op (\<lambda>s.
        (Inr (), s\<lparr>m_store := (m_store s)(k \<mapsto> (v, Some (m_now s + ttl)))\<rparr>))),
     r_delete = (\<lambda>k. mem_op (\<lambda>s.
        (Inr (if m_store s k = None then 0 else 1), s\<lparr>m_store := (m_store s)(k := None)\<rparr>))),
     r_incr = (\<lambda>k. mem_op (\<lambda>s.
        case m_store s k of
          None \<Rightarrow> (Inr 1, s\<lparr>m_store := (m_store s)(k \<mapsto> (Num 1, None))\<rparr>)
        | Some (Text _, _) \<Rightarrow> (Inl (RedisError ''value is not an integer''), s)
        | Some (Num q, ex) \<Rightarrow>
            if of_int \<lfloor>q\<rfloor> = q
            then (Inr (\<lfloor>q\<rfloor> + 1), s\<lparr>m_store := (m_store s)(k \<mapsto> (Num (of_int (\<lfloor>q\<rfloor> + 1)), ex))\<rparr>)
            else (Inl (RedisError ''value is not an integer''), s))),
     r_expire = (\<lambda>k ttl. mem_op (\<lambda>s.
        (Inr (), s\<lparr>m_store := (m_store s)
           (k := map_option (\<lambda>(v, ex). (v, Some (m_now s + ttl))) (m_store s k))\<rparr>))),
     r_exec = (\<lambda>cmds. mem_op (\<lambda>s. (Inr (), s\<lparr>m_store := fold mem_cmd cmds (m_store s)\<rparr>)))
   \<rparr>"

text \<open>The clock moves and the keys whose time has come are gone.\<close>

definition mem_tick :: "int \<Rightarrow> mem \<Rightarrow> mem" where
  "mem_tick d s =
     s\<lparr>m_now := m_now s + d,
       m_store := (\<lambda>k. case m_store s k of
          Some (v, Some ex) \<Rightarrow> if ex \<le> m_now s + d then None else Some (v, Some ex)
        | x \<Rightarrow> x)\<rparr>"

lemma mem_op_cases:
  assumes "mem_op f s = (r, s')"
  obtains (run) fs where "f (s\<lparr>m_fail := fs\<rparr>) = (r, s')"
  | (failed) fs where "r = Inl RedisConnectionError"
proof (cases "m_fail s")
  case Nil
  then have eq: "s\<lparr>m_fail := []\<rparr> = s" by (cases s) simp
  from assms Nil show ?thesis by (intro run [of "[]"]) (simp add: mem_op_def eq)
next
  case (Cons b fs)
  with assms show ?thesis
    by (cases b) (auto simp: mem_op_def intro: run failed)
qed

lemma mem_view_fail [simp]: "mem_view (s\<lparr>m_fail := fs\<rparr>) = mem_view s"
  by (simp add: mem_view_def fun_eq_iff)

lemma mem_view_cmds: "mem_view (s\<lparr>m_store := fold mem_cmd cmds m\<rparr>) =
    fold apply_cmd cmds (mem_view (s\<lparr>m_store := m\<rparr>))"
proof (induction cmds arbitrary: m)
  case Nil
  show ?case by simp
next
  case (Cons c cmds)
  have "mem_view (s\<lparr>m_store := mem_cmd c m\<rparr>) = apply_cmd c (mem_view (s\<lparr>m_store := m\<rparr>))"
    by (cases c) (simp_all add: mem_view_def fun_eq_iff)
  then show ?case by (simp add: Cons.IH)
qed

interpretation mem: redis_server mem mem_view
proof
  fix cmds s u s'
  assume "r_exec mem cmds s = (Inr (u::unit), s')"
  then have "mem_op (\<lambda>s. (Inr (), s\<lparr>m_store := fold mem_cmd cmds (m_store s)\<rparr>)) s = (Inr u, s')"
    by (simp add: mem_def)
  then show "mem_view s' = fold apply_cmd cmds (mem_view s)"
    by (rule mem_op_cases) (auto simp: mem_view_cmds [where s = "s\<lparr>m_fail := _\<rparr>", simplified])
qed (auto simp: mem_def mem_view_def fun_eq_iff option.map_comp comp_def case_prod_beta elim!: mem_op_cases
          split: if_splits option.splits rval.splits prod.splits)

subsection \<open>Programs over the server\<close>

text \<open>Sequencing of commands: an exception ends the program; \<open>rcatch\<close> is an \<open>except RedisError\<close>.\<close>

type_synonym ('s, 'a) prog = "'s \<Rightarrow> 'a res \<times> 's"

definition rret :: "'a \<Rightarrow> ('s, 'a) prog" where
  "rret x s = (Inr x, s)"

definition rfail :: "exn \<Rightarrow> ('s, 'a) prog" where
  "rfail e s = (Inl e, s)"

definition rbind :: "('s, 'a) prog \<Rightarrow> ('a \<Rightarrow> ('s, 'b) prog) \<Rightarrow> ('s, 'b) prog" where
  "rbind m f s = (case m s of (Inl e, s') \<Rightarrow> (Inl e, s') | (Inr x, s') \<Rightarrow> f x s')"

definition rcatch :: "('s, 'a) prog \<Rightarrow> 'a \<Rightarrow> ('s, 'a) prog" where
  "rcatch m d s = (case m s of
     (Inl e, s') \<Rightarrow> if is_redis_error e then (Inr d, s') else (Inl e, s') | (Inr x, s') \<Rightarrow> (Inr x, s'))"

text \<open>A program whose exceptions are the client library's own returns once they are caught.\<close>

definition only_redis_errors :: "('s, 'a) prog \<Rightarrow> bool" where
  "only_redis_errors p \<longleftrightarrow> (\<forall>s e s'. p s = (Inl e, s') \<longrightarrow> is_redis_error e)"

lemma only_redis_ret: "only_redis_errors (rret x)"
  by (simp add: only_redis_errors_def rret_def)

lemma only_redis_bind:
  assumes "only_redis_errors p" "\<And>x. only_redis_errors (q x)"
  shows "only_redis_errors (rbind p q)"
  using assms by (auto simp: only_redis_errors_def rbind_def split: prod.splits sum.splits)

lemma only_redis_if:
  "(b \<Longrightarrow> only_redis_errors p) \<Longrightarrow> (\<not> b \<Longrightarrow> only_redis_errors q) \<Longrightarrow>
   only_redis_errors (if b then p else q)"
  by simp

lemma only_redis_catch: "only_redis_errors p \<Longrightarrow> \<exists>x s'. rcatch p d s = (Inr x, s')"
  by (cases "p s"; cases "fst (p s)") (auto simp: only_redis_errors_def rcatch_def)

lemma rcatch_raises: "rcatch p d s = (Inl e, s') \<Longrightarrow> p s = (Inl e, s') \<and> \<not> is_redis_error e"
  by (auto simp: rcatch_def split: prod.splits sum.splits if_splits)

context redis_server begin

lemma only_redis_commands:
  "only_redis_errors (r_get R k)" "only_redis_errors (r_set R k v)"
  "only_redis_errors (r_set_nx R k v ttl)" "only_redis_errors (r_setex R k ttl v)"
  "only_redis_errors (r_delete R k)" "only_redis_errors (r_incr R k)"
  "only_redis_errors (r_expire R k ttl)" "only_redis_errors (r_exec R cmds)"
  unfolding only_redis_errors_def by (blast intro: failures)+

lemmas only_redis_intros = only_redis_bind only_redis_if only_redis_ret only_redis_commands

end

text \<open>A server that answers every command (\<open>INCR\<close> only on a missing or integer value).\<close>

locale live_redis = redis_server R view for R :: "'s redis" and view :: "'s \<Rightarrow> kv" +
  assumes get_up: "\<exists>s'. r_get R k s = (Inr (view s k), s')"
    and set_up: "\<exists>s'. r_set R k v s = (Inr (), s')"
    and set_nx_up: "\<exists>s'. r_set_nx R k v ttl s = (Inr (view s k = None), s')"
    and setex_up: "\<exists>s'. r_setex R k ttl v s = (Inr (), s')"
    and delete_up: "\<exists>n s'. r_delete R k s = (Inr n, s')"
    and incr_new_up: "view s k = None \<Longrightarrow> \<exists>s'. r_incr R k s = (Inr 1, s')"
    and incr_int_up: "view s k = Some (Num (of_int n)) \<Longrightarrow> \<exists>s'. r_incr R k s = (Inr (n + 1), s')"
    and expire_up: "\<exists>s'. r_expire R k ttl s = (Inr (), s')"
    and exec_up: "\<exists>s'. r_exec R cmds s = (Inr (), s')"
begin

text \<open>
  Big steps over the keys: whatever state has the keys \<open>m\<close>, the program returns \<open>x\<close> and leaves the keys
  \<open>m'\<close>.  The rules are one per command and one per way of composing programs.
\<close>

definition yields :: "('s, 'a) prog \<Rightarrow> kv \<Rightarrow> 'a \<Rightarrow> kv \<Rightarrow> bool" where
  "yields p m x m' \<longleftrightarrow> (\<forall>s. view s = m \<longrightarrow> (\<exists>s'. p s = (Inr x, s') \<and> view s' = m'))"

lemma yieldsI:
  assumes "\<And>s. view s = m \<Longrightarrow> \<exists>s'. p s = (Inr x, s') \<and> view s' = m'" shows "yields p m x m'"
  using assms by (simp add: yields_def)

lemma yieldsE:
  assumes "yields p (view s) x m'"
  obtains s' where "p s = (Inr x, s')" "view s' = m'"
  using assms by (auto simp: yields_def)

lemma yields_get: "m k = x \<Longrightarrow> yields (r_get R k) m x m"
  using get_up get_ok by (intro yieldsI) (metis (no_types))

lemma yields_set: "m' = m(k \<mapsto> v) \<Longrightarrow> yields (r_set R k v) m () m'"
  using set_up set_ok by (intro yieldsI) (metis (no_types))

lemma yields_set_nx_free:
  assumes "m k = None" "m' = m(k \<mapsto> v)" shows "yields (r_set_nx R k v ttl) m True m'"
proof (intro yieldsI)
  fix s assume v: "view s = m"
  obtain s' where s': "r_set_nx R k v ttl s = (Inr (view s k = None), s')" using set_nx_up by blast
  from set_nx_ok [OF s'] s' v assms
  show "\<exists>s'. r_set_nx R k v ttl s = (Inr True, s') \<and> view s' = m'" by auto
qed

lemma yields_set_nx_held:
  assumes "m k = Some u" shows "yields (r_set_nx R k v ttl) m False m"
proof (intro yieldsI)
  fix s assume v: "view s = m"
  obtain s' where s': "r_set_nx R k v ttl s = (Inr (view s k = None), s')" using set_nx_up by blast
  from set_nx_ok [OF s'] s' v assms
  show "\<exists>s'. r_set_nx R k v ttl s = (Inr False, s') \<and> view s' = m" by auto
qed

lemma yields_exec: "m' = fold apply_cmd cmds m \<Longrightarrow> yields (r_exec R cmds) m () m'"
  using exec_up exec_ok by (intro yieldsI) (metis (no_types))

lemma yields_expire: "yields (r_expire R k ttl) m () m"
  using expire_up expire_ok by (intro yieldsI) (metis (no_types))

lemma yields_incr:
  assumes "m k = None \<and> n = 1 \<or> m k = Some (Num (of_int (n - 1)))" "m' = m(k \<mapsto> Num (of_int n))"
  shows "yields (r_incr R k) m n m'"
proof (intro yieldsI)
  fix s assume v: "view s = m"
  from assms(1) obtain s' where "r_incr R k s = (Inr n, s')"
  proof
    assume "m k = None \<and> n = 1"
    with v incr_new_up [of s k] that show ?thesis by auto
  next
    assume "m k = Some (Num (of_int (n - 1)))"
    with v incr_int_up [of s k "n - 1"] that show ?thesis by auto
  qed
  with incr_ok [OF this] v assms(2) show "\<exists>s'. r_incr R k s = (Inr n, s') \<and> view s' = m'" by simp
qed

lemma yields_delete_bind:
  assumes "\<And>n. yields (q n) (m(k := None)) y m'"
  shows "yields (rbind (r_delete R k) q) m y m'"
proof (intro yieldsI)
  fix s assume v: "view s = m"
  obtain n s1 where s1: "r_delete R k s = (Inr n, s1)" using delete_up by blast
  with delete_ok [OF s1] v have "view s1 = m(k := None)" by simp
  with assms [of n] s1 show "\<exists>s'. rbind (r_delete R k) q s = (Inr y, s') \<and> view s' = m'"
    by (auto simp: yields_def rbind_def)
qed

lemma yields_ret: "x = y \<Longrightarrow> yields (rret x) m y m"
  by (simp add: yields_def rret_def)

lemma yields_bind:
  assumes "yields p m x m1" "yields (q x) m1 y m2"
  shows "yields (rbind p q) m y m2"
proof (intro yieldsI)
  fix s assume "view s = m"
  with assms(1) obtain s1 where "p s = (Inr x, s1)" "view s1 = m1" by (auto simp: yields_def)
  with assms(2) show "\<exists>s'. rbind p q s = (Inr y, s') \<and> view s' = m2"
    by (auto simp: yields_def rbind_def)
qed

lemma yields_catch: "yields p m x m' \<Longrightarrow> yields (rcatch p d) m x m'"
  by (fastforce simp: yields_def rcatch_def)

lemmas yields_intros = yields_catch yields_ret yields_get yields_set yields_exec yields_expire

end

text \<open>The in-memory server, always up.\<close>

definition up :: "mem \<Rightarrow> mem" where
  "up s = s\<lparr>m_fail := []\<rparr>"

definition live :: "mem redis" where
  "live = \<lparr>r_get = (\<lambda>k s. r_get mem k (up s)), r_set = (\<lambda>k v s. r_set mem k v (up s)),
     r_set_nx = (\<lambda>k v ttl s. r_set_nx mem k v ttl (up s)),
     r_setex = (\<lambda>k ttl v s. r_setex mem k ttl v (up s)), r_delete = (\<lambda>k s. r_delete mem k (up s)),
     r_incr = (\<lambda>k s. r_incr mem k (up s)), r_expire = (\<lambda>k ttl s. r_expire mem k ttl (up s)),
     r_exec = (\<lambda>cmds s. r_exec mem cmds (up s))\<rparr>"

lemma mem_view_up [simp]: "mem_view (up s) = mem_view s"
  by (simp add: up_def)

lemma live_simps:
  "r_get live k s = r_get mem k (up s)" "r_set live k v s = r_set mem k v (up s)"
  "r_set_nx live k v ttl s = r_set_nx mem k v ttl (up s)"
  "r_setex live k ttl v s = r_setex mem k ttl v (up s)" "r_delete live k s = r_delete mem k (up s)"
  "r_incr live k s = r_incr mem k (up s)" "r_expire live k ttl s = r_expire mem k ttl (up s)"
  "r_exec live cmds s = r_exec mem cmds (up s)"
  by (simp_all add: live_def)

lemma mem_up_simps:
  "r_get mem k (up s) = (Inr (mem_view s k), up s)"
  "\<exists>s'. r_set mem k v (up s) = (Inr (), s')"
  "\<exists>s'. r_set_nx mem k v ttl (up s) = (Inr (mem_view s k = None), s')"
  "\<exists>s'. r_setex mem k ttl v (up s) = (Inr (), s')"
  "\<exists>n s'. r_delete mem k (up s) = (Inr n, s')"
  "\<exists>s'. r_expire mem k ttl (up s) = (Inr (), s')"
  "\<exists>s'. r_exec mem cmds (up s) = (Inr (), s')"
  by (simp_all add: mem_def mem_op_def up_def mem_view_def)

lemma mem_up_incr:
  "mem_view s k = None \<Longrightarrow> \<exists>s'. r_incr mem k (up s) = (Inr 1, s')"
  "mem_view s k = Some (Num (of_int n)) \<Longrightarrow> \<exists>s'. r_incr mem k (up s) = (Inr (n + 1), s')"
  by (auto simp: mem_def mem_op_def up_def mem_view_def)

interpretation live: live_redis live mem_view
  by unfold_locales
     (simp_all only: live_simps mem_up_simps mem_up_incr prod.inject sum.inject,
      (blast intro: mem_up_incr
        | drule mem.replies, simp
        | erule mem.failures
        | simp)+)

end
