(* ===== verification/Models.thy ===== *)
theory Models
  imports Redis_Api
begin

text \<open>
  The tables of DB-2, the PostgreSQL database the FastAPI service owns (\<open>app/models\<close>): one record
  per ORM class with its columns, nullable columns as options, a database as the lists of rows of
  its tables, and the schema's constraints as the check a commit runs over the rows it adds.
  \<open>uq_active\<close> says whether the partial unique index on \<open>incidents\<close> exists: \<open>create_all\<close> and the
  first Phase 4 migration create it, a later migration drops it.
\<close>

subsection \<open>Rows\<close>

record incident =
  i_id :: uuid
  i_tenant_id :: uuid
  i_fingerprint :: string
  i_occurrence_count :: int
  i_occurrences :: "string list"
  i_error_type :: string
  i_error_message :: "string option"
  i_service_name :: string
  i_environment :: string
  i_crash_file :: "string option"
  i_crash_line :: "int option"
  i_crash_method :: "string option"
  i_stack_frames :: "json list"
  i_root_cause :: "string option"
  i_suggested_fix :: "string option"
  i_confidence_score :: "rat option"
  i_severity :: string
  i_error_category :: string
  i_pr_url :: "string option"
  i_pr_number :: "int option"
  i_pr_status :: "string option"
  i_pr_title :: "string option"
  i_pr_error :: "string option"
  i_structured_patch :: "string option"
  i_status :: string
  i_is_draft :: bool
  i_assigned_user_ids :: "uuid list"
  i_source_log_id :: "uuid option"
  i_first_seen_at :: time
  i_last_seen_at :: time
  i_resolved_at :: "time option"
  i_created_at :: time
  i_updated_at :: time

record analysis =
  an_id :: uuid
  an_incident_id :: uuid
  an_tenant_id :: uuid
  an_agent_version :: string
  an_total_tokens_used :: "int option"
  an_prompt_tokens :: "int option"
  an_completion_tokens :: "int option"
  an_total_latency_ms :: "int option"
  an_node_results :: json
  an_raw_analysis_output :: "string option"
  an_raw_fix_output :: "string option"
  an_code_context_snapshot :: "string option"
  an_matched_playbook_id :: "uuid option"
  an_created_at :: time

record notification_delivery =
  nd_id :: uuid
  nd_tenant_id :: uuid
  nd_incident_id :: uuid
  nd_alert_rule_id :: "uuid option"
  nd_destination_type :: "string option"  \<comment> \<open>declared NOT NULL: checked at commit\<close>
  nd_destination_config :: json
  nd_http_status_code :: "int option"
  nd_attempt_count :: int
  nd_status :: string
  nd_error_message :: "string option"
  nd_dispatched_at :: "time option"
  nd_created_at :: time

record outbox_event =
  ob_event_id :: uuid
  ob_topic :: string
  ob_key :: string
  ob_payload :: json
  ob_created_at :: time
  ob_published :: bool

record tenant_snapshot =
  ts_tenant_id :: uuid
  ts_plan_tier :: "string option"
  ts_vector_namespace :: "string option"
  ts_kafka_group_id :: "string option"
  ts_is_suspended :: bool
  ts_source_version :: "int option"

record alert_rule_snapshot =
  ar_rule_id :: uuid
  ar_tenant_id :: uuid
  ar_confidence_threshold :: "string option"
  ar_severity_filter :: "string list option"
  ar_destinations :: "json option"
  ar_enabled :: bool
  ar_source_version :: "int option"

record playbook_snapshot =
  pb_playbook_id :: uuid
  pb_tenant_id :: uuid
  pb_error_pattern :: "string option"
  pb_instructions :: "string option"
  pb_source_version :: "int option"

record api_key_snapshot =
  ak_id :: uuid
  ak_tenant_id :: uuid
  ak_key :: string
  ak_is_active :: bool

record github_integration_snapshot =
  gi_id :: uuid
  gi_tenant_id :: uuid
  gi_repo_url :: string
  gi_repo_owner :: string
  gi_repo_name :: string
  gi_installation_id :: "int option"
  gi_default_branch :: string
  gi_indexing_status :: string
  gi_last_indexed_commit :: "string option"
  gi_source_version :: int

record service_repo_mapping_snapshot =
  sm_id :: uuid
  sm_tenant_id :: uuid
  sm_service_name :: string
  sm_repo_url :: string
  sm_synced_at :: time

record playbook_embedding =
  em_playbook_id :: uuid
  em_tenant_id :: uuid
  em_embedding :: "rat list"
  em_source_version :: int

record ingested_log_metadata =
  lm_incident_id :: uuid
  lm_tenant_id :: uuid
  lm_service_name :: string
  lm_environment :: string
  lm_s3_path :: string
  lm_created_at :: time

record code_index_row =
  ci_id :: uuid
  ci_tenant_id :: uuid
  ci_repo_url :: string
  ci_file_path :: string
  ci_symbol_name :: string
  ci_chunk_type :: "string option"
  ci_start_line :: int
  ci_end_line :: int
  ci_calls :: "string list option"
  ci_called_by :: "string list option"
  ci_imports :: "string list option"
  ci_s3_key :: string
  ci_last_commit :: string

record db2 =
  incidents :: "incident list"
  analyses :: "analysis list"
  notification_deliveries :: "notification_delivery list"
  outbox :: "outbox_event list"
  tenant_snapshots :: "tenant_snapshot list"
  alert_rule_snapshots :: "alert_rule_snapshot list"
  playbook_snapshots :: "playbook_snapshot list"
  playbook_embeddings :: "playbook_embedding list"
  api_key_snapshots :: "api_key_snapshot list"
  github_integration_snapshots :: "github_integration_snapshot list"
  service_repo_mapping_snapshots :: "service_repo_mapping_snapshot list"
  ingested_logs :: "ingested_log_metadata list"
  code_index :: "code_index_row list"
  uq_active :: bool

definition empty_db2 :: "bool \<Rightarrow> db2" where
  "empty_db2 uq = \<lparr>incidents = [], analyses = [], notification_deliveries = [], outbox = [],
     tenant_snapshots = [], alert_rule_snapshots = [], playbook_snapshots = [],
     playbook_embeddings = [], api_key_snapshots = [], github_integration_snapshots = [],
     service_repo_mapping_snapshots = [], ingested_logs = [], code_index = [], uq_active = uq\<rparr>"

subsection \<open>Constraints\<close>

text \<open>A row is active for the index \<open>uq_incidents_tenant_fingerprint_active\<close>.\<close>

definition active_for :: "uuid \<Rightarrow> string \<Rightarrow> incident \<Rightarrow> bool" where
  "active_for t fp i \<longleftrightarrow> i_tenant_id i = t \<and> i_fingerprint i = fp \<and> i_status i \<noteq> ''resolved''"

definition active_incidents :: "uuid \<Rightarrow> string \<Rightarrow> db2 \<Rightarrow> incident list" where
  "active_incidents t fp db = filter (active_for t fp) (incidents db)"

text \<open>What the index enforces: the unresolved rows have distinct (tenant, fingerprint) pairs.\<close>

definition index_key :: "incident \<Rightarrow> uuid \<times> string" where
  "index_key i = (i_tenant_id i, i_fingerprint i)"

definition index_ok :: "db2 \<Rightarrow> bool" where
  "index_ok db \<longleftrightarrow>
     distinct (map index_key (filter (\<lambda>i. i_status i \<noteq> ''resolved'') (incidents db)))"

definition tenant_known :: "uuid \<Rightarrow> db2 \<Rightarrow> bool" where
  "tenant_known t db \<longleftrightarrow> t \<in> ts_tenant_id ` set (tenant_snapshots db)"

text \<open>The bounded columns of \<open>incidents\<close>: \<open>VARCHAR(n)\<close> and 32-bit integers.\<close>

definition incident_widths_ok :: "incident \<Rightarrow> bool" where
  "incident_widths_ok i \<longleftrightarrow>
     length (i_fingerprint i) \<le> 64 \<and> length (i_error_type i) \<le> 255 \<and>
     length (i_service_name i) \<le> 255 \<and> length (i_environment i) \<le> 64 \<and>
     (case i_crash_method i of None \<Rightarrow> True | Some m \<Rightarrow> length m \<le> 255) \<and>
     (case i_crash_line i of None \<Rightarrow> True | Some n \<Rightarrow> - (2 ^ 31) \<le> n \<and> n < 2 ^ 31) \<and>
     length (i_severity i) \<le> 32 \<and> length (i_error_category i) \<le> 32 \<and> length (i_status i) \<le> 32"

text \<open>
  \<open>INSERT INTO incidents\<close>: the values are coerced before the constraints are looked at, then the
  primary key, the foreign key to \<open>tenant_snapshots\<close> and, where it exists, the partial unique index.
\<close>

definition insert_incident :: "incident \<Rightarrow> db2 \<Rightarrow> db2 res" where
  "insert_incident i db =
     (if \<not> incident_widths_ok i then Inl (DataError ''incidents'')
      else if i_id i \<in> i_id ` set (incidents db) then Inl (IntegrityError ''incidents_pkey'')
      else if \<not> tenant_known (i_tenant_id i) db then Inl (IntegrityError ''fk_incidents_tenant_id'')
      else if uq_active db \<and> i_status i \<noteq> ''resolved'' \<and>
              active_incidents (i_tenant_id i) (i_fingerprint i) db \<noteq> []
           then Inl (IntegrityError ''uq_incidents_tenant_fingerprint_active'')
      else Inr (db\<lparr>incidents := incidents db @ [i]\<rparr>))"

definition insert_analysis :: "analysis \<Rightarrow> db2 \<Rightarrow> db2 res" where
  "insert_analysis a db =
     (if an_id a \<in> an_id ` set (analyses db) then Inl (IntegrityError ''analyses_pkey'')
      else if an_incident_id a \<in> an_incident_id ` set (analyses db)
           then Inl (IntegrityError ''analyses_incident_id_key'')
      else if an_incident_id a \<notin> i_id ` set (incidents db)
           then Inl (IntegrityError ''fk_analyses_incident_id'')
      else Inr (db\<lparr>analyses := analyses db @ [a]\<rparr>))"

definition insert_delivery :: "notification_delivery \<Rightarrow> db2 \<Rightarrow> db2 res" where
  "insert_delivery d db =
     (case nd_destination_type d of
        None \<Rightarrow> Inl (IntegrityError ''notification_deliveries.destination_type'')
      | Some ty \<Rightarrow>
          if 32 < length ty then Inl (DataError ''notification_deliveries'')
          else if nd_id d \<in> nd_id ` set (notification_deliveries db)
               then Inl (IntegrityError ''notification_deliveries_pkey'')
          else if nd_incident_id d \<notin> i_id ` set (incidents db)
               then Inl (IntegrityError ''notification_deliveries_incident_id_fkey'')
          else Inr (db\<lparr>notification_deliveries := notification_deliveries db @ [d]\<rparr>))"

definition insert_outbox :: "outbox_event \<Rightarrow> db2 \<Rightarrow> db2 res" where
  "insert_outbox e db =
     (if ob_event_id e \<in> ob_event_id ` set (outbox db) then Inl (IntegrityError ''outbox_pkey'')
      else Inr (db\<lparr>outbox := outbox db @ [e]\<rparr>))"

text \<open>
  The rows a session has pending, and its flush: the inserts run in dependency order, and the first
  one to fail fails the transaction.
\<close>

fun insert_all :: "('r \<Rightarrow> db2 \<Rightarrow> db2 res) \<Rightarrow> 'r list \<Rightarrow> db2 \<Rightarrow> db2 res" where
  "insert_all ins [] db = Inr db"
| "insert_all ins (r # rs) db = (case ins r db of Inl e \<Rightarrow> Inl e | Inr db' \<Rightarrow> insert_all ins rs db')"

definition bind_res :: "'a res \<Rightarrow> ('a \<Rightarrow> 'b res) \<Rightarrow> 'b res" where
  "bind_res r f = (case r of Inl e \<Rightarrow> Inl e | Inr x \<Rightarrow> f x)"

lemma bind_res_simps [simp]: "bind_res (Inl e) f = Inl e" "bind_res (Inr x) f = f x"
  by (simp_all add: bind_res_def)

lemma bind_res_eq_Inr: "bind_res r f = Inr y \<longleftrightarrow> (\<exists>x. r = Inr x \<and> f x = Inr y)"
  by (cases r) auto

subsection \<open>\<open>write_outbox\<close>\<close>

text \<open>
  \<open>app/models/outbox.py\<close>: the row takes its primary key from the payload's \<open>event_id\<close>, parsed as a
  UUID, or a fresh one.  The row is only added to the session.
\<close>

definition write_outbox :: "uuid \<Rightarrow> time \<Rightarrow> string \<Rightarrow> string \<Rightarrow> json \<Rightarrow> outbox_event res" where
  "write_outbox fresh now topic key payload =
     bind_res
       (case jget ''event_id'' payload of
          JStr s \<Rightarrow> if s = [] then Inr fresh
                    else (case uuid_parse s of
                            None \<Rightarrow> Inl (ValueError ''badly formed hexadecimal UUID string'')
                          | Some u \<Rightarrow> Inr u)
        | v \<Rightarrow> if truthy v then Inl (DataError ''outbox.event_id'') else Inr fresh)
       (\<lambda>eid. Inr \<lparr>ob_event_id = eid, ob_topic = topic, ob_key = key, ob_payload = payload,
                  ob_created_at = now, ob_published = False\<rparr>)"

subsection \<open>Facts about the inserts\<close>

lemma insert_incident_InrD:
  "insert_incident i db = Inr db' \<Longrightarrow>
     db' = db\<lparr>incidents := incidents db @ [i]\<rparr> \<and> incident_widths_ok i \<and>
     i_id i \<notin> i_id ` set (incidents db) \<and> tenant_known (i_tenant_id i) db \<and>
     (uq_active db \<longrightarrow> i_status i \<noteq> ''resolved'' \<longrightarrow>
        active_incidents (i_tenant_id i) (i_fingerprint i) db = [])"
  by (auto simp: insert_incident_def split: if_splits)

lemma active_incidents_snoc:
  "active_incidents t fp (db\<lparr>incidents := incidents db @ [i]\<rparr>) =
     active_incidents t fp db @ (if active_for t fp i then [i] else [])"
  by (simp add: active_incidents_def)

lemma active_incidents_Nil_iff:
  "active_incidents t fp db = [] \<longleftrightarrow>
     (t, fp) \<notin> index_key ` set (filter (\<lambda>i. i_status i \<noteq> ''resolved'') (incidents db))"
  by (auto simp: active_incidents_def filter_empty_conv active_for_def index_key_def)

lemma index_ok_unique:
  assumes "index_ok db"
  shows "length (active_incidents t fp db) \<le> 1"
proof -
  have "length (filter (active_for t fp) is) \<le> 1"
    if "distinct (map index_key (filter (\<lambda>i. i_status i \<noteq> ''resolved'') is))" for "is"
    using that
  proof (induction "is")
    case Nil
    show ?case by simp
  next
    case (Cons a rest)
    show ?case
    proof (cases "active_for t fp a")
      case True
      with Cons.prems
      have new: "index_key a \<notin> index_key ` set (filter (\<lambda>i. i_status i \<noteq> ''resolved'') rest)"
        by (simp add: active_for_def)
      have "\<not> active_for t fp x" if "x \<in> set rest" for x
      proof
        assume "active_for t fp x"
        with True have "index_key a = index_key x" "i_status x \<noteq> ''resolved''"
          by (auto simp: active_for_def index_key_def)
        with that have "index_key a \<in> index_key ` set (filter (\<lambda>i. i_status i \<noteq> ''resolved'') rest)"
          by simp
        with new show False by contradiction
      qed
      then have "filter (active_for t fp) rest = []" by (simp add: filter_empty_conv)
      with True show ?thesis by simp
    next
      case False
      with Cons show ?thesis by (auto split: if_splits)
    qed
  qed
  with assms show ?thesis by (simp add: index_ok_def active_incidents_def)
qed

lemma insert_incident_index_ok:
  assumes "insert_incident i db = Inr db'" "uq_active db" "index_ok db"
  shows "index_ok db'"
  using insert_incident_InrD [OF assms(1)] assms(2,3)
  by (auto simp: index_ok_def active_incidents_Nil_iff index_key_def)

lemma insert_analysis_InrD:
  "insert_analysis a db = Inr db' \<Longrightarrow> db' = db\<lparr>analyses := analyses db @ [a]\<rparr>"
  by (auto simp: insert_analysis_def split: if_splits)

lemma insert_delivery_InrD:
  "insert_delivery d db = Inr db' \<Longrightarrow>
     db' = db\<lparr>notification_deliveries := notification_deliveries db @ [d]\<rparr>"
  by (auto simp: insert_delivery_def split: if_splits option.splits)

lemma insert_outbox_InrD:
  "insert_outbox e db = Inr db' \<Longrightarrow> db' = db\<lparr>outbox := outbox db @ [e]\<rparr>"
  by (auto simp: insert_outbox_def split: if_splits)

lemma insert_all_delivery_InrD:
  "insert_all insert_delivery ds db = Inr db' \<Longrightarrow>
     db' = db\<lparr>notification_deliveries := notification_deliveries db @ ds\<rparr>"
  by (induction ds arbitrary: db) (fastforce split: sum.splits dest: insert_delivery_InrD)+

lemma insert_all_outbox_InrD:
  "insert_all insert_outbox es db = Inr db' \<Longrightarrow> db' = db\<lparr>outbox := outbox db @ es\<rparr>"
  by (induction es arbitrary: db) (fastforce split: sum.splits dest: insert_outbox_InrD)+

lemmas insert_InrD = insert_analysis_InrD insert_all_delivery_InrD insert_all_outbox_InrD

lemma active_incidents_frame [frame_simps]:
  "active_incidents t fp (db\<lparr>analyses := a\<rparr>) = active_incidents t fp db"
  "active_incidents t fp (db\<lparr>notification_deliveries := d\<rparr>) = active_incidents t fp db"
  "active_incidents t fp (db\<lparr>outbox := ob\<rparr>) = active_incidents t fp db"
  by (simp_all add: active_incidents_def)

lemma index_ok_frame [frame_simps]:
  "index_ok (db\<lparr>analyses := a\<rparr>) = index_ok db"
  "index_ok (db\<lparr>notification_deliveries := d\<rparr>) = index_ok db"
  "index_ok (db\<lparr>outbox := ob\<rparr>) = index_ok db"
  by (simp_all add: index_ok_def)

end
