(* ===== verification/Parsed_Log_Event.thy ===== *)
theory Parsed_Log_Event
  imports Models
begin

text \<open>
  \<open>app/schemas/parse_log.py\<close>: the message \<open>parse_log\<close> sends to \<open>run_agent\<close>.  \<open>from_dict\<close> is the
  pydantic validation of the decoded JSON (defaults, bounds, coercion of line numbers, the severity
  mapping, the cap of twenty frames), \<open>to_dict\<close> the serialisation.
\<close>

record stack_frame =
  sf_file :: string
  sf_line :: int
  sf_method :: string
  sf_module :: string
  sf_code_context :: string

record parsed_log_event =
  pe_tenant_id :: string
  pe_incident_id :: string
  pe_s3_path :: string
  pe_service_name :: string
  pe_environment :: string
  pe_error_type :: string
  pe_error_message :: string
  pe_severity :: string
  pe_crash_file :: string
  pe_crash_line :: int
  pe_crash_method :: string
  pe_stack_frames :: "stack_frame list"
  pe_context_log_count :: int
  pe_sdk_meta :: json

subsection \<open>Validators\<close>

text \<open>\<open>int(v)\<close> on the values JSON can hold, 0 for what it refuses.\<close>

definition coerce_line_to_int :: "json \<Rightarrow> int" where
  "coerce_line_to_int v =
     (case v of JInt i \<Rightarrow> i | JBool b \<Rightarrow> (if b then 1 else 0)
      | JFlt q \<Rightarrow> (if 0 \<le> q then \<lfloor>q\<rfloor> else \<lceil>q\<rceil>)
      | JStr s \<Rightarrow> get_or (int_of_string s) 0 | _ \<Rightarrow> 0)"

definition severity_names :: "(string \<times> string) list" where
  "severity_names = [(''critical'', ''critical''), (''fatal'', ''critical''),
     (''error'', ''error''), (''err'', ''error''), (''warning'', ''warning''),
     (''warn'', ''warning''), (''info'', ''info''), (''information'', ''info''),
     (''debug'', ''debug''), (''trace'', ''debug'')]"

definition is_severity :: "string \<Rightarrow> bool" where
  "is_severity s \<longleftrightarrow>
     s \<in> set [''critical'', ''error'', ''warning'', ''info'', ''debug'', ''unknown'']"

definition normalise_severity :: "json \<Rightarrow> string" where
  "normalise_severity v =
     (case v of JStr s \<Rightarrow> get_or (map_of severity_names (lower s)) ''unknown'' | _ \<Rightarrow> ''unknown'')"

definition cap_stack_frames :: "json \<Rightarrow> json list" where
  "cap_stack_frames v = (case v of JArr xs \<Rightarrow> take 20 xs | _ \<Rightarrow> [])"

subsection \<open>Validation\<close>

text \<open>A field: missing takes the default, present must have the type (strict enough for JSON input).\<close>

definition str_field :: "string \<Rightarrow> string option \<Rightarrow> json \<Rightarrow> string res" where
  "str_field k dflt d =
     (if jhas k d then (case jget k d of JStr s \<Rightarrow> Inr s | _ \<Rightarrow> Inl (ValueError k))
      else (case dflt of Some s \<Rightarrow> Inr s | None \<Rightarrow> Inl (ValueError k)))"

definition len_between :: "string \<Rightarrow> nat \<Rightarrow> nat \<Rightarrow> string res \<Rightarrow> string res" where
  "len_between k lo hi r =
     bind_res r (\<lambda>s. if lo \<le> length s \<and> length s \<le> hi then Inr s else Inl (ValueError k))"

text \<open>Pydantic's integers in lax mode: integers, integral floats, booleans and decimal text.\<close>

definition int_field :: "string \<Rightarrow> json \<Rightarrow> int res" where
  "int_field k d =
     (let r = (if jhas k d then
                 (case jget k d of JInt i \<Rightarrow> Some i | JBool b \<Rightarrow> Some (if b then 1 else 0)
                  | JFlt q \<Rightarrow> (if of_int \<lfloor>q\<rfloor> = q then Some \<lfloor>q\<rfloor> else None)
                  | JStr s \<Rightarrow> int_of_string s | _ \<Rightarrow> None)
               else Some 0)
      in case r of Some i \<Rightarrow> if 0 \<le> i then Inr i else Inl (ValueError k) | None \<Rightarrow> Inl (ValueError k))"

definition frame_from :: "json \<Rightarrow> stack_frame res" where
  "frame_from d =
     (case d of
        JObj _ \<Rightarrow>
          bind_res (str_field ''file'' (Some []) d) (\<lambda>f.
          bind_res (if jhas ''line'' d then
                      (let n = coerce_line_to_int (jget ''line'' d)
                       in if 0 \<le> n then Inr n else Inl (ValueError ''line''))
                    else Inr 0) (\<lambda>n.
          bind_res (str_field ''method'' (Some []) d) (\<lambda>m.
          bind_res (str_field ''module'' (Some []) d) (\<lambda>md.
          bind_res (str_field ''code_context'' (Some []) d) (\<lambda>cc.
            Inr \<lparr>sf_file = f, sf_line = n, sf_method = m, sf_module = md, sf_code_context = cc\<rparr>)))))
      | _ \<Rightarrow> Inl (ValueError ''stack_frames''))"

fun map_res :: "('a \<Rightarrow> 'b res) \<Rightarrow> 'a list \<Rightarrow> 'b list res" where
  "map_res f [] = Inr []"
| "map_res f (x # xs) = bind_res (f x) (\<lambda>y. bind_res (map_res f xs) (\<lambda>ys. Inr (y # ys)))"

definition sdk_meta_field :: "json \<Rightarrow> json res" where
  "sdk_meta_field d =
     (case jget ''sdk_meta'' d of JNull \<Rightarrow> Inr JNull | JObj kvs \<Rightarrow> Inr (JObj kvs)
      | _ \<Rightarrow> Inl (ValueError ''sdk_meta''))"

definition from_dict :: "json \<Rightarrow> parsed_log_event res" where
  "from_dict d =
     (case d of JObj _ \<Rightarrow>
        bind_res (str_field ''tenant_id'' None d) (\<lambda>tenant.
        bind_res (str_field ''incident_id'' None d) (\<lambda>inc.
        bind_res (str_field ''s3_path'' None d) (\<lambda>s3.
        bind_res (len_between ''service_name'' 1 255 (str_field ''service_name'' None d)) (\<lambda>svc.
        bind_res (len_between ''environment'' 1 64 (str_field ''environment'' None d)) (\<lambda>env.
        bind_res (len_between ''error_type'' 0 255 (str_field ''error_type'' (Some ''UnknownError'') d)) (\<lambda>ty.
        bind_res (str_field ''error_message'' (Some []) d) (\<lambda>msg.
        bind_res (Inr (if jhas ''severity'' d then normalise_severity (jget ''severity'' d)
                       else ''unknown'')) (\<lambda>sev.
        bind_res (str_field ''crash_file'' (Some []) d) (\<lambda>cf.
        bind_res (int_field ''crash_line'' d) (\<lambda>cl.
        bind_res (str_field ''crash_method'' (Some []) d) (\<lambda>cm.
        bind_res (map_res frame_from (cap_stack_frames (jget ''stack_frames'' d))) (\<lambda>frames.
        bind_res (int_field ''context_log_count'' d) (\<lambda>n.
        bind_res (sdk_meta_field d) (\<lambda>meta.
          Inr \<lparr>pe_tenant_id = tenant, pe_incident_id = inc, pe_s3_path = s3, pe_service_name = svc,
               pe_environment = env, pe_error_type = ty, pe_error_message = msg, pe_severity = sev,
               pe_crash_file = cf, pe_crash_line = cl, pe_crash_method = cm,
               pe_stack_frames = frames, pe_context_log_count = n, pe_sdk_meta = meta\<rparr>))))))))))))))
      | _ \<Rightarrow> Inl (ValueError ''dict''))"

definition frame_dump :: "stack_frame \<Rightarrow> json" where
  "frame_dump f = JObj [(''file'', JStr (sf_file f)), (''line'', JInt (sf_line f)),
     (''method'', JStr (sf_method f)), (''module'', JStr (sf_module f)),
     (''code_context'', JStr (sf_code_context f))]"

definition to_dict :: "parsed_log_event \<Rightarrow> json" where
  "to_dict e = JObj [
     (''tenant_id'', JStr (pe_tenant_id e)),
     (''incident_id'', JStr (pe_incident_id e)),
     (''s3_path'', JStr (pe_s3_path e)),
     (''service_name'', JStr (pe_service_name e)),
     (''environment'', JStr (pe_environment e)),
     (''error_type'', JStr (pe_error_type e)),
     (''error_message'', JStr (pe_error_message e)),
     (''severity'', JStr (pe_severity e)),
     (''crash_file'', JStr (pe_crash_file e)),
     (''crash_line'', JInt (pe_crash_line e)),
     (''crash_method'', JStr (pe_crash_method e)),
     (''stack_frames'', JArr (map frame_dump (pe_stack_frames e))),
     (''context_log_count'', JInt (pe_context_log_count e)),
     (''sdk_meta'', pe_sdk_meta e)]"

text \<open>The events the validation can produce.\<close>

definition event_valid :: "parsed_log_event \<Rightarrow> bool" where
  "event_valid e \<longleftrightarrow>
     1 \<le> length (pe_service_name e) \<and> length (pe_service_name e) \<le> 255 \<and>
     1 \<le> length (pe_environment e) \<and> length (pe_environment e) \<le> 64 \<and>
     length (pe_error_type e) \<le> 255 \<and>
     is_severity (pe_severity e) \<and>
     0 \<le> pe_crash_line e \<and> 0 \<le> pe_context_log_count e \<and>
     length (pe_stack_frames e) \<le> 20 \<and> list_all (\<lambda>f. 0 \<le> sf_line f) (pe_stack_frames e) \<and>
     (case pe_sdk_meta e of JNull \<Rightarrow> True | JObj _ \<Rightarrow> True | _ \<Rightarrow> False)"

subsection \<open>Facts\<close>

lemma is_severity_unknown [simp]: "is_severity ''unknown''"
  by (simp add: is_severity_def)

lemma is_severity_normalise: "is_severity (normalise_severity v)"
proof -
  have "is_severity (get_or (map_of severity_names k) ''unknown'')" for k
  proof (cases "map_of severity_names k")
    case None
    then show ?thesis by simp
  next
    case (Some s)
    then have "s \<in> snd ` set severity_names" by (force dest: map_of_SomeD)
    then have "is_severity s" by (auto simp: severity_names_def is_severity_def)
    with Some show ?thesis by simp
  qed
  then show ?thesis by (simp add: normalise_severity_def split: json.splits)
qed

lemma frame_from_dump: "0 \<le> sf_line f \<Longrightarrow> frame_from (frame_dump f) = Inr f"
  by (simp add: frame_from_def frame_dump_def str_field_def coerce_line_to_int_def)

lemma map_res_frames:
  "list_all (\<lambda>f. 0 \<le> sf_line f) fs \<Longrightarrow> map_res frame_from (map frame_dump fs) = Inr fs"
  by (induction fs) (simp_all add: frame_from_dump)

lemma frame_from_line: "frame_from d = Inr f \<Longrightarrow> 0 \<le> sf_line f"
  by (auto simp: frame_from_def bind_res_eq_Inr Let_def split: json.splits if_splits)

lemma map_res_frames_line:
  "map_res frame_from ds = Inr fs \<Longrightarrow> list_all (\<lambda>f. 0 \<le> sf_line f) fs \<and> length fs = length ds"
  by (induction ds arbitrary: fs) (auto simp: bind_res_eq_Inr dest: frame_from_line)

lemma int_field_nonneg: "int_field k d = Inr i \<Longrightarrow> 0 \<le> i"
  by (auto simp: int_field_def Let_def split: option.splits if_splits)

lemma len_between_Inr: "len_between k lo hi r = Inr s \<Longrightarrow> lo \<le> length s \<and> length s \<le> hi"
  by (auto simp: len_between_def bind_res_eq_Inr split: if_splits)

lemma sdk_meta_field_Inr:
  "sdk_meta_field d = Inr m \<Longrightarrow> (case m of JNull \<Rightarrow> True | JObj _ \<Rightarrow> True | _ \<Rightarrow> False)"
  by (auto simp: sdk_meta_field_def split: json.splits)

lemma length_cap: "length (cap_stack_frames v) \<le> 20"
  by (auto simp: cap_stack_frames_def split: json.splits)

lemma from_dict_valid:
  assumes "from_dict d = Inr e" shows "event_valid e"
proof -
  obtain kvs where "d = JObj kvs" using assms by (auto simp: from_dict_def split: json.splits)
  with assms show ?thesis
    using is_severity_normalise [of "jget ''severity'' d"] length_cap [of "jget ''stack_frames'' d"]
    unfolding from_dict_def
    apply (simp only: bind_res_eq_Inr json.case)
    apply (elim exE conjE)
    apply (drule len_between_Inr int_field_nonneg map_res_frames_line sdk_meta_field_Inr)+
    apply (auto simp: event_valid_def)
    done
qed

lemma normalise_severity_idem:
  assumes "is_severity s"
  shows "normalise_severity (JStr s) = s"
  using assms by (auto simp: is_severity_def normalise_severity_def severity_names_def lower_def lower_char_def)

text \<open>C6: A valid event survives the trip through Celery: validating the dictionary
  \<open>to_dict\<close> builds gives back the same event.\<close>

lemma from_dict_to_dict:
  assumes "event_valid e"
  shows "from_dict (to_dict e) = Inr e"
proof -
  have meta: "sdk_meta_field (to_dict e) = Inr (pe_sdk_meta e)"
    using assms by (auto simp: event_valid_def sdk_meta_field_def to_dict_def split: json.splits)
  have sev: "normalise_severity (JStr (pe_severity e)) = pe_severity e"
    using assms by (intro normalise_severity_idem) (simp add: event_valid_def)
  have frames: "map_res frame_from (cap_stack_frames (JArr (map frame_dump (pe_stack_frames e)))) =
      Inr (pe_stack_frames e)"
    using assms by (simp add: event_valid_def cap_stack_frames_def take_map map_res_frames)
  show ?thesis
    using assms meta sev frames
    by (simp add: from_dict_def to_dict_def str_field_def len_between_def int_field_def
                  event_valid_def)
qed

lemma from_dict_to_dict_witness:
  "\<exists>e. pe_service_name e = ''pay'' \<and> length (pe_stack_frames e) = 1 \<and> from_dict (to_dict e) = Inr e"
proof -
  let ?e = "\<lparr>pe_tenant_id = ''t'', pe_incident_id = ''i'', pe_s3_path = ''p'', pe_service_name = ''pay'',
     pe_environment = ''prod'', pe_error_type = ''E'', pe_error_message = [], pe_severity = ''error'',
     pe_crash_file = ''a.py'', pe_crash_line = 3, pe_crash_method = ''f'',
     pe_stack_frames = [\<lparr>sf_file = ''a.py'', sf_line = 3, sf_method = ''f'', sf_module = [],
                         sf_code_context = []\<rparr>],
     pe_context_log_count = 1, pe_sdk_meta = JNull\<rparr>"
  have "event_valid ?e" by (simp add: event_valid_def is_severity_def)
  from from_dict_to_dict [OF this] show ?thesis by (intro exI [of _ ?e]) simp
qed

end
