(* ===== verification/Fingerprint.thy ===== *)
theory Fingerprint
  imports Parsed_Log_Event
begin

text \<open>
  \<open>compute_fingerprint\<close> of \<open>app/services/incidents.py\<close>: the identity under which errors are
  deduplicated.  SHA-256 is a parameter; what the function feeds it, \<open>fingerprint_raw\<close>, is modelled
  in full, and the lemmas say when two crashes share it.
\<close>

definition line_bucket :: int where
  "line_bucket = 5"

definition normalised_line :: "int \<Rightarrow> int" where
  "normalised_line n = (n div line_bucket) * line_bucket"

definition normalised_file :: "string \<Rightarrow> string" where
  "normalised_file f =
     (let g = replace_char (CHR 0x5C) (CHR ''/'') f in
      if CHR ''/'' \<in> set g then join ''/'' (last_n 3 (split_on (CHR ''/'') g)) else g)"

definition fingerprint_raw ::
  "string \<Rightarrow> string \<Rightarrow> string \<Rightarrow> string \<Rightarrow> int \<Rightarrow> string \<Rightarrow> string" where
  "fingerprint_raw tenant service ty crash_file crash_line crash_method =
     tenant @ '':'' @ service @ '':'' @ ty @ '':'' @ normalised_file crash_file @ '':'' @
     str_int (normalised_line crash_line) @ '':'' @ crash_method"

definition compute_fingerprint ::
  "(string \<Rightarrow> string) \<Rightarrow> string \<Rightarrow> string \<Rightarrow> string \<Rightarrow> string \<Rightarrow> int \<Rightarrow> string \<Rightarrow> string" where
  "compute_fingerprint sha256 tenant service ty crash_file crash_line crash_method =
     sha256 (fingerprint_raw tenant service ty crash_file crash_line crash_method)"

definition event_fingerprint :: "(string \<Rightarrow> string) \<Rightarrow> parsed_log_event \<Rightarrow> string" where
  "event_fingerprint sha256 e =
     compute_fingerprint sha256 (pe_tenant_id e) (pe_service_name e) (pe_error_type e)
       (pe_crash_file e) (pe_crash_line e) (pe_crash_method e)"

subsection \<open>The line buckets\<close>

lemma normalised_line_bounds: "normalised_line n \<le> n" "n < normalised_line n + 5"
  by (auto simp: normalised_line_def line_bucket_def)

lemma normalised_line_idem [simp]: "normalised_line (normalised_line n) = normalised_line n"
  by (simp add: normalised_line_def line_bucket_def)

lemma normalised_line_eq_iff: "normalised_line m = normalised_line n \<longleftrightarrow> m div 5 = n div 5"
  by (simp add: normalised_line_def line_bucket_def)

subsection \<open>The path suffix\<close>

lemma split_on_append_sep:
  "split_on c (a @ c # b) = split_on c a @ split_on c b"
  by (induction a) (auto split: list.splits)

lemma join_snoc_sep: "ws \<noteq> [] \<Longrightarrow> vs \<noteq> [] \<Longrightarrow> join s (ws @ vs) = join s ws @ s @ join s vs"
proof (induction ws)
  case Nil
  then show ?case by simp
next
  case (Cons w ws)
  then show ?case by (cases ws; cases vs) auto
qed

text \<open>
  Three path components decide: whatever directory they are below, on whatever platform the path
  was written.
\<close>

lemma normalised_file_suffix:
  assumes sep: "CHR ''/'' \<notin> set a" "CHR ''/'' \<notin> set b" "CHR ''/'' \<notin> set c"
    and bs: "CHR 0x5C \<notin> set a" "CHR 0x5C \<notin> set b" "CHR 0x5C \<notin> set c"
  shows "normalised_file (dir @ ''/'' @ a @ ''/'' @ b @ ''/'' @ c) =
         a @ ''/'' @ b @ ''/'' @ c"
proof -
  have id: "replace_char (CHR 0x5C) (CHR ''/'') w = w" if "CHR 0x5C \<notin> set w" for w
    using that by (auto simp: replace_char_def intro: map_idI)
  define d where "d = replace_char (CHR 0x5C) (CHR ''/'') dir"
  have "replace_char (CHR 0x5C) (CHR ''/'') (dir @ ''/'' @ a @ ''/'' @ b @ ''/'' @ c) =
        d @ ''/'' @ a @ ''/'' @ b @ ''/'' @ c"
    using id [OF bs(1)] id [OF bs(2)] id [OF bs(3)] by (simp add: d_def replace_char_def)
  moreover have "split_on (CHR ''/'') (d @ ''/'' @ a @ ''/'' @ b @ ''/'' @ c) =
        split_on (CHR ''/'') d @ [a, b, c]"
    using sep by (simp add: split_on_append_sep split_on_no_sep)
  ultimately show ?thesis
    by (simp add: normalised_file_def last_n_def Let_def)
qed

subsection \<open>What the raw string identifies\<close>

lemma sep_inject:
  assumes "c \<notin> set a" "c \<notin> set a'" "a @ c # r = a' @ c # r'"
  shows "a = a' \<and> r = r'"
  using assms
proof (induction a arbitrary: a')
  case Nil
  then show ?case by (cases a') auto
next
  case (Cons x a)
  then show ?case by (cases a') auto
qed

lemma fingerprint_raw_inject:
  assumes eq: "fingerprint_raw t s y f l m = fingerprint_raw t' s' y' f' l' m'"
    and "CHR '':'' \<notin> set t" "CHR '':'' \<notin> set t'" "CHR '':'' \<notin> set s" "CHR '':'' \<notin> set s'"
    and "CHR '':'' \<notin> set y" "CHR '':'' \<notin> set y'"
    and "CHR '':'' \<notin> set (normalised_file f)" "CHR '':'' \<notin> set (normalised_file f')"
  shows "t = t' \<and> s = s' \<and> y = y' \<and> normalised_file f = normalised_file f' \<and>
         normalised_line l = normalised_line l' \<and> m = m'"
proof -
  note inj = sep_inject [where c = "CHR '':''"]
  from eq have 1: "t @ CHR '':'' # (s @ '':'' @ y @ '':'' @ normalised_file f @ '':'' @
        str_int (normalised_line l) @ '':'' @ m) =
      t' @ CHR '':'' # (s' @ '':'' @ y' @ '':'' @ normalised_file f' @ '':'' @
        str_int (normalised_line l') @ '':'' @ m')"
    by (simp add: fingerprint_raw_def)
  from inj [OF assms(2,3) 1] have t: "t = t'" and 2: "s @ CHR '':'' # (y @ '':'' @
        normalised_file f @ '':'' @ str_int (normalised_line l) @ '':'' @ m) =
      s' @ CHR '':'' # (y' @ '':'' @ normalised_file f' @ '':'' @
        str_int (normalised_line l') @ '':'' @ m')"
    by simp_all
  from inj [OF assms(4,5) 2] have s: "s = s'" and 3: "y @ CHR '':'' # (normalised_file f @ '':'' @
        str_int (normalised_line l) @ '':'' @ m) =
      y' @ CHR '':'' # (normalised_file f' @ '':'' @ str_int (normalised_line l') @ '':'' @ m')"
    by simp_all
  from inj [OF assms(6,7) 3] have y: "y = y'" and 4: "normalised_file f @ CHR '':'' #
        (str_int (normalised_line l) @ '':'' @ m) =
      normalised_file f' @ CHR '':'' # (str_int (normalised_line l') @ '':'' @ m')"
    by simp_all
  from inj [OF assms(8,9) 4] have f: "normalised_file f = normalised_file f'" and
    5: "str_int (normalised_line l) @ CHR '':'' # m = str_int (normalised_line l') @ CHR '':'' # m'"
    by simp_all
  from inj [OF str_int_no_colon str_int_no_colon 5] show ?thesis
    using t s y f by (auto dest: str_int_inj)
qed

text \<open>C5: As long as the hash does not collide on the two inputs and no component but the
  method contains the separator \<open>:\<close>, two crashes have the same fingerprint exactly when they agree on the
  tenant, the service, the error type, the last three components of the path, the bucket of five lines and the
  method.\<close>

theorem fingerprint_identity:
  assumes "sha256 (fingerprint_raw t s y f l m) = sha256 (fingerprint_raw t' s' y' f' l' m') \<Longrightarrow>
           fingerprint_raw t s y f l m = fingerprint_raw t' s' y' f' l' m'"
    and "\<forall>w \<in> {t, t', s, s', y, y', normalised_file f, normalised_file f'}. CHR '':'' \<notin> set w"
  shows "compute_fingerprint sha256 t s y f l m = compute_fingerprint sha256 t' s' y' f' l' m' \<longleftrightarrow>
         t = t' \<and> s = s' \<and> y = y' \<and> normalised_file f = normalised_file f' \<and>
         l div 5 = l' div 5 \<and> m = m'"
proof
  assume "compute_fingerprint sha256 t s y f l m = compute_fingerprint sha256 t' s' y' f' l' m'"
  then have "fingerprint_raw t s y f l m = fingerprint_raw t' s' y' f' l' m'"
    using assms(1) by (auto simp: compute_fingerprint_def)
  from fingerprint_raw_inject [OF this] assms(2)
  show "t = t' \<and> s = s' \<and> y = y' \<and> normalised_file f = normalised_file f' \<and>
        l div 5 = l' div 5 \<and> m = m'"
    by (simp add: normalised_line_eq_iff)
qed (simp add: compute_fingerprint_def fingerprint_raw_def normalised_line_def line_bucket_def)

lemma fingerprint_identity_witness:
  "compute_fingerprint (\<lambda>x. x) ''t1'' ''pay'' ''ValueError'' ''/srv/app/a/b/c.py'' 142 ''charge'' =
   compute_fingerprint (\<lambda>x. x) ''t1'' ''pay'' ''ValueError'' ''D/a/b/c.py'' 140 ''charge''"
  by (subst fingerprint_identity) (auto simp: normalised_file_def replace_char_def last_n_def Let_def)

text \<open>The separator can occur in a component, and then different crashes collide.\<close>

lemma fingerprint_raw_collision:
  "fingerprint_raw t ''a'' ''b:c'' f l m = fingerprint_raw t ''a:b'' ''c'' f l m"
  by (simp add: fingerprint_raw_def)

end
