(* ===== verification/Agent_State.thy ===== *)
theory Agent_State
  imports Parsed_Log_Event
begin

text \<open>
  \<open>AgentState\<close> of \<open>app/agents/workflow.py\<close>: the dictionary the nodes of the pipeline share.  It is a
  \<open>TypedDict\<close> with \<open>total=False\<close>, so every key is an option, \<open>None\<close> for a missing key (or one whose
  value is \<open>None\<close>: all readers use \<open>.get\<close>).  The database session and the Redis client it also
  carries are explicit arguments of the nodes.
\<close>

record agent_state =
  st_tenant_id :: "string option"
  st_parsed_event :: "json option"
  st_fingerprint :: "string option"
  st_severity :: "string option"
  st_actionable :: "bool option"
  st_classifier_latency_ms :: "int option"
  st_error_category :: "string option"
  st_code_context :: "string option"
  st_code_retriever_meta :: "json option"
  st_matched_playbook_id :: "string option"
  st_playbook_instructions :: "string option"
  st_playbook_latency_ms :: "int option"
  st_root_cause :: "string option"
  st_root_cause_confidence :: "rat option"
  st_raw_analysis_output :: "string option"
  st_analyzer_latency_ms :: "int option"
  st_analyzer_fallback_used :: "bool option"
  st_analyzer_tokens :: "(string \<times> int) list option"
  st_suggested_fix :: "string option"
  st_raw_fix_output :: "string option"
  st_fix_generator_latency_ms :: "int option"
  st_fix_fallback_used :: "bool option"
  st_fix_tokens :: "(string \<times> int) list option"
  st_code_patch :: "string option"
  st_fix_confidence :: "rat option"
  st_fix_complexity :: "string option"
  st_fix_target_file :: "string option"
  st_confidence_score :: "rat option"
  st_retrieval_score :: "rat option"
  st_coherence_score :: "rat option"
  st_scorer_latency_ms :: "int option"
  st_action :: "string option"
  st_confidence_threshold :: "rat option"
  st_structured_patch :: "string option"
  st_patch_confidence :: "rat option"
  st_patch_skip_reason :: "string option"
  st_patch_generator_latency_ms :: "int option"
  st_total_latency_ms :: "int option"

definition empty_state :: agent_state where
  "empty_state = \<lparr>
     st_tenant_id = None, st_parsed_event = None, st_fingerprint = None, st_severity = None,
     st_actionable = None, st_classifier_latency_ms = None, st_error_category = None,
     st_code_context = None, st_code_retriever_meta = None, st_matched_playbook_id = None,
     st_playbook_instructions = None, st_playbook_latency_ms = None, st_root_cause = None,
     st_root_cause_confidence = None, st_raw_analysis_output = None, st_analyzer_latency_ms = None,
     st_analyzer_fallback_used = None, st_analyzer_tokens = None, st_suggested_fix = None,
     st_raw_fix_output = None, st_fix_generator_latency_ms = None, st_fix_fallback_used = None,
     st_fix_tokens = None, st_code_patch = None, st_fix_confidence = None, st_fix_complexity = None,
     st_fix_target_file = None, st_confidence_score = None, st_retrieval_score = None,
     st_coherence_score = None, st_scorer_latency_ms = None, st_action = None,
     st_confidence_threshold = None, st_structured_patch = None, st_patch_confidence = None,
     st_patch_skip_reason = None, st_patch_generator_latency_ms = None, st_total_latency_ms = None\<rparr>"

text \<open>How the graph engine merges the partial dictionary a node returns into the state.\<close>

definition upd :: "'a option \<Rightarrow> 'a option \<Rightarrow> 'a option" where
  "upd old new = (case new of None \<Rightarrow> old | Some v \<Rightarrow> Some v)"

definition merge :: "agent_state \<Rightarrow> agent_state \<Rightarrow> agent_state" where
  "merge a b = \<lparr>
     st_tenant_id = upd (st_tenant_id a) (st_tenant_id b),
     st_parsed_event = upd (st_parsed_event a) (st_parsed_event b),
     st_fingerprint = upd (st_fingerprint a) (st_fingerprint b),
     st_severity = upd (st_severity a) (st_severity b),
     st_actionable = upd (st_actionable a) (st_actionable b),
     st_classifier_latency_ms = upd (st_classifier_latency_ms a) (st_classifier_latency_ms b),
     st_error_category = upd (st_error_category a) (st_error_category b),
     st_code_context = upd (st_code_context a) (st_code_context b),
     st_code_retriever_meta = upd (st_code_retriever_meta a) (st_code_retriever_meta b),
     st_matched_playbook_id = upd (st_matched_playbook_id a) (st_matched_playbook_id b),
     st_playbook_instructions = upd (st_playbook_instructions a) (st_playbook_instructions b),
     st_playbook_latency_ms = upd (st_playbook_latency_ms a) (st_playbook_latency_ms b),
     st_root_cause = upd (st_root_cause a) (st_root_cause b),
     st_root_cause_confidence = upd (st_root_cause_confidence a) (st_root_cause_confidence b),
     st_raw_analysis_output = upd (st_raw_analysis_output a) (st_raw_analysis_output b),
     st_analyzer_latency_ms = upd (st_analyzer_latency_ms a) (st_analyzer_latency_ms b),
     st_analyzer_fallback_used = upd (st_analyzer_fallback_used a) (st_analyzer_fallback_used b),
     st_analyzer_tokens = upd (st_analyzer_tokens a) (st_analyzer_tokens b),
     st_suggested_fix = upd (st_suggested_fix a) (st_suggested_fix b),
     st_raw_fix_output = upd (st_raw_fix_output a) (st_raw_fix_output b),
     st_fix_generator_latency_ms = upd (st_fix_generator_latency_ms a) (st_fix_generator_latency_ms b),
     st_fix_fallback_used = upd (st_fix_fallback_used a) (st_fix_fallback_used b),
     st_fix_tokens = upd (st_fix_tokens a) (st_fix_tokens b),
     st_code_patch = upd (st_code_patch a) (st_code_patch b),
     st_fix_confidence = upd (st_fix_confidence a) (st_fix_confidence b),
     st_fix_complexity = upd (st_fix_complexity a) (st_fix_complexity b),
     st_fix_target_file = upd (st_fix_target_file a) (st_fix_target_file b),
     st_confidence_score = upd (st_confidence_score a) (st_confidence_score b),
     st_retrieval_score = upd (st_retrieval_score a) (st_retrieval_score b),
     st_coherence_score = upd (st_coherence_score a) (st_coherence_score b),
     st_scorer_latency_ms = upd (st_scorer_latency_ms a) (st_scorer_latency_ms b),
     st_action = upd (st_action a) (st_action b),
     st_confidence_threshold = upd (st_confidence_threshold a) (st_confidence_threshold b),
     st_structured_patch = upd (st_structured_patch a) (st_structured_patch b),
     st_patch_confidence = upd (st_patch_confidence a) (st_patch_confidence b),
     st_patch_skip_reason = upd (st_patch_skip_reason a) (st_patch_skip_reason b),
     st_patch_generator_latency_ms = upd (st_patch_generator_latency_ms a) (st_patch_generator_latency_ms b),
     st_total_latency_ms = upd (st_total_latency_ms a) (st_total_latency_ms b)\<rparr>"

lemma upd_simps [simp]: "upd x None = x" "upd x (Some v) = Some v"
  by (simp_all add: upd_def)

lemma merge_simps [simp]:
  "st_tenant_id (merge a b) = upd (st_tenant_id a) (st_tenant_id b)"
  "st_parsed_event (merge a b) = upd (st_parsed_event a) (st_parsed_event b)"
  "st_fingerprint (merge a b) = upd (st_fingerprint a) (st_fingerprint b)"
  "st_severity (merge a b) = upd (st_severity a) (st_severity b)"
  "st_actionable (merge a b) = upd (st_actionable a) (st_actionable b)"
  "st_classifier_latency_ms (merge a b) = upd (st_classifier_latency_ms a) (st_classifier_latency_ms b)"
  "st_error_category (merge a b) = upd (st_error_category a) (st_error_category b)"
  "st_code_context (merge a b) = upd (st_code_context a) (st_code_context b)"
  "st_code_retriever_meta (merge a b) = upd (st_code_retriever_meta a) (st_code_retriever_meta b)"
  "st_matched_playbook_id (merge a b) = upd (st_matched_playbook_id a) (st_matched_playbook_id b)"
  "st_playbook_instructions (merge a b) = upd (st_playbook_instructions a) (st_playbook_instructions b)"
  "st_playbook_latency_ms (merge a b) = upd (st_playbook_latency_ms a) (st_playbook_latency_ms b)"
  "st_root_cause (merge a b) = upd (st_root_cause a) (st_root_cause b)"
  "st_root_cause_confidence (merge a b) = upd (st_root_cause_confidence a) (st_root_cause_confidence b)"
  "st_raw_analysis_output (merge a b) = upd (st_raw_analysis_output a) (st_raw_analysis_output b)"
  "st_analyzer_latency_ms (merge a b) = upd (st_analyzer_latency_ms a) (st_analyzer_latency_ms b)"
  "st_analyzer_fallback_used (merge a b) = upd (st_analyzer_fallback_used a) (st_analyzer_fallback_used b)"
  "st_analyzer_tokens (merge a b) = upd (st_analyzer_tokens a) (st_analyzer_tokens b)"
  "st_suggested_fix (merge a b) = upd (st_suggested_fix a) (st_suggested_fix b)"
  "st_raw_fix_output (merge a b) = upd (st_raw_fix_output a) (st_raw_fix_output b)"
  "st_fix_generator_latency_ms (merge a b) = upd (st_fix_generator_latency_ms a) (st_fix_generator_latency_ms b)"
  "st_fix_fallback_used (merge a b) = upd (st_fix_fallback_used a) (st_fix_fallback_used b)"
  "st_fix_tokens (merge a b) = upd (st_fix_tokens a) (st_fix_tokens b)"
  "st_code_patch (merge a b) = upd (st_code_patch a) (st_code_patch b)"
  "st_fix_confidence (merge a b) = upd (st_fix_confidence a) (st_fix_confidence b)"
  "st_fix_complexity (merge a b) = upd (st_fix_complexity a) (st_fix_complexity b)"
  "st_fix_target_file (merge a b) = upd (st_fix_target_file a) (st_fix_target_file b)"
  "st_confidence_score (merge a b) = upd (st_confidence_score a) (st_confidence_score b)"
  "st_retrieval_score (merge a b) = upd (st_retrieval_score a) (st_retrieval_score b)"
  "st_coherence_score (merge a b) = upd (st_coherence_score a) (st_coherence_score b)"
  "st_scorer_latency_ms (merge a b) = upd (st_scorer_latency_ms a) (st_scorer_latency_ms b)"
  "st_action (merge a b) = upd (st_action a) (st_action b)"
  "st_confidence_threshold (merge a b) = upd (st_confidence_threshold a) (st_confidence_threshold b)"
  "st_structured_patch (merge a b) = upd (st_structured_patch a) (st_structured_patch b)"
  "st_patch_confidence (merge a b) = upd (st_patch_confidence a) (st_patch_confidence b)"
  "st_patch_skip_reason (merge a b) = upd (st_patch_skip_reason a) (st_patch_skip_reason b)"
  "st_patch_generator_latency_ms (merge a b) = upd (st_patch_generator_latency_ms a) (st_patch_generator_latency_ms b)"
  "st_total_latency_ms (merge a b) = upd (st_total_latency_ms a) (st_total_latency_ms b)"
  by (simp_all add: merge_def)

lemma empty_state_simps [simp]:
  "st_tenant_id empty_state = None"
  "st_parsed_event empty_state = None"
  "st_fingerprint empty_state = None"
  "st_severity empty_state = None"
  "st_actionable empty_state = None"
  "st_classifier_latency_ms empty_state = None"
  "st_error_category empty_state = None"
  "st_code_context empty_state = None"
  "st_code_retriever_meta empty_state = None"
  "st_matched_playbook_id empty_state = None"
  "st_playbook_instructions empty_state = None"
  "st_playbook_latency_ms empty_state = None"
  "st_root_cause empty_state = None"
  "st_root_cause_confidence empty_state = None"
  "st_raw_analysis_output empty_state = None"
  "st_analyzer_latency_ms empty_state = None"
  "st_analyzer_fallback_used empty_state = None"
  "st_analyzer_tokens empty_state = None"
  "st_suggested_fix empty_state = None"
  "st_raw_fix_output empty_state = None"
  "st_fix_generator_latency_ms empty_state = None"
  "st_fix_fallback_used empty_state = None"
  "st_fix_tokens empty_state = None"
  "st_code_patch empty_state = None"
  "st_fix_confidence empty_state = None"
  "st_fix_complexity empty_state = None"
  "st_fix_target_file empty_state = None"
  "st_confidence_score empty_state = None"
  "st_retrieval_score empty_state = None"
  "st_coherence_score empty_state = None"
  "st_scorer_latency_ms empty_state = None"
  "st_action empty_state = None"
  "st_confidence_threshold empty_state = None"
  "st_structured_patch empty_state = None"
  "st_patch_confidence empty_state = None"
  "st_patch_skip_reason empty_state = None"
  "st_patch_generator_latency_ms empty_state = None"
  "st_total_latency_ms empty_state = None"
  by (simp_all add: empty_state_def)

text \<open>The initial state \<open>run_agent\<close> hands to the workflow.\<close>

definition initial_state :: "string \<Rightarrow> json \<Rightarrow> string \<Rightarrow> agent_state" where
  "initial_state tenant parsed fingerprint =
     empty_state\<lparr>st_tenant_id := Some tenant, st_parsed_event := Some parsed,
                 st_fingerprint := Some fingerprint\<rparr>"

definition tokens_of :: "string \<Rightarrow> (string \<times> int) list option \<Rightarrow> int" where
  "tokens_of k d = get_or (map_of (get_or d []) k) 0"

lemma initial_state_simps [simp]:
  "st_tenant_id (initial_state t p f) = Some t"
  "st_parsed_event (initial_state t p f) = Some p"
  "st_action (initial_state t p f) = None"
  "st_actionable (initial_state t p f) = None"
  "st_structured_patch (initial_state t p f) = None"
  "st_error_category (initial_state t p f) = None"
  "st_confidence_score (initial_state t p f) = None"
  by (simp_all add: initial_state_def)

end
