(* ===== verification/Incident_Service.thy ===== *)
theory Incident_Service
  imports Fingerprint Agent_State
begin

text \<open>
  \<open>IncidentService\<close> of \<open>app/services/incidents.py\<close>: the fingerprint lookup, the recording of a
  duplicate and the transaction that writes a new incident with its analysis, its notification
  deliveries and its two outbox events.  A transaction is a function of the committed database: it
  returns the new database when the commit succeeds and the old one, with the exception, when not.
\<close>

text \<open>What a transaction takes from outside: the clock, fresh UUIDs in the order they are drawn, a
  commit that the server may refuse, and whether SQS accepts the push message.\<close>

record tx_env =
  tx_now :: time
  tx_fresh :: "nat \<Rightarrow> uuid"
  tx_commit_error :: "exn option"
  tx_sqs_ok :: bool

definition commit :: "tx_env \<Rightarrow> db2 \<Rightarrow> db2 res" where
  "commit env db = (case tx_commit_error env of None \<Rightarrow> Inr db | Some e \<Rightarrow> Inl e)"

subsection \<open>Lookup\<close>

definition find_active_by_fingerprint :: "uuid \<Rightarrow> string \<Rightarrow> db2 \<Rightarrow> incident option" where
  "find_active_by_fingerprint tenant_id fingerprint db =
     List.find (\<lambda>i. i_tenant_id i = tenant_id \<and> i_fingerprint i = fingerprint \<and>
                    i_status i \<noteq> ''resolved'') (incidents db)"

subsection \<open>A duplicate\<close>

definition bump :: "time \<Rightarrow> string \<Rightarrow> incident \<Rightarrow> incident" where
  "bump now new_s3_key i =
     i\<lparr>i_occurrence_count := i_occurrence_count i + 1,
       i_occurrences := i_occurrences i @ [new_s3_key],
       i_last_seen_at := now, i_updated_at := now\<rparr>"

definition duplicate_payload :: "uuid \<Rightarrow> time \<Rightarrow> uuid \<Rightarrow> uuid \<Rightarrow> int \<Rightarrow> string \<Rightarrow> json" where
  "duplicate_payload event_id now incident_id tenant_id new_count new_s3_key = JObj [
     (''event_id'', JStr event_id),
     (''event_type'', JStr ''incident.duplicate_detected''),
     (''version'', JInt 1),
     (''idempotency_key'', JStr (''tenant:'' @ tenant_id @ '':incident:'' @ incident_id @
        '':occurrence:'' @ str_int new_count)),
     (''source_version'', JInt new_count),
     (''occurred_at'', JStr (isoformat now)),
     (''payload'', JObj [
        (''incident_id'', JStr incident_id),
        (''tenant_id'', JStr tenant_id),
        (''new_occurrence_count'', JInt new_count),
        (''new_s3_key'', JStr new_s3_key),
        (''last_seen_at'', JStr (isoformat now))])]"

definition record_duplicate_occurrence ::
  "tx_env \<Rightarrow> incident \<Rightarrow> string \<Rightarrow> db2 \<Rightarrow> int res \<times> db2" where
  "record_duplicate_occurrence env inc new_s3_key db =
     (let now = tx_now env;
          rows = map (\<lambda>i. if i_id i = i_id inc then bump now new_s3_key i else i) (incidents db);
          new_count = (case List.find (\<lambda>i. i_id i = i_id inc) rows of
                         Some i \<Rightarrow> i_occurrence_count i
                       | None \<Rightarrow> i_occurrence_count inc);
          db1 = db\<lparr>incidents := rows\<rparr>
      in case bind_res
                (write_outbox (tx_fresh env 0) now ''incidents.duplicate_recorded'' (i_tenant_id inc)
                   (duplicate_payload (tx_fresh env 0) now (i_id inc) (i_tenant_id inc) new_count
                      new_s3_key))
                (\<lambda>ev. bind_res (insert_outbox ev db1) (commit env)) of
           Inl e \<Rightarrow> (Inl e, db)
         | Inr db2 \<Rightarrow> (Inr new_count, db2))"

subsection \<open>A new incident\<close>

definition safe_uuid :: "string option \<Rightarrow> uuid option" where
  "safe_uuid v = (case v of None \<Rightarrow> None | Some s \<Rightarrow> uuid_parse s)"

definition meta_or :: "string \<Rightarrow> json option \<Rightarrow> json" where
  "meta_or k m = (let d = (case m of Some d \<Rightarrow> if truthy d then d else JObj [] | None \<Rightarrow> JObj [])
                  in if jhas k d then jget k d else JInt 0)"

definition build_node_results ::
  "agent_state \<Rightarrow> string \<Rightarrow> string \<Rightarrow> rat option \<Rightarrow> bool \<Rightarrow> json" where
  "build_node_results st severity error_category confidence_score is_draft =
     (let meta = st_code_retriever_meta st; score = JFlt (get_or confidence_score 0) in JObj [
      (''classifier'', JObj [
         (''latency_ms'', JInt (get_or (st_classifier_latency_ms st) 0)),
         (''severity'', JStr severity),
         (''error_category'', JStr error_category),
         (''actionable'', JBool True)]),
      (''code_retriever'', JObj [
         (''latency_ms'', meta_or ''latency_ms'' meta),
         (''files_fetched'', meta_or ''files_fetched'' meta),
         (''tokens'', meta_or ''tokens'' meta),
         (''cache_hits'', meta_or ''cache_hits'' meta),
         (''cache_misses'', meta_or ''cache_misses'' meta),
         (''symbols_retrieved'', meta_or ''symbols_retrieved'' meta)]),
      (''playbook_matcher'', JObj [
         (''latency_ms'', JInt (get_or (st_playbook_latency_ms st) 0)),
         (''matched_playbook_id'', jopt JStr (nonempty (st_matched_playbook_id st)))]),
      (''analyzer'', JObj [
         (''latency_ms'', JInt (get_or (st_analyzer_latency_ms st) 0)),
         (''model'', JStr ''gpt-4o''),
         (''fallback_used'', JBool (get_or (st_analyzer_fallback_used st) False))]),
      (''fix_generator'', JObj [
         (''latency_ms'', JInt (get_or (st_fix_generator_latency_ms st) 0)),
         (''model'', JStr ''gpt-4o''),
         (''fallback_used'', JBool (get_or (st_fix_fallback_used st) False))]),
      (''confidence_scorer'', JObj [
         (''latency_ms'', JInt (get_or (st_scorer_latency_ms st) 0)),
         (''score'', score),
         (''retrieval_score'', JFlt (get_or (st_retrieval_score st) 0)),
         (''coherence_score'', JFlt (get_or (st_coherence_score st) 0))]),
      (''action_decision'', JObj [
         (''action'', JStr (if is_draft then ''store_draft'' else ''create_incident'')),
         (''threshold'', JFlt (get_or (st_confidence_threshold st) (7/10))),
         (''score'', score)]),
      (''patch_generator'', JObj [
         (''latency_ms'', JInt (get_or (st_patch_generator_latency_ms st) 0)),
         (''patch_confidence'', JFlt (get_or (st_patch_confidence st) 0)),
         (''skip_reason'', JStr (get_or (st_patch_skip_reason st) [])),
         (''has_patch'', JBool (nonempty (st_structured_patch st) \<noteq> None))])])"

definition build_incident_created_payload ::
  "uuid \<Rightarrow> uuid \<Rightarrow> uuid \<Rightarrow> string \<Rightarrow> parsed_log_event \<Rightarrow> string \<Rightarrow> string \<Rightarrow> string \<Rightarrow> string \<Rightarrow> string \<Rightarrow>
   rat option \<Rightarrow> time \<Rightarrow> json" where
  "build_incident_created_payload event_id incident_id tenant_id fingerprint e status severity
     error_category root_cause suggested_fix confidence_score occurred_at = JObj [
     (''event_id'', JStr event_id),
     (''event_type'', JStr ''incident.created''),
     (''version'', JInt 1),
     (''idempotency_key'', JStr (''tenant:'' @ tenant_id @ '':incident:'' @ incident_id)),
     (''source_version'', JInt 1),
     (''occurred_at'', JStr (isoformat occurred_at)),
     (''payload'', JObj [
        (''incident_id'', JStr incident_id),
        (''tenant_id'', JStr tenant_id),
        (''fingerprint'', JStr fingerprint),
        (''status'', JStr status),
        (''severity'', JStr severity),
        (''error_category'', JStr error_category),
        (''is_draft'', JBool False),
        (''error_type'', JStr (pe_error_type e)),
        (''error_message'', JStr (pe_error_message e)),
        (''service_name'', JStr (pe_service_name e)),
        (''environment'', JStr (pe_environment e)),
        (''crash_file'', JStr (pe_crash_file e)),
        (''crash_line'', JInt (pe_crash_line e)),
        (''crash_method'', JStr (pe_crash_method e)),
        (''root_cause'', JStr root_cause),
        (''suggested_fix'', JStr suggested_fix),
        (''confidence_score'', jopt JFlt confidence_score),
        (''occurrence_count'', JInt 1),
        (''assigned_user_id'', JNull),
        (''first_seen_at'', JStr (isoformat occurred_at)),
        (''last_seen_at'', JStr (isoformat occurred_at)),
        (''created_at'', JStr (isoformat occurred_at))])]"

definition build_incident_analyzed_payload ::
  "uuid \<Rightarrow> uuid \<Rightarrow> uuid \<Rightarrow> uuid \<Rightarrow> int \<Rightarrow> int \<Rightarrow> rat option \<Rightarrow> time \<Rightarrow> json" where
  "build_incident_analyzed_payload event_id incident_id analysis_id tenant_id total_tokens
     total_latency_ms confidence_score occurred_at = JObj [
     (''event_id'', JStr event_id),
     (''event_type'', JStr ''incident.analyzed''),
     (''version'', JInt 1),
     (''idempotency_key'', JStr (''tenant:'' @ tenant_id @ '':analysis:'' @ analysis_id)),
     (''source_version'', JInt 1),
     (''occurred_at'', JStr (isoformat occurred_at)),
     (''payload'', JObj [
        (''incident_id'', JStr incident_id),
        (''analysis_id'', JStr analysis_id),
        (''tenant_id'', JStr tenant_id),
        (''total_tokens_used'', JInt total_tokens),
        (''total_latency_ms'', JInt total_latency_ms),
        (''confidence_score'', jopt JFlt confidence_score),
        (''agent_version'', JStr ''1.0.0'')])]"

text \<open>Iterating a JSONB value: arrays by element, objects by key, texts by character.\<close>

definition iter_json :: "json option \<Rightarrow> json list res" where
  "iter_json v =
     (case v of
        Some (JArr xs) \<Rightarrow> Inr xs
      | Some (JObj kvs) \<Rightarrow> Inr (map (JStr \<circ> fst) kvs)
      | Some (JStr s) \<Rightarrow> Inr (map (\<lambda>c. JStr [c]) s)
      | _ \<Rightarrow> Inl (TypeError ''object is not iterable''))"

definition as_dict :: "json \<Rightarrow> json res" where
  "as_dict v = (case v of JObj kvs \<Rightarrow> Inr v | _ \<Rightarrow> Inl (AttributeError ''get''))"

definition rule_threshold :: "alert_rule_snapshot \<Rightarrow> rat res" where
  "rule_threshold r =
     (case ar_confidence_threshold r of
        None \<Rightarrow> Inr 0
      | Some s \<Rightarrow> (case float_of_string s of
                     None \<Rightarrow> Inl (ValueError ''could not convert string to float'') | Some q \<Rightarrow> Inr q))"

text \<open>The destinations one alert rule adds for an incident.\<close>

definition rule_destinations :: "string \<Rightarrow> rat option \<Rightarrow> alert_rule_snapshot \<Rightarrow> json list res" where
  "rule_destinations severity score r =
     (case ar_severity_filter r of
        None \<Rightarrow> Inl (TypeError ''argument of type NoneType is not iterable'')
      | Some sevs \<Rightarrow>
          if severity \<notin> set sevs then Inr []
          else bind_res (rule_threshold r) (\<lambda>th.
                 if (case score of None \<Rightarrow> False | Some c \<Rightarrow> c < th) then Inr []
                 else bind_res (iter_json (ar_destinations r)) (map_res as_dict)))"

definition enabled_rules :: "uuid \<Rightarrow> db2 \<Rightarrow> alert_rule_snapshot list" where
  "enabled_rules tenant_id db =
     filter (\<lambda>r. ar_tenant_id r = tenant_id \<and> ar_enabled r) (alert_rule_snapshots db)"

definition all_destinations ::
  "string \<Rightarrow> rat option \<Rightarrow> alert_rule_snapshot list \<Rightarrow> json list res" where
  "all_destinations severity score rules =
     bind_res (map_res (rule_destinations severity score) rules) (\<lambda>dss. Inr (concat dss))"

definition new_delivery :: "tx_env \<Rightarrow> uuid \<Rightarrow> uuid \<Rightarrow> nat \<Rightarrow> json \<Rightarrow> notification_delivery" where
  "new_delivery env tenant_id incident_id n dest = \<lparr>
     nd_id = tx_fresh env n, nd_tenant_id = tenant_id, nd_incident_id = incident_id,
     nd_alert_rule_id = None, nd_destination_type = jstring (jget ''type'' dest),
     nd_destination_config = dest, nd_http_status_code = None, nd_attempt_count = 0,
     nd_status = ''pending'', nd_error_message = None, nd_dispatched_at = None,
     nd_created_at = tx_now env\<rparr>"

text \<open>
  The elements of \<open>stack_frames\<close> are pydantic objects, which have no \<open>to_dict\<close>; the column gets what
  the engine's serialiser makes of them, \<open>str\<close> of the object.
\<close>

definition str_frame :: "stack_frame \<Rightarrow> string" where
  "str_frame f = ''file='' @ repr (sf_file f) @ '' line='' @ str_int (sf_line f) @
     '' method='' @ repr (sf_method f) @ '' module='' @ repr (sf_module f) @
     '' code_context='' @ repr (sf_code_context f)"

record persisted =
  ps_incident_id :: uuid
  ps_analysis_id :: uuid
  ps_delivery_ids :: "uuid list"

definition incident_severity :: "agent_state \<Rightarrow> parsed_log_event \<Rightarrow> bool \<Rightarrow> string" where
  "incident_severity st e is_draft =
     (if is_draft then ''unknown''
      else str_or (st_severity st) (str_or (Some (pe_severity e)) ''unknown''))"

definition new_incident ::
  "tx_env \<Rightarrow> uuid \<Rightarrow> parsed_log_event \<Rightarrow> string \<Rightarrow> agent_state \<Rightarrow> string \<Rightarrow> incident" where
  "new_incident env tenant_id e fingerprint st severity = \<lparr>
     i_id = tx_fresh env 0, i_tenant_id = tenant_id, i_fingerprint = fingerprint,
     i_occurrence_count = 1, i_occurrences = [pe_s3_path e],
     i_error_type = pe_error_type e, i_error_message = Some (pe_error_message e),
     i_service_name = pe_service_name e, i_environment = pe_environment e,
     i_crash_file = Some (pe_crash_file e), i_crash_line = Some (pe_crash_line e),
     i_crash_method = Some (pe_crash_method e),
     i_stack_frames = map (JStr \<circ> str_frame) (pe_stack_frames e),
     i_root_cause = Some (str_or (st_root_cause st) []),
     i_suggested_fix = Some (str_or (st_suggested_fix st) []),
     i_confidence_score = st_confidence_score st, i_severity = severity,
     i_error_category = str_or (st_error_category st) ''unknown'',
     i_pr_url = None, i_pr_number = None, i_pr_status = None, i_pr_title = None, i_pr_error = None,
     i_structured_patch = nonempty (st_structured_patch st),
     i_status = ''open'', i_is_draft = False, i_assigned_user_ids = [],
     i_source_log_id = safe_uuid (Some (pe_incident_id e)),
     i_first_seen_at = tx_now env, i_last_seen_at = tx_now env, i_resolved_at = None,
     i_created_at = tx_now env, i_updated_at = tx_now env\<rparr>"

definition new_analysis ::
  "tx_env \<Rightarrow> uuid \<Rightarrow> agent_state \<Rightarrow> string \<Rightarrow> string \<Rightarrow> analysis" where
  "new_analysis env tenant_id st severity error_category =
     (let total = tokens_of ''total'' (st_analyzer_tokens st) + tokens_of ''total'' (st_fix_tokens st);
          prompt = tokens_of ''prompt'' (st_analyzer_tokens st) + tokens_of ''prompt'' (st_fix_tokens st);
          completion = tokens_of ''completion'' (st_analyzer_tokens st) +
                       tokens_of ''completion'' (st_fix_tokens st)
      in \<lparr>
     an_id = tx_fresh env 1, an_incident_id = tx_fresh env 0, an_tenant_id = tenant_id,
     an_agent_version = ''1.0.0'', an_total_tokens_used = or_none total,
     an_prompt_tokens = or_none prompt, an_completion_tokens = or_none completion,
     an_total_latency_ms = st_total_latency_ms st,
     an_node_results = build_node_results st severity error_category (st_confidence_score st) False,
     an_raw_analysis_output = nonempty (st_raw_analysis_output st),
     an_raw_fix_output = nonempty (st_raw_fix_output st),
     an_code_context_snapshot = nonempty (st_code_context st),
     an_matched_playbook_id = safe_uuid (st_matched_playbook_id st),
     an_created_at = tx_now env\<rparr>)"

definition push_message :: "uuid \<Rightarrow> uuid \<Rightarrow> uuid \<Rightarrow> parsed_log_event \<Rightarrow> string \<Rightarrow> json" where
  "push_message event_id tenant_id incident_id e severity = JObj [
     (''event_id'', JStr event_id), (''tenant_id'', JStr tenant_id),
     (''incident_id'', JStr incident_id), (''severity'', JStr severity),
     (''error_type'', JStr (pe_error_type e)), (''service_name'', JStr (pe_service_name e)),
     (''environment'', JStr (pe_environment e))]"

text \<open>
  The result, the database after the transaction, and the messages sent to the push queue, which a
  failure of SQS only loses.
\<close>

definition persist_new_incident ::
  "tx_env \<Rightarrow> uuid \<Rightarrow> parsed_log_event \<Rightarrow> string \<Rightarrow> agent_state \<Rightarrow> bool \<Rightarrow> db2 \<Rightarrow>
   persisted res \<times> db2 \<times> json list" where
  "persist_new_incident env tenant_id e fingerprint st is_draft db =
     (let now = tx_now env;
          severity = incident_severity st e is_draft;
          inc = new_incident env tenant_id e fingerprint st severity;
          an = new_analysis env tenant_id st severity (i_error_category inc);
          total = tokens_of ''total'' (st_analyzer_tokens st) + tokens_of ''total'' (st_fix_tokens st)
      in case bind_res (all_destinations severity (st_confidence_score st) (enabled_rules tenant_id db))
              (\<lambda>dests.
                 let n = length dests;
                     ds = map2 (\<lambda>k. new_delivery env tenant_id (i_id inc) (2 + k)) [0..<n] dests
                 in bind_res (write_outbox (tx_fresh env (2 + n)) now ''incidents.created'' tenant_id
                       (build_incident_created_payload (tx_fresh env (2 + n)) (i_id inc) tenant_id
                          fingerprint e (i_status inc) severity (i_error_category inc)
                          (get_or (i_root_cause inc) []) (get_or (i_suggested_fix inc) [])
                          (st_confidence_score st) now)) (\<lambda>created.
                    bind_res (write_outbox (tx_fresh env (3 + n)) now ''incidents.analyzed'' tenant_id
                       (build_incident_analyzed_payload (tx_fresh env (3 + n)) (i_id inc) (an_id an)
                          tenant_id total (get_or (st_total_latency_ms st) 0)
                          (st_confidence_score st) now)) (\<lambda>analyzed.
                    bind_res (insert_incident inc db) (\<lambda>db1.
                    bind_res (insert_analysis an db1) (\<lambda>db2.
                    bind_res (insert_all insert_delivery ds db2) (\<lambda>db3.
                    bind_res (insert_all insert_outbox [created, analyzed] db3) (\<lambda>db4.
                    bind_res (commit env db4) (\<lambda>db5. Inr (map nd_id ds, db5)))))))))
         of Inl ex \<Rightarrow> (Inl ex, db, [])
          | Inr (delivery_ids, db') \<Rightarrow>
              (Inr \<lparr>ps_incident_id = i_id inc, ps_analysis_id = an_id an,
                    ps_delivery_ids = delivery_ids\<rparr>, db',
               if tx_sqs_ok env
               then [push_message (tx_fresh env (4 + length delivery_ids)) tenant_id (i_id inc) e severity]
               else []))"

subsection \<open>Facts\<close>

lemma write_outbox_InrD:
  "write_outbox fresh now topic key payload = Inr ev \<Longrightarrow>
     ob_topic ev = topic \<and> ob_key ev = key \<and> ob_payload ev = payload \<and> \<not> ob_published ev"
  by (auto simp: write_outbox_def bind_res_eq_Inr)

lemma commit_Inr [simp]: "commit env db = Inr db' \<longleftrightarrow> tx_commit_error env = None \<and> db' = db"
  by (auto simp: commit_def split: option.splits)

lemma find_active_SomeD:
  "find_active_by_fingerprint t fp db = Some i \<Longrightarrow> i \<in> set (incidents db) \<and> active_for t fp i"
  by (auto simp: find_active_by_fingerprint_def active_for_def dest: find_SomeD)

lemma find_active_None_iff:
  "find_active_by_fingerprint t fp db = None \<longleftrightarrow> active_incidents t fp db = []"
  by (auto simp: find_active_by_fingerprint_def active_incidents_def active_for_def
                 find_None_iff filter_empty_conv)

lemma new_incident_simps [simp]:
  "i_status (new_incident env t e fp st sev) = ''open''"
  "i_is_draft (new_incident env t e fp st sev) = False"
  "i_tenant_id (new_incident env t e fp st sev) = t"
  "i_fingerprint (new_incident env t e fp st sev) = fp"
  "i_id (new_incident env t e fp st sev) = tx_fresh env 0"
  "i_severity (new_incident env t e fp st sev) = sev"
  "i_occurrence_count (new_incident env t e fp st sev) = 1"
  by (simp_all add: new_incident_def)

lemma index_key_bump [simp]: "index_key (bump now k i) = index_key i"
  and i_status_bump [simp]: "i_status (bump now k i) = i_status i"
  and i_id_bump [simp]: "i_id (bump now k i) = i_id i"
  by (simp_all add: bump_def index_key_def)

lemma index_ok_map:
  assumes "\<And>i. index_key (f i) = index_key i" "\<And>i. i_status (f i) = i_status i"
  shows "index_ok (db\<lparr>incidents := map f (incidents db)\<rparr>) = index_ok db"
proof -
  have "map index_key (filter (\<lambda>i. i_status i \<noteq> ''resolved'') (map f is)) =
        map index_key (filter (\<lambda>i. i_status i \<noteq> ''resolved'') is)" for "is"
    using assms by (induction "is") auto
  then show ?thesis by (simp add: index_ok_def)
qed

text \<open>The transaction of a new incident, as the equations its success implies.\<close>

lemma persist_Inr:
  assumes "persist_new_incident env t e fp st d db = (Inr p, db', msgs)"
  obtains ds created analyzed db1 where
    "insert_incident (new_incident env t e fp st (incident_severity st e d)) db = Inr db1"
    "ob_topic created = ''incidents.created''" "ob_topic analyzed = ''incidents.analyzed''"
    "ob_key created = t" "ob_key analyzed = t"
    "jget ''is_draft'' (jget ''payload'' (ob_payload created)) = JBool False"
    "db' = db1\<lparr>analyses := analyses db @ [new_analysis env t st (incident_severity st e d)
                  (str_or (st_error_category st) ''unknown'')],
               notification_deliveries := notification_deliveries db @ ds,
               outbox := outbox db @ [created, analyzed]\<rparr>"
    "ps_incident_id p = tx_fresh env 0" "ps_delivery_ids p = map nd_id ds"
    "list_all (\<lambda>d. nd_incident_id d = tx_fresh env 0 \<and> nd_status d = ''pending'') ds"
proof -
  let ?inc = "new_incident env t e fp st (incident_severity st e d)"
  have cat: "i_error_category ?inc = str_or (st_error_category st) ''unknown''"
    by (simp add: new_incident_def)
  from assms obtain dests ds created analyzed db1 db2 db3 db4 where
    ds: "ds = map2 (\<lambda>k. new_delivery env t (i_id ?inc) (2 + k)) [0..<length dests] dests" and
    c: "write_outbox (tx_fresh env (2 + length dests)) (tx_now env) ''incidents.created'' t
          (build_incident_created_payload (tx_fresh env (2 + length dests)) (i_id ?inc) t fp e
             (i_status ?inc) (incident_severity st e d) (i_error_category ?inc)
             (get_or (i_root_cause ?inc) []) (get_or (i_suggested_fix ?inc) [])
             (st_confidence_score st) (tx_now env)) = Inr created" and
    a: "ob_topic analyzed = ''incidents.analyzed''" "ob_key analyzed = t" and
    i1: "insert_incident ?inc db = Inr db1" and
    i2: "insert_analysis (new_analysis env t st (incident_severity st e d)
           (i_error_category ?inc)) db1 = Inr db2" and
    i3: "insert_all insert_delivery ds db2 = Inr db3" and
    i4: "insert_all insert_outbox [created, analyzed] db3 = Inr db4" and
    p: "db' = db4" "ps_incident_id p = i_id ?inc" "ps_delivery_ids p = map nd_id ds"
    unfolding persist_new_incident_def Let_def
    by (simp only: prod.inject sum.case split: sum.splits prod.splits)
       (auto simp: bind_res_eq_Inr dest: write_outbox_InrD)
  have frame: "analyses db1 = analyses db"
    "notification_deliveries db1 = notification_deliveries db" "outbox db1 = outbox db"
    using insert_incident_InrD [OF i1] by simp_all
  have eq: "db' = db1\<lparr>analyses := analyses db @ [new_analysis env t st (incident_severity st e d)
                  (str_or (st_error_category st) ''unknown'')],
               notification_deliveries := notification_deliveries db @ ds,
               outbox := outbox db @ [created, analyzed]\<rparr>"
    using insert_analysis_InrD [OF i2] insert_all_delivery_InrD [OF i3]
      insert_all_outbox_InrD [OF i4] p(1) frame cat by simp
  note created = write_outbox_InrD [OF c]
  have draft: "jget ''is_draft'' (jget ''payload'' (ob_payload created)) = JBool False"
    using created by (simp add: build_incident_created_payload_def)
  have pend: "list_all (\<lambda>d. nd_incident_id d = tx_fresh env 0 \<and> nd_status d = ''pending'') ds"
    by (auto simp: ds list_all_iff new_delivery_def set_zip)
  show ?thesis
    by (rule that [OF i1, of created analyzed ds]) (use created a p eq draft pend in simp_all)
qed

lemma persist_Inl:
  "persist_new_incident env t e fp st d db = (Inl ex, db', msgs) \<Longrightarrow> db' = db \<and> msgs = []"
  by (auto simp: persist_new_incident_def Let_def split: sum.splits prod.splits)

lemma persist_index_ok:
  assumes "persist_new_incident env t e fp st d db = (r, db', msgs)" "uq_active db" "index_ok db"
  shows "index_ok db' \<and> uq_active db'"
proof (cases r)
  case (Inl ex)
  with assms persist_Inl show ?thesis by blast
next
  case (Inr p)
  with assms(1) have "persist_new_incident env t e fp st d db = (Inr p, db', msgs)" by simp
  then show ?thesis
  proof (rule persist_Inr)
    fix ds created analyzed db1
    assume i1: "insert_incident (new_incident env t e fp st (incident_severity st e d)) db = Inr db1"
      and eq: "db' = db1\<lparr>analyses := analyses db @ [new_analysis env t st (incident_severity st e d)
                  (str_or (st_error_category st) ''unknown'')],
               notification_deliveries := notification_deliveries db @ ds,
               outbox := outbox db @ [created, analyzed]\<rparr>"
    have "index_ok db1" using insert_incident_index_ok [OF i1] assms(2,3) .
    moreover have "uq_active db1" using insert_incident_InrD [OF i1] assms(2) by simp
    ultimately show ?thesis by (simp add: eq index_ok_def)
  qed
qed

definition bump_row :: "time \<Rightarrow> string \<Rightarrow> uuid \<Rightarrow> incident list \<Rightarrow> incident list" where
  "bump_row now k i = map (\<lambda>j. if i_id j = i then bump now k j else j)"

lemma record_duplicate_cases:
  assumes "record_duplicate_occurrence env inc k db = (r, db')"
  obtains (failed) ex where "r = Inl ex" "db' = db"
  | (recorded) ev n where "r = Inr n"
      "db' = db\<lparr>incidents := bump_row (tx_now env) k (i_id inc) (incidents db),
                outbox := outbox db @ [ev]\<rparr>"
      "ob_topic ev = ''incidents.duplicate_recorded''" "ob_key ev = i_tenant_id inc"
      "jget ''source_version'' (ob_payload ev) = JInt n"
      "n = (case List.find (\<lambda>i. i_id i = i_id inc)
                 (bump_row (tx_now env) k (i_id inc) (incidents db)) of
              Some i \<Rightarrow> i_occurrence_count i | None \<Rightarrow> i_occurrence_count inc)"
proof -
  define rows where "rows = bump_row (tx_now env) k (i_id inc) (incidents db)"
  define n where "n = (case List.find (\<lambda>i. i_id i = i_id inc) rows of
                         Some i \<Rightarrow> i_occurrence_count i | None \<Rightarrow> i_occurrence_count inc)"
  define W where "W = bind_res
     (write_outbox (tx_fresh env 0) (tx_now env) ''incidents.duplicate_recorded'' (i_tenant_id inc)
        (duplicate_payload (tx_fresh env 0) (tx_now env) (i_id inc) (i_tenant_id inc) n k))
     (\<lambda>ev. bind_res (insert_outbox ev (db\<lparr>incidents := rows\<rparr>)) (commit env))"
  have run: "record_duplicate_occurrence env inc k db =
      (case W of Inl e \<Rightarrow> (Inl e, db) | Inr db2 \<Rightarrow> (Inr n, db2))"
    unfolding record_duplicate_occurrence_def Let_def W_def n_def rows_def bump_row_def by (rule refl)
  show ?thesis
  proof (cases W)
    case (Inl e)
    with run assms show ?thesis by (intro failed [of e]) simp_all
  next
    case (Inr db2)
    then obtain ev db1 where ev: "write_outbox (tx_fresh env 0) (tx_now env)
          ''incidents.duplicate_recorded'' (i_tenant_id inc)
          (duplicate_payload (tx_fresh env 0) (tx_now env) (i_id inc) (i_tenant_id inc) n k) = Inr ev"
      and ins: "insert_outbox ev (db\<lparr>incidents := rows\<rparr>) = Inr db1" and "db2 = db1"
      by (auto simp: W_def bind_res_eq_Inr)
    moreover have "r = Inr n" "db' = db2" using run assms Inr by simp_all
    ultimately show ?thesis
      using write_outbox_InrD [OF ev] insert_outbox_InrD [OF ins]
      by (intro recorded [of n ev]) (simp_all add: rows_def n_def duplicate_payload_def)
  qed
qed

lemma record_duplicate_index_ok:
  assumes "record_duplicate_occurrence env inc k db = (r, db')"
  shows "index_ok db' = index_ok db \<and> uq_active db' = uq_active db"
  using assms
proof (cases rule: record_duplicate_cases)
  case (recorded ev n)
  have "index_ok (db\<lparr>incidents := bump_row (tx_now env) k (i_id inc) (incidents db)\<rparr>) = index_ok db"
    unfolding bump_row_def by (rule index_ok_map) simp_all
  then show ?thesis by (simp add: recorded(2) index_ok_def)
qed simp

end
