(* ===== verification/Dedup_Lock.thy ===== *)
theory Dedup_Lock
  imports Redis_Api
begin

text \<open>
  \<open>app/services/dedup_lock.py\<close>: the Redis lock in front of the fingerprint check.  Acquiring fails
  open on a Redis error, releasing deletes the key whoever holds it and swallows Redis errors.
\<close>

definition DEDUP_LOCK_TTL_SECONDS :: int where
  "DEDUP_LOCK_TTL_SECONDS = 30"

definition dedup_lock_key :: "string \<Rightarrow> string" where
  "dedup_lock_key fingerprint = ''dedup:lock:'' @ fingerprint"

definition acquire_dedup_lock :: "'s redis \<Rightarrow> string \<Rightarrow> string \<Rightarrow> 's \<Rightarrow> bool res \<times> 's" where
  "acquire_dedup_lock R fingerprint owner_id s =
     (case r_set_nx R (dedup_lock_key fingerprint) (Text owner_id) DEDUP_LOCK_TTL_SECONDS s of
        (Inr acquired, s') \<Rightarrow> (Inr acquired, s')
      | (Inl e, s') \<Rightarrow> if is_redis_error e then (Inr True, s') else (Inl e, s'))"

definition release_dedup_lock :: "'s redis \<Rightarrow> string \<Rightarrow> 's \<Rightarrow> unit res \<times> 's" where
  "release_dedup_lock R fingerprint s =
     (case r_delete R (dedup_lock_key fingerprint) s of
        (Inr deleted, s') \<Rightarrow> (Inr (), s')
      | (Inl e, s') \<Rightarrow> if is_redis_error e then (Inr (), s') else (Inl e, s'))"

text \<open>The context manager: the body runs either way, the release only after an acquisition.\<close>

definition dedup_lock ::
  "'s redis \<Rightarrow> string \<Rightarrow> string \<Rightarrow> (bool \<Rightarrow> 's \<Rightarrow> 'a res \<times> 's) \<Rightarrow> 's \<Rightarrow> 'a res \<times> 's" where
  "dedup_lock R fingerprint owner_id body s =
     (case acquire_dedup_lock R fingerprint owner_id s of
        (Inl e, s1) \<Rightarrow> (Inl e, s1)
      | (Inr acquired, s1) \<Rightarrow>
          (let (r, s2) = body acquired s1 in
           if acquired
           then (case release_dedup_lock R fingerprint s2 of
                   (Inl e, s3) \<Rightarrow> (Inl e, s3) | (Inr _, s3) \<Rightarrow> (r, s3))
           else (r, s2)))"

lemma dedup_lock_key_inj [simp]: "dedup_lock_key a = dedup_lock_key b \<longleftrightarrow> a = b"
  by (simp add: dedup_lock_key_def)

subsection \<open>What the lock promises its callers\<close>

text \<open>
  The contract \<open>run_agent\<close> relies on, over the owner each lock has: contention is only reported while
  somebody holds the lock; an acquisition the server answered is exclusive and recorded; a release
  frees only its own lock; neither operation raises.
\<close>

locale lock_service =
  fixes acquire :: "string \<Rightarrow> string \<Rightarrow> 's \<Rightarrow> bool res \<times> 's"
    and release :: "string \<Rightarrow> 's \<Rightarrow> unit res \<times> 's"
    and held :: "'s \<Rightarrow> string \<Rightarrow> rval option"
    and answers :: "'s \<Rightarrow> bool"
  assumes acquire_total: "\<exists>b s'. acquire k o' s = (Inr b, s')"
    and release_total: "\<exists>s'. release k s = (Inr (), s')"
    and contention: "acquire k o' s = (Inr False, s') \<Longrightarrow> held s k \<noteq> None \<and> held s' = held s"
    and exclusive: "acquire k o' s = (Inr True, s') \<Longrightarrow> answers s \<Longrightarrow>
          held s k = None \<and> held s' = (held s)(k \<mapsto> Text o')"
    and freed: "release k s = (Inr (), s') \<Longrightarrow> answers s \<Longrightarrow> held s' = (held s)(k := None)"
begin

lemma second_acquire_fails:
  assumes "acquire k o1 s = (Inr True, s1)" "answers s" "answers s1"
  shows "\<exists>s2. acquire k o2 s1 = (Inr False, s2)"
proof -
  obtain b s2 where b: "acquire k o2 s1 = (Inr b, s2)" using acquire_total by blast
  have "held s1 k = Some (Text o1)" using exclusive [OF assms(1,2)] by simp
  then have "b = False" using exclusive [OF _ assms(3), of k o2 s2] b by (cases b) auto
  with b show ?thesis by blast
qed

lemma acquire_after_release:
  assumes "release k s = (Inr (), s1)" "answers s"
  shows "\<exists>s2. acquire k o2 s1 = (Inr True, s2)"
proof -
  obtain b s2 where b: "acquire k o2 s1 = (Inr b, s2)" using acquire_total by blast
  have "held s1 k = None" using freed [OF assms] by simp
  then have "b = True" using contention [of k o2 s1 s2] b by (cases b) auto
  with b show ?thesis by blast
qed

lemma other_locks_kept:
  assumes "acquire k o1 s = (Inr True, s1)" "answers s" "j \<noteq> k"
  shows "held s1 j = held s j"
  using exclusive [OF assms(1,2)] assms(3) by simp

end

text \<open>The server answers when neither of the two commands the lock uses fails.\<close>

definition lock_held :: "('s \<Rightarrow> kv) \<Rightarrow> 's \<Rightarrow> string \<Rightarrow> rval option" where
  "lock_held view s fp = view s (dedup_lock_key fp)"

definition lock_answers :: "'s redis \<Rightarrow> 's \<Rightarrow> bool" where
  "lock_answers R s \<longleftrightarrow> (\<forall>k v ttl. \<exists>b s'. r_set_nx R k v ttl s = (Inr b, s')) \<and>
                     (\<forall>k. \<exists>n s'. r_delete R k s = (Inr n, s'))"

context redis_server begin

lemma lock_contention:
  assumes "acquire_dedup_lock R k w s = (Inr False, s')"
  shows "lock_held view s k \<noteq> None \<and> lock_held view s' = lock_held view s"
  using assms
  by (auto simp: acquire_dedup_lock_def lock_held_def fun_eq_iff
           split: prod.splits sum.splits if_splits dest!: set_nx_ok)

lemma lock_exclusive:
  assumes "acquire_dedup_lock R k w s = (Inr True, s')" "lock_answers R s"
  shows "lock_held view s k = None \<and> lock_held view s' = (lock_held view s)(k \<mapsto> Text w)"
proof -
  obtain b s1 where nx:
    "r_set_nx R (dedup_lock_key k) (Text w) DEDUP_LOCK_TTL_SECONDS s = (Inr b, s1)"
    using assms(2) unfolding lock_answers_def by blast
  with assms(1) have "b" "s1 = s'" by (simp_all add: acquire_dedup_lock_def)
  with set_nx_ok [OF nx] show ?thesis
    by (auto simp: lock_held_def fun_eq_iff)
qed

lemma lock_freed:
  assumes "release_dedup_lock R k s = (Inr (), s')" "lock_answers R s"
  shows "lock_held view s' = (lock_held view s)(k := None)"
proof -
  obtain n s1 where del: "r_delete R (dedup_lock_key k) s = (Inr n, s1)"
    using assms(2) unfolding lock_answers_def by blast
  with assms(1) have "s1 = s'" by (simp add: release_dedup_lock_def)
  with delete_ok [OF del] show ?thesis by (auto simp: lock_held_def fun_eq_iff)
qed

lemma acquire_never_raises: "\<exists>b s'. acquire_dedup_lock R k w s = (Inr b, s')"
  using set_nx_err by (fastforce simp: acquire_dedup_lock_def split: prod.splits sum.splits)

lemma release_never_raises: "\<exists>s'. release_dedup_lock R k s = (Inr (), s')"
  using delete_err by (fastforce simp: release_dedup_lock_def split: prod.splits sum.splits)

lemma fails_open:
  assumes "r_set_nx R (dedup_lock_key k) (Text w) DEDUP_LOCK_TTL_SECONDS s = (Inl e, s')"
  shows "acquire_dedup_lock R k w s = (Inr True, s')"
  using assms set_nx_err [OF assms] by (simp add: acquire_dedup_lock_def)

end

sublocale redis_server \<subseteq> lock: lock_service "acquire_dedup_lock R" "release_dedup_lock R"
    "lock_held view" "lock_answers R"
proof
qed (fact acquire_never_raises release_never_raises lock_contention lock_exclusive lock_freed)+

end
