(* ===== verification/Run_Agent.thy ===== *)
theory Run_Agent
  imports Incident_Service Dedup_Lock
begin

text \<open>
  \<open>app/worker/tasks/run_agent.py\<close>: the Celery task behind every parsed log event.  It takes the
  deduplication lock, looks the fingerprint up, and either counts a duplicate or runs the agent
  workflow and stores a new incident; the lock is released on every way out.  The workflow is an
  argument here (the graph of nodes is a theory of its own).  Messages to other services are recorded in
  the order they are sent; their failures are swallowed by the code and change nothing else.
\<close>

datatype effect =
    EsParsedFields string string string string string string int
      \<comment> \<open>log, tenant, plan, error type, severity, file, line\<close>
  | EsLinkLog string string string uuid string string
      \<comment> \<open>log, tenant, plan, incident, severity, status\<close>
  | WsDuplicate uuid int
  | WsAnalysis uuid json
  | SqsPush json
  | GithubPrTask string uuid string string string string bool
  | NotificationTask uuid

record completed =
  cp_action :: string
  cp_new_incident_id :: uuid
  cp_new_analysis_id :: uuid
  cp_is_draft :: bool
  cp_confidence_score :: "rat option"
  cp_structured_patch :: string
  cp_root_cause :: string
  cp_suggested_fix :: string
  cp_delivery_ids :: "uuid list"

datatype outcome =
    LockContention
  | DuplicateRecorded uuid int
  | NotActionable
  | LateDuplicate
  | Completed completed

text \<open>What a run takes from outside besides Redis and the workflow.\<close>

record run_env =
  rn_task_id :: string
  rn_tx :: tx_env
  rn_db_error :: "exn option"  \<comment> \<open>the session cannot be opened or its first query fails\<close>
  rn_latency_ms :: int

type_synonym 's workflow = "db2 \<Rightarrow> agent_state \<Rightarrow> 's \<Rightarrow> agent_state res \<times> 's"

definition plan_tier_of :: "uuid \<Rightarrow> db2 \<Rightarrow> string option" where
  "plan_tier_of tenant db =
     (case List.find (\<lambda>t. ts_tenant_id t = tenant) (tenant_snapshots db) of
        None \<Rightarrow> Some ''standard'' | Some t \<Rightarrow> ts_plan_tier t)"

definition shown_plan :: "uuid \<Rightarrow> db2 \<Rightarrow> string" where
  "shown_plan tenant db = get_or (plan_tier_of tenant db) ''None''"

subsection \<open>The action\<close>

text \<open>Step 5: the action and the draft flag, re-checked against the threshold.\<close>

definition decide_action :: "agent_state \<Rightarrow> string \<times> bool" where
  "decide_action st =
     (let threshold = get_or (st_confidence_threshold st) (7/10);
          action = (case st_confidence_score st of
                      Some c \<Rightarrow> if c < threshold then ''store_draft''
                                else get_or (st_action st) ''store_draft''
                    | None \<Rightarrow> get_or (st_action st) ''store_draft'')
      in (action, action = ''store_draft''))"

definition ws_payload :: "uuid \<Rightarrow> string \<Rightarrow> parsed_log_event \<Rightarrow> agent_state \<Rightarrow> bool \<Rightarrow> int \<Rightarrow> json" where
  "ws_payload incident_id tenant e st is_draft latency = JObj [
     (''incident_id'', JStr incident_id),
     (''tenant_id'', JStr tenant),
     (''status'', JStr (if is_draft then ''draft'' else ''open'')),
     (''severity'', JStr (get_or (st_severity st) ''unknown'')),
     (''error_type'', JStr (pe_error_type e)),
     (''service_name'', JStr (pe_service_name e)),
     (''root_cause'', JStr (get_or (st_root_cause st) [])),
     (''suggested_fix'', JStr (get_or (st_suggested_fix st) [])),
     (''confidence_score'', jopt JFlt (st_confidence_score st)),
     (''crash_file'', JStr (pe_crash_file e)),
     (''crash_line'', JInt (pe_crash_line e)),
     (''crash_method'', JStr (pe_crash_method e)),
     (''is_draft'', JBool is_draft),
     (''total_latency_ms'', JInt latency)]"

subsection \<open>Steps 3 to 6, under the lock\<close>

text \<open>Step 3, an active incident exists.\<close>

definition on_duplicate ::
  "run_env \<Rightarrow> uuid \<Rightarrow> parsed_log_event \<Rightarrow> incident \<Rightarrow> db2 \<Rightarrow> outcome res \<times> db2 \<times> effect list" where
  "on_duplicate env tenant e existing db =
     (case record_duplicate_occurrence (rn_tx env) existing (pe_s3_path e) db of
        (Inl ex, db') \<Rightarrow> (Inl ex, db', [])
      | (Inr n, db') \<Rightarrow>
          (Inr (DuplicateRecorded (i_id existing) n), db',
           [EsLinkLog (pe_incident_id e) (pe_tenant_id e) (shown_plan tenant db) (i_id existing)
              (i_severity existing) (i_status existing),
            WsDuplicate (i_id existing) n]))"

text \<open>Steps 5 and 6, the workflow has answered.\<close>

definition on_analysed ::
  "run_env \<Rightarrow> uuid \<Rightarrow> parsed_log_event \<Rightarrow> string \<Rightarrow> agent_state \<Rightarrow> db2 \<Rightarrow>
   outcome res \<times> db2 \<times> effect list" where
  "on_analysed env tenant e fingerprint st0 db =
     (let st = st0\<lparr>st_total_latency_ms := Some (rn_latency_ms env)\<rparr>;
          (action, is_draft) = decide_action st
      in if \<not> get_or (st_actionable st) True then (Inr NotActionable, db, [])
         else case persist_new_incident (rn_tx env) tenant e fingerprint st is_draft db of
                (Inl (IntegrityError _), db', _) \<Rightarrow> (Inr LateDuplicate, db', [])
              | (Inl ex, db', _) \<Rightarrow> (Inl ex, db', [])
              | (Inr p, db', pushes) \<Rightarrow>
                  (Inr (Completed \<lparr>cp_action = action, cp_new_incident_id = ps_incident_id p,
                     cp_new_analysis_id = ps_analysis_id p, cp_is_draft = is_draft,
                     cp_confidence_score = st_confidence_score st,
                     cp_structured_patch = str_or (st_structured_patch st) [],
                     cp_root_cause = str_or (st_root_cause st) [],
                     cp_suggested_fix = str_or (st_suggested_fix st) [],
                     cp_delivery_ids = ps_delivery_ids p\<rparr>), db',
                   map SqsPush pushes @
                   [EsLinkLog (pe_incident_id e) (pe_tenant_id e) (shown_plan tenant db)
                      (ps_incident_id p)
                      (if is_draft then ''unknown'' else str_or (st_severity st) (pe_severity e))
                      ''open'',
                    WsAnalysis (ps_incident_id p)
                      (ws_payload (ps_incident_id p) (pe_tenant_id e) e st is_draft
                         (rn_latency_ms env))]))"

definition run_locked ::
  "'s workflow \<Rightarrow> run_env \<Rightarrow> uuid \<Rightarrow> parsed_log_event \<Rightarrow> json \<Rightarrow> string \<Rightarrow> 's \<Rightarrow> db2 \<Rightarrow>
   outcome res \<times> 's \<times> db2 \<times> effect list" where
  "run_locked workflow env tenant e d fingerprint s db =
     (case rn_db_error env of
        Some ex \<Rightarrow> (Inl ex, s, db, [])
      | None \<Rightarrow>
          (let es = EsParsedFields (pe_incident_id e) (pe_tenant_id e) (shown_plan tenant db)
                      (pe_error_type e) (pe_severity e) (pe_crash_file e) (pe_crash_line e)
           in case find_active_by_fingerprint tenant fingerprint db of
                Some existing \<Rightarrow>
                  (let (r, db', fx) = on_duplicate env tenant e existing db in (r, s, db', es # fx))
              | None \<Rightarrow>
                  (case workflow db (initial_state (pe_tenant_id e) d fingerprint) s of
                     (Inl ex, s') \<Rightarrow> (Inl ex, s', db, [es])
                   | (Inr st, s') \<Rightarrow>
                       (let (r, db', fx) = on_analysed env tenant e fingerprint st db
                        in (r, s', db', es # fx)))))"

subsection \<open>The coroutine\<close>

definition execute_run_agent ::
  "(string \<Rightarrow> string) \<Rightarrow> 's redis \<Rightarrow> 's workflow \<Rightarrow> run_env \<Rightarrow> json \<Rightarrow> 's \<Rightarrow> db2 \<Rightarrow>
   outcome res \<times> 's \<times> db2 \<times> effect list" where
  "execute_run_agent sha256 R workflow env d s db =
     (case from_dict d of
        Inl ex \<Rightarrow> (Inl (ValueError ''Invalid ParsedLogEvent dict''), s, db, [])
      | Inr e \<Rightarrow>
          (case uuid_parse (pe_tenant_id e) of
             None \<Rightarrow> (Inl (ValueError ''Invalid tenant_id UUID''), s, db, [])
           | Some tenant \<Rightarrow>
               (let fingerprint = event_fingerprint sha256 e in
                case acquire_dedup_lock R fingerprint (rn_task_id env) s of
                  (Inl ex, s1) \<Rightarrow> (Inl ex, s1, db, [])
                | (Inr False, s1) \<Rightarrow> (Inr LockContention, s1, db, [])
                | (Inr True, s1) \<Rightarrow>
                    (let (r, s2, db', fx) = run_locked workflow env tenant e d fingerprint s1 db in
                     case release_dedup_lock R fingerprint s2 of
                       (Inl ex, s3) \<Rightarrow> (Inl ex, s3, db', fx)
                     | (Inr _, s3) \<Rightarrow> (r, s3, db', fx)))))"

subsection \<open>The Celery task\<close>

datatype task_end = Returned outcome | Retried | Raised exn

definition max_retries :: nat where
  "max_retries = 5"

definition autoretry_for :: "exn \<Rightarrow> bool" where
  "autoretry_for e = (case e of OSErr _ \<Rightarrow> True | TimeoutErr \<Rightarrow> True | RedisConnectionError \<Rightarrow> True
     | OperationalError _ \<Rightarrow> True | _ \<Rightarrow> False)"

definition dispatches :: "json \<Rightarrow> outcome \<Rightarrow> effect list" where
  "dispatches d oc =
     (case oc of
        Completed c \<Rightarrow>
          (if cp_action c \<in> set [''create_incident'', ''store_draft''] \<and>
              cp_structured_patch c \<noteq> [] \<and> cp_new_incident_id c \<noteq> []
           then [GithubPrTask (str_or (jstring (jget ''tenant_id'' d)) []) (cp_new_incident_id c)
                   (cp_structured_patch c) (str_or (jstring (jget ''error_type'' d)) [])
                   (cp_root_cause c) (cp_suggested_fix c) (cp_is_draft c)]
           else []) @
          map NotificationTask (cp_delivery_ids c)
      | _ \<Rightarrow> [])"

definition run_agent ::
  "(string \<Rightarrow> string) \<Rightarrow> 's redis \<Rightarrow> 's workflow \<Rightarrow> run_env \<Rightarrow> nat \<Rightarrow> bool \<Rightarrow> json \<Rightarrow> 's \<Rightarrow> db2 \<Rightarrow>
   task_end \<times> 's \<times> db2 \<times> effect list" where
  "run_agent sha256 R workflow env retries broker_up d s db =
     (case execute_run_agent sha256 R workflow env d s db of
        (Inl ex, s', db', fx) \<Rightarrow>
          (if autoretry_for ex \<and> retries < max_retries then Retried else Raised ex, s', db', fx)
      | (Inr oc, s', db', fx) \<Rightarrow>
          (Returned oc, s', db', fx @ (if broker_up then dispatches d oc else [])))"

subsection \<open>Facts about the locked part\<close>

definition occurrences_of :: "uuid \<Rightarrow> string \<Rightarrow> db2 \<Rightarrow> int" where
  "occurrences_of t fp db = sum_list (map i_occurrence_count (active_incidents t fp db))"

text \<open>How many occurrences an outcome stands for.\<close>

definition counted :: "outcome res \<Rightarrow> int" where
  "counted r = (case r of Inr (DuplicateRecorded _ _) \<Rightarrow> 1 | Inr (Completed _) \<Rightarrow> 1 | _ \<Rightarrow> 0)"

definition ids_distinct :: "db2 \<Rightarrow> bool" where
  "ids_distinct db = distinct (map i_id (incidents db))"

lemma counted_simps [simp]:
  "counted (Inl ex) = 0" "counted (Inr LockContention) = 0" "counted (Inr NotActionable) = 0"
  "counted (Inr LateDuplicate) = 0" "counted (Inr (DuplicateRecorded i n)) = 1"
  "counted (Inr (Completed c)) = 1"
  by (simp_all add: counted_def)

lemma active_for_bump [simp]: "active_for t fp (bump now k i) = active_for t fp i"
  by (simp add: active_for_def bump_def)

lemma bump_row_other: "x \<notin> i_id ` set is \<Longrightarrow> bump_row now k x is = is"
  by (induction "is") (auto simp: bump_row_def)

lemma map_id_bump_row [simp]: "map i_id (bump_row now k x is) = map i_id is"
  by (induction "is") (auto simp: bump_row_def)

lemma sum_bump_row:
  assumes "distinct (map i_id is)" "x \<in> set is"
  shows "sum_list (map i_occurrence_count
             (filter (active_for t fp) (bump_row now k (i_id x) is))) =
         sum_list (map i_occurrence_count (filter (active_for t fp) is)) +
         (if active_for t fp x then 1 else 0)"
  using assms
proof (induction "is")
  case Nil
  then show ?case by simp
next
  case (Cons i "is")
  show ?case
  proof (cases "i = x")
    case True
    with Cons.prems have "bump_row now k (i_id x) is = is" by (intro bump_row_other) auto
    with True show ?thesis by (simp add: bump_row_def) (simp add: bump_def)
  next
    case False
    with Cons.prems have "x \<in> set is" "i_id i \<noteq> i_id x" by auto
    with Cons show ?thesis by (simp add: bump_row_def)
  qed
qed

lemma on_duplicate_cases:
  assumes "on_duplicate env tenant e existing db = (r, db', fx)"
  obtains (failed) ex where "r = Inl ex" "db' = db"
  | (recorded) n where "r = Inr (DuplicateRecorded (i_id existing) n)"
      "record_duplicate_occurrence (rn_tx env) existing (pe_s3_path e) db = (Inr n, db')"
      "incidents db' = bump_row (tx_now (rn_tx env)) (pe_s3_path e) (i_id existing) (incidents db)"
proof (cases "record_duplicate_occurrence (rn_tx env) existing (pe_s3_path e) db")
  case (Pair r0 db0)
  from Pair show ?thesis
  proof (cases rule: record_duplicate_cases)
    case (failed ex)
    with Pair assms show ?thesis by (intro that(1) [of ex]) (simp_all add: on_duplicate_def)
  next
    case (recorded ev n)
    with Pair assms show ?thesis
      by (intro that(2) [of n]) (auto simp: on_duplicate_def)
  qed
qed

lemma on_duplicate_accounting:
  assumes "on_duplicate env tenant e existing db = (r, db', fx)"
    and "existing \<in> set (incidents db)" "ids_distinct db"
  shows "occurrences_of t fp db' =
         occurrences_of t fp db + (if active_for t fp existing then counted r else 0)"
  using assms(1)
proof (cases rule: on_duplicate_cases)
  case (recorded n)
  then show ?thesis
    using sum_bump_row [OF assms(3) [unfolded ids_distinct_def] assms(2)]
    by (simp add: occurrences_of_def active_incidents_def)
qed simp

text \<open>The cases of steps 5 and 6.\<close>

lemma on_analysed_cases:
  assumes "on_analysed env tenant e fp st db = (r, db', fx)"
  obtains (unchanged) "counted r = 0" "db' = db" "\<nexists>c. r = Inr (Completed c)"
      "r \<noteq> Inr LockContention"
  | (stored) c p pushes st' where "r = Inr (Completed c)" "get_or (st_actionable st) True"
      "st' = st\<lparr>st_total_latency_ms := Some (rn_latency_ms env)\<rparr>"
      "persist_new_incident (rn_tx env) tenant e fp st' (snd (decide_action st')) db =
         (Inr p, db', pushes)"
      "cp_new_incident_id c = ps_incident_id p" "cp_delivery_ids c = ps_delivery_ids p"
proof -
  define st' where "st' = st\<lparr>st_total_latency_ms := Some (rn_latency_ms env)\<rparr>"
  obtain action draft where act: "decide_action st' = (action, draft)" by fastforce
  obtain r0 db0 pushes where
    run: "persist_new_incident (rn_tx env) tenant e fp st' draft db = (r0, db0, pushes)"
    by (metis prod_cases3)
  have actionable: "st_actionable st' = st_actionable st" by (simp add: st'_def)
  show ?thesis
  proof (cases "get_or (st_actionable st) True")
    case False
    then have "(r, db', fx) = (Inr NotActionable, db, [])"
      using assms act by (simp add: on_analysed_def Let_def st'_def [symmetric] actionable)
    then show ?thesis by (intro unchanged) simp_all
  next
    case True
    show ?thesis
    proof (cases r0)
      case (Inl ex)
      then have "db0 = db" using persist_Inl run by blast
      with assms act run Inl True show ?thesis
        by (intro unchanged)
           (auto simp: on_analysed_def Let_def st'_def [symmetric] actionable split: exn.splits)
    next
      case (Inr p)
      with assms act run True
      have "\<exists>c. r = Inr (Completed c) \<and> db' = db0 \<and> cp_new_incident_id c = ps_incident_id p \<and>
                cp_delivery_ids c = ps_delivery_ids p"
        by (auto simp: on_analysed_def Let_def st'_def [symmetric] actionable)
      then obtain c where "r = Inr (Completed c)" "db' = db0"
        "cp_new_incident_id c = ps_incident_id p" "cp_delivery_ids c = ps_delivery_ids p" by blast
      with act run Inr True show ?thesis
        by (intro stored [of c st' p pushes]) (simp_all add: st'_def)
    qed
  qed
qed

text \<open>What they do to the table of incidents: nothing, or one new row that passed the constraints.\<close>

lemma on_analysed_incidents:
  assumes "on_analysed env tenant e fp st db = (r, db', fx)"
  obtains (unchanged) "counted r = 0" "db' = db" "r \<noteq> Inr LockContention"
  | (stored) c inc where "r = Inr (Completed c)"
      "incidents db' = incidents db @ [inc]" "uq_active db' = uq_active db"
      "i_tenant_id inc = tenant" "i_fingerprint inc = fp" "i_status inc = ''open''"
      "i_occurrence_count inc = 1" "tenant_known tenant db" "i_id inc \<notin> i_id ` set (incidents db)"
      "uq_active db \<longrightarrow> active_incidents tenant fp db = []"
  using assms
proof (cases rule: on_analysed_cases)
  case unchanged
  then show ?thesis using that(1) by simp
next
  case (stored c p pushes st')
  from stored(4) show ?thesis
  proof (rule persist_Inr)
    fix ds created analyzed db1
    let ?inc = "new_incident (rn_tx env) tenant e fp st'
                  (incident_severity st' e (snd (decide_action st')))"
    assume ins: "insert_incident ?inc db = Inr db1"
      and eq: "db' = db1\<lparr>analyses := analyses db @ [new_analysis (rn_tx env) tenant st'
                  (incident_severity st' e (snd (decide_action st')))
                  (str_or (st_error_category st') ''unknown'')],
               notification_deliveries := notification_deliveries db @ ds,
               outbox := outbox db @ [created, analyzed]\<rparr>"
    show ?thesis
      using insert_incident_InrD [OF ins]
      by (intro that(2) [of c ?inc]) (simp_all add: eq stored(1))
  qed
qed

lemma on_analysed_accounting:
  assumes "on_analysed env tenant e fp' st db = (r, db', fx)"
  shows "occurrences_of t fp db' =
         occurrences_of t fp db + (if t = tenant \<and> fp = fp' then counted r else 0)"
  using assms
  by (cases rule: on_analysed_incidents)
     (auto simp: occurrences_of_def active_incidents_def active_for_def)

lemma run_locked_cases:
  assumes "run_locked workflow env tenant e d fp s db = (r, s', db', fx)"
  obtains (db_down) ex where "r = Inl ex" "db' = db"
  | (duplicate) existing fx' where "find_active_by_fingerprint tenant fp db = Some existing"
      "on_duplicate env tenant e existing db = (r, db', fx')" "s' = s"
  | (workflow_failed) ex where "find_active_by_fingerprint tenant fp db = None" "r = Inl ex" "db' = db"
  | (analysed) st fx' where "find_active_by_fingerprint tenant fp db = None"
      "workflow db (initial_state (pe_tenant_id e) d fp) s = (Inr st, s')"
      "on_analysed env tenant e fp st db = (r, db', fx')"
  using assms
  by (auto simp: run_locked_def Let_def split: option.splits prod.splits sum.splits)

lemma run_locked_not_contention:
  assumes "run_locked workflow env tenant e d fp s db = (r, s', db', fx)"
  shows "r \<noteq> Inr LockContention"
  using assms
proof (cases rule: run_locked_cases)
  case (duplicate existing fx')
  from duplicate(2) show ?thesis by (cases rule: on_duplicate_cases) simp_all
next
  case (analysed st fx')
  from analysed(3) show ?thesis by (cases rule: on_analysed_cases) simp_all
qed simp_all

lemma run_locked_accounting:
  assumes "run_locked workflow env tenant e d fp' s db = (r, s', db', fx)" "ids_distinct db"
  shows "occurrences_of t fp db' =
         occurrences_of t fp db + (if t = tenant \<and> fp = fp' then counted r else 0)"
  using assms(1)
proof (cases rule: run_locked_cases)
  case (duplicate existing fx')
  note ex = find_active_SomeD [OF duplicate(1)]
  then have "active_for t fp existing = (t = tenant \<and> fp = fp')"
    by (auto simp: active_for_def)
  with on_duplicate_accounting [OF duplicate(2) _ assms(2), of t fp] ex show ?thesis by simp
next
  case (analysed st fx')
  from on_analysed_accounting [OF analysed(3)] show ?thesis .
qed simp_all

lemma on_duplicate_index_ok:
  assumes "on_duplicate env tenant e existing db = (r, db', fx)"
  shows "index_ok db' = index_ok db \<and> uq_active db' = uq_active db"
  using assms
proof (cases rule: on_duplicate_cases)
  case (recorded n)
  then show ?thesis using record_duplicate_index_ok [OF recorded(2)] by simp
qed simp

lemma on_analysed_index_ok:
  assumes "on_analysed env tenant e fp st db = (r, db', fx)" "index_ok db"
    and "uq_active db \<or> active_incidents tenant fp db = []"
  shows "index_ok db' \<and> uq_active db' = uq_active db"
  using assms(1)
proof (cases rule: on_analysed_incidents)
  case (stored c inc)
  then have "active_incidents tenant fp db = []" using assms(3) by blast
  with stored assms(2) show ?thesis
    by (auto simp: index_ok_def active_incidents_Nil_iff index_key_def)
qed (use assms in simp)

lemma run_locked_index_ok:
  assumes "run_locked workflow env tenant e d fp s db = (r, s', db', fx)" "uq_active db" "index_ok db"
  shows "index_ok db' \<and> uq_active db'"
  using assms(1)
proof (cases rule: run_locked_cases)
  case (duplicate existing fx')
  then show ?thesis using on_duplicate_index_ok [OF duplicate(2)] assms by simp
next
  case (analysed st fx')
  then show ?thesis using on_analysed_index_ok [OF analysed(3)] assms by simp
qed (use assms in simp_all)

text \<open>A counted outcome leaves an active incident behind.\<close>

lemma on_analysed_active:
  assumes "on_analysed env tenant e fp st db = (r, db', fx)" "counted r = 1"
  shows "active_incidents tenant fp db' \<noteq> []"
  using assms
  by (cases rule: on_analysed_incidents) (auto simp: active_incidents_def active_for_def)

lemma find_active_bump:
  assumes "x \<in> set is" "active_for t fp x"
  shows "\<exists>i \<in> set (bump_row now k (i_id x) is). active_for t fp i"
proof (rule bexI)
  show "bump now k x \<in> set (bump_row now k (i_id x) is)"
    using assms(1) by (force simp: bump_row_def)
  show "active_for t fp (bump now k x)" using assms(2) by simp
qed

lemma on_duplicate_active:
  assumes "on_duplicate env tenant e existing db = (Inr oc, db', fx)"
    "existing \<in> set (incidents db)" "active_for t fp existing"
  shows "active_incidents t fp db' \<noteq> []"
  using assms(1)
proof (cases rule: on_duplicate_cases)
  case (recorded n)
  with find_active_bump [OF assms(2,3)] show ?thesis
    by (auto simp: active_incidents_def filter_empty_conv)
qed simp

lemma run_locked_active:
  assumes "run_locked workflow env tenant e d fp s db = (r, s', db', fx)" "counted r = 1"
  shows "active_incidents tenant fp db' \<noteq> []"
  using assms(1)
proof (cases rule: run_locked_cases)
  case (duplicate existing fx')
  obtain oc where "r = Inr oc" using assms(2) by (cases r) auto
  with duplicate(2) have "on_duplicate env tenant e existing db = (Inr oc, db', fx')" by simp
  from on_duplicate_active [OF this] find_active_SomeD [OF duplicate(1)] show ?thesis by simp
next
  case (analysed st fx')
  from on_analysed_active [OF analysed(3) assms(2)] show ?thesis .
qed (use assms(2) in simp_all)

subsection \<open>The coroutine over the lock's contract\<close>

context redis_server begin

lemma execute_cases:
  assumes "execute_run_agent sha256 R workflow env d s db = (r, s', db', fx)"
    and "from_dict d = Inr e" "uuid_parse (pe_tenant_id e) = Some tenant"
  obtains (contended) "r = Inr LockContention" "db' = db" "fx = []"
      "acquire_dedup_lock R (event_fingerprint sha256 e) (rn_task_id env) s = (Inr False, s')"
  | (ran) s1 s2 where
      "acquire_dedup_lock R (event_fingerprint sha256 e) (rn_task_id env) s = (Inr True, s1)"
      "run_locked workflow env tenant e d (event_fingerprint sha256 e) s1 db = (r, s2, db', fx)"
      "release_dedup_lock R (event_fingerprint sha256 e) s2 = (Inr (), s')"
proof -
  let ?fp = "event_fingerprint sha256 e"
  obtain b s1 where acq: "acquire_dedup_lock R ?fp (rn_task_id env) s = (Inr b, s1)"
    using lock.acquire_total by blast
  show ?thesis
  proof (cases b)
    case False
    with acq assms show ?thesis
      by (intro contended) (simp_all add: execute_run_agent_def Let_def)
  next
    case True
    obtain r0 s2 db0 fx0 where run: "run_locked workflow env tenant e d ?fp s1 db = (r0, s2, db0, fx0)"
      by (metis prod_cases4)
    obtain s3 where rel: "release_dedup_lock R ?fp s2 = (Inr (), s3)"
      using lock.release_total by blast
    have "(r, s', db', fx) = (r0, s3, db0, fx0)"
      using assms acq True run rel by (simp add: execute_run_agent_def Let_def)
    with acq True run rel show ?thesis by (intro ran [of s1 s2]) simp_all
  qed
qed

end

text \<open>A message that does not validate changes nothing.\<close>

lemma execute_invalid:
  assumes "from_dict d = Inl ex \<or> (from_dict d = Inr e \<and> uuid_parse (pe_tenant_id e) = None)"
  shows "\<exists>m. execute_run_agent sha256 R workflow env d s db = (Inl (ValueError m), s, db, [])"
  using assms by (auto simp: execute_run_agent_def)

lemma find_bump_row:
  assumes "distinct (map i_id is)" "x \<in> set is"
  shows "List.find (\<lambda>i. i_id i = i_id x) (bump_row now k (i_id x) is) = Some (bump now k x)"
  using assms by (induction "is") (auto simp: bump_row_def)

lemma bump_row_eq:
  assumes "distinct (map i_id is)" "x \<in> set is"
  shows "bump_row now k (i_id x) is = map (\<lambda>i. if i = x then bump now k i else i) is"
  using assms unfolding bump_row_def by (intro map_cong) (auto simp: distinct_map dest: inj_onD)

lemma on_duplicate_exact:
  assumes "on_duplicate env tenant e existing db = (r, db', fx)"
    and "existing \<in> set (incidents db)" "ids_distinct db"
  shows "(\<exists>ex. r = Inl ex \<and> db' = db) \<or>
         (\<exists>ev. r = Inr (DuplicateRecorded (i_id existing) (i_occurrence_count existing + 1)) \<and>
             db' = db\<lparr>incidents := map (\<lambda>i. if i = existing
                          then bump (tx_now (rn_tx env)) (pe_s3_path e) i else i) (incidents db),
                      outbox := outbox db @ [ev]\<rparr> \<and>
             ob_topic ev = ''incidents.duplicate_recorded'' \<and>
             jget ''source_version'' (ob_payload ev) = JInt (i_occurrence_count existing + 1))"
proof (cases "record_duplicate_occurrence (rn_tx env) existing (pe_s3_path e) db")
  case (Pair r0 db0)
  note row = find_bump_row [OF assms(3) [unfolded ids_distinct_def] assms(2)]
    bump_row_eq [OF assms(3) [unfolded ids_distinct_def] assms(2)]
  from Pair show ?thesis
  proof (cases rule: record_duplicate_cases)
    case (failed ex)
    with Pair assms(1) show ?thesis by (auto simp: on_duplicate_def)
  next
    case (recorded ev n)
    have n: "n = i_occurrence_count existing + 1"
      using recorded(6) by (simp add: row(1)) (simp add: bump_def)
    have "r = Inr (DuplicateRecorded (i_id existing) n)" "db' = db0"
      using Pair assms(1) recorded(1) by (simp_all add: on_duplicate_def)
    with recorded n show ?thesis by (auto simp: row(2))
  qed
qed

lemma execute_skips_workflow:
  assumes "from_dict d = Inr e" "uuid_parse (pe_tenant_id e) = Some tenant"
    and "find_active_by_fingerprint tenant (event_fingerprint sha256 e) db = Some existing"
  shows "execute_run_agent sha256 R workflow' env d s db =
         execute_run_agent sha256 R workflow env d s db"
proof -
  have "run_locked workflow' env tenant e d (event_fingerprint sha256 e) x db =
        run_locked workflow env tenant e d (event_fingerprint sha256 e) x db" for x
    using assms(3) by (simp add: run_locked_def split: option.split)
  with assms(1,2) show ?thesis
    by (auto simp: execute_run_agent_def Let_def split: prod.splits sum.splits bool.splits)
qed

text \<open>Without the tenant's snapshot nothing can be stored for it.\<close>

lemma on_analysed_unknown_tenant:
  assumes "on_analysed env tenant e fp st db = (r, db', fx)" "\<not> tenant_known tenant db"
  shows "db' = db \<and> counted r = 0"
  using assms by (cases rule: on_analysed_incidents) simp_all

lemma run_locked_unknown_tenant:
  assumes "run_locked workflow env tenant e d fp s db = (r, s', db', fx)"
    "\<not> tenant_known tenant db" "active_incidents tenant fp db = []"
  shows "db' = db \<and> counted r = 0"
  using assms(1)
proof (cases rule: run_locked_cases)
  case (duplicate existing fx')
  with assms(3) show ?thesis by (simp add: find_active_None_iff [symmetric])
next
  case (analysed st fx')
  from on_analysed_unknown_tenant [OF analysed(3) assms(2)] show ?thesis .
qed simp_all

end
