(* ===== verification/Run_Agent_Spec.thy ===== *)
theory Run_Agent_Spec
  imports Run_Agent
begin

text \<open>
  What \<open>run_agent\<close> guarantees: the accounting of occurrences, the uniqueness of active incidents, the
  treatment of duplicates, the release of the lock, the atomicity of the new incident's transaction.
  The theory opens with a small world (a tenant, an event, an in-memory Redis) for evaluations.
\<close>

subsection \<open>A small world for evaluation\<close>

definition tenant_a :: uuid where
  "tenant_a = ''0a000000-0000-4000-8000-00000000000a''"

definition sample_fresh :: "nat \<Rightarrow> uuid" where
  "sample_fresh n = ''0b000000-0000-4000-8000-0000000000'' @ [hex_digit (n div 16 mod 16), hex_digit (n mod 16)]"

definition sample_tx :: tx_env where
  "sample_tx = \<lparr>tx_now = 1700000000000000, tx_fresh = sample_fresh, tx_commit_error = None,
                tx_sqs_ok = True\<rparr>"

definition sample_env :: run_env where
  "sample_env = \<lparr>rn_task_id = ''task-1'', rn_tx = sample_tx, rn_db_error = None, rn_latency_ms = 42\<rparr>"

definition sample_event :: parsed_log_event where
  "sample_event = \<lparr>pe_tenant_id = tenant_a, pe_incident_id = ''0c000000-0000-4000-8000-00000000000c'',
     pe_s3_path = ''logs/1'', pe_service_name = ''pay'', pe_environment = ''prod'',
     pe_error_type = ''ValueError'', pe_error_message = ''bad'', pe_severity = ''error'',
     pe_crash_file = ''app/a.py'', pe_crash_line = 12, pe_crash_method = ''f'',
     pe_stack_frames = [], pe_context_log_count = 1, pe_sdk_meta = JNull\<rparr>"

definition sample_json :: json where
  "sample_json = to_dict sample_event"

definition sample_tenant :: tenant_snapshot where
  "sample_tenant = \<lparr>ts_tenant_id = tenant_a, ts_plan_tier = Some ''pro'', ts_vector_namespace = None,
     ts_kafka_group_id = None, ts_is_suspended = False, ts_source_version = Some 1\<rparr>"

definition sample_db :: "bool \<Rightarrow> db2" where
  "sample_db uq = (empty_db2 uq)\<lparr>tenant_snapshots := [sample_tenant]\<rparr>"

definition sample_state :: agent_state where
  "sample_state = empty_state\<lparr>st_actionable := Some True, st_severity := Some ''high'',
     st_action := Some ''create_incident'', st_confidence_score := Some (9/10),
     st_confidence_threshold := Some (7/10), st_structured_patch := Some ''[]''\<rparr>"

definition sample_workflow :: "mem workflow" where
  "sample_workflow db st s = (Inr sample_state, s)"

definition idle :: mem where
  "idle = \<lparr>m_store = (\<lambda>_. None), m_now = 0, m_fail = []\<rparr>"

definition sample_sha :: "string \<Rightarrow> string" where
  "sample_sha x = ''f0''"

lemma sample_from_dict: "from_dict sample_json = Inr sample_event"
  by code_simp

lemma sample_uuid: "uuid_parse (pe_tenant_id sample_event) = Some tenant_a"
  by code_simp

abbreviation sample_run where
  "sample_run \<equiv> execute_run_agent sample_sha mem sample_workflow sample_env sample_json"

lemma sample_first_run:
  "(case sample_run idle (sample_db True) of (Inr (Completed c), s, db, fx) \<Rightarrow>
      m_store s (dedup_lock_key ''f0'') = None \<and> length (incidents db) = 1 \<and> length (outbox db) = 2 \<and>
      cp_action c = ''create_incident'' \<and> cp_structured_patch c = ''[]'' \<and> cp_new_incident_id c \<noteq> []
    | _ \<Rightarrow> False)"
  by code_simp

subsection \<open>What a run does to the database\<close>

text \<open>C1: Whatever happens in a run (contention, duplicate, late duplicate, refusal,
  failure of the workflow or of the commit), the total number of occurrences recorded on the active
  incidents of the event's tenant and fingerprint grows by one exactly when the task reports the event as a
  recorded duplicate or as a completed new incident, and no other tenant's or fingerprint's total moves.\<close>

theorem run_agent_counts_once:
  assumes "redis_server R view"
    and "execute_run_agent sha256 R workflow env d s db = (r, s', db', fx)"
    and "from_dict d = Inr e" and "uuid_parse (pe_tenant_id e) = Some tenant" and "ids_distinct db"
  shows "occurrences_of t fp db' =
         occurrences_of t fp db +
         (if t = tenant \<and> fp = event_fingerprint sha256 e then counted r else 0)"
  using redis_server.execute_cases [OF assms(1-4)]
proof cases
  case (2 s1 s2)
  note ran = this
  from run_locked_accounting [OF ran(2) assms(5)] show ?thesis .
qed simp

lemma run_agent_counts_once_witness:
  "(case sample_run idle (sample_db False) of (r, s, db, fx) \<Rightarrow>
      occurrences_of tenant_a ''f0'' db = counted r)"
proof -
  obtain r s db fx where run: "sample_run idle (sample_db False) = (r, s, db, fx)"
    by (metis prod_cases4)
  have "ids_distinct (sample_db False)" "occurrences_of tenant_a ''f0'' (sample_db False) = 0"
    "event_fingerprint sample_sha sample_event = ''f0''"
    by (simp_all add: ids_distinct_def sample_db_def empty_db2_def occurrences_of_def
          active_incidents_def event_fingerprint_def compute_fingerprint_def sample_sha_def)
  with run_agent_counts_once [OF mem.redis_server_axioms run sample_from_dict sample_uuid]
  show ?thesis by (simp add: run)
qed

text \<open>C2: With the partial unique index in place, an event that was counted
  leaves exactly one unresolved incident for its tenant and fingerprint, and no run ever leaves two
  unresolved incidents for any tenant and fingerprint.\<close>

theorem run_agent_single_active:
  assumes "redis_server R view"
    and "execute_run_agent sha256 R workflow env d s db = (r, s', db', fx)"
    and "from_dict d = Inr e" and "uuid_parse (pe_tenant_id e) = Some tenant"
    and "uq_active db" and "index_ok db"
  shows "index_ok db' \<and> uq_active db' \<and>
         (counted r = 1 \<longrightarrow> length (active_incidents tenant (event_fingerprint sha256 e) db') = 1)"
  using redis_server.execute_cases [OF assms(1-4)]
proof cases
  case 1
  with assms show ?thesis by simp
next
  case (2 s1 s2)
  note ran = this
  note ok = run_locked_index_ok [OF ran(2) assms(5,6)]
  have "length (active_incidents tenant (event_fingerprint sha256 e) db') = 1" if "counted r = 1"
    using run_locked_active [OF ran(2) that] index_ok_unique [of db' tenant "event_fingerprint sha256 e"] ok
    by (cases "active_incidents tenant (event_fingerprint sha256 e) db'") auto
  with ok show ?thesis by blast
qed

lemma run_agent_single_active_witness:
  "(case sample_run idle (sample_db True) of (r, s, db, fx) \<Rightarrow>
      length (active_incidents tenant_a ''f0'' db) = 1)"
proof -
  obtain r s db fx where run: "sample_run idle (sample_db True) = (r, s, db, fx)"
    by (metis prod_cases4)
  have "uq_active (sample_db True)" "index_ok (sample_db True)"
    "event_fingerprint sample_sha sample_event = ''f0''"
    by (simp_all add: sample_db_def empty_db2_def index_ok_def
          event_fingerprint_def compute_fingerprint_def sample_sha_def)
  moreover have "counted r = 1"
    using sample_first_run run by (auto split: sum.splits outcome.splits)
  ultimately show ?thesis
    using run_agent_single_active [OF mem.redis_server_axioms run sample_from_dict sample_uuid]
    by (simp add: run)
qed

text \<open>When an unresolved incident with the event's fingerprint exists, a run that
  gets the lock never consults the workflow (its answer cannot matter), creates no incident, analysis or
  delivery, and reports either a database error with nothing written or the duplicate; then exactly that
  incident's row has its count raised by one to the reported number and the event's S3 key appended, and one
  outbox row on the topic \<open>incidents.duplicate_recorded\<close> carries the new count as its version.\<close>

theorem run_agent_duplicate:
  assumes "redis_server R view"
    and "execute_run_agent sha256 R workflow env d s db = (r, s', db', fx)"
    and "from_dict d = Inr e" and "uuid_parse (pe_tenant_id e) = Some tenant"
    and "find_active_by_fingerprint tenant (event_fingerprint sha256 e) db = Some existing"
    and "ids_distinct db" and "r \<noteq> Inr LockContention"
  shows "execute_run_agent sha256 R workflow' env d s db = (r, s', db', fx) \<and>
         ((\<exists>ex. r = Inl ex \<and> db' = db) \<or>
          (\<exists>ev. r = Inr (DuplicateRecorded (i_id existing) (i_occurrence_count existing + 1)) \<and>
             db' = db\<lparr>incidents := map (\<lambda>i. if i = existing
                          then bump (tx_now (rn_tx env)) (pe_s3_path e) i else i) (incidents db),
                      outbox := outbox db @ [ev]\<rparr> \<and>
             ob_topic ev = ''incidents.duplicate_recorded'' \<and>
             jget ''source_version'' (ob_payload ev) = JInt (i_occurrence_count existing + 1)))"
  using redis_server.execute_cases [OF assms(1-4)]
proof cases
  case 1
  with assms(7) show ?thesis by simp
next
  case (2 s1 s2)
  note same = execute_skips_workflow [OF assms(3-5), of R workflow' env s workflow]
  note mem = conjunct1 [OF find_active_SomeD [OF assms(5)]]
  from 2(2) show ?thesis
  proof (cases rule: run_locked_cases)
    case (duplicate x fx')
    with assms(5) on_duplicate_exact [OF _ mem assms(6)] show ?thesis
      unfolding same assms(2) by fastforce
  qed (use assms same in simp_all)
qed

lemma run_agent_duplicate_witness:
  "(case sample_run idle ((sample_db True)
            \<lparr>incidents := [new_incident sample_tx tenant_a sample_event ''f0'' sample_state ''high'']\<rparr>) of
      (Inl ex, s, db, fx) \<Rightarrow> length (incidents db) = 1
    | (Inr oc, s, db, fx) \<Rightarrow> oc = DuplicateRecorded (sample_fresh 0) 2)"
proof -
  let ?i = "new_incident sample_tx tenant_a sample_event ''f0'' sample_state ''high''"
  let ?db = "(sample_db True)\<lparr>incidents := [?i]\<rparr>"
  have fp: "event_fingerprint sample_sha sample_event = ''f0''"
    by (simp add: event_fingerprint_def compute_fingerprint_def sample_sha_def)
  obtain r s' db fx where run: "sample_run idle ?db = (r, s', db, fx)" by (metis prod_cases4)
  have found: "find_active_by_fingerprint tenant_a (event_fingerprint sample_sha sample_event) ?db = Some ?i"
    by (simp add: find_active_by_fingerprint_def fp)
  have ok: "ids_distinct ?db" by (simp add: ids_distinct_def)
  have "r \<noteq> Inr LockContention"
    using mem.execute_cases [OF run sample_from_dict sample_uuid]
  proof cases
    case 1
    with mem.lock_contention show ?thesis by (fastforce simp: lock_held_def mem_view_def idle_def)
  next
    case (2 s1 s2)
    from run_locked_not_contention [OF 2(2)] show ?thesis .
  qed
  from run_agent_duplicate [OF mem.redis_server_axioms run sample_from_dict sample_uuid found ok this,
      of sample_workflow] run
  show ?thesis by (auto simp: sample_tx_def)
qed

text \<open>C3: A run that does not get the lock writes nothing, sends nothing, and the lock was
  held at that moment; a run that gets it ends, whichever way it ends (duplicate, failure of the
  workflow, refusal, integrity error, success), with the deletion of the lock's key as its last command,
  so that the key is free afterwards unless that very command failed.\<close>

theorem run_agent_lock:
  assumes "redis_server R view"
    and "execute_run_agent sha256 R workflow env d s db = (r, s', db', fx)"
    and "from_dict d = Inr e" and "uuid_parse (pe_tenant_id e) = Some tenant"
  shows "(r = Inr LockContention \<and> db' = db \<and> fx = [] \<and>
          view s (dedup_lock_key (event_fingerprint sha256 e)) \<noteq> None) \<or>
         (r \<noteq> Inr LockContention \<and>
          (\<exists>s2 reply. r_delete R (dedup_lock_key (event_fingerprint sha256 e)) s2 = (reply, s') \<and>
             (case reply of Inl ex \<Rightarrow> True
              | Inr n \<Rightarrow> view s' (dedup_lock_key (event_fingerprint sha256 e)) = None)))"
  using redis_server.execute_cases [OF assms(1-4)]
proof cases
  case 1
  with redis_server.lock_contention [OF assms(1)] show ?thesis by (auto simp: lock_held_def)
next
  case (2 s1 s2)
  obtain reply s3 where del: "r_delete R (dedup_lock_key (event_fingerprint sha256 e)) s2 = (reply, s3)"
    by fastforce
  with 2(3) have s3: "s3 = s'" by (auto simp: release_dedup_lock_def split: sum.splits if_splits)
  have "case reply of Inl ex \<Rightarrow> True
        | Inr n \<Rightarrow> view s' (dedup_lock_key (event_fingerprint sha256 e)) = None"
    using redis_server.delete_ok [OF assms(1)] del s3 by (cases reply) fastforce+
  with run_locked_not_contention [OF 2(2)] del s3 show ?thesis by blast
qed

lemma run_agent_lock_witness:
  "(case sample_run idle (sample_db True) of (r, s, db, fx) \<Rightarrow> r \<noteq> Inr LockContention)"
proof -
  obtain r s db fx where run: "sample_run idle (sample_db True) = (r, s, db, fx)"
    by (metis prod_cases4)
  have "mem_view idle k = None" for k by (simp add: mem_view_def idle_def)
  with run_agent_lock [OF mem.redis_server_axioms run sample_from_dict sample_uuid] run
  show ?thesis by auto
qed

text \<open>C4: Persisting a new incident is all or nothing.  On an exception the database is
  untouched and nothing is pushed.  On success the database gains exactly one open, non-draft incident (with the
  event's tenant and fingerprint), its analysis, the deliveries returned, all pending and all for that incident,
  and exactly two outbox rows, \<open>incidents.created\<close> and \<open>incidents.analyzed\<close>, keyed by the tenant; this
  holds for drafts too, whose created event says \<open>is_draft = false\<close>.\<close>

theorem persist_atomic:
  assumes "persist_new_incident env t e fp st is_draft db = (r, db', pushes)"
  shows "case r of
      Inl ex \<Rightarrow> db' = db \<and> pushes = []
    | Inr p \<Rightarrow> (\<exists>inc an ds created analyzed.
        db' = db\<lparr>incidents := incidents db @ [inc], analyses := analyses db @ [an],
                 notification_deliveries := notification_deliveries db @ ds,
                 outbox := outbox db @ [created, analyzed]\<rparr> \<and>
        i_id inc = ps_incident_id p \<and> i_tenant_id inc = t \<and> i_fingerprint inc = fp \<and>
        i_status inc = ''open'' \<and> \<not> i_is_draft inc \<and>
        i_id inc \<notin> i_id ` set (incidents db) \<and> an_incident_id an = i_id inc \<and>
        map nd_id ds = ps_delivery_ids p \<and>
        (\<forall>d \<in> set ds. nd_incident_id d = i_id inc \<and> nd_status d = ''pending'') \<and>
        ob_topic created = ''incidents.created'' \<and> ob_key created = t \<and>
        jget ''is_draft'' (jget ''payload'' (ob_payload created)) = JBool False \<and>
        ob_topic analyzed = ''incidents.analyzed'' \<and> ob_key analyzed = t)"
proof (cases r)
  case (Inl ex)
  with assms persist_Inl show ?thesis by fastforce
next
  case (Inr p)
  with assms have "persist_new_incident env t e fp st is_draft db = (Inr p, db', pushes)" by simp
  then show ?thesis
  proof (rule persist_Inr)
    fix ds created analyzed db1
    let ?inc = "new_incident env t e fp st (incident_severity st e is_draft)"
    let ?an = "new_analysis env t st (incident_severity st e is_draft)
                 (str_or (st_error_category st) ''unknown'')"
    assume *: "insert_incident ?inc db = Inr db1"
      "ob_topic created = ''incidents.created''" "ob_topic analyzed = ''incidents.analyzed''"
      "ob_key created = t" "ob_key analyzed = t"
      "jget ''is_draft'' (jget ''payload'' (ob_payload created)) = JBool False"
      "db' = db1\<lparr>analyses := analyses db @ [?an],
               notification_deliveries := notification_deliveries db @ ds,
               outbox := outbox db @ [created, analyzed]\<rparr>"
      "ps_incident_id p = tx_fresh env 0" "ps_delivery_ids p = map nd_id ds"
      "list_all (\<lambda>d. nd_incident_id d = tx_fresh env 0 \<and> nd_status d = ''pending'') ds"
    have "an_incident_id ?an = i_id ?inc" by (simp add: new_analysis_def Let_def)
    with * insert_incident_InrD [OF *(1)] show ?thesis
      unfolding Inr sum.case
      by (intro exI [of _ ?inc] exI [of _ ?an] exI [of _ ds] exI [of _ created] exI [of _ analyzed])
         (simp add: list_all_iff)
  qed
qed

lemma persist_atomic_witness:
  "(case persist_new_incident sample_tx tenant_a sample_event ''f0'' sample_state True (sample_db False) of
      (Inl ex, db, pushes) \<Rightarrow> incidents db = []
    | (Inr p, db, pushes) \<Rightarrow> length (outbox db) = 2)"
proof -
  obtain r db pushes where run: "persist_new_incident sample_tx tenant_a sample_event ''f0''
      sample_state True (sample_db False) = (r, db, pushes)" by (metis prod_cases3)
  from persist_atomic [OF run] show ?thesis
    unfolding run by (cases r) (auto simp: sample_db_def empty_db2_def)
qed

text \<open>The draft flag of a new incident decides nothing but its severity:
  persisting a draft is the same as persisting, not as a draft, the same analysis with severity
  \<open>unknown\<close>; same rows, same events, same notifications, same result.\<close>

theorem draft_is_only_a_severity:
  "persist_new_incident env t e fp st True db =
   persist_new_incident env t e fp (st\<lparr>st_severity := Some ''unknown''\<rparr>) False db"
proof -
  have sev: "incident_severity st e True = incident_severity (st\<lparr>st_severity := Some ''unknown''\<rparr>) e False"
    by (simp add: incident_severity_def)
  have inc: "new_incident env t e fp st sev =
      new_incident env t e fp (st\<lparr>st_severity := Some ''unknown''\<rparr>) sev" for sev
    by (simp add: new_incident_def)
  have an: "new_analysis env t st sev cat =
      new_analysis env t (st\<lparr>st_severity := Some ''unknown''\<rparr>) sev cat" for sev cat
    by (simp add: new_analysis_def build_node_results_def Let_def)
  show ?thesis
    unfolding persist_new_incident_def Let_def sev [symmetric] inc [symmetric] an [symmetric] by simp
qed

text \<open>An event whose tenant has no snapshot yet, and whose fingerprint has no
  active incident, is lost whatever the workflow says: nothing is stored and it is never counted.  (In
  the witness the task even reports a late duplicate of an incident that does not exist: the foreign key's
  violation is taken for the unique index's.)\<close>

theorem run_agent_unknown_tenant:
  assumes "redis_server R view"
    and "execute_run_agent sha256 R workflow env d s db = (r, s', db', fx)"
    and "from_dict d = Inr e" and "uuid_parse (pe_tenant_id e) = Some tenant"
    and "\<not> tenant_known tenant db" and "active_incidents tenant (event_fingerprint sha256 e) db = []"
  shows "db' = db \<and> counted r = 0"
  using redis_server.execute_cases [OF assms(1-4)]
proof cases
  case 2
  from run_locked_unknown_tenant [OF 2(2) assms(5,6)] show ?thesis .
qed simp

lemma reported_late_duplicate:
  "fst (on_analysed sample_env tenant_a sample_event ''f0'' sample_state (empty_db2 True)) =
   Inr LateDuplicate"
  by code_simp

lemma run_agent_unknown_tenant_witness:
  "(case sample_run idle (empty_db2 True) of (r, s, db, fx) \<Rightarrow> db = empty_db2 True \<and> counted r = 0)"
proof -
  obtain r s db fx where run: "sample_run idle (empty_db2 True) = (r, s, db, fx)"
    by (metis prod_cases4)
  have "\<not> tenant_known tenant_a (empty_db2 True)"
    "active_incidents tenant_a (event_fingerprint sample_sha sample_event) (empty_db2 True) = []"
    by (simp_all add: tenant_known_def empty_db2_def active_incidents_def)
  from run_agent_unknown_tenant [OF mem.redis_server_axioms run sample_from_dict sample_uuid this] run
  show ?thesis by simp
qed

text \<open>The task that opens a pull request is queued exactly for runs that
  completed with the action \<open>create_incident\<close> or \<open>store_draft\<close> and a non-empty patch, at most once, for the
  incident that run stored; drafts get pull requests too.  A notification task is queued for every
  delivery the run stored.  No other outcome, and no failed run, queues anything.\<close>

theorem github_pr_dispatch:
  assumes "run_agent sha256 R workflow env retries broker_up d s db = (tend, s', db', fx)"
    and "execute_run_agent sha256 R workflow env d s db = (r, s', db', fx0)"
  shows "(case r of
            Inl ex \<Rightarrow> fx = fx0 \<and> (tend = Retried \<longleftrightarrow> autoretry_for ex \<and> retries < 5)
          | Inr oc \<Rightarrow> tend = Returned oc \<and>
              (\<exists>prs notifications. fx = fx0 @ prs @ notifications \<and>
                 (case oc of
                    Completed c \<Rightarrow>
                      (broker_up \<longrightarrow> notifications = map NotificationTask (cp_delivery_ids c)) \<and>
                      length prs \<le> 1 \<and>
                      (prs \<noteq> [] \<longleftrightarrow> broker_up \<and> cp_new_incident_id c \<noteq> [] \<and> cp_structured_patch c \<noteq> [] \<and>
                         (cp_action c = ''create_incident'' \<or> cp_action c = ''store_draft'')) \<and>
                      (\<forall>p \<in> set prs. \<exists>ten ty. p = GithubPrTask ten (cp_new_incident_id c)
                         (cp_structured_patch c) ty (cp_root_cause c) (cp_suggested_fix c) (cp_is_draft c))
                  | _ \<Rightarrow> prs = [] \<and> notifications = [])))"
proof (cases r)
  case (Inl ex)
  with assms show ?thesis by (auto simp: run_agent_def max_retries_def split: if_splits)
next
  case (Inr oc)
  with assms have t: "tend = Returned oc" and fx: "fx = fx0 @ (if broker_up then dispatches d oc else [])"
    by (auto simp: run_agent_def)
  show ?thesis
  proof (cases "\<exists>c. oc = Completed c \<and> broker_up")
    case False
    then have "fx = fx0 @ [] @ []" by (auto simp: fx dispatches_def split: outcome.split)
    with Inr t False show ?thesis by (auto split: outcome.split)
  next
    case True
    then obtain c where c: "oc = Completed c" "broker_up" by blast
    show ?thesis
      unfolding Inr sum.case c outcome.case
      by (intro conjI exI [of _ "if cp_action c \<in> set [''create_incident'', ''store_draft''] \<and>
            cp_structured_patch c \<noteq> [] \<and> cp_new_incident_id c \<noteq> []
          then [GithubPrTask (str_or (jstring (jget ''tenant_id'' d)) []) (cp_new_incident_id c)
                   (cp_structured_patch c) (str_or (jstring (jget ''error_type'' d)) [])
                   (cp_root_cause c) (cp_suggested_fix c) (cp_is_draft c)] else []"]
          exI [of _ "map NotificationTask (cp_delivery_ids c)"])
         (use t c fx in \<open>auto simp: dispatches_def\<close>)
  qed
qed

lemma github_pr_dispatch_witness:
  "(case run_agent sample_sha mem sample_workflow sample_env 0 True sample_json idle (sample_db True) of
      (Returned (Completed c), s, db, fx) \<Rightarrow> \<exists>ten ty. GithubPrTask ten (cp_new_incident_id c)
         ''[]'' ty (cp_root_cause c) (cp_suggested_fix c) (cp_is_draft c) \<in> set fx
    | _ \<Rightarrow> False)"
proof -
  obtain r s db fx0 where run: "sample_run idle (sample_db True) = (r, s, db, fx0)"
    by (metis prod_cases4)
  then obtain c where c: "r = Inr (Completed c)" "cp_action c = ''create_incident''"
      "cp_structured_patch c = ''[]''" "cp_new_incident_id c \<noteq> []"
    using sample_first_run by (auto split: sum.splits outcome.splits)
  obtain tend s' db' fx where task: "run_agent sample_sha mem sample_workflow sample_env 0 True
      sample_json idle (sample_db True) = (tend, s', db', fx)" by (metis prod_cases4)
  with run c(1) have same: "s' = s" "db' = db" by (auto simp: run_agent_def)
  from github_pr_dispatch [OF task [unfolded same] run] c
  obtain prs ns where "tend = Returned (Completed c)" "fx = fx0 @ prs @ ns" "prs \<noteq> []"
    "\<forall>p \<in> set prs. \<exists>ten ty. p = GithubPrTask ten (cp_new_incident_id c)
       (cp_structured_patch c) ty (cp_root_cause c) (cp_suggested_fix c) (cp_is_draft c)"
    by auto
  with c show ?thesis unfolding task by (cases prs) auto
qed

end
