(* ===== verification/Interleaving.thy ===== *)
theory Interleaving
  imports Run_Agent_Spec
begin

text \<open>
  Several Celery workers run \<open>run_agent\<close> at once against one Redis and one database.  The steps of a
  worker are the code's atomic actions (the lock command, the SELECT, the transaction, the release), each
  by the definition that models it; between them other workers move, time passes and keys expire, the
  Redis server fails, and users resolve incidents.  With the unique index two unresolved incidents
  for one fingerprint are impossible; without it they are impossible only as long as no lock expires and
  Redis answers.
\<close>

record job =
  jb_tenant :: uuid
  jb_event :: parsed_log_event
  jb_fingerprint :: string
  jb_task :: string

text \<open>Where a worker is: between the actions of \<open>execute_run_agent\<close>.\<close>

datatype pc =
    Start
  | Locked
  | Found incident
  | Missing
  | Finishing "outcome res"
  | Done "outcome res"

record sys =
  sy_redis :: mem
  sy_db :: db2
  sy_pc :: "nat \<Rightarrow> pc"

datatype label = Worker nat | Tick int | Failures "bool list" | Resolve uuid

definition resolve_row :: "uuid \<Rightarrow> incident \<Rightarrow> incident" where
  "resolve_row i r = (if i_id r = i then r\<lparr>i_status := ''resolved''\<rparr> else r)"

inductive step :: "(nat \<Rightarrow> job) \<Rightarrow> sys \<Rightarrow> label \<Rightarrow> sys \<Rightarrow> bool" for jobs where
  acquired: "sy_pc s w = Start \<Longrightarrow>
     acquire_dedup_lock mem (jb_fingerprint (jobs w)) (jb_task (jobs w)) (sy_redis s) = (Inr True, m) \<Longrightarrow>
     step jobs s (Worker w) (s\<lparr>sy_redis := m, sy_pc := (sy_pc s)(w := Locked)\<rparr>)"
| contended: "sy_pc s w = Start \<Longrightarrow>
     acquire_dedup_lock mem (jb_fingerprint (jobs w)) (jb_task (jobs w)) (sy_redis s) = (Inr False, m) \<Longrightarrow>
     step jobs s (Worker w) (s\<lparr>sy_redis := m, sy_pc := (sy_pc s)(w := Done (Inr LockContention))\<rparr>)"
| found: "sy_pc s w = Locked \<Longrightarrow>
     find_active_by_fingerprint (jb_tenant (jobs w)) (jb_fingerprint (jobs w)) (sy_db s) = Some i \<Longrightarrow>
     step jobs s (Worker w) (s\<lparr>sy_pc := (sy_pc s)(w := Found i)\<rparr>)"
| missing: "sy_pc s w = Locked \<Longrightarrow>
     find_active_by_fingerprint (jb_tenant (jobs w)) (jb_fingerprint (jobs w)) (sy_db s) = None \<Longrightarrow>
     step jobs s (Worker w) (s\<lparr>sy_pc := (sy_pc s)(w := Missing)\<rparr>)"
| recorded: "sy_pc s w = Found i \<Longrightarrow>
     on_duplicate env (jb_tenant (jobs w)) (jb_event (jobs w)) i (sy_db s) = (r, db, fx) \<Longrightarrow>
     step jobs s (Worker w) (s\<lparr>sy_db := db, sy_pc := (sy_pc s)(w := Finishing r)\<rparr>)"
| analysed: "sy_pc s w = Missing \<Longrightarrow>
     on_analysed env (jb_tenant (jobs w)) (jb_event (jobs w)) (jb_fingerprint (jobs w)) st (sy_db s) =
       (r, db, fx) \<Longrightarrow>
     step jobs s (Worker w) (s\<lparr>sy_db := db, sy_pc := (sy_pc s)(w := Finishing r)\<rparr>)"
| failed: "sy_pc s w \<in> {Locked, Missing} \<Longrightarrow>
     step jobs s (Worker w) (s\<lparr>sy_pc := (sy_pc s)(w := Finishing (Inl ex))\<rparr>)"
| released: "sy_pc s w = Finishing r \<Longrightarrow>
     release_dedup_lock mem (jb_fingerprint (jobs w)) (sy_redis s) = (Inr (), m) \<Longrightarrow>
     step jobs s (Worker w) (s\<lparr>sy_redis := m, sy_pc := (sy_pc s)(w := Done r)\<rparr>)"
| tick: "0 \<le> d \<Longrightarrow> step jobs s (Tick d) (s\<lparr>sy_redis := mem_tick d (sy_redis s)\<rparr>)"
| flaky: "step jobs s (Failures fs) (s\<lparr>sy_redis := (sy_redis s)\<lparr>m_fail := fs\<rparr>\<rparr>)"
| resolved: "step jobs s (Resolve i)
     (s\<lparr>sy_db := (sy_db s)\<lparr>incidents := map (resolve_row i) (incidents (sy_db s))\<rparr>\<rparr>)"

inductive_cases stepE: "step jobs s l s'"
inductive_simps step_worker_simps: "step jobs s (Worker w) s'"

inductive reaches :: "(nat \<Rightarrow> job) \<Rightarrow> (label \<Rightarrow> bool) \<Rightarrow> sys \<Rightarrow> sys \<Rightarrow> bool" for jobs P where
  here: "reaches jobs P s s"
| more: "reaches jobs P s s' \<Longrightarrow> step jobs s' l s'' \<Longrightarrow> P l \<Longrightarrow> reaches jobs P s s''"

definition started :: "mem \<Rightarrow> db2 \<Rightarrow> sys" where
  "started m db = \<lparr>sy_redis = m, sy_db = db, sy_pc = (\<lambda>_. Start)\<rparr>"

text \<open>A calm run: Redis answers and no key expires.\<close>

definition calm :: "label \<Rightarrow> bool" where
  "calm l = (case l of Worker _ \<Rightarrow> True | Resolve _ \<Rightarrow> True | _ \<Rightarrow> False)"

subsection \<open>The steps compose to the code\<close>

text \<open>A worker running alone, its four actions in order, is \<open>run_locked\<close>.\<close>

lemma run_locked_steps:
  "run_locked workflow env tenant e d fp s db =
     (case rn_db_error env of
        Some ex \<Rightarrow> (Inl ex, s, db, [])
      | None \<Rightarrow>
          (let es = EsParsedFields (pe_incident_id e) (pe_tenant_id e) (shown_plan tenant db)
                      (pe_error_type e) (pe_severity e) (pe_crash_file e) (pe_crash_line e);
               (r, s', db', fx) =
                 (case find_active_by_fingerprint tenant fp db of
                    Some i \<Rightarrow> (let (r, db', fx) = on_duplicate env tenant e i db in (r, s, db', fx))
                  | None \<Rightarrow> (case workflow db (initial_state (pe_tenant_id e) d fp) s of
                               (Inl ex, s') \<Rightarrow> (Inl ex, s', db, [])
                             | (Inr st, s') \<Rightarrow> (let (r, db', fx) = on_analysed env tenant e fp st db
                                               in (r, s', db', fx))))
           in (r, s', db', es # fx)))"
proof (cases "rn_db_error env")
  case (Some ex)
  then show ?thesis by (simp add: run_locked_def)
next
  case up: None
  show ?thesis
  proof (cases "find_active_by_fingerprint tenant fp db")
    case (Some i)
    obtain r db' fx where "on_duplicate env tenant e i db = (r, db', fx)" by (metis prod_cases3)
    with up Some show ?thesis by (simp add: run_locked_def Let_def)
  next
    case None
    obtain r0 s0 where wf: "workflow db (initial_state (pe_tenant_id e) d fp) s = (r0, s0)" by fastforce
    show ?thesis
    proof (cases r0)
      case (Inl ex)
      with up None wf show ?thesis by (simp add: run_locked_def Let_def)
    next
      case (Inr st)
      obtain r db' fx where "on_analysed env tenant e fp st db = (r, db', fx)" by (metis prod_cases3)
      with up None wf Inr show ?thesis by (simp add: run_locked_def Let_def)
    qed
  qed
qed

subsection \<open>With the index\<close>

lemma index_key_resolve [simp]: "index_key (resolve_row i r) = index_key r"
  by (simp add: resolve_row_def index_key_def)

lemma resolve_status:
  "i_status (resolve_row i r) \<noteq> ''resolved'' \<longleftrightarrow> i_id r \<noteq> i \<and> i_status r \<noteq> ''resolved''"
  by (simp add: resolve_row_def)

lemma resolve_index_ok:
  assumes "index_ok db"
  shows "index_ok (db\<lparr>incidents := map (resolve_row i) (incidents db)\<rparr>)"
proof -
  have "filter (\<lambda>r. i_status r \<noteq> ''resolved'') (map (resolve_row i) rs) =
      map (resolve_row i) (filter (\<lambda>r. i_id r \<noteq> i) (filter (\<lambda>r. i_status r \<noteq> ''resolved'') rs))" for rs
    by (simp add: filter_map comp_def resolve_status conj_commute)
  then have "map index_key (filter (\<lambda>r. i_status r \<noteq> ''resolved'') (map (resolve_row i) rs)) =
      map index_key (filter (\<lambda>r. i_id r \<noteq> i) (filter (\<lambda>r. i_status r \<noteq> ''resolved'') rs))" for rs
    by (simp add: comp_def)
  with assms show ?thesis by (simp add: index_ok_def distinct_map_filter del: filter_filter)
qed

lemma step_index_ok:
  assumes "step jobs s l s'" "uq_active (sy_db s)" "index_ok (sy_db s)"
  shows "uq_active (sy_db s') \<and> index_ok (sy_db s')"
  using assms(1)
proof cases
  case (recorded w i env r db fx)
  with on_duplicate_index_ok [OF recorded(4)] assms show ?thesis by simp
next
  case (analysed w env st r db fx)
  with on_analysed_index_ok [OF analysed(4)] assms show ?thesis by simp
next
  case (resolved i)
  with assms show ?thesis by (simp add: resolve_index_ok)
qed (use assms in simp_all)

text \<open>With the partial unique index, whatever the workers do in whatever order,
  with locks expiring and Redis failing at any time and users resolving incidents in between, no two
  unresolved incidents ever share a tenant and a fingerprint.\<close>

theorem interleaving_unique:
  assumes "reaches jobs (\<lambda>_. True) s0 s" and "uq_active (sy_db s0)" and "index_ok (sy_db s0)"
  shows "length (active_incidents t fp (sy_db s)) \<le> 1"
proof -
  from assms have "uq_active (sy_db s) \<and> index_ok (sy_db s)"
    by (induction rule: reaches.induct) (auto dest: step_index_ok)
  then show ?thesis using index_ok_unique by blast
qed

subsection \<open>Without the index\<close>

definition critical :: "pc \<Rightarrow> bool" where
  "critical p = (case p of Start \<Rightarrow> False | Done _ \<Rightarrow> False | _ \<Rightarrow> True)"

lemma critical_simps [simp]:
  "\<not> critical Start" "\<not> critical (Done r)" "critical Locked" "critical (Found i)"
  "critical Missing" "critical (Finishing r)"
  by (simp_all add: critical_def)

text \<open>
  The invariant of calm runs: the workers inside hold the lock of their fingerprint, no two for the same
  one, and a worker that found no incident is still right.
\<close>

definition calm_inv :: "(nat \<Rightarrow> job) \<Rightarrow> sys \<Rightarrow> bool" where
  "calm_inv jobs s \<longleftrightarrow>
     m_fail (sy_redis s) = [] \<and> index_ok (sy_db s) \<and>
     (\<forall>w. critical (sy_pc s w) \<longrightarrow>
        m_store (sy_redis s) (dedup_lock_key (jb_fingerprint (jobs w))) \<noteq> None) \<and>
     (\<forall>w v. critical (sy_pc s w) \<longrightarrow> critical (sy_pc s v) \<longrightarrow>
        jb_fingerprint (jobs w) = jb_fingerprint (jobs v) \<longrightarrow> w = v) \<and>
     (\<forall>w. sy_pc s w = Missing \<longrightarrow>
        active_incidents (jb_tenant (jobs w)) (jb_fingerprint (jobs w)) (sy_db s) = [])"

lemma mem_acquire:
  assumes "m_fail m = []"
  shows "acquire_dedup_lock mem fp o' m =
     (if m_store m (dedup_lock_key fp) = None
      then (Inr True, m\<lparr>m_store := (m_store m)(dedup_lock_key fp \<mapsto>
              (Text o', Some (m_now m + DEDUP_LOCK_TTL_SECONDS)))\<rparr>)
      else (Inr False, m))"
  using assms by (simp add: acquire_dedup_lock_def mem_def mem_op_def)

lemma mem_release:
  assumes "m_fail m = []"
  shows "release_dedup_lock mem fp m =
     (Inr (), m\<lparr>m_store := (m_store m)(dedup_lock_key fp := None)\<rparr>)"
  using assms by (simp add: release_dedup_lock_def mem_def mem_op_def)

text \<open>What the two transactions do to the active incidents of each fingerprint.\<close>

lemma on_duplicate_actives:
  assumes "on_duplicate env tenant e i db = (r, db', fx)"
  shows "active_incidents t fp db' = [] \<longleftrightarrow> active_incidents t fp db = []"
  using assms
proof (cases rule: on_duplicate_cases)
  case (recorded n)
  have "filter (active_for t fp) (bump_row now k x rs) = [] \<longleftrightarrow> filter (active_for t fp) rs = []"
    for now k x rs
    by (induction rs) (auto simp: bump_row_def)
  with recorded show ?thesis by (simp add: active_incidents_def)
qed simp

lemma on_analysed_actives:
  assumes "on_analysed env tenant e fp st db = (r, db', fx)" "t' \<noteq> tenant \<or> fp' \<noteq> fp"
  shows "active_incidents t' fp' db' = active_incidents t' fp' db"
  using assms
  by (cases rule: on_analysed_incidents) (auto simp: active_incidents_def active_for_def)

lemma resolve_actives:
  "active_incidents t fp db = [] \<Longrightarrow>
   active_incidents t fp (db\<lparr>incidents := map (resolve_row i) (incidents db)\<rparr>) = []"
  by (auto simp: active_incidents_def filter_empty_conv active_for_def resolve_row_def)

lemma calm_step:
  assumes "step jobs s l s'" "calm l" "calm_inv jobs s"
  shows "calm_inv jobs s'"
  using assms(1)
proof cases
  case (acquired w m)
  have mf: "m_fail (sy_redis s) = []" using assms(3) by (simp add: calm_inv_def)
  from acquired(4) have free: "m_store (sy_redis s) (dedup_lock_key (jb_fingerprint (jobs w))) = None"
    and m: "m = (sy_redis s)\<lparr>m_store := (m_store (sy_redis s))(dedup_lock_key (jb_fingerprint (jobs w)) \<mapsto>
              (Text (jb_task (jobs w)), Some (m_now (sy_redis s) + DEDUP_LOCK_TTL_SECONDS)))\<rparr>"
    by (auto simp: mem_acquire [OF mf] split: if_splits)
  have new: "\<forall>v. critical (sy_pc s v) \<longrightarrow> jb_fingerprint (jobs w) \<noteq> jb_fingerprint (jobs v) \<and>
      jb_fingerprint (jobs v) \<noteq> jb_fingerprint (jobs w)"
    using assms(3) free by (auto simp: calm_inv_def)
  with assms(3) show ?thesis unfolding acquired(2) m calm_inv_def by simp
next
  case (contended w m)
  have mf: "m_fail (sy_redis s) = []" using assms(3) by (simp add: calm_inv_def)
  from contended(4) have "m = sy_redis s" by (auto simp: mem_acquire [OF mf] split: if_splits)
  with assms(3) contended show ?thesis unfolding calm_inv_def by auto
next
  case (found w i)
  with assms(3) show ?thesis unfolding calm_inv_def by auto
next
  case (missing w)
  with assms(3) show ?thesis unfolding calm_inv_def by (auto simp: find_active_None_iff)
next
  case (recorded w i env r db fx)
  with assms(3) on_duplicate_index_ok [OF recorded(4)] on_duplicate_actives [OF recorded(4)]
  show ?thesis unfolding calm_inv_def by auto
next
  case (analysed w env st r db fx)
  have none: "active_incidents (jb_tenant (jobs w)) (jb_fingerprint (jobs w)) (sy_db s) = []"
    and ok: "index_ok (sy_db s)"
    using assms(3) analysed(3) by (simp_all add: calm_inv_def)
  have "index_ok db" using on_analysed_index_ok [OF analysed(4) ok] none by simp
  moreover have "active_incidents (jb_tenant (jobs v)) (jb_fingerprint (jobs v)) db = []"
    if "v \<noteq> w" "sy_pc s v = Missing" for v
  proof -
    have "jb_fingerprint (jobs v) \<noteq> jb_fingerprint (jobs w)"
      using assms(3) that analysed(3) by (force simp: calm_inv_def)
    then show ?thesis
      using on_analysed_actives [OF analysed(4)] assms(3) that by (simp add: calm_inv_def)
  qed
  ultimately show ?thesis using assms(3) analysed(2,3) unfolding calm_inv_def by auto
next
  case (failed w ex)
  with assms(3) show ?thesis unfolding calm_inv_def by auto
next
  case (released w r m)
  have mf: "m_fail (sy_redis s) = []" using assms(3) by (simp add: calm_inv_def)
  from released(4) have m: "m = (sy_redis s)\<lparr>m_store :=
      (m_store (sy_redis s))(dedup_lock_key (jb_fingerprint (jobs w)) := None)\<rparr>"
    by (simp add: mem_release [OF mf])
  have "jb_fingerprint (jobs v) \<noteq> jb_fingerprint (jobs w)" if "v \<noteq> w" "critical (sy_pc s v)" for v
    using assms(3) that released(3) by (force simp: calm_inv_def)
  with assms(3) show ?thesis unfolding released(2) m calm_inv_def by simp
next
  case (resolved i)
  with assms(3) show ?thesis unfolding calm_inv_def by (auto simp: resolve_index_ok resolve_actives)
qed (use assms(2) in \<open>simp_all add: calm_def\<close>)

text \<open>Without the unique index (the migrated schema has none), the lock alone still
  keeps unresolved incidents unique, and keeps the workers of one fingerprint out of each other's way, as
  long as Redis answers and no lock expires: for any number of workers and events, in any order.\<close>

theorem calm_lock_suffices:
  assumes "reaches jobs calm (started m db) s" and "m_fail m = []" and "index_ok db"
  shows "length (active_incidents t fp (sy_db s)) \<le> 1 \<and>
         (critical (sy_pc s w) \<and> critical (sy_pc s v) \<and>
          jb_fingerprint (jobs w) = jb_fingerprint (jobs v) \<longrightarrow> w = v)"
proof -
  from assms have "calm_inv jobs s"
  proof (induction "started m db" s rule: reaches.induct)
    case here
    then show ?case by (simp add: calm_inv_def started_def)
  next
    case (more s' l s'')
    then show ?case using calm_step by blast
  qed
  then show ?thesis using index_ok_unique unfolding calm_inv_def by blast
qed

text \<open>Two events of one crash, a minute apart.\<close>

definition two_jobs :: "nat \<Rightarrow> job" where
  "two_jobs w = \<lparr>jb_tenant = tenant_a, jb_event = sample_event, jb_fingerprint = ''f0'',
                 jb_task = ''task-'' @ str_int (int w)\<rparr>"


lemma calm_lock_suffices_witness:
  "\<exists>s :: sys. sy_pc s 0 = Locked \<and> (critical (sy_pc s 1) \<longrightarrow> (0::nat) = 1)"
proof -
  have acq: "\<exists>m'. acquire_dedup_lock mem ''f0'' k idle = (Inr True, m')" for k
    by (subst mem_acquire) (simp_all add: idle_def)
  obtain m' where m': "acquire_dedup_lock mem ''f0'' (jb_task (two_jobs 0)) idle = (Inr True, m')"
    using acq by blast
  let ?s = "(started idle (sample_db False))\<lparr>sy_redis := m', sy_pc := (\<lambda>_. Start)(0 := Locked)\<rparr>"
  have "step two_jobs (started idle (sample_db False)) (Worker 0) ?s"
    using step.acquired [of "started idle (sample_db False)" 0 two_jobs m'] m'
    by (simp add: started_def two_jobs_def)
  then have "reaches two_jobs calm (started idle (sample_db False)) ?s"
    by (intro reaches.more [OF reaches.here]) (auto simp: calm_def)
  moreover have "m_fail idle = []" "index_ok (sample_db False)"
    by (simp_all add: idle_def index_ok_def sample_db_def empty_db2_def)
  ultimately have "critical (sy_pc ?s 0) \<and> critical (sy_pc ?s 1) \<and>
      jb_fingerprint (two_jobs 0) = jb_fingerprint (two_jobs 1) \<longrightarrow> (0::nat) = 1"
    by (rule conjunct2 [OF calm_lock_suffices])
  then show ?thesis by (intro exI [of _ ?s]) (simp add: two_jobs_def)
qed

lemma interleaving_unique_witness:
  "length (active_incidents tenant_a ''f0'' (sample_db True)) \<le> 1"
proof -
  let ?s = "started idle (sample_db True)"
  have "uq_active (sy_db ?s)" "index_ok (sy_db ?s)"
    by (simp_all add: started_def index_ok_def sample_db_def empty_db2_def)
  from interleaving_unique [OF reaches.here [of two_jobs "\<lambda>_. True" ?s] this]
  have "length (active_incidents tenant_a ''f0'' (sy_db ?s)) \<le> 1" .
  then show ?thesis by (simp add: started_def)
qed





end
