(* ===== verification/Redis_Ttl.thy ===== *)
theory Redis_Ttl
  imports Redis_Api
begin

text \<open>
  Redis with the time its keys have left.  Where a component relies on a key that expires between its
  calls, the state of the server is what \<open>GET\<close> and \<open>TTL\<close> answer for each key, and time that passes is a
  step of the server.  The laws are those of a server that answers every command.
\<close>

type_synonym timed_kv = "string \<Rightarrow> (rval \<times> int option) option"

text \<open>\<open>d\<close> seconds pass: what has no more time left is gone.\<close>

definition time_left :: "nat \<Rightarrow> int \<Rightarrow> int option" where
  "time_left d r = (if r \<le> int d then None else Some (r - int d))"

definition elapse :: "nat \<Rightarrow> timed_kv \<Rightarrow> timed_kv" where
  "elapse d m k = (case m k of
     None \<Rightarrow> None
   | Some (v, None) \<Rightarrow> Some (v, None)
   | Some (v, Some r) \<Rightarrow> map_option (\<lambda>r'. (v, Some r')) (time_left d r))"

lemma elapse_persistent [simp]: "m k = Some (v, None) \<Longrightarrow> elapse d m k = Some (v, None)"
  by (simp add: elapse_def)

lemma elapse_absent [simp]: "m k = None \<Longrightarrow> elapse d m k = None"
  by (simp add: elapse_def)

lemma elapse_expiring [simp]:
  "m k = Some (v, Some r) \<Longrightarrow> elapse d m k = map_option (\<lambda>r'. (v, Some r')) (time_left d r)"
  by (simp add: elapse_def)

fun timed_cmd :: "rcmd \<Rightarrow> timed_kv \<Rightarrow> timed_kv" where
  "timed_cmd (CSet k v) m = m(k \<mapsto> (v, None))"
| "timed_cmd (CDel k) m = m(k := None)"

text \<open>
  \<open>SET\<close> drops the time a key had left, \<open>SET NX EX\<close> sets it with the key, \<open>INCR\<close> keeps it; an expiry of
  zero or less is refused by the server, so its law is for positive ones.
\<close>

locale timed_redis = redis_server R "\<lambda>s k. map_option fst (store s k)"
  for R :: "'s redis" and store :: "'s \<Rightarrow> timed_kv" +
  fixes pass :: "nat \<Rightarrow> 's \<Rightarrow> 's"
  assumes passes: "store (pass d s) = elapse d (store s)"
    and get_timed: "\<exists>s'. r_get R k s = (Inr (map_option fst (store s k)), s') \<and> store s' = store s"
    and set_timed: "\<exists>s'. r_set R k v s = (Inr (), s') \<and> store s' = (store s)(k \<mapsto> (v, None))"
    and set_nx_timed: "0 < ttl \<Longrightarrow> \<exists>s'. r_set_nx R k v ttl s = (Inr (store s k = None), s') \<and>
          store s' = (if store s k = None then (store s)(k \<mapsto> (v, Some ttl)) else store s)"
    and delete_timed: "\<exists>n s'. r_delete R k s = (Inr n, s') \<and> store s' = (store s)(k := None)"
    and incr_new_timed: "store s k = None \<Longrightarrow>
          \<exists>s'. r_incr R k s = (Inr 1, s') \<and> store s' = (store s)(k \<mapsto> (Num 1, None))"
    and incr_int_timed: "store s k = Some (Num (of_int n), ttl') \<Longrightarrow>
          \<exists>s'. r_incr R k s = (Inr (n + 1), s') \<and> store s' = (store s)(k \<mapsto> (Num (of_int (n + 1)), ttl'))"
    and exec_timed: "\<exists>s'. r_exec R cmds s = (Inr (), s') \<and> store s' = fold timed_cmd cmds (store s)"
begin

text \<open>Big steps over the keys with their times: the rules of \<open>live_redis\<close>, one per command.\<close>

definition gives :: "('s, 'a) prog \<Rightarrow> timed_kv \<Rightarrow> 'a \<Rightarrow> timed_kv \<Rightarrow> bool" where
  "gives p m x m' \<longleftrightarrow> (\<forall>s. store s = m \<longrightarrow> (\<exists>s'. p s = (Inr x, s') \<and> store s' = m'))"

lemma givesI:
  assumes "\<And>s. store s = m \<Longrightarrow> \<exists>s'. p s = (Inr x, s') \<and> store s' = m'" shows "gives p m x m'"
  using assms by (simp add: gives_def)

lemma givesE:
  assumes "gives p (store s) x m'"
  obtains s' where "p s = (Inr x, s')" "store s' = m'"
  using assms by (auto simp: gives_def)

lemma gives_get: "map_option fst (m k) = x \<Longrightarrow> gives (r_get R k) m x m"
  using get_timed by (intro givesI) (metis (no_types))

lemma gives_set: "m' = m(k \<mapsto> (v, None)) \<Longrightarrow> gives (r_set R k v) m () m'"
  using set_timed by (intro givesI) (metis (no_types))

lemma gives_set_nx_free:
  assumes "m k = None" "m' = m(k \<mapsto> (v, Some ttl))" "0 < ttl" shows "gives (r_set_nx R k v ttl) m True m'"
proof (rule givesI)
  fix s assume "store s = m"
  with set_nx_timed [OF assms(3), of k v s] assms(1,2)
  show "\<exists>s'. r_set_nx R k v ttl s = (Inr True, s') \<and> store s' = m'" by simp
qed

lemma gives_set_nx_held:
  assumes "m k = Some u" "0 < ttl" shows "gives (r_set_nx R k v ttl) m False m"
proof (rule givesI)
  fix s assume "store s = m"
  with set_nx_timed [OF assms(2), of k v s] assms(1)
  show "\<exists>s'. r_set_nx R k v ttl s = (Inr False, s') \<and> store s' = m" by simp
qed

lemma gives_exec: "m' = fold timed_cmd cmds m \<Longrightarrow> gives (r_exec R cmds) m () m'"
  using exec_timed by (intro givesI) (metis (no_types))

lemma gives_incr_new: "m k = None \<Longrightarrow> m' = m(k \<mapsto> (Num 1, None)) \<Longrightarrow> gives (r_incr R k) m 1 m'"
  using incr_new_timed by (intro givesI) (metis (no_types))

lemma gives_incr_int:
  "m k = Some (Num (of_int n), e) \<Longrightarrow> m' = m(k \<mapsto> (Num (of_int (n + 1)), e)) \<Longrightarrow>
   gives (r_incr R k) m (n + 1) m'"
  using incr_int_timed by (intro givesI) (metis (no_types))

lemma gives_delete_bind:
  assumes "\<And>n. gives (q n) (m(k := None)) y m'"
  shows "gives (rbind (r_delete R k) q) m y m'"
proof (rule givesI)
  fix s assume v: "store s = m"
  obtain n s1 where s1: "r_delete R k s = (Inr n, s1)" "store s1 = m(k := None)"
    using delete_timed [of k s] v by auto
  with assms [of n] show "\<exists>s'. rbind (r_delete R k) q s = (Inr y, s') \<and> store s' = m'"
    by (auto simp: gives_def rbind_def)
qed

lemma gives_ret: "x = y \<Longrightarrow> gives (rret x) m y m"
  by (simp add: gives_def rret_def)

lemma gives_bind:
  assumes "gives p m x m1" "gives (q x) m1 y m2"
  shows "gives (rbind p q) m y m2"
proof (rule givesI)
  fix s assume "store s = m"
  with assms(1) obtain s1 where "p s = (Inr x, s1)" "store s1 = m1" by (auto simp: gives_def)
  with assms(2) show "\<exists>s'. rbind p q s = (Inr y, s') \<and> store s' = m2"
    by (auto simp: gives_def rbind_def)
qed

lemma gives_catch: "gives p m x m' \<Longrightarrow> gives (rcatch p d) m x m'"
  by (fastforce simp: gives_def rcatch_def)

end

subsection \<open>The server in memory\<close>

definition mem_timed :: "mem \<Rightarrow> timed_kv" where
  "mem_timed s k = map_option (\<lambda>(v, ex). (v, map_option (\<lambda>e. e - m_now s) ex)) (m_store s k)"

definition mem_pass :: "nat \<Rightarrow> mem \<Rightarrow> mem" where
  "mem_pass d = mem_tick (int d)"

lemma mem_timed_view: "(\<lambda>k. map_option fst (mem_timed s k)) = mem_view s"
  by (auto simp: mem_timed_def mem_view_def fun_eq_iff option.map_comp comp_def split: prod.splits
      intro!: option.map_cong)

lemma mem_timed_up [simp]: "mem_timed (up s) = mem_timed s"
  by (simp add: mem_timed_def up_def fun_eq_iff)

lemma mem_timed_upd:
  "mem_timed (up s\<lparr>m_store := (m_store (up s))(k \<mapsto> (v, None))\<rparr>) = (mem_timed s)(k \<mapsto> (v, None))"
  "mem_timed (up s\<lparr>m_store := (m_store (up s))(k \<mapsto> (v, Some (m_now (up s) + ttl)))\<rparr>) =
     (mem_timed s)(k \<mapsto> (v, Some ttl))"
  "mem_timed (up s\<lparr>m_store := (m_store (up s))(k := None)\<rparr>) = (mem_timed s)(k := None)"
  by (simp_all add: mem_timed_def up_def fun_eq_iff)

lemma mem_timed_cmds:
  "mem_timed (s\<lparr>m_store := fold mem_cmd cmds m\<rparr>) = fold timed_cmd cmds (mem_timed (s\<lparr>m_store := m\<rparr>))"
proof (induction cmds arbitrary: m)
  case Nil
  show ?case by simp
next
  case (Cons c cmds)
  have "mem_timed (s\<lparr>m_store := mem_cmd c m\<rparr>) = timed_cmd c (mem_timed (s\<lparr>m_store := m\<rparr>))"
    by (cases c) (simp_all add: mem_timed_def fun_eq_iff)
  then show ?case by (simp add: Cons.IH)
qed

lemma mem_timed_pass: "mem_timed (mem_pass d s) = elapse d (mem_timed s)"
proof (rule ext)
  fix k
  show "mem_timed (mem_pass d s) k = elapse d (mem_timed s) k"
    by (cases "m_store s k")
       (auto simp: mem_timed_def mem_pass_def mem_tick_def elapse_def time_left_def split: option.splits)
qed

lemma mem_timed_None: "mem_timed s k = None \<longleftrightarrow> m_store s k = None"
  by (simp add: mem_timed_def)

lemma mem_timed_get:
  "\<exists>s'. r_get live k s = (Inr (map_option fst (mem_timed s k)), s') \<and> mem_timed s' = mem_timed s"
  using mem_timed_view [of s, THEN fun_cong, of k] by (simp add: live_simps mem_up_simps)

lemma mem_timed_set:
  "\<exists>s'. r_set live k v s = (Inr (), s') \<and> mem_timed s' = (mem_timed s)(k \<mapsto> (v, None))"
  by (rule exI [of _ "up s\<lparr>m_store := (m_store (up s))(k \<mapsto> (v, None))\<rparr>"])
     (simp add: live_simps mem_def mem_op_def mem_timed_upd, simp add: up_def)

lemma mem_timed_set_nx:
  "\<exists>s'. r_set_nx live k v ttl s = (Inr (mem_timed s k = None), s') \<and>
        mem_timed s' = (if mem_timed s k = None then (mem_timed s)(k \<mapsto> (v, Some ttl)) else mem_timed s)"
  by (rule exI [of _ "if m_store s k = None
        then up s\<lparr>m_store := (m_store (up s))(k \<mapsto> (v, Some (m_now (up s) + ttl)))\<rparr> else up s"])
     (auto simp: mem_timed_None mem_timed_upd, auto simp: live_simps mem_def mem_op_def up_def)

lemma mem_timed_delete:
  "\<exists>n s'. r_delete live k s = (Inr n, s') \<and> mem_timed s' = (mem_timed s)(k := None)"
  by (rule exI [of _ "if m_store s k = None then 0 else 1"],
      rule exI [of _ "up s\<lparr>m_store := (m_store (up s))(k := None)\<rparr>"])
     (simp add: mem_timed_upd, simp add: live_simps mem_def mem_op_def up_def)

lemma mem_timed_incr_new:
  assumes "mem_timed s k = None"
  shows "\<exists>s'. r_incr live k s = (Inr 1, s') \<and> mem_timed s' = (mem_timed s)(k \<mapsto> (Num 1, None))"
  by (rule exI [of _ "up s\<lparr>m_store := (m_store (up s))(k \<mapsto> (Num 1, None))\<rparr>"])
     (use assms in \<open>simp add: mem_timed_upd mem_timed_None\<close>, use assms in
       \<open>simp add: live_simps mem_def mem_op_def up_def mem_timed_None\<close>)

lemma mem_timed_incr_int:
  assumes "mem_timed s k = Some (Num (of_int n), e)"
  shows "\<exists>s'. r_incr live k s = (Inr (n + 1), s') \<and>
              mem_timed s' = (mem_timed s)(k \<mapsto> (Num (of_int (n + 1)), e))"
proof -
  from assms obtain ex where st: "m_store s k = Some (Num (of_int n), ex)"
    "e = map_option (\<lambda>t. t - m_now s) ex"
    by (auto simp: mem_timed_def)
  show ?thesis
    by (rule exI [of _ "up s\<lparr>m_store := (m_store s)(k \<mapsto> (Num (of_int (n + 1)), ex))\<rparr>"])
       (use st in \<open>auto simp: live_simps mem_def mem_op_def up_def mem_timed_def fun_eq_iff\<close>)
qed

lemma mem_timed_exec:
  "\<exists>s'. r_exec live cmds s = (Inr (), s') \<and> mem_timed s' = fold timed_cmd cmds (mem_timed s)"
proof (rule exI [of _ "up s\<lparr>m_store := fold mem_cmd cmds (m_store s)\<rparr>"], intro conjI)
  show "mem_timed (up s\<lparr>m_store := fold mem_cmd cmds (m_store s)\<rparr>) = fold timed_cmd cmds (mem_timed s)"
  proof -
    have "mem_timed (up s\<lparr>m_store := m_store s\<rparr>) = mem_timed s"
      by (simp add: mem_timed_def up_def fun_eq_iff)
    then show ?thesis by (simp only: mem_timed_cmds)
  qed
qed (simp add: live_simps mem_def mem_op_def up_def)

lemma live_server: "redis_server live (\<lambda>s k. map_option fst (mem_timed s k))"
  unfolding mem_timed_view by (rule live.redis_server_axioms)

interpretation timed: timed_redis live mem_timed mem_pass
  using live_server mem_timed_pass mem_timed_get mem_timed_set mem_timed_set_nx mem_timed_delete
    mem_timed_incr_new mem_timed_incr_int mem_timed_exec
  by (intro timed_redis.intro timed_redis_axioms.intro) simp_all

end
