(* ===== verification/Circuit_Breaker.thy ===== *)
theory Circuit_Breaker
  imports Redis_Ttl
begin

text \<open>
  \<open>app/agents/circuit_breaker.py\<close>: the circuit breaker the agents share through Redis.  The operations
  are programs over the client, as written; below them stands the breaker they implement, a state machine
  over three phases and a probe lock that expires, and the simulation between the two.
\<close>

record breaker =
  cb_name :: string
  cb_failure_threshold :: int
  cb_success_threshold :: int
  cb_timeout_seconds :: int

datatype circuit_state = CLOSED | OPEN | HALF_OPEN

definition state_value :: "circuit_state \<Rightarrow> rval" where
  "state_value c = (case c of
     CLOSED \<Rightarrow> Text ''CLOSED'' | OPEN \<Rightarrow> Text ''OPEN'' | HALF_OPEN \<Rightarrow> Text ''HALF_OPEN'')"

lemma state_value_eq [simp]: "state_value a = state_value b \<longleftrightarrow> a = b"
  by (cases a; cases b) (simp_all add: state_value_def)

definition state_key :: "breaker \<Rightarrow> string" where
  "state_key cb = ''cb:'' @ cb_name cb @ '':state''"

definition failures_key :: "breaker \<Rightarrow> string" where
  "failures_key cb = ''cb:'' @ cb_name cb @ '':failures''"

definition successes_key :: "breaker \<Rightarrow> string" where
  "successes_key cb = ''cb:'' @ cb_name cb @ '':successes''"

definition opened_at_key :: "breaker \<Rightarrow> string" where
  "opened_at_key cb = ''cb:'' @ cb_name cb @ '':opened_at''"

definition probe_lock_key :: "breaker \<Rightarrow> string" where
  "probe_lock_key cb = ''cb:'' @ cb_name cb @ '':probe_lock''"

lemmas key_defs = state_key_def failures_key_def successes_key_def opened_at_key_def probe_lock_key_def

lemma append_neq_length: "length b \<noteq> length c \<Longrightarrow> a @ b \<noteq> a @ c"
  by auto

lemma keys_distinct [simp]:
  "distinct [state_key cb, failures_key cb, successes_key cb, opened_at_key cb, probe_lock_key cb]"
  by (simp add: key_defs)

lemma keys_neq [simp]:
  "state_key cb \<noteq> failures_key cb" "state_key cb \<noteq> successes_key cb" "state_key cb \<noteq> opened_at_key cb"
  "state_key cb \<noteq> probe_lock_key cb" "failures_key cb \<noteq> state_key cb" "failures_key cb \<noteq> successes_key cb"
  "failures_key cb \<noteq> opened_at_key cb" "failures_key cb \<noteq> probe_lock_key cb"
  "successes_key cb \<noteq> state_key cb" "successes_key cb \<noteq> failures_key cb"
  "successes_key cb \<noteq> opened_at_key cb" "successes_key cb \<noteq> probe_lock_key cb"
  "opened_at_key cb \<noteq> state_key cb" "opened_at_key cb \<noteq> failures_key cb"
  "opened_at_key cb \<noteq> successes_key cb" "opened_at_key cb \<noteq> probe_lock_key cb"
  "probe_lock_key cb \<noteq> state_key cb" "probe_lock_key cb \<noteq> failures_key cb"
  "probe_lock_key cb \<noteq> successes_key cb" "probe_lock_key cb \<noteq> opened_at_key cb"
  using keys_distinct [of cb] by auto

subsection \<open>The operations\<close>

text \<open>\<open>float(reply)\<close>\<close>

definition reply_float :: "rval \<Rightarrow> ('s, rat) prog" where
  "reply_float v = (case v of
     Num q \<Rightarrow> rret q
   | Text s \<Rightarrow> (case float_of_string s of None \<Rightarrow> rfail (ValueError s) | Some q \<Rightarrow> rret q))"

definition get_phase :: "breaker \<Rightarrow> 's redis \<Rightarrow> ('s, rval) prog" where
  "get_phase cb R = rbind (r_get R (state_key cb)) (\<lambda>raw.
     rret (case raw of None \<Rightarrow> state_value CLOSED | Some v \<Rightarrow> v))"

definition set_then :: "'s redis \<Rightarrow> string \<Rightarrow> rval \<Rightarrow> ('s, 'a) prog \<Rightarrow> ('s, 'a) prog" where
  "set_then R k v p = rbind (r_set R k v) (\<lambda>_. p)"

definition claim_probe :: "breaker \<Rightarrow> 's redis \<Rightarrow> ('s, bool) prog" where
  "claim_probe cb R = r_set_nx R (probe_lock_key cb) (Num 1) (cb_timeout_seconds cb)"

definition can_execute :: "breaker \<Rightarrow> 's redis \<Rightarrow> rat \<Rightarrow> ('s, bool) prog" where
  "can_execute cb R now = rcatch
     (rbind (get_phase cb R) (\<lambda>state.
        if state = state_value CLOSED then rret True
        else if state = state_value OPEN then
          rbind (r_get R (opened_at_key cb)) (\<lambda>raw_opened.
            case raw_opened of
              None \<Rightarrow> set_then R (state_key cb) (state_value CLOSED) (rret True)
            | Some v \<Rightarrow> rbind (reply_float v) (\<lambda>opened_at.
                if now - opened_at \<ge> of_int (cb_timeout_seconds cb) then
                  rbind (claim_probe cb R) (\<lambda>acquired.
                    if \<not> acquired then rret False
                    else set_then R (state_key cb) (state_value HALF_OPEN)
                           (set_then R (successes_key cb) (Num 0) (rret True)))
                else rret False))
        else if state = state_value HALF_OPEN then claim_probe cb R
        else rret True))
     True"

definition record_success :: "breaker \<Rightarrow> 's redis \<Rightarrow> ('s, unit) prog" where
  "record_success cb R = rcatch
     (rbind (get_phase cb R) (\<lambda>state.
        if state = state_value HALF_OPEN then
          rbind (r_incr R (successes_key cb)) (\<lambda>successes.
            if successes \<ge> cb_success_threshold cb then
              r_exec R [CSet (state_key cb) (state_value CLOSED), CSet (failures_key cb) (Num 0),
                CSet (successes_key cb) (Num 0), CDel (opened_at_key cb), CDel (probe_lock_key cb)]
            else rbind (r_delete R (probe_lock_key cb)) (\<lambda>_. rret ()))
        else if state = state_value CLOSED then r_set R (failures_key cb) (Num 0)
        else rret ()))
     ()"

definition record_failure :: "breaker \<Rightarrow> 's redis \<Rightarrow> rat \<Rightarrow> ('s, unit) prog" where
  "record_failure cb R now = rcatch
     (rbind (get_phase cb R) (\<lambda>state.
        if state = state_value OPEN then rret ()
        else if state = state_value HALF_OPEN then
          r_exec R [CSet (state_key cb) (state_value OPEN), CSet (opened_at_key cb) (Num now),
            CSet (successes_key cb) (Num 0), CDel (probe_lock_key cb)]
        else rbind (r_incr R (failures_key cb)) (\<lambda>failures.
          if failures \<ge> cb_failure_threshold cb then
            r_exec R [CSet (state_key cb) (state_value OPEN), CSet (opened_at_key cb) (Num now),
              CSet (successes_key cb) (Num 0)]
          else rret ())))
     ()"

definition get_state :: "breaker \<Rightarrow> 's redis \<Rightarrow> ('s, circuit_state) prog" where
  "get_state cb R = rbind (get_phase cb R) (\<lambda>raw.
     rret (if raw = state_value OPEN then OPEN
           else if raw = state_value HALF_OPEN then HALF_OPEN else CLOSED))"

definition reset :: "breaker \<Rightarrow> 's redis \<Rightarrow> ('s, unit) prog" where
  "reset cb R = r_exec R [CSet (state_key cb) (state_value CLOSED), CSet (failures_key cb) (Num 0),
     CSet (successes_key cb) (Num 0), CDel (opened_at_key cb), CDel (probe_lock_key cb)]"

subsection \<open>The breaker the keys stand for\<close>

text \<open>
  A phase, with what matters in it, and the seconds the probe lock has left, if one holds it.  Besides
  the calls there are steps of time, by the clock that Redis expires keys by; the times of the calls are
  those of the workers' own clocks.
\<close>

datatype phase =
    Closed int  \<comment> \<open>consecutive failures\<close>
  | Opened rat  \<comment> \<open>since when\<close>
  | Half int  \<comment> \<open>successful probes\<close>

type_synonym circuit_spec = "phase \<times> int option"

datatype call = Can rat | Success | Failure rat | Wait nat

definition lock_left :: "nat \<Rightarrow> int option \<Rightarrow> int option" where
  "lock_left d l = Option.bind l (time_left d)"

fun spec_step :: "breaker \<Rightarrow> call \<Rightarrow> circuit_spec \<Rightarrow> bool list \<times> circuit_spec" where
  "spec_step cb (Can now) (Closed n, l) = ([True], Closed n, l)"
| "spec_step cb (Can now) (Opened t, l) =
     (if now - t < of_int (cb_timeout_seconds cb) \<or> l \<noteq> None then ([False], Opened t, l)
      else ([True], Half 0, Some (cb_timeout_seconds cb)))"
| "spec_step cb (Can now) (Half k, l) =
     (if l = None then ([True], Half k, Some (cb_timeout_seconds cb)) else ([False], Half k, l))"
| "spec_step cb Success (Closed n, l) = ([], Closed 0, l)"
| "spec_step cb Success (Opened t, l) = ([], Opened t, l)"
| "spec_step cb Success (Half k, l) =
     ([], if k + 1 \<ge> cb_success_threshold cb then Closed 0 else Half (k + 1), None)"
| "spec_step cb (Failure now) (Closed n, l) =
     ([], if n + 1 \<ge> cb_failure_threshold cb then Opened now else Closed (n + 1), l)"
| "spec_step cb (Failure now) (Opened t, l) = ([], Opened t, l)"
| "spec_step cb (Failure now) (Half k, l) = ([], Opened now, None)"
| "spec_step cb (Wait d) (p, l) = ([], p, lock_left d l)"

fun spec_run :: "breaker \<Rightarrow> call list \<Rightarrow> circuit_spec \<Rightarrow> bool list \<times> circuit_spec" where
  "spec_run cb [] a = ([], a)"
| "spec_run cb (c # cs) a =
     (case spec_step cb c a of (r, a1) \<Rightarrow> (case spec_run cb cs a1 of (rs, a2) \<Rightarrow> (r @ rs, a2)))"

text \<open>What the keys say.  The failure counter matters in \<open>CLOSED\<close> only, the others in their phase.\<close>

fun abstracts_phase :: "breaker \<Rightarrow> timed_kv \<Rightarrow> phase \<Rightarrow> bool" where
  "abstracts_phase cb m (Closed n) \<longleftrightarrow>
     (m (state_key cb) = None \<or> m (state_key cb) = Some (state_value CLOSED, None)) \<and>
     (m (failures_key cb) = None \<and> n = 0 \<or> m (failures_key cb) = Some (Num (of_int n), None))"
| "abstracts_phase cb m (Opened t) \<longleftrightarrow>
     m (state_key cb) = Some (state_value OPEN, None) \<and> m (opened_at_key cb) = Some (Num t, None)"
| "abstracts_phase cb m (Half k) \<longleftrightarrow>
     m (state_key cb) = Some (state_value HALF_OPEN, None) \<and>
     m (successes_key cb) = Some (Num (of_int k), None)"

definition abstracts :: "breaker \<Rightarrow> timed_kv \<Rightarrow> circuit_spec \<Rightarrow> bool" where
  "abstracts cb m a \<longleftrightarrow>
     abstracts_phase cb m (fst a) \<and> m (probe_lock_key cb) = map_option (\<lambda>r. (Num 1, Some r)) (snd a)"

text \<open>The calls that workers make, one after the other, with the time between them, and the answers.\<close>

definition serve :: "breaker \<Rightarrow> 's redis \<Rightarrow> (nat \<Rightarrow> 's \<Rightarrow> 's) \<Rightarrow> call \<Rightarrow> ('s, bool list) prog" where
  "serve cb R pass c = (case c of
     Can now \<Rightarrow> rbind (can_execute cb R now) (\<lambda>b. rret [b])
   | Success \<Rightarrow> rbind (record_success cb R) (\<lambda>_. rret [])
   | Failure now \<Rightarrow> rbind (record_failure cb R now) (\<lambda>_. rret [])
   | Wait d \<Rightarrow> (\<lambda>s. (Inr [], pass d s)))"

fun serve_all :: "breaker \<Rightarrow> 's redis \<Rightarrow> (nat \<Rightarrow> 's \<Rightarrow> 's) \<Rightarrow> call list \<Rightarrow> ('s, bool list) prog" where
  "serve_all cb R pass [] = rret []"
| "serve_all cb R pass (c # cs) =
     rbind (serve cb R pass c) (\<lambda>r. rbind (serve_all cb R pass cs) (\<lambda>rs. rret (r @ rs)))"

context timed_redis
begin

lemma get_phase_gives:
  "m (state_key cb) = Some (v, e) \<Longrightarrow> gives (get_phase cb R) m v m"
  "m (state_key cb) = None \<Longrightarrow> gives (get_phase cb R) m (state_value CLOSED) m"
  unfolding get_phase_def
  by (rule gives_bind, rule gives_get, rule refl, rule gives_ret, simp)+

lemma phase_gives:
  "abstracts_phase cb m (Closed n) \<Longrightarrow> gives (get_phase cb R) m (state_value CLOSED) m"
  "abstracts_phase cb m (Opened t) \<Longrightarrow> gives (get_phase cb R) m (state_value OPEN) m"
  "abstracts_phase cb m (Half k) \<Longrightarrow> gives (get_phase cb R) m (state_value HALF_OPEN) m"
  by (auto intro: get_phase_gives)

lemma gives_set_then:
  assumes "gives p (m(k \<mapsto> (v, None))) x m'" shows "gives (set_then R k v p) m x m'"
  unfolding set_then_def by (rule gives_bind, rule gives_set, rule refl, rule assms)

lemma can_execute_closed:
  assumes "abstracts_phase cb m (Closed n)" shows "gives (can_execute cb R now) m True m"
  unfolding can_execute_def
  by (rule gives_catch, rule gives_bind, rule phase_gives(1), rule assms) (simp add: gives_ret)

lemma can_execute_open_blocked:
  assumes "abstracts_phase cb m (Opened t)" and live: "0 < cb_timeout_seconds cb"
    and "now - t < of_int (cb_timeout_seconds cb) \<or> m (probe_lock_key cb) \<noteq> None"
  shows "gives (can_execute cb R now) m False m"
  unfolding can_execute_def
proof (rule gives_catch, rule gives_bind, rule phase_gives(2), rule assms(1), simp, rule gives_bind)
  show "gives (r_get R (opened_at_key cb)) m (Some (Num t)) m"
    using assms(1) by (simp add: gives_get)
  show "gives (case Some (Num t) of None \<Rightarrow> set_then R (state_key cb) (state_value CLOSED) (rret True)
      | Some v \<Rightarrow> rbind (reply_float v) (\<lambda>opened_at.
          if of_int (cb_timeout_seconds cb) \<le> now - opened_at
          then rbind (claim_probe cb R) (\<lambda>acquired. if \<not> acquired then rret False
             else set_then R (state_key cb) (state_value HALF_OPEN)
                    (set_then R (successes_key cb) (Num 0) (rret True)))
          else rret False)) m False m"
    unfolding option.case reply_float_def rval.case
  proof (rule gives_bind, rule gives_ret, rule refl, split if_split, intro conjI impI)
    assume "of_int (cb_timeout_seconds cb) \<le> now - t"
    with assms(3) obtain u where "m (probe_lock_key cb) = Some u" by auto
    then show "gives (rbind (claim_probe cb R) (\<lambda>acquired. if \<not> acquired then rret False
             else set_then R (state_key cb) (state_value HALF_OPEN)
                    (set_then R (successes_key cb) (Num 0) (rret True)))) m False m"
      unfolding claim_probe_def by - (rule gives_bind, rule gives_set_nx_held [OF _ live], auto intro: gives_ret)
  qed (simp add: gives_ret)
qed

lemma can_execute_open_probes:
  assumes "abstracts_phase cb m (Opened t)" and live: "0 < cb_timeout_seconds cb"
    and "\<not> now - t < of_int (cb_timeout_seconds cb)" and free: "m (probe_lock_key cb) = None"
  shows "gives (can_execute cb R now) m True (m(probe_lock_key cb \<mapsto> (Num 1, Some (cb_timeout_seconds cb)),
           state_key cb \<mapsto> (state_value HALF_OPEN, None), successes_key cb \<mapsto> (Num 0, None)))"
proof -
  from assms(3) have elapsed: "of_int (cb_timeout_seconds cb) \<le> now - t" by simp
  have opened: "map_option fst (m (opened_at_key cb)) = Some (Num t)" using assms(1) by simp
  show ?thesis
    unfolding can_execute_def
  proof (rule gives_catch, rule gives_bind, rule phase_gives(2), rule assms(1), simp,
      rule gives_bind, rule gives_get, rule opened,
      unfold option.case reply_float_def rval.case, rule gives_bind, rule gives_ret, rule refl)
    let ?m1 = "m(probe_lock_key cb \<mapsto> (Num 1, Some (cb_timeout_seconds cb)))"
    have "gives (claim_probe cb R) m True ?m1"
      using free live by (simp add: claim_probe_def gives_set_nx_free)
    moreover have "gives (set_then R (state_key cb) (state_value HALF_OPEN)
        (set_then R (successes_key cb) (Num 0) (rret True))) ?m1 True
        (?m1(state_key cb \<mapsto> (state_value HALF_OPEN, None), successes_key cb \<mapsto> (Num 0, None)))"
      by (intro gives_set_then gives_ret refl)
    ultimately show "gives (if of_int (cb_timeout_seconds cb) \<le> now - t
        then rbind (claim_probe cb R) (\<lambda>acquired. if \<not> acquired then rret False
           else set_then R (state_key cb) (state_value HALF_OPEN)
                  (set_then R (successes_key cb) (Num 0) (rret True)))
        else rret False) m True
        (?m1(state_key cb \<mapsto> (state_value HALF_OPEN, None), successes_key cb \<mapsto> (Num 0, None)))"
      using elapsed by (simp add: gives_bind)
  qed
qed

lemma can_execute_half:
  assumes "abstracts_phase cb m (Half k)" and live: "0 < cb_timeout_seconds cb"
  shows "m (probe_lock_key cb) = None \<Longrightarrow>
      gives (can_execute cb R now) m True (m(probe_lock_key cb \<mapsto> (Num 1, Some (cb_timeout_seconds cb))))"
    and "m (probe_lock_key cb) = Some u \<Longrightarrow> gives (can_execute cb R now) m False m"
  unfolding can_execute_def claim_probe_def
  by (rule gives_catch, rule gives_bind, rule phase_gives(3), rule assms(1),
      simp add: gives_set_nx_free gives_set_nx_held live)+

lemma record_success_closed:
  assumes "abstracts_phase cb m (Closed n)"
  shows "gives (record_success cb R) m () (m(failures_key cb \<mapsto> (Num 0, None)))"
  unfolding record_success_def
  by (rule gives_catch, rule gives_bind, rule phase_gives(1), rule assms) (simp add: gives_set)

lemma record_success_open:
  assumes "abstracts_phase cb m (Opened t)" shows "gives (record_success cb R) m () m"
  unfolding record_success_def
  by (rule gives_catch, rule gives_bind, rule phase_gives(2), rule assms) (simp add: gives_ret)

lemma record_success_half:
  assumes "abstracts_phase cb m (Half k)"
  shows "gives (record_success cb R) m ()
     (if k + 1 \<ge> cb_success_threshold cb
      then m(state_key cb \<mapsto> (state_value CLOSED, None), failures_key cb \<mapsto> (Num 0, None), successes_key cb \<mapsto> (Num 0, None),
             opened_at_key cb := None, probe_lock_key cb := None)
      else m(successes_key cb \<mapsto> (Num (of_int (k + 1)), None), probe_lock_key cb := None))"
proof -
  let ?m1 = "m(successes_key cb \<mapsto> (Num (of_int (k + 1)), None))"
  have incr: "gives (r_incr R (successes_key cb)) m (k + 1) ?m1"
    using assms by (auto intro: gives_incr_int)
  have "gives (if k + 1 \<ge> cb_success_threshold cb
        then r_exec R [CSet (state_key cb) (state_value CLOSED), CSet (failures_key cb) (Num 0),
               CSet (successes_key cb) (Num 0), CDel (opened_at_key cb), CDel (probe_lock_key cb)]
        else rbind (r_delete R (probe_lock_key cb)) (\<lambda>_. rret ())) ?m1 ()
     (if k + 1 \<ge> cb_success_threshold cb
      then m(state_key cb \<mapsto> (state_value CLOSED, None), failures_key cb \<mapsto> (Num 0, None), successes_key cb \<mapsto> (Num 0, None),
             opened_at_key cb := None, probe_lock_key cb := None)
      else ?m1(probe_lock_key cb := None))"
  proof (cases "cb_success_threshold cb \<le> k + 1")
    case True
    then show ?thesis by (simp add: gives_exec fun_upd_twist)
  next
    case False
    then show ?thesis by (simp add: gives_delete_bind gives_ret)
  qed
  with incr show ?thesis
    unfolding record_success_def
    by (intro gives_catch) (rule gives_bind, rule phase_gives(3), rule assms, simp add: gives_bind)
qed

lemma record_failure_open:
  assumes "abstracts_phase cb m (Opened t)" shows "gives (record_failure cb R now) m () m"
  unfolding record_failure_def
  by (rule gives_catch, rule gives_bind, rule phase_gives(2), rule assms) (simp add: gives_ret)

lemma record_failure_half:
  assumes "abstracts_phase cb m (Half k)"
  shows "gives (record_failure cb R now) m () (m(state_key cb \<mapsto> (state_value OPEN, None),
           opened_at_key cb \<mapsto> (Num now, None), successes_key cb \<mapsto> (Num 0, None), probe_lock_key cb := None))"
  unfolding record_failure_def
  by (rule gives_catch, rule gives_bind, rule phase_gives(3), rule assms) (simp add: gives_exec)

lemma record_failure_closed:
  assumes "abstracts_phase cb m (Closed n)"
  shows "gives (record_failure cb R now) m ()
     (if n + 1 \<ge> cb_failure_threshold cb
      then m(failures_key cb \<mapsto> (Num (of_int (n + 1)), None), state_key cb \<mapsto> (state_value OPEN, None),
             opened_at_key cb \<mapsto> (Num now, None), successes_key cb \<mapsto> (Num 0, None))
      else m(failures_key cb \<mapsto> (Num (of_int (n + 1)), None)))"
proof -
  let ?m1 = "m(failures_key cb \<mapsto> (Num (of_int (n + 1)), None))"
  have "gives (r_incr R (failures_key cb)) m (n + 1) ?m1"
  proof (cases "m (failures_key cb)")
    case None
    with assms show ?thesis by (auto intro: gives_incr_new)
  next
    case (Some v)
    with assms show ?thesis by (auto intro: gives_incr_int)
  qed
  moreover have "gives (if n + 1 \<ge> cb_failure_threshold cb
      then r_exec R [CSet (state_key cb) (state_value OPEN), CSet (opened_at_key cb) (Num now),
              CSet (successes_key cb) (Num 0)]
      else rret ()) ?m1 ()
     (if n + 1 \<ge> cb_failure_threshold cb
      then ?m1(state_key cb \<mapsto> (state_value OPEN, None), opened_at_key cb \<mapsto> (Num now, None), successes_key cb \<mapsto> (Num 0, None))
      else ?m1)"
    by (auto intro: gives_exec gives_ret)
  ultimately show ?thesis
    unfolding record_failure_def
    by (intro gives_catch) (rule gives_bind, rule phase_gives(1), rule assms, simp add: gives_bind)
qed

lemma serve_Can: "gives (can_execute cb R now) m b m' \<Longrightarrow> gives (serve cb R pass (Can now)) m [b] m'"
  by (simp add: serve_def) (rule gives_bind, assumption, simp add: gives_ret)

lemma serve_Success: "gives (record_success cb R) m () m' \<Longrightarrow> gives (serve cb R pass Success) m [] m'"
  by (simp add: serve_def) (rule gives_bind, assumption, simp add: gives_ret)

lemma serve_Failure:
  "gives (record_failure cb R now) m () m' \<Longrightarrow> gives (serve cb R pass (Failure now)) m [] m'"
  by (simp add: serve_def) (rule gives_bind, assumption, simp add: gives_ret)

lemma refinesI:
  assumes "gives (serve cb R pass c) m r m'" "spec_step cb c a = (r, a')" "abstracts cb m' a'"
  shows "\<exists>m'. gives (serve cb R pass c) m (fst (spec_step cb c a)) m' \<and>
              abstracts cb m' (snd (spec_step cb c a))"
  using assms by auto

lemma Can_refines:
  assumes "abstracts cb m a" and live: "0 < cb_timeout_seconds cb"
  shows "\<exists>m'. gives (serve cb R pass (Can now)) m (fst (spec_step cb (Can now) a)) m' \<and>
              abstracts cb m' (snd (spec_step cb (Can now) a))"
proof -
  obtain p l where a: "a = (p, l)" by fastforce
  with assms have ph: "abstracts_phase cb m p" 
    and lock: "m (probe_lock_key cb) = map_option (\<lambda>r. (Num 1, Some r)) l"
    by (auto simp: abstracts_def)
  show ?thesis
  proof (cases p)
    case (Closed n)
    show ?thesis
      by (rule refinesI [OF serve_Can [OF can_execute_closed]])
         (use assms ph a Closed in \<open>auto simp: abstracts_def\<close>)
  next
    case (Opened t)
    with ph have opened: "abstracts_phase cb m (Opened t)" by simp
    show ?thesis
    proof (cases "now - t < of_int (cb_timeout_seconds cb) \<or> l \<noteq> None")
      case True
      with lock have blocked: "now - t < of_int (cb_timeout_seconds cb) \<or> m (probe_lock_key cb) \<noteq> None"
        by auto
      show ?thesis
        by (rule refinesI [OF serve_Can [OF can_execute_open_blocked [OF opened live blocked]]])
           (use opened lock True a Opened in \<open>auto simp: abstracts_def\<close>)
    next
      case False
      with lock have elapsed: "\<not> now - t < of_int (cb_timeout_seconds cb)"
        and free: "m (probe_lock_key cb) = None" by auto
      show ?thesis
        by (rule refinesI [OF serve_Can [OF can_execute_open_probes [OF opened live elapsed free]]])
           (use False a Opened in \<open>auto simp: abstracts_def\<close>)
    qed
  next
    case (Half k)
    with ph have half: "abstracts_phase cb m (Half k)" by simp
    show ?thesis
    proof (cases "m (probe_lock_key cb)")
      case None
      show ?thesis
        by (rule refinesI [OF serve_Can [OF can_execute_half(1) [OF half live None]]])
           (use None half lock a Half in \<open>auto simp: abstracts_def\<close>)
    next
      case (Some u)
      show ?thesis
        by (rule refinesI [OF serve_Can [OF can_execute_half(2) [OF half live Some]], where a' = a])
           (use Some half lock a Half in \<open>auto simp: abstracts_def\<close>)
    qed
  qed
qed

lemma Success_refines:
  assumes "abstracts cb m a"
  shows "\<exists>m'. gives (serve cb R pass Success) m (fst (spec_step cb Success a)) m' \<and>
              abstracts cb m' (snd (spec_step cb Success a))"
proof -
  obtain p l where a: "a = (p, l)" by fastforce
  with assms have ph: "abstracts_phase cb m p" 
    and lock: "m (probe_lock_key cb) = map_option (\<lambda>r. (Num 1, Some r)) l"
    by (auto simp: abstracts_def)
  show ?thesis
  proof (cases p)
    case (Closed n)
    with ph have closed: "abstracts_phase cb m (Closed n)" by simp
    show ?thesis
      by (rule refinesI [OF serve_Success [OF record_success_closed [OF closed]]])
         (use closed lock a Closed in \<open>auto simp: abstracts_def\<close>)
  next
    case (Opened t)
    show ?thesis
      by (rule refinesI [OF serve_Success [OF record_success_open]])
         (use ph lock a Opened in \<open>auto simp: abstracts_def\<close>)
  next
    case (Half k)
    with ph have half: "abstracts_phase cb m (Half k)" by simp
    show ?thesis
      by (rule refinesI [OF serve_Success [OF record_success_half [OF half]]])
         (use half a Half in \<open>auto simp: abstracts_def\<close>)
  qed
qed

lemma Failure_refines:
  assumes "abstracts cb m a"
  shows "\<exists>m'. gives (serve cb R pass (Failure now)) m (fst (spec_step cb (Failure now) a)) m' \<and>
              abstracts cb m' (snd (spec_step cb (Failure now) a))"
proof -
  obtain p l where a: "a = (p, l)" by fastforce
  with assms have ph: "abstracts_phase cb m p" 
    and lock: "m (probe_lock_key cb) = map_option (\<lambda>r. (Num 1, Some r)) l"
    by (auto simp: abstracts_def)
  show ?thesis
  proof (cases p)
    case (Closed n)
    with ph have closed: "abstracts_phase cb m (Closed n)" by simp
    show ?thesis
      by (rule refinesI [OF serve_Failure [OF record_failure_closed [OF closed]]])
         (use closed lock a Closed in \<open>auto simp: abstracts_def\<close>)
  next
    case (Opened t)
    show ?thesis
      by (rule refinesI [OF serve_Failure [OF record_failure_open]])
         (use ph lock a Opened in \<open>auto simp: abstracts_def\<close>)
  next
    case (Half k)
    with ph have half: "abstracts_phase cb m (Half k)" by simp
    show ?thesis
      by (rule refinesI [OF serve_Failure [OF record_failure_half [OF half]]])
         (use half a Half in \<open>auto simp: abstracts_def\<close>)
  qed
qed

lemma elapsed_phase: "abstracts_phase cb m p \<Longrightarrow> abstracts_phase cb (elapse d m) p"
  by (cases p) auto

lemma Wait_refines:
  assumes "abstracts cb m a"
  shows "\<exists>m'. gives (serve cb R pass (Wait d)) m (fst (spec_step cb (Wait d) a)) m' \<and>
              abstracts cb m' (snd (spec_step cb (Wait d) a))"
proof -
  obtain p l where a: "a = (p, l)" by fastforce
  with assms have "abstracts cb (elapse d m) (p, lock_left d l)"
    by (cases l) (auto simp: abstracts_def elapsed_phase lock_left_def option.map_comp comp_def)
  moreover have "gives (serve cb R pass (Wait d)) m [] (elapse d m)"
    by (simp add: gives_def serve_def passes)
  ultimately show ?thesis by (intro refinesI) (auto simp: a)
qed

lemma serve_refines:
  assumes "abstracts cb m a" and live: "0 < cb_timeout_seconds cb"
  shows "\<exists>m'. gives (serve cb R pass c) m (fst (spec_step cb c a)) m' \<and>
              abstracts cb m' (snd (spec_step cb c a))"
  using Can_refines [OF assms] Success_refines [OF assms(1)] Failure_refines [OF assms(1)]
    Wait_refines [OF assms(1)]
  by (cases c) simp_all

lemma serve_all_refines:
  assumes "abstracts cb m a" and live: "0 < cb_timeout_seconds cb"
  shows "\<exists>m'. gives (serve_all cb R pass cs) m (fst (spec_run cb cs a)) m' \<and>
              abstracts cb m' (snd (spec_run cb cs a))"
  using assms(1)
proof (induction cs arbitrary: m a)
  case Nil
  then show ?case by (auto intro: gives_ret)
next
  case (Cons c cs)
  obtain r a1 where st: "spec_step cb c a = (r, a1)" by (cases "spec_step cb c a")
  obtain rs a2 where rn: "spec_run cb cs a1 = (rs, a2)" by (cases "spec_run cb cs a1")
  from serve_refines [OF Cons.prems live, of c] st obtain m1
    where "gives (serve cb R pass c) m r m1" "abstracts cb m1 a1" by auto
  moreover from Cons.IH [OF this(2)] rn obtain m2
    where "gives (serve_all cb R pass cs) m1 rs m2" "abstracts cb m2 a2" by auto
  ultimately show ?case
    by (auto simp: st rn intro!: exI [of _ m2] gives_bind gives_ret)
qed

lemma serve_all_spec:
  assumes "abstracts cb (store s) a" and live: "0 < cb_timeout_seconds cb"
  obtains s' where "serve_all cb R pass cs s = (Inr (fst (spec_run cb cs a)), s')"
    "abstracts cb (store s') (snd (spec_run cb cs a))"
  using serve_all_refines [OF assms, of cs] by (auto elim: givesE)

lemma can_execute_spec:
  assumes "abstracts cb (store s) a" and live: "0 < cb_timeout_seconds cb"
  obtains b s' where "can_execute cb R now s = (Inr b, s')" "fst (spec_step cb (Can now) a) = [b]"
    "abstracts cb (store s') (snd (spec_step cb (Can now) a))"
proof -
  from Can_refines [OF assms, of now] obtain s' where
    s': "serve cb R pass (Can now) s = (Inr (fst (spec_step cb (Can now) a)), s')"
    "abstracts cb (store s') (snd (spec_step cb (Can now) a))"
    by (auto elim: givesE)
  then obtain b where "can_execute cb R now s = (Inr b, s')" "fst (spec_step cb (Can now) a) = [b]"
    by (auto simp: serve_def rbind_def rret_def split: prod.splits sum.splits)
  with s' that show ?thesis by blast
qed

lemma record_success_spec:
  assumes "abstracts cb (store s) a"
  obtains s' where "record_success cb R s = (Inr (), s')"
    "abstracts cb (store s') (snd (spec_step cb Success a))"
proof -
  from Success_refines [OF assms] obtain s' where
    "serve cb R pass Success s = (Inr (fst (spec_step cb Success a)), s')"
    "abstracts cb (store s') (snd (spec_step cb Success a))"
    by (auto elim: givesE)
  with that show ?thesis
    by (auto simp: serve_def rbind_def rret_def split: prod.splits sum.splits)
qed

lemma record_failure_spec:
  assumes "abstracts cb (store s) a"
  obtains s' where "record_failure cb R now s = (Inr (), s')"
    "abstracts cb (store s') (snd (spec_step cb (Failure now) a))"
proof -
  from Failure_refines [OF assms, of now] obtain s' where
    "serve cb R pass (Failure now) s = (Inr (fst (spec_step cb (Failure now) a)), s')"
    "abstracts cb (store s') (snd (spec_step cb (Failure now) a))"
    by (auto elim: givesE)
  with that show ?thesis
    by (auto simp: serve_def rbind_def rret_def split: prod.splits sum.splits)
qed

end

subsection \<open>The contract with the nodes\<close>

text \<open>
  The methods of a breaker object bound to a client.  What the agent nodes rely on is that bookkeeping
  never raises, and that asking never raises an error of the Redis client (Redis being down lets every
  call pass).
\<close>

record 's circuit =
  c_can :: "rat \<Rightarrow> ('s, bool) prog"
  c_success :: "('s, unit) prog"
  c_failure :: "rat \<Rightarrow> ('s, unit) prog"

definition circuit :: "breaker \<Rightarrow> 's redis \<Rightarrow> 's circuit" where
  "circuit cb R = \<lparr>c_can = can_execute cb R, c_success = record_success cb R,
     c_failure = record_failure cb R\<rparr>"

lemma circuit_simps [simp]:
  "c_can (circuit cb R) = can_execute cb R" "c_success (circuit cb R) = record_success cb R"
  "c_failure (circuit cb R) = record_failure cb R"
  by (simp_all add: circuit_def)

locale bookkeeping =
  fixes C :: "'s circuit"
  assumes success_returns: "\<exists>s'. c_success C s = (Inr (), s')"
    and failure_returns: "\<exists>s'. c_failure C now s = (Inr (), s')"
    and can_raises: "c_can C now s = (Inl e, s') \<Longrightarrow> \<not> is_redis_error e"

context redis_server begin

lemma get_phase_only_redis: "only_redis_errors (get_phase cb R)"
  unfolding get_phase_def by (intro only_redis_intros)

lemma record_success_returns: "\<exists>s'. record_success cb R s = (Inr (), s')"
proof -
  have "\<exists>u s'. record_success cb R s = (Inr u, s')"
    unfolding record_success_def
    by (intro only_redis_catch only_redis_intros get_phase_only_redis)
  then show ?thesis by simp
qed

lemma record_failure_returns: "\<exists>s'. record_failure cb R now s = (Inr (), s')"
proof -
  have "\<exists>u s'. record_failure cb R now s = (Inr u, s')"
    unfolding record_failure_def
    by (intro only_redis_catch only_redis_intros get_phase_only_redis)
  then show ?thesis by simp
qed

lemma can_execute_raises: "can_execute cb R now s = (Inl e, s') \<Longrightarrow> \<not> is_redis_error e"
  unfolding can_execute_def by (drule rcatch_raises) simp

lemma can_execute_fails_open:
  assumes "r_get R (state_key cb) s = (Inl e, s')"
  shows "can_execute cb R now s = (Inr True, s')"
  using assms get_err [OF assms]
  by (simp add: can_execute_def get_phase_def rbind_def rcatch_def)

end

sublocale redis_server \<subseteq> breaker: bookkeeping "circuit cb R" for cb
  by unfold_locales
     (simp_all add: record_success_returns record_failure_returns can_execute_raises)

context redis_server begin

lemma circuit_bookkeeping: "bookkeeping (circuit cb R)"
  by (rule breaker.bookkeeping_axioms)

end

subsection \<open>What the breaker promises\<close>

fun blocked_until :: "rat \<Rightarrow> call \<Rightarrow> bool" where
  "blocked_until t (Can now) = (now < t)"
| "blocked_until t _ = True"

definition asked :: "call list \<Rightarrow> nat" where
  "asked cs = length (filter (\<lambda>c. case c of Can _ \<Rightarrow> True | _ \<Rightarrow> False) cs)"

definition failed :: "call list \<Rightarrow> nat" where
  "failed cs = length (filter (\<lambda>c. case c of Failure _ \<Rightarrow> True | _ \<Rightarrow> False) cs)"

definition waited :: "call list \<Rightarrow> int" where
  "waited cs = sum_list (map (\<lambda>c. case c of Wait d \<Rightarrow> int d | _ \<Rightarrow> 0) cs)"

fun no_outcome :: "call \<Rightarrow> bool" where
  "no_outcome (Can _) = True"
| "no_outcome (Wait _) = True"
| "no_outcome _ = False"

lemma waited_simps [simp]:
  "waited [] = 0" "waited (Wait d # cs) = int d + waited cs" "waited (Can now # cs) = waited cs"
  "waited (Success # cs) = waited cs" "waited (Failure now # cs) = waited cs"
  by (simp_all add: waited_def)

lemma waited_nonneg: "0 \<le> waited cs"
  by (auto simp: waited_def intro!: sum_list_nonneg split: call.split)

lemma asked_append: "asked (cs @ ds) = asked cs + asked ds"
  by (simp add: asked_def)

lemma failed_append: "failed (cs @ ds) = failed cs + failed ds"
  by (simp add: failed_def)

lemma spec_blocks:
  assumes "list_all (blocked_until (t + of_int (cb_timeout_seconds cb))) cs"
  shows "\<exists>l'. spec_run cb cs (Opened t, l) = (replicate (asked cs) False, (Opened t, l'))"
  using assms
proof (induction cs arbitrary: l)
  case (Cons c cs)
  then have "\<exists>l1. spec_step cb c (Opened t, l) = (replicate (asked [c]) False, Opened t, l1)"
    by (cases c) (auto simp: asked_def algebra_simps)
  then obtain l1 where "spec_step cb c (Opened t, l) = (replicate (asked [c]) False, Opened t, l1)" ..
  moreover obtain l' where "spec_run cb cs (Opened t, l1) = (replicate (asked cs) False, Opened t, l')"
    using Cons by auto
  ultimately show ?case
    using asked_append [of "[c]" cs] by (auto simp: replicate_add)
qed (simp add: asked_def)

lemma spec_counts:
  assumes "Success \<notin> set cs" "n + int (failed cs) < cb_failure_threshold cb"
  shows "\<exists>l'. spec_run cb cs (Closed n, l) = (replicate (asked cs) True, (Closed (n + int (failed cs)), l'))"
  using assms
proof (induction cs arbitrary: n l)
  case (Cons c cs)
  let ?n = "n + int (failed [c])"
  have fc: "failed (c # cs) = failed [c] + failed cs" using failed_append [of "[c]" cs] by simp
  from Cons.prems fc have "\<exists>l1. spec_step cb c (Closed n, l) = (replicate (asked [c]) True, Closed ?n, l1)"
    by (cases c) (auto simp: asked_def failed_def)
  then obtain l1 where "spec_step cb c (Closed n, l) = (replicate (asked [c]) True, Closed ?n, l1)" ..
  moreover have "\<exists>l'. spec_run cb cs (Closed ?n, l1) = (replicate (asked cs) True, Closed (?n + int (failed cs)), l')"
    by (rule Cons.IH) (use Cons.prems fc in auto)
  ultimately show ?case
    using asked_append [of "[c]" cs] fc by (auto simp: replicate_add)
qed (simp add: asked_def failed_def)

lemma spec_append:
  "spec_run cb (cs @ ds) a = (fst (spec_run cb cs a) @ fst (spec_run cb ds (snd (spec_run cb cs a))),
     snd (spec_run cb ds (snd (spec_run cb cs a))))"
  by (induction cs arbitrary: a) (auto split: prod.splits)

lemma spec_waits:
  assumes "list_all no_outcome cs" "waited cs < r"
  shows "spec_run cb cs (Half k, Some r) = (replicate (asked cs) False, (Half k, Some (r - waited cs)))"
  using assms
proof (induction cs arbitrary: r)
  case (Cons c cs)
  then show ?case
  proof (cases c)
    case (Wait d)
    with Cons.prems waited_nonneg [of cs] have "\<not> r \<le> int d" by simp
    with Cons Wait show ?thesis by (simp add: asked_def lock_left_def time_left_def algebra_simps)
  qed (auto simp: asked_def)
qed (simp add: asked_def)

lemma spec_probes:
  assumes "k < cb_success_threshold cb" "nat (cb_success_threshold cb - k) = Suc n"
  shows "spec_run cb (concat (replicate (Suc n) [Can now, Success])) (Half k, None) =
    (replicate (Suc n) True, (Closed 0, None))"
  using assms
proof (induction n arbitrary: k)
  case 0
  then show ?case by simp
next
  case (Suc n)
  then have "k + 1 < cb_success_threshold cb" "nat (cb_success_threshold cb - (k + 1)) = Suc n" by auto
  from Suc.IH [OF this] this(1) show ?case by simp
qed

subsection \<open>Properties\<close>

text \<open>C11: run against a Redis server that answers, any sequence of calls to
  the breaker (\<open>can_execute\<close>, \<open>record_success\<close>, \<open>record_failure\<close>, by any workers, at any times of their
  clocks) with any lapses of time between them returns and gives exactly the answers of the abstract
  breaker, whose state the five keys and the time the probe lock has left then represent.  In the abstract
  breaker a success in \<open>CLOSED\<close> resets the failure counter, which the docstring of \<open>record_success\<close> calls a
  no-op, and the probe lock is free again \<open>timeout_seconds\<close> after it was taken.\<close>

theorem breaker_implements_spec:
  assumes "timed_redis R store pass" "abstracts cb (store s) a" "0 < cb_timeout_seconds cb"
  shows "\<exists>s'. serve_all cb R pass cs s = (Inr (fst (spec_run cb cs a)), s') \<and>
              abstracts cb (store s') (snd (spec_run cb cs a))"
  by (rule timed_redis.serve_all_spec [OF assms, of cs]) blast

text \<open>A server with an open circuit, and the breaker of the analyzer.\<close>

definition analyzer_breaker :: breaker where
  "analyzer_breaker = \<lparr>cb_name = ''openai_analyzer'', cb_failure_threshold = 5,
     cb_success_threshold = 2, cb_timeout_seconds = 30\<rparr>"

definition opened_mem :: "breaker \<Rightarrow> rat \<Rightarrow> mem" where
  "opened_mem cb t = \<lparr>m_store = [state_key cb \<mapsto> (state_value OPEN, None),
     opened_at_key cb \<mapsto> (Num t, None)], m_now = 0, m_fail = []\<rparr>"

definition idle_mem :: mem where
  "idle_mem = \<lparr>m_store = Map.empty, m_now = 0, m_fail = []\<rparr>"

lemma opened_mem_abstracts: "abstracts cb (mem_timed (opened_mem cb t)) (Opened t, None)"
  by (simp add: abstracts_def opened_mem_def mem_timed_def)

lemma idle_mem_abstracts: "abstracts cb (mem_timed idle_mem) (Closed 0, None)"
  by (simp add: abstracts_def idle_mem_def mem_timed_def)

lemma timed_redis_live: "timed_redis live mem_timed mem_pass"
  by (rule timed.timed_redis_axioms)

lemma analyzer_timeout: "0 < cb_timeout_seconds analyzer_breaker"
  by (simp add: analyzer_breaker_def)

theorem breaker_implements_spec_witness:
  "\<exists>s'. serve_all analyzer_breaker live mem_pass
           [Can 10, Can 31, Wait 29, Can 60, Wait 1, Can 61, Failure 62, Can 70, Can 92, Success, Can 92, Success, Can 93]
           (opened_mem analyzer_breaker 0) =
         (Inr [False, True, False, True, False, True, True, True], s') \<and>
         abstracts analyzer_breaker (mem_timed s') (Closed 0, None)"
  using breaker_implements_spec [where cs = "[Can 10, Can 31, Wait 29, Can 60, Wait 1, Can 61, Failure 62, Can 70,
      Can 92, Success, Can 92, Success, Can 93]",
      OF timed_redis_live opened_mem_abstracts [of analyzer_breaker 0] analyzer_timeout]
  by (simp add: analyzer_breaker_def lock_left_def time_left_def)

text \<open>While the timeout of an open circuit has not passed, every request of
  every worker is refused, whatever successes and failures are recorded in between, and the circuit
  stays open since the same moment.\<close>

theorem open_circuit_blocks:
  assumes "timed_redis R store pass" "abstracts cb (store s) (Opened t, l)" "0 < cb_timeout_seconds cb"
    and "list_all (blocked_until (t + of_int (cb_timeout_seconds cb))) cs"
  shows "\<exists>s' l'. serve_all cb R pass cs s = (Inr (replicate (asked cs) False), s') \<and>
              abstracts cb (store s') (Opened t, l')"
  by (rule timed_redis.serve_all_spec [OF assms(1-3), of cs]) (use spec_blocks [OF assms(4), of l] in auto)

theorem open_circuit_blocks_witness:
  "\<exists>s' l'. serve_all analyzer_breaker live mem_pass [Can 10, Failure 12, Wait 5, Success, Can 29]
           (opened_mem analyzer_breaker 0) = (Inr [False, False], s') \<and>
         abstracts analyzer_breaker (mem_timed s') (Opened 0, l')"
  using open_circuit_blocks [where cs = "[Can 10, Failure 12, Wait 5, Success, Can 29]",
      OF timed_redis_live opened_mem_abstracts [of analyzer_breaker 0] analyzer_timeout]
  by (simp add: analyzer_breaker_def asked_def)

text \<open>From a closed circuit without recorded failures, every request is let
  through until exactly \<open>failure_threshold\<close> failures have been recorded with no success in between; the
  failure that reaches the threshold opens the circuit at that moment.\<close>

theorem circuit_trips_at_threshold:
  assumes "timed_redis R store pass" "abstracts cb (store s) (Closed 0, l)" "0 < cb_timeout_seconds cb"
    and "Success \<notin> set cs" "int (failed cs) = cb_failure_threshold cb - 1"
  shows "(\<exists>s' l'. serve_all cb R pass cs s = (Inr (replicate (asked cs) True), s') \<and>
              abstracts cb (store s') (Closed (int (failed cs)), l')) \<and>
         (\<exists>s' l'. serve_all cb R pass (cs @ [Failure now]) s = (Inr (replicate (asked cs) True), s') \<and>
              abstracts cb (store s') (Opened now, l'))"
proof -
  obtain l' where spec: "spec_run cb cs (Closed 0, l) =
      (replicate (asked cs) True, Closed (int (failed cs)), l')"
    using spec_counts [of cs 0 cb l] assms(4,5) by auto
  have "\<exists>s' l'. serve_all cb R pass cs s = (Inr (replicate (asked cs) True), s') \<and>
              abstracts cb (store s') (Closed (int (failed cs)), l')"
    by (rule timed_redis.serve_all_spec [OF assms(1-3), of cs]) (use spec in auto)
  moreover have "\<exists>s' l'. serve_all cb R pass (cs @ [Failure now]) s = (Inr (replicate (asked cs) True), s') \<and>
              abstracts cb (store s') (Opened now, l')"
    by (rule timed_redis.serve_all_spec [OF assms(1-3), of "cs @ [Failure now]"])
       (use spec assms(5) in \<open>auto simp: spec_append\<close>)
  ultimately show ?thesis ..
qed

theorem circuit_trips_at_threshold_witness:
  "\<exists>s' l'. serve_all analyzer_breaker live mem_pass [Can 1, Failure 2, Failure 3, Failure 4, Can 5, Failure 6, Failure 7]
           idle_mem = (Inr [True, True], s') \<and>
         abstracts analyzer_breaker (mem_timed s') (Opened 7, l')"
  using circuit_trips_at_threshold [where now = 7 and cs = "[Can 1, Failure 2, Failure 3, Failure 4, Can 5, Failure 6]",
      OF timed_redis_live idle_mem_abstracts [of analyzer_breaker] analyzer_timeout]
  by (simp add: analyzer_breaker_def asked_def failed_def)

text \<open>C12: from an open circuit whose timeout has passed by the clock of the asking worker,
  its request is let through as a probe.  As long as no outcome is recorded and less than
  \<open>timeout_seconds\<close> pass, every other request of any worker is refused; once that time has passed the lock
  is gone and the next request is a probe again, so a worker that died while probing blocks nobody for
  longer.  And \<open>success_threshold\<close> successful probes, one after the other, close the circuit.\<close>

theorem circuit_recovers:
  assumes "timed_redis R store pass" "abstracts cb (store s) (Opened t, None)" "0 < cb_timeout_seconds cb"
    and "t + of_int (cb_timeout_seconds cb) \<le> now" "0 < cb_success_threshold cb"
    and "list_all no_outcome later" "waited later < cb_timeout_seconds cb"
    and "cb_timeout_seconds cb \<le> waited later + int d"
  shows "(\<exists>s'. serve_all cb R pass (Can now # later) s =
                (Inr (True # replicate (asked later) False), s') \<and>
              abstracts cb (store s') (Half 0, Some (cb_timeout_seconds cb - waited later))) \<and>
         (\<exists>s'. serve_all cb R pass (Can now # later @ [Wait d, Can now']) s =
                (Inr (True # replicate (asked later) False @ [True]), s') \<and>
              abstracts cb (store s') (Half 0, Some (cb_timeout_seconds cb))) \<and>
         (\<exists>s'. serve_all cb R pass (concat (replicate (nat (cb_success_threshold cb)) [Can now, Success])) s =
                (Inr (replicate (nat (cb_success_threshold cb)) True), s') \<and>
              abstracts cb (store s') (Closed 0, None))"
proof -
  have elapsed: "\<not> now - t < of_int (cb_timeout_seconds cb)" using assms(4) by simp
  note waits = spec_waits [OF assms(6,7), of cb 0]
  have first: "\<exists>s'. serve_all cb R pass (Can now # later) s =
                (Inr (True # replicate (asked later) False), s') \<and>
              abstracts cb (store s') (Half 0, Some (cb_timeout_seconds cb - waited later))"
    by (rule timed_redis.serve_all_spec [OF assms(1-3), of "Can now # later"])
       (use elapsed waits in simp)
  have second: "\<exists>s'. serve_all cb R pass (Can now # later @ [Wait d, Can now']) s =
                (Inr (True # replicate (asked later) False @ [True]), s') \<and>
              abstracts cb (store s') (Half 0, Some (cb_timeout_seconds cb))"
    by (rule timed_redis.serve_all_spec [OF assms(1-3), of "Can now # later @ [Wait d, Can now']"])
       (use elapsed waits assms(8) in \<open>simp add: spec_append lock_left_def time_left_def\<close>)
  obtain n where n: "nat (cb_success_threshold cb) = Suc n"
    using assms(5) by (cases "nat (cb_success_threshold cb)") auto
  let ?cs = "concat (replicate (Suc n) [Can now, Success])"
  have "spec_run cb ?cs (Opened t, None) = spec_run cb ?cs (Half 0, None)"
    using elapsed by simp
  with spec_probes [of 0 cb n now] assms(5) n
  have "spec_run cb ?cs (Opened t, None) = (replicate (Suc n) True, (Closed 0, None))" by simp
  with timed_redis.serve_all_spec [OF assms(1-3), of ?cs]
  have "\<exists>s'. serve_all cb R pass (concat (replicate (nat (cb_success_threshold cb)) [Can now, Success])) s =
                (Inr (replicate (nat (cb_success_threshold cb)) True), s') \<and>
              abstracts cb (store s') (Closed 0, None)"
    unfolding n by (metis fst_conv snd_conv)
  with first second show ?thesis by blast
qed

theorem circuit_recovers_witness:
  "(\<exists>s'. serve_all analyzer_breaker live mem_pass [Can 30, Can 31, Wait 20, Can 50] (opened_mem analyzer_breaker 0) =
       (Inr [True, False, False], s') \<and> abstracts analyzer_breaker (mem_timed s') (Half 0, Some 10)) \<and>
   (\<exists>s'. serve_all analyzer_breaker live mem_pass [Can 30, Can 31, Wait 20, Can 50, Wait 10, Can 60]
            (opened_mem analyzer_breaker 0) =
       (Inr [True, False, False, True], s') \<and> abstracts analyzer_breaker (mem_timed s') (Half 0, Some 30)) \<and>
   (\<exists>s'. serve_all analyzer_breaker live mem_pass [Can 30, Success, Can 30, Success]
            (opened_mem analyzer_breaker 0) =
       (Inr [True, True], s') \<and> abstracts analyzer_breaker (mem_timed s') (Closed 0, None))"
  using circuit_recovers [where now = 30 and later = "[Can 31, Wait 20, Can 50]" and d = 10 and now' = 60,
      OF timed_redis_live opened_mem_abstracts [of analyzer_breaker 0] analyzer_timeout]
  by (simp add: analyzer_breaker_def numeral_2_eq_2 asked_def)

text \<open>Against any Redis server, failing or not, recording an outcome always
  returns, asking never raises an error of the Redis client, and when the state cannot be read the
  request is let through.\<close>

theorem breaker_fails_open:
  assumes "redis_server R view"
  shows "(\<exists>s'. record_success cb R s = (Inr (), s')) \<and>
         (\<exists>s'. record_failure cb R now s = (Inr (), s')) \<and>
         (\<forall>e s'. can_execute cb R now s = (Inl e, s') \<longrightarrow> \<not> is_redis_error e) \<and>
         (\<forall>e s'. r_get R (state_key cb) s = (Inl e, s') \<longrightarrow> can_execute cb R now s = (Inr True, s'))"
  by (intro conjI allI impI)
     (fact redis_server.record_success_returns [OF assms] redis_server.record_failure_returns [OF assms]
       | (erule redis_server.can_execute_raises [OF assms] redis_server.can_execute_fails_open [OF assms]))+

theorem breaker_fails_open_witness:
  "fst (can_execute analyzer_breaker mem 5 ((opened_mem analyzer_breaker 0)\<lparr>m_fail := [True]\<rparr>)) = Inr True \<and>
   (\<exists>s'. record_failure analyzer_breaker mem 5 ((opened_mem analyzer_breaker 0)\<lparr>m_fail := [True]\<rparr>) =
      (Inr (), s'))"
proof -
  let ?s = "(opened_mem analyzer_breaker 0)\<lparr>m_fail := [True]\<rparr>"
  have "r_get mem (state_key analyzer_breaker) ?s = (Inl RedisConnectionError, opened_mem analyzer_breaker 0)"
    by (simp add: mem_def mem_op_def opened_mem_def)
  with breaker_fails_open [OF mem.redis_server_axioms, of analyzer_breaker ?s 5]
  show ?thesis by (metis fst_conv)
qed

end
