(* ===== verification/Llm.thy ===== *)
theory Llm
  imports Agent_State Circuit_Breaker
begin

text \<open>
  What the nodes that call the model share (\<open>app/agents/nodes/_gemini_utils.py\<close> and the code the nodes
  repeat): the retry of a truncated answer, the JSON span of an answer, the stack frames of an event.
  The model itself is an argument, a function of the attempt and the prompt; so are the JSON encoder and
  decoder, whose results the code inspects.
\<close>

record response =
  rs_text :: "string res"  \<comment> \<open>\<open>.text\<close> raises when the answer was blocked\<close>
  rs_usage :: "(int \<times> int \<times> int) option"  \<comment> \<open>prompt, completion, total tokens\<close>

type_synonym model = "nat \<Rightarrow> string \<Rightarrow> response res"

text \<open>\<open>type(exc).__name__\<close>\<close>

definition exn_name :: "exn \<Rightarrow> string" where
  "exn_name e = (case e of
     ValueError _ \<Rightarrow> ''ValueError'' | TypeError _ \<Rightarrow> ''TypeError'' | KeyError _ \<Rightarrow> ''KeyError''
   | AttributeError _ \<Rightarrow> ''AttributeError'' | OSErr _ \<Rightarrow> ''OSError'' | TimeoutErr \<Rightarrow> ''TimeoutError''
   | RedisError _ \<Rightarrow> ''RedisError'' | RedisConnectionError \<Rightarrow> ''ConnectionError''
   | IntegrityError _ \<Rightarrow> ''IntegrityError'' | DataError _ \<Rightarrow> ''DataError''
   | OperationalError _ \<Rightarrow> ''OperationalError'' | HTTPException _ _ \<Rightarrow> ''HTTPException''
   | NotFound _ \<Rightarrow> ''NotFound'' | OtherError name \<Rightarrow> name)"

definition em_dash :: string where
  "em_dash = [CHR 0xE2, CHR 0x80, CHR 0x94]"

definition nl :: string where
  "nl = [CHR 0x0A]"

subsection \<open>Answers\<close>

definition looks_truncated :: "string \<Rightarrow> bool" where
  "looks_truncated raw =
     (let stripped = strip raw in
      if stripped = [] then False
      else if last stripped \<noteq> CHR ''}'' then True
      else count_list stripped (CHR ''{'') \<noteq> count_list stripped (CHR ''}''))"

definition generate_with_truncation_retry :: "model \<Rightarrow> string \<Rightarrow> response res" where
  "generate_with_truncation_retry generate prompt =
     bind_res (generate 0 prompt) (\<lambda>response.
     bind_res (rs_text response) (\<lambda>raw.
       if looks_truncated raw then generate 1 prompt else Inr response))"

text \<open>\<open>re.search(r"\{.*\}", raw, re.DOTALL)\<close>: from the first opening to the last closing brace.\<close>

definition json_span :: "string \<Rightarrow> string" where
  "json_span raw =
     (let body = rev (dropWhile (\<lambda>c. c \<noteq> CHR ''}'') (rev (dropWhile (\<lambda>c. c \<noteq> CHR ''{'') raw)))
      in if body = [] then raw else body)"

definition tokens_used :: "response \<Rightarrow> (string \<times> int) list" where
  "tokens_used r = (case rs_usage r of
     None \<Rightarrow> [(''prompt'', 0), (''completion'', 0), (''total'', 0)]
   | Some (p, c, t) \<Rightarrow> [(''prompt'', p), (''completion'', c), (''total'', t)])"

definition no_tokens :: "(string \<times> int) list" where
  "no_tokens = [(''prompt'', 0), (''completion'', 0), (''total'', 0)]"

text \<open>\<open>f"{x:.2f}"\<close>\<close>

definition fixed2 :: "rat \<Rightarrow> string" where
  "fixed2 q = (let n = round_half_even (100 * \<bar>q\<bar>) in
     (if q < 0 then ''-'' else []) @ str_int (n div 100) @ ''.'' @ pad 2 (n mod 100))"

subsection \<open>Frames\<close>

text \<open>\<open>f.get(k, '?')\<close> in an f-string\<close>

definition frame_field :: "string \<Rightarrow> json \<Rightarrow> string" where
  "frame_field k f = (if jhas k f then py_str (jget k f) else ''?'')"

definition frame_line :: "json \<Rightarrow> string res" where
  "frame_line f = (case f of
     JObj _ \<Rightarrow>
       (let base = ''  at '' @ frame_field ''method'' f @ '' ('' @ frame_field ''file'' f @ '':'' @
                   frame_field ''line'' f @ '')'';
            code = jget ''code_context'' f
        in if \<not> truthy code then Inr base
           else case code of
                  JStr s \<Rightarrow> Inr (base @ nl @ ''    Context:'' @ nl @ ''      '' @ strip s)
                | _ \<Rightarrow> Inl (AttributeError ''strip''))
   | _ \<Rightarrow> Inl (AttributeError ''get''))"

definition stack_trace_str :: "json \<Rightarrow> string res" where
  "stack_trace_str parsed =
     (let v = jget ''stack_frames'' parsed in
      if \<not> truthy v then Inr []
      else case v of
             JArr frames \<Rightarrow> bind_res (map_res frame_line frames) (\<lambda>ls. Inr (join nl ls))
           | JObj _ \<Rightarrow> Inl (AttributeError ''get'')
           | JStr _ \<Rightarrow> Inl (AttributeError ''get'')
           | _ \<Rightarrow> Inl (TypeError ''not iterable''))"

subsection \<open>Events that have been validated\<close>

lemma frame_line_dump: "\<exists>l. frame_line (frame_dump f) = Inr l"
  by (auto simp: frame_line_def frame_dump_def Let_def)

lemma map_res_total: "(\<And>x. x \<in> set xs \<Longrightarrow> \<exists>y. f x = Inr y) \<Longrightarrow> \<exists>ys. map_res f xs = Inr ys"
proof (induction xs)
  case (Cons x xs)
  then obtain y ys where "f x = Inr y" "map_res f xs = Inr ys" by (metis list.set_intros)
  then show ?case by simp
qed simp

lemma stack_trace_str_to_dict: "\<exists>t. stack_trace_str (to_dict e) = Inr t"
proof -
  have "\<exists>ls. map_res frame_line (map frame_dump (pe_stack_frames e)) = Inr ls"
    by (rule map_res_total) (auto simp: frame_line_dump)
  then show ?thesis by (auto simp: stack_trace_str_def to_dict_def)
qed

lemma int_or_0_to_dict:
  "int_or_0 ''crash_line'' (to_dict e) = Inr (pe_crash_line e)"
  "int_or_0 ''context_log_count'' (to_dict e) = Inr (pe_context_log_count e)"
  by (simp_all add: int_or_0_def to_dict_def Let_def)

lemma generate_cases:
  assumes "generate_with_truncation_retry g p = Inr r"
  obtains "g 0 p = Inr r" | "g 1 p = Inr r"
  using assms by (auto simp: generate_with_truncation_retry_def bind_res_eq_Inr split: if_splits)

subsection \<open>A crash for the witnesses\<close>

definition crash_event :: parsed_log_event where
  "crash_event = \<lparr>pe_tenant_id = ''0a000000-0000-4000-8000-00000000000a'', pe_incident_id = ''log'', pe_s3_path = ''logs/1'',
     pe_service_name = ''pay'', pe_environment = ''prod'', pe_error_type = ''ValueError'',
     pe_error_message = ''bad'', pe_severity = ''error'', pe_crash_file = ''app/a.py'', pe_crash_line = 12,
     pe_crash_method = ''f'', pe_stack_frames = [], pe_context_log_count = 1, pe_sdk_meta = JNull\<rparr>"

definition crash_state :: agent_state where
  "crash_state = empty_state\<lparr>st_tenant_id := Some (pe_tenant_id crash_event),
     st_parsed_event := Some (to_dict crash_event)\<rparr>"

lemma crash_state_event:
  "st_parsed_event crash_state = Some (to_dict crash_event)"
  "st_tenant_id crash_state = Some (pe_tenant_id crash_event)"
  by (simp_all add: crash_state_def)

end
