(* ===== verification/Analyzer.thy ===== *)
theory Analyzer
  imports Llm
begin

text \<open>
  \<open>app/agents/nodes/analyzer.py\<close>: the root-cause analysis, guarded by a circuit breaker.  Every exception
  of the guarded part ends in a fallback analysis; only answers that are no usable JSON spare the breaker.
\<close>

text \<open>The breaker, the model, the JSON encoder and decoder, and the clock readings.\<close>

record 's llm_env =
  le_circuit :: "'s circuit"
  le_generate :: model
  le_loads :: "string \<Rightarrow> json option"
  le_dumps :: "json \<Rightarrow> string"
  le_asked :: rat  \<comment> \<open>when the breaker is asked\<close>
  le_failed :: rat  \<comment> \<open>when a failure is recorded\<close>
  le_latency :: int

subsection \<open>The prompt\<close>

record analyzer_input =
  ai_error_type :: string
  ai_error_message :: string
  ai_service_name :: string
  ai_environment :: string
  ai_crash_file :: string
  ai_crash_line :: int
  ai_crash_method :: string
  ai_stack_trace :: string
  ai_code_context :: string
  ai_playbook :: "string option"
  ai_context_logs :: int
  ai_sdk_meta :: json

definition analyzer_prompt :: "(json \<Rightarrow> string) \<Rightarrow> analyzer_input \<Rightarrow> string" where
  "analyzer_prompt dumps i = join (nl @ nl) (
     [''## Error Event'',
      ''**Service:** '' @ ai_service_name i @ ''  **Environment:** '' @ ai_environment i,
      ''**Error Type:** '' @ ai_error_type i,
      ''**Error Message:** '' @ str_or (Some (ai_error_message i)) ''(none)'',
      ''**Crash Location:** `'' @ ai_crash_file i @ '':'' @ str_int (ai_crash_line i) @ ''` in `'' @
        ai_crash_method i @ ''`'',
      ''**Context Log Entries:** '' @ str_int (ai_context_logs i)] @
     (if truthy (ai_sdk_meta i)
      then [nl @ ''## Execution Environment / SDK Meta'', dumps (ai_sdk_meta i)] else []) @
     (if ai_stack_trace i \<noteq> [] then [nl @ ''## Stack Trace'', ai_stack_trace i] else []) @
     (if ai_code_context i \<noteq> [] then [nl @ ''## Relevant Source Code'', ai_code_context i]
      else [nl @ ''## Relevant Source Code'' @ nl @ ''*(Not available '' @ em_dash @
            '' repository not indexed or symbol not found.)*'']) @
     (case nonempty (ai_playbook i) of
        Some p \<Rightarrow> [nl @ ''## Runbook Instructions (Matched Playbook)'', p] | None \<Rightarrow> []) @
     [nl @ ''Analyse this incident and return the JSON object as specified.''])"

subsection \<open>The answer\<close>

definition fence :: string where
  "fence = ''```''"

definition strip_fences :: "string \<Rightarrow> string" where
  "strip_fences raw =
     (let s = strip raw;
          opened = (if prefix (fence @ ''json'') s then drop 7 s else if prefix fence s then drop 3 s else s)
      in strip (removesuffix fence opened))"

definition JSONParseError :: exn where
  "JSONParseError = OtherError ''AnalyzerJSONParseError''"

definition reported_confidence :: "json \<Rightarrow> rat" where
  "reported_confidence d =
     clamp01 (if jhas ''root_cause_confidence'' d
              then get_or (json_float (jget ''root_cause_confidence'' d)) (1/2) else 1/2)"

definition read_analysis :: "(string \<Rightarrow> json option) \<Rightarrow> string \<Rightarrow> (string \<times> rat) res" where
  "read_analysis loads raw =
     (case loads (strip_fences raw) of
        None \<Rightarrow> Inl JSONParseError
      | Some (JObj kvs) \<Rightarrow>
          (let root = jget ''root_cause'' (JObj kvs) in
           if \<not> truthy root then Inl JSONParseError
           else case root of
                  JStr s \<Rightarrow> if strip s = [] then Inl JSONParseError
                           else Inr (s, reported_confidence (JObj kvs))
                | _ \<Rightarrow> Inl (AttributeError ''strip''))
      | Some _ \<Rightarrow> Inl (AttributeError ''get''))"

definition fallback_root_cause :: "exn \<Rightarrow> string option \<Rightarrow> string \<Rightarrow> string \<Rightarrow> int \<Rightarrow> string" where
  "fallback_root_cause e playbook error_type crash_method crash_line =
     (if strip (str_or playbook []) \<noteq> []
      then ''[GPT-4 Unavailable '' @ em_dash @ '' Playbook Guidance]'' @ nl @ nl @ strip (str_or playbook [])
      else ''Automated analysis unavailable (GPT-4 unreachable: '' @ exn_name e @ ''). '' @
           ''The error '' @ [CHR 0x27] @ error_type @ [CHR 0x27] @ '' occurred in `'' @ crash_method @
           ''` at line '' @ str_int crash_line @ ''. '' @
           ''Please review the stack trace and code context manually.'')"

subsection \<open>The node\<close>

text \<open>The guarded part: the raw answer as far as it got, and the analysis or the exception.\<close>

definition guarded_analysis ::
  "'s llm_env \<Rightarrow> string \<Rightarrow> 's \<Rightarrow> (string \<times> (string \<times> rat \<times> (string \<times> int) list) res) \<times> 's" where
  "guarded_analysis E prompt s =
     (case c_can (le_circuit E) (le_asked E) s of
        (Inl e, s1) \<Rightarrow> (([], Inl e), s1)
      | (Inr False, s1) \<Rightarrow> (([], Inl (OtherError ''RuntimeError'')), s1)
      | (Inr True, s1) \<Rightarrow>
          (case generate_with_truncation_retry (le_generate E) prompt of
             Inl e \<Rightarrow> (([], Inl e), s1)
           | Inr response \<Rightarrow>
               (case rs_text response of
                  Inl e \<Rightarrow> (([], Inl e), s1)
                | Inr raw \<Rightarrow>
                    (case read_analysis (le_loads E) raw of
                       Inl e \<Rightarrow> ((raw, Inl e), s1)
                     | Inr (root_cause, confidence) \<Rightarrow>
                         (case c_success (le_circuit E) s1 of
                            (Inl e, s2) \<Rightarrow> ((raw, Inl e), s2)
                          | (Inr _, s2) \<Rightarrow>
                              ((raw, Inr (root_cause, confidence, tokens_used response)), s2))))))"

text \<open>Failures that count: all but a refused answer.\<close>

definition counts_as_failure :: "exn \<Rightarrow> bool" where
  "counts_as_failure e \<longleftrightarrow>
     \<not> contains ''ValidationError'' (exn_name e) \<and> exn_name e \<noteq> ''AnalyzerJSONParseError''"

definition note_failure :: "'s llm_env \<Rightarrow> bool \<Rightarrow> 's \<Rightarrow> unit res \<times> 's" where
  "note_failure E counted s = (if counted then c_failure (le_circuit E) (le_failed E) s else (Inr (), s))"

definition analyzer_input_of :: "agent_state \<Rightarrow> json \<Rightarrow> analyzer_input res" where
  "analyzer_input_of st parsed =
     bind_res (int_or_0 ''crash_line'' parsed) (\<lambda>crash_line.
     bind_res (int_or_0 ''context_log_count'' parsed) (\<lambda>context_logs.
     bind_res (stack_trace_str parsed) (\<lambda>trace.
       Inr \<lparr>ai_error_type = str_of ''error_type'' ''UnknownError'' parsed,
            ai_error_message = str_of ''error_message'' [] parsed,
            ai_service_name = str_of ''service_name'' [] parsed,
            ai_environment = str_of ''environment'' [] parsed,
            ai_crash_file = str_of ''crash_file'' [] parsed, ai_crash_line = crash_line,
            ai_crash_method = str_of ''crash_method'' [] parsed, ai_stack_trace = trace,
            ai_code_context = str_or (st_code_context st) [],
            ai_playbook = st_playbook_instructions st, ai_context_logs = context_logs,
            ai_sdk_meta = jget ''sdk_meta'' parsed\<rparr>)))"

definition analyzer_answer ::
  "'s llm_env \<Rightarrow> string \<Rightarrow> rat \<Rightarrow> string \<Rightarrow> bool \<Rightarrow> (string \<times> int) list \<Rightarrow> agent_state" where
  "analyzer_answer E root_cause confidence raw fallback tokens =
     empty_state\<lparr>st_root_cause := Some root_cause, st_root_cause_confidence := Some confidence,
       st_raw_analysis_output := Some raw, st_analyzer_latency_ms := Some (le_latency E),
       st_analyzer_fallback_used := Some fallback, st_analyzer_tokens := Some tokens\<rparr>"

definition analyzer_invoke :: "'s llm_env \<Rightarrow> agent_state \<Rightarrow> 's \<Rightarrow> agent_state res \<times> 's" where
  "analyzer_invoke E st s =
     (case st_parsed_event st of
        None \<Rightarrow> (Inl (KeyError ''parsed_event''), s)
      | Some parsed \<Rightarrow>
          (case analyzer_input_of st parsed of
             Inl e \<Rightarrow> (Inl e, s)
           | Inr i \<Rightarrow>
               (case guarded_analysis E (analyzer_prompt (le_dumps E) i) s of
                  ((raw, Inr (root_cause, confidence, tokens)), s1) \<Rightarrow>
                    (Inr (analyzer_answer E root_cause confidence raw False tokens), s1)
                | ((raw, Inl e), s1) \<Rightarrow>
                    (case note_failure E (counts_as_failure e) s1 of
                       (Inl e2, s2) \<Rightarrow> (Inl e2, s2)
                     | (Inr _, s2) \<Rightarrow>
                         (Inr (analyzer_answer E
                                (fallback_root_cause e (ai_playbook i) (ai_error_type i)
                                   (ai_crash_method i) (ai_crash_line i))
                                (20/100) raw True no_tokens), s2)))))"

subsection \<open>The node never raises\<close>

lemma strip_Nil_iff: "strip s = [] \<longleftrightarrow> list_all is_space s"
proof -
  have "list_all is_space (dropWhile is_space s) \<longleftrightarrow> list_all is_space s" for s
    by (induction s) auto
  then show ?thesis
    by (simp add: strip_def dropWhile_eq_Nil_conv flip: list_all_iff)
qed

lemma fallback_not_blank: "strip (fallback_root_cause e p t m l) \<noteq> []"
  by (auto simp: fallback_root_cause_def strip_Nil_iff is_space_def)

lemma read_analysis_ok:
  assumes "read_analysis loads raw = Inr (root_cause, confidence)"
  shows "strip root_cause \<noteq> [] \<and> 0 \<le> confidence \<and> confidence \<le> 1"
  using assms clamp01_bounds
  by (auto simp: read_analysis_def reported_confidence_def Let_def
           split: option.splits json.splits if_splits)

lemma analyzer_input_to_dict: "\<exists>i. analyzer_input_of st (to_dict e) = Inr i"
  using stack_trace_str_to_dict [of e]
  by (auto simp: analyzer_input_of_def int_or_0_to_dict)

text \<open>What every analysis the node returns satisfies.\<close>

definition sound_analysis :: "agent_state \<Rightarrow> bool" where
  "sound_analysis u \<longleftrightarrow>
     (\<exists>root_cause confidence fallback. st_root_cause u = Some root_cause \<and> strip root_cause \<noteq> [] \<and>
        st_root_cause_confidence u = Some confidence \<and> 0 \<le> confidence \<and> confidence \<le> 1 \<and>
        st_analyzer_fallback_used u = Some fallback \<and> (fallback \<longrightarrow> confidence = 20/100))"

lemma guarded_analysis_ok:
  assumes "guarded_analysis E prompt s = ((raw, Inr (root_cause, confidence, tokens)), s1)"
  shows "strip root_cause \<noteq> [] \<and> 0 \<le> confidence \<and> confidence \<le> 1"
  using assms
  by (auto simp: guarded_analysis_def dest!: read_analysis_ok
           split: prod.splits sum.splits bool.splits)

lemma sound_answer:
  assumes "strip root_cause \<noteq> []" "0 \<le> confidence" "confidence \<le> 1" "fallback \<longrightarrow> confidence = 20/100"
  shows "sound_analysis (analyzer_answer E root_cause confidence raw fallback tokens)"
  using assms by (auto simp: sound_analysis_def analyzer_answer_def)

context bookkeeping
begin

lemma note_failure_returns: "le_circuit E = C \<Longrightarrow> \<exists>s'. note_failure E b s = (Inr (), s')"
  using failure_returns by (auto simp: note_failure_def)

lemma analyzer_returns:
  assumes C: "le_circuit E = C" and ev: "st_parsed_event st = Some (to_dict e)"
  shows "\<exists>u s'. analyzer_invoke E st s = (Inr u, s') \<and> sound_analysis u"
proof -
  obtain i where i: "analyzer_input_of st (to_dict e) = Inr i" using analyzer_input_to_dict by blast
  obtain raw r s1 where g: "guarded_analysis E (analyzer_prompt (le_dumps E) i) s = ((raw, r), s1)"
    by (metis surj_pair)
  show ?thesis
  proof (cases r)
    case (Inl ex)
    obtain s2 where "note_failure E (counts_as_failure ex) s1 = (Inr (), s2)"
      using note_failure_returns [OF C] by blast
    with ev i g Inl fallback_not_blank show ?thesis
      by (auto simp: analyzer_invoke_def intro!: sound_answer)
  next
    case (Inr a)
    obtain root_cause confidence tokens where a: "a = (root_cause, confidence, tokens)" by (cases a)
    from g Inr a have "guarded_analysis E (analyzer_prompt (le_dumps E) i) s =
        ((raw, Inr (root_cause, confidence, tokens)), s1)" by simp
    from guarded_analysis_ok [OF this]
    have "strip root_cause \<noteq> []" "0 \<le> confidence" "confidence \<le> 1" by blast+
    with ev i g Inr a show ?thesis
      by (auto simp: analyzer_invoke_def intro!: sound_answer)
  qed
qed

end

text \<open>On a validated event the analyzer never raises, whatever the model
  answers or raises and whether Redis answers or not; what it returns has a root cause that is not blank and
  a confidence between 0 and 1, exactly 0.20 when the fallback was used.\<close>

theorem analyzer_always_answers:
  assumes "redis_server R view" "le_circuit E = circuit cb R" "st_parsed_event st = Some (to_dict e)"
  shows "\<exists>u s'. analyzer_invoke E st s = (Inr u, s') \<and> sound_analysis u"
  by (rule bookkeeping.analyzer_returns [OF redis_server.circuit_bookkeeping [OF assms(1)] assms(2,3)])

subsection \<open>What the node tells the breaker\<close>

text \<open>What becomes of a request that is let through.\<close>

definition request_outcome :: "'s llm_env \<Rightarrow> string \<Rightarrow> unit res" where
  "request_outcome E prompt =
     bind_res (generate_with_truncation_retry (le_generate E) prompt) (\<lambda>response.
     bind_res (rs_text response) (\<lambda>raw.
     bind_res (read_analysis (le_loads E) raw) (\<lambda>_. Inr ())))"

text \<open>The calls to the breaker, given its answer: a refusal is recorded as a failure.\<close>

definition breaker_calls :: "'s llm_env \<Rightarrow> unit res \<Rightarrow> bool \<Rightarrow> call list" where
  "breaker_calls E outcome allowed =
     Can (le_asked E) #
     (if \<not> allowed then [Failure (le_failed E)]
      else case outcome of
             Inr _ \<Rightarrow> [Success]
           | Inl e \<Rightarrow> if counts_as_failure e then [Failure (le_failed E)] else [])"

lemma refusal_counts: "counts_as_failure (OtherError ''RuntimeError'')"
  by (simp add: counts_as_failure_def exn_name_def prefix_def)

lemma guarded_analysis_refused:
  assumes "c_can (le_circuit E) (le_asked E) s = (Inr False, s1)"
  shows "guarded_analysis E prompt s = (([], Inl (OtherError ''RuntimeError'')), s1)"
  using assms by (simp add: guarded_analysis_def)

lemma guarded_analysis_failed:
  assumes "c_can (le_circuit E) (le_asked E) s = (Inr True, s1)" "request_outcome E prompt = Inl e"
  shows "\<exists>raw. guarded_analysis E prompt s = ((raw, Inl e), s1)"
  using assms
  by (auto simp: guarded_analysis_def request_outcome_def bind_res_def split: sum.splits prod.splits)

lemma guarded_analysis_done:
  assumes "c_can (le_circuit E) (le_asked E) s = (Inr True, s1)" "request_outcome E prompt = Inr u"
    and "c_success (le_circuit E) s1 = (Inr (), s2)"
  shows "\<exists>raw a. guarded_analysis E prompt s = ((raw, Inr a), s2)"
  using assms
  by (auto simp: guarded_analysis_def request_outcome_def bind_res_def split: sum.splits prod.splits)

lemma invoke_done:
  assumes "st_parsed_event st = Some d" "analyzer_input_of st d = Inr i"
    and "guarded_analysis E (analyzer_prompt (le_dumps E) i) s = ((raw, Inr a), s1)"
  shows "\<exists>u. analyzer_invoke E st s = (Inr u, s1) \<and> st_analyzer_fallback_used u = Some False"
  using assms by (cases a) (auto simp: analyzer_invoke_def analyzer_answer_def)

lemma invoke_failed:
  assumes "st_parsed_event st = Some d" "analyzer_input_of st d = Inr i"
    and "guarded_analysis E (analyzer_prompt (le_dumps E) i) s = ((raw, Inl e), s1)"
    and "note_failure E (counts_as_failure e) s1 = (Inr (), s2)"
  shows "\<exists>u. analyzer_invoke E st s = (Inr u, s2) \<and> st_analyzer_fallback_used u = Some True"
  using assms by (auto simp: analyzer_invoke_def analyzer_answer_def)

context timed_redis
begin

lemma analyzer_drives:
  assumes C: "le_circuit E = circuit cb R" and live: "0 < cb_timeout_seconds cb"
    and ev: "st_parsed_event st = Some (to_dict e)" and i: "analyzer_input_of st (to_dict e) = Inr i" and abs: "abstracts cb (store s) a"
    and o: "request_outcome E (analyzer_prompt (le_dumps E) i) = outcome"
    and allowed: "fst (spec_step cb (Can (le_asked E)) a) = [allowed]"
  shows "\<exists>u s'. analyzer_invoke E st s = (Inr u, s') \<and>
           st_analyzer_fallback_used u = Some (allowed \<longrightarrow> isl outcome) \<and>
           abstracts cb (store s') (snd (spec_run cb (breaker_calls E outcome allowed) a))"
proof -
  obtain a1 where a1: "spec_step cb (Can (le_asked E)) a = ([allowed], a1)"
    using allowed by (metis fst_conv surj_pair)
  from can_execute_spec [OF abs live, of "le_asked E"] a1 obtain s1
    where can: "c_can (le_circuit E) (le_asked E) s = (Inr allowed, s1)"
      and abs1: "abstracts cb (store s1) a1"
    by (metis C allowed circuit_simps(1) list.inject snd_conv)
  from record_failure_spec [OF abs1, of "le_failed E"] obtain sf
    where fail: "c_failure (le_circuit E) (le_failed E) s1 = (Inr (), sf)"
      and absf: "abstracts cb (store sf) (snd (spec_step cb (Failure (le_failed E)) a1))"
    by (metis C circuit_simps(3))
  from record_success_spec [OF abs1] obtain ss
    where succ: "c_success (le_circuit E) s1 = (Inr (), ss)"
      and abss: "abstracts cb (store ss) (snd (spec_step cb Success a1))"
    by (metis C circuit_simps(2))
  show ?thesis
  proof (cases allowed)
    case False
    have "note_failure E (counts_as_failure (OtherError ''RuntimeError'')) s1 = (Inr (), sf)"
      using fail refusal_counts by (simp add: note_failure_def)
    moreover have "c_can (le_circuit E) (le_asked E) s = (Inr False, s1)" using can False by simp
    ultimately show ?thesis
      using invoke_failed [OF ev i guarded_analysis_refused] False absf a1
      by (fastforce simp: breaker_calls_def split: prod.splits)
  next
    case True
    show ?thesis
    proof (cases outcome)
      case (Inl ex)
      from guarded_analysis_failed [OF _ o [unfolded Inl]] can True obtain raw
        where g: "guarded_analysis E (analyzer_prompt (le_dumps E) i) s = ((raw, Inl ex), s1)" by auto
      show ?thesis
      proof (cases "counts_as_failure ex")
        case c: True
        then have "note_failure E (counts_as_failure ex) s1 = (Inr (), sf)"
          using fail by (simp add: note_failure_def)
        from invoke_failed [OF ev i g this] True Inl absf a1 c show ?thesis
          by (auto simp: breaker_calls_def split: prod.splits)
      next
        case c: False
        then have "note_failure E (counts_as_failure ex) s1 = (Inr (), s1)"
          by (simp add: note_failure_def)
        from invoke_failed [OF ev i g this] True Inl abs1 a1 c show ?thesis
          by (auto simp: breaker_calls_def)
      qed
    next
      case (Inr u)
      from can True have "c_can (le_circuit E) (le_asked E) s = (Inr True, s1)" by simp
      from guarded_analysis_done [OF this o [unfolded Inr] succ] obtain raw x
        where "guarded_analysis E (analyzer_prompt (le_dumps E) i) s = ((raw, Inr x), ss)" by blast
      from invoke_done [OF ev i this] True Inr abss a1 show ?thesis
        by (auto simp: breaker_calls_def split: prod.splits)
    qed
  qed
qed

end

text \<open>What the analyzer does to the breaker.  It asks once; a request that is
  refused is recorded as a failure, like an exception of the model; an answer that is no usable JSON is
  recorded neither way; a usable one is recorded as a success, and only then the fallback is not used.\<close>

theorem analyzer_drives_breaker:
  assumes "timed_redis R store pass" "0 < cb_timeout_seconds cb" "le_circuit E = circuit cb R" "st_parsed_event st = Some (to_dict e)"
    and "abstracts cb (store s) a" "fst (spec_step cb (Can (le_asked E)) a) = [allowed]"
  shows "\<exists>i u s'. analyzer_input_of st (to_dict e) = Inr i \<and> analyzer_invoke E st s = (Inr u, s') \<and>
           (let outcome = request_outcome E (analyzer_prompt (le_dumps E) i)
            in st_analyzer_fallback_used u = Some (allowed \<longrightarrow> isl outcome) \<and>
               abstracts cb (store s') (snd (spec_run cb (breaker_calls E outcome allowed) a)))"
proof -
  obtain i where i: "analyzer_input_of st (to_dict e) = Inr i" using analyzer_input_to_dict by blast
  from timed_redis.analyzer_drives [OF assms(1,3,2,4) i assms(5) refl assms(6)] i show ?thesis
    by (auto simp: Let_def)
qed

text \<open>While one worker probes a half-open circuit, any other worker that runs the
  analyzer reopens it: the refused request is recorded as a failure, the timeout starts anew and the probe's
  lock is taken away, whatever the probe's outcome will be.\<close>

theorem refused_request_reopens:
  assumes "timed_redis R store pass" "0 < cb_timeout_seconds cb" "le_circuit E = circuit cb R" "st_parsed_event st = Some (to_dict e)"
    and "abstracts cb (store s) (Half k, Some r)"
  shows "\<exists>u s'. analyzer_invoke E st s = (Inr u, s') \<and> st_analyzer_fallback_used u = Some True \<and>
           abstracts cb (store s') (Opened (le_failed E), None)"
proof -
  obtain i where i: "analyzer_input_of st (to_dict e) = Inr i" using analyzer_input_to_dict by blast
  from timed_redis.analyzer_drives [OF assms(1,3,2,4) i assms(5) refl, of False] show ?thesis
    by (simp add: breaker_calls_def)
qed

subsection \<open>Witnesses\<close>

text \<open>A model that always answers the same text.\<close>

definition sample_env_of :: "mem redis \<Rightarrow> string \<Rightarrow> json option \<Rightarrow> mem llm_env" where
  "sample_env_of R answer decoded = \<lparr>le_circuit = circuit analyzer_breaker R,
     le_generate = (\<lambda>_ _. Inr \<lparr>rs_text = Inr answer, rs_usage = None\<rparr>), le_loads = (\<lambda>_. decoded),
     le_dumps = (\<lambda>_. []), le_asked = 31, le_failed = 32, le_latency = 5\<rparr>"

lemma sample_env_circuit: "le_circuit (sample_env_of R a d) = circuit analyzer_breaker R"
  by (simp add: sample_env_of_def)

theorem analyzer_always_answers_witness:
  "\<exists>u s'. analyzer_invoke (sample_env_of mem ''oops'' None) crash_state
             (idle_mem\<lparr>m_fail := [True, True]\<rparr>) = (Inr u, s') \<and> sound_analysis u"
  by (rule analyzer_always_answers [OF mem.redis_server_axioms sample_env_circuit crash_state_event(1)])

theorem analyzer_drives_breaker_witness:
  "\<exists>u s'. analyzer_invoke (sample_env_of live ''x'' (Some (JObj [(''root_cause'', JStr ''bad'')])))
             crash_state (opened_mem analyzer_breaker 0) = (Inr u, s') \<and>
         st_analyzer_fallback_used u = Some False \<and> abstracts analyzer_breaker (mem_timed s') (Half 1, None)"
proof -
  let ?E = "sample_env_of live ''x'' (Some (JObj [(''root_cause'', JStr ''bad'')]))"
  have bad: "strip ''bad'' \<noteq> []" by (simp add: strip_Nil_iff is_space_def)
  have ok: "request_outcome ?E p = Inr ()" for p
    using bad by (simp add: request_outcome_def sample_env_of_def generate_with_truncation_retry_def
        read_analysis_def)
  have asked: "le_asked ?E = 31" by (simp add: sample_env_of_def)
  have "fst (spec_step analyzer_breaker (Can (le_asked ?E)) (Opened 0, None)) = [True]"
    by (simp add: asked analyzer_breaker_def)
  from analyzer_drives_breaker [OF timed_redis_live analyzer_timeout sample_env_circuit crash_state_event(1)
      opened_mem_abstracts this]
  show ?thesis
    by (auto simp: ok breaker_calls_def Let_def asked analyzer_breaker_def)
qed

text \<open>A half-open circuit with a probe under way.\<close>

definition probing_mem :: "breaker \<Rightarrow> mem" where
  "probing_mem cb = \<lparr>m_store = [state_key cb \<mapsto> (state_value HALF_OPEN, None),
     successes_key cb \<mapsto> (Num 0, None), probe_lock_key cb \<mapsto> (Num 1, Some 60)], m_now = 30, m_fail = []\<rparr>"

lemma probing_mem_abstracts: "abstracts cb (mem_timed (probing_mem cb)) (Half 0, Some 30)"
  by (simp add: abstracts_def probing_mem_def mem_timed_def)

theorem refused_request_reopens_witness:
  "\<exists>u s'. analyzer_invoke (sample_env_of live ''x'' (Some (JObj [(''root_cause'', JStr ''bad'')])))
             crash_state (probing_mem analyzer_breaker) = (Inr u, s') \<and>
         st_analyzer_fallback_used u = Some True \<and> abstracts analyzer_breaker (mem_timed s') (Opened 32, None)"
  using refused_request_reopens [OF timed_redis_live analyzer_timeout sample_env_circuit crash_state_event(1)
      probing_mem_abstracts]
  by (simp add: sample_env_of_def)

end
