(* ===== verification/Fix_Generator.thy ===== *)
theory Fix_Generator
  imports Analyzer
begin

text \<open>
  \<open>app/agents/nodes/fix_generator.py\<close>: the code fix, guarded by a breaker of its own.  The answer is
  validated by the model class \<open>FixGeneratorOutput\<close>, whose field validators clamp the confidence and
  normalise the complexity; an answer it refuses spares the breaker.
\<close>

subsection \<open>The prompt\<close>

record fix_input =
  fi_error_type :: string
  fi_error_message :: string
  fi_crash_file :: string
  fi_crash_line :: int
  fi_crash_method :: string
  fi_root_cause :: string
  fi_root_confidence :: rat
  fi_code_context :: string
  fi_sdk_meta :: json

definition fix_prompt :: "(json \<Rightarrow> string) \<Rightarrow> fix_input \<Rightarrow> string" where
  "fix_prompt dumps i = join (nl @ nl) (
     [''## Root Cause (confirmed by Analyzer)'',
      str_or (Some (fi_root_cause i)) ''(Root cause analysis unavailable.)'',
      ''**Analyzer'' @ [CHR 0x27] @ ''s root_cause_confidence:** '' @ fixed2 (fi_root_confidence i),
      nl @ ''## Error Details'',
      ''**Type:** '' @ fi_error_type i,
      ''**Message:** '' @ str_or (Some (fi_error_message i)) ''(none)'',
      ''**Location:** `'' @ fi_crash_file i @ '':'' @ str_int (fi_crash_line i) @ ''` in `'' @
        fi_crash_method i @ ''`''] @
     (if truthy (fi_sdk_meta i)
      then [nl @ ''## Execution Environment / SDK Meta'', dumps (fi_sdk_meta i)] else []) @
     (if fi_code_context i \<noteq> [] then [nl @ ''## Source Code at Crash Location'', fi_code_context i]
      else [nl @ ''## Source Code at Crash Location'' @ nl @ ''*(Not available '' @ em_dash @
            '' generate a descriptive fix without code.)*'']) @
     [nl @ ''Generate the fix and return the JSON object as specified.''])"

subsection \<open>The answer\<close>

record fix_output =
  fo_suggested_fix :: string
  fo_code_patch :: string
  fo_confidence :: rat
  fo_complexity :: string
  fo_target_file :: string

definition ValidationError :: exn where
  "ValidationError = OtherError ''ValidationError''"

definition complexities :: "string list" where
  "complexities = [''trivial'', ''minor'', ''moderate'', ''major'']"

definition clamp_confidence :: "json \<Rightarrow> rat" where
  "clamp_confidence v = (case json_float v of Some f \<Rightarrow> clamp01 f | None \<Rightarrow> 1/2)"

definition normalise_complexity :: "json \<Rightarrow> string" where
  "normalise_complexity v =
     (let s = strip (lower (if truthy v then py_str v else ''minor''))
      in if s \<in> set complexities then s else ''minor'')"

definition text_or :: "string \<Rightarrow> string \<Rightarrow> json \<Rightarrow> string res" where
  "text_or k dflt d =
     (if \<not> jhas k d then Inr dflt
      else case jget k d of JStr s \<Rightarrow> Inr s | _ \<Rightarrow> Inl ValidationError)"

definition validate_fix :: "json \<Rightarrow> fix_output res" where
  "validate_fix d =
     (case d of
        JObj kvs \<Rightarrow>
          (case jget ''suggested_fix'' d of
             JStr fix \<Rightarrow>
               if fix = [] then Inl ValidationError
               else bind_res (text_or ''code_patch'' [] d) (\<lambda>patch.
                    bind_res (text_or ''target_file'' [] d) (\<lambda>target.
                      Inr \<lparr>fo_suggested_fix = fix, fo_code_patch = patch,
                           fo_confidence = (if jhas ''fix_confidence'' d
                              then clamp_confidence (jget ''fix_confidence'' d) else 1/2),
                           fo_complexity = (if jhas ''fix_complexity'' d
                              then normalise_complexity (jget ''fix_complexity'' d) else ''minor''),
                           fo_target_file = target\<rparr>))
           | _ \<Rightarrow> Inl ValidationError)
      | _ \<Rightarrow> Inl ValidationError)"

definition read_fix :: "(string \<Rightarrow> json option) \<Rightarrow> string \<Rightarrow> fix_output res" where
  "read_fix loads raw =
     (case loads (json_span raw) of None \<Rightarrow> Inl ValidationError | Some d \<Rightarrow> validate_fix d)"

definition UNAVAILABLE :: string where
  "UNAVAILABLE = ''[Fix Generation Unavailable''"

definition fallback_fix :: "exn \<Rightarrow> string \<Rightarrow> string \<Rightarrow> string \<Rightarrow> string" where
  "fallback_fix e root_cause crash_file crash_method =
     (let location = (if crash_method \<noteq> [] then ''`'' @ crash_method @ ''`'' else ''the crash location'') @
                     (if crash_file \<noteq> [] then '' in `'' @ crash_file @ ''`'' else []);
          head = UNAVAILABLE @ '' '' @ em_dash @ '' '' @ exn_name e @ '']'' @ nl @ nl
      in if strip root_cause \<noteq> []
         then head @ ''Based on the root cause analysis, address '' @ location @ ''. '' @
              ''Root cause: '' @ strip root_cause
         else head @ ''Review '' @ location @ '' and apply a fix based on the error details '' @
              ''in the stack trace above.'')"

subsection \<open>The node\<close>

definition guarded_fix ::
  "'s llm_env \<Rightarrow> string \<Rightarrow> 's \<Rightarrow> (string \<times> (fix_output \<times> (string \<times> int) list) res) \<times> 's" where
  "guarded_fix E prompt s =
     (case c_can (le_circuit E) (le_asked E) s of
        (Inl e, s1) \<Rightarrow> (([], Inl e), s1)
      | (Inr False, s1) \<Rightarrow> (([], Inl (OtherError ''RuntimeError'')), s1)
      | (Inr True, s1) \<Rightarrow>
          (case generate_with_truncation_retry (le_generate E) prompt of
             Inl e \<Rightarrow> (([], Inl e), s1)
           | Inr response \<Rightarrow>
               (case rs_text response of
                  Inl e \<Rightarrow> (([], Inl e), s1)
                | Inr raw \<Rightarrow>
                    (case read_fix (le_loads E) raw of
                       Inl e \<Rightarrow> ((raw, Inl e), s1)
                     | Inr output \<Rightarrow>
                         (case c_success (le_circuit E) s1 of
                            (Inl e, s2) \<Rightarrow> ((raw, Inl e), s2)
                          | (Inr _, s2) \<Rightarrow> ((raw, Inr (output, tokens_used response)), s2))))))"

text \<open>\<open>float(state.get("root_cause_confidence") or 0.5)\<close>: a reported confidence of 0 counts as missing.\<close>

definition stated_confidence :: "agent_state \<Rightarrow> rat" where
  "stated_confidence st =
     (case st_root_cause_confidence st of None \<Rightarrow> 1/2 | Some q \<Rightarrow> if q = 0 then 1/2 else q)"

definition fix_input_of :: "agent_state \<Rightarrow> json \<Rightarrow> fix_input res" where
  "fix_input_of st parsed =
     bind_res (int_or_0 ''crash_line'' parsed) (\<lambda>crash_line.
       Inr \<lparr>fi_error_type = str_of ''error_type'' ''UnknownError'' parsed,
            fi_error_message = str_of ''error_message'' [] parsed,
            fi_crash_file = str_of ''crash_file'' [] parsed, fi_crash_line = crash_line,
            fi_crash_method = str_of ''crash_method'' [] parsed,
            fi_root_cause = str_or (st_root_cause st) [],
            fi_root_confidence = stated_confidence st,
            fi_code_context = str_or (st_code_context st) [],
            fi_sdk_meta = jget ''sdk_meta'' parsed\<rparr>)"

definition fix_answer ::
  "'s llm_env \<Rightarrow> fix_output \<Rightarrow> string \<Rightarrow> bool \<Rightarrow> (string \<times> int) list \<Rightarrow> agent_state" where
  "fix_answer E output raw fallback tokens =
     empty_state\<lparr>st_suggested_fix := Some (fo_suggested_fix output), st_raw_fix_output := Some raw,
       st_fix_generator_latency_ms := Some (le_latency E), st_fix_fallback_used := Some fallback,
       st_fix_tokens := Some tokens, st_code_patch := Some (fo_code_patch output),
       st_fix_confidence := Some (fo_confidence output),
       st_fix_complexity := Some (fo_complexity output),
       st_fix_target_file := Some (fo_target_file output)\<rparr>"

definition fallback_output :: "string \<Rightarrow> fix_output" where
  "fallback_output fix = \<lparr>fo_suggested_fix = fix, fo_code_patch = [], fo_confidence = 0,
     fo_complexity = ''minor'', fo_target_file = []\<rparr>"

definition fix_generator_invoke :: "'s llm_env \<Rightarrow> agent_state \<Rightarrow> 's \<Rightarrow> agent_state res \<times> 's" where
  "fix_generator_invoke E st s =
     (case st_parsed_event st of
        None \<Rightarrow> (Inl (KeyError ''parsed_event''), s)
      | Some parsed \<Rightarrow>
          (case fix_input_of st parsed of
             Inl e \<Rightarrow> (Inl e, s)
           | Inr i \<Rightarrow>
               (case guarded_fix E (fix_prompt (le_dumps E) i) s of
                  ((raw, Inr (output, tokens)), s1) \<Rightarrow> (Inr (fix_answer E output raw False tokens), s1)
                | ((raw, Inl e), s1) \<Rightarrow>
                    (case note_failure E (\<not> contains ''ValidationError'' (exn_name e)) s1 of
                       (Inl e2, s2) \<Rightarrow> (Inl e2, s2)
                     | (Inr _, s2) \<Rightarrow>
                         (Inr (fix_answer E
                                (fallback_output (fallback_fix e (fi_root_cause i) (fi_crash_file i)
                                   (fi_crash_method i)))
                                raw True no_tokens), s2)))))"

subsection \<open>Properties\<close>

text \<open>What every fix the node returns satisfies.\<close>

definition sound_output :: "fix_output \<Rightarrow> bool" where
  "sound_output o1 \<longleftrightarrow> fo_suggested_fix o1 \<noteq> [] \<and> 0 \<le> fo_confidence o1 \<and> fo_confidence o1 \<le> 1 \<and>
     fo_complexity o1 \<in> set complexities"

lemma clamp_confidence_bounds: "0 \<le> clamp_confidence v" "clamp_confidence v \<le> 1"
  using clamp01_bounds by (auto simp: clamp_confidence_def split: option.splits)

lemma normalise_complexity_in: "normalise_complexity v \<in> set complexities"
  by (simp add: normalise_complexity_def complexities_def Let_def)

lemma validate_fix_ok: "validate_fix d = Inr out \<Longrightarrow> sound_output out"
  using clamp_confidence_bounds normalise_complexity_in
  by (auto simp: validate_fix_def bind_res_eq_Inr sound_output_def split: json.splits if_splits)
     (simp_all add: complexities_def)

lemma read_fix_ok: "read_fix loads raw = Inr out \<Longrightarrow> sound_output out"
  by (auto simp: read_fix_def dest: validate_fix_ok split: option.splits)

lemma guarded_fix_ok:
  assumes "guarded_fix E prompt s = ((raw, Inr (out, tokens)), s1)" shows "sound_output out"
  using assms by (auto simp: guarded_fix_def dest!: read_fix_ok split: prod.splits sum.splits bool.splits)

lemma fallback_fix_prefix: "prefix UNAVAILABLE (fallback_fix e r f m)"
  by (simp add: fallback_fix_def Let_def prefix_def)

lemma fallback_output_sound: "sound_output (fallback_output (fallback_fix e r f m))"
  using fallback_fix_prefix [of e r f m]
  by (auto simp: sound_output_def fallback_output_def complexities_def UNAVAILABLE_def)

definition sound_fix :: "agent_state \<Rightarrow> bool" where
  "sound_fix u \<longleftrightarrow>
     (\<exists>out fallback. sound_output out \<and>
        st_suggested_fix u = Some (fo_suggested_fix out) \<and> st_code_patch u = Some (fo_code_patch out) \<and>
        st_fix_confidence u = Some (fo_confidence out) \<and> st_fix_complexity u = Some (fo_complexity out) \<and>
        st_fix_target_file u = Some (fo_target_file out) \<and> st_fix_fallback_used u = Some fallback \<and>
        (fallback \<longrightarrow> prefix UNAVAILABLE (fo_suggested_fix out) \<and> fo_code_patch out = [] \<and>
                     fo_confidence out = 0 \<and> fo_target_file out = []))"

lemma sound_fix_answer:
  "sound_output out \<Longrightarrow> sound_fix (fix_answer E out raw False tokens)"
  "sound_fix (fix_answer E (fallback_output (fallback_fix e r f m)) raw True tokens)"
proof -
  show "sound_output out \<Longrightarrow> sound_fix (fix_answer E out raw False tokens)"
    unfolding sound_fix_def fix_answer_def by (intro exI [of _ out] exI [of _ False]) simp
  show "sound_fix (fix_answer E (fallback_output (fallback_fix e r f m)) raw True tokens)"
    unfolding sound_fix_def fix_answer_def
    by (intro exI [of _ "fallback_output (fallback_fix e r f m)"] exI [of _ True])
       (use fallback_output_sound fallback_fix_prefix in \<open>auto simp: fallback_output_def\<close>)
qed

lemma fix_fallback_shape:
  assumes "fix_generator_invoke E st s = (Inr u, s')" "st_fix_fallback_used u = Some True"
  shows "\<exists>e r f m raw. u = fix_answer E (fallback_output (fallback_fix e r f m)) raw True no_tokens"
proof -
  from assms(1) obtain parsed i where p: "st_parsed_event st = Some parsed" "fix_input_of st parsed = Inr i"
    by (auto simp: fix_generator_invoke_def split: option.splits sum.splits)
  obtain raw r s1 where g: "guarded_fix E (fix_prompt (le_dumps E) i) s = ((raw, r), s1)"
    by (metis surj_pair)
  show ?thesis
  proof (cases r)
    case (Inl e)
    obtain x s2 where n: "note_failure E (\<not> contains ''ValidationError'' (exn_name e)) s1 = (x, s2)"
      by fastforce
    from assms(1) p g Inl n have "u = fix_answer E (fallback_output (fallback_fix e (fi_root_cause i)
        (fi_crash_file i) (fi_crash_method i))) raw True no_tokens"
      by (cases x) (auto simp: fix_generator_invoke_def simp del: contains.simps)
    then show ?thesis by blast
  next
    case (Inr a)
    with assms p g show ?thesis
      by (cases a) (auto simp: fix_generator_invoke_def fix_answer_def)
  qed
qed

context bookkeeping
begin

lemma fix_generator_returns:
  assumes C: "le_circuit E = C" and ev: "st_parsed_event st = Some (to_dict e)"
  shows "\<exists>u s'. fix_generator_invoke E st s = (Inr u, s') \<and> sound_fix u"
proof -
  obtain i where i: "fix_input_of st (to_dict e) = Inr i"
    by (auto simp: fix_input_of_def int_or_0_to_dict)
  obtain raw r s1 where g: "guarded_fix E (fix_prompt (le_dumps E) i) s = ((raw, r), s1)"
    by (metis surj_pair)
  show ?thesis
  proof (cases r)
    case (Inl ex)
    obtain s2 where "note_failure E (\<not> contains ''ValidationError'' (exn_name ex)) s1 = (Inr (), s2)"
      using note_failure_returns [OF C] by blast
    with ev i g Inl show ?thesis
      by (auto simp: fix_generator_invoke_def sound_fix_answer simp del: contains.simps)
  next
    case (Inr a)
    obtain out tokens where a: "a = (out, tokens)" by (cases a)
    with g Inr have "guarded_fix E (fix_prompt (le_dumps E) i) s = ((raw, Inr (out, tokens)), s1)" by simp
    from guarded_fix_ok [OF this] ev i g Inr a show ?thesis
      by (auto simp: fix_generator_invoke_def sound_fix_answer)
  qed
qed

end

text \<open>On a validated event the fix generator never raises; its fix is not
  empty, its confidence lies between 0 and 1, its complexity is one of the four; a fallback carries neither
  a patch nor a target file, has confidence 0 and starts with the marker the patch generator looks for.\<close>

theorem fix_generator_always_answers:
  assumes "redis_server R view" "le_circuit E = circuit cb R" "st_parsed_event st = Some (to_dict e)"
  shows "\<exists>u s'. fix_generator_invoke E st s = (Inr u, s') \<and> sound_fix u"
  by (rule bookkeeping.fix_generator_returns [OF redis_server.circuit_bookkeeping [OF assms(1)] assms(2,3)])

theorem fix_generator_always_answers_witness:
  "\<exists>u s'. fix_generator_invoke (sample_env_of mem ''oops'' None) crash_state
             (idle_mem\<lparr>m_fail := [True, True]\<rparr>) = (Inr u, s') \<and> sound_fix u"
  by (rule fix_generator_always_answers [OF mem.redis_server_axioms sample_env_circuit crash_state_event(1)])

end
