(* ===== verification/Code_Retriever.thy ===== *)
theory Code_Retriever
  imports Llm
begin

text \<open>
  \<open>app/agents/nodes/code_retriever.py\<close>: the source code around a crash, found by line ranges in
  \<open>code_index\<close> and sliced from files that come from a dictionary of the run, Redis or S3, in that order.
  S3 and the token counter are arguments (\<open>None\<close> for an error); the files asked of S3 are recorded.
\<close>

definition TOKEN_BUDGET :: int where
  "TOKEN_BUDGET = 1500"

definition REDIS_FILE_CACHE_TTL :: int where
  "REDIS_FILE_CACHE_TTL = 86400"

definition SNIPPET_SEPARATOR :: string where
  "SNIPPET_SEPARATOR = nl @ nl @ ''---'' @ nl @ nl"

subsection \<open>Queries\<close>

text \<open>SQL \<open>LIKE\<close>; \<open>ILIKE\<close> compares without case.\<close>

fun like :: "string \<Rightarrow> string \<Rightarrow> bool" where
  "like [] s = (s = [])"
| "like (p # ps) [] = (p = CHR ''%'' \<and> like ps [])"
| "like (p # ps) (c # cs) =
     (if p = CHR ''%'' then like ps (c # cs) \<or> like (p # ps) cs
      else (p = CHR ''_'' \<or> p = c) \<and> like ps cs)"

definition ilike_contains :: "string \<Rightarrow> string \<Rightarrow> bool" where
  "ilike_contains name s = like (lower (''%'' @ name @ ''%'')) (lower s)"

definition normalised_path :: "string \<Rightarrow> string" where
  "normalised_path p = replace_char (CHR 0x5C) (CHR ''/'') p"

definition file_name :: "string \<Rightarrow> string" where
  "file_name p = last (split_on (CHR ''/'') (normalised_path p))"

text \<open>Rows of a tenant whose range contains the line, narrowest first.\<close>

definition rows_at :: "(code_index_row \<Rightarrow> bool) \<Rightarrow> uuid \<Rightarrow> string \<Rightarrow> int \<Rightarrow> db2 \<Rightarrow> code_index_row list" where
  "rows_at P tenant path line db =
     sort_key (\<lambda>r. ci_end_line r - ci_start_line r)
       (filter (\<lambda>r. ci_tenant_id r = tenant \<and> P r \<and> ilike_contains (file_name path) (ci_file_path r) \<and>
                    ci_start_line r \<le> line \<and> line \<le> ci_end_line r) (code_index db))"

definition suffix_match :: "string \<Rightarrow> code_index_row list \<Rightarrow> code_index_row option" where
  "suffix_match path rows = List.find (\<lambda>r. suffix (ci_file_path r) (normalised_path path)) rows"

definition find_symbol_by_location ::
  "bool \<Rightarrow> db2 \<Rightarrow> string \<Rightarrow> string \<Rightarrow> int \<Rightarrow> string option \<Rightarrow> code_index_row option" where
  "find_symbol_by_location db_ok db tenant_id path line repo_url =
     (case uuid_parse tenant_id of
        None \<Rightarrow> None
      | Some tenant \<Rightarrow>
          (case nonempty repo_url of
             None \<Rightarrow> None
           | Some repo \<Rightarrow>
               if \<not> db_ok then None
               else suffix_match path (rows_at (\<lambda>r. ci_repo_url r = repo) tenant path line db)))"

definition find_symbol_by_name ::
  "bool \<Rightarrow> db2 \<Rightarrow> string \<Rightarrow> string \<Rightarrow> string option \<Rightarrow> code_index_row option" where
  "find_symbol_by_name db_ok db tenant_id name repo_url =
     (case uuid_parse tenant_id of
        None \<Rightarrow> None
      | Some tenant \<Rightarrow>
          (case nonempty repo_url of
             None \<Rightarrow> None
           | Some repo \<Rightarrow>
               if \<not> db_ok then None
               else List.find (\<lambda>r. ci_tenant_id r = tenant \<and> ci_repo_url r = repo \<and>
                                   ci_symbol_name r = name) (code_index db)))"

text \<open>Step 0: the repository mapped to the service, the one synced last.\<close>

definition latest_mapping :: "service_repo_mapping_snapshot list \<Rightarrow> service_repo_mapping_snapshot option" where
  "latest_mapping ms = (case sort_key (\<lambda>m. - sm_synced_at m) ms of [] \<Rightarrow> None | m # _ \<Rightarrow> Some m)"

definition resolve_repo :: "bool \<Rightarrow> db2 \<Rightarrow> string \<Rightarrow> json \<Rightarrow> string option" where
  "resolve_repo db_ok db tenant_id service =
     (if \<not> truthy service \<or> \<not> db_ok then None
      else case uuid_parse tenant_id of
             None \<Rightarrow> None
           | Some tenant \<Rightarrow>
               map_option sm_repo_url (latest_mapping
                 (filter (\<lambda>m. sm_tenant_id m = tenant \<and> JStr (sm_service_name m) = service)
                    (service_repo_mapping_snapshots db))))"

subsection \<open>Files\<close>

text \<open>\<open>str.splitlines\<close> over the ASCII line boundaries.\<close>

definition is_linebreak :: "char \<Rightarrow> bool" where
  "is_linebreak c = (c \<in> set [CHR 0x0A, CHR 0x0D, CHR 0x0B, CHR 0x0C, CHR 0x1C, CHR 0x1D, CHR 0x1E])"

fun splitlines_onto :: "string \<Rightarrow> string \<Rightarrow> string list" where
  "splitlines_onto cur [] = (if cur = [] then [] else [rev cur])"
| "splitlines_onto cur (c # cs) =
     (if c = CHR 0x0D then
        (case cs of d # ds \<Rightarrow> if d = CHR 0x0A then rev cur # splitlines_onto [] ds
                              else rev cur # splitlines_onto [] cs
                  | [] \<Rightarrow> [rev cur])
      else if is_linebreak c then rev cur # splitlines_onto [] cs
      else splitlines_onto (c # cur) cs)"

definition splitlines :: "string \<Rightarrow> string list" where
  "splitlines s = splitlines_onto [] s"

text \<open>A reply as text.  Source files are stored as texts.\<close>

text \<open>The counters and dictionaries of a run, and the keys asked of S3.\<close>

record retrieval =
  rt_cache :: "string \<Rightarrow> string list option"
  rt_snippets :: "string list"
  rt_tokens :: int
  rt_files :: int
  rt_hits :: int
  rt_misses :: int
  rt_ids :: "uuid list"
  rt_s3 :: "string list"

definition empty_retrieval :: retrieval where
  "empty_retrieval = \<lparr>rt_cache = Map.empty, rt_snippets = [], rt_tokens = 0, rt_files = 0, rt_hits = 0,
     rt_misses = 0, rt_ids = [], rt_s3 = []\<rparr>"

record 's fetch_env =
  fe_redis :: "'s redis"
  fe_s3 :: "string \<Rightarrow> string option"
  fe_tokens :: "string \<Rightarrow> nat option"

text \<open>The lines of a file: what was counted (fetched, hits, misses), the run and the server afterwards.\<close>

definition fetch_lines ::
  "'s fetch_env \<Rightarrow> string \<Rightarrow> retrieval \<Rightarrow> 's \<Rightarrow>
   (string list \<times> int \<times> int \<times> int) option \<times> retrieval \<times> 's" where
  "fetch_lines F key rt s =
     (case rt_cache rt key of
        Some ls \<Rightarrow> (Some (ls, 0, 1, 0), rt, s)
      | None \<Rightarrow>
          (case r_get (fe_redis F) (''code:'' @ key) s of
             (Inr (Some v), s1) \<Rightarrow>
               (let ls = splitlines (reply_str v)
                in (Some (ls, 0, 1, 0), rt\<lparr>rt_cache := (rt_cache rt)(key \<mapsto> ls)\<rparr>, s1))
           | (_, s1) \<Rightarrow>
               (let rt1 = rt\<lparr>rt_s3 := rt_s3 rt @ [key]\<rparr>
                in case nonempty (fe_s3 F key) of
                     None \<Rightarrow> (None, rt1, s1)
                   | Some content \<Rightarrow>
                       (let ls = splitlines content
                        in (Some (ls, 1, 0, 1), rt1\<lparr>rt_cache := (rt_cache rt)(key \<mapsto> ls)\<rparr>,
                            snd (r_setex (fe_redis F) (''code:'' @ key) REDIS_FILE_CACHE_TTL
                                   (Text content) s1))))))"

definition or_int :: "int \<Rightarrow> int \<Rightarrow> int" where
  "or_int n dflt = (if n = 0 then dflt else n)"

definition snippet_of :: "code_index_row \<Rightarrow> string list \<Rightarrow> string" where
  "snippet_of r lines =
     (let start_line = or_int (ci_start_line r) 1;
          end_line = or_int (ci_end_line r) start_line;
          slice_start = nat (max 0 (start_line - 1));
          slice_end = min (int (length lines)) end_line;
          code = (if slice_end < 0 then drop slice_start (take (nat (int (length lines) + slice_end)) lines)
                  else drop slice_start (take (nat slice_end) lines))
      in ''# File: '' @ ci_file_path r @ ''  Lines: '' @ str_int start_line @ ''-'' @ str_int end_line @
         ''  Symbol: '' @ ci_symbol_name r @ '' ('' @ str_or (ci_chunk_type r) ''function'' @ '')'' @ nl @
         join nl code)"

definition token_count :: "'s fetch_env \<Rightarrow> string \<Rightarrow> int" where
  "token_count F snippet =
     (case fe_tokens F snippet of Some n \<Rightarrow> int n | None \<Rightarrow> max 1 (int (length snippet) div 4))"

text \<open>\<open>_get_symbol_snippet\<close> and what the three steps do with its result.\<close>

definition add_symbol :: "'s fetch_env \<Rightarrow> code_index_row \<Rightarrow> retrieval \<Rightarrow> 's \<Rightarrow> retrieval \<times> 's" where
  "add_symbol F r rt s =
     (if ci_s3_key r = [] then (rt, s)
      else case fetch_lines F (ci_s3_key r) rt s of
             (None, rt1, s1) \<Rightarrow> (rt1, s1)
           | (Some (lines, fetched, hits, misses), rt1, s1) \<Rightarrow>
               (let snippet = snippet_of r lines; tokens = token_count F snippet
                in if rt_tokens rt1 + tokens \<le> TOKEN_BUDGET
                   then (rt1\<lparr>rt_snippets := rt_snippets rt1 @ [snippet], rt_tokens := rt_tokens rt1 + tokens,
                            rt_files := rt_files rt1 + fetched, rt_hits := rt_hits rt1 + hits,
                            rt_misses := rt_misses rt1 + misses, rt_ids := rt_ids rt1 @ [ci_id r]\<rparr>, s1)
                   else (rt1, s1)))"

text \<open>Steps 2 and 3 skip symbols that are already there.\<close>

definition add_new_symbol ::
  "'s fetch_env \<Rightarrow> code_index_row option \<Rightarrow> retrieval \<Rightarrow> 's \<Rightarrow> retrieval \<times> 's" where
  "add_new_symbol F found rt s =
     (case found of
        None \<Rightarrow> (rt, s)
      | Some r \<Rightarrow> if ci_id r \<in> set (rt_ids rt) then (rt, s) else add_symbol F r rt s)"

fun add_frames ::
  "'s fetch_env \<Rightarrow> (string \<Rightarrow> int \<Rightarrow> code_index_row option) \<Rightarrow> json list \<Rightarrow> retrieval \<Rightarrow> 's \<Rightarrow>
   retrieval res \<times> 's" where
  "add_frames F locate [] rt s = (Inr rt, s)"
| "add_frames F locate (f # fs) rt s =
     (if TOKEN_BUDGET \<le> rt_tokens rt then (Inr rt, s)
      else case f of
             JObj _ \<Rightarrow>
               (case int_or_0 ''line'' f of
                  Inl e \<Rightarrow> (Inl e, s)
                | Inr line \<Rightarrow>
                    (let file = str_of ''file'' [] f
                     in if file = [] \<or> line \<le> 0 then add_frames F locate fs rt s
                        else case add_new_symbol F (locate file line) rt s of
                               (rt1, s1) \<Rightarrow> add_frames F locate fs rt1 s1))
           | _ \<Rightarrow> (Inl (AttributeError ''get''), s))"

fun add_calls ::
  "'s fetch_env \<Rightarrow> (string \<Rightarrow> code_index_row option) \<Rightarrow> string list \<Rightarrow> retrieval \<Rightarrow> 's \<Rightarrow>
   retrieval \<times> 's" where
  "add_calls F named [] rt s = (rt, s)"
| "add_calls F named (c # cs) rt s =
     (if TOKEN_BUDGET \<le> rt_tokens rt then (rt, s)
      else if strip c = [] then add_calls F named cs rt s
      else case add_new_symbol F (named (strip c)) rt s of (rt1, s1) \<Rightarrow> add_calls F named cs rt1 s1)"

subsection \<open>The node\<close>

definition frames_of :: "json \<Rightarrow> json list res" where
  "frames_of parsed =
     (let v = jget ''stack_frames'' parsed in
      if \<not> truthy v then Inr []
      else case v of
             JArr fs \<Rightarrow> Inr fs
           | JObj kvs \<Rightarrow> Inr (map (\<lambda>kv. JStr (fst kv)) kvs)
           | JStr cs \<Rightarrow> Inr (map (\<lambda>c. JStr [c]) cs)
           | _ \<Rightarrow> Inl (TypeError ''not iterable''))"

definition retriever_meta :: "retrieval \<Rightarrow> int \<Rightarrow> json" where
  "retriever_meta rt latency = JObj [(''files_fetched'', JInt (rt_files rt)), (''tokens'', JInt (rt_tokens rt)),
     (''cache_hits'', JInt (rt_hits rt)), (''cache_misses'', JInt (rt_misses rt)),
     (''symbols_retrieved'', JInt (int (length (rt_snippets rt)))), (''latency_ms'', JInt latency)]"

text \<open>Steps 1 to 3, once the crashed symbol is known.\<close>

definition retrieve_steps ::
  "'s fetch_env \<Rightarrow> (string \<Rightarrow> int \<Rightarrow> code_index_row option) \<Rightarrow> (string \<Rightarrow> code_index_row option) \<Rightarrow>
   code_index_row option \<Rightarrow> json list \<Rightarrow> 's \<Rightarrow> retrieval res \<times> 's" where
  "retrieve_steps F locate named crashed frames s =
     (case crashed of
        None \<Rightarrow> add_frames F locate frames empty_retrieval s
      | Some r \<Rightarrow>
          (case add_symbol F r empty_retrieval s of
             (rt1, s1) \<Rightarrow>
               (case add_frames F locate frames rt1 s1 of
                  (Inl e, s2) \<Rightarrow> (Inl e, s2)
                | (Inr rt2, s2) \<Rightarrow>
                    (case add_calls F named (get_or (ci_calls r) []) rt2 s2 of
                       (rt3, s3) \<Rightarrow> (Inr rt3, s3)))))"

definition retrieve ::
  "'s fetch_env \<Rightarrow> bool \<Rightarrow> db2 \<Rightarrow> string \<Rightarrow> json \<Rightarrow> string \<Rightarrow> int \<Rightarrow> json list \<Rightarrow> 's \<Rightarrow>
   retrieval res \<times> 's" where
  "retrieve F db_ok db tenant_id parsed crash_file crash_line frames s =
     (let repo = resolve_repo db_ok db tenant_id (jget ''service_name'' parsed);
          locate = (\<lambda>file line. find_symbol_by_location db_ok db tenant_id file line repo);
          named = (\<lambda>name. find_symbol_by_name db_ok db tenant_id name repo);
          crashed = (if crash_file \<noteq> [] \<and> 0 < crash_line then locate crash_file crash_line else None)
      in retrieve_steps F locate named crashed frames s)"

definition code_retriever_invoke ::
  "'s fetch_env \<Rightarrow> bool \<Rightarrow> int \<Rightarrow> db2 \<Rightarrow> agent_state \<Rightarrow> 's \<Rightarrow> agent_state res \<times> 's" where
  "code_retriever_invoke F db_ok latency db st s =
     (case (st_parsed_event st, st_tenant_id st) of
        (None, _) \<Rightarrow> (Inl (KeyError ''parsed_event''), s)
      | (_, None) \<Rightarrow> (Inl (KeyError ''tenant_id''), s)
      | (Some parsed, Some tenant_id) \<Rightarrow>
          (case bind_res (int_or_0 ''crash_line'' parsed) (\<lambda>n.
                bind_res (frames_of parsed) (\<lambda>fs. Inr (n, fs))) of
             Inl e \<Rightarrow> (Inl e, s)
           | Inr (crash_line, frames) \<Rightarrow>
               (case retrieve F db_ok db tenant_id parsed (str_of ''crash_file'' [] parsed) crash_line
                       frames s of
                  (Inl e, s1) \<Rightarrow> (Inl e, s1)
                | (Inr rt, s1) \<Rightarrow>
                    (Inr (empty_state\<lparr>st_code_context := Some (join SNIPPET_SEPARATOR (rt_snippets rt)),
                       st_code_retriever_meta := Some (retriever_meta rt latency)\<rparr>), s1))))"

subsection \<open>Properties\<close>

text \<open>Rows the node may show to the model.\<close>

definition own_row :: "db2 \<Rightarrow> string \<Rightarrow> string option \<Rightarrow> code_index_row \<Rightarrow> bool" where
  "own_row db tenant_id repo r \<longleftrightarrow>
     r \<in> set (code_index db) \<and> uuid_parse tenant_id = Some (ci_tenant_id r) \<and> repo = Some (ci_repo_url r)"

text \<open>
  The text of an object: what S3 holds under its key, or what Redis held for that key when the run began
  (\<open>m\<close> are the keys of Redis at that moment).  A snippet is made of the lines of its own row's object.
\<close>

definition object_text :: "'s fetch_env \<Rightarrow> kv \<Rightarrow> string \<Rightarrow> string \<Rightarrow> bool" where
  "object_text F m key content \<longleftrightarrow>
     fe_s3 F key = Some content \<or> (\<exists>v. m (''code:'' @ key) = Some v \<and> content = reply_str v)"

definition snippet_from :: "'s fetch_env \<Rightarrow> kv \<Rightarrow> code_index_row \<Rightarrow> string \<Rightarrow> bool" where
  "snippet_from F m r snippet \<longleftrightarrow>
     (\<exists>content. object_text F m (ci_s3_key r) content \<and> snippet = snippet_of r (splitlines content))"

text \<open>The invariant of a run, and of the server beside it.\<close>

definition cached_ok :: "'s fetch_env \<Rightarrow> kv \<Rightarrow> kv \<Rightarrow> bool" where
  "cached_ok F m m1 \<longleftrightarrow> (\<forall>key v. m1 (''code:'' @ key) = Some v \<longrightarrow> object_text F m key (reply_str v))"

definition retrieval_inv ::
  "'s fetch_env \<Rightarrow> kv \<Rightarrow> (code_index_row \<Rightarrow> bool) \<Rightarrow> code_index_row list \<Rightarrow> retrieval \<Rightarrow> bool" where
  "retrieval_inv F m own rows rt \<longleftrightarrow>
     list_all2 (snippet_from F m) rows (rt_snippets rt) \<and> map ci_id rows = rt_ids rt \<and> distinct (rt_ids rt) \<and>
     (\<forall>key ls. rt_cache rt key = Some ls \<longrightarrow> (\<exists>content. object_text F m key content \<and> ls = splitlines content)) \<and>
     list_all own rows \<and>
     rt_tokens rt = sum_list (map (token_count F) (rt_snippets rt)) \<and> rt_tokens rt \<le> TOKEN_BUDGET \<and>
     (\<forall>key. nonempty (fe_s3 F key) \<noteq> None \<longrightarrow>
        count_list (rt_s3 rt) key \<le> (if rt_cache rt key = None then 0 else 1))"

lemma retrieval_inv_empty: "retrieval_inv F m own [] empty_retrieval"
  by (simp add: retrieval_inv_def empty_retrieval_def TOKEN_BUDGET_def)

lemma cached_ok_start: "cached_ok F m m"
  by (auto simp: cached_ok_def object_text_def)

lemma cached_ok_upd:
  assumes "cached_ok F m m1" "fe_s3 F key = Some content"
  shows "cached_ok F m (m1(''code:'' @ key \<mapsto> Text content))"
  using assms by (auto simp: cached_ok_def object_text_def reply_str_def)

text \<open>A client whose failed reads change nothing and whose failed writes were executed or were not.\<close>

locale steady_redis = redis_server R view for R :: "'s redis" and view :: "'s \<Rightarrow> kv" +
  assumes get_failed: "r_get R k s = (Inl e, s') \<Longrightarrow> view s' = view s"
    and setex_failed: "r_setex R k ttl v s = (Inl e, s') \<Longrightarrow> view s' = view s \<or> view s' = (view s)(k \<mapsto> v)"
begin

lemma setex_view:
  "view (snd (r_setex R k ttl v s)) = view s \<or> view (snd (r_setex R k ttl v s)) = (view s)(k \<mapsto> v)"
proof (cases "r_setex R k ttl v s")
  case (Pair r s')
  then show ?thesis using setex_ok [of k ttl v s _ s'] setex_failed [of k ttl v s _ s'] by (cases r) auto
qed

lemma fetch_lines_inv:
  assumes R: "fe_redis F = R" and fetch: "fetch_lines F key rt s = (ans, rt1, s1)"
    and inv: "retrieval_inv F m own rows rt" and ok: "cached_ok F m (view s)"
  shows "retrieval_inv F m own rows rt1 \<and> rt_ids rt1 = rt_ids rt \<and> cached_ok F m (view s1) \<and>
         (\<forall>lines n. ans = Some (lines, n) \<longrightarrow> (\<exists>content. object_text F m key content \<and> lines = splitlines content))"
proof (cases "rt_cache rt key")
  case (Some ls)
  with fetch inv ok show ?thesis by (auto simp: fetch_lines_def retrieval_inv_def)
next
  case None
  obtain reply s' where g: "r_get R (''code:'' @ key) s = (reply, s')" by fastforce
  have view': "view s' = view s" using g get_ok get_failed by (cases reply) blast+
  consider (hit) v where "reply = Inr (Some v)" | (miss) "\<nexists>v. reply = Inr (Some v)" by blast
  then show ?thesis
  proof cases
    case hit
    with get_ok [of "''code:'' @ key" s] g ok have obj: "object_text F m key (reply_str v)"
      by (auto simp: cached_ok_def)
    from hit fetch None g R have "rt1 = rt\<lparr>rt_cache := (rt_cache rt)(key \<mapsto> splitlines (reply_str v))\<rparr>"
      "ans = Some (splitlines (reply_str v), 0, 1, 0)" "s1 = s'"
      by (simp_all add: fetch_lines_def Let_def)
    with inv None obj ok view' show ?thesis by (auto simp: retrieval_inv_def)
  next
    case miss
    then have m: "(case r_get R (''code:'' @ key) s of (Inr (Some v), s1) \<Rightarrow> f v s1
        | (x, s1) \<Rightarrow> h s1) = h s'" for f and h :: "'s \<Rightarrow> (string list \<times> int \<times> int \<times> int) option \<times> retrieval \<times> 's"
      using g by (auto split: sum.splits option.splits)
    show ?thesis
    proof (cases "nonempty (fe_s3 F key)")
      case no: None
      with fetch None m R have "rt1 = rt\<lparr>rt_s3 := rt_s3 rt @ [key]\<rparr>" "ans = None" "s1 = s'"
        by (simp_all add: fetch_lines_def Let_def)
      with inv no ok view' show ?thesis by (auto simp: retrieval_inv_def)
    next
      case (Some content)
      then have s3: "fe_s3 F key = Some content" by (simp add: nonempty_Some_iff)
      from Some fetch None m R
      have eqs: "rt1 = rt\<lparr>rt_s3 := rt_s3 rt @ [key], rt_cache := (rt_cache rt)(key \<mapsto> splitlines content)\<rparr>"
        "ans = Some (splitlines content, 1, 0, 1)"
        "s1 = snd (r_setex R (''code:'' @ key) REDIS_FILE_CACHE_TTL (Text content) s')"
        by (simp_all add: fetch_lines_def Let_def)
      have "cached_ok F m (view s1)"
        using setex_view [of "''code:'' @ key" REDIS_FILE_CACHE_TTL "Text content" s'] ok view'
          cached_ok_upd [OF ok s3] eqs(3) by auto
      moreover have "object_text F m key content" using s3 by (simp add: object_text_def)
      moreover have "retrieval_inv F m own rows rt1"
        using inv None Some \<open>object_text F m key content\<close> unfolding eqs(1) retrieval_inv_def
        by (force split: if_splits)
      ultimately show ?thesis using eqs(1,2) by auto
    qed
  qed
qed

lemma add_symbol_inv:
  assumes R: "fe_redis F = R" and inv: "retrieval_inv F m own rows rt" and ok: "cached_ok F m (view s)"
    and r: "own r" "ci_id r \<notin> set (rt_ids rt)" and add: "add_symbol F r rt s = (rt', s')"
  shows "\<exists>rows'. retrieval_inv F m own rows' rt' \<and> cached_ok F m (view s')"
proof (cases "ci_s3_key r = []")
  case True
  with add inv ok show ?thesis by (auto simp: add_symbol_def)
next
  case False
  obtain ans rt1 s1 where f: "fetch_lines F (ci_s3_key r) rt s = (ans, rt1, s1)" by (metis surj_pair)
  from fetch_lines_inv [OF R f inv ok] have inv1: "retrieval_inv F m own rows rt1"
    and ids: "rt_ids rt1 = rt_ids rt" and ok1: "cached_ok F m (view s1)"
    and obj: "\<And>lines n. ans = Some (lines, n) \<Longrightarrow>
      \<exists>content. object_text F m (ci_s3_key r) content \<and> lines = splitlines content"
    by auto
  show ?thesis
  proof (cases ans)
    case None
    with add False f inv1 ok1 show ?thesis by (auto simp: add_symbol_def)
  next
    case (Some a)
    obtain lines fetched hits misses where a: "a = (lines, fetched, hits, misses)" by (metis surj_pair)
    from obj Some a have from_row: "snippet_from F m r (snippet_of r lines)"
      by (auto simp: snippet_from_def)
    show ?thesis
    proof (cases "rt_tokens rt1 + token_count F (snippet_of r lines) \<le> TOKEN_BUDGET")
      case True
      with add False f Some a have rt': "rt' = rt1\<lparr>rt_snippets := rt_snippets rt1 @ [snippet_of r lines],
          rt_tokens := rt_tokens rt1 + token_count F (snippet_of r lines),
          rt_files := rt_files rt1 + fetched, rt_hits := rt_hits rt1 + hits,
          rt_misses := rt_misses rt1 + misses, rt_ids := rt_ids rt1 @ [ci_id r]\<rparr>" and s': "s' = s1"
        by (simp_all add: add_symbol_def Let_def)
      have "retrieval_inv F m own (rows @ [r]) rt'"
        using inv1 r ids True from_row unfolding rt' retrieval_inv_def
        by (auto intro!: list_all2_appendI)
      with ok1 s' show ?thesis by blast
    next
      case no: False
      with add False f Some a inv1 ok1 show ?thesis by (auto simp: add_symbol_def Let_def)
    qed
  qed
qed

lemma add_new_symbol_inv:
  assumes "fe_redis F = R" "retrieval_inv F m own rows rt" "cached_ok F m (view s)"
    and "\<And>r. found = Some r \<Longrightarrow> own r" "add_new_symbol F found rt s = (rt', s')"
  shows "\<exists>rows'. retrieval_inv F m own rows' rt' \<and> cached_ok F m (view s')"
  using assms add_symbol_inv [OF assms(1-3), of _ rt' s']
  by (auto simp: add_new_symbol_def split: option.splits if_splits)

lemma add_frames_inv:
  assumes "fe_redis F = R" "retrieval_inv F m own rows rt" "cached_ok F m (view s)"
    and "\<forall>f l r. locate f l = Some r \<longrightarrow> own r" "add_frames F locate fs rt s = (Inr rt', s')"
  shows "\<exists>rows'. retrieval_inv F m own rows' rt' \<and> cached_ok F m (view s')"
  using assms(2,3,5)
proof (induction fs arbitrary: rows rt s)
  case (Cons f fs)
  show ?case
  proof (cases "TOKEN_BUDGET \<le> rt_tokens rt")
    case True
    with Cons.prems show ?thesis by auto
  next
    case False
    with Cons.prems(3) obtain kvs line where f: "f = JObj kvs" "int_or_0 ''line'' f = Inr line"
      by (auto split: json.splits sum.splits)
    show ?thesis
    proof (cases "str_of ''file'' [] f = [] \<or> line \<le> 0")
      case True
      with Cons.prems False f have "add_frames F locate fs rt s = (Inr rt', s')" by auto
      with Cons.IH Cons.prems(1,2) show ?thesis by blast
    next
      case no: False
      obtain rt1 s1 where a: "add_new_symbol F (locate (str_of ''file'' [] f) line) rt s = (rt1, s1)"
        by fastforce
      have "\<And>r. locate (str_of ''file'' [] f) line = Some r \<Longrightarrow> own r" using assms(4) by blast
      from add_new_symbol_inv [OF assms(1) Cons.prems(1,2) this a] obtain rows1
        where "retrieval_inv F m own rows1 rt1" "cached_ok F m (view s1)" by blast
      moreover from Cons.prems(3) False f no a have "add_frames F locate fs rt1 s1 = (Inr rt', s')"
        by auto
      ultimately show ?thesis using Cons.IH by blast
    qed
  qed
qed auto

lemma add_calls_inv:
  assumes "fe_redis F = R" "retrieval_inv F m own rows rt" "cached_ok F m (view s)"
    and "\<forall>c r. named c = Some r \<longrightarrow> own r" "add_calls F named cs rt s = (rt', s')"
  shows "\<exists>rows'. retrieval_inv F m own rows' rt'"
  using assms(2,3,5)
proof (induction cs arbitrary: rows rt s)
  case (Cons c cs)
  consider (stop) "TOKEN_BUDGET \<le> rt_tokens rt" | (skip) "\<not> TOKEN_BUDGET \<le> rt_tokens rt" "strip c = []"
    | (add) "\<not> TOKEN_BUDGET \<le> rt_tokens rt" "strip c \<noteq> []" by blast
  then show ?case
  proof cases
    case stop
    with Cons.prems show ?thesis by auto
  next
    case skip
    with Cons.prems Cons.IH show ?thesis by auto
  next
    case add
    obtain rt1 s1 where a: "add_new_symbol F (named (strip c)) rt s = (rt1, s1)" by fastforce
    have "\<And>r. named (strip c) = Some r \<Longrightarrow> own r" using assms(4) by blast
    from add_new_symbol_inv [OF assms(1) Cons.prems(1,2) this a] obtain rows1
      where "retrieval_inv F m own rows1 rt1" "cached_ok F m (view s1)" by blast
    moreover from Cons.prems(3) add a have "add_calls F named cs rt1 s1 = (rt', s')" by simp
    ultimately show ?thesis using Cons.IH by blast
  qed
qed auto

lemma retrieve_steps_inv:
  assumes R: "fe_redis F = R" and loc: "\<forall>f l r. locate f l = Some r \<longrightarrow> own r"
    and nam: "\<forall>n r. named n = Some r \<longrightarrow> own r" and crashed: "\<forall>r. crashed = Some r \<longrightarrow> own r"
    and run: "retrieve_steps F locate named crashed frames s = (Inr rt, s')"
  shows "\<exists>rows. retrieval_inv F (view s) own rows rt"
proof (cases crashed)
  case None
  with run have "add_frames F locate frames empty_retrieval s = (Inr rt, s')"
    by (simp add: retrieve_steps_def)
  from add_frames_inv [OF R retrieval_inv_empty cached_ok_start loc this] show ?thesis by blast
next
  case (Some r)
  obtain rt1 s1 where st1: "add_symbol F r empty_retrieval s = (rt1, s1)" by fastforce
  from run Some st1 obtain rt2 s2 where st2: "add_frames F locate frames rt1 s1 = (Inr rt2, s2)"
    and st3: "add_calls F named (get_or (ci_calls r) []) rt2 s2 = (rt, s')"
    by (auto simp: retrieve_steps_def split: prod.splits sum.splits)
  have "ci_id r \<notin> set (rt_ids empty_retrieval)" by (simp add: empty_retrieval_def)
  from add_symbol_inv [where own = own, OF R retrieval_inv_empty cached_ok_start
      crashed [rule_format, OF Some] this st1] obtain rows1
    where "retrieval_inv F (view s) own rows1 rt1" "cached_ok F (view s) (view s1)" by blast
  from add_frames_inv [OF R this loc st2] obtain rows2
    where "retrieval_inv F (view s) own rows2 rt2" "cached_ok F (view s) (view s2)" by blast
  from add_calls_inv [OF R this nam st3] show ?thesis .
qed

end

text \<open>The server in memory is one of them.\<close>

interpretation steady: steady_redis mem mem_view
  by unfold_locales
     (auto simp: mem_def mem_op_def mem_view_def fun_eq_iff split: list.splits bool.splits)

lemma find_by_location_own: "find_symbol_by_location ok db t f l repo = Some r \<Longrightarrow> own_row db t repo r"
  by (auto simp: find_symbol_by_location_def suffix_match_def rows_at_def own_row_def nonempty_Some_iff
           dest!: find_SomeD split: option.splits if_splits)

lemma find_by_name_own: "find_symbol_by_name ok db t n repo = Some r \<Longrightarrow> own_row db t repo r"
  by (auto simp: find_symbol_by_name_def own_row_def nonempty_Some_iff
           dest!: find_SomeD split: option.splits if_splits)

lemma retrieve_inv:
  assumes "steady_redis (fe_redis F) view"
    and "retrieve F ok db t parsed file line frames s = (Inr rt, s')"
  shows "\<exists>rows. retrieval_inv F (view s)
           (own_row db t (resolve_repo ok db t (jget ''service_name'' parsed))) rows rt"
  using assms(2) unfolding retrieve_def Let_def
  by (rule steady_redis.retrieve_steps_inv [OF assms(1) refl, rotated 3])
     (auto intro: find_by_location_own find_by_name_own split: if_splits)

lemma add_frames_total:
  "\<exists>rt' s'. add_frames F locate (map frame_dump fs) rt s = (Inr rt', s')"
proof (induction fs arbitrary: rt s)
  case (Cons f fs)
  have line: "int_or_0 ''line'' (frame_dump f) = Inr (sf_line f)"
    by (simp add: int_or_0_def frame_dump_def Let_def)
  obtain kvs where obj: "frame_dump f = JObj kvs" by (simp add: frame_dump_def)
  obtain rt1 s1 where
    "add_new_symbol F (locate (str_of ''file'' [] (frame_dump f)) (sf_line f)) rt s = (rt1, s1)"
    by fastforce
  with Cons.IH [of rt s] Cons.IH [of rt1 s1] line obj show ?case by (simp add: Let_def)
qed simp

lemma retrieve_total:
  "\<exists>rt s'. retrieve F ok db t parsed file line (map frame_dump fs) s = (Inr rt, s')"
proof -
  have "\<exists>rt s'. retrieve_steps F locate named crashed (map frame_dump fs) s = (Inr rt, s')"
    for locate named crashed
  proof (cases crashed)
    case None
    with add_frames_total show ?thesis by (simp add: retrieve_steps_def)
  next
    case (Some r)
    obtain rt1 s1 where 1: "add_symbol F r empty_retrieval s = (rt1, s1)" by fastforce
    obtain rt2 s2 where 2: "add_frames F locate (map frame_dump fs) rt1 s1 = (Inr rt2, s2)"
      using add_frames_total [of F locate fs rt1 s1] by blast
    obtain rt3 s3 where "add_calls F named (get_or (ci_calls r) []) rt2 s2 = (rt3, s3)" by fastforce
    with 1 2 Some show ?thesis by (simp add: retrieve_steps_def)
  qed
  then show ?thesis by (simp add: retrieve_def Let_def)
qed

lemma frames_of_to_dict: "frames_of (to_dict e) = Inr (map frame_dump (pe_stack_frames e))"
  by (auto simp: frames_of_def to_dict_def Let_def)

lemma code_retriever_returns:
  assumes "st_parsed_event st = Some (to_dict e)" "st_tenant_id st = Some t"
  obtains rt s' where
    "retrieve F ok db t (to_dict e) (str_of ''crash_file'' [] (to_dict e)) (pe_crash_line e)
       (map frame_dump (pe_stack_frames e)) s = (Inr rt, s')"
    "code_retriever_invoke F ok latency db st s =
       (Inr (empty_state\<lparr>st_code_context := Some (join SNIPPET_SEPARATOR (rt_snippets rt)),
          st_code_retriever_meta := Some (retriever_meta rt latency)\<rparr>), s')"
proof -
  obtain rt s' where run: "retrieve F ok db t (to_dict e) (str_of ''crash_file'' [] (to_dict e))
      (pe_crash_line e) (map frame_dump (pe_stack_frames e)) s = (Inr rt, s')"
    using retrieve_total [of F ok db t "to_dict e" "str_of ''crash_file'' [] (to_dict e)" "pe_crash_line e"
        "pe_stack_frames e" s] by blast
  then show ?thesis
    using that assms by (simp add: code_retriever_invoke_def int_or_0_to_dict frames_of_to_dict)
qed

lemma service_of_to_dict: "jget ''service_name'' (to_dict e) = JStr (pe_service_name e)"
  by (simp add: to_dict_def)

text \<open>C13: on a validated event the code retriever returns, whatever S3, the token
  counter and the database do and however often Redis fails.  The context it hands to the model is one
  snippet for each of some pairwise different rows of the code index, all of the event's tenant and of the
  repository mapped to the event's service.  Each snippet is its row's header over the row's lines, cut out of
  the row's own object: the text that S3 holds under the key of that row, or that Redis held under
  \<open>code:\<close> and that key when the run began.  Together they stay within the token budget; the metadata
  counts them.\<close>

theorem retriever_sound:
  assumes "steady_redis (fe_redis F) view"
    and "st_parsed_event st = Some (to_dict e)" "st_tenant_id st = Some t"
  shows "\<exists>u s' rows snippets. code_retriever_invoke F ok latency db st s = (Inr u, s') \<and>
     st_code_context u = Some (join SNIPPET_SEPARATOR snippets) \<and>
     list_all2 (snippet_from F (view s)) rows snippets \<and>
     distinct (map ci_id rows) \<and>
     (\<forall>r \<in> set rows. own_row db t (resolve_repo ok db t (JStr (pe_service_name e))) r) \<and>
     sum_list (map (token_count F) snippets) \<le> TOKEN_BUDGET \<and>
     jget ''symbols_retrieved'' (the (st_code_retriever_meta u)) = JInt (int (length snippets)) \<and>
     jget ''tokens'' (the (st_code_retriever_meta u)) = JInt (sum_list (map (token_count F) snippets))"
proof (rule code_retriever_returns [OF assms(2,3), of F ok db s latency])
  fix rt s'
  assume ret: "retrieve F ok db t (to_dict e) (str_of ''crash_file'' [] (to_dict e)) (pe_crash_line e)
       (map frame_dump (pe_stack_frames e)) s = (Inr rt, s')"
    and run: "code_retriever_invoke F ok latency db st s =
       (Inr (empty_state\<lparr>st_code_context := Some (join SNIPPET_SEPARATOR (rt_snippets rt)),
          st_code_retriever_meta := Some (retriever_meta rt latency)\<rparr>), s')"
  from retrieve_inv [OF assms(1) ret] obtain rows
    where "retrieval_inv F (view s) (own_row db t (resolve_repo ok db t (JStr (pe_service_name e)))) rows rt"
    unfolding service_of_to_dict by blast
  then have facts: "list_all2 (snippet_from F (view s)) rows (rt_snippets rt)" "distinct (map ci_id rows)"
    "\<forall>r \<in> set rows. own_row db t (resolve_repo ok db t (JStr (pe_service_name e))) r"
    "rt_tokens rt = sum_list (map (token_count F) (rt_snippets rt))"
    "sum_list (map (token_count F) (rt_snippets rt)) \<le> TOKEN_BUDGET"
    by (auto simp: retrieval_inv_def list_all_iff)
  show ?thesis
    by (rule exI, rule exI [of _ s'], rule exI [of _ rows], rule exI [of _ "rt_snippets rt"],
        rule conjI, rule run) (use facts in \<open>simp add: retriever_meta_def\<close>)
qed

text \<open>Within one run of the retriever a file that exists and is not empty is fetched from S3 at
  most once, however many symbols of it are needed.  (A missing or empty file is asked for again by every
  symbol.)\<close>

theorem s3_once:
  assumes "steady_redis (fe_redis F) view" "retrieve F ok db t parsed file line frames s = (Inr rt, s')"
    and "fe_s3 F key = Some content" "content \<noteq> []"
  shows "count_list (rt_s3 rt) key \<le> 1"
  using retrieve_inv [OF assms(1,2)] assms(3,4)
  by (cases content) (auto simp: retrieval_inv_def split: if_splits dest!: spec [of _ key])

subsection \<open>Witnesses\<close>

text \<open>Two symbols of one indexed file; the crash is in the inner one.\<close>

definition crash_row :: "uuid \<Rightarrow> string \<Rightarrow> int \<Rightarrow> int \<Rightarrow> code_index_row" where
  "crash_row i name a b = \<lparr>ci_id = i, ci_tenant_id = pe_tenant_id crash_event, ci_repo_url = ''repo'',
     ci_file_path = ''app/a.py'', ci_symbol_name = name, ci_chunk_type = Some ''function'',
     ci_start_line = a, ci_end_line = b, ci_calls = Some [''g''], ci_called_by = None, ci_imports = None,
     ci_s3_key = ''k'', ci_last_commit = ''c''\<rparr>"

definition crash_db :: db2 where
  "crash_db = (empty_db2 True)\<lparr>
     service_repo_mapping_snapshots := [\<lparr>sm_id = ''m'', sm_tenant_id = pe_tenant_id crash_event,
       sm_service_name = ''pay'', sm_repo_url = ''repo'', sm_synced_at = 0\<rparr>],
     code_index := [crash_row ''r1'' ''f'' 10 14, crash_row ''r2'' ''g'' 1 3]\<rparr>"

definition crash_fetch :: "mem fetch_env" where
  "crash_fetch = \<lparr>fe_redis = mem, fe_s3 = [''k'' \<mapsto> ''def g(): pass''], fe_tokens = (\<lambda>_. Some 40)\<rparr>"

lemma steady_mem: "steady_redis (fe_redis crash_fetch) mem_view"
  by (simp add: crash_fetch_def steady.steady_redis_axioms)

theorem retriever_sound_witness:
  "\<exists>u s' rows snippets. code_retriever_invoke crash_fetch True 3 crash_db crash_state
       (idle_mem\<lparr>m_fail := [True]\<rparr>) = (Inr u, s') \<and>
     st_code_context u = Some (join SNIPPET_SEPARATOR snippets) \<and>
     list_all2 (snippet_from crash_fetch (mem_view (idle_mem\<lparr>m_fail := [True]\<rparr>))) rows snippets \<and>
     sum_list (map (token_count crash_fetch) snippets) \<le> TOKEN_BUDGET"
  using retriever_sound [OF steady_mem crash_state_event, of True 3 crash_db "idle_mem\<lparr>m_fail := [True]\<rparr>"]
  by blast

theorem s3_once_witness:
  "\<exists>rt s'. retrieve crash_fetch True crash_db (pe_tenant_id crash_event) (to_dict crash_event) ''app/a.py'' 12
       (map frame_dump []) (idle_mem\<lparr>m_fail := [True]\<rparr>) = (Inr rt, s') \<and> count_list (rt_s3 rt) ''k'' \<le> 1"
proof -
  obtain rt s' where run: "retrieve crash_fetch True crash_db (pe_tenant_id crash_event) (to_dict crash_event)
      ''app/a.py'' 12 (map frame_dump []) (idle_mem\<lparr>m_fail := [True]\<rparr>) = (Inr rt, s')"
    using retrieve_total [of crash_fetch True crash_db "pe_tenant_id crash_event" "to_dict crash_event"
        "''app/a.py''" 12 "[]"] by blast
  have "fe_s3 crash_fetch ''k'' = Some ''def g(): pass''" by (simp add: crash_fetch_def)
  from s3_once [OF steady_mem run this] run show ?thesis by blast
qed

end
