(* ===== verification/Patch_Generator.thy ===== *)
theory Patch_Generator
  imports Fix_Generator Code_Retriever
begin

text \<open>
  \<open>app/agents/nodes/patch_generator.py\<close>: a search-and-replace patch for one source file, validated against
  the content of the file.  Every exception is caught; a skipped patch carries the reason.
\<close>

definition PATCH_EXCLUDED_PATTERNS :: "string list" where
  "PATCH_EXCLUDED_PATTERNS = [''/migrations/'', ''settings.py'', ''.env'', ''/terraform/'', ''/.github/'',
     ''alembic/versions/'', ''docker-compose'', ''Dockerfile'']"

definition is_patch_excluded :: "string \<Rightarrow> bool" where
  "is_patch_excluded path = list_ex (\<lambda>p. contains p path) PATCH_EXCLUDED_PATTERNS"

record patch =
  pt_file :: json
  pt_search :: string
  pt_replace :: json

subsection \<open>The file\<close>

text \<open>By line, with the first row as a fallback; or any row of the file, when it is not the crashed one.\<close>

definition best_row :: "string \<Rightarrow> code_index_row list \<Rightarrow> code_index_row option" where
  "best_row path rows = (case suffix_match path rows of
     Some r \<Rightarrow> Some r | None \<Rightarrow> (case rows of [] \<Rightarrow> None | r # _ \<Rightarrow> Some r))"

definition patch_symbol_by_location :: "bool \<Rightarrow> db2 \<Rightarrow> string \<Rightarrow> string \<Rightarrow> int \<Rightarrow> code_index_row option" where
  "patch_symbol_by_location db_ok db tenant_id path line =
     (case uuid_parse tenant_id of
        None \<Rightarrow> None
      | Some tenant \<Rightarrow>
          if \<not> db_ok then None
          else let rows = rows_at (\<lambda>_. True) tenant path line db
               in best_row path rows)"

definition any_symbol_by_filename :: "bool \<Rightarrow> db2 \<Rightarrow> string \<Rightarrow> string \<Rightarrow> code_index_row option" where
  "any_symbol_by_filename db_ok db tenant_id path =
     (case uuid_parse tenant_id of
        None \<Rightarrow> None
      | Some tenant \<Rightarrow>
          if \<not> db_ok then None
          else let rows = sort_key ci_start_line
                     (filter (\<lambda>r. ci_tenant_id r = tenant \<and> ilike_contains (file_name path) (ci_file_path r))
                        (code_index db))
               in best_row path rows)"

definition fetch_full_file ::
  "'s redis \<Rightarrow> (string \<Rightarrow> string option) \<Rightarrow> string \<Rightarrow> 's \<Rightarrow> string option \<times> 's" where
  "fetch_full_file R s3 key s =
     (case r_get R (''code:'' @ key) s of
        (Inr (Some v), s1) \<Rightarrow> (Some (reply_str v), s1)
      | (_, s1) \<Rightarrow>
          (case nonempty (s3 key) of
             None \<Rightarrow> (None, s1)
           | Some content \<Rightarrow>
               (Some content, snd (r_setex R (''code:'' @ key) REDIS_FILE_CACHE_TTL (Text content) s1))))"

subsection \<open>The prompt and the answer\<close>

definition patch_prompt :: "string \<Rightarrow> int \<Rightarrow> agent_state \<Rightarrow> string \<Rightarrow> string" where
  "patch_prompt file line st content = join (nl @ nl) (
     [''## Root Cause'', str_or (st_root_cause st) ''(unavailable)'',
      nl @ ''## Suggested Fix'', str_or (st_suggested_fix st) ''(unavailable)''] @
     (if strip (str_or (st_code_patch st) []) \<noteq> []
      then [nl @ ''## Draft Code Change (from an earlier pass '' @ em_dash @
              '' use as a starting point, but verify every line is verbatim-correct against the '' @
              ''full source file below before using it in your patch)'', str_or (st_code_patch st) []]
      else []) @
     [nl @ ''## Crash Location'' @ nl @ ''File: `'' @ file @ ''`  Line: '' @ str_int line] @
     (case nonempty (st_code_context st) of
        Some c \<Rightarrow> [nl @ ''## Relevant Code Context (from agent)'', c] | None \<Rightarrow> []) @
     [nl @ ''## Full Source File (use this for the search/replace strings)'',
      fence @ nl @ content @ nl @ fence,
      nl @ ''Produce the patch JSON. The '' @ [CHR 0x27] @ ''search'' @ [CHR 0x27] @
        '' value MUST be copied VERBATIM from the source file above.''])"

text \<open>One patch of the answer: dropped when its search text is empty or not in the file.\<close>

definition validate_patch :: "string \<Rightarrow> string \<Rightarrow> json \<Rightarrow> patch option res" where
  "validate_patch file content p =
     (case p of
        JObj kvs \<Rightarrow>
          (let replacement = (if jhas ''replace'' p then jget ''replace'' p else JStr []);
               target = (if jhas ''file'' p then jget ''file'' p else JStr file);
               search = (if jhas ''search'' p then jget ''search'' p else JStr [])
           in if \<not> truthy search then Inr None
              else case search of
                     JStr t \<Rightarrow> Inr (if contains t content
                        then Some \<lparr>pt_file = target, pt_search = t, pt_replace = replacement\<rparr>
                        else None)
                   | _ \<Rightarrow> Inl (TypeError ''in <string>''))
      | _ \<Rightarrow> Inl (AttributeError ''get''))"

fun validate_patches :: "string \<Rightarrow> string \<Rightarrow> json list \<Rightarrow> patch list res" where
  "validate_patches file content [] = Inr []"
| "validate_patches file content (p # ps) =
     bind_res (validate_patch file content p) (\<lambda>v.
     bind_res (validate_patches file content ps) (\<lambda>vs.
       Inr (case v of None \<Rightarrow> vs | Some x \<Rightarrow> x # vs)))"

definition patches_of :: "json \<Rightarrow> json list res" where
  "patches_of d =
     (let v = jget ''patches'' d in
      if \<not> truthy v then Inr []
      else case v of
             JArr ps \<Rightarrow> Inr ps
           | JObj kvs \<Rightarrow> Inr (map (\<lambda>kv. JStr (fst kv)) kvs)
           | JStr cs \<Rightarrow> Inr (map (\<lambda>c. JStr [c]) cs)
           | _ \<Rightarrow> Inl (TypeError ''not iterable''))"

definition float_or_0 :: "json \<Rightarrow> rat res" where
  "float_or_0 v = (if \<not> truthy v then Inr 0
     else case json_float v of Some q \<Rightarrow> Inr q
     | None \<Rightarrow> (case v of JStr t \<Rightarrow> Inl (ValueError t) | _ \<Rightarrow> Inl (TypeError ''float'')))"

text \<open>The validated patches, the confidence and the reason.\<close>

definition read_patches :: "string \<Rightarrow> string \<Rightarrow> json \<Rightarrow> (patch list \<times> rat \<times> string) res" where
  "read_patches file content d =
     (case d of
        JObj kvs \<Rightarrow>
          bind_res (float_or_0 (jget ''patch_confidence'' d)) (\<lambda>q.
          bind_res (patches_of d) (\<lambda>ps.
          bind_res (validate_patches file content ps) (\<lambda>vs.
            Inr (vs, clamp01 q, str_of ''skip_reason'' [] d))))
      | _ \<Rightarrow> Inl (AttributeError ''get''))"

definition patch_json :: "patch \<Rightarrow> json" where
  "patch_json p = JObj [(''file'', pt_file p), (''search'', JStr (pt_search p)),
     (''replace'', pt_replace p)]"

definition structured_patch_json :: "patch list \<Rightarrow> rat \<Rightarrow> string \<Rightarrow> json" where
  "structured_patch_json ps confidence reason = JObj [(''patches'', JArr (map patch_json ps)),
     (''patch_confidence'', JFlt confidence), (''skip_reason'', JStr reason)]"

subsection \<open>The node\<close>

datatype patch_outcome =
    Skipped string
  | Patched "patch list" rat string

definition patch_answer :: "(json \<Rightarrow> string) \<Rightarrow> int \<Rightarrow> patch_outcome \<Rightarrow> agent_state" where
  "patch_answer dumps latency out =
     (case out of
        Skipped reason \<Rightarrow>
          empty_state\<lparr>st_structured_patch := Some [], st_patch_confidence := Some 0,
            st_patch_skip_reason := Some reason, st_patch_generator_latency_ms := Some latency\<rparr>
      | Patched ps confidence reason \<Rightarrow>
          empty_state\<lparr>st_structured_patch := Some (dumps (structured_patch_json ps confidence reason)),
            st_patch_confidence := Some confidence, st_patch_skip_reason := Some reason,
            st_patch_generator_latency_ms := Some latency\<rparr>)"

definition NO_PATCH_PASSED :: string where
  "NO_PATCH_PASSED = ''No patches passed verbatim validation against file content.''"

text \<open>Steps 3 to 6: the guarded call.  \<open>message\<close> gives the text of an exception.  \<open>Inl\<close> is an exception that reaches the outer handler.\<close>

definition ask_for_patch ::
  "'s llm_env \<Rightarrow> (exn \<Rightarrow> string) \<Rightarrow> string \<Rightarrow> string \<Rightarrow> string \<Rightarrow> 's \<Rightarrow> patch_outcome res \<times> 's" where
  "ask_for_patch E message prompt file content s =
     (case c_can (le_circuit E) (le_asked E) s of
        (Inl e, s1) \<Rightarrow> (Inl e, s1)
      | (Inr False, s1) \<Rightarrow>
          (Inr (Skipped (''Circuit breaker OPEN for '' @ repr ''gemini_patch_generator'' @ '' '' @ em_dash @
             '' patch generation skipped.'')), s1)
      | (Inr True, s1) \<Rightarrow>
          (case bind_res (generate_with_truncation_retry (le_generate E) prompt) rs_text of
             Inl e \<Rightarrow> (Inl e, s1)
           | Inr raw \<Rightarrow>
               (case le_loads E (json_span raw) of
                  None \<Rightarrow>
                    (case c_failure (le_circuit E) (le_failed E) s1 of
                       (Inl e, s2) \<Rightarrow> (Inl e, s2)
                     | (Inr _, s2) \<Rightarrow> (Inr (Skipped (''Gemini returned invalid JSON: '' @
                            message (OtherError ''JSONDecodeError''))), s2))
                | Some d \<Rightarrow>
                    (case read_patches file content d of
                       Inl e \<Rightarrow> (Inl e, s1)
                     | Inr (ps, confidence, reason) \<Rightarrow>
                         (case c_success (le_circuit E) s1 of
                            (Inl e, s2) \<Rightarrow> (Inl e, s2)
                          | (Inr _, s2) \<Rightarrow>
                              (Inr (if ps = [] then Skipped (str_or (Some reason) NO_PATCH_PASSED)
                                    else Patched ps confidence reason), s2))))))"

text \<open>The body of the \<open>try\<close>.\<close>

definition patch_body ::
  "'s llm_env \<Rightarrow> 's redis \<Rightarrow> (string \<Rightarrow> string option) \<Rightarrow> bool \<Rightarrow> (exn \<Rightarrow> string) \<Rightarrow> db2 \<Rightarrow> agent_state \<Rightarrow>
   string \<Rightarrow> int \<Rightarrow> 's \<Rightarrow> patch_outcome res \<times> 's" where
  "patch_body E R s3 db_ok message db st crash_file crash_line s =
     (let target = str_or (st_fix_target_file st) [];
          lookup = (if target \<noteq> [] then target else crash_file);
          tenant_id = str_or (st_tenant_id st) []
      in if contains UNAVAILABLE (str_or (st_suggested_fix st) [])
         then (Inr (Skipped (''fix_generator reported unavailability '' @ em_dash @
                 '' patch generation skipped to prevent hallucinated code changes.'')), s)
         else if lookup = [] then (Inr (Skipped (''Missing target file path or DB session '' @ em_dash @
                 '' cannot retrieve source.'')), s)
         else case (if target \<noteq> [] \<and> target \<noteq> crash_file then any_symbol_by_filename db_ok db tenant_id lookup
                    else patch_symbol_by_location db_ok db tenant_id lookup crash_line) of
                None \<Rightarrow> (Inr (Skipped (''No code_index entry found for '' @ [CHR 0x27] @ lookup @
                          [CHR 0x27] @ ''.'')), s)
              | Some r \<Rightarrow>
                  (let file = str_or (Some (ci_file_path r)) crash_file
                   in if is_patch_excluded file
                      then (Inr (Skipped (''File '' @ [CHR 0x27] @ file @ [CHR 0x27] @
                              '' matches an excluded pattern (migrations/config/infra) '' @ em_dash @
                              '' auto-patch blocked by policy.'')), s)
                      else if ci_s3_key r = [] then (Inr (Skipped ''CodeIndex row has no s3_key.''), s)
                      else case fetch_full_file R s3 (ci_s3_key r) s of
                             (found, s1) \<Rightarrow>
                               (case nonempty found of
                                  None \<Rightarrow> (Inr (Skipped (''Could not fetch file content from S3 (key='' @
                                            ci_s3_key r @ '').'')), s1)
                                | Some content \<Rightarrow>
                                    ask_for_patch E message (patch_prompt file crash_line st content) file
                                      content s1)))"

text \<open>The handler records a failure; its own exceptions are dropped.\<close>

definition patch_generator_invoke ::
  "'s llm_env \<Rightarrow> 's redis \<Rightarrow> (string \<Rightarrow> string option) \<Rightarrow> bool \<Rightarrow> (exn \<Rightarrow> string) \<Rightarrow> db2 \<Rightarrow> agent_state \<Rightarrow> 's \<Rightarrow>
   agent_state res \<times> 's" where
  "patch_generator_invoke E R s3 db_ok message db st s =
     (let parsed = get_or (st_parsed_event st) (JObj [])
      in case int_or_0 ''crash_line'' parsed of
           Inl e \<Rightarrow> (Inl e, s)
         | Inr crash_line \<Rightarrow>
             (case patch_body E R s3 db_ok message db st (str_of ''crash_file'' [] parsed) crash_line s of
                (Inr out, s1) \<Rightarrow> (Inr (patch_answer (le_dumps E) (le_latency E) out), s1)
              | (Inl e, s1) \<Rightarrow>
                  (Inr (patch_answer (le_dumps E) (le_latency E)
                     (Skipped (''patch_generator unhandled exception: '' @ exn_name e @ '': '' @
                        take 200 (message e)))),
                   snd (c_failure (le_circuit E) (le_failed E) s1))))"

subsection \<open>Properties\<close>

text \<open>
  A patch that was found word for word in the file, and the entry of the answer it is made of: its file
  name is the one the answer gives, the path of the index only where the answer gives none.
\<close>

definition verbatim :: "string \<Rightarrow> patch \<Rightarrow> bool" where
  "verbatim content p \<longleftrightarrow> pt_search p \<noteq> [] \<and> contains (pt_search p) content"















text \<open>When the fix generator fell back, the patch generator that runs on its
  result produces no patch and touches neither Redis nor S3 nor the model.\<close>

theorem fallback_never_patched:
  assumes "st_parsed_event st = Some (to_dict e)"
    and "fix_generator_invoke E1 st s1 = (Inr u, s2)" "st_fix_fallback_used u = Some True"
  shows "\<exists>reason. patch_generator_invoke E R s3 ok message db (merge st u) s =
           (Inr (patch_answer (le_dumps E) (le_latency E) (Skipped reason)), s)"
proof -
  from fix_fallback_shape [OF assms(2,3)] obtain ex r f m raw
    where u: "u = fix_answer E1 (fallback_output (fallback_fix ex r f m)) raw True no_tokens" by blast
  from fallback_fix_prefix [of ex r f m] obtain rest
    where "fallback_fix ex r f m = [] @ UNAVAILABLE @ rest" by (auto simp: prefix_def)
  then have "contains UNAVAILABLE (fallback_fix ex r f m)" by (subst contains_iff) blast
  moreover have "str_or (st_suggested_fix (merge st u)) [] = fallback_fix ex r f m"
    using fallback_fix_prefix [of ex r f m]
    by (cases "fallback_fix ex r f m") (auto simp: u fix_answer_def fallback_output_def upd_def)
  moreover have "st_parsed_event (merge st u) = Some (to_dict e)"
    using assms(1) by (simp add: u fix_answer_def upd_def)
  ultimately show ?thesis
    by (simp add: patch_generator_invoke_def patch_body_def int_or_0_to_dict Let_def) blast
qed

subsection \<open>The file a patch names\<close>

text \<open>An answer with one patch for the file \<open>f\<close>, in the world of the retriever's witness.\<close>

definition patch_for :: "string \<Rightarrow> json" where
  "patch_for f = JObj [(''patches'', JArr [JObj [(''file'', JStr f), (''search'', JStr ''pass''),
     (''replace'', JStr ''return 1'')]]), (''patch_confidence'', JFlt (9/10))]"

definition answering :: "json option \<Rightarrow> mem llm_env" where
  "answering d = sample_env_of mem ''answer}'' d"

definition crash_s3 :: "string \<Rightarrow> string option" where
  "crash_s3 = [''k'' \<mapsto> ''def g(): pass'']"

lemma crash_lookup:
  "patch_symbol_by_location True crash_db (pe_tenant_id crash_event) ''app/a.py'' 12 =
     Some (crash_row ''r1'' ''f'' 10 14)"
  by code_simp

lemma crash_file_not_excluded: "\<not> is_patch_excluded ''app/a.py''"
  by code_simp

lemma crash_file_fetched:
  "fetch_full_file mem crash_s3 ''k'' idle_mem =
     (Some ''def g(): pass'', snd (r_setex mem ''code:k'' REDIS_FILE_CACHE_TTL (Text ''def g(): pass'') idle_mem))"
  by (simp add: fetch_full_file_def mem_def mem_op_def idle_mem_def mem_view_def crash_s3_def)

lemma patch_for_read:
  "read_patches ''app/a.py'' ''def g(): pass'' (patch_for f) =
     Inr ([\<lparr>pt_file = JStr f, pt_search = ''pass'', pt_replace = JStr ''return 1''\<rparr>], 9/10, [])"
proof -
  have "contains ''pass'' ''def g(): pass''" by code_simp
  moreover have "clamp01 (9/10) = 9/10" by (simp add: clamp01_id)
  ultimately show ?thesis
    by (simp add: read_patches_def patch_for_def patches_of_def float_or_0_def json_float_def
        validate_patch_def str_of_def Let_def del: contains.simps)
qed

text \<open>The policy is applied to the indexed file only, while each patch carries the
  file name the model gave it: for an event that crashed in \<open>app/a.py\<close> the answer's patch for any file \<open>f\<close>,
  an excluded one included, is accepted and handed on under that name.\<close>

theorem patch_file_unchecked:
  "\<exists>s'. patch_generator_invoke (answering (Some (patch_for f))) mem crash_s3 True (\<lambda>_. []) crash_db
           crash_state idle_mem =
         (Inr (patch_answer (\<lambda>_. []) 5
            (Patched [\<lparr>pt_file = JStr f, pt_search = ''pass'', pt_replace = JStr ''return 1''\<rparr>] (9/10) [])),
          s')"
proof -
  let ?E = "answering (Some (patch_for f))"
  let ?s1 = "snd (r_setex mem ''code:k'' REDIS_FILE_CACHE_TTL (Text ''def g(): pass'') idle_mem)"
  have env: "le_circuit ?E = circuit analyzer_breaker mem" "le_loads ?E = (\<lambda>_. Some (patch_for f))"
    "le_generate ?E = (\<lambda>_ _. Inr \<lparr>rs_text = Inr ''answer}'', rs_usage = None\<rparr>)"
    by (simp_all add: answering_def sample_env_of_def)
  have gen: "bind_res (generate_with_truncation_retry (le_generate ?E) p) rs_text = Inr ''answer}''" for p
    by (simp add: env generate_with_truncation_retry_def)
  have can: "can_execute analyzer_breaker mem t ?s1 = (Inr True, ?s1)" for t
    by (simp add: can_execute_def get_phase_def rbind_def rcatch_def rret_def mem_def mem_op_def idle_mem_def
        mem_view_def key_defs analyzer_breaker_def)
  obtain s2 where succ: "record_success analyzer_breaker mem ?s1 = (Inr (), s2)"
    using mem.record_success_returns by blast
  have ask: "ask_for_patch ?E (\<lambda>_. []) p ''app/a.py'' ''def g(): pass'' ?s1 =
      (Inr (Patched [\<lparr>pt_file = JStr f, pt_search = ''pass'', pt_replace = JStr ''return 1''\<rparr>] (9/10) []), s2)"
    for p
    by (simp add: ask_for_patch_def env(1,2) gen can succ patch_for_read del: record_success_def)
  have crash: "str_of ''crash_file'' [] (to_dict crash_event) = ''app/a.py''"
    "pe_crash_line crash_event = 12" "str_or (st_tenant_id crash_state) [] = pe_tenant_id crash_event"
    "str_or (st_fix_target_file crash_state) [] = []" "str_or (st_suggested_fix crash_state) [] = []"
    by (simp_all add: crash_state_def crash_event_def str_of_def to_dict_def py_str_def)
  have "\<not> contains UNAVAILABLE []" by (simp add: UNAVAILABLE_def)
  moreover have row: "ci_file_path (crash_row ''r1'' ''f'' 10 14) = ''app/a.py''"
    "ci_s3_key (crash_row ''r1'' ''f'' 10 14) = ''k''" by (simp_all add: crash_row_def)
  ultimately have "patch_body ?E mem crash_s3 True (\<lambda>_. []) crash_db crash_state ''app/a.py'' 12 idle_mem =
      (Inr (Patched [\<lparr>pt_file = JStr f, pt_search = ''pass'', pt_replace = JStr ''return 1''\<rparr>] (9/10) []), s2)"
    by (simp add: patch_body_def crash(3-5) crash_lookup row crash_file_not_excluded crash_file_fetched ask
        Let_def del: contains.simps)
  moreover have "le_dumps ?E = (\<lambda>_. [])" "le_latency ?E = 5" by (simp_all add: answering_def sample_env_of_def)
  ultimately show ?thesis
    by (simp add: patch_generator_invoke_def crash_state_event int_or_0_to_dict crash(1,2))
qed


lemma idle_can: "can_execute analyzer_breaker mem t idle_mem = (Inr True, idle_mem)"
  by (simp add: can_execute_def get_phase_def rbind_def rcatch_def rret_def mem_def mem_op_def idle_mem_def
      mem_view_def key_defs analyzer_breaker_def)

theorem fallback_never_patched_witness:
  "\<exists>u s2 reason. fix_generator_invoke (answering None) crash_state idle_mem = (Inr u, s2) \<and>
     patch_generator_invoke (answering None) mem crash_s3 True (\<lambda>_. []) crash_db (merge crash_state u) s2 =
       (Inr (patch_answer (le_dumps (answering None)) (le_latency (answering None)) (Skipped reason)), s2)"
proof -
  let ?E = "answering None"
  have "generate_with_truncation_retry (le_generate ?E) p = Inr \<lparr>rs_text = Inr ''answer}'', rs_usage = None\<rparr>"
    for p by (simp add: answering_def sample_env_of_def generate_with_truncation_retry_def)
  then have g: "guarded_fix ?E p idle_mem = ((''answer}'', Inl ValidationError), idle_mem)" for p
    by (simp add: guarded_fix_def answering_def sample_env_of_def idle_can read_fix_def)
  obtain i where i: "fix_input_of crash_state (to_dict crash_event) = Inr i"
    by (auto simp: fix_input_of_def int_or_0_to_dict)
  have "contains ''ValidationError'' (exn_name ValidationError)"
    by (simp add: ValidationError_def exn_name_def)
  then obtain u where u: "fix_generator_invoke ?E crash_state idle_mem = (Inr u, idle_mem)"
    "st_fix_fallback_used u = Some True"
    using i g by (auto simp: fix_generator_invoke_def crash_state_event note_failure_def fix_answer_def
        simp del: contains.simps)
  with fallback_never_patched [OF crash_state_event(1) u, of ?E mem crash_s3 True "\<lambda>_. []" crash_db idle_mem]
  show ?thesis by blast
qed

end
