(* ===== verification/Classifier.thy ===== *)
theory Classifier
  imports Agent_State
begin

text \<open>
  The first node of the pipeline, \<open>app/agents/nodes/classifier.py\<close>: the lookup tables of error types as the
  source lists them, the category with its security-first precedence, and the severity rules.
\<close>

subsection \<open>Tables\<close>

definition CRITICAL_ERROR_TYPES :: "string list" where
  "CRITICAL_ERROR_TYPES = [
     ''OutOfMemoryError'', ''OutOfMemoryException'', ''MemoryError'',
     ''StackOverflowError'', ''StackOverflowException'', ''SystemExit'', ''SystemError'',
     ''FatalError'', ''FatalExecutionEngineError'', ''PanicError'', ''KernelPanic'',
     ''RuntimePanic'', ''UnrecoverableError'', ''AssertionError'', ''Abort'', ''SIGSEGV'',
     ''SIGABRT'', ''SIGKILL'', ''CoreDumpError'', ''InternalError'',
     ''VirtualMachineError'', ''LinkageError'', ''NoClassDefFoundError'', ''ThreadDeath'',
     ''AccessViolationException'', ''AppDomainUnloadedException'',
     ''ExecutionEngineException'', ''BadImageFormatException'', ''GoPanic'',
     ''FatalGoroutineError'', ''RangeError'', ''UnhandledPromiseRejection'',
     ''FatalProcessOutOfMemoryError'', ''RustPanic'', ''UnwrapNoneError'',
     ''DiskFullError'', ''DataLossError'', ''IrrecoverableStateError'']"

definition HIGH_ERROR_TYPES :: "string list" where
  "HIGH_ERROR_TYPES = [
     ''NullPointerException'', ''NullReferenceException'', ''NullReferenceError'',
     ''NoneTypeError'', ''NullError'', ''DatabaseError'', ''OperationalError'',
     ''ConnectionRefusedError'', ''DeadlockError'', ''TransactionError'',
     ''IntegrityError'', ''DataCorruptionError'', ''PoolExhaustedError'',
     ''TooManyConnectionsError'', ''ReplicationLagError'', ''QueryTimeoutError'',
     ''LockWaitTimeoutError'', ''ConstraintViolationError'', ''ForeignKeyViolationError'',
     ''UniqueViolationError'', ''DuplicateKeyError'', ''MongoServerError'',
     ''RedisConnectionError'', ''RedisTimeoutError'', ''PaymentError'',
     ''PaymentDeclinedError'', ''AuthenticationError'', ''AuthorizationError'',
     ''PermissionError'', ''AccessDeniedException'', ''ForbiddenError'',
     ''UnauthorizedError'', ''TokenExpiredError'', ''InvalidTokenError'', ''JWTError'',
     ''JWTExpiredError'', ''TimeoutError'', ''ReadTimeoutError'', ''ConnectTimeoutError'',
     ''WriteTimeoutError'', ''GatewayTimeoutError'', ''ServiceUnavailableError'',
     ''CircuitBreakerOpenError'', ''DNSResolutionError'', ''SSLCertificateError'',
     ''SSLHandshakeError'', ''ConnectionResetError'', ''ConnectionAbortedError'',
     ''BrokenPipeError'', ''SocketTimeoutError'', ''TooManyRequestsError'',
     ''RateLimitExceededError'', ''AccessViolation'', ''SegmentationFault'',
     ''IOException'', ''DiskIOError'', ''FileSystemError'', ''OSError'', ''SQLException'',
     ''DataAccessException'', ''CannotAcquireLockException'', ''OptimisticLockException'',
     ''ConcurrentModificationException'', ''ECONNREFUSED'', ''ECONNRESET'', ''ETIMEDOUT'',
     ''EPIPE'', ''EADDRINUSE'', ''KafkaTimeoutError'', ''MessageBrokerUnavailableError'',
     ''QueueFullError'', ''ConsumerGroupRebalanceError'']"

definition MEDIUM_ERROR_TYPES :: "string list" where
  "MEDIUM_ERROR_TYPES = [
     ''ValueError'', ''KeyError'', ''IndexError'', ''AttributeError'', ''TypeError'',
     ''NotImplementedError'', ''ZeroDivisionError'', ''StopIteration'', ''RecursionError'',
     ''UnboundLocalError'', ''NameError'', ''ImportError'', ''ModuleNotFoundError'',
     ''LookupError'', ''OverflowError'', ''FileNotFoundError'', ''FileExistsError'',
     ''IsADirectoryError'', ''NotADirectoryError'', ''InvalidArgumentError'',
     ''BadRequestError'', ''ValidationError'', ''SerializationError'',
     ''DeserializationError'', ''ParseError'', ''FormatError'', ''SchemaValidationError'',
     ''TypeValidationError'', ''MissingFieldError'', ''UnexpectedFieldError'',
     ''EncodingError'', ''DecodingError'', ''JSONDecodeError'', ''XMLParseError'',
     ''YAMLParseError'', ''IllegalArgumentException'', ''IllegalStateException'',
     ''UnsupportedOperationException'', ''ClassCastException'', ''NumberFormatException'',
     ''StringIndexOutOfBoundsException'', ''ArrayIndexOutOfBoundsException'',
     ''IndexOutOfBoundsException'', ''NoSuchElementException'', ''NoSuchMethodException'',
     ''NoSuchFieldException'', ''ClassNotFoundException'', ''NegativeArraySizeException'',
     ''ArithmeticException'', ''EmptyStackException'', ''ArgumentException'',
     ''ArgumentNullException'', ''ArgumentOutOfRangeException'',
     ''InvalidOperationException'', ''InvalidCastException'', ''FormatException'',
     ''IndexOutOfRangeException'', ''KeyNotFoundException'', ''NotSupportedException'',
     ''DivideByZeroException'', ''SyntaxError'', ''ReferenceError'', ''TypeMismatchError'',
     ''ZodValidationError'', ''JoiValidationError'', ''NilPointerDereference'',
     ''IndexOutOfRange'', ''TypeAssertionError'', ''NoMethodError'', ''ArgumentError'',
     ''RuntimeError'', ''FrozenError'', ''UndefinedIndexError'', ''UndefinedVariableError'',
     ''UnwrapPanic'', ''IndexOutOfBoundsPanic'']"

definition NON_ACTIONABLE_LEVELS :: "string list" where
  "NON_ACTIONABLE_LEVELS = [
     ''debug'', ''trace'', ''info'', ''information'', ''verbose'', ''notice'', ''silly'',
     ''fine'', ''finer'', ''finest'']"

definition CODE_BUG_ERROR_TYPES :: "string list" where
  "CODE_BUG_ERROR_TYPES = MEDIUM_ERROR_TYPES @ [
     ''NullPointerException'', ''NullReferenceException'', ''NullReferenceError'',
     ''NoneTypeError'', ''NullError'', ''AttributeError'', ''AssertionError'',
     ''ZeroDivisionError'', ''ConcurrentModificationException'']"

definition DATABASE_ERROR_TYPES :: "string list" where
  "DATABASE_ERROR_TYPES = [
     ''DatabaseError'', ''OperationalError'', ''IntegrityError'', ''TransactionError'',
     ''DeadlockError'', ''DataCorruptionError'', ''PoolExhaustedError'',
     ''TooManyConnectionsError'', ''ReplicationLagError'', ''QueryTimeoutError'',
     ''LockWaitTimeoutError'', ''ConstraintViolationError'', ''ForeignKeyViolationError'',
     ''UniqueViolationError'', ''DuplicateKeyError'', ''MongoServerError'',
     ''RedisConnectionError'', ''RedisTimeoutError'', ''SQLException'',
     ''DataAccessException'', ''CannotAcquireLockException'', ''OptimisticLockException'',
     ''NoResultFound'', ''MultipleResultsFound'']"

definition INFRA_ERROR_TYPES :: "string list" where
  "INFRA_ERROR_TYPES = [
     ''OutOfMemoryError'', ''MemoryError'', ''SystemError'', ''SystemExit'',
     ''OutOfMemoryException'', ''KernelPanic'', ''RuntimePanic'', ''StackOverflowError'',
     ''StackOverflowException'', ''FatalError'', ''FatalExecutionEngineError'',
     ''InternalError'', ''VirtualMachineError'', ''ExecutionEngineException'',
     ''DiskFullError'', ''DiskIOError'', ''FileSystemError'', ''OSError'', ''GoPanic'',
     ''FatalGoroutineError'', ''RustPanic'', ''FatalProcessOutOfMemoryError'',
     ''CoreDumpError'', ''AppDomainUnloadedException'']"

definition EXTERNAL_DEPENDENCY_ERROR_TYPES :: "string list" where
  "EXTERNAL_DEPENDENCY_ERROR_TYPES = [
     ''TimeoutError'', ''ReadTimeoutError'', ''ConnectTimeoutError'', ''WriteTimeoutError'',
     ''GatewayTimeoutError'', ''ConnectionRefusedError'', ''ServiceUnavailableError'',
     ''CircuitBreakerOpenError'', ''DNSResolutionError'', ''SSLCertificateError'',
     ''SSLHandshakeError'', ''ConnectionResetError'', ''ConnectionAbortedError'',
     ''BrokenPipeError'', ''SocketTimeoutError'', ''TooManyRequestsError'',
     ''RateLimitExceededError'', ''ECONNREFUSED'', ''ECONNRESET'', ''ETIMEDOUT'', ''EPIPE'',
     ''EADDRINUSE'', ''KafkaTimeoutError'', ''MessageBrokerUnavailableError'',
     ''QueueFullError'', ''ConsumerGroupRebalanceError'']"

definition SECURITY_ERROR_TYPES :: "string list" where
  "SECURITY_ERROR_TYPES = [
     ''AuthenticationError'', ''AuthorizationError'', ''PermissionError'',
     ''AccessDeniedException'', ''ForbiddenError'', ''UnauthorizedError'',
     ''TokenExpiredError'', ''InvalidTokenError'', ''JWTError'', ''JWTExpiredError'',
     ''PaymentDeclinedError'']"

subsection \<open>The node\<close>

definition classify_category :: "string \<Rightarrow> string" where
  "classify_category error_type =
     (if error_type \<in> set SECURITY_ERROR_TYPES then ''security''
      else if error_type \<in> set DATABASE_ERROR_TYPES then ''database''
      else if error_type \<in> set INFRA_ERROR_TYPES then ''infra_config''
      else if error_type \<in> set EXTERNAL_DEPENDENCY_ERROR_TYPES then ''external_dependency''
      else if error_type \<in> set CODE_BUG_ERROR_TYPES then ''code_bug''
      else ''unknown'')"

definition classify_severity :: "string \<Rightarrow> string \<Rightarrow> string" where
  "classify_severity raw error_type =
     (if error_type \<in> set CRITICAL_ERROR_TYPES \<or> raw = ''critical'' then ''critical''
      else if error_type \<in> set HIGH_ERROR_TYPES \<or> raw = ''error'' then ''high''
      else if error_type \<in> set MEDIUM_ERROR_TYPES then ''medium''
      else if raw = ''warning'' \<or> raw = ''warn'' then ''low''
      else ''low'')"

definition classifier_invoke :: "int \<Rightarrow> agent_state \<Rightarrow> agent_state res" where
  "classifier_invoke latency st =
     (case st_parsed_event st of
        None \<Rightarrow> Inl (KeyError ''parsed_event'')
      | Some parsed \<Rightarrow>
          (let raw = strip (lower (str_of ''severity'' ''low'' parsed));
               error_type = strip (str_of ''error_type'' [] parsed);
               category = classify_category error_type
           in if raw \<in> set NON_ACTIONABLE_LEVELS
              then Inr (empty_state\<lparr>st_actionable := Some False, st_severity := Some raw,
                         st_error_category := Some category,
                         st_classifier_latency_ms := Some latency\<rparr>)
              else Inr (empty_state\<lparr>st_actionable := Some True,
                         st_severity := Some (classify_severity raw error_type),
                         st_error_category := Some category,
                         st_classifier_latency_ms := Some latency\<rparr>)))"

subsection \<open>Severities as an order\<close>

datatype level = Low | Medium | High | Critical

fun rank :: "level \<Rightarrow> nat" where
  "rank Low = 0" | "rank Medium = 1" | "rank High = 2" | "rank Critical = 3"

instantiation level :: linorder
begin

definition less_eq_level :: "level \<Rightarrow> level \<Rightarrow> bool" where
  "less_eq_level a b = (rank a \<le> rank b)"

definition less_level :: "level \<Rightarrow> level \<Rightarrow> bool" where
  "less_level a b = (rank a < rank b)"

instance
proof
  fix x y z :: level
  show "x < y \<longleftrightarrow> x \<le> y \<and> \<not> y \<le> x" by (auto simp: less_level_def less_eq_level_def)
  show "x \<le> x" by (simp add: less_eq_level_def)
  show "x \<le> y \<Longrightarrow> y \<le> z \<Longrightarrow> x \<le> z" by (simp add: less_eq_level_def)
  show "x \<le> y \<Longrightarrow> y \<le> x \<Longrightarrow> x = y" by (cases x; cases y) (simp_all add: less_eq_level_def)
  show "x \<le> y \<or> y \<le> x" by (auto simp: less_eq_level_def)
qed

end

definition level_name :: "level \<Rightarrow> string" where
  "level_name l = (case l of Low \<Rightarrow> ''low'' | Medium \<Rightarrow> ''medium'' | High \<Rightarrow> ''high'' | Critical \<Rightarrow> ''critical'')"

text \<open>The level the rules give, and the level a raw severity alone would give.\<close>

definition level_of_raw :: "string \<Rightarrow> level" where
  "level_of_raw raw = (if raw = ''critical'' then Critical else if raw = ''error'' then High else Low)"

definition level_of_type :: "string \<Rightarrow> level" where
  "level_of_type ty =
     (if ty \<in> set CRITICAL_ERROR_TYPES then Critical else if ty \<in> set HIGH_ERROR_TYPES then High
      else if ty \<in> set MEDIUM_ERROR_TYPES then Medium else Low)"

lemma level_simps [simp]:
  "max Critical l = Critical" "max l Critical = Critical" "max Low l = l" "max l Low = l"
  "max High Medium = High" "max Medium High = High"
  by (cases l; simp add: max_def less_eq_level_def)+

lemma level_name_inj [simp]: "level_name a = level_name b \<longleftrightarrow> a = b"
  by (cases a; cases b) (simp_all add: level_name_def)

text \<open>The five precedence rules compute a maximum: the severity of an
  actionable event is the higher of what its error type and what its log level stand for.  So a higher
  log level never lowers it, and a known type never makes it lower than its table says.\<close>

theorem classify_severity_is_max:
  "classify_severity raw ty = level_name (max (level_of_type ty) (level_of_raw raw))"
  by (auto simp: classify_severity_def level_of_type_def level_of_raw_def level_name_def max_def
                 less_eq_level_def)

end
