(* ===== verification/Playbook_Matcher.thy ===== *)
theory Playbook_Matcher
  imports Classifier
begin

text \<open>
  \<open>app/agents/nodes/playbook_matcher.py\<close> with the vector search of
  \<open>app/repositories/playbook_vector_repository.py\<close>.  The embedding model, the cosine distance and the JSON
  decoder of cached vectors are arguments; the search is the SQL query over \<open>playbook_embeddings\<close>.  The node
  asks the ORM class \<open>PlaybookSnapshot\<close> for a column \<open>is_active\<close>, which the class does not have.
\<close>

definition PLAYBOOK_MATCH_SCORE_THRESHOLD :: rat where
  "PLAYBOOK_MATCH_SCORE_THRESHOLD = 28/100"

definition build_query_embed_text :: "string \<Rightarrow> string \<Rightarrow> string \<Rightarrow> string \<Rightarrow> string" where
  "build_query_embed_text error_type stack_trace_summary service_name file_path =
     ''Error type: '' @ error_type @ '' | Service: '' @ service_name @ '' | File: '' @ file_path @
     '' | Stack: '' @ stack_trace_summary"

definition build_playbook_embed_text :: "string option \<Rightarrow> string option \<Rightarrow> string res" where
  "build_playbook_embed_text error_pattern instructions =
     (let p = strip (str_or error_pattern []); i = strip (str_or instructions []);
          parts = (if p \<noteq> [] then [''Error pattern: '' @ p] else []) @
                  (if i \<noteq> [] then [''Instructions: '' @ i] else [])
      in if parts = [] then Inl (ValueError ''Playbook has no content to embed'')
         else Inr (join '' | '' parts))"

text \<open>The nearest rows of the tenant below the threshold, nearest first.\<close>

definition search_similar_playbooks ::
  "(rat list \<Rightarrow> rat list \<Rightarrow> rat) \<Rightarrow> rat list \<Rightarrow> uuid \<Rightarrow> nat \<Rightarrow> rat \<Rightarrow> db2 \<Rightarrow> (uuid \<times> rat) list" where
  "search_similar_playbooks distance query_vector tenant_id top_k threshold db =
     take top_k (map (\<lambda>e. (em_playbook_id e, distance (em_embedding e) query_vector))
       (sort_key (\<lambda>e. distance (em_embedding e) query_vector)
         (filter (\<lambda>e. em_tenant_id e = tenant_id \<and> distance (em_embedding e) query_vector < threshold)
            (playbook_embeddings db))))"

text \<open>The embedding of the query, cached in Redis for a day; a cached text that does not decode is ignored.\<close>

definition get_query_embedding ::
  "'s redis \<Rightarrow> (string \<Rightarrow> string) \<Rightarrow> (string \<Rightarrow> rat list option) \<Rightarrow> (rat list \<Rightarrow> string) \<Rightarrow>
   (string \<Rightarrow> rat list res) \<Rightarrow> string \<Rightarrow> 's \<Rightarrow> rat list res \<times> 's" where
  "get_query_embedding R sha256 loads dumps model query s =
     (let key = ''embed:query:'' @ take 16 (sha256 query);
          fresh = (\<lambda>s. case model query of
                     Inl ex \<Rightarrow> (Inl ex, s)
                   | Inr v \<Rightarrow> (case r_setex R key 86400 (Text (dumps v)) s of
                                 (Inl ex, s') \<Rightarrow> (Inl ex, s') | (Inr _, s') \<Rightarrow> (Inr v, s')))
      in case r_get R key s of
           (Inl ex, s1) \<Rightarrow> (Inl ex, s1)
         | (Inr (Some (Text t)), s1) \<Rightarrow>
             (if t = [] then fresh s1 else case loads t of Some v \<Rightarrow> (Inr v, s1) | None \<Rightarrow> fresh s1)
         | (Inr _, s1) \<Rightarrow> fresh s1)"

text \<open>Attribute access on the ORM class.\<close>

definition playbook_columns :: "string list" where
  "playbook_columns = [''playbook_id'', ''tenant_id'', ''error_pattern'', ''instructions'',
     ''source_version'', ''synced_at'', ''tenant'']"

definition playbook_column :: "string \<Rightarrow> unit res" where
  "playbook_column c = (if c \<in> set playbook_columns then Inr () else Inl (AttributeError c))"

definition parse_uuid :: "string \<Rightarrow> uuid res" where
  "parse_uuid s = (case uuid_parse s of Some u \<Rightarrow> Inr u | None \<Rightarrow> Inl (ValueError ''badly formed UUID''))"

definition fetch_playbook :: "string \<Rightarrow> string \<Rightarrow> db2 \<Rightarrow> playbook_snapshot option res" where
  "fetch_playbook playbook_id tenant_id db =
     bind_res (parse_uuid playbook_id) (\<lambda>p.
     bind_res (parse_uuid tenant_id) (\<lambda>t.
     bind_res (playbook_column ''is_active'') (\<lambda>_.
       Inr (List.find (\<lambda>r. pb_playbook_id r = p \<and> pb_tenant_id r = t) (playbook_snapshots db)))))"

definition matcher_invoke ::
  "'s redis \<Rightarrow> (string \<Rightarrow> string) \<Rightarrow> (string \<Rightarrow> rat list option) \<Rightarrow> (rat list \<Rightarrow> string) \<Rightarrow>
   (string \<Rightarrow> rat list res) \<Rightarrow> (rat list \<Rightarrow> rat list \<Rightarrow> rat) \<Rightarrow> int \<Rightarrow> db2 \<Rightarrow> agent_state \<Rightarrow> 's \<Rightarrow>
   agent_state res \<times> 's" where
  "matcher_invoke R sha256 loads dumps model distance latency db st s =
     (let parsed = get_or (st_parsed_event st) (JObj []);
          tenant_id = get_or (st_tenant_id st) [];
          query = build_query_embed_text (str_of ''error_type'' [] parsed)
                    (str_of ''stack_trace_summary'' [] parsed) (str_of ''service_name'' [] parsed)
                    (str_of ''file_path'' [] parsed);
          answer = (\<lambda>pid ins. Inr (empty_state\<lparr>st_matched_playbook_id := pid,
                      st_playbook_instructions := ins, st_playbook_latency_ms := Some latency\<rparr>))
      in case get_query_embedding R sha256 loads dumps model query s of
           (Inl ex, s') \<Rightarrow> (answer None None, s')
         | (Inr qv, s') \<Rightarrow>
             (case search_similar_playbooks distance qv tenant_id 1 PLAYBOOK_MATCH_SCORE_THRESHOLD db of
                [] \<Rightarrow> (answer None None, s')
              | (pid, _) # _ \<Rightarrow>
                  (case fetch_playbook pid tenant_id db of
                     Inl ex \<Rightarrow> (answer (Some pid) None, s')
                   | Inr (Some r) \<Rightarrow> (answer (Some pid) (Some (str_or (pb_instructions r) [])), s')
                   | Inr None \<Rightarrow> (answer None None, s'))))"

lemma fetch_playbook_fails: "\<exists>ex. fetch_playbook p t db = Inl ex"
  by (cases "parse_uuid p"; cases "parse_uuid t")
     (auto simp: fetch_playbook_def playbook_column_def playbook_columns_def)

text \<open>The playbook is the tenant's nearest to some query, and near enough.\<close>

definition nearest_playbook ::
  "(rat list \<Rightarrow> rat list \<Rightarrow> rat) \<Rightarrow> rat \<Rightarrow> db2 \<Rightarrow> uuid \<Rightarrow> rat list \<Rightarrow> uuid \<Rightarrow> bool" where
  "nearest_playbook distance th db t qv pid \<longleftrightarrow>
     (\<exists>e \<in> set (playbook_embeddings db). em_playbook_id e = pid \<and> em_tenant_id e = t \<and>
        distance (em_embedding e) qv < th \<and>
        (\<forall>e' \<in> set (playbook_embeddings db). em_tenant_id e' = t \<longrightarrow>
           distance (em_embedding e) qv \<le> distance (em_embedding e') qv))"

lemma search_head:
  assumes "search_similar_playbooks distance qv t 1 th db = (pid, d) # rest"
  shows "nearest_playbook distance th db t qv pid"
proof -
  define g where "g = (\<lambda>e :: playbook_embedding. distance (em_embedding e) qv)"
  define xs where "xs = filter (\<lambda>e. em_tenant_id e = t \<and> g e < th) (playbook_embeddings db)"
  have search: "take 1 (map (\<lambda>e. (em_playbook_id e, g e)) (sort_key g xs)) = (pid, d) # rest"
    using assms by (simp add: search_similar_playbooks_def g_def xs_def)
  then obtain e es where srt: "sort_key g xs = e # es" "em_playbook_id e = pid"
    by (cases "sort_key g xs") auto
  have "set (e # es) = set xs" using srt(1) by (metis set_sort)
  moreover have "\<forall>e' \<in> set es. g e \<le> g e'"
    using sorted_sort_key [of g xs] srt(1) by simp
  ultimately have e: "e \<in> set xs" "\<forall>e' \<in> set xs. g e \<le> g e'" by auto
  have "g e \<le> g e'" if "e' \<in> set (playbook_embeddings db)" "em_tenant_id e' = t" for e'
    using e that by (cases "g e' < th") (auto simp: xs_def)
  with e srt(2) show ?thesis
    by (auto simp: nearest_playbook_def xs_def g_def intro!: bexI [of _ e])
qed

lemma matcher_returns:
  "\<exists>u s'. matcher_invoke R sha256 loads dumps model distance latency db st s = (Inr u, s') \<and>
     st_playbook_instructions u = None \<and>
     (case st_matched_playbook_id u of
        None \<Rightarrow> True
      | Some pid \<Rightarrow> \<exists>qv. nearest_playbook distance PLAYBOOK_MATCH_SCORE_THRESHOLD db
                        (get_or (st_tenant_id st) []) qv pid)"
proof -
  obtain ans s' where q: "get_query_embedding R sha256 loads dumps model (build_query_embed_text
      (str_of ''error_type'' [] (get_or (st_parsed_event st) (JObj [])))
      (str_of ''stack_trace_summary'' [] (get_or (st_parsed_event st) (JObj [])))
      (str_of ''service_name'' [] (get_or (st_parsed_event st) (JObj [])))
      (str_of ''file_path'' [] (get_or (st_parsed_event st) (JObj [])))) s = (ans, s')"
    by fastforce
  show ?thesis
  proof (cases ans)
    case (Inl ex)
    with q show ?thesis by (simp add: matcher_invoke_def Let_def)
  next
    case (Inr qv)
    let ?t = "get_or (st_tenant_id st) []"
    show ?thesis
    proof (cases "search_similar_playbooks distance qv ?t 1 PLAYBOOK_MATCH_SCORE_THRESHOLD db")
      case Nil
      with q Inr show ?thesis by (simp add: matcher_invoke_def Let_def)
    next
      case (Cons row rest)
      obtain pid d where row: "row = (pid, d)" by (cases row)
      obtain ex where "fetch_playbook pid ?t db = Inl ex" using fetch_playbook_fails by blast
      then have "matcher_invoke R sha256 loads dumps model distance latency db st s =
          (Inr (empty_state\<lparr>st_matched_playbook_id := Some pid, st_playbook_instructions := None,
             st_playbook_latency_ms := Some latency\<rparr>), s')"
        using q Inr Cons row by (simp add: matcher_invoke_def Let_def)
      with search_head [OF Cons [unfolded row]] show ?thesis by auto
    qed
  qed
qed

text \<open>No playbook's instructions ever reach the analyzer: whatever is stored, the
  node leaves \<open>playbook_instructions\<close> unset.  Yet it reports a match, the nearest playbook of the tenant below
  the distance threshold, whenever the search finds one, and never raises.\<close>

theorem matcher_never_instructs:
  "\<exists>u s'. matcher_invoke R sha256 loads dumps model distance latency db st s = (Inr u, s') \<and>
     st_playbook_instructions u = None \<and>
     (case st_matched_playbook_id u of
        None \<Rightarrow> True
      | Some pid \<Rightarrow> \<exists>qv. nearest_playbook distance PLAYBOOK_MATCH_SCORE_THRESHOLD db
                        (get_or (st_tenant_id st) []) qv pid)"
  by (rule matcher_returns)

end
