(* ===== verification/Scorer.thy ===== *)
theory Scorer
  imports Agent_State
begin

text \<open>
  \<open>app/agents/nodes/confidence_scorer.py\<close> and \<open>action_decision.py\<close>: the composite confidence and the
  choice between an incident and a draft.  The JSON decoder is an argument, \<open>None\<close> for a text it
  refuses.  The minimum over the thresholds is PostgreSQL's over a text column, so it is lexicographic.
\<close>

subsection \<open>Sub-signals\<close>

definition compute_retrieval_score :: "int \<Rightarrow> bool \<Rightarrow> rat" where
  "compute_retrieval_score symbols_retrieved has_code_context =
     (if \<not> has_code_context \<or> symbols_retrieved = 0 then 0
      else if symbols_retrieved = 1 then 1/2
      else if symbols_retrieved = 2 then 3/4
      else 1)"

text \<open>The analyzer's own confidence; only a decoded value that is no object escapes the handlers.\<close>

definition model_confidence :: "(string \<Rightarrow> json option) \<Rightarrow> string \<Rightarrow> rat option res" where
  "model_confidence loads raw =
     (if raw = [] then Inr None
      else case loads raw of
             None \<Rightarrow> Inr None
           | Some (JObj kvs) \<Rightarrow>
               Inr (map_option clamp01 (json_float (jget ''root_cause_confidence'' (JObj kvs))))
           | Some _ \<Rightarrow> Inl (AttributeError ''get''))"

definition blend :: "bool \<Rightarrow> rat \<Rightarrow> rat \<Rightarrow> rat" where
  "blend fix_fallback fix_confidence base =
     (if fix_fallback then max 0 (base - 15/100)
      else if 0 < fix_confidence then base * (7/10) + fix_confidence * (3/10)
      else base)"

definition compute_coherence_score ::
  "(string \<Rightarrow> json option) \<Rightarrow> bool \<Rightarrow> bool \<Rightarrow> rat \<Rightarrow> string \<Rightarrow> rat res" where
  "compute_coherence_score loads analyzer_fallback fix_fallback fix_confidence raw =
     (if analyzer_fallback then Inr (3/10)
      else bind_res (model_confidence loads raw) (\<lambda>c.
             Inr (round4 (blend fix_fallback fix_confidence (get_or c (8/10))))))"

definition compute_coverage_score :: "bool \<Rightarrow> bool \<Rightarrow> bool \<Rightarrow> rat" where
  "compute_coverage_score has_code_context has_playbook has_stack_frames =
     min 1 (round4 ((if has_code_context then 4/10 else 0) + (if has_playbook then 3/10 else 0) +
                    (if has_stack_frames then 3/10 else 0)))"

definition composite :: "rat \<Rightarrow> rat \<Rightarrow> rat \<Rightarrow> rat" where
  "composite retrieval coherence coverage =
     round4 (clamp01 (retrieval * (35/100) + coherence * (45/100) + coverage * (20/100)))"

text \<open>\<open>int(meta.get(k) or 0)\<close> of the retriever's metadata, which holds integers.\<close>

definition meta_int :: "string \<Rightarrow> json option \<Rightarrow> int" where
  "meta_int k m = (case m of Some d \<Rightarrow> get_or (jint (jget k d)) 0 | None \<Rightarrow> 0)"

definition has_frames :: "json option \<Rightarrow> bool" where
  "has_frames parsed = (case parsed of Some d \<Rightarrow> truthy (jget ''stack_frames'' d) | None \<Rightarrow> False)"

definition scorer_invoke :: "(string \<Rightarrow> json option) \<Rightarrow> int \<Rightarrow> agent_state \<Rightarrow> agent_state res" where
  "scorer_invoke loads latency st =
     (let has_code = strip (str_or (st_code_context st) []) \<noteq> [];
          retrieval = compute_retrieval_score (meta_int ''symbols_retrieved'' (st_code_retriever_meta st))
                        has_code;
          coverage = compute_coverage_score has_code (st_matched_playbook_id st \<noteq> None)
                       (has_frames (st_parsed_event st))
      in bind_res (compute_coherence_score loads (get_or (st_analyzer_fallback_used st) False)
             (get_or (st_fix_fallback_used st) False) (get_or (st_fix_confidence st) 0)
             (str_or (st_raw_analysis_output st) []))
           (\<lambda>coherence. Inr (empty_state\<lparr>
              st_confidence_score := Some (composite retrieval coherence coverage),
              st_retrieval_score := Some retrieval, st_coherence_score := Some coherence,
              st_scorer_latency_ms := Some latency\<rparr>)))"

subsection \<open>The decision\<close>

definition DEFAULT_THRESHOLD :: rat where
  "DEFAULT_THRESHOLD = 7/10"

text \<open>Texts in the order of their character codes.\<close>

fun str_le :: "string \<Rightarrow> string \<Rightarrow> bool" where
  "str_le [] t = True"
| "str_le (x # s) [] = False"
| "str_le (x # s) (y # t) =
     (if x = y then str_le s t else (of_char x :: nat) < of_char y)"

fun str_min :: "string list \<Rightarrow> string option" where
  "str_min [] = None"
| "str_min (s # ss) = (case str_min ss of None \<Rightarrow> Some s | Some t \<Rightarrow> Some (if str_le s t then s else t))"

definition tenant_thresholds :: "uuid \<Rightarrow> db2 \<Rightarrow> string list" where
  "tenant_thresholds tenant db =
     List.map_filter (\<lambda>r. if ar_tenant_id r = tenant \<and> ar_enabled r then ar_confidence_threshold r
                          else None) (alert_rule_snapshots db)"

text \<open>A query that fails and a text that is no number both fall back to the default.\<close>

definition fetch_tenant_threshold :: "bool \<Rightarrow> db2 \<Rightarrow> string \<Rightarrow> rat" where
  "fetch_tenant_threshold db_ok db tenant_id =
     (if tenant_id = [] then DEFAULT_THRESHOLD
      else case uuid_parse tenant_id of
             None \<Rightarrow> DEFAULT_THRESHOLD
           | Some tenant \<Rightarrow>
               if \<not> db_ok then DEFAULT_THRESHOLD
               else case str_min (tenant_thresholds tenant db) of
                      None \<Rightarrow> DEFAULT_THRESHOLD
                    | Some s \<Rightarrow> (case float_of_string s of None \<Rightarrow> DEFAULT_THRESHOLD
                                 | Some q \<Rightarrow> clamp01 q))"

definition action_decision_invoke :: "bool \<Rightarrow> db2 \<Rightarrow> agent_state \<Rightarrow> agent_state res" where
  "action_decision_invoke db_ok db st =
     (let score = get_or (st_confidence_score st) 0;
          category = str_or (st_error_category st) ''unknown'';
          threshold = fetch_tenant_threshold db_ok db (get_or (st_tenant_id st) []);
          action = (if category = ''security'' then ''store_draft''
                    else if threshold \<le> score then ''create_incident''
                    else ''store_draft'')
      in Inr (empty_state\<lparr>st_action := Some action, st_confidence_threshold := Some threshold\<rparr>))"

subsection \<open>Bounds\<close>

lemma retrieval_bounds: "0 \<le> compute_retrieval_score n h" "compute_retrieval_score n h \<le> 1"
  by (auto simp: compute_retrieval_score_def)

lemma coverage_eq:
  "compute_coverage_score a b c =
     (if a then 4/10 else 0) + (if b then 3/10 else 0) + (if c then 3/10 else 0)"
  by (cases a; cases b; cases c)
     (simp_all add: compute_coverage_score_def round4_def round_half_even_def Let_def)

lemma blend_bounds:
  assumes "0 \<le> b" "b \<le> 1" "f \<le> 1"
  shows "0 \<le> blend ff f b" "blend ff f b \<le> 1"
  using assms by (auto simp: blend_def max_def)

lemma model_confidence_bounds:
  assumes "model_confidence loads raw = Inr (Some c)" shows "0 \<le> c \<and> c \<le> 1"
  using assms clamp01_bounds
  by (auto simp: model_confidence_def split: if_splits option.splits json.splits)

lemma coherence_bounds:
  assumes "compute_coherence_score loads af ff f raw = Inr c" "f \<le> 1"
  shows "0 \<le> c \<and> c \<le> 1"
proof (cases af)
  case True
  with assms show ?thesis by (simp add: compute_coherence_score_def)
next
  case False
  with assms(1) obtain m where m: "model_confidence loads raw = Inr m"
      "c = round4 (blend ff f (get_or m (8/10)))"
    by (auto simp: compute_coherence_score_def bind_res_eq_Inr)
  have "0 \<le> get_or m (8/10) \<and> get_or m (8/10) \<le> 1"
    using model_confidence_bounds m(1) by (cases m) auto
  with blend_bounds [of "get_or m (8/10)" f ff] assms(2) show ?thesis
    unfolding m(2) by (intro round4_bounds) auto
qed

lemma composite_bounds: "0 \<le> composite r c v \<and> composite r c v \<le> 1"
  unfolding composite_def by (intro round4_bounds clamp01_bounds)

lemma composite_le:
  assumes "r * (35/100) + c * (45/100) + v * (20/100) \<le> of_int k / 10000" "0 \<le> k" "k \<le> 10000"
  shows "composite r c v \<le> of_int k / 10000"
proof -
  have "clamp01 (r * (35/100) + c * (45/100) + v * (20/100)) \<le> clamp01 (of_int k / 10000)"
    using assms(1) by (rule clamp01_mono)
  also have "\<dots> = of_int k / 10000" using assms(2,3) by (intro clamp01_id) auto
  finally have "composite r c v \<le> round4 (of_int k / 10000)" unfolding composite_def by (rule round4_mono)
  also have "\<dots> = of_int k / 10000" by (simp add: round4_def)
  finally show ?thesis .
qed

text \<open>An analysis that came from the analyzer's fallback, or that saw no code, is
  never promoted on a tenant whose threshold is at least the default 0.70, however confident the other
  signals are: its composite score stays below 0.70.\<close>

theorem unsupported_is_draft:
  assumes "scorer_invoke loads l st = Inr u"
    and "get_or (st_fix_confidence st) 0 \<le> 1"
    and "get_or (st_analyzer_fallback_used st) False \<or> strip (str_or (st_code_context st) []) = []"
    and "DEFAULT_THRESHOLD \<le> fetch_tenant_threshold db_ok db (get_or (st_tenant_id st) [])"
  shows "action_decision_invoke db_ok db (merge st u) = Inr v \<Longrightarrow> st_action v = Some ''store_draft''"
proof -
  define has where "has = (strip (str_or (st_code_context st) []) \<noteq> [])"
  define r where "r = compute_retrieval_score (meta_int ''symbols_retrieved'' (st_code_retriever_meta st)) has"
  define v where "v = compute_coverage_score has (st_matched_playbook_id st \<noteq> None)
                        (has_frames (st_parsed_event st))"
  from assms(1) obtain c where
    c: "compute_coherence_score loads (get_or (st_analyzer_fallback_used st) False)
          (get_or (st_fix_fallback_used st) False) (get_or (st_fix_confidence st) 0)
          (str_or (st_raw_analysis_output st) []) = Inr c"
    and u: "st_confidence_score u = Some (composite r c v)" "st_tenant_id u = None"
    by (auto simp: scorer_invoke_def Let_def bind_res_eq_Inr r_def v_def has_def)
  have r: "0 \<le> r" "r \<le> 1" "\<not> has \<longrightarrow> r = 0" by (auto simp: r_def compute_retrieval_score_def)
  have v: "v \<le> 1" "\<not> has \<longrightarrow> v \<le> 6/10" by (auto simp: v_def coverage_eq)
  have c1: "0 \<le> c" "c \<le> 1" using coherence_bounds [OF c assms(2)] by auto
  have "composite r c v \<le> of_int 6850 / 10000"
  proof (cases "get_or (st_analyzer_fallback_used st) False")
    case True
    with c have "c = 3/10" by (simp add: compute_coherence_score_def)
    with r v show ?thesis by (intro composite_le) simp_all
  next
    case False
    with assms(3) have "\<not> has" by (simp add: has_def)
    with r v c1 show ?thesis by (intro composite_le) simp_all
  qed
  then have "composite r c v < DEFAULT_THRESHOLD" by (simp add: DEFAULT_THRESHOLD_def)
  with assms(4) u show "action_decision_invoke db_ok db (merge st u) = Inr w \<Longrightarrow>
      st_action w = Some ''store_draft''" for w
    by (auto simp: action_decision_invoke_def Let_def)
qed

lemma unsupported_is_draft_witness:
  "(case scorer_invoke (\<lambda>_. None) 1 (empty_state\<lparr>st_analyzer_fallback_used := Some True\<rparr>) of
      Inr u \<Rightarrow> \<forall>v. action_decision_invoke True (empty_db2 True)
         (merge (empty_state\<lparr>st_analyzer_fallback_used := Some True\<rparr>) u) = Inr v \<longrightarrow>
         st_action v = Some ''store_draft''
    | Inl ex \<Rightarrow> False)"
proof -
  let ?st = "empty_state\<lparr>st_analyzer_fallback_used := Some True\<rparr>"
  obtain u where u: "scorer_invoke (\<lambda>_. None) 1 ?st = Inr u"
    by (simp add: scorer_invoke_def Let_def compute_coherence_score_def)
  have "DEFAULT_THRESHOLD \<le> fetch_tenant_threshold True (empty_db2 True) (get_or (st_tenant_id ?st) [])"
    by (simp add: fetch_tenant_threshold_def)
  from unsupported_is_draft [OF u _ _ this] show ?thesis by (simp add: u)
qed

subsection \<open>The minimum over texts\<close>

text \<open>Texts like \<open>0.75\<close>: one digit, a point, digits; what \<open>str\<close> writes for the usual thresholds.\<close>

definition fixed_point :: "string \<Rightarrow> bool" where
  "fixed_point s = (case s of d # p # ds \<Rightarrow> is_digit d \<and> p = CHR ''.'' \<and> ds \<noteq> [] \<and> list_all is_digit ds
                    | _ \<Rightarrow> False)"

fun frac :: "string \<Rightarrow> rat" where
  "frac [] = 0"
| "frac (d # ds) = (of_nat (digit_val d) + frac ds) / 10"

lemma digits_val_Cons: "digits_val (d # ds) = digit_val d * 10 ^ length ds + digits_val ds"
proof -
  have gen: "foldl (\<lambda>a c. 10 * a + digit_val c) a ds = a * 10 ^ length ds + digits_val ds" for a
  proof (induction ds arbitrary: a)
    case (Cons x xs)
    show ?case
      using Cons [of "10 * a + digit_val x"] Cons [of "digit_val x"]
      by (simp add: digits_val_def algebra_simps)
  qed (simp add: digits_val_def)
  show ?thesis using gen [of "digit_val d"] by (simp add: digits_val_def)
qed

lemma frac_eq: "frac ds = of_nat (digits_val ds) / 10 ^ length ds"
  by (induction ds) (simp_all add: digits_val_Cons field_simps digits_val_def [of "[]"])

lemma digit_val_le: "is_digit c \<Longrightarrow> digit_val c \<le> 9"
  by (auto simp: is_digit_def digit_val_def)

lemma frac_bounds: "list_all is_digit ds \<Longrightarrow> 0 \<le> frac ds \<and> frac ds < 1"
proof (induction ds)
  case (Cons d ds)
  then have "of_nat (digit_val d) \<le> (9 :: rat)" using digit_val_le [of d] by simp
  with Cons show ?case by simp
qed simp

lemma digit_val_less:
  "is_digit c \<Longrightarrow> is_digit d \<Longrightarrow> (of_char c :: nat) < of_char d \<Longrightarrow> digit_val c + 1 \<le> digit_val d"
  by (auto simp: is_digit_def digit_val_def)

lemma frac_mono:
  "list_all is_digit s \<Longrightarrow> list_all is_digit t \<Longrightarrow> str_le s t \<Longrightarrow> frac s \<le> frac t"
proof (induction s t rule: str_le.induct)
  case (1 t)
  then show ?case using frac_bounds [of t] by simp
next
  case (3 x s y t)
  show ?case
  proof (cases "x = y")
    case True
    with 3 show ?thesis by (simp add: divide_right_mono)
  next
    case False
    with 3 have "of_nat (digit_val x + 1) \<le> (of_nat (digit_val y) :: rat)"
      using digit_val_less [of x y] by (simp only: of_nat_le_iff) simp
    moreover have "frac s < 1" "0 \<le> frac t" using 3 frac_bounds by auto
    ultimately show ?thesis by simp
  qed
qed simp

lemma lower_digit: "is_digit c \<Longrightarrow> lower_char c = c \<and> \<not> is_space c \<and> c \<noteq> CHR ''e'' \<and> c \<noteq> CHR ''-'' \<and>
    c \<noteq> CHR ''+'' \<and> c \<noteq> CHR ''.''"
  by (auto simp: is_digit_def lower_char_def is_space_def)

lemma strip_ends:
  assumes "s \<noteq> []" "\<not> is_space (hd s)" "\<not> is_space (last s)" shows "strip s = s"
proof -
  have "dropWhile is_space s = s" using assms(1,2) by (cases s) auto
  moreover have "dropWhile is_space (rev s) = rev s"
    using assms(1,3) by (cases "rev s") (auto simp: last_rev [symmetric] hd_rev)
  ultimately show ?thesis by (simp add: strip_def)
qed

lemma float_of_fixed_point:
  assumes "is_digit d" "ds \<noteq> []" "list_all is_digit ds"
  shows "float_of_string (d # CHR ''.'' # ds) = Some (of_nat (digit_val d) + frac ds)"
proof -
  let ?s = "d # CHR ''.'' # ds"
  have "is_digit (last ds)" using assms(2,3) by (simp add: list_all_iff)
  then have st: "strip ?s = ?s" using assms lower_digit by (intro strip_ends) auto
  have "map lower_char ds = ds" using assms(3) lower_digit by (auto simp: list_all_iff intro!: map_idI)
  then have lo: "lower ?s = ?s" using assms(1) lower_digit by (simp add: lower_def) (simp add: lower_char_def)
  have noe: "\<forall>c \<in> set ?s. c \<noteq> CHR ''e''" using assms lower_digit by (auto simp: list_all_iff)
  have tw: "takeWhile (\<lambda>c. c \<noteq> CHR ''e'') ?s = ?s" "dropWhile (\<lambda>c. c \<noteq> CHR ''e'') ?s = []"
    using noe by (simp_all only: takeWhile_eq_all_conv dropWhile_eq_Nil_conv)
  have dot: "\<not> is_digit (CHR ''.'')" by (simp add: is_digit_def)
  have ip: "takeWhile is_digit ?s = [d]" "dropWhile is_digit ?s = CHR ''.'' # ds"
    using assms(1) dot by simp_all
  have "decimal ?s = Some (of_nat (digit_val d) + frac ds)"
    using assms(3) by (simp only: decimal_def Let_def ip) (simp add: digits_val_def [of "[d]"] frac_eq)
  moreover have "(case ?s of CHR ''-'' # r \<Rightarrow> (True, r) | CHR ''+'' # r \<Rightarrow> (False, r)
      | _ \<Rightarrow> (False, ?s)) = (False, ?s)"
    using assms(1) by (auto simp: is_digit_def)
  ultimately show ?thesis
    by (simp only: float_of_string_def Let_def st lo prod.case tw list.case option.case)
       (simp add: scale10_def)
qed

lemma str_le_refl [simp]: "str_le s s"
  by (induction s) auto

lemma str_le_trans: "str_le s t \<Longrightarrow> str_le t u \<Longrightarrow> str_le s u"
proof (induction s t arbitrary: u rule: str_le.induct)
  case (3 x s y t)
  then show ?case by (cases u) (auto split: if_splits)
qed auto

lemma str_le_total: "str_le s t \<or> str_le t s"
proof (induction s t rule: str_le.induct)
  case (3 x s y t)
  have "of_char x < (of_char y :: nat) \<or> of_char y < (of_char x :: nat)" if "x \<noteq> y"
    using that by (metis linorder_neqE_nat of_char_eq_iff)
  with 3 show ?case by auto
qed auto

lemma str_min_least:
  "str_min ss = Some m \<Longrightarrow> m \<in> set ss \<and> (\<forall>s \<in> set ss. str_le m s)"
proof (induction ss arbitrary: m)
  case (Cons s ss)
  show ?case
  proof (cases "str_min ss")
    case None
    then have "ss = []" by (cases ss) (auto split: option.splits)
    with Cons.prems show ?thesis by simp
  next
    case (Some t)
    with Cons.IH have t: "t \<in> set ss" "\<forall>u \<in> set ss. str_le t u" by auto
    from Cons.prems Some have m: "m = (if str_le s t then s else t)" by simp
    show ?thesis
    proof (cases "str_le s t")
      case True
      with m t show ?thesis using str_le_trans by auto
    next
      case False
      with m t show ?thesis using str_le_total [of s t] by auto
    qed
  qed
qed simp

lemma str_min_None: "str_min ss = None \<longleftrightarrow> ss = []"
  by (cases ss) (auto split: option.splits)

lemma fixed_pointE:
  assumes "fixed_point s"
  obtains d ds where "s = d # CHR ''.'' # ds" "is_digit d" "ds \<noteq> []" "list_all is_digit ds"
  using assms by (auto simp: fixed_point_def split: list.splits)

lemma fixed_point_mono:
  assumes "fixed_point s" "fixed_point t" "str_le s t"
  shows "the (float_of_string s) \<le> the (float_of_string t)"
proof -
  from assms obtain d ds e es where
    s: "s = d # CHR ''.'' # ds" "is_digit d" "ds \<noteq> []" "list_all is_digit ds" and
    t: "t = e # CHR ''.'' # es" "is_digit e" "es \<noteq> []" "list_all is_digit es"
    by (elim fixed_pointE) blast
  have bounds: "frac ds < 1" "0 \<le> frac es" using frac_bounds s(4) t(4) by auto
  show ?thesis
  proof (cases "d = e")
    case True
    with assms(3) have "frac ds \<le> frac es" using frac_mono s t by simp
    with True show ?thesis by (simp add: s(1) t(1) float_of_fixed_point s(2-4) t(2-4))
  next
    case False
    with assms(3) s(1) t(1) have "of_nat (digit_val d + 1) \<le> (of_nat (digit_val e) :: rat)"
      using digit_val_less [OF s(2) t(2)] by (simp only: of_nat_le_iff) simp
    with bounds show ?thesis by (simp add: s(1) t(1) float_of_fixed_point s(2-4) t(2-4))
  qed
qed

text \<open>The threshold applied to a tenant is the least of its enabled rules'
  thresholds (clamped to the unit interval), although the database compares them as texts, as long as
  they are all written in the fixed-point form \<open>d.ddd\<close>.\<close>

theorem threshold_is_minimum:
  assumes "uuid_parse tenant_id = Some tenant" and "tenant_id \<noteq> []"
    and "tenant_thresholds tenant db \<noteq> []"
    and "\<forall>s \<in> set (tenant_thresholds tenant db). fixed_point s"
  shows "(\<exists>s \<in> set (tenant_thresholds tenant db).
            fetch_tenant_threshold True db tenant_id = clamp01 (the (float_of_string s))) \<and>
         (\<forall>t \<in> set (tenant_thresholds tenant db).
            fetch_tenant_threshold True db tenant_id \<le> clamp01 (the (float_of_string t)))"
proof -
  obtain m where m: "str_min (tenant_thresholds tenant db) = Some m"
    using assms(3) str_min_None by (cases "str_min (tenant_thresholds tenant db)") auto
  note least = str_min_least [OF m]
  then have "fixed_point m" using assms(4) by blast
  then obtain q where q: "float_of_string m = Some q"
    by (elim fixed_pointE) (auto simp: float_of_fixed_point)
  have eq: "fetch_tenant_threshold True db tenant_id = clamp01 (the (float_of_string m))"
    using assms(1,2) m q by (simp add: fetch_tenant_threshold_def)
  have "clamp01 (the (float_of_string m)) \<le> clamp01 (the (float_of_string t))"
    if "t \<in> set (tenant_thresholds tenant db)" for t
    using that least assms(4) \<open>fixed_point m\<close> by (intro clamp01_mono fixed_point_mono) auto
  with eq least show ?thesis by auto
qed

definition threshold_rule :: "uuid \<Rightarrow> string \<Rightarrow> string \<Rightarrow> alert_rule_snapshot" where
  "threshold_rule tenant i th = \<lparr>ar_rule_id = i, ar_tenant_id = tenant,
     ar_confidence_threshold = Some th, ar_severity_filter = Some [''high''],
     ar_destinations = Some (JArr []), ar_enabled = True, ar_source_version = Some 1\<rparr>"

definition threshold_tenant :: uuid where
  "threshold_tenant = ''0a000000-0000-4000-8000-00000000000a''"

lemma threshold_tenant_uuid: "uuid_parse threshold_tenant = Some threshold_tenant"
  by code_simp

lemma threshold_is_minimum_witness:
  "fetch_tenant_threshold True ((empty_db2 True)\<lparr>alert_rule_snapshots :=
      [threshold_rule threshold_tenant ''r1'' ''0.75'', threshold_rule threshold_tenant ''r2'' ''0.6'']\<rparr>)
      threshold_tenant \<le> clamp01 (the (float_of_string ''0.6''))"
proof -
  let ?db = "(empty_db2 True)\<lparr>alert_rule_snapshots :=
      [threshold_rule threshold_tenant ''r1'' ''0.75'', threshold_rule threshold_tenant ''r2'' ''0.6'']\<rparr>"
  have ts: "tenant_thresholds threshold_tenant ?db = [''0.75'', ''0.6'']"
    by (simp add: tenant_thresholds_def threshold_rule_def map_filter_simps)
  have "threshold_tenant \<noteq> []" by (simp add: threshold_tenant_def)
  moreover have "tenant_thresholds threshold_tenant ?db \<noteq> []" by (simp add: ts)
  moreover have "\<forall>s \<in> set (tenant_thresholds threshold_tenant ?db). fixed_point s"
    by (simp add: ts fixed_point_def is_digit_def)
  ultimately have "\<forall>t \<in> set (tenant_thresholds threshold_tenant ?db).
      fetch_tenant_threshold True ?db threshold_tenant \<le> clamp01 (the (float_of_string t))"
    by (rule conjunct2 [OF threshold_is_minimum [OF threshold_tenant_uuid]])
  then show ?thesis by (simp add: ts)
qed

text \<open>Scientific notation, which \<open>str\<close> uses for small floats, breaks the order of the texts.\<close>

lemma text_minimum_misses_small:
  "str_min [''0.7'', ''1e-05''] = Some ''0.7'' \<and> float_of_string ''1e-05'' = Some (1 / 100000)"
  by code_simp

end
