(* ===== verification/Workflow.thy ===== *)
theory Workflow
  imports Patch_Generator Playbook_Matcher Scorer
begin

text \<open>
  \<open>app/agents/workflow.py\<close>: the graph of the eight nodes, as data, built by the calls the source makes.
  LangGraph itself is not part of the repository; the locale \<open>graph_engine\<close> states what its documentation
  says of an invocation, and the engine at the end, a loop that follows the edges, satisfies it.
\<close>

type_synonym 's node = "agent_state \<Rightarrow> 's \<Rightarrow> agent_state res \<times> 's"

definition END :: string where
  "END = ''__end__''"

record 's graph =
  g_nodes :: "(string \<times> 's node) list"
  g_entry :: string
  g_edges :: "(string \<times> string) list"
  g_conditional :: "(string \<times> (agent_state \<Rightarrow> string) \<times> (string \<times> string) list) list"

definition StateGraph :: "'s graph" where
  "StateGraph = \<lparr>g_nodes = [], g_entry = [], g_edges = [], g_conditional = []\<rparr>"

definition add_node :: "string \<Rightarrow> 's node \<Rightarrow> 's graph \<Rightarrow> 's graph" where
  "add_node n f g = g\<lparr>g_nodes := (n, f) # g_nodes g\<rparr>"

definition set_entry_point :: "string \<Rightarrow> 's graph \<Rightarrow> 's graph" where
  "set_entry_point n g = g\<lparr>g_entry := n\<rparr>"

definition add_edge :: "string \<Rightarrow> string \<Rightarrow> 's graph \<Rightarrow> 's graph" where
  "add_edge a b g = g\<lparr>g_edges := (a, b) # g_edges g\<rparr>"

definition add_conditional_edges ::
  "string \<Rightarrow> (agent_state \<Rightarrow> string) \<Rightarrow> (string \<times> string) list \<Rightarrow> 's graph \<Rightarrow> 's graph" where
  "add_conditional_edges n router paths g =
     g\<lparr>g_conditional := (n, router, paths) # g_conditional g\<rparr>"

text \<open>Where an invocation goes after a node: a conditional edge by its router, or the plain edge.\<close>

definition next_node :: "'s graph \<Rightarrow> string \<Rightarrow> agent_state \<Rightarrow> string option" where
  "next_node g n st =
     (case map_of (g_conditional g) n of
        Some (router, paths) \<Rightarrow> map_of paths (router st)
      | None \<Rightarrow> map_of (g_edges g) n)"

subsection \<open>Routing\<close>

definition route_after_classifier :: "agent_state \<Rightarrow> string" where
  "route_after_classifier st = (if \<not> get_or (st_actionable st) True then END else ''code_retriever'')"

definition PATCHABLE_CATEGORIES :: "string list" where
  "PATCHABLE_CATEGORIES = [''code_bug'', ''database'']"

definition route_after_action_decision :: "agent_state \<Rightarrow> string" where
  "route_after_action_decision st =
     (if st_action st = Some ''create_incident'' \<and>
         (\<exists>c \<in> set PATCHABLE_CATEGORIES. st_error_category st = Some c)
      then ''patch_generator'' else END)"

subsection \<open>The nodes\<close>

text \<open>What the nodes use besides the state: the clients, the models and the clock.\<close>

record 's agents =
  ag_redis :: "'s redis"
  ag_s3 :: "string \<Rightarrow> string option"
  ag_token_count :: "string \<Rightarrow> nat option"
  ag_db_ok :: bool
  ag_latency :: int
  ag_loads :: "string \<Rightarrow> json option"
  ag_sha256 :: "string \<Rightarrow> string"
  ag_vector_loads :: "string \<Rightarrow> rat list option"
  ag_vector_dumps :: "rat list \<Rightarrow> string"
  ag_embedding :: "string \<Rightarrow> rat list res"
  ag_distance :: "rat list \<Rightarrow> rat list \<Rightarrow> rat"
  ag_analyzer :: "'s llm_env"
  ag_fixer :: "'s llm_env"
  ag_patcher :: "'s llm_env"
  ag_message :: "exn \<Rightarrow> string"

definition pure_node :: "(agent_state \<Rightarrow> agent_state res) \<Rightarrow> 's node" where
  "pure_node f st s = (f st, s)"

definition classifier_node :: "'s agents \<Rightarrow> 's node" where
  "classifier_node A = pure_node (classifier_invoke (ag_latency A))"

definition code_retriever_node :: "'s agents \<Rightarrow> db2 \<Rightarrow> 's node" where
  "code_retriever_node A db = code_retriever_invoke
     \<lparr>fe_redis = ag_redis A, fe_s3 = ag_s3 A, fe_tokens = ag_token_count A\<rparr> (ag_db_ok A) (ag_latency A) db"

definition playbook_matcher_node :: "'s agents \<Rightarrow> db2 \<Rightarrow> 's node" where
  "playbook_matcher_node A db = matcher_invoke (ag_redis A) (ag_sha256 A) (ag_vector_loads A)
     (ag_vector_dumps A) (ag_embedding A) (ag_distance A) (ag_latency A) db"

definition confidence_scorer_node :: "'s agents \<Rightarrow> 's node" where
  "confidence_scorer_node A = pure_node (scorer_invoke (ag_loads A) (ag_latency A))"

definition action_decision_node :: "'s agents \<Rightarrow> db2 \<Rightarrow> 's node" where
  "action_decision_node A db = pure_node (action_decision_invoke (ag_db_ok A) db)"

definition patch_generator_node :: "'s agents \<Rightarrow> db2 \<Rightarrow> 's node" where
  "patch_generator_node A db = patch_generator_invoke (ag_patcher A) (ag_redis A) (ag_s3 A) (ag_db_ok A)
     (ag_message A) db"

definition build_agent_workflow :: "'s agents \<Rightarrow> db2 \<Rightarrow> 's graph" where
  "build_agent_workflow A db =
     fold (\<lambda>f g. f g)
       [add_node ''classifier'' (classifier_node A),
        add_node ''code_retriever'' (code_retriever_node A db),
        add_node ''playbook_matcher'' (playbook_matcher_node A db),
        add_node ''analyzer'' (analyzer_invoke (ag_analyzer A)),
        add_node ''fix_generator'' (fix_generator_invoke (ag_fixer A)),
        add_node ''confidence_scorer'' (confidence_scorer_node A),
        add_node ''action_decision'' (action_decision_node A db),
        add_node ''patch_generator'' (patch_generator_node A db),
        set_entry_point ''classifier'',
        add_conditional_edges ''classifier'' route_after_classifier
          [(''code_retriever'', ''code_retriever''), (END, END)],
        add_edge ''code_retriever'' ''playbook_matcher'',
        add_edge ''playbook_matcher'' ''analyzer'',
        add_edge ''analyzer'' ''fix_generator'',
        add_edge ''fix_generator'' ''confidence_scorer'',
        add_edge ''confidence_scorer'' ''action_decision'',
        add_conditional_edges ''action_decision'' route_after_action_decision
          [(''patch_generator'', ''patch_generator''), (END, END)],
        add_edge ''patch_generator'' END]
       StateGraph"

subsection \<open>The engine\<close>

text \<open>
  \<open>run g n st s\<close> is an invocation that has reached the node \<open>n\<close> with the state \<open>st\<close>; \<open>None\<close> if it never
  ends.  A node's partial answer is merged into the state; an exception of a node is the invocation's.  The
  default limit of 25 steps is out of reach of the eight nodes.
\<close>

locale graph_engine =
  fixes run :: "'s graph \<Rightarrow> string \<Rightarrow> agent_state \<Rightarrow> 's \<Rightarrow> (agent_state res \<times> 's) option"
  assumes run_end: "run g END st s = Some (Inr st, s)"
    and run_raises: "n \<noteq> END \<Longrightarrow> map_of (g_nodes g) n = Some f \<Longrightarrow> f st s = (Inl e, s') \<Longrightarrow>
          run g n st s = Some (Inl e, s')"
    and run_moves: "n \<noteq> END \<Longrightarrow> map_of (g_nodes g) n = Some f \<Longrightarrow> f st s = (Inr u, s') \<Longrightarrow>
          next_node g n (merge st u) = Some m \<Longrightarrow> run g n st s = run g m (merge st u) s'"
begin

lemma run_node:
  assumes "n \<noteq> END" "map_of (g_nodes g) n = Some f"
    and "\<And>u s'. f st s = (Inr u, s') \<Longrightarrow>
           \<exists>m. next_node g n (merge st u) = Some m \<and> run g m (merge st u) s' = Some (k (merge st u) s')"
  shows "run g n st s =
    Some (case f st s of (Inl e, s') \<Rightarrow> (Inl e, s') | (Inr u, s') \<Rightarrow> k (merge st u) s')"
proof (cases "f st s")
  case (Pair r s')
  show ?thesis
  proof (cases r)
    case (Inl e)
    with Pair run_raises [OF assms(1,2)] show ?thesis by simp
  next
    case (Inr u)
    with Pair have "f st s = (Inr u, s')" by simp
    with assms(3) [OF this] run_moves [OF assms(1,2) this] show ?thesis by auto
  qed
qed

end

subsection \<open>The pipeline\<close>

text \<open>The workflow as a straight line: run a node, merge its answer, go on; stop at an exception.\<close>

definition andthen :: "'s node \<Rightarrow> 's node \<Rightarrow> 's node" where
  "andthen f k st s = (case f st s of (Inl e, s') \<Rightarrow> (Inl e, s') | (Inr u, s') \<Rightarrow> k (merge st u) s')"

definition finish :: "'s node" where
  "finish st s = (Inr st, s)"

definition only_if :: "(agent_state \<Rightarrow> bool) \<Rightarrow> 's node \<Rightarrow> 's node" where
  "only_if P k st s = (if P st then k st s else (Inr st, s))"

definition wants_patch :: "agent_state \<Rightarrow> bool" where
  "wants_patch st \<longleftrightarrow> st_action st = Some ''create_incident'' \<and>
     (st_error_category st = Some ''code_bug'' \<or> st_error_category st = Some ''database'')"

definition analysis_pipeline :: "'s agents \<Rightarrow> db2 \<Rightarrow> 's node" where
  "analysis_pipeline A db =
     andthen (code_retriever_node A db)
    (andthen (playbook_matcher_node A db)
    (andthen (analyzer_invoke (ag_analyzer A))
    (andthen (fix_generator_invoke (ag_fixer A))
    (andthen (confidence_scorer_node A)
    (andthen (action_decision_node A db)
    (only_if wants_patch (andthen (patch_generator_node A db) finish)))))))"

definition pipeline :: "'s agents \<Rightarrow> db2 \<Rightarrow> 's node" where
  "pipeline A db =
     andthen (classifier_node A)
       (only_if (\<lambda>st. get_or (st_actionable st) True) (analysis_pipeline A db))"

lemma node_names_not_end [simp]:
  "''classifier'' \<noteq> END" "''code_retriever'' \<noteq> END" "''playbook_matcher'' \<noteq> END" "''analyzer'' \<noteq> END"
  "''fix_generator'' \<noteq> END" "''confidence_scorer'' \<noteq> END" "''action_decision'' \<noteq> END"
  "''patch_generator'' \<noteq> END"
  by (simp_all add: END_def)

lemma workflow_nodes:
  "map_of (g_nodes (build_agent_workflow A db)) ''classifier'' = Some (classifier_node A)"
  "map_of (g_nodes (build_agent_workflow A db)) ''code_retriever'' = Some (code_retriever_node A db)"
  "map_of (g_nodes (build_agent_workflow A db)) ''playbook_matcher'' = Some (playbook_matcher_node A db)"
  "map_of (g_nodes (build_agent_workflow A db)) ''analyzer'' = Some (analyzer_invoke (ag_analyzer A))"
  "map_of (g_nodes (build_agent_workflow A db)) ''fix_generator'' = Some (fix_generator_invoke (ag_fixer A))"
  "map_of (g_nodes (build_agent_workflow A db)) ''confidence_scorer'' = Some (confidence_scorer_node A)"
  "map_of (g_nodes (build_agent_workflow A db)) ''action_decision'' = Some (action_decision_node A db)"
  "map_of (g_nodes (build_agent_workflow A db)) ''patch_generator'' = Some (patch_generator_node A db)"
  by (simp_all add: build_agent_workflow_def add_node_def add_edge_def add_conditional_edges_def
      set_entry_point_def StateGraph_def)

lemma workflow_edges:
  "next_node (build_agent_workflow A db) ''classifier'' st =
     Some (if get_or (st_actionable st) True then ''code_retriever'' else END)"
  "next_node (build_agent_workflow A db) ''code_retriever'' st = Some ''playbook_matcher''"
  "next_node (build_agent_workflow A db) ''playbook_matcher'' st = Some ''analyzer''"
  "next_node (build_agent_workflow A db) ''analyzer'' st = Some ''fix_generator''"
  "next_node (build_agent_workflow A db) ''fix_generator'' st = Some ''confidence_scorer''"
  "next_node (build_agent_workflow A db) ''confidence_scorer'' st = Some ''action_decision''"
  "next_node (build_agent_workflow A db) ''action_decision'' st =
     Some (if wants_patch st then ''patch_generator'' else END)"
  "next_node (build_agent_workflow A db) ''patch_generator'' st = Some END"
  by (simp_all add: build_agent_workflow_def add_node_def add_edge_def add_conditional_edges_def
      set_entry_point_def StateGraph_def next_node_def route_after_classifier_def
      route_after_action_decision_def wants_patch_def PATCHABLE_CATEGORIES_def END_def)

context graph_engine
begin

lemma run_pipeline:
  "run (build_agent_workflow A db) ''classifier'' st s = Some (pipeline A db st s)"
proof -
  let ?g = "build_agent_workflow A db"
  have patch: "run ?g ''patch_generator'' st s = Some (andthen (patch_generator_node A db) finish st s)"
    for st s
    unfolding andthen_def
    by (rule run_node [OF _ workflow_nodes(8)]) (simp_all add: workflow_edges run_end finish_def)
  have decision: "run ?g ''action_decision'' st s =
      Some (andthen (action_decision_node A db)
        (only_if wants_patch (andthen (patch_generator_node A db) finish)) st s)" for st s
    unfolding andthen_def [of "action_decision_node A db"]
    by (rule run_node [OF _ workflow_nodes(7)]) (simp_all add: workflow_edges run_end patch only_if_def)
  have scorer: "run ?g ''confidence_scorer'' st s =
      Some (andthen (confidence_scorer_node A) (andthen (action_decision_node A db)
        (only_if wants_patch (andthen (patch_generator_node A db) finish))) st s)" for st s
    unfolding andthen_def [of "confidence_scorer_node A"]
    by (rule run_node [OF _ workflow_nodes(6)]) (simp_all add: workflow_edges decision)
  have fixer: "run ?g ''fix_generator'' st s =
      Some (andthen (fix_generator_invoke (ag_fixer A)) (andthen (confidence_scorer_node A)
        (andthen (action_decision_node A db)
        (only_if wants_patch (andthen (patch_generator_node A db) finish)))) st s)" for st s
    unfolding andthen_def [of "fix_generator_invoke (ag_fixer A)"]
    by (rule run_node [OF _ workflow_nodes(5)]) (simp_all add: workflow_edges scorer)
  have analyzer: "run ?g ''analyzer'' st s =
      Some (andthen (analyzer_invoke (ag_analyzer A)) (andthen (fix_generator_invoke (ag_fixer A))
        (andthen (confidence_scorer_node A) (andthen (action_decision_node A db)
        (only_if wants_patch (andthen (patch_generator_node A db) finish))))) st s)" for st s
    unfolding andthen_def [of "analyzer_invoke (ag_analyzer A)"]
    by (rule run_node [OF _ workflow_nodes(4)]) (simp_all add: workflow_edges fixer)
  have matcher: "run ?g ''playbook_matcher'' st s =
      Some (andthen (playbook_matcher_node A db) (andthen (analyzer_invoke (ag_analyzer A))
        (andthen (fix_generator_invoke (ag_fixer A)) (andthen (confidence_scorer_node A)
        (andthen (action_decision_node A db)
        (only_if wants_patch (andthen (patch_generator_node A db) finish)))))) st s)" for st s
    unfolding andthen_def [of "playbook_matcher_node A db"]
    by (rule run_node [OF _ workflow_nodes(3)]) (simp_all add: workflow_edges analyzer)
  have retriever: "run ?g ''code_retriever'' st s = Some (analysis_pipeline A db st s)" for st s
    unfolding analysis_pipeline_def andthen_def [of "code_retriever_node A db"]
    by (rule run_node [OF _ workflow_nodes(2)]) (simp_all add: workflow_edges matcher)
  show ?thesis
    unfolding pipeline_def andthen_def [of "classifier_node A"]
    by (rule run_node [OF _ workflow_nodes(1)])
       (simp_all add: workflow_edges retriever run_end only_if_def)
qed

end

text \<open>The engine that follows the edges.\<close>

partial_function (option) follow ::
  "'s graph \<Rightarrow> string \<Rightarrow> agent_state \<Rightarrow> 's \<Rightarrow> (agent_state res \<times> 's) option" where
  "follow g n st s =
     (if n = END then Some (Inr st, s)
      else case map_of (g_nodes g) n of
             None \<Rightarrow> Some (Inl (KeyError n), s)
           | Some f \<Rightarrow>
               (case f st s of
                  (Inl e, s') \<Rightarrow> Some (Inl e, s')
                | (Inr u, s') \<Rightarrow>
                    (case next_node g n (merge st u) of
                       None \<Rightarrow> Some (Inl (KeyError n), s')
                     | Some m \<Rightarrow> follow g m (merge st u) s')))"

interpretation follow: graph_engine follow
  by unfold_locales (subst follow.simps, simp)+

text \<open>\<open>get_agent_workflow().ainvoke(state)\<close>, as \<open>run_agent\<close> calls it.\<close>

definition agent_workflow :: "'s agents \<Rightarrow> db2 \<Rightarrow> 's node" where
  "agent_workflow A db st s =
     (case follow (build_agent_workflow A db) (g_entry (build_agent_workflow A db)) st s of
        Some r \<Rightarrow> r
      | None \<Rightarrow> (Inl (OtherError ''GraphRecursionError''), s))"

lemma workflow_entry: "g_entry (build_agent_workflow A db) = ''classifier''"
  by (simp add: build_agent_workflow_def add_node_def add_edge_def add_conditional_edges_def
      set_entry_point_def StateGraph_def)

lemma agent_workflow_pipeline: "agent_workflow A db st s = pipeline A db st s"
  by (simp add: agent_workflow_def workflow_entry follow.run_pipeline)

end
