(* ===== verification/Workflow_Spec.thy ===== *)
theory Workflow_Spec
  imports Workflow Run_Agent_Spec
begin

text \<open>
  What the workflow promises to \<open>run_agent\<close>: it always ends, it does what the straight pipeline does, it
  asks for patches only where the policy allows, and for an event of a security category it answers a draft
  without a patch.
\<close>

subsection \<open>What the nodes write\<close>

lemma andthen_Inr:
  "andthen f k st s = (Inr st', s') \<longleftrightarrow>
   (\<exists>u s1. f st s = (Inr u, s1) \<and> k (merge st u) s1 = (Inr st', s'))"
  by (auto simp: andthen_def split: prod.splits sum.splits)

text \<open>The fields the routing and the final decision rest on.\<close>

definition analysis_only :: "agent_state \<Rightarrow> bool" where
  "analysis_only u \<longleftrightarrow> st_parsed_event u = None \<and> st_tenant_id u = None \<and> st_structured_patch u = None \<and>
     st_action u = None \<and> st_error_category u = None \<and> st_actionable u = None"

lemma retriever_analysis_only: "code_retriever_node A db st s = (Inr u, s') \<Longrightarrow> analysis_only u"
  by (auto simp: code_retriever_node_def code_retriever_invoke_def analysis_only_def
           split: option.splits sum.splits prod.splits)

lemma matcher_analysis_only: "playbook_matcher_node A db st s = (Inr u, s') \<Longrightarrow> analysis_only u"
  by (auto simp: playbook_matcher_node_def matcher_invoke_def analysis_only_def Let_def
           split: option.splits sum.splits prod.splits list.splits)

lemma analyzer_analysis_only: "analyzer_invoke E st s = (Inr u, s') \<Longrightarrow> analysis_only u"
  by (auto simp: analyzer_invoke_def analyzer_answer_def analysis_only_def
           split: option.splits sum.splits prod.splits)

lemma fixer_analysis_only: "fix_generator_invoke E st s = (Inr u, s') \<Longrightarrow> analysis_only u"
  by (auto simp: fix_generator_invoke_def fix_answer_def analysis_only_def simp del: contains.simps
           split: option.splits sum.splits prod.splits)

lemma scorer_analysis_only: "confidence_scorer_node A st s = (Inr u, s') \<Longrightarrow> analysis_only u"
  by (auto simp: confidence_scorer_node_def pure_node_def scorer_invoke_def analysis_only_def
           bind_res_eq_Inr Let_def)

lemma decision_writes:
  assumes "action_decision_node A db st s = (Inr u, s')"
  shows "s' = s \<and> st_parsed_event u = None \<and> st_structured_patch u = None \<and> st_error_category u = None \<and>
    st_actionable u = None \<and>
    (st_action u = Some ''store_draft'' \<or>
     st_action u = Some ''create_incident'' \<and> str_or (st_error_category st) ''unknown'' \<noteq> ''security'')"
  using assms by (auto simp: action_decision_node_def pure_node_def action_decision_invoke_def Let_def split: if_splits)

lemma patcher_writes:
  assumes "patch_generator_node A db st s = (Inr u, s')"
  shows "st_error_category u = None \<and> st_actionable u = None \<and> st_action u = None"
  using assms
  by (auto simp: patch_generator_node_def patch_generator_invoke_def patch_answer_def Let_def
           split: sum.splits prod.splits patch_outcome.splits)

lemma classifier_writes:
  assumes "classifier_node A st s = (Inr u, s')" "st_parsed_event st = Some d"
  shows "s' = s \<and> st_parsed_event u = None \<and> st_tenant_id u = None \<and> st_structured_patch u = None \<and>
    st_action u = None \<and>
    st_error_category u = Some (classify_category (strip (str_of ''error_type'' [] d))) \<and>
    (\<exists>b. st_actionable u = Some b)"
  using assms by (auto simp: classifier_node_def pure_node_def classifier_invoke_def Let_def split: if_splits)

text \<open>Where a state ends up whose category the classifier has set.\<close>

definition decided :: "string \<Rightarrow> string option \<Rightarrow> agent_state \<Rightarrow> bool" where
  "decided category patch0 st \<longleftrightarrow>
     st_error_category st = Some category \<and>
     (st_action st = Some ''store_draft'' \<and> st_structured_patch st = patch0 \<or>
      st_action st = Some ''create_incident'' \<and> category \<noteq> ''security'' \<and>
      (st_structured_patch st = patch0 \<or> category = ''code_bug'' \<or> category = ''database''))"

lemma analysis_only_merge:
  assumes "analysis_only u"
  shows "st_error_category (merge st u) = st_error_category st"
    "st_structured_patch (merge st u) = st_structured_patch st"
    "st_parsed_event (merge st u) = st_parsed_event st"
    "st_tenant_id (merge st u) = st_tenant_id st"
    "st_actionable (merge st u) = st_actionable st"
    "st_action (merge st u) = st_action st"
  using assms by (simp_all add: analysis_only_def upd_def)

lemma decision_and_patch:
  assumes "andthen (action_decision_node A db)
      (only_if wants_patch (andthen (patch_generator_node A db) finish)) st s = (Inr st', s')"
    and "st_error_category st = Some category" "category \<noteq> []"
  shows "decided category (st_structured_patch st) st' \<and> st_actionable st' = st_actionable st"
proof -
  from assms(1) obtain u s1 where u: "action_decision_node A db st s = (Inr u, s1)"
    and rest: "only_if wants_patch (andthen (patch_generator_node A db) finish) (merge st u) s1 = (Inr st', s')"
    by (auto simp: andthen_Inr)
  note d = decision_writes [OF u]
  have cat: "str_or (st_error_category st) ''unknown'' = category"
    using assms(2,3) by (cases category) auto
  show ?thesis
  proof (cases "wants_patch (merge st u)")
    case False
    with rest have "st' = merge st u" by (simp add: only_if_def)
    with d assms(2) cat show ?thesis by (auto simp: decided_def upd_def)
  next
    case True
    with rest obtain v s2 where v: "patch_generator_node A db (merge st u) s1 = (Inr v, s2)"
      and st': "st' = merge (merge st u) v"
      by (auto simp: only_if_def andthen_Inr finish_def)
    have w: "st_action u = Some ''create_incident''" "category = ''code_bug'' \<or> category = ''database''"
      using True d assms(2) by (auto simp: wants_patch_def upd_def split: option.splits)
    with d assms(2) patcher_writes [OF v] show ?thesis by (auto simp: st' decided_def upd_def)
  qed
qed

lemma analysis_decides:
  assumes "analysis_pipeline A db st s = (Inr st', s')"
    and "st_error_category st = Some category" "category \<noteq> []"
  shows "decided category (st_structured_patch st) st' \<and> st_actionable st' = st_actionable st"
proof -
  from assms(1) obtain u1 s1 u2 s2 u3 s3 u4 s4 u5 s5 where
    1: "code_retriever_node A db st s = (Inr u1, s1)" and
    2: "playbook_matcher_node A db (merge st u1) s1 = (Inr u2, s2)" and
    3: "analyzer_invoke (ag_analyzer A) (merge (merge st u1) u2) s2 = (Inr u3, s3)" and
    4: "fix_generator_invoke (ag_fixer A) (merge (merge (merge st u1) u2) u3) s3 = (Inr u4, s4)" and
    5: "confidence_scorer_node A (merge (merge (merge (merge st u1) u2) u3) u4) s4 = (Inr u5, s5)" and
    6: "andthen (action_decision_node A db) (only_if wants_patch (andthen (patch_generator_node A db) finish))
          (merge (merge (merge (merge (merge st u1) u2) u3) u4) u5) s5 = (Inr st', s')"
    unfolding analysis_pipeline_def andthen_Inr [of "code_retriever_node A db"]
      andthen_Inr [of "playbook_matcher_node A db"] andthen_Inr [of "analyzer_invoke (ag_analyzer A)"]
      andthen_Inr [of "fix_generator_invoke (ag_fixer A)"] andthen_Inr [of "confidence_scorer_node A"]
    by blast
  note keep = analysis_only_merge [OF retriever_analysis_only [OF 1]]
    analysis_only_merge [OF matcher_analysis_only [OF 2]] analysis_only_merge [OF analyzer_analysis_only [OF 3]]
    analysis_only_merge [OF fixer_analysis_only [OF 4]] analysis_only_merge [OF scorer_analysis_only [OF 5]]
  from decision_and_patch [OF 6 _ assms(3)] assms(2) show ?thesis by (simp only: keep)
qed

lemma classify_category_nonempty: "classify_category ty \<noteq> []"
  by (simp add: classify_category_def)

lemma pipeline_cases:
  assumes "pipeline A db st s = (Inr st', s')" "st_parsed_event st = Some d"
  obtains (ignored) "st_actionable st' = Some False" "s' = s"
      "st_structured_patch st' = st_structured_patch st" "st_action st' = st_action st"
  | (analysed) "decided (classify_category (strip (str_of ''error_type'' [] d))) (st_structured_patch st) st'"
      "st_actionable st' = Some True"
proof -
  from assms(1) obtain u s1 where u: "classifier_node A st s = (Inr u, s1)"
    and rest: "only_if (\<lambda>st. get_or (st_actionable st) True) (analysis_pipeline A db) (merge st u) s1 =
      (Inr st', s')" by (auto simp: pipeline_def andthen_Inr)
  note c = classifier_writes [OF u assms(2)]
  then obtain b where b: "st_actionable u = Some b" by blast
  have keep: "st_structured_patch (merge st u) = st_structured_patch st" "st_action (merge st u) = st_action st"
    "st_error_category (merge st u) = Some (classify_category (strip (str_of ''error_type'' [] d)))"
    "st_actionable (merge st u) = Some b"
    using c b by (simp_all add: upd_def)
  show ?thesis
  proof (cases b)
    case False
    with rest keep c show ?thesis by (intro ignored) (auto simp: only_if_def)
  next
    case True
    with rest keep have "analysis_pipeline A db (merge st u) s1 = (Inr st', s')" by (simp add: only_if_def)
    from analysis_decides [OF this keep(3) classify_category_nonempty] keep True show ?thesis
      by (intro analysed) simp_all
  qed
qed

subsection \<open>Properties of the workflow\<close>

text \<open>C8: under any graph engine that follows the documented rules, an invocation of
  the workflow ends, and with exactly the result of the straight pipeline: classifier, then (if actionable)
  retriever, matcher, analyzer, fix generator, scorer and decision, then (if wanted) the patch generator.\<close>

theorem workflow_is_pipeline:
  assumes "graph_engine run"
  shows "run (build_agent_workflow A db) (g_entry (build_agent_workflow A db)) st s =
         Some (pipeline A db st s)"
  unfolding workflow_entry by (rule graph_engine.run_pipeline [OF assms])

text \<open>C9: the workflow, started without a patch, ends with one only if the incident is
  to be created and the category of its error type is a code bug or a database error; an event that is not
  actionable costs no request at all.\<close>

theorem patches_follow_policy:
  assumes "agent_workflow A db (initial_state t d fp) s = (Inr st', s')"
  shows "(st_structured_patch st' \<noteq> None \<longrightarrow>
            st_action st' = Some ''create_incident'' \<and>
            classify_category (strip (str_of ''error_type'' [] d)) \<in> {''code_bug'', ''database''}) \<and>
         (st_actionable st' = Some False \<longrightarrow> s' = s)"
proof -
  from assms have "pipeline A db (initial_state t d fp) s = (Inr st', s')"
    by (simp add: agent_workflow_pipeline)
  then show ?thesis
    by (rule pipeline_cases [where d = d]) (auto simp: decided_def)
qed

text \<open>Whatever the models answer, a run on an event whose error type belongs to a security category reports
  the action \<open>store_draft\<close>, carries no patch and dispatches no pull request.  That is what the run returns:
  the incident it stored is open, is no draft and is published like any other (\<open>persist_atomic\<close>).\<close>

theorem security_reported_as_draft:
  assumes "execute_run_agent sha256 R (agent_workflow A) env d s db = (Inr (Completed c), s', db', fx)"
    and "classify_category (strip (str_of ''error_type'' [] d)) = ''security''"
  shows "cp_action c = ''store_draft'' \<and> cp_is_draft c \<and> cp_structured_patch c = [] \<and>
         (\<forall>t i p ty rc fix draft. GithubPrTask t i p ty rc fix draft \<notin> set (dispatches d (Completed c)))"
proof -
  from assms(1) obtain e tenant s1 s2 st fx0 where
    wf: "agent_workflow A db (initial_state (pe_tenant_id e) d (event_fingerprint sha256 e)) s1 = (Inr st, s2)"
    and an: "on_analysed env tenant e (event_fingerprint sha256 e) st db = (Inr (Completed c), db', fx0)"
    by (auto simp: execute_run_agent_def run_locked_def Let_def on_duplicate_def
             split: sum.splits option.splits prod.splits bool.splits)
  have act: "get_or (st_actionable st) True"
    using an by (auto simp: on_analysed_def Let_def split: prod.splits if_splits)
  from wf have "pipeline A db (initial_state (pe_tenant_id e) d (event_fingerprint sha256 e)) s1 = (Inr st, s2)"
    by (simp add: agent_workflow_pipeline)
  then have st: "st_action st = Some ''store_draft'' \<and> st_structured_patch st = None"
    by (rule pipeline_cases [where d = d]) (use act in \<open>auto simp: decided_def assms(2)\<close>)
  have dec: "decide_action (st\<lparr>st_total_latency_ms := l\<rparr>) = (''store_draft'', True)" for l
    using st by (auto simp: decide_action_def Let_def split: option.splits)
  have "cp_action c = ''store_draft'' \<and> cp_is_draft c \<and> cp_structured_patch c = []"
    using an dec st
    by (auto simp: on_analysed_def Let_def split: prod.splits if_splits sum.splits exn.splits)
  then show ?thesis by (auto simp: dispatches_def)
qed

subsection \<open>Events that have been validated\<close>

text \<open>
  What the code relies on of \<open>json.loads\<close>: a text it decodes it decodes alike without the blanks around it
  (the converse fails: \<open>strip\<close> also takes vertical tabs and form feeds away, which are no blanks of JSON), and
  a text in Markdown fences is no JSON.  (The scorer decodes the analyzer's raw answer once more, without
  stripping the fences.)
\<close>

definition json_decoder :: "(string \<Rightarrow> json option) \<Rightarrow> bool" where
  "json_decoder loads \<longleftrightarrow>
     (\<forall>t v. loads t = Some v \<longrightarrow> loads (strip t) = Some v) \<and>
     (\<forall>t. prefix fence (strip t) \<or> suffix fence (strip t) \<longrightarrow> loads t = None)"

lemma model_confidence_fenced:
  assumes "json_decoder loads" "read_analysis loads raw = Inr a"
  shows "\<exists>c. model_confidence loads raw = Inr c"
proof (cases "prefix fence (strip raw) \<or> suffix fence (strip raw)")
  case True
  with assms(1) have "loads raw = None" unfolding json_decoder_def by blast
  then show ?thesis by (simp add: model_confidence_def)
next
  case False
  then have "\<not> prefix (fence @ ''json'') (strip raw)" by (auto simp: prefix_def)
  with False have sf: "strip_fences raw = strip (strip raw)"
    by (simp add: strip_fences_def removesuffix_def Let_def)
  from assms(2) obtain kvs where kvs: "loads (strip_fences raw) = Some (JObj kvs)"
    by (auto simp: read_analysis_def split: option.splits json.splits)
  show ?thesis
  proof (cases "loads raw")
    case None
    then show ?thesis by (simp add: model_confidence_def)
  next
    case (Some v)
    with assms(1) have "loads (strip (strip raw)) = Some v" unfolding json_decoder_def by blast
    with kvs sf Some show ?thesis by (simp add: model_confidence_def)
  qed
qed

text \<open>What the analyzer leaves to the scorer.\<close>

definition rescorable :: "(string \<Rightarrow> json option) \<Rightarrow> agent_state \<Rightarrow> bool" where
  "rescorable loads st \<longleftrightarrow>
     get_or (st_analyzer_fallback_used st) False \<or>
     (\<exists>c. model_confidence loads (str_or (st_raw_analysis_output st) []) = Inr c)"

lemma analyzer_rescorable:
  assumes "analyzer_invoke E st s = (Inr u, s')" "json_decoder (le_loads E)"
  shows "rescorable (le_loads E) u \<and> st_analyzer_fallback_used u \<noteq> None \<and> st_raw_analysis_output u \<noteq> None"
proof -
  from assms(1) obtain parsed i where p: "st_parsed_event st = Some parsed" "analyzer_input_of st parsed = Inr i"
    by (auto simp: analyzer_invoke_def split: option.splits sum.splits)
  obtain raw r s1 where g: "guarded_analysis E (analyzer_prompt (le_dumps E) i) s = ((raw, r), s1)"
    by (metis surj_pair)
  show ?thesis
  proof (cases r)
    case (Inl e)
    obtain x s2 where "note_failure E (counts_as_failure e) s1 = (x, s2)" by fastforce
    with assms(1) p g Inl show ?thesis
      by (cases x) (auto simp: analyzer_invoke_def analyzer_answer_def rescorable_def)
  next
    case (Inr a)
    then obtain b where "read_analysis (le_loads E) raw = Inr b"
      using g by (auto simp: guarded_analysis_def split: prod.splits sum.splits bool.splits)
    from model_confidence_fenced [OF assms(2) this] obtain c
      where c: "model_confidence (le_loads E) raw = Inr c" ..
    have "\<exists>c. model_confidence (le_loads E) (str_or (Some raw) []) = Inr c"
      using c by (cases raw) auto
    with assms(1) p g Inr show ?thesis
      by (cases a) (auto simp: analyzer_invoke_def analyzer_answer_def rescorable_def)
  qed
qed

lemma scorer_total:
  assumes "rescorable (ag_loads A) st"
  shows "\<exists>u. confidence_scorer_node A st s = (Inr u, s)"
  using assms
  by (auto simp: confidence_scorer_node_def pure_node_def scorer_invoke_def rescorable_def
           compute_coherence_score_def Let_def)

lemma classifier_total: "st_parsed_event st = Some d \<Longrightarrow> \<exists>u. classifier_node A st s = (Inr u, s)"
  by (auto simp: classifier_node_def pure_node_def classifier_invoke_def Let_def)

lemma decision_total: "\<exists>u. action_decision_node A db st s = (Inr u, s)"
  by (auto simp: action_decision_node_def pure_node_def action_decision_invoke_def Let_def)

lemma matcher_total: "\<exists>u s'. playbook_matcher_node A db st s = (Inr u, s')"
  unfolding playbook_matcher_node_def by (metis matcher_returns)

lemma patcher_total:
  assumes "st_parsed_event st = Some (to_dict e)"
  shows "\<exists>u s'. patch_generator_node A db st s = (Inr u, s')"
  using assms
  by (auto simp: patch_generator_node_def patch_generator_invoke_def int_or_0_to_dict
           split: prod.splits sum.splits)

lemma retriever_total:
  assumes "st_parsed_event st = Some (to_dict e)" "st_tenant_id st = Some t"
  shows "\<exists>u s'. code_retriever_node A db st s = (Inr u, s')"
  unfolding code_retriever_node_def
  by (rule code_retriever_returns [OF assms]) blast

lemma fixer_keeps_rescorable:
  assumes "fix_generator_invoke E st s = (Inr u, s')"
  shows "st_analyzer_fallback_used u = None \<and> st_raw_analysis_output u = None"
  using assms
  by (auto simp: fix_generator_invoke_def fix_answer_def simp del: contains.simps
           split: option.splits sum.splits prod.splits)

text \<open>The clients of a worker: the breakers live in the same Redis, and there is one JSON decoder.\<close>

definition wired :: "'s agents \<Rightarrow> bool" where
  "wired A \<longleftrightarrow> (\<exists>cb. le_circuit (ag_analyzer A) = circuit cb (ag_redis A)) \<and>
     (\<exists>cb. le_circuit (ag_fixer A) = circuit cb (ag_redis A)) \<and>
     le_loads (ag_analyzer A) = ag_loads A \<and> json_decoder (ag_loads A)"

lemma tail_total:
  assumes "st_parsed_event st = Some (to_dict e)" "st_tenant_id st = Some t"
  shows "\<exists>st' s'. andthen (action_decision_node A db)
    (only_if wants_patch (andthen (patch_generator_node A db) finish)) st s = (Inr st', s')"
proof -
  obtain u where u: "action_decision_node A db st s = (Inr u, s)" using decision_total [of A db st s] by blast
  with decision_writes [OF u] assms have "st_parsed_event (merge st u) = Some (to_dict e)"
    by (simp add: upd_def)
  from patcher_total [OF this, of A db s] obtain v s2
    where "patch_generator_node A db (merge st u) s = (Inr v, s2)" by blast
  with u show ?thesis by (simp add: andthen_def only_if_def finish_def)
qed

lemma workflow_returns:
  assumes "redis_server (ag_redis A) view" "wired A"
  shows "\<exists>st' s'. agent_workflow A db (initial_state t (to_dict e) fp) s = (Inr st', s')"
proof -
  let ?st = "initial_state t (to_dict e) fp"
  have ev0: "st_parsed_event ?st = Some (to_dict e)" "st_tenant_id ?st = Some t" by simp_all
  from assms(2) obtain cb1 cb2 where C: "le_circuit (ag_analyzer A) = circuit cb1 (ag_redis A)"
      "le_circuit (ag_fixer A) = circuit cb2 (ag_redis A)"
    and L: "le_loads (ag_analyzer A) = ag_loads A" "json_decoder (ag_loads A)"
    by (auto simp: wired_def)
  obtain u0 where u0: "classifier_node A ?st s = (Inr u0, s)" using classifier_total [OF ev0(1), of A s] by blast
  define st0 where "st0 = merge ?st u0"
  have ev1: "st_parsed_event st0 = Some (to_dict e)" "st_tenant_id st0 = Some t"
    using classifier_writes [OF u0 ev0(1)] by (simp_all add: st0_def upd_def)
  have analysis: "\<exists>st' s'. analysis_pipeline A db st0 s = (Inr st', s')"
  proof -
    obtain u1 s1 where 1: "code_retriever_node A db st0 s = (Inr u1, s1)"
      using retriever_total [OF ev1, of A db s] by blast
    define st1 where "st1 = merge st0 u1"
    note k1 = analysis_only_merge [OF retriever_analysis_only [OF 1], of st0, folded st1_def]
    obtain u2 s2 where 2: "playbook_matcher_node A db st1 s1 = (Inr u2, s2)"
      using matcher_total [of A db st1 s1] by blast
    define st2 where "st2 = merge st1 u2"
    note k2 = analysis_only_merge [OF matcher_analysis_only [OF 2], of st1, folded st2_def]
    have ev2: "st_parsed_event st2 = Some (to_dict e)" using ev1 k1 k2 by simp
    obtain u3 s3 where 3: "analyzer_invoke (ag_analyzer A) st2 s2 = (Inr u3, s3)"
      using bookkeeping.analyzer_returns [OF redis_server.circuit_bookkeeping [OF assms(1)] C(1) ev2, of s2] by blast
    define st3 where "st3 = merge st2 u3"
    note k3 = analysis_only_merge [OF analyzer_analysis_only [OF 3], of st2, folded st3_def]
    have ev3: "st_parsed_event st3 = Some (to_dict e)" using ev2 k3 by simp
    obtain u4 s4 where 4: "fix_generator_invoke (ag_fixer A) st3 s3 = (Inr u4, s4)"
      using bookkeeping.fix_generator_returns [OF redis_server.circuit_bookkeeping [OF assms(1)] C(2) ev3, of s3]
      by blast
    define st4 where "st4 = merge st3 u4"
    note k4 = analysis_only_merge [OF fixer_analysis_only [OF 4], of st3, folded st4_def]
    have "rescorable (ag_loads A) st4"
      using analyzer_rescorable [OF 3] L fixer_keeps_rescorable [OF 4]
      by (auto simp: rescorable_def st3_def st4_def upd_def)
    then obtain u5 where 5: "confidence_scorer_node A st4 s4 = (Inr u5, s4)"
      using scorer_total [of A st4 s4] by blast
    define st5 where "st5 = merge st4 u5"
    note k5 = analysis_only_merge [OF scorer_analysis_only [OF 5], of st4, folded st5_def]
    have "st_parsed_event st5 = Some (to_dict e)" "st_tenant_id st5 = Some t"
      using ev1 ev3 k1 k2 k3 k4 k5 by simp_all
    from tail_total [OF this, of A db s4] 1 2 3 4 5 show ?thesis
      by (auto simp: analysis_pipeline_def andthen_Inr st1_def st2_def st3_def st4_def st5_def)
  qed
  have "\<exists>st' s'. pipeline A db ?st s = (Inr st', s')"
  proof (cases "get_or (st_actionable st0) True")
    case True
    with analysis u0 show ?thesis by (simp add: pipeline_def andthen_Inr only_if_def st0_def)
  next
    case False
    with u0 show ?thesis by (simp add: pipeline_def andthen_Inr only_if_def st0_def)
  qed
  then show ?thesis by (simp add: agent_workflow_pipeline)
qed

text \<open>C10: on the dictionary of a validated event, which is what \<open>parse_log\<close> queues for
  \<open>run_agent\<close>, with the breakers of the agents in the worker's Redis, the workflow returns a state, whatever
  the models answer or raise, and whatever Redis, S3, the database and the embedding service do.  Of
  \<open>json.loads\<close> it needs that blanks around a decodable text do not matter and that a text in Markdown fences
  is not decodable.  (A dictionary that \<open>from_dict\<close> accepts only after converting it, such as one with its
  line as a text, is handed to the nodes unconverted and is not covered.)\<close>

theorem workflow_never_raises:
  assumes "redis_server (ag_redis A) view" "wired A"
  shows "\<exists>st' s'. agent_workflow A db (initial_state t (to_dict e) fp) s = (Inr st', s')"
  by (rule workflow_returns [OF assms])

subsection \<open>Witnesses\<close>

text \<open>A decoder of the empty object.\<close>

definition object_loads :: "string \<Rightarrow> json option" where
  "object_loads t = (if strip t = ''{}'' then Some (JObj []) else None)"

lemma object_decoder: "json_decoder object_loads"
proof -
  have "strip ''{}'' = ''{}''" "\<not> prefix fence ''{}''" "\<not> suffix fence ''{}''" by code_simp+
  then show ?thesis by (auto simp: json_decoder_def object_loads_def split: if_splits)
qed

definition sample_llm :: "breaker \<Rightarrow> mem llm_env" where
  "sample_llm cb = \<lparr>le_circuit = circuit cb mem, le_generate = (\<lambda>_ _. Inl TimeoutErr),
     le_loads = object_loads, le_dumps = (\<lambda>_. []), le_asked = 31, le_failed = 32, le_latency = 5\<rparr>"

definition sample_agents :: "mem agents" where
  "sample_agents = \<lparr>ag_redis = mem, ag_s3 = (\<lambda>_. None), ag_token_count = (\<lambda>_. None), ag_db_ok = True,
     ag_latency = 1, ag_loads = object_loads, ag_sha256 = (\<lambda>x. x), ag_vector_loads = (\<lambda>_. None),
     ag_vector_dumps = (\<lambda>_. []), ag_embedding = (\<lambda>_. Inl TimeoutErr), ag_distance = (\<lambda>_ _. 0),
     ag_analyzer = sample_llm analyzer_breaker, ag_fixer = sample_llm analyzer_breaker,
     ag_patcher = sample_llm analyzer_breaker, ag_message = (\<lambda>_. [])\<rparr>"

lemma sample_wired: "redis_server (ag_redis sample_agents) mem_view" "wired sample_agents"
  by (auto simp: sample_agents_def sample_llm_def wired_def object_decoder mem.redis_server_axioms)

theorem workflow_is_pipeline_witness:
  "follow (build_agent_workflow sample_agents (empty_db2 True))
     (g_entry (build_agent_workflow sample_agents (empty_db2 True))) crash_state idle_mem =
   Some (pipeline sample_agents (empty_db2 True) crash_state idle_mem)"
  by (rule workflow_is_pipeline [OF follow.graph_engine_axioms])

theorem workflow_never_raises_witness:
  "\<exists>st' s'. agent_workflow sample_agents crash_db (initial_state tenant_a (to_dict crash_event) ''f'')
      (idle_mem\<lparr>m_fail := [True, False, True]\<rparr>) = (Inr st', s')"
  by (rule workflow_never_raises [OF sample_wired])

theorem patches_follow_policy_witness:
  "\<exists>st' s'. agent_workflow sample_agents crash_db (initial_state tenant_a (to_dict crash_event) ''f'') idle_mem =
       (Inr st', s') \<and>
     (st_structured_patch st' \<noteq> None \<longrightarrow> st_action st' = Some ''create_incident'')"
proof -
  obtain st' s' where run: "agent_workflow sample_agents crash_db
      (initial_state tenant_a (to_dict crash_event) ''f'') idle_mem = (Inr st', s')"
    using workflow_returns [OF sample_wired, of crash_db tenant_a crash_event "''f''" idle_mem] by blast
  from patches_follow_policy [OF run] run show ?thesis by blast
qed

definition security_event :: parsed_log_event where
  "security_event = sample_event\<lparr>pe_error_type := ''PermissionError''\<rparr>"

lemma security_run:
  "(case execute_run_agent sample_sha mem (pipeline sample_agents) sample_env (to_dict security_event) idle
       (sample_db True) of
      (Inr (Completed c), s', db', fx) \<Rightarrow> True | _ \<Rightarrow> False)"
  by code_simp

theorem security_reported_as_draft_witness:
  "\<exists>c s' db' fx. execute_run_agent sample_sha mem (agent_workflow sample_agents) sample_env
       (to_dict security_event) idle (sample_db True) = (Inr (Completed c), s', db', fx) \<and>
     cp_action c = ''store_draft'' \<and> cp_is_draft c \<and> cp_structured_patch c = []"
proof -
  have wf: "agent_workflow sample_agents = pipeline sample_agents"
    by (intro ext) (rule agent_workflow_pipeline)
  obtain c s' db' fx where run: "execute_run_agent sample_sha mem (agent_workflow sample_agents) sample_env
       (to_dict security_event) idle (sample_db True) = (Inr (Completed c), s', db', fx)"
    using security_run unfolding wf by (auto split: prod.splits sum.splits outcome.splits)
  have "classify_category (strip (str_of ''error_type'' [] (to_dict security_event))) = ''security''"
    by code_simp
  from security_reported_as_draft [OF run this] run show ?thesis by blast
qed

end
