(* ===== verification/Orm.thy ===== *)
theory Orm
  imports Models
begin

text \<open>
  What the consumers do with decoded JSON and with tables: subscripts and conversions of the Python
  standard library, the checks PostgreSQL applies to a column when a value reaches it, and the
  operations on a table with a primary key, given as the list of its rows.
\<close>

subsection \<open>Python on decoded values\<close>

text \<open>\<open>d[k]\<close>\<close>

definition subscript :: "json \<Rightarrow> string \<Rightarrow> json res" where
  "subscript d k = (case d of
     JObj kvs \<Rightarrow> (case map_of kvs k of None \<Rightarrow> Inl (KeyError k) | Some v \<Rightarrow> Inr v)
   | _ \<Rightarrow> Inl (TypeError ''not subscriptable by a text''))"

text \<open>\<open>d.get(k)\<close> where \<open>d\<close> need not be a dictionary, and \<open>d.get(k, dflt)\<close> on a dictionary\<close>

definition dict_get :: "json \<Rightarrow> string \<Rightarrow> json res" where
  "dict_get d k = (case d of JObj kvs \<Rightarrow> Inr (jget k d) | _ \<Rightarrow> Inl (AttributeError ''get''))"

definition get_default :: "string \<Rightarrow> json \<Rightarrow> json \<Rightarrow> json" where
  "get_default k d dflt = (if jhas k d then jget k d else dflt)"

text \<open>\<open>int(v)\<close>, \<open>str(v)\<close> (given the rendering of floats) and \<open>uuid.UUID(str(v))\<close>\<close>

definition py_int :: "json \<Rightarrow> int res" where
  "py_int v = (case v of
     JInt i \<Rightarrow> Inr i
   | JBool b \<Rightarrow> Inr (if b then 1 else 0)
   | JFlt q \<Rightarrow> Inr (if 0 \<le> q then \<lfloor>q\<rfloor> else \<lceil>q\<rceil>)
   | JStr s \<Rightarrow> (case int_of_string s of None \<Rightarrow> Inl (ValueError s) | Some i \<Rightarrow> Inr i)
   | _ \<Rightarrow> Inl (TypeError ''int''))"

definition str_value :: "(rat \<Rightarrow> string) \<Rightarrow> json \<Rightarrow> string" where
  "str_value float_repr v = (case v of JFlt q \<Rightarrow> float_repr q | _ \<Rightarrow> py_str v)"

definition as_uuid :: "json \<Rightarrow> uuid res" where
  "as_uuid v = (case uuid_parse (py_str v) of
     None \<Rightarrow> Inl (ValueError ''badly formed hexadecimal UUID string'') | Some u \<Rightarrow> Inr u)"

text \<open>\<open>all([\<dots>])\<close> and membership of a decoded value in a tuple of texts\<close>

definition is_one_of :: "json \<Rightarrow> string list \<Rightarrow> bool" where
  "is_one_of v ss = (\<exists>s \<in> set ss. v = JStr s)"

subsection \<open>Columns\<close>

text \<open>
  The value of a text column (with its width, if bounded), of a 64-bit integer column and of an array of
  texts; null is \<open>None\<close>.  A value of another type is refused by the driver.
\<close>

definition text_col :: "string \<Rightarrow> nat option \<Rightarrow> json \<Rightarrow> string option res" where
  "text_col c w v = (case v of
     JNull \<Rightarrow> Inr None
   | JStr s \<Rightarrow> if (case w of None \<Rightarrow> True | Some n \<Rightarrow> length s \<le> n) then Inr (Some s)
              else Inl (DataError c)
   | _ \<Rightarrow> Inl (DataError c))"

definition fits_bigint :: "int \<Rightarrow> bool" where
  "fits_bigint i \<longleftrightarrow> - (2 ^ 63) \<le> i \<and> i < 2 ^ 63"

definition bigint_col :: "string \<Rightarrow> json \<Rightarrow> int option res" where
  "bigint_col c v = (case v of
     JNull \<Rightarrow> Inr None
   | JInt i \<Rightarrow> if fits_bigint i then Inr (Some i) else Inl (DataError c)
   | JBool b \<Rightarrow> Inr (Some (if b then 1 else 0))
   | _ \<Rightarrow> Inl (DataError c))"

definition bool_col :: "string \<Rightarrow> json \<Rightarrow> bool option res" where
  "bool_col c v = (case v of JNull \<Rightarrow> Inr None | JBool b \<Rightarrow> Inr (Some b) | _ \<Rightarrow> Inl (DataError c))"

fun texts_of :: "json list \<Rightarrow> string list option" where
  "texts_of [] = Some []"
| "texts_of (JStr s # vs) = map_option ((#) s) (texts_of vs)"
| "texts_of _ = None"

definition texts_col :: "string \<Rightarrow> json \<Rightarrow> string list option res" where
  "texts_col c v = (case v of
     JNull \<Rightarrow> Inr None
   | JArr vs \<Rightarrow> (case texts_of vs of None \<Rightarrow> Inl (DataError c) | Some ss \<Rightarrow> Inr (Some ss))
   | _ \<Rightarrow> Inl (DataError c))"

definition json_col :: "json \<Rightarrow> json option" where
  "json_col v = (if v = JNull then None else Some v)"

definition not_null :: "string \<Rightarrow> 'a option res \<Rightarrow> 'a res" where
  "not_null c r = bind_res r (\<lambda>x. case x of None \<Rightarrow> Inl (IntegrityError c) | Some v \<Rightarrow> Inr v)"

text \<open>A column whose default fills in for null when a row is inserted.\<close>

definition or_default :: "'a \<Rightarrow> 'a option res \<Rightarrow> 'a res" where
  "or_default d r = bind_res r (\<lambda>x. Inr (get_or x d))"

lemma subscript_simps [simp]:
  "subscript (JObj kvs) k = (case map_of kvs k of None \<Rightarrow> Inl (KeyError k) | Some v \<Rightarrow> Inr v)"
  by (simp add: subscript_def)

lemma texts_of_JStr [simp]: "texts_of (map JStr ss) = Some ss"
  by (induction ss) auto

lemma col_simps [simp]:
  "text_col c w JNull = Inr None" "text_col c None (JStr s) = Inr (Some s)"
  "text_col c (Some n) (JStr s) = (if length s \<le> n then Inr (Some s) else Inl (DataError c))"
  "texts_col c (JArr (map JStr ss)) = Inr (Some ss)" "texts_col c JNull = Inr None"
  "py_int (JInt i) = Inr i" "py_str (JStr s) = s"
  "not_null c (Inr (Some v)) = Inr v" "not_null c (Inr None) = Inl (IntegrityError c)"
  "not_null c (Inl e) = Inl e"
  "or_default d (Inr x) = Inr (get_or x d)" "or_default d (Inl e) = Inl e"
  by (simp_all add: text_col_def texts_col_def py_int_def py_str_def not_null_def or_default_def)

lemma as_uuid_text [simp]: "is_uuid u \<Longrightarrow> as_uuid (JStr u) = Inr u"
  by (simp add: as_uuid_def is_uuid_def)

subsection \<open>Tables with a primary key\<close>

definition row_at :: "('r \<Rightarrow> 'k) \<Rightarrow> 'k \<Rightarrow> 'r list \<Rightarrow> 'r option" where
  "row_at key k rows = List.find (\<lambda>r. key r = k) rows"

fun put_row :: "('r \<Rightarrow> 'k) \<Rightarrow> 'r \<Rightarrow> 'r list \<Rightarrow> 'r list" where
  "put_row key r [] = [r]"
| "put_row key r (x # rows) = (if key x = key r then r # rows else x # put_row key r rows)"

definition drop_row :: "('r \<Rightarrow> 'k) \<Rightarrow> 'k \<Rightarrow> 'r list \<Rightarrow> 'r list" where
  "drop_row key k rows = filter (\<lambda>r. key r \<noteq> k) rows"

lemma row_at_simps [simp]:
  "row_at key k [] = None"
  "row_at key k (r # rs) = (if key r = k then Some r else row_at key k rs)"
  by (simp_all add: row_at_def)

lemma row_at_append: "row_at key k (xs @ ys) =
    (case row_at key k xs of None \<Rightarrow> row_at key k ys | Some r \<Rightarrow> Some r)"
  by (induction xs) auto

lemma row_at_None: "row_at key k rows = None \<longleftrightarrow> k \<notin> key ` set rows"
  by (induction rows) auto

lemma row_at_Some: "row_at key k rows = Some r \<Longrightarrow> r \<in> set rows \<and> key r = k"
  by (induction rows) (auto split: if_splits)

lemma row_at_put [simp]:
  "row_at key k (put_row key r rows) = (if k = key r then Some r else row_at key k rows)"
  by (induction rows) auto

lemma row_at_drop [simp]:
  "row_at key k (drop_row key k' rows) = (if k = k' then None else row_at key k rows)"
  by (induction rows) (auto simp: drop_row_def)

lemma keys_put [simp]: "key ` set (put_row key r rows) = insert (key r) (key ` set rows)"
  by (induction rows) auto

lemma set_put_row: "set (put_row key r rows) \<subseteq> insert r (set rows)"
  by (induction rows) auto

lemma distinct_keys_put: "distinct (map key rows) \<Longrightarrow> distinct (map key (put_row key r rows))"
  by (induction rows) (auto simp: image_iff dest: subsetD [OF set_put_row])

lemma put_row_same: "row_at key (key r) rows = Some r \<Longrightarrow> put_row key r rows = rows"
  by (induction rows) (auto split: if_splits)

lemma put_row_twice [simp]:
  "key r = key q \<Longrightarrow> put_row key r (put_row key q rows) = put_row key r rows"
  by (induction rows) auto

lemma drop_row_absent: "row_at key k rows = None \<Longrightarrow> drop_row key k rows = rows"
  by (induction rows) (auto simp: drop_row_def split: if_splits)

lemma tenant_known_row: "tenant_known t db \<longleftrightarrow> row_at ts_tenant_id t (tenant_snapshots db) \<noteq> None"
  by (auto simp: tenant_known_def row_at_None)

end
