(* ===== verification/Kafka.thy ===== *)
theory Kafka
  imports Orm
begin

text \<open>
  The Kafka client (\<open>aiokafka\<close>) is not part of the repository: it is a record of the two operations the
  consumer loops use, and the locale states its documented behaviour.  A consumer has a position and a
  committed offset per partition; taking a message moves the position of its partition past it, and
  \<open>commit()\<close>, called without arguments, commits the positions of all partitions.  The shape of the loops
  of both consumers is here, with the verdict on each message as a parameter.
\<close>

record message =
  km_topic :: string
  km_partition :: nat
  km_offset :: nat
  km_value :: "string option"

type_synonym slot = "string \<times> nat"

definition slot :: "message \<Rightarrow> slot" where
  "slot m = (km_topic m, km_partition m)"

record 'k kafka =
  k_next :: "'k \<Rightarrow> message option res \<times> 'k"  \<comment> \<open>\<open>None\<close>: the loop is told to stop\<close>
  k_commit :: "'k \<Rightarrow> unit res \<times> 'k"

text \<open>What the body of a loop does after a message: commit, go on without, or end in an exception.\<close>

datatype verdict = Commit | Leave | Crash exn

text \<open>
  At most \<open>n\<close> rounds of \<open>async for message in consumer\<close>: the messages taken with their verdicts, the
  exception that ended the loop, and the states of the client and of the rest of the world.
\<close>

fun consume :: "'k kafka \<Rightarrow> (message \<Rightarrow> 'w \<Rightarrow> verdict \<times> 'w) \<Rightarrow> nat \<Rightarrow> 'k \<Rightarrow> 'w \<Rightarrow>
    (message \<times> verdict) list \<times> exn option \<times> 'k \<times> 'w" where
  "consume K handle 0 k w = ([], None, k, w)"
| "consume K handle (Suc n) k w =
     (case k_next K k of
        (Inl e, k1) \<Rightarrow> ([], Some e, k1, w)
      | (Inr None, k1) \<Rightarrow> ([], None, k1, w)
      | (Inr (Some m), k1) \<Rightarrow>
          (case handle m w of
             (Crash e, w1) \<Rightarrow> ([(m, Crash e)], Some e, k1, w1)
           | (Leave, w1) \<Rightarrow>
               (let (h, r) = consume K handle n k1 w1 in ((m, Leave) # h, r))
           | (Commit, w1) \<Rightarrow>
               (case k_commit K k1 of
                  (Inl e, k2) \<Rightarrow> ([(m, Commit)], Some e, k2, w1)
                | (Inr _, k2) \<Rightarrow>
                    (let (h, r) = consume K handle n k2 w1 in ((m, Commit) # h, r)))))"

locale kafka_consumer =
  fixes K :: "'k kafka"
    and position :: "'k \<Rightarrow> slot \<Rightarrow> nat"
    and committed :: "'k \<Rightarrow> slot \<Rightarrow> nat"
  assumes next_ok: "k_next K k = (Inr (Some m), k') \<Longrightarrow>
        position k (slot m) \<le> km_offset m \<and>
        position k' = (position k)(slot m := Suc (km_offset m)) \<and> committed k' = committed k"
    and next_none: "k_next K k = (Inr None, k') \<Longrightarrow>
        position k' = position k \<and> committed k' = committed k"
    and next_err: "k_next K k = (Inl e, k') \<Longrightarrow>
        position k' = position k \<and> committed k' = committed k"
    and commit_ok: "k_commit K k = (Inr u, k') \<Longrightarrow>
        position k' = position k \<and> committed k' = position k"
    and commit_err: "k_commit K k = (Inl e, k') \<Longrightarrow>
        position k' = position k \<and> (committed k' = committed k \<or> committed k' = position k)"
begin

text \<open>The four ways a round goes.\<close>

lemma consume_cases:
  assumes "consume K handle (Suc n) k w = (h, oc, k', w')"
  obtains (ended) "h = []" "w' = w" "position k' = position k" "committed k' = committed k"
  | (crashed) m e k1 where "k_next K k = (Inr (Some m), k1)" "handle m w = (Crash e, w')" "k' = k1"
      "h = [(m, Crash e)]" "oc = Some e"
  | (left) m k1 w1 h' where "k_next K k = (Inr (Some m), k1)" "handle m w = (Leave, w1)"
      "consume K handle n k1 w1 = (h', oc, k', w')" "h = (m, Leave) # h'"
  | (uncommitted) m e k1 where "k_next K k = (Inr (Some m), k1)" "handle m w = (Commit, w')"
      "k_commit K k1 = (Inl e, k')" "h = [(m, Commit)]" "oc = Some e"
  | (acked) m k1 w1 k2 h' where "k_next K k = (Inr (Some m), k1)" "handle m w = (Commit, w1)"
      "k_commit K k1 = (Inr (), k2)" "consume K handle n k2 w1 = (h', oc, k', w')"
      "h = (m, Commit) # h'"
proof -
  obtain r k1 where nx: "k_next K k = (r, k1)" by fastforce
  show ?thesis
  proof (cases r)
    case (Inl e)
    with assms nx have "h = []" "w' = w" "k' = k1" by auto
    with next_err nx Inl show ?thesis by (metis ended)
  next
    case (Inr x)
    show ?thesis
    proof (cases x)
      case None
      with assms nx Inr have "h = []" "w' = w" "k' = k1" by auto
      with next_none nx Inr None show ?thesis by (metis ended)
    next
      case (Some m)
      obtain v w1 where hd: "handle m w = (v, w1)" by fastforce
      show ?thesis
      proof (cases v)
        case Commit
        obtain c k2 where cm: "k_commit K k1 = (c, k2)" by fastforce
        with assms nx hd Inr Some Commit show ?thesis
          by (cases c) (auto intro: uncommitted acked split: prod.splits)
      next
        case Leave
        with assms nx hd Inr Some show ?thesis by (auto intro: left split: prod.splits)
      next
        case (Crash e)
        with assms nx hd Inr Some show ?thesis by (auto intro: crashed)
      qed
    qed
  qed
qed

lemma consume_grows:
  assumes "consume K handle n k w = (h, oc, k', w')" "committed k s \<le> position k s"
  shows "position k s \<le> position k' s \<and> committed k s \<le> committed k' s \<and>
         committed k' s \<le> position k' s"
  using assms
proof (induction n arbitrary: k w h)
  case (Suc n)
  from Suc.prems(1) show ?case
  proof (cases rule: consume_cases)
    case ended
    with Suc.prems(2) show ?thesis by simp
  next
    case (crashed m e k1)
    with next_ok [OF crashed(1)] Suc.prems(2) show ?thesis by auto
  next
    case (left m k1 w1 h')
    with next_ok [OF left(1)] Suc.prems(2) have "position k s \<le> position k1 s"
      "committed k1 s = committed k s" "committed k1 s \<le> position k1 s" by auto
    with Suc.IH [OF left(3)] show ?thesis by simp
  next
    case (uncommitted m e k1)
    with next_ok [OF uncommitted(1)] commit_err [OF uncommitted(3)] Suc.prems(2)
    show ?thesis by auto
  next
    case (acked m k1 w1 k2 h')
    with next_ok [OF acked(1)] commit_ok [OF acked(3)] Suc.prems(2)
    have "position k s \<le> position k2 s" "committed k s \<le> committed k2 s"
      "committed k2 s \<le> position k2 s" by auto
    with Suc.IH [OF acked(4)] show ?thesis by simp
  qed
qed simp

text \<open>A later commit covers every message taken before it, whatever its verdict was.\<close>

lemma commit_covers:
  assumes "consume K handle n k w = (h1 @ (m, Leave) # h2 @ (m', Commit) # h3, oc, k', w')"
    and "\<And>s. committed k s \<le> position k s" and "oc = None \<or> h3 \<noteq> []"
  shows "km_offset m < committed k' (slot m)"
proof -
  have passed: "p \<le> committed k' s"
    if "consume K handle n k w = (h2 @ (m', Commit) # h3, oc, k', w')" "p \<le> position k s"
      "\<And>s. committed k s \<le> position k s" "oc = None \<or> h3 \<noteq> []" for n k w h2 h3 p s
    using that
  proof (induction n arbitrary: k w h2)
    case (Suc n)
    from Suc.prems(1) show ?case
    proof (cases rule: consume_cases)
      case (left m0 k1 w1 h')
      then obtain h2' where h2': "h2 = (m0, Leave) # h2'" "h' = h2' @ (m', Commit) # h3"
        by (cases h2) auto
      have "p \<le> position k1 s" "committed k1 t \<le> position k1 t" for t
        using next_ok [OF left(1)] Suc.prems(2) Suc.prems(3) [of t]
        by (auto intro: order_trans)
      with Suc.IH [OF left(3) [unfolded h2'(2)]] Suc.prems(4) show ?thesis by blast
    next
      case (acked m0 k1 w1 k2 h')
      have pos: "p \<le> position k1 s" using next_ok [OF acked(1)] Suc.prems(2) by auto
      have k2: "position k2 = position k1" "committed k2 = position k1"
        using commit_ok [OF acked(3)] by auto
      show ?thesis
      proof (cases h2)
        case Nil
        have "committed k2 s \<le> committed k' s"
          using consume_grows [where s = s, OF acked(4)] k2 by simp
        with k2 pos show ?thesis by simp
      next
        case (Cons x h2')
        with acked(5) have "h' = h2' @ (m', Commit) # h3" by simp
        with Suc.IH [OF acked(4) [unfolded this]] pos k2 Suc.prems(4) show ?thesis by simp
      qed
    qed (use Suc.prems in \<open>auto simp: Cons_eq_append_conv append_eq_Cons_conv\<close>)
  qed simp
  show ?thesis
    using assms
  proof (induction n arbitrary: k w h1)
    case (Suc n)
    from Suc.prems(1) show ?case
    proof (cases rule: consume_cases)
      case (left m0 k1 w1 h')
      have inv: "committed k1 t \<le> position k1 t" for t
        using next_ok [OF left(1)] Suc.prems(2) [of t] by (auto intro: order_trans)
      show ?thesis
      proof (cases h1)
        case Nil
        with left have m0: "m0 = m" and h': "h' = h2 @ (m', Commit) # h3" by auto
        have "Suc (km_offset m) \<le> position k1 (slot m)" using next_ok [OF left(1)] m0 by auto
        from passed [OF left(3) [unfolded h'] this inv Suc.prems(3)] show ?thesis by simp
      next
        case (Cons x h1')
        with left(4) have "h' = h1' @ (m, Leave) # h2 @ (m', Commit) # h3" by simp
        from Suc.IH [OF left(3) [unfolded this] inv Suc.prems(3)] show ?thesis .
      qed
    next
      case (acked m0 k1 w1 k2 h')
      then obtain h1' where "h' = h1' @ (m, Leave) # h2 @ (m', Commit) # h3" by (cases h1) auto
      moreover have "committed k2 t \<le> position k2 t" for t
        using commit_ok [OF acked(3)] by auto
      ultimately show ?thesis using Suc.IH acked(4) Suc.prems(3) by blast
    qed (use Suc.prems in \<open>auto simp: Cons_eq_append_conv append_eq_Cons_conv\<close>)
  qed simp
qed

text \<open>A message whose handling ended the loop is not committed: the next consumer sees it again.\<close>

lemma crash_redelivers:
  assumes "consume K handle n k w = (h @ [(m, Crash e)], oc, k', w')"
    and "\<And>s. committed k s \<le> position k s"
  shows "committed k' (slot m) \<le> km_offset m"
  using assms
proof (induction n arbitrary: k w h)
  case (Suc n)
  from Suc.prems(1) show ?case
  proof (cases rule: consume_cases)
    case (crashed m0 e0 k1)
    then have m0: "m0 = m" by (cases h) auto
    have "committed k' (slot m) = committed k (slot m)" "position k (slot m) \<le> km_offset m"
      using next_ok [OF crashed(1)] crashed(3) m0 by auto
    with Suc.prems(2) [of "slot m"] show ?thesis by simp
  next
    case (left m0 k1 w1 h')
    then obtain h1' where "h' = h1' @ [(m, Crash e)]" by (cases h) auto
    moreover have "committed k1 t \<le> position k1 t" for t
      using next_ok [OF left(1)] Suc.prems(2) [of t] by (auto intro: order_trans)
    ultimately show ?thesis using Suc.IH left(3) by blast
  next
    case (acked m0 k1 w1 k2 h')
    then obtain h1' where "h' = h1' @ [(m, Crash e)]" by (cases h) auto
    moreover have "committed k2 t \<le> position k2 t" for t
      using commit_ok [OF acked(3)] by auto
    ultimately show ?thesis using Suc.IH acked(4) by blast
  qed (use Suc.prems in auto)
qed simp

end

subsection \<open>A log in memory\<close>

record klog =
  kl_messages :: "message list"
  kl_position :: "slot \<Rightarrow> nat"
  kl_committed :: "slot \<Rightarrow> nat"

definition klog :: "klog kafka" where
  "klog = \<lparr>
     k_next = (\<lambda>k. case dropWhile (\<lambda>m. km_offset m < kl_position k (slot m)) (kl_messages k) of
        [] \<Rightarrow> (Inr None, k)
      | m # ms \<Rightarrow> (Inr (Some m), k\<lparr>kl_messages := ms,
            kl_position := (kl_position k)(slot m := Suc (km_offset m))\<rparr>)),
     k_commit = (\<lambda>k. (Inr (), k\<lparr>kl_committed := kl_position k\<rparr>))\<rparr>"

interpretation klog: kafka_consumer klog kl_position kl_committed
proof
  fix k m k'
  assume a: "k_next klog k = (Inr (Some m), k')"
  then obtain ms where d: "dropWhile (\<lambda>m. km_offset m < kl_position k (slot m)) (kl_messages k) = m # ms"
    by (auto simp: klog_def split: list.splits)
  then have "\<not> km_offset m < kl_position k (slot m)"
    using hd_dropWhile [of "\<lambda>m. km_offset m < kl_position k (slot m)" "kl_messages k"] by simp
  with a d show "kl_position k (slot m) \<le> km_offset m \<and>
      kl_position k' = (kl_position k)(slot m := Suc (km_offset m)) \<and> kl_committed k' = kl_committed k"
    by (auto simp: klog_def)
qed (auto simp: klog_def split: list.splits)

definition klog_of :: "message list \<Rightarrow> klog" where
  "klog_of ms = \<lparr>kl_messages = ms, kl_position = (\<lambda>_. 0), kl_committed = (\<lambda>_. 0)\<rparr>"

end
