(* ===== verification/Github_Auth.thy ===== *)
theory Github_Auth
  imports Orm
begin

text \<open>
  \<open>app/services/github_auth.py\<close>: installation tokens of the GitHub App, cached in Redis, and the lookup of
  a branch's head that \<open>config_sync.py\<close> does with them.  The signature of the App's JWT and the HTTP client
  are parameters: functions from the request to the response or to an exception.
\<close>

record http_response =
  hr_status :: int
  hr_text :: string
  hr_json :: "json option"  \<comment> \<open>\<open>None\<close>: the body is not JSON\<close>

record github_api =
  gh_sign :: "string res"  \<comment> \<open>\<open>jwt.encode\<close> of the App's claims\<close>
  gh_app_configured :: bool
  gh_post :: "string \<Rightarrow> string \<Rightarrow> http_response res"  \<comment> \<open>url and bearer token\<close>
  gh_get :: "string \<Rightarrow> string \<Rightarrow> http_response res"

text \<open>Network failures of the HTTP client (\<open>httpx.RequestError\<close>).\<close>

definition is_request_error :: "exn \<Rightarrow> bool" where
  "is_request_error e = (case e of TimeoutErr \<Rightarrow> True | OSErr _ \<Rightarrow> True | _ \<Rightarrow> False)"

definition RuntimeError :: exn where
  "RuntimeError = OtherError ''RuntimeError''"

definition generate_app_jwt :: "github_api \<Rightarrow> string res" where
  "generate_app_jwt G = (if \<not> gh_app_configured G then Inl RuntimeError
     else case gh_sign G of Inl e \<Rightarrow> Inl RuntimeError | Inr t \<Rightarrow> Inr t)"

definition token_cache_key :: "json \<Rightarrow> string" where
  "token_cache_key installation = ''github:token:'' @ py_str installation"

definition TOKEN_TTL :: int where
  "TOKEN_TTL = 55 * 60"

definition token_url :: "json \<Rightarrow> string" where
  "token_url installation = ''https://api.github.com/app/installations/'' @ py_str installation @
     ''/access_tokens''"

text \<open>A response other than 201, a body without token and a network failure are runtime errors.\<close>

definition fetch_token :: "github_api \<Rightarrow> json \<Rightarrow> string res" where
  "fetch_token G installation =
     bind_res (generate_app_jwt G) (\<lambda>jwt.
       case gh_post G (token_url installation) jwt of
         Inl e \<Rightarrow> Inl (if is_request_error e then RuntimeError else e)
       | Inr r \<Rightarrow>
           if hr_status r \<noteq> 201 then Inl RuntimeError
           else (case hr_json r of
                   None \<Rightarrow> Inl (ValueError ''json'')
                 | Some d \<Rightarrow> bind_res (dict_get d ''token'') (\<lambda>t.
                     if \<not> truthy t then Inl RuntimeError else Inr (py_str t))))"

definition get_installation_token :: "'s redis \<Rightarrow> github_api \<Rightarrow> json \<Rightarrow> ('s, string) prog" where
  "get_installation_token R G installation =
     rbind (r_get R (token_cache_key installation)) (\<lambda>cached.
       case nonempty (map_option reply_str cached) of
         Some t \<Rightarrow> rret t
       | None \<Rightarrow> (case fetch_token G installation of
                 Inl e \<Rightarrow> rfail e
               | Inr t \<Rightarrow> rbind (r_setex R (token_cache_key installation) TOKEN_TTL (Text t)) (\<lambda>_. rret t)))"

text \<open>\<open>_resolve_branch_sha\<close> of \<open>config_sync.py\<close>: any failure is \<open>None\<close>.\<close>

definition branch_url :: "json \<Rightarrow> json \<Rightarrow> string \<Rightarrow> string" where
  "branch_url owner repo branch = ''https://api.github.com/repos/'' @ py_str owner @ ''/'' @
     py_str repo @ ''/branches/'' @ branch"

definition resolve_branch_sha ::
  "'s redis \<Rightarrow> github_api \<Rightarrow> json \<Rightarrow> json \<Rightarrow> string \<Rightarrow> json \<Rightarrow> 's \<Rightarrow> json \<times> 's" where
  "resolve_branch_sha R G owner repo branch installation s =
     (case get_installation_token R G installation s of
        (Inl e, s1) \<Rightarrow> (JNull, s1)
      | (Inr token, s1) \<Rightarrow>
          (case gh_get G (branch_url owner repo branch) token of
             Inl e \<Rightarrow> (JNull, s1)
           | Inr r \<Rightarrow>
               (if hr_status r \<noteq> 200 then JNull
                else (case hr_json r of
                        None \<Rightarrow> JNull
                      | Some d \<Rightarrow> (case bind_res (subscript d ''commit'') (\<lambda>c. subscript c ''sha'') of
                                    Inl e \<Rightarrow> JNull | Inr sha \<Rightarrow> sha)), s1)))"

text \<open>A token that is in the cache is used without any request, and a fresh one is left in the cache.\<close>

lemma token_from_cache:
  assumes "redis_server R view" "view s (token_cache_key i) = Some (Text t)" "t \<noteq> []"
    and "get_installation_token R G i s = (Inr t', s')"
  shows "t' = t"
  using assms
  by (cases rule: redis_server.get_cases [OF assms(1), of "token_cache_key i" s])
     (auto simp: get_installation_token_def rbind_def rret_def nonempty_def reply_str_def)

lemma token_cached:
  assumes "redis_server R view" "get_installation_token R G i s = (Inr t, s')"
    and "view s (token_cache_key i) = None"
  shows "view s' (token_cache_key i) = Some (Text t)"
  using assms(2,3) redis_server.setex_ok [OF assms(1)]
  by (cases rule: redis_server.get_cases [OF assms(1), of "token_cache_key i" s])
     (fastforce simp: get_installation_token_def rbind_def rret_def rfail_def
        split: sum.splits prod.splits)+

end
