(* ===== verification/Config_Sync.thy ===== *)
theory Config_Sync
  imports Kafka Github_Auth
begin

text \<open>
  \<open>app/queue/kafka/consumers/config_sync.py\<close>: the consumer that keeps the snapshot tables of DB-2 in step
  with Django's configuration.  A handler is a transaction on DB-2 followed by the invalidation of the
  Redis caches and the Celery tasks; it returns the database, the Redis state and the tasks it queued.
  The texts that floats are rendered to, failures of the database and of the broker, and GitHub are
  parameters.
\<close>

datatype config_task =
    IndexCodeTask string json json  \<comment> \<open>tenant, repository url and commit, \<open>is_initial=True\<close>\<close>
  | CleanupTask string string string
  | EmbedPlaybookTask string string "string option" json json int bool

record 's config_env =
  ce_redis :: "'s redis"
  ce_now :: time
  ce_float_repr :: "rat \<Rightarrow> string"
  ce_db_error :: "exn option"  \<comment> \<open>the session cannot be opened or its first query fails\<close>
  ce_commit_error :: "exn option"
  ce_broker :: "config_task \<Rightarrow> exn option"  \<comment> \<open>\<open>delay\<close> raises\<close>
  ce_github :: github_api

text \<open>\<open>async with session.begin()\<close>: an exception, of the body or of the commit, rolls back; what the
  body has queued by then is queued.\<close>

definition transact ::
  "'s config_env \<Rightarrow> (db2 \<Rightarrow> ('a \<times> db2) res \<times> config_task list) \<Rightarrow> db2 \<Rightarrow>
   'a res \<times> db2 \<times> config_task list" where
  "transact env body db =
     (case ce_db_error env of
        Some e \<Rightarrow> (Inl e, db, [])
      | None \<Rightarrow>
          (case body db of
             (Inl e, fx) \<Rightarrow> (Inl e, db, fx)
           | (Inr (x, db'), fx) \<Rightarrow>
               (case ce_commit_error env of Some e \<Rightarrow> (Inl e, db, fx) | None \<Rightarrow> (Inr x, db', fx))))"

subsection \<open>Versions\<close>

text \<open>The staleness check that every handler makes before it touches a row.\<close>

definition stale :: "int option \<Rightarrow> int \<Rightarrow> bool" where
  "stale existing incoming = (case existing of None \<Rightarrow> False | Some w \<Rightarrow> incoming \<le> w)"

datatype 'r sync = Discard | Remove | Put 'r

text \<open>The decision tree of the alert-rule and playbook handlers for one row.\<close>

definition versioned ::
  "('r \<Rightarrow> int option) \<Rightarrow> int \<Rightarrow> bool \<Rightarrow> ('r option \<Rightarrow> 'r res) \<Rightarrow> 'r option \<Rightarrow> 'r sync res" where
  "versioned ver v deleted mk old =
     (case old of
        None \<Rightarrow> if deleted then Inr Discard else bind_res (mk None) (\<lambda>r. Inr (Put r))
      | Some r \<Rightarrow> if stale (ver r) v then Inr Discard
                  else if deleted then Inr Remove
                  else bind_res (mk (Some r)) (\<lambda>r'. Inr (Put r')))"

text \<open>The fields both read first: the block, the two ids, the version and the deletion flag.\<close>

definition event_of :: "json \<Rightarrow> string \<Rightarrow> (json \<times> uuid \<times> uuid \<times> int \<times> bool) res" where
  "event_of payload block =
     bind_res (subscript payload block) (\<lambda>d.
     bind_res (bind_res (subscript d ''id'') as_uuid) (\<lambda>i.
     bind_res (bind_res (subscript d ''tenant_id'') as_uuid) (\<lambda>t.
     bind_res (bind_res (subscript d ''source_version'') py_int) (\<lambda>v.
       Inr (d, i, t, v, truthy (jget ''deleted'' d))))))"

subsection \<open>Redis\<close>

definition tenant_config_cache_key :: "string \<Rightarrow> string" where
  "tenant_config_cache_key tenant = ''tenant:'' @ tenant @ '':config''"

definition rate_limit_key :: "string \<Rightarrow> string" where
  "rate_limit_key tenant = ''rl:ingest:'' @ tenant"

text \<open>One \<open>DEL\<close> of three keys is atomic, as a transaction of three is; its exceptions are logged.\<close>

definition invalidate_tenant_cache :: "'s redis \<Rightarrow> string \<Rightarrow> 's \<Rightarrow> 's" where
  "invalidate_tenant_cache R tenant s =
     snd (r_exec R [CDel (tenant_config_cache_key tenant), CDel (rate_limit_key tenant),
            CDel (''rl:agent:'' @ tenant)] s)"

subsection \<open>Alert rules\<close>

definition rule_row ::
  "'s config_env \<Rightarrow> json \<Rightarrow> uuid \<Rightarrow> uuid \<Rightarrow> int \<Rightarrow> alert_rule_snapshot option \<Rightarrow> alert_rule_snapshot res" where
  "rule_row env d i tenant v old =
     (let threshold = (if jhas ''confidence_threshold'' d
            then (case jget ''confidence_threshold'' d of JNull \<Rightarrow> None
                  | x \<Rightarrow> Some (str_value (ce_float_repr env) x))
            else Option.bind old ar_confidence_threshold)
      in if \<not> fits_bigint v then Inl (DataError ''source_version'')
         else if (case threshold of None \<Rightarrow> False | Some t \<Rightarrow> 16 < length t)
              then Inl (DataError ''confidence_threshold'')
         else bind_res (texts_col ''severity_filter'' (get_default ''severity_filter'' d
                  (jopt jstrs (Option.bind old ar_severity_filter)))) (\<lambda>severities.
           Inr \<lparr>ar_rule_id = i, ar_tenant_id = tenant, ar_confidence_threshold = threshold,
                ar_severity_filter = severities,
                ar_destinations = json_col (get_default ''destinations'' d
                  (jopt id (Option.bind old ar_destinations))),
                ar_enabled = truthy (get_default ''enabled'' d
                  (JBool (case old of None \<Rightarrow> True | Some r \<Rightarrow> ar_enabled r))),
                ar_source_version = Some v\<rparr>))"

definition rule_body ::
  "'s config_env \<Rightarrow> json \<Rightarrow> uuid \<Rightarrow> uuid \<Rightarrow> int \<Rightarrow> bool \<Rightarrow> db2 \<Rightarrow> (bool \<times> db2) res \<times> config_task list" where
  "rule_body env d i tenant v deleted db =
     (case versioned ar_source_version v deleted (rule_row env d i tenant v)
             (row_at ar_rule_id i (alert_rule_snapshots db)) of
        Inl e \<Rightarrow> (Inl e, [])
      | Inr Discard \<Rightarrow> (Inr (False, db), [])
      | Inr Remove \<Rightarrow>
          (Inr (True, db\<lparr>alert_rule_snapshots := drop_row ar_rule_id i (alert_rule_snapshots db)\<rparr>), [])
      | Inr (Put r) \<Rightarrow>
          if \<not> tenant_known tenant db then (Inl (IntegrityError ''alert_rule_snapshots_tenant_id_fkey''), [])
          else (Inr (True, db\<lparr>alert_rule_snapshots := put_row ar_rule_id r (alert_rule_snapshots db)\<rparr>), []))"

type_synonym 's handled = "unit res \<times> db2 \<times> 's \<times> config_task list"

definition handle_alert_rule_event :: "'s config_env \<Rightarrow> json \<Rightarrow> db2 \<Rightarrow> 's \<Rightarrow> 's handled" where
  "handle_alert_rule_event env payload db s =
     (case event_of payload ''alert_rule'' of
        Inl e \<Rightarrow> (Inl e, db, s, [])
      | Inr (d, i, tenant, v, deleted) \<Rightarrow>
          (case transact env (rule_body env d i tenant v deleted) db of
             (Inl e, db', fx) \<Rightarrow> (Inl e, db', s, fx)
           | (Inr changed, db', fx) \<Rightarrow>
               (Inr (), db', if changed then invalidate_tenant_cache (ce_redis env) tenant s else s, fx)))"

subsection \<open>Playbooks\<close>

text \<open>The embedding of a playbook refers to its row and is deleted with it.\<close>

definition playbook_row ::
  "json \<Rightarrow> uuid \<Rightarrow> uuid \<Rightarrow> int \<Rightarrow> playbook_snapshot option \<Rightarrow> playbook_snapshot res" where
  "playbook_row d i tenant v old =
     (if \<not> fits_bigint v then Inl (DataError ''source_version'')
      else bind_res (text_col ''error_pattern'' None (get_default ''error_pattern'' d
               (jopt JStr (Option.bind old pb_error_pattern)))) (\<lambda>pattern.
        bind_res (text_col ''instructions'' None (get_default ''instructions'' d
               (jopt JStr (Option.bind old pb_instructions)))) (\<lambda>instructions.
          Inr \<lparr>pb_playbook_id = i, pb_tenant_id = tenant, pb_error_pattern = pattern,
               pb_instructions = instructions, pb_source_version = Some v\<rparr>)))"

definition playbook_body ::
  "json \<Rightarrow> uuid \<Rightarrow> uuid \<Rightarrow> int \<Rightarrow> bool \<Rightarrow> db2 \<Rightarrow> (bool \<times> db2) res \<times> config_task list" where
  "playbook_body d i tenant v deleted db =
     (case versioned pb_source_version v deleted (playbook_row d i tenant v)
             (row_at pb_playbook_id i (playbook_snapshots db)) of
        Inl e \<Rightarrow> (Inl e, [])
      | Inr Discard \<Rightarrow> (Inr (False, db), [])
      | Inr Remove \<Rightarrow>
          (Inr (True, db\<lparr>playbook_snapshots := drop_row pb_playbook_id i (playbook_snapshots db),
                 playbook_embeddings := drop_row em_playbook_id i (playbook_embeddings db)\<rparr>), [])
      | Inr (Put r) \<Rightarrow>
          if \<not> tenant_known tenant db then (Inl (IntegrityError ''playbook_snapshots_tenant_id_fkey''), [])
          else (Inr (True, db\<lparr>playbook_snapshots := put_row pb_playbook_id r (playbook_snapshots db)\<rparr>), []))"

definition queue_task :: "'s config_env \<Rightarrow> config_task \<Rightarrow> unit res \<times> config_task list" where
  "queue_task env t = (case ce_broker env t of Some e \<Rightarrow> (Inl e, []) | None \<Rightarrow> (Inr (), [t]))"

definition handle_playbook_event :: "'s config_env \<Rightarrow> json \<Rightarrow> db2 \<Rightarrow> 's \<Rightarrow> 's handled" where
  "handle_playbook_event env payload db s =
     (case event_of payload ''playbook'' of
        Inl e \<Rightarrow> (Inl e, db, s, [])
      | Inr (d, i, tenant, v, deleted) \<Rightarrow>
          (case transact env (playbook_body d i tenant v deleted) db of
             (Inl e, db', fx) \<Rightarrow> (Inl e, db', s, fx)
           | (Inr False, db', fx) \<Rightarrow> (Inr (), db', s, fx)
           | (Inr True, db', fx) \<Rightarrow>
               (let plan = (case row_at ts_tenant_id tenant (tenant_snapshots db') of
                              None \<Rightarrow> Some ''standard'' | Some t \<Rightarrow> ts_plan_tier t);
                    (r, queued) = queue_task env (EmbedPlaybookTask i tenant plan
                       (get_default ''error_pattern'' d (JStr [])) (get_default ''instructions'' d (JStr []))
                       v deleted)
                in (r, db', invalidate_tenant_cache (ce_redis env) tenant s, fx @ queued))))"

subsection \<open>Tenants\<close>

definition tenant_row :: "uuid \<Rightarrow> int \<Rightarrow> json \<Rightarrow> tenant_snapshot option \<Rightarrow> tenant_snapshot res" where
  "tenant_row i v d old =
     (if \<not> fits_bigint v then Inl (DataError ''source_version'')
      else bind_res (text_col ''plan_tier'' (Some 32)
               (get_default ''plan_tier'' d (jopt JStr (Option.bind old ts_plan_tier)))) (\<lambda>plan.
        bind_res (text_col ''vector_namespace'' (Some 64)
               (get_default ''vector_namespace'' d (jopt JStr (Option.bind old ts_vector_namespace)))) (\<lambda>ns.
        bind_res (text_col ''kafka_group_id'' (Some 128)
               (get_default ''kafka_group_id'' d (jopt JStr (Option.bind old ts_kafka_group_id)))) (\<lambda>group.
          Inr \<lparr>ts_tenant_id = i, ts_plan_tier = plan, ts_vector_namespace = ns,
               ts_kafka_group_id = group,
               ts_is_suspended = truthy (get_default ''is_suspended'' d
                 (JBool (case old of None \<Rightarrow> False | Some t \<Rightarrow> ts_is_suspended t))),
               ts_source_version = Some v\<rparr>))))"

text \<open>An integration event updates the row, whose installation id it takes as it is, or creates one,
  whose installation id it converts.\<close>

definition updated_integration ::
  "int \<Rightarrow> json \<Rightarrow> github_integration_snapshot \<Rightarrow> github_integration_snapshot res" where
  "updated_integration v d r =
     (let text = (\<lambda>c w old. not_null c (text_col c w (get_default c d (JStr old)))) in
      bind_res (text ''repo_url'' None (gi_repo_url r)) (\<lambda>url.
      bind_res (text ''repo_owner'' (Some 255) (gi_repo_owner r)) (\<lambda>owner.
      bind_res (text ''repo_name'' (Some 255) (gi_repo_name r)) (\<lambda>name.
      bind_res (bigint_col ''installation_id'' (jget ''installation_id'' d)) (\<lambda>installation.
      bind_res (text ''default_branch'' (Some 255) (gi_default_branch r)) (\<lambda>branch.
      bind_res (text ''indexing_status'' (Some 20) (gi_indexing_status r)) (\<lambda>status.
      bind_res (text_col ''last_indexed_commit'' (Some 40)
          (get_default ''last_indexed_commit'' d (jopt JStr (gi_last_indexed_commit r)))) (\<lambda>commit.
        Inr (r\<lparr>gi_repo_url := url, gi_repo_owner := owner, gi_repo_name := name,
          gi_installation_id := installation, gi_default_branch := branch,
          gi_indexing_status := status, gi_last_indexed_commit := commit,
          gi_source_version := v\<rparr>)))))))))"

definition created_integration ::
  "uuid \<Rightarrow> uuid \<Rightarrow> int \<Rightarrow> json \<Rightarrow> github_integration_snapshot res" where
  "created_integration i tenant v d =
     (let text = (\<lambda>c w. bind_res (subscript d c) (\<lambda>x. not_null c (text_col c w x))) in
      bind_res (text ''repo_url'' None) (\<lambda>url.
      bind_res (text ''repo_owner'' (Some 255)) (\<lambda>owner.
      bind_res (text ''repo_name'' (Some 255)) (\<lambda>name.
      bind_res (if truthy (jget ''installation_id'' d)
                then bind_res (py_int (jget ''installation_id'' d))
                       (\<lambda>n. bigint_col ''installation_id'' (JInt n))
                else Inr None) (\<lambda>installation.
      bind_res (not_null ''default_branch'' (text_col ''default_branch'' (Some 255)
          (get_default ''default_branch'' d (JStr ''main'')))) (\<lambda>branch.
      bind_res (or_default ''pending'' (text_col ''indexing_status'' (Some 20)
          (get_default ''indexing_status'' d (JStr ''pending'')))) (\<lambda>status.
      bind_res (text_col ''last_indexed_commit'' (Some 40) (jget ''last_indexed_commit'' d)) (\<lambda>commit.
        Inr \<lparr>gi_id = i, gi_tenant_id = tenant, gi_repo_url = url, gi_repo_owner = owner,
          gi_repo_name = name, gi_installation_id = installation, gi_default_branch = branch,
          gi_indexing_status = status, gi_last_indexed_commit = commit,
          gi_source_version = v\<rparr>))))))))"

text \<open>The block of an event with its action and data, when both are there.\<close>

definition action_block :: "json \<Rightarrow> string \<Rightarrow> (json \<times> json \<times> uuid) option res" where
  "action_block ev k =
     (if \<not> truthy ev then Inr None
      else bind_res (dict_get ev ''action'') (\<lambda>action. bind_res (dict_get ev k) (\<lambda>data.
        if truthy action \<and> truthy data
        then bind_res (bind_res (subscript data ''id'') as_uuid) (\<lambda>i. Inr (Some (action, data, i)))
        else Inr None)))"

text \<open>The status an updated row had before is passed on.\<close>

definition sync_integration ::
  "'s config_env \<Rightarrow> uuid \<Rightarrow> int \<Rightarrow> json \<Rightarrow> db2 \<Rightarrow> (string option \<times> db2) res \<times> config_task list" where
  "sync_integration env tenant v ev db =
     (let rows = github_integration_snapshots db in
      case action_block ev ''integration'' of
        Inl e \<Rightarrow> (Inl e, [])
      | Inr None \<Rightarrow> (Inr (None, db), [])
      | Inr (Some (action, d, i)) \<Rightarrow>
          if action = JStr ''deleted'' then
            (case row_at gi_id i rows of
               None \<Rightarrow> (Inr (None, db), [])
             | Some r \<Rightarrow>
                 (case queue_task env (CleanupTask tenant (gi_repo_url r) (gi_repo_name r)) of
                    (Inl e, q) \<Rightarrow> (Inl e, q)
                  | (Inr _, q) \<Rightarrow>
                      (Inr (None, db\<lparr>github_integration_snapshots := drop_row gi_id i rows\<rparr>), q)))
          else if is_one_of action [''created'', ''updated''] then
            (case row_at gi_id i rows of
               Some r \<Rightarrow> (bind_res (updated_integration v d r) (\<lambda>r'.
                  Inr (Some (gi_indexing_status r),
                       db\<lparr>github_integration_snapshots := put_row gi_id r' rows\<rparr>)), [])
             | None \<Rightarrow> (bind_res (created_integration i tenant v d) (\<lambda>r'.
                  Inr (None, db\<lparr>github_integration_snapshots := put_row gi_id r' rows\<rparr>)), []))
          else (Inr (None, db), []))"

text \<open>\<open>synced_at\<close> moves when the row changes.\<close>

definition sync_mapping :: "time \<Rightarrow> uuid \<Rightarrow> json \<Rightarrow> db2 \<Rightarrow> db2 res" where
  "sync_mapping now tenant ev db =
     (let rows = service_repo_mapping_snapshots db in
      bind_res (action_block ev ''mapping'') (\<lambda>b. case b of
        None \<Rightarrow> Inr db
      | Some (action, d, i) \<Rightarrow>
          if action = JStr ''deleted'' then
            Inr (db\<lparr>service_repo_mapping_snapshots := drop_row sm_id i rows\<rparr>)
          else if is_one_of action [''created'', ''updated''] then
            bind_res (bind_res (subscript d ''service_name'')
                (\<lambda>x. not_null ''service_name'' (text_col ''service_name'' (Some 255) x))) (\<lambda>name.
            bind_res (bind_res (subscript d ''repo_url'')
                (\<lambda>x. not_null ''repo_url'' (text_col ''repo_url'' None x))) (\<lambda>url.
              Inr (db\<lparr>service_repo_mapping_snapshots := put_row sm_id
                (case row_at sm_id i rows of
                   Some r \<Rightarrow> if sm_service_name r = name \<and> sm_repo_url r = url then r
                             else r\<lparr>sm_service_name := name, sm_repo_url := url, sm_synced_at := now\<rparr>
                 | None \<Rightarrow> \<lparr>sm_id = i, sm_tenant_id = tenant, sm_service_name = name,
                              sm_repo_url = url, sm_synced_at = now\<rparr>) rows\<rparr>)))
          else Inr db))"

text \<open>The transaction of a tenant event; \<open>None\<close>: discarded as stale.\<close>

definition tenant_body ::
  "'s config_env \<Rightarrow> json \<Rightarrow> uuid \<Rightarrow> int \<Rightarrow> db2 \<Rightarrow>
   (string option option \<times> db2) res \<times> config_task list" where
  "tenant_body env d tenant v db =
     (let old = row_at ts_tenant_id tenant (tenant_snapshots db) in
      if (case old of None \<Rightarrow> False | Some t \<Rightarrow> stale (ts_source_version t) v)
      then (Inr (None, db), [])
      else case tenant_row tenant v d old of
             Inl e \<Rightarrow> (Inl e, [])
           | Inr t \<Rightarrow>
               (case sync_integration env tenant v (jget ''github_integration_event'' d)
                       (db\<lparr>tenant_snapshots := put_row ts_tenant_id t (tenant_snapshots db)\<rparr>) of
                  (Inl e, q) \<Rightarrow> (Inl e, q)
                | (Inr (previous, db1), q) \<Rightarrow>
                    (bind_res (sync_mapping (ce_now env) tenant (jget ''service_repo_mapping_event'' d) db1)
                       (\<lambda>db2. Inr (Some previous, db2)), q)))"

text \<open>\<open>_maybe_dispatch_initial_index\<close>\<close>

definition maybe_dispatch_initial_index ::
  "'s config_env \<Rightarrow> string \<Rightarrow> json \<Rightarrow> string option \<Rightarrow> 's \<Rightarrow> unit res \<times> 's \<times> config_task list" where
  "maybe_dispatch_initial_index env tenant d previous s =
     (let owner = jget ''repo_owner'' d; repo = jget ''repo_name'' d;
          branch = str_of ''default_branch'' ''main'' d;
          installation = jget ''installation_id'' d; url = jget ''repo_url'' d
      in if jget ''indexing_status'' d \<noteq> JStr ''pending'' then (Inr (), s, [])
         else if previous = Some ''indexing'' \<or> previous = Some ''indexed'' then (Inr (), s, [])
         else if \<not> (truthy owner \<and> truthy repo \<and> truthy installation \<and> truthy url) then (Inr (), s, [])
         else case resolve_branch_sha (ce_redis env) (ce_github env) owner repo branch installation s of
                (sha, s1) \<Rightarrow>
                  if \<not> truthy sha then (Inr (), s1, [])
                  else (let (r, q) = queue_task env (IndexCodeTask tenant url sha) in (r, s1, q)))"

definition handle_tenant_event :: "'s config_env \<Rightarrow> json \<Rightarrow> db2 \<Rightarrow> 's \<Rightarrow> 's handled" where
  "handle_tenant_event env payload db s =
     (case bind_res (subscript payload ''tenant'') (\<lambda>d.
             bind_res (bind_res (subscript d ''id'') as_uuid) (\<lambda>i.
             bind_res (bind_res (subscript d ''source_version'') py_int) (\<lambda>v. Inr (d, i, v)))) of
        Inl e \<Rightarrow> (Inl e, db, s, [])
      | Inr (d, tenant, v) \<Rightarrow>
          (case transact env (tenant_body env d tenant v) db of
             (Inl e, db', fx) \<Rightarrow> (Inl e, db', s, fx)
           | (Inr None, db', fx) \<Rightarrow> (Inr (), db', s, fx)
           | (Inr (Some previous), db', fx) \<Rightarrow>
               (let s1 = invalidate_tenant_cache (ce_redis env) tenant s;
                    ev = jget ''github_integration_event'' d; data = jget ''integration'' ev
                in if truthy ev \<and> is_one_of (jget ''action'' ev) [''created'', ''updated''] \<and> truthy data
                   then (let (r, s2, q) = maybe_dispatch_initial_index env tenant data previous s1
                         in (r, db', s2, fx @ q))
                   else (Inr (), db', s1, fx))))"

subsection \<open>API keys\<close>

definition api_key_cache :: "string \<Rightarrow> string" where
  "api_key_cache k = ''apikey_to_tenant:'' @ k"

text \<open>\<open>"id" not in payload\<close> and the two conversions, which only catch some exceptions.\<close>

definition api_key_ids :: "json \<Rightarrow> (uuid \<times> uuid) option res" where
  "api_key_ids payload =
     (case payload of
        JObj kvs \<Rightarrow>
          if \<not> jhas ''id'' payload then Inl (KeyError ''id'')
          else (case jget ''id'' payload of
                  JStr a \<Rightarrow>
                    (case uuid_parse a of
                       None \<Rightarrow> Inr None
                     | Some i \<Rightarrow>
                         if \<not> jhas ''tenant_id'' payload then Inr None
                         else (case jget ''tenant_id'' payload of
                                 JStr b \<Rightarrow> (case uuid_parse b of None \<Rightarrow> Inr None | Some t \<Rightarrow> Inr (Some (i, t)))
                               | JNull \<Rightarrow> Inl (TypeError ''UUID'')
                               | _ \<Rightarrow> Inl (AttributeError ''replace'')))
                | JNull \<Rightarrow> Inl (TypeError ''UUID'')
                | _ \<Rightarrow> Inl (AttributeError ''replace''))
      | JArr xs \<Rightarrow> if JStr ''id'' \<in> set xs then Inl (TypeError ''UUID'') else Inl (KeyError ''id'')
      | JStr s \<Rightarrow> if contains ''id'' s then Inl (TypeError ''UUID'') else Inl (KeyError ''id'')
      | _ \<Rightarrow> Inl (TypeError ''not iterable''))"

text \<open>\<open>INSERT \<dots> ON CONFLICT (id) DO UPDATE SET is_active\<close>\<close>

definition upsert_api_key :: "uuid \<Rightarrow> uuid \<Rightarrow> json \<Rightarrow> json \<Rightarrow> db2 \<Rightarrow> db2 res" where
  "upsert_api_key i tenant key active db =
     bind_res (not_null ''key'' (text_col ''key'' (Some 255) key)) (\<lambda>k.
     bind_res (not_null ''is_active'' (bool_col ''is_active'' active)) (\<lambda>a.
       case row_at ak_id i (api_key_snapshots db) of
         Some r \<Rightarrow> Inr (db\<lparr>api_key_snapshots :=
             put_row ak_id (r\<lparr>ak_is_active := a\<rparr>) (api_key_snapshots db)\<rparr>)
       | None \<Rightarrow>
           if k \<in> ak_key ` set (api_key_snapshots db) then Inl (IntegrityError ''api_key_snapshots_key_key'')
           else Inr (db\<lparr>api_key_snapshots := api_key_snapshots db @
                  [\<lparr>ak_id = i, ak_tenant_id = tenant, ak_key = k, ak_is_active = a\<rparr>]\<rparr>)))"

definition handle_api_keys_event :: "'s config_env \<Rightarrow> json \<Rightarrow> db2 \<Rightarrow> 's \<Rightarrow> 's handled" where
  "handle_api_keys_event env payload db s =
     (case api_key_ids payload of
        Inl e \<Rightarrow> (Inl e, db, s, [])
      | Inr None \<Rightarrow> (Inr (), db, s, [])
      | Inr (Some (i, tenant)) \<Rightarrow>
          (let key = get_default ''key'' payload (JStr []);
               active = get_default ''is_active'' payload (JBool True)
           in case transact env (\<lambda>db. (map_sum id (Pair ()) (upsert_api_key i tenant key active db), [])) db of
                (Inl e, db', fx) \<Rightarrow> (Inl e, db', s, fx)
              | (Inr _, db', fx) \<Rightarrow>
                  (if truthy active
                   then (case r_setex (ce_redis env) (api_key_cache (py_str key)) 3600 (Text tenant) s of
                           (Inl e, s1) \<Rightarrow> (Inl e, db', s1, fx) | (Inr _, s1) \<Rightarrow> (Inr (), db', s1, fx))
                   else (case r_delete (ce_redis env) (api_key_cache (py_str key)) s of
                           (Inl e, s1) \<Rightarrow> (Inl e, db', s1, fx) | (Inr _, s1) \<Rightarrow> (Inr (), db', s1, fx)))))"

subsection \<open>The consumer\<close>

definition handle_config :: "'s config_env \<Rightarrow> string \<Rightarrow> json \<Rightarrow> db2 \<Rightarrow> 's \<Rightarrow> 's handled" where
  "handle_config env topic payload db s =
     (if topic = ''config.tenants'' then handle_tenant_event env payload db s
      else if topic = ''config.alert_rules'' then handle_alert_rule_event env payload db s
      else if topic = ''config.playbooks'' then handle_playbook_event env payload db s
      else if topic = ''config.api_keys'' then handle_api_keys_event env payload db s
      else (Inr (), db, s, []))"

text \<open>
  The body of the loop: a value that is not JSON is committed and skipped; after an exception of a
  handler the loop goes on without a commit.  The handler of \<open>KeyError\<close> logs the payload's keys, which
  raises when the payload is no object.
\<close>

definition config_verdict ::
  "(string \<Rightarrow> json option) \<Rightarrow> 's config_env \<Rightarrow> message \<Rightarrow> db2 \<times> 's \<times> config_task list \<Rightarrow>
   verdict \<times> db2 \<times> 's \<times> config_task list" where
  "config_verdict loads env m w =
     (case Option.bind (km_value m) loads of
        None \<Rightarrow> (Commit, w)
      | Some payload \<Rightarrow>
          (case w of (db, s, fx) \<Rightarrow>
             (case handle_config env (km_topic m) payload db s of
                (Inr _, db', s', q) \<Rightarrow> (Commit, db', s', fx @ q)
              | (Inl (KeyError k), db', s', q) \<Rightarrow>
                  (case payload of JObj _ \<Rightarrow> Leave | _ \<Rightarrow> Crash (AttributeError ''keys''), db', s', fx @ q)
              | (Inl e, db', s', q) \<Rightarrow> (Leave, db', s', fx @ q))))"

end
