(* ===== verification/Django_Config.thy ===== *)
theory Django_Config
  imports Orm
begin

text \<open>
  Alert rules and playbooks in Django (\<open>apps/alerts\<close>, \<open>apps/playbooks\<close>), the source of what
  \<open>config_sync.py\<close> consumes: the models with their version counters, the validators, the view sets and the
  events they write to the outbox.  The REST framework's own parsing of fields is a parameter: a request
  arrives as the fields it could parse, and \<open>dest_fields\<close> gives the validated object of a destination.
\<close>

record alert_rule =
  al_id :: uuid
  al_tenant_id :: uuid
  al_confidence_threshold :: rat
  al_severity_filter :: json
  al_destinations :: json
  al_enabled :: bool
  al_source_version :: int

record playbook =
  pl_id :: uuid
  pl_tenant_id :: uuid
  pl_error_pattern :: string
  pl_instructions :: string
  pl_source_version :: int

text \<open>A row of Django's outbox as \<open>write_outbox\<close> of \<open>apps/outbox/mixins.py\<close> adds it.\<close>

record dj_event =
  de_topic :: string
  de_key :: string
  de_payload :: json

record config_store =
  cs_rules :: "alert_rule list"
  cs_playbooks :: "playbook list"
  cs_outbox :: "dj_event list"

definition write_dj_outbox :: "string \<Rightarrow> string \<Rightarrow> json \<Rightarrow> config_store \<Rightarrow> config_store" where
  "write_dj_outbox topic key payload d =
     d\<lparr>cs_outbox := cs_outbox d @ [\<lparr>de_topic = topic, de_key = key, de_payload = payload\<rparr>]\<rparr>"

text \<open>What a view answers: the status, or an exception no handler turns into a response.\<close>

datatype answer = Answer int | Unhandled exn

subsection \<open>Validators\<close>

definition VALID_SEVERITIES :: "string list" where
  "VALID_SEVERITIES = [''critical'', ''high'', ''medium'', ''low'']"

definition valid_threshold :: "rat \<Rightarrow> bool" where
  "valid_threshold q \<longleftrightarrow> 0 \<le> q \<and> q \<le> 1"

text \<open>An object or a list is not hashable: the membership test raises.\<close>

definition unhashable :: "json \<Rightarrow> bool" where
  "unhashable v = (case v of JArr _ \<Rightarrow> True | JObj _ \<Rightarrow> True | _ \<Rightarrow> False)"

definition valid_severity_filter :: "json \<Rightarrow> bool res" where
  "valid_severity_filter v =
     (case v of
        JArr vs \<Rightarrow> if \<exists>x \<in> set vs. unhashable x then Inl (TypeError ''unhashable type'')
                   else Inr (\<forall>x \<in> set vs. is_one_of x VALID_SEVERITIES)
      | _ \<Rightarrow> Inr False)"

text \<open>One destination: its type, its fields, and the domain of a Slack address.\<close>

definition DESTINATION_TYPES :: "string list" where
  "DESTINATION_TYPES = [''email'', ''in_app'', ''pagerduty'', ''slack'']"

definition valid_destination :: "(string \<Rightarrow> json \<Rightarrow> json option) \<Rightarrow> json \<Rightarrow> json option" where
  "valid_destination dest_fields item =
     (case jget ''type'' item of
        JStr ty \<Rightarrow>
          if ty \<notin> set DESTINATION_TYPES then None
          else Option.bind (dest_fields ty item) (\<lambda>d.
                 if ty = ''slack'' \<and> \<not> contains ''hooks.slack.com'' (py_str (jget ''webhook_url'' d))
                 then None else Some d)
      | _ \<Rightarrow> None)"

fun valid_destinations :: "(string \<Rightarrow> json \<Rightarrow> json option) \<Rightarrow> json list \<Rightarrow> json list option" where
  "valid_destinations dest_fields [] = Some []"
| "valid_destinations dest_fields (x # xs) =
     Option.bind (valid_destination dest_fields x) (\<lambda>d.
       map_option ((#) d) (valid_destinations dest_fields xs))"

definition validate_destinations_list :: "(string \<Rightarrow> json \<Rightarrow> json option) \<Rightarrow> json \<Rightarrow> json option" where
  "validate_destinations_list dest_fields v =
     (case v of JArr xs \<Rightarrow> map_option JArr (valid_destinations dest_fields xs) | _ \<Rightarrow> None)"

subsection \<open>Alert rules\<close>

text \<open>The fields of a request; a field that is missing keeps its value, or its default on creation.\<close>

record rule_request =
  rq_threshold :: "rat option"
  rq_severity_filter :: "json option"
  rq_destinations :: "json option"
  rq_enabled :: "bool option"

definition validate_rule ::
  "(string \<Rightarrow> json \<Rightarrow> json option) \<Rightarrow> rule_request \<Rightarrow> rule_request option res" where
  "validate_rule dest_fields rq =
     bind_res (case rq_severity_filter rq of None \<Rightarrow> Inr True | Some v \<Rightarrow> valid_severity_filter v) (\<lambda>ok.
       let dests = (case rq_destinations rq of None \<Rightarrow> Some None
                    | Some v \<Rightarrow> map_option Some (validate_destinations_list dest_fields v))
       in Inr (if ok \<and> (case rq_threshold rq of None \<Rightarrow> True | Some q \<Rightarrow> valid_threshold q)
               then map_option (\<lambda>d. rq\<lparr>rq_destinations := d\<rparr>) dests else None))"

definition apply_request :: "rule_request \<Rightarrow> alert_rule \<Rightarrow> alert_rule" where
  "apply_request rq r =
     r\<lparr>al_confidence_threshold := get_or (rq_threshold rq) (al_confidence_threshold r),
       al_severity_filter := get_or (rq_severity_filter rq) (al_severity_filter r),
       al_destinations := get_or (rq_destinations rq) (al_destinations r),
       al_enabled := get_or (rq_enabled rq) (al_enabled r)\<rparr>"

definition new_rule :: "uuid \<Rightarrow> uuid \<Rightarrow> alert_rule" where
  "new_rule i tenant = \<lparr>al_id = i, al_tenant_id = tenant, al_confidence_threshold = 7/10,
     al_severity_filter = JArr [], al_destinations = JArr [], al_enabled = True,
     al_source_version = 1\<rparr>"

text \<open>\<open>AlertRule.save\<close>: the destinations are validated once more, and an update counts its version up.\<close>

definition save_rule ::
  "(string \<Rightarrow> json \<Rightarrow> json option) \<Rightarrow> bool \<Rightarrow> alert_rule \<Rightarrow> alert_rule list \<Rightarrow>
   (alert_rule \<times> alert_rule list) res" where
  "save_rule dest_fields adding r rows =
     (case validate_destinations_list dest_fields (al_destinations r) of
        None \<Rightarrow> Inl (ValueError ''destinations'')
      | Some ds \<Rightarrow>
          (let r' = r\<lparr>al_destinations := ds,
                      al_source_version := if adding then al_source_version r
                        else (case row_at al_id (al_id r) rows of
                                None \<Rightarrow> al_source_version r | Some q \<Rightarrow> al_source_version q) + 1\<rparr>
           in Inr (r', put_row al_id r' rows)))"

definition rule_payload :: "string \<Rightarrow> alert_rule \<Rightarrow> json" where
  "rule_payload event_type r = JObj [
     (''event_type'', JStr event_type),
     (''alert_rule'', JObj [
        (''id'', JStr (al_id r)), (''tenant_id'', JStr (al_tenant_id r)),
        (''confidence_threshold'', JFlt (al_confidence_threshold r)),
        (''severity_filter'', al_severity_filter r), (''destinations'', al_destinations r),
        (''enabled'', JBool (al_enabled r)), (''source_version'', JInt (al_source_version r))])]"

definition rule_deleted_payload :: "uuid \<Rightarrow> uuid \<Rightarrow> int \<Rightarrow> json" where
  "rule_deleted_payload i tenant v = JObj [
     (''event_type'', JStr ''alert_rule.deleted''),
     (''alert_rule'', JObj [(''id'', JStr i), (''tenant_id'', JStr tenant), (''deleted'', JBool True),
        (''source_version'', JInt v)])]"

text \<open>The view set; \<open>fresh\<close> is the id of a new row.\<close>

definition create_rule ::
  "(string \<Rightarrow> json \<Rightarrow> json option) \<Rightarrow> uuid \<Rightarrow> uuid \<Rightarrow> rule_request \<Rightarrow> config_store \<Rightarrow> answer \<times> config_store" where
  "create_rule dest_fields fresh tenant rq d =
     (case validate_rule dest_fields rq of
        Inl e \<Rightarrow> (Unhandled e, d)
      | Inr None \<Rightarrow> (Answer 400, d)
      | Inr (Some rq') \<Rightarrow>
          (case save_rule dest_fields True (apply_request rq' (new_rule fresh tenant)) (cs_rules d) of
             Inl e \<Rightarrow> (Unhandled e, d)
           | Inr (r, rows) \<Rightarrow>
               (Answer 201, write_dj_outbox ''config.alert_rules'' tenant
                  (rule_payload ''alert_rule.created'' r) (d\<lparr>cs_rules := rows\<rparr>))))"

definition rule_of :: "uuid \<Rightarrow> uuid \<Rightarrow> config_store \<Rightarrow> alert_rule option" where
  "rule_of tenant pk d =
     List.find (\<lambda>r. al_id r = pk \<and> al_tenant_id r = tenant) (cs_rules d)"

definition update_rule ::
  "(string \<Rightarrow> json \<Rightarrow> json option) \<Rightarrow> uuid \<Rightarrow> uuid \<Rightarrow> rule_request \<Rightarrow> config_store \<Rightarrow> answer \<times> config_store" where
  "update_rule dest_fields tenant pk rq d =
     (case rule_of tenant pk d of
        None \<Rightarrow> (Answer 404, d)
      | Some r0 \<Rightarrow>
          (case validate_rule dest_fields rq of
             Inl e \<Rightarrow> (Unhandled e, d)
           | Inr None \<Rightarrow> (Answer 400, d)
           | Inr (Some rq') \<Rightarrow>
               (case save_rule dest_fields False (apply_request rq' r0) (cs_rules d) of
                  Inl e \<Rightarrow> (Unhandled e, d)
                | Inr (r, rows) \<Rightarrow>
                    (Answer 200, write_dj_outbox ''config.alert_rules'' tenant
                       (rule_payload ''alert_rule.updated'' r) (d\<lparr>cs_rules := rows\<rparr>)))))"

definition destroy_rule :: "uuid \<Rightarrow> uuid \<Rightarrow> config_store \<Rightarrow> answer \<times> config_store" where
  "destroy_rule tenant pk d =
     (case rule_of tenant pk d of
        None \<Rightarrow> (Answer 404, d)
      | Some r \<Rightarrow>
          (Answer 200, write_dj_outbox ''config.alert_rules'' tenant
             (rule_deleted_payload (al_id r) tenant (al_source_version r))
             (d\<lparr>cs_rules := drop_row al_id (al_id r) (cs_rules d)\<rparr>)))"

definition list_rules :: "uuid \<Rightarrow> config_store \<Rightarrow> alert_rule list" where
  "list_rules tenant d = filter (\<lambda>r. al_tenant_id r = tenant) (cs_rules d)"

subsection \<open>Playbooks\<close>

text \<open>\<open>compiles\<close> says whether \<open>re.compile\<close> accepts a pattern.\<close>

record playbook_request =
  pq_error_pattern :: "string option"
  pq_instructions :: "string option"

definition validate_playbook :: "(string \<Rightarrow> bool) \<Rightarrow> bool \<Rightarrow> playbook_request \<Rightarrow> bool" where
  "validate_playbook compiles partial rq \<longleftrightarrow>
     (case pq_error_pattern rq of None \<Rightarrow> partial | Some p \<Rightarrow> strip p \<noteq> [] \<and> compiles p) \<and>
     (case pq_instructions rq of None \<Rightarrow> partial | Some t \<Rightarrow> strip t \<noteq> [])"

definition save_playbook :: "bool \<Rightarrow> playbook \<Rightarrow> playbook list \<Rightarrow> playbook \<times> playbook list" where
  "save_playbook adding p rows =
     (let p' = p\<lparr>pl_source_version := if adding then pl_source_version p
                   else (case row_at pl_id (pl_id p) rows of
                           None \<Rightarrow> pl_source_version p | Some q \<Rightarrow> pl_source_version q) + 1\<rparr>
      in (p', put_row pl_id p' rows))"

definition playbook_payload :: "string \<Rightarrow> playbook \<Rightarrow> json" where
  "playbook_payload event_type p = JObj [
     (''event_type'', JStr event_type),
     (''playbook'', JObj [
        (''id'', JStr (pl_id p)), (''tenant_id'', JStr (pl_tenant_id p)),
        (''error_pattern'', JStr (pl_error_pattern p)), (''instructions'', JStr (pl_instructions p)),
        (''source_version'', JInt (pl_source_version p))])]"

definition playbook_deleted_payload :: "uuid \<Rightarrow> uuid \<Rightarrow> int \<Rightarrow> json" where
  "playbook_deleted_payload i tenant v = JObj [
     (''event_type'', JStr ''playbook.deleted''),
     (''playbook'', JObj [(''id'', JStr i), (''tenant_id'', JStr tenant), (''deleted'', JBool True),
        (''source_version'', JInt v)])]"

definition create_playbook ::
  "(string \<Rightarrow> bool) \<Rightarrow> uuid \<Rightarrow> uuid \<Rightarrow> playbook_request \<Rightarrow> config_store \<Rightarrow> answer \<times> config_store" where
  "create_playbook compiles fresh tenant rq d =
     (if \<not> validate_playbook compiles False rq then (Answer 400, d)
      else (let (p, rows) = save_playbook True \<lparr>pl_id = fresh, pl_tenant_id = tenant,
                  pl_error_pattern = get_or (pq_error_pattern rq) [],
                  pl_instructions = get_or (pq_instructions rq) [], pl_source_version = 1\<rparr>
                  (cs_playbooks d)
            in (Answer 201, write_dj_outbox ''config.playbooks'' tenant
                  (playbook_payload ''playbook.created'' p) (d\<lparr>cs_playbooks := rows\<rparr>))))"

definition playbook_of :: "uuid \<Rightarrow> uuid \<Rightarrow> config_store \<Rightarrow> playbook option" where
  "playbook_of tenant pk d =
     List.find (\<lambda>p. pl_id p = pk \<and> pl_tenant_id p = tenant) (cs_playbooks d)"

definition update_playbook ::
  "(string \<Rightarrow> bool) \<Rightarrow> bool \<Rightarrow> uuid \<Rightarrow> uuid \<Rightarrow> playbook_request \<Rightarrow> config_store \<Rightarrow> answer \<times> config_store" where
  "update_playbook compiles partial tenant pk rq d =
     (case playbook_of tenant pk d of
        None \<Rightarrow> (Answer 404, d)
      | Some p0 \<Rightarrow>
          if \<not> validate_playbook compiles partial rq then (Answer 400, d)
          else (let (p, rows) = save_playbook False
                      (p0\<lparr>pl_error_pattern := get_or (pq_error_pattern rq) (pl_error_pattern p0),
                          pl_instructions := get_or (pq_instructions rq) (pl_instructions p0)\<rparr>)
                      (cs_playbooks d)
                in (Answer 200, write_dj_outbox ''config.playbooks'' tenant
                      (playbook_payload ''playbook.updated'' p) (d\<lparr>cs_playbooks := rows\<rparr>))))"

definition destroy_playbook :: "uuid \<Rightarrow> uuid \<Rightarrow> config_store \<Rightarrow> answer \<times> config_store" where
  "destroy_playbook tenant pk d =
     (case playbook_of tenant pk d of
        None \<Rightarrow> (Answer 404, d)
      | Some p \<Rightarrow>
          (Answer 200, write_dj_outbox ''config.playbooks'' tenant
             (playbook_deleted_payload (pl_id p) tenant (pl_source_version p))
             (d\<lparr>cs_playbooks := drop_row pl_id (pl_id p) (cs_playbooks d)\<rparr>)))"

subsection \<open>GitHub integrations\<close>

text \<open>A row of \<open>github_integrations\<close>; the installation id is a text column there.\<close>

record github_integration =
  di_id :: uuid
  di_tenant_id :: uuid
  di_repo_url :: string
  di_repo_owner :: string
  di_repo_name :: string
  di_default_branch :: string
  di_installation_id :: string
  di_indexing_status :: string
  di_last_indexed_commit :: "string option"

text \<open>\<open>_build_outbox_payload\<close>; the version is the clock in milliseconds.\<close>

definition integration_payload ::
  "int \<Rightarrow> string option \<Rightarrow> bool \<Rightarrow> string \<Rightarrow> github_integration \<Rightarrow> json" where
  "integration_payload now_ms plan_tier suspended action g = JObj [
     (''event_type'', JStr ''tenant.updated''),
     (''tenant'', JObj [
        (''id'', JStr (di_tenant_id g)), (''plan_tier'', jopt JStr plan_tier),
        (''is_suspended'', JBool suspended), (''source_version'', JInt now_ms),
        (''github_integration_event'', JObj [
           (''action'', JStr action),
           (''integration'', JObj [
              (''id'', JStr (di_id g)), (''repo_url'', JStr (di_repo_url g)),
              (''repo_owner'', JStr (di_repo_owner g)), (''repo_name'', JStr (di_repo_name g)),
              (''installation_id'', if di_installation_id g \<noteq> [] then JStr (di_installation_id g) else JNull),
              (''default_branch'', JStr (di_default_branch g)),
              (''indexing_status'', JStr (di_indexing_status g)),
              (''last_indexed_commit'', jopt JStr (di_last_indexed_commit g))])])])]"

subsection \<open>Facts\<close>

lemma rule_of_row:
  assumes "distinct (map al_id (cs_rules d))" "rule_of tenant pk d = Some r"
  shows "row_at al_id pk (cs_rules d) = Some r" "al_tenant_id r = tenant" "al_id r = pk"
proof -
  have "row_at al_id pk rows = Some r"
    if "distinct (map al_id rows)" "r \<in> set rows" "al_id r = pk" for rows
    using that by (induction rows) auto
  with assms find_SomeD [OF assms(2) [unfolded rule_of_def]]
  show "row_at al_id pk (cs_rules d) = Some r" "al_tenant_id r = tenant" "al_id r = pk" by auto
qed

lemma save_rule_row:
  assumes "save_rule dest_fields adding r rows = Inr (r', rows')"
  shows "al_id r' = al_id r" "al_tenant_id r' = al_tenant_id r" "rows' = put_row al_id r' rows"
    "al_source_version r' = (if adding then al_source_version r
       else (case row_at al_id (al_id r) rows of
               None \<Rightarrow> al_source_version r | Some q \<Rightarrow> al_source_version q) + 1)"
  using assms by (auto simp: save_rule_def Let_def split: option.splits)

lemma apply_request_key [simp]:
  "al_id (apply_request rq r) = al_id r" "al_tenant_id (apply_request rq r) = al_tenant_id r"
  by (simp_all add: apply_request_def)

text \<open>An update of a rule raises its version by one and writes one event, which carries the new row.\<close>

lemma update_rule_event:
  assumes "update_rule dest_fields tenant pk rq d = (Answer 200, d')"
    and "distinct (map al_id (cs_rules d))"
  obtains r0 r where "row_at al_id pk (cs_rules d) = Some r0" "row_at al_id pk (cs_rules d') = Some r"
    "al_source_version r = al_source_version r0 + 1" "al_id r = pk" "al_tenant_id r = tenant"
    "cs_outbox d' = cs_outbox d @ [\<lparr>de_topic = ''config.alert_rules'', de_key = tenant,
       de_payload = rule_payload ''alert_rule.updated'' r\<rparr>]"
    "distinct (map al_id (cs_rules d'))"
proof -
  from assms(1) obtain r0 rq' r rows where
    r0: "rule_of tenant pk d = Some r0" and
    save: "save_rule dest_fields False (apply_request rq' r0) (cs_rules d) = Inr (r, rows)" and
    d': "d' = write_dj_outbox ''config.alert_rules'' tenant
           (rule_payload ''alert_rule.updated'' r) (d\<lparr>cs_rules := rows\<rparr>)"
    by (auto simp: update_rule_def split: option.splits sum.splits prod.splits)
  note row = rule_of_row [OF assms(2) r0]
  note saved = save_rule_row [OF save]
  from row saved have "al_source_version r = al_source_version r0 + 1" "al_id r = pk"
    "al_tenant_id r = tenant" by simp_all
  with row saved(3) d' assms(2) show ?thesis
    by (intro that) (simp_all add: write_dj_outbox_def distinct_keys_put)
qed

end
