(* ===== verification/Config_Sync_Spec.thy ===== *)
theory Config_Sync_Spec
  imports Config_Sync Django_Config
begin

text \<open>
  What the synchronisation of the configuration promises and where it falls short: a contract of versioned
  rows, kept by the alert rules and the playbooks, from which the outcome of any delivery order follows;
  the finality of committed events; and the events that get lost between Django and the snapshots.
\<close>

subsection \<open>Versioned rows\<close>

text \<open>
  A step with an event replaces the row by the one the event describes, unless the row is at least as new.
\<close>

locale versioned_rows =
  fixes step :: "'e \<Rightarrow> 'r option \<Rightarrow> 'r option"
    and ok :: "'e \<Rightarrow> bool"
    and version :: "'e \<Rightarrow> int"
    and ver :: "'r \<Rightarrow> int option"
    and row :: "'e \<Rightarrow> 'r"
  assumes step_new: "ok e \<Longrightarrow> step e None = Some (row e)"
    and step_old: "ok e \<Longrightarrow> step e (Some r) = (if stale (ver r) (version e) then Some r else Some (row e))"
    and ver_row: "ok e \<Longrightarrow> ver (row e) = Some (version e)"
begin

lemma fold_newest:
  assumes "es \<noteq> []" "\<forall>e \<in> set es. ok e"
  shows "\<exists>e \<in> set es. fold step es None = Some (row e) \<and> (\<forall>e' \<in> set es. version e' \<le> version e)"
  using assms
proof (induction es rule: rev_induct)
  case (snoc x es)
  show ?case
  proof (cases "es = []")
    case True
    with snoc.prems show ?thesis by (simp add: step_new)
  next
    case False
    with snoc obtain e where e: "e \<in> set es" "fold step es None = Some (row e)"
      "\<forall>e' \<in> set es. version e' \<le> version e" by auto
    with snoc.prems have s: "stale (ver (row e)) (version x) \<longleftrightarrow> version x \<le> version e"
      by (auto simp: ver_row stale_def)
    show ?thesis
    proof (cases "version x \<le> version e")
      case True
      with e s snoc.prems show ?thesis by (intro bexI [of _ e]) (auto simp: step_old)
    next
      case False
      with e s snoc.prems show ?thesis by (intro bexI [of _ x]) (force simp: step_old)+
    qed
  qed
qed simp

text \<open>However the events of a row are ordered and repeated, the newest one decides.\<close>

lemma newest_wins:
  assumes "e \<in> set es" "\<forall>e' \<in> set es. version e' \<le> version e" "\<forall>e' \<in> set es. ok e'"
    and "\<forall>e' \<in> set es. version e' = version e \<longrightarrow> row e' = row e"
  shows "fold step es None = Some (row e)"
proof -
  have "es \<noteq> []" using assms(1) by auto
  from fold_newest [OF this assms(3)] obtain e' where e': "e' \<in> set es"
    "fold step es None = Some (row e')" "\<forall>d \<in> set es. version d \<le> version e'" by blast
  with assms(1,2) have "version e' = version e" by (simp add: order_antisym)
  with e' assms(4) show ?thesis by simp
qed

text \<open>A row that is there already stays if it is as new as all of them.\<close>

lemma fold_stale:
  assumes "\<forall>e \<in> set es. ok e \<and> stale (ver r) (version e)"
  shows "fold step es (Some r) = Some r"
  using assms by (induction es) (simp_all add: step_old)

lemma fold_among:
  assumes "\<forall>e \<in> set es. ok e"
  shows "fold step es (Some r) = Some r \<or> (\<exists>e \<in> set es. fold step es (Some r) = Some (row e))"
  using assms
proof (induction es rule: rev_induct)
  case (snoc x es)
  then obtain q where "fold step es (Some r) = Some q" "q = r \<or> (\<exists>e \<in> set es. q = row e)" by auto
  with snoc.prems step_old [of x q] show ?case by auto
qed simp

lemma newest_wins_over:
  assumes "e \<in> set es" "\<forall>e' \<in> set es. version e' \<le> version e" "\<forall>e' \<in> set es. ok e'"
    and "\<forall>e' \<in> set es. version e' = version e \<longrightarrow> row e' = row e"
    and "\<not> stale (ver r) (version e)"
  shows "fold step es (Some r) = Some (row e)"
  using assms(1-4)
proof (induction es rule: rev_induct)
  case (snoc x es)
  have x: "ok x" "version x \<le> version e" using snoc.prems by auto
  show ?case
  proof (cases "e \<in> set es")
    case True
    have "fold step es (Some r) = Some (row e)"
    proof (rule snoc.IH [OF True])
      show "\<forall>e' \<in> set es. version e' \<le> version e" using snoc.prems(2) by simp
      show "\<forall>e' \<in> set es. ok e'" using snoc.prems(3) by simp
      show "\<forall>e' \<in> set es. version e' = version e \<longrightarrow> row e' = row e"
        using snoc.prems(4) unfolding set_append ball_Un by blast
    qed
    moreover have "ok e" using snoc.prems(1,3) by blast
    then have "stale (ver (row e)) (version x)"
      using x(2) by (simp add: ver_row stale_def)
    ultimately show ?thesis using x(1) by (simp add: step_old)
  next
    case False
    with snoc.prems(1) have xe: "x = e" by simp
    consider "fold step es (Some r) = Some r"
      | e' where "e' \<in> set es" "fold step es (Some r) = Some (row e')"
      using fold_among [of es r] snoc.prems(3) by auto
    then show ?thesis
    proof cases
      case 1
      with assms(5) x(1) xe show ?thesis by (simp add: step_old)
    next
      case 2
      then have "e' \<in> set (es @ [x])" by simp
      with snoc.prems(2-4) have e': "ok e'" "version e' \<le> version e"
        "version e' = version e \<longrightarrow> row e' = row e" by blast+
      have "stale (ver (row e')) (version e) \<longleftrightarrow> version e \<le> version e'"
        using e'(1) by (simp add: ver_row stale_def)
      with e'(2) have st: "stale (ver (row e')) (version e) \<longleftrightarrow> version e' = version e" by linarith
      have "fold step (es @ [x]) (Some r) = step e (Some (row e'))" using 2 xe by simp
      also have "\<dots> = Some (row e)" proof (cases "version e' = version e")
        case True
        with st have "stale (ver (row e')) (version e)" by blast
        with x(1) xe have "step e (Some (row e')) = Some (row e')" by (simp add: step_old)
        with e'(3) True show ?thesis by metis
      next
        case False
        with st have "\<not> stale (ver (row e')) (version e)" by blast
        with x(1) xe show ?thesis by (simp add: step_old)
      qed
      finally show ?thesis .
    qed
  qed
qed simp

lemma newest_of_both:
  assumes "e \<in> set es" "\<forall>e' \<in> set es. version e' \<le> version e" "\<forall>e' \<in> set es. ok e'"
    and "\<forall>e' \<in> set es. version e' = version e \<longrightarrow> row e' = row e"
  shows "fold step es old = (if \<exists>r. old = Some r \<and> stale (ver r) (version e) then old else Some (row e))"
proof (cases old)
  case None
  with newest_wins [OF assms] show ?thesis by simp
next
  case (Some r)
  show ?thesis
  proof (cases "stale (ver r) (version e)")
    case True
    then have "\<forall>e' \<in> set es. ok e' \<and> stale (ver r) (version e')"
      using assms(2,3) by (auto simp: stale_def split: option.splits)
    with Some True fold_stale show ?thesis by simp
  next
    case False
    with Some newest_wins_over [OF assms] show ?thesis by simp
  qed
qed

end

subsection \<open>Alert rules, from Django's rows to the snapshots\<close>

definition rule_image :: "(rat \<Rightarrow> string) \<Rightarrow> alert_rule \<Rightarrow> alert_rule_snapshot" where
  "rule_image float_repr r = \<lparr>ar_rule_id = al_id r, ar_tenant_id = al_tenant_id r,
     ar_confidence_threshold = Some (float_repr (al_confidence_threshold r)),
     ar_severity_filter = texts_of (jarr (al_severity_filter r)),
     ar_destinations = json_col (al_destinations r), ar_enabled = al_enabled r,
     ar_source_version = Some (al_source_version r)\<rparr>"

definition rule_ok :: "(rat \<Rightarrow> string) \<Rightarrow> alert_rule \<Rightarrow> bool" where
  "rule_ok float_repr r \<longleftrightarrow> is_uuid (al_id r) \<and> is_uuid (al_tenant_id r) \<and>
     fits_bigint (al_source_version r) \<and> length (float_repr (al_confidence_threshold r)) \<le> 16 \<and>
     (\<exists>ss. al_severity_filter r = jstrs ss)"

text \<open>The block of the payload.\<close>

definition rule_block :: "alert_rule \<Rightarrow> json" where
  "rule_block r = JObj [
     (''id'', JStr (al_id r)), (''tenant_id'', JStr (al_tenant_id r)),
     (''confidence_threshold'', JFlt (al_confidence_threshold r)),
     (''severity_filter'', al_severity_filter r), (''destinations'', al_destinations r),
     (''enabled'', JBool (al_enabled r)), (''source_version'', JInt (al_source_version r))]"

definition rule_step :: "'s config_env \<Rightarrow> alert_rule \<Rightarrow> alert_rule_snapshot option \<Rightarrow> alert_rule_snapshot option" where
  "rule_step env r old =
     (case versioned ar_source_version (al_source_version r) False
             (rule_row env (rule_block r) (al_id r) (al_tenant_id r) (al_source_version r)) old of
        Inr (Put q) \<Rightarrow> Some q | _ \<Rightarrow> old)"

lemma rule_row_image:
  assumes "rule_ok (ce_float_repr env) r"
  shows "rule_row env (rule_block r) (al_id r) (al_tenant_id r) (al_source_version r) old =
         Inr (rule_image (ce_float_repr env) r)"
  using assms
  by (auto simp: rule_row_def rule_block_def rule_ok_def rule_image_def str_value_def get_default_def Let_def)

lemma event_of_rule:
  assumes "rule_ok float_repr r"
  shows "event_of (rule_payload ty r) ''alert_rule'' =
         Inr (rule_block r, al_id r, al_tenant_id r, al_source_version r, False)"
  using assms by (simp add: event_of_def rule_payload_def rule_block_def rule_ok_def)

interpretation rules: versioned_rows "rule_step env" "rule_ok (ce_float_repr env)" al_source_version
    ar_source_version "rule_image (ce_float_repr env)" for env
  by unfold_locales
     (simp_all add: rule_step_def versioned_def rule_row_image, simp add: rule_image_def)

text \<open>A run of the handler over a list of payloads.\<close>

definition deliver :: "('p \<Rightarrow> db2 \<Rightarrow> 's \<Rightarrow> 's handled) \<Rightarrow> 'p list \<Rightarrow> db2 \<times> 's \<Rightarrow> db2 \<times> 's" where
  "deliver handle = fold (\<lambda>p (db, s). case handle p db s of (_, db', s', _) \<Rightarrow> (db', s'))"

definition db_up :: "'s config_env \<Rightarrow> bool" where
  "db_up env \<longleftrightarrow> ce_db_error env = None \<and> ce_commit_error env = None"

lemma transact_up: "db_up env \<Longrightarrow>
    transact env body db = (case body db of (Inl e, fx) \<Rightarrow> (Inl e, db, fx)
                            | (Inr (x, db'), fx) \<Rightarrow> (Inr x, db', fx))"
  by (simp add: transact_def db_up_def split: prod.splits sum.splits)

lemma handle_rule:
  assumes "db_up env" "rule_ok (ce_float_repr env) r" "tenant_known (al_tenant_id r) db"
    and "handle_alert_rule_event env (rule_payload ty r) db s = (x, db', s', q)"
  shows "x = Inr () \<and> q = [] \<and> tenant_snapshots db' = tenant_snapshots db \<and>
         row_at ar_rule_id j (alert_rule_snapshots db') =
           (if j = al_id r then rule_step env r (row_at ar_rule_id j (alert_rule_snapshots db))
            else row_at ar_rule_id j (alert_rule_snapshots db))"
  using assms
  by (cases "row_at ar_rule_id (al_id r) (alert_rule_snapshots db)")
     (auto simp: handle_alert_rule_event_def event_of_rule transact_up rule_body_def rule_step_def
        versioned_def rule_row_image rule_image_def)

lemma tenant_known_cong: "tenant_snapshots db' = tenant_snapshots db \<Longrightarrow> tenant_known t db' = tenant_known t db"
  by (simp add: tenant_known_def)

lemma deliver_rules:
  assumes "db_up env" "\<forall>r \<in> set rs. rule_ok (ce_float_repr env) r \<and> al_id r = i \<and> tenant_known (al_tenant_id r) db"
    and "deliver (\<lambda>r. handle_alert_rule_event env (rule_payload ty r)) rs (db, s) = (db', s')"
  shows "row_at ar_rule_id j (alert_rule_snapshots db') =
           (if j = i then fold (rule_step env) rs (row_at ar_rule_id i (alert_rule_snapshots db))
            else row_at ar_rule_id j (alert_rule_snapshots db))"
  using assms(2,3)
proof (induction rs arbitrary: db s)
  case (Cons r rs)
  obtain x db1 s1 q where h: "handle_alert_rule_event env (rule_payload ty r) db s = (x, db1, s1, q)"
    by (metis prod_cases4)
  from Cons.prems(1) have r: "rule_ok (ce_float_repr env) r" "tenant_known (al_tenant_id r) db" "al_id r = i"
    by auto
  note step = handle_rule [OF assms(1) r(1,2) h]
  have "deliver (\<lambda>r. handle_alert_rule_event env (rule_payload ty r)) rs (db1, s1) = (db', s')"
    using Cons.prems(2) h by (simp add: deliver_def)
  moreover have "\<forall>r \<in> set rs. rule_ok (ce_float_repr env) r \<and> al_id r = i \<and> tenant_known (al_tenant_id r) db1"
    using Cons.prems(1) step tenant_known_cong [of db1 db] by auto
  ultimately have "row_at ar_rule_id j (alert_rule_snapshots db') =
      (if j = i then fold (rule_step env) rs (row_at ar_rule_id i (alert_rule_snapshots db1))
       else row_at ar_rule_id j (alert_rule_snapshots db1))" by (rule Cons.IH [rotated])
  with step [of i] step [of j] r(3) show ?case by simp
qed (simp add: deliver_def)

text \<open>C15: take change events of one alert rule, that is events that carry a row of it, as
  creations and updates write them, of tenants that DB-2 knows, with equal rows at equal versions.  In
  whatever order and however often they are delivered to a database that answers, the snapshot of the rule
  ends as the image of the newest of them, or stays what it was if it was already as new; the snapshots of
  all other rules stay as they are.  Events of deletions are not among them: they carry the version of the last
  change and are discarded (\<open>deletion_never_arrives\<close>).\<close>

theorem rules_converge:
  assumes "db_up env"
    and "\<forall>r \<in> set rs. rule_ok (ce_float_repr env) r \<and> al_id r = i \<and> tenant_known (al_tenant_id r) db"
    and "r \<in> set rs" and "\<forall>r' \<in> set rs. al_source_version r' \<le> al_source_version r"
    and "\<forall>r' \<in> set rs. al_source_version r' = al_source_version r \<longrightarrow> r' = r"
    and "deliver (\<lambda>r. handle_alert_rule_event env (rule_payload ty r)) rs (db, s) = (db', s')"
  shows "row_at ar_rule_id i (alert_rule_snapshots db') =
           (case row_at ar_rule_id i (alert_rule_snapshots db) of
              None \<Rightarrow> Some (rule_image (ce_float_repr env) r)
            | Some q \<Rightarrow> Some (if stale (ar_source_version q) (al_source_version r) then q
                              else rule_image (ce_float_repr env) r)) \<and>
         (\<forall>j. j \<noteq> i \<longrightarrow> row_at ar_rule_id j (alert_rule_snapshots db') = row_at ar_rule_id j (alert_rule_snapshots db))"
proof -
  have "fold (rule_step env) rs old =
      (if \<exists>q. old = Some q \<and> stale (ar_source_version q) (al_source_version r) then old
       else Some (rule_image (ce_float_repr env) r))" for old
    using assms(2-5) by (intro rules.newest_of_both) auto
  with deliver_rules [OF assms(1,2,6)] show ?thesis by (auto split: option.splits)
qed

definition quiet_env :: "mem config_env" where
  "quiet_env = \<lparr>ce_redis = mem, ce_now = 0, ce_float_repr = (\<lambda>_. ''0.85''), ce_db_error = None,
     ce_commit_error = None, ce_broker = (\<lambda>_. None),
     ce_github = \<lparr>gh_sign = Inr ''jwt'', gh_app_configured = True, gh_post = (\<lambda>_ _. Inl TimeoutErr),
       gh_get = (\<lambda>_ _. Inl TimeoutErr)\<rparr>\<rparr>"

definition quiet_mem :: mem where
  "quiet_mem = \<lparr>m_store = (\<lambda>_. None), m_now = 0, m_fail = []\<rparr>"

definition tenant_a :: uuid where
  "tenant_a = ''0a000000-0000-4000-8000-00000000000a''"

definition row_a :: uuid where
  "row_a = ''0b000000-0000-4000-8000-00000000000b''"

lemma sample_uuids: "is_uuid tenant_a" "is_uuid row_a"
  by code_simp+

definition tenant_db :: db2 where
  "tenant_db = (empty_db2 True)\<lparr>tenant_snapshots := [\<lparr>ts_tenant_id = tenant_a, ts_plan_tier = Some ''pro'',
     ts_vector_namespace = None, ts_kafka_group_id = None, ts_is_suspended = False,
     ts_source_version = Some 1\<rparr>]\<rparr>"

definition sample_rule :: "int \<Rightarrow> bool \<Rightarrow> alert_rule" where
  "sample_rule v on = (new_rule row_a tenant_a)\<lparr>al_source_version := v, al_enabled := on\<rparr>"

lemma sample_rule_ok: "fits_bigint v \<Longrightarrow> rule_ok (ce_float_repr quiet_env) (sample_rule v on)"
  using sample_uuids
  by (auto simp: rule_ok_def sample_rule_def new_rule_def quiet_env_def intro: exI [of _ "[]"])

lemma quiet_up: "db_up quiet_env" "tenant_known tenant_a tenant_db"
  by (simp_all add: db_up_def quiet_env_def tenant_known_def tenant_db_def)

text \<open>Version 2 is stored; then come 3, 2 and 3 again.\<close>

definition ruled_db :: db2 where
  "ruled_db = tenant_db\<lparr>alert_rule_snapshots := [rule_image (\<lambda>_. ''0.85'') (sample_rule 2 True)]\<rparr>"

theorem rules_converge_witness:
  "row_at ar_rule_id row_a (alert_rule_snapshots (fst (deliver
     (\<lambda>r. handle_alert_rule_event quiet_env (rule_payload ''alert_rule.updated'' r))
     [sample_rule 3 False, sample_rule 2 True, sample_rule 3 False] (ruled_db, quiet_mem)))) =
   Some (rule_image (ce_float_repr quiet_env) (sample_rule 3 False))"
proof -
  let ?rs = "[sample_rule 3 False, sample_rule 2 True, sample_rule 3 False]"
  let ?run = "deliver (\<lambda>r. handle_alert_rule_event quiet_env (rule_payload ''alert_rule.updated'' r)) ?rs
    (ruled_db, quiet_mem)"
  have run: "?run = (fst ?run, snd ?run)" by simp
  have key: "al_id (sample_rule v b) = row_a" "al_tenant_id (sample_rule v b) = tenant_a"
    "al_source_version (sample_rule v b) = v" for v b
    by (simp_all add: sample_rule_def new_rule_def)
  have "tenant_known tenant_a ruled_db"
    using quiet_up(2) by (simp add: ruled_db_def tenant_known_def)
  then have ok: "\<forall>r \<in> set ?rs. rule_ok (ce_float_repr quiet_env) r \<and> al_id r = row_a \<and>
      tenant_known (al_tenant_id r) ruled_db"
    by (simp add: sample_rule_ok fits_bigint_def key)
  have prior: "row_at ar_rule_id row_a (alert_rule_snapshots ruled_db) =
      Some (rule_image (\<lambda>_. ''0.85'') (sample_rule 2 True))"
    by (simp add: ruled_db_def row_at_def rule_image_def key)
  have older: "\<not> stale (ar_source_version (rule_image (\<lambda>_. ''0.85'') (sample_rule 2 True)))
      (al_source_version (sample_rule 3 False))"
    by (simp add: rule_image_def key stale_def)
  have mem: "sample_rule 3 False \<in> set ?rs" by simp
  have newest: "\<forall>r' \<in> set ?rs. al_source_version r' \<le> al_source_version (sample_rule 3 False)"
    "\<forall>r' \<in> set ?rs. al_source_version r' = al_source_version (sample_rule 3 False) \<longrightarrow>
       r' = sample_rule 3 False" by (auto simp: key)
  from rules_converge [OF quiet_up(1) ok mem newest run]
  show ?thesis unfolding prior option.case by (simp only: older if_False)
qed


subsection \<open>Committed events are final\<close>

lemma transact_cases:
  assumes "transact env body db = (x, db', fx)"
  obtains (failed) e where "x = Inl e" "db' = db"
  | (through) y where "x = Inr y" "db_up env" "body db = (Inr (y, db'), fx)"
  using assms
  by (auto simp: transact_def db_up_def split: option.splits prod.splits sum.splits)

lemma rule_row_key:
  "rule_row env d i t v old = Inr r \<Longrightarrow> ar_rule_id r = i \<and> ar_source_version r = Some v"
  by (auto simp: rule_row_def Let_def bind_res_eq_Inr split: if_splits)

lemma playbook_row_key:
  "playbook_row d i t v old = Inr r \<Longrightarrow> pb_playbook_id r = i \<and> pb_source_version r = Some v"
  by (auto simp: playbook_row_def bind_res_eq_Inr split: if_splits)

lemma tenant_row_key:
  "tenant_row i v d old = Inr t \<Longrightarrow> ts_tenant_id t = i \<and> ts_source_version t = Some v"
  by (auto simp: tenant_row_def bind_res_eq_Inr split: if_splits)

lemma versioned_cases:
  assumes "versioned ver v deleted mk old = Inr x"
  obtains "x = Discard" "case old of None \<Rightarrow> deleted | Some r \<Rightarrow> stale (ver r) v"
  | "x = Remove" "deleted" "old \<noteq> None"
  | r where "x = Put r" "\<not> deleted" "mk old = Inr r"
  using assms by (auto simp: versioned_def bind_res_eq_Inr split: option.splits if_splits)

lemma rule_body_again:
  assumes "rule_body env d i t v deleted db = (Inr (b, db'), fx)"
  shows "rule_body env d i t v deleted db' = (Inr (False, db'), [])"
proof -
  let ?old = "row_at ar_rule_id i (alert_rule_snapshots db)"
  from assms obtain x where x: "versioned ar_source_version v deleted (rule_row env d i t v) ?old = Inr x"
    by (auto simp: rule_body_def split: sum.splits)
  from x show ?thesis
  proof (cases rule: versioned_cases)
    case 1
    with assms x show ?thesis by (auto simp: rule_body_def)
  next
    case 2
    with assms x show ?thesis by (auto simp: rule_body_def versioned_def)
  next
    case (3 r)
    with assms x rule_row_key [OF 3(3)] show ?thesis
      by (auto simp: rule_body_def versioned_def stale_def split: if_splits)
  qed
qed

lemma playbook_body_again:
  assumes "playbook_body d i t v deleted db = (Inr (b, db'), fx)"
  shows "playbook_body d i t v deleted db' = (Inr (False, db'), [])"
proof -
  let ?old = "row_at pb_playbook_id i (playbook_snapshots db)"
  from assms obtain x where x: "versioned pb_source_version v deleted (playbook_row d i t v) ?old = Inr x"
    by (auto simp: playbook_body_def split: sum.splits)
  from x show ?thesis
  proof (cases rule: versioned_cases)
    case 1
    with assms x show ?thesis by (auto simp: playbook_body_def)
  next
    case 2
    with assms x show ?thesis by (auto simp: playbook_body_def versioned_def)
  next
    case (3 r)
    with assms x playbook_row_key [OF 3(3)] show ?thesis
      by (auto simp: playbook_body_def versioned_def stale_def split: if_splits)
  qed
qed

lemma sync_integration_tenants:
  "sync_integration env t v ev db = (Inr (p, db'), q) \<Longrightarrow> tenant_snapshots db' = tenant_snapshots db"
  by (auto simp: sync_integration_def Let_def bind_res_eq_Inr split: sum.splits option.splits prod.splits if_splits)

lemma sync_mapping_tenants:
  assumes "sync_mapping now t ev db = Inr db'"
  shows "tenant_snapshots db' = tenant_snapshots db"
proof -
  from assms obtain b where b: "action_block ev ''mapping'' = Inr b"
    by (auto simp: sync_mapping_def Let_def bind_res_eq_Inr)
  show ?thesis
  proof (cases b)
    case None
    with assms b show ?thesis by (simp add: sync_mapping_def)
  next
    case (Some x)
    with assms b show ?thesis
      by (cases x) (auto simp: sync_mapping_def Let_def bind_res_eq_Inr split: if_splits)
  qed
qed

lemma tenant_body_again:
  assumes "tenant_body env d t v db = (Inr (b, db'), fx)"
  shows "tenant_body env d t v db' = (Inr (None, db'), [])"
proof (cases "b = None")
  case True
  with assms show ?thesis
    by (auto simp: tenant_body_def Let_def bind_res_eq_Inr split: if_splits sum.splits prod.splits)
next
  case False
  let ?old = "row_at ts_tenant_id t (tenant_snapshots db)"
  from assms False obtain r db1 p q where
    r: "tenant_row t v d ?old = Inr r" and
    g: "sync_integration env t v (jget ''github_integration_event'' d)
          (db\<lparr>tenant_snapshots := put_row ts_tenant_id r (tenant_snapshots db)\<rparr>) = (Inr (p, db1), q)" and
    m: "sync_mapping (ce_now env) t (jget ''service_repo_mapping_event'' d) db1 = Inr db'"
    by (auto simp: tenant_body_def Let_def bind_res_eq_Inr split: if_splits sum.splits prod.splits)
  have "row_at ts_tenant_id t (tenant_snapshots db') = Some r"
    using sync_mapping_tenants [OF m] sync_integration_tenants [OF g] tenant_row_key [OF r] by simp
  with tenant_row_key [OF r] show ?thesis by (simp add: tenant_body_def stale_def)
qed

lemma rule_event_final:
  assumes "handle_alert_rule_event env p db s = (x, db', s', q)" "x = Inr () \<or> db' \<noteq> db"
  shows "handle_alert_rule_event env p db' s2 = (Inr (), db', s2, [])"
proof -
  from assms obtain d i t v del where
    ev: "event_of p ''alert_rule'' = Inr (d, i, t, v, del)"
    by (auto simp: handle_alert_rule_event_def split: sum.splits)
  obtain y db1 fx where t: "transact env (rule_body env d i t v del) db = (y, db1, fx)"
    by (metis prod_cases3)
  then show ?thesis
  proof (cases rule: transact_cases)
    case (failed e)
    with assms ev t show ?thesis by (auto simp: handle_alert_rule_event_def)
  next
    case (through b)
    with assms ev t have "db' = db1" by (auto simp: handle_alert_rule_event_def)
    with through ev rule_body_again [OF through(3)] show ?thesis
      by (simp add: handle_alert_rule_event_def transact_up)
  qed
qed

lemma playbook_event_final:
  assumes "handle_playbook_event env p db s = (x, db', s', q)" "x = Inr () \<or> db' \<noteq> db"
  shows "handle_playbook_event env p db' s2 = (Inr (), db', s2, [])"
proof -
  from assms obtain d i t v del where
    ev: "event_of p ''playbook'' = Inr (d, i, t, v, del)"
    by (auto simp: handle_playbook_event_def split: sum.splits)
  obtain y db1 fx where t: "transact env (playbook_body d i t v del) db = (y, db1, fx)"
    by (metis prod_cases3)
  then show ?thesis
  proof (cases rule: transact_cases)
    case (failed e)
    with assms ev t show ?thesis by (auto simp: handle_playbook_event_def)
  next
    case (through b)
    with assms ev t have "db' = db1"
      by (cases b) (auto simp: handle_playbook_event_def Let_def split: prod.splits)
    with through ev playbook_body_again [OF through(3)] show ?thesis
      by (simp add: handle_playbook_event_def transact_up)
  qed
qed

lemma tenant_event_final:
  assumes "handle_tenant_event env p db s = (x, db', s', q)" "x = Inr () \<or> db' \<noteq> db"
  shows "handle_tenant_event env p db' s2 = (Inr (), db', s2, [])"
proof -
  let ?ev = "bind_res (subscript p ''tenant'') (\<lambda>d.
             bind_res (bind_res (subscript d ''id'') as_uuid) (\<lambda>i.
             bind_res (bind_res (subscript d ''source_version'') py_int) (\<lambda>v. Inr (d, i, v))))"
  from assms obtain d t v where ev: "?ev = Inr (d, t, v)"
    by (auto simp: handle_tenant_event_def split: sum.splits)
  obtain y db1 fx where t: "transact env (tenant_body env d t v) db = (y, db1, fx)"
    by (metis prod_cases3)
  then show ?thesis
  proof (cases rule: transact_cases)
    case (failed e)
    with assms ev t show ?thesis by (auto simp: handle_tenant_event_def)
  next
    case (through b)
    with assms ev t have "db' = db1"
      by (cases b) (auto simp: handle_tenant_event_def Let_def split: prod.splits if_splits)
    with through ev tenant_body_again [OF through(3)] show ?thesis
      by (simp add: handle_tenant_event_def transact_up)
  qed
qed

text \<open>C16: once the transaction of a tenant, rule or playbook event has gone through,
  delivering the event again changes nothing and queues nothing.  This holds for the redelivery after a
  handler that raised behind its commit too: the embedding or index task such a handler failed to queue is
  never queued.\<close>

theorem committed_event_final:
  assumes "topic \<in> set [''config.tenants'', ''config.alert_rules'', ''config.playbooks'']"
    and "handle_config env topic p db s = (x, db', s', q)" and "x = Inr () \<or> db' \<noteq> db"
  shows "handle_config env topic p db' s2 = (Inr (), db', s2, [])"
proof -
  from assms(1) consider "topic = ''config.tenants''" | "topic = ''config.alert_rules''"
    | "topic = ''config.playbooks''" by auto
  then show ?thesis
  proof cases
    case 1
    with tenant_event_final [OF _ assms(3)] assms(2) show ?thesis by (simp add: handle_config_def)
  next
    case 2
    with rule_event_final [OF _ assms(3)] assms(2) show ?thesis by (simp add: handle_config_def)
  next
    case 3
    with playbook_event_final [OF _ assms(3)] assms(2) show ?thesis by (simp add: handle_config_def)
  qed
qed

text \<open>A playbook event whose embedding task the broker did not take.\<close>

definition broken_broker_env :: "mem config_env" where
  "broken_broker_env = quiet_env\<lparr>ce_broker := (\<lambda>_. Some (OSErr ''broker''))\<rparr>"

definition sample_playbook_event :: json where
  "sample_playbook_event = playbook_payload ''playbook.created'' \<lparr>pl_id = row_a, pl_tenant_id = tenant_a,
     pl_error_pattern = ''Timeout'', pl_instructions = ''Restart'', pl_source_version = 1\<rparr>"

definition sample_playbook_db :: db2 where
  "sample_playbook_db = tenant_db\<lparr>playbook_snapshots := [\<lparr>pb_playbook_id = row_a, pb_tenant_id = tenant_a,
     pb_error_pattern = Some ''Timeout'', pb_instructions = Some ''Restart'', pb_source_version = Some 1\<rparr>]\<rparr>"

lemma broker_failure_after_commit:
  "\<exists>s'. handle_config broken_broker_env ''config.playbooks'' sample_playbook_event tenant_db quiet_mem =
     (Inl (OSErr ''broker''), sample_playbook_db, s', [])"
  using sample_uuids
  by (simp add: handle_config_def handle_playbook_event_def sample_playbook_event_def playbook_payload_def
      event_of_def transact_def broken_broker_env_def quiet_env_def playbook_body_def versioned_def
      playbook_row_def fits_bigint_def get_default_def tenant_known_def queue_task_def Let_def
      tenant_db_def sample_playbook_db_def empty_db2_def)

lemma committed_event_final_witness:
  "handle_config broken_broker_env ''config.playbooks'' sample_playbook_event sample_playbook_db quiet_mem =
     (Inr (), sample_playbook_db, quiet_mem, [])"
proof -
  obtain s' where run: "handle_config broken_broker_env ''config.playbooks'' sample_playbook_event tenant_db
      quiet_mem = (Inl (OSErr ''broker''), sample_playbook_db, s', [])"
    using broker_failure_after_commit by blast
  have "sample_playbook_db \<noteq> tenant_db"
    by (simp add: sample_playbook_db_def tenant_db_def empty_db2_def)
  with committed_event_final [OF _ run] show ?thesis by simp
qed


subsection \<open>Deletions\<close>

lemma stale_delete:
  assumes "db_up env" "is_uuid i" "is_uuid t"
    and "row_at ar_rule_id i (alert_rule_snapshots db) = Some q" "stale (ar_source_version q) v"
  shows "handle_alert_rule_event env (rule_deleted_payload i t v) db s = (Inr (), db, s, [])"
  using assms
  by (simp add: handle_alert_rule_event_def rule_deleted_payload_def event_of_def transact_up
      rule_body_def versioned_def)

lemma destroy_rule_event:
  assumes "destroy_rule tenant pk d = (Answer 200, d')" "distinct (map al_id (cs_rules d))"
    and "row_at al_id pk (cs_rules d) = Some r"
  shows "al_id r = pk" "al_tenant_id r = tenant" "row_at al_id pk (cs_rules d') = None"
    "cs_outbox d' = cs_outbox d @ [\<lparr>de_topic = ''config.alert_rules'', de_key = tenant,
       de_payload = rule_deleted_payload pk tenant (al_source_version r)\<rparr>]"
proof -
  from assms(1) obtain r' where r': "rule_of tenant pk d = Some r'"
    by (auto simp: destroy_rule_def split: option.splits)
  note row = rule_of_row [OF assms(2) r']
  with assms r' show "al_id r = pk" "al_tenant_id r = tenant" "row_at al_id pk (cs_rules d') = None"
    "cs_outbox d' = cs_outbox d @ [\<lparr>de_topic = ''config.alert_rules'', de_key = tenant,
       de_payload = rule_deleted_payload pk tenant (al_source_version r)\<rparr>]"
    by (auto simp: destroy_rule_def write_dj_outbox_def)
qed

text \<open>The event of a deletion carries the version of the last change, which the
  snapshot has already reached when the change was delivered, and so counts as stale: an alert rule that was
  changed and then deleted in Django stays in force in the FastAPI service.\<close>

theorem deletion_never_arrives:
  assumes "distinct (map al_id (cs_rules d0))"
    and "update_rule dest_fields tenant pk rq d0 = (Answer 200, d1)"
    and "destroy_rule tenant pk d1 = (Answer 200, d2)"
    and "\<forall>r \<in> set (cs_rules d1). rule_ok (ce_float_repr env) r"
    and "db_up env" and "tenant_known tenant db"
    and "deliver (\<lambda>e. handle_config env (de_topic e) (de_payload e))
           (drop (length (cs_outbox d0)) (cs_outbox d2)) (db, s) = (db', s')"
  shows "row_at al_id pk (cs_rules d2) = None \<and>
         row_at ar_rule_id pk (alert_rule_snapshots db') \<noteq> None"
proof -
  from update_rule_event [OF assms(2,1)] obtain r where
    r: "row_at al_id pk (cs_rules d1) = Some r" "al_id r = pk" "al_tenant_id r = tenant"
      "cs_outbox d1 = cs_outbox d0 @ [\<lparr>de_topic = ''config.alert_rules'', de_key = tenant,
         de_payload = rule_payload ''alert_rule.updated'' r\<rparr>]"
      "distinct (map al_id (cs_rules d1))" by metis
  note gone = destroy_rule_event [OF assms(3) r(5,1)]
  have ok: "rule_ok (ce_float_repr env) r" using assms(4) row_at_Some [OF r(1)] by blast
  obtain x db1 s1 q where h: "handle_alert_rule_event env (rule_payload ''alert_rule.updated'' r) db s =
      (x, db1, s1, q)" by (metis prod_cases4)
  have "row_at ar_rule_id pk (alert_rule_snapshots db1) =
      rule_step env r (row_at ar_rule_id pk (alert_rule_snapshots db))"
    using handle_rule [OF assms(5) ok _ h, of pk] assms(6) r(2,3) by simp
  then obtain q1 where q1: "row_at ar_rule_id pk (alert_rule_snapshots db1) = Some q1"
    "stale (ar_source_version q1) (al_source_version r)"
    using ok by (cases "row_at ar_rule_id pk (alert_rule_snapshots db)")
      (auto simp: rules.step_new rules.step_old rule_image_def stale_def split: if_splits)
  have "is_uuid pk" "is_uuid tenant" using ok r(2,3) by (auto simp: rule_ok_def)
  from stale_delete [OF assms(5) this q1]
  have "handle_alert_rule_event env (rule_deleted_payload pk tenant (al_source_version r)) db1 s1 =
      (Inr (), db1, s1, [])" .
  with assms(7) gone r h have "db' = db1" by (simp add: deliver_def handle_config_def)
  with gone(3) q1 show ?thesis by simp
qed

definition rule_store :: config_store where
  "rule_store = \<lparr>cs_rules = [sample_rule 1 True], cs_playbooks = [], cs_outbox = []\<rparr>"

definition disable_request :: rule_request where
  "disable_request = \<lparr>rq_threshold = None, rq_severity_filter = None, rq_destinations = None,
     rq_enabled = Some False\<rparr>"

definition disabled_store :: config_store where
  "disabled_store = \<lparr>cs_rules = [sample_rule 2 False], cs_playbooks = [],
     cs_outbox = [\<lparr>de_topic = ''config.alert_rules'', de_key = tenant_a,
       de_payload = rule_payload ''alert_rule.updated'' (sample_rule 2 False)\<rparr>]\<rparr>"

lemma deletion_never_arrives_witness:
  "row_at ar_rule_id row_a (alert_rule_snapshots (fst (deliver
     (\<lambda>e. handle_config quiet_env (de_topic e) (de_payload e))
     (cs_outbox (snd (destroy_rule tenant_a row_a disabled_store))) (tenant_db, quiet_mem)))) \<noteq> None"
proof -
  let ?d2 = "snd (destroy_rule tenant_a row_a disabled_store)"
  let ?run = "deliver (\<lambda>e. handle_config quiet_env (de_topic e) (de_payload e)) (cs_outbox ?d2)
    (tenant_db, quiet_mem)"
  have "distinct (map al_id (cs_rules rule_store))" by (simp add: rule_store_def)
  moreover have "update_rule (\<lambda>_ _. None) tenant_a row_a disable_request rule_store =
      (Answer 200, disabled_store)"
    by (simp add: update_rule_def rule_of_def rule_store_def sample_rule_def new_rule_def disable_request_def
        validate_rule_def apply_request_def save_rule_def validate_destinations_list_def write_dj_outbox_def
        disabled_store_def Let_def)
  moreover have "destroy_rule tenant_a row_a disabled_store = (Answer 200, ?d2)"
    by (simp add: destroy_rule_def rule_of_def disabled_store_def sample_rule_def new_rule_def)
  moreover have "\<forall>r \<in> set (cs_rules disabled_store). rule_ok (ce_float_repr quiet_env) r"
    by (simp add: disabled_store_def sample_rule_ok fits_bigint_def)
  moreover note quiet_up
  moreover have "deliver (\<lambda>e. handle_config quiet_env (de_topic e) (de_payload e))
      (drop (length (cs_outbox rule_store)) (cs_outbox ?d2)) (tenant_db, quiet_mem) = (fst ?run, snd ?run)"
    by (simp add: rule_store_def)
  ultimately show ?thesis by (rule conjunct2 [OF deletion_never_arrives])
qed


subsection \<open>Integrations\<close>

text \<open>Django sends the installation id as a text, and the branch for a known
  integration assigns it to an integer column unconverted: whatever the state of the database, no change of a
  connected repository's settings (its branch, its url, its status) is ever applied.\<close>

theorem integration_update_refused:
  assumes "is_uuid (di_id g)" and "is_uuid (di_tenant_id g)" and "di_installation_id g \<noteq> []"
    and "row_at gi_id (di_id g) (github_integration_snapshots db) = Some r"
    and "handle_tenant_event env (integration_payload now_ms plan_tier suspended ''updated'' g) db s =
           (x, db', s', q)"
  shows "db' = db \<and> s' = s \<and> q = []"
proof -
  define d where "d = JObj [(''id'', JStr (di_tenant_id g)), (''plan_tier'', jopt JStr plan_tier),
        (''is_suspended'', JBool suspended), (''source_version'', JInt now_ms),
        (''github_integration_event'', JObj [
           (''action'', JStr ''updated''),
           (''integration'', JObj [
              (''id'', JStr (di_id g)), (''repo_url'', JStr (di_repo_url g)),
              (''repo_owner'', JStr (di_repo_owner g)), (''repo_name'', JStr (di_repo_name g)),
              (''installation_id'', JStr (di_installation_id g)),
              (''default_branch'', JStr (di_default_branch g)),
              (''indexing_status'', JStr (di_indexing_status g)),
              (''last_indexed_commit'', jopt JStr (di_last_indexed_commit g))])])]"
  have ev: "bind_res (subscript (integration_payload now_ms plan_tier suspended ''updated'' g) ''tenant'') (\<lambda>d.
             bind_res (bind_res (subscript d ''id'') as_uuid) (\<lambda>i.
             bind_res (bind_res (subscript d ''source_version'') py_int) (\<lambda>v. Inr (d, i, v)))) =
           Inr (d, di_tenant_id g, now_ms)"
    using assms(2,3) by (simp add: integration_payload_def d_def)
  have bad: "\<exists>e. updated_integration v (jget ''integration'' (jget ''github_integration_event'' d)) r = Inl e"
    for v r
    by (cases "updated_integration v (jget ''integration'' (jget ''github_integration_event'' d)) r")
       (auto simp: updated_integration_def d_def bind_res_eq_Inr Let_def bigint_col_def)
  have blk: "action_block (jget ''github_integration_event'' d) ''integration'' =
      Inr (Some (JStr ''updated'', jget ''integration'' (jget ''github_integration_event'' d), di_id g))"
    using assms(1) by (simp add: action_block_def d_def dict_get_def)
  have sync: "\<exists>e. sync_integration env t v (jget ''github_integration_event'' d) db1 = (Inl e, [])"
    if "github_integration_snapshots db1 = github_integration_snapshots db" for t v db1
    using that assms(4) bad [of v r] by (auto simp: sync_integration_def blk is_one_of_def)
  obtain y db1 fx where t: "transact env (tenant_body env d (di_tenant_id g) now_ms) db = (y, db1, fx)"
    by (metis prod_cases3)
  have body: "tenant_body env d (di_tenant_id g) now_ms db = (Inr (None, db), []) \<or>
      (\<exists>e. tenant_body env d (di_tenant_id g) now_ms db = (Inl e, []))"
  proof (cases "tenant_row (di_tenant_id g) now_ms d (row_at ts_tenant_id (di_tenant_id g) (tenant_snapshots db))")
    case (Inr t)
    obtain e where "sync_integration env (di_tenant_id g) now_ms (jget ''github_integration_event'' d)
        (db\<lparr>tenant_snapshots := put_row ts_tenant_id t (tenant_snapshots db)\<rparr>) = (Inl e, [])"
      using sync [of "db\<lparr>tenant_snapshots := put_row ts_tenant_id t (tenant_snapshots db)\<rparr>"] by auto
    with Inr show ?thesis by (simp add: tenant_body_def Let_def)
  qed (simp add: tenant_body_def Let_def)
  from t have "db1 = db \<and> fx = [] \<and> (\<forall>z. y \<noteq> Inr (Some z))"
  proof (cases rule: transact_cases)
    case (failed e)
    with t body show ?thesis by (auto simp: transact_def split: option.splits)
  next
    case (through z)
    with body show ?thesis by auto
  qed
  with assms(5) t ev show ?thesis
    by (auto simp: handle_tenant_event_def split: sum.splits option.splits)
qed

definition sample_integration :: "string \<Rightarrow> github_integration" where
  "sample_integration branch = \<lparr>di_id = row_a, di_tenant_id = tenant_a, di_repo_url = ''https://github.com/o/r'',
     di_repo_owner = ''o'', di_repo_name = ''r'', di_default_branch = branch, di_installation_id = ''77'',
     di_indexing_status = ''indexed'', di_last_indexed_commit = None\<rparr>"

definition integrated_db :: db2 where
  "integrated_db = tenant_db\<lparr>github_integration_snapshots := [\<lparr>gi_id = row_a, gi_tenant_id = tenant_a,
     gi_repo_url = ''https://github.com/o/r'', gi_repo_owner = ''o'', gi_repo_name = ''r'',
     gi_installation_id = Some 77, gi_default_branch = ''main'', gi_indexing_status = ''indexed'',
     gi_last_indexed_commit = None, gi_source_version = 1\<rparr>]\<rparr>"

lemma integration_update_refused_witness:
  "fst (snd (handle_tenant_event quiet_env
     (integration_payload 2 (Some ''pro'') False ''updated'' (sample_integration ''develop''))
     integrated_db quiet_mem)) = integrated_db"
proof -
  let ?h = "handle_tenant_event quiet_env
     (integration_payload 2 (Some ''pro'') False ''updated'' (sample_integration ''develop''))
     integrated_db quiet_mem"
  have h: "?h = (fst ?h, fst (snd ?h), fst (snd (snd ?h)), snd (snd (snd ?h)))" by simp
  show ?thesis
    by (rule conjunct1 [OF integration_update_refused [OF _ _ _ _ h]])
       (simp_all add: sample_integration_def integrated_db_def sample_uuids)
qed


subsection \<open>Offsets\<close>

text \<open>An event whose handler failed is left uncommitted, as the source says, for a
  retry after a restart; but \<open>commit()\<close> commits the position of the consumer, so the next event that
  succeeds, on any topic, commits the failed one with it: no restart sees it again.\<close>

theorem failed_event_never_retried:
  assumes "kafka_consumer K position committed"
    and "\<forall>p. committed k p \<le> position k p"
    and "consume K (config_verdict loads env) n k w = (h1 @ (m, Leave) # h2 @ (m', Commit) # h3, None, k', w')"
  shows "km_offset m < committed k' (slot m)"
  using kafka_consumer.commit_covers [OF assms(1,3)] assms(2) by blast

definition sample_message :: "string \<Rightarrow> nat \<Rightarrow> message" where
  "sample_message v n = \<lparr>km_topic = ''config.alert_rules'', km_partition = 0, km_offset = n,
     km_value = Some v\<rparr>"

definition sample_loads :: "string \<Rightarrow> json option" where
  "sample_loads t = (if t = ''bad'' then Some (JObj [(''alert_rule'', JNull)]) else None)"

lemma failed_event_never_retried_witness:
  "km_offset (sample_message ''bad'' 0) <
   kl_committed (fst (snd (snd (consume klog (config_verdict sample_loads quiet_env) 3
     (klog_of [sample_message ''bad'' 0, sample_message ''not json'' 1]) (tenant_db, quiet_mem, [])))))
     (slot (sample_message ''bad'' 0))"
proof -
  let ?k = "klog_of [sample_message ''bad'' 0, sample_message ''not json'' 1]"
  let ?run = "consume klog (config_verdict sample_loads quiet_env) 3 ?k (tenant_db, quiet_mem, [])"
  have "?run = ([(sample_message ''bad'' 0, Leave), (sample_message ''not json'' 1, Commit)], None,
      fst (snd (snd ?run)), snd (snd (snd ?run)))"
    by (simp add: numeral_3_eq_3 klog_def klog_of_def config_verdict_def sample_message_def sample_loads_def
        handle_config_def handle_alert_rule_event_def event_of_def subscript_def slot_def)
  then have run: "?run = ([] @ (sample_message ''bad'' 0, Leave) # [] @ (sample_message ''not json'' 1, Commit) # [],
      None, fst (snd (snd ?run)), snd (snd (snd ?run)))" by simp
  show ?thesis
    by (rule failed_event_never_retried [OF klog.kafka_consumer_axioms _ run]) (simp add: klog_of_def)
qed

end
