(* ===== verification/Raw_Logs.thy ===== *)
theory Raw_Logs
  imports Kafka
begin

text \<open>
  \<open>app/queue/kafka/consumers/raw_logs.py\<close>: the consumer that turns \<open>log.ingested\<close> events into \<open>parse_log\<close>
  tasks.  Only the decoding of a value is guarded: any other exception ends the loop, and \<open>start\<close> begins
  again from the committed offsets.
\<close>

text \<open>The arguments of \<open>parse_log.delay\<close>, as the event has them.\<close>

record parse_log_args =
  pa_tenant_id :: json
  pa_incident_id :: json
  pa_s3_path :: json
  pa_service_name :: json
  pa_environment :: json
  pa_trigger :: json
  pa_sdk_meta :: json
  pa_file_path :: json
  pa_line_number :: json
  pa_error_type :: json

definition parse_log_args_of :: "json \<Rightarrow> parse_log_args" where
  "parse_log_args_of d = \<lparr>pa_tenant_id = jget ''tenant_id'' d, pa_incident_id = jget ''incident_id'' d,
     pa_s3_path = jget ''s3_path'' d, pa_service_name = jget ''service_name'' d,
     pa_environment = jget ''environment'' d, pa_trigger = jget ''trigger'' d,
     pa_sdk_meta = jget ''sdk_meta'' d, pa_file_path = jget ''file_path'' d,
     pa_line_number = jget ''line_number'' d, pa_error_type = jget ''error_type'' d\<rparr>"

definition complete_args :: "parse_log_args \<Rightarrow> bool" where
  "complete_args a \<longleftrightarrow> truthy (pa_tenant_id a) \<and> truthy (pa_incident_id a) \<and> truthy (pa_s3_path a) \<and>
     truthy (pa_service_name a) \<and> truthy (pa_environment a)"

text \<open>\<open>broker\<close> says whether \<open>delay\<close> raises; the world is the list of queued tasks.\<close>

definition raw_verdict ::
  "(string \<Rightarrow> json option) \<Rightarrow> (parse_log_args \<Rightarrow> exn option) \<Rightarrow> message \<Rightarrow> parse_log_args list \<Rightarrow>
   verdict \<times> parse_log_args list" where
  "raw_verdict loads broker m queued =
     (case Option.bind (km_value m) loads of
        None \<Rightarrow> (Commit, queued)
      | Some (JObj kvs) \<Rightarrow>
          (let d = JObj kvs; a = parse_log_args_of d in
           if jget ''event_type'' d = JStr ''log.ingested'' \<and> complete_args a
           then (case broker a of Some e \<Rightarrow> (Crash e, queued) | None \<Rightarrow> (Commit, queued @ [a]))
           else (Commit, queued))
      | Some _ \<Rightarrow> (Crash (AttributeError ''get''), queued))"

definition is_object :: "json \<Rightarrow> bool" where
  "is_object v = (case v of JObj _ \<Rightarrow> True | _ \<Rightarrow> False)"

definition poisonous :: "(string \<Rightarrow> json option) \<Rightarrow> message \<Rightarrow> bool" where
  "poisonous loads m \<longleftrightarrow> (\<exists>v. Option.bind (km_value m) loads = Some v \<and> \<not> is_object v)"

lemma poisonous_verdict:
  assumes "poisonous loads m"
  shows "fst (raw_verdict loads broker m w) = Crash (AttributeError ''get'')"
proof -
  from assms obtain v where "Option.bind (km_value m) loads = Some v" "\<not> is_object v"
    by (auto simp: poisonous_def)
  then show ?thesis by (cases v) (auto simp: raw_verdict_def is_object_def)
qed

lemma no_leave: "fst (raw_verdict loads broker m w) \<noteq> Leave"
  by (auto simp: raw_verdict_def Let_def split: option.splits json.splits)

context kafka_consumer begin

text \<open>The verdicts in the history are the handler's.\<close>

lemma history_verdict:
  assumes "consume K handle n k w = (h, oc, k', w')" "(m, v) \<in> set h"
  shows "\<exists>w. v = fst (handle m w)"
  using assms
proof (induction n arbitrary: k w h)
  case (Suc n)
  from Suc.prems(1) show ?case
  proof (cases rule: consume_cases)
    case (left m0 k1 w1 h')
    with Suc show ?thesis by (auto intro: exI [of _ w])
  next
    case (acked m0 k1 w1 k2 h')
    with Suc show ?thesis by (auto intro: exI [of _ w])
  qed (use Suc.prems in \<open>auto intro: exI [of _ w]\<close>)
qed simp

lemma crash_is_last:
  assumes "consume K handle n k w = (h, oc, k', w')" "(m, Crash e) \<in> set h"
  shows "\<exists>h'. h = h' @ [(m, Crash e)] \<and> oc = Some e"
  using assms
proof (induction n arbitrary: k w h)
  case (Suc n)
  from Suc.prems(1) show ?case
  proof (cases rule: consume_cases)
    case (left m0 k1 w1 h')
    with Suc.prems(2) have "(m, Crash e) \<in> set h'" by simp
    from Suc.IH [OF left(3) this] show ?thesis using left(4) by auto
  next
    case (acked m0 k1 w1 k2 h')
    with Suc.prems(2) have "(m, Crash e) \<in> set h'" by simp
    from Suc.IH [OF acked(4) this] show ?thesis using acked(5) by auto
  qed (use Suc.prems in auto)
qed simp

end

text \<open>An event whose value is valid JSON but no object stops the consumer for good: every
  run that takes it ends there with an exception, its offset is not committed, and so the next run, which
  starts from the committed offsets, takes it again.\<close>

theorem poison_message:
  assumes "kafka_consumer K position committed" and "\<forall>p. committed k p \<le> position k p"
    and "consume K (raw_verdict loads broker) n k w = (h, oc, k', w')"
    and "(m, v) \<in> set h" and "poisonous loads m"
  shows "(\<exists>h'. h = h' @ [(m, v)]) \<and> oc = Some (AttributeError ''get'') \<and>
         committed k' (slot m) \<le> km_offset m"
proof -
  have v: "v = Crash (AttributeError ''get'')"
    using kafka_consumer.history_verdict [OF assms(1,3,4)] poisonous_verdict [OF assms(5)] by metis
  obtain h' where h: "h = h' @ [(m, v)]" "oc = Some (AttributeError ''get'')"
    using kafka_consumer.crash_is_last [OF assms(1,3)] assms(4) v by blast
  have "committed k' (slot m) \<le> km_offset m"
    using kafka_consumer.crash_redelivers [OF assms(1), of "raw_verdict loads broker" n k w h' m] assms(2,3)
      h v by metis
  with h show ?thesis by blast
qed

definition list_message :: message where
  "list_message = \<lparr>km_topic = ''raw.logs.t'', km_partition = 0, km_offset = 4, km_value = Some ''[]''\<rparr>"

lemma poison_message_witness:
  "kl_committed (fst (snd (snd (consume klog (raw_verdict (\<lambda>_. Some (JArr [])) (\<lambda>_. None)) 2
     (klog_of [list_message]) [])))) (slot list_message) \<le> 4"
proof -
  let ?run = "consume klog (raw_verdict (\<lambda>_. Some (JArr [])) (\<lambda>_. None)) 2 (klog_of [list_message]) []"
  have run: "?run = (fst ?run, fst (snd ?run), fst (snd (snd ?run)), snd (snd (snd ?run)))" by simp
  have "fst ?run = [(list_message, Crash (AttributeError ''get''))]"
    by (simp add: numeral_2_eq_2 klog_def klog_of_def raw_verdict_def list_message_def slot_def)
  then have "(list_message, Crash (AttributeError ''get'')) \<in> set (fst ?run)" by simp
  from poison_message [OF klog.kafka_consumer_axioms _ run this]
  have "kl_committed (fst (snd (snd ?run))) (slot list_message) \<le> km_offset list_message"
    by (simp add: klog_of_def poisonous_def is_object_def list_message_def)
  then show ?thesis by (simp add: list_message_def)
qed

text \<open>A consumer that commits only what it has handled: every committed log event became a task, unless it
  was incomplete or no event of this kind.\<close>

lemma raw_commit:
  assumes "raw_verdict loads broker m w = (Commit, w')"
  shows "w' = w \<or> (\<exists>d. Option.bind (km_value m) loads = Some d \<and> w' = w @ [parse_log_args_of d])"
  using assms by (auto simp: raw_verdict_def Let_def split: option.splits json.splits if_splits)

end
