(* ===== verification/Embed_Playbook.thy ===== *)
theory Embed_Playbook
  imports Playbook_Matcher Orm
begin

text \<open>
  \<open>app/worker/tasks/embed_playbook.py\<close> with the writes of
  \<open>app/repositories/playbook_vector_repository.py\<close>: the task that computes the vector of a playbook.  The
  embedding model and the creation of an index are parameters; a Redis key remembers the last version.
\<close>

definition EMBEDDING_DIMENSIONS :: nat where
  "EMBEDDING_DIMENSIONS = 768"

definition embed_text :: "(string \<Rightarrow> rat list res) \<Rightarrow> string \<Rightarrow> rat list res" where
  "embed_text model t = (if strip t = [] then Inl (ValueError ''Cannot embed empty text'') else model (strip t))"

text \<open>\<open>INSERT \<dots> ON CONFLICT (playbook_id) DO UPDATE \<dots> WHERE source_version < EXCLUDED.source_version\<close>\<close>

definition upsert_playbook_embedding :: "uuid \<Rightarrow> uuid \<Rightarrow> int \<Rightarrow> rat list \<Rightarrow> db2 \<Rightarrow> db2 res" where
  "upsert_playbook_embedding pid tenant v vec db =
     (let rows = playbook_embeddings db in
      if length vec \<noteq> EMBEDDING_DIMENSIONS then Inl (DataError ''embedding'')
      else case row_at em_playbook_id pid rows of
             Some e \<Rightarrow>
               Inr (if em_source_version e < v
                    then db\<lparr>playbook_embeddings :=
                           put_row em_playbook_id (e\<lparr>em_embedding := vec, em_source_version := v\<rparr>) rows\<rparr>
                    else db)
           | None \<Rightarrow>
               if pid \<notin> pb_playbook_id ` set (playbook_snapshots db)
               then Inl (IntegrityError ''fk_pb_playbook_snapshots'')
               else Inr (db\<lparr>playbook_embeddings := rows @
                      [\<lparr>em_playbook_id = pid, em_tenant_id = tenant, em_embedding = vec,
                        em_source_version = v\<rparr>]\<rparr>))"

definition delete_playbook_embedding :: "uuid \<Rightarrow> db2 \<Rightarrow> db2" where
  "delete_playbook_embedding pid db =
     db\<lparr>playbook_embeddings := drop_row em_playbook_id pid (playbook_embeddings db)\<rparr>"

definition version_key :: "string \<Rightarrow> string" where
  "version_key pid = ''playbook_embed:'' @ pid @ '':version''"

datatype embed_end = Deleted | Skipped | Embedded

text \<open>\<open>int(cached_version)\<close>\<close>

definition reply_int :: "rval \<Rightarrow> int res" where
  "reply_int v = (case v of Num q \<Rightarrow> Inr \<lfloor>q\<rfloor>
     | Text t \<Rightarrow> (case int_of_string t of None \<Rightarrow> Inl (ValueError t) | Some i \<Rightarrow> Inr i))"

record embed_args =
  ea_playbook_id :: uuid
  ea_tenant_id :: uuid
  ea_plan_tier :: "string option"
  ea_error_pattern :: "string option"
  ea_instructions :: "string option"
  ea_source_version :: int
  ea_deleted :: bool

definition embed_playbook ::
  "'s redis \<Rightarrow> (string \<Rightarrow> rat list res) \<Rightarrow> (uuid \<Rightarrow> exn option) \<Rightarrow> embed_args \<Rightarrow> db2 \<Rightarrow> 's \<Rightarrow>
   embed_end res \<times> db2 \<times> 's" where
  "embed_playbook R model ensure_index a db s =
     (let pid = ea_playbook_id a; key = version_key pid in
      if ea_deleted a then
        (let db' = delete_playbook_embedding pid db in
         case r_delete R key s of (Inl e, s1) \<Rightarrow> (Inl e, db', s1) | (Inr _, s1) \<Rightarrow> (Inr Deleted, db', s1))
      else case r_get R key s of
             (Inl e, s1) \<Rightarrow> (Inl e, db, s1)
           | (Inr cached, s1) \<Rightarrow>
               (case (case cached of
                        None \<Rightarrow> Inr False
                      | Some (Text []) \<Rightarrow> Inr False
                      | Some v \<Rightarrow> bind_res (reply_int v) (\<lambda>i. Inr (ea_source_version a \<le> i))) of
                  Inl e \<Rightarrow> (Inl e, db, s1)
                | Inr True \<Rightarrow> (Inr Skipped, db, s1)
                | Inr False \<Rightarrow>
                    (case bind_res (bind_res (build_playbook_embed_text (ea_error_pattern a) (ea_instructions a))
                             (embed_text model))
                           (\<lambda>vec. upsert_playbook_embedding pid (ea_tenant_id a) (ea_source_version a) vec db) of
                       Inl e \<Rightarrow> (Inl e, db, s1)
                     | Inr db' \<Rightarrow>
                         (case (if ea_plan_tier a = Some ''enterprise'' then ensure_index (ea_tenant_id a)
                                else None) of
                            Some e \<Rightarrow> (Inl e, db', s1)
                          | None \<Rightarrow>
                              (case r_set R key (Num (of_int (ea_source_version a))) s1 of
                                 (Inl e, s2) \<Rightarrow> (Inl e, db', s2)
                               | (Inr _, s2) \<Rightarrow> (Inr Embedded, db', s2))))))"

text \<open>Once a version is embedded, running its task again neither asks the model nor touches the table.\<close>

lemma embed_again:
  assumes "redis_server R view" "\<not> ea_deleted a"
    and "embed_playbook R model ensure_index a db s = (Inr Embedded, db', s')"
    and "embed_playbook R model' ensure_index' a db' s' = (r, db'', s'')"
  shows "db'' = db' \<and> (r = Inr Skipped \<or> (\<exists>e. r = Inl e \<and> is_redis_error e))"
proof -
  from assms(2,3) obtain s1 where "r_set R (version_key (ea_playbook_id a))
      (Num (of_int (ea_source_version a))) s1 = (Inr (), s')"
    by (auto simp: embed_playbook_def Let_def split: prod.splits sum.splits option.splits bool.splits if_splits)
  then have set: "view s' (version_key (ea_playbook_id a)) = Some (Num (of_int (ea_source_version a)))"
    using redis_server.set_ok [OF assms(1)] by fastforce
  show ?thesis
    using assms(2,4) set
    by (cases rule: redis_server.get_cases [OF assms(1), of "version_key (ea_playbook_id a)" s'])
       (auto simp: embed_playbook_def Let_def reply_int_def)
qed

text \<open>The version of a stored vector never goes back.\<close>

lemma upsert_monotone:
  assumes "upsert_playbook_embedding pid tenant v vec db = Inr db'"
    and "row_at em_playbook_id p (playbook_embeddings db) = Some e"
  shows "\<exists>e'. row_at em_playbook_id p (playbook_embeddings db') = Some e' \<and>
              em_source_version e \<le> em_source_version e' \<and> em_tenant_id e' = em_tenant_id e"
proof (cases "row_at em_playbook_id pid (playbook_embeddings db)")
  case None
  with assms show ?thesis
    by (auto simp: upsert_playbook_embedding_def Let_def row_at_append split: if_splits)
next
  case (Some x)
  note row_at_Some [OF this]
  with Some assms show ?thesis
    by (cases "p = pid") (auto simp: upsert_playbook_embedding_def Let_def split: if_splits)
qed

end
