(* ===== verification/Json_Text.thy ===== *)
theory Json_Text
  imports Json "HOL-Library.AList"
begin

text \<open>
  \<open>json.dumps\<close> and \<open>json.loads\<close> of the standard library, over the characters below 256: the text of a
  decoded value and the recursive descent back, with the rendering of floats as a parameter.  A number with
  a fraction or an exponent is read as its exact value; NaN and the infinities, which Python accepts, are
  refused here.  The parser takes a bound on its depth of calls; twice the length of the text is enough
  (\<open>parse_fuel\<close>).
\<close>

subsection \<open>Printing\<close>

definition hex_nat :: "nat \<Rightarrow> char" where
  "hex_nat n = ''0123456789abcdef'' ! n"

definition esc_char :: "char \<Rightarrow> string" where
  "esc_char c =
     (let n = (of_char c :: nat) in
      if n = 34 \<or> n = 92 then [CHR 0x5C, c]
      else if n = 10 then CHR 0x5C # ''n'' else if n = 13 then CHR 0x5C # ''r''
      else if n = 9 then CHR 0x5C # ''t'' else if n = 8 then CHR 0x5C # ''b''
      else if n = 12 then CHR 0x5C # ''f''
      else if 32 \<le> n \<and> n \<le> 126 then [c]
      else CHR 0x5C # ''u00'' @ [hex_nat (n div 16), hex_nat (n mod 16)])"

definition quote :: "string \<Rightarrow> string" where
  "quote s = CHR 0x22 # concat (map esc_char s) @ [CHR 0x22]"

fun dumps :: "(rat \<Rightarrow> string) \<Rightarrow> json \<Rightarrow> string" where
  "dumps fr JNull = ''null''"
| "dumps fr (JBool b) = (if b then ''true'' else ''false'')"
| "dumps fr (JInt i) = str_int i"
| "dumps fr (JFlt q) = fr q"
| "dumps fr (JStr s) = quote s"
| "dumps fr (JArr vs) = ''['' @ join '', '' (map (dumps fr) vs) @ '']''"
| "dumps fr (JObj kvs) =
     ''{'' @ join '', '' (map (\<lambda>(k, v). quote k @ '': '' @ dumps fr v) kvs) @ ''}''"

subsection \<open>Parsing\<close>

definition is_ws :: "char \<Rightarrow> bool" where
  "is_ws c = (c \<in> set [CHR 0x20, CHR 0x09, CHR 0x0A, CHR 0x0D])"

abbreviation skip_ws :: "string \<Rightarrow> string" where
  "skip_ws \<equiv> dropWhile is_ws"

definition eat :: "char \<Rightarrow> string \<Rightarrow> string option" where
  "eat c s = (case s of [] \<Rightarrow> None | x # r \<Rightarrow> if x = c then Some r else None)"

definition hex_val :: "char \<Rightarrow> nat option" where
  "hex_val c =
     (let n = (of_char c :: nat) in
      if 48 \<le> n \<and> n \<le> 57 then Some (n - 48)
      else if 97 \<le> n \<and> n \<le> 102 then Some (n - 87)
      else if 65 \<le> n \<and> n \<le> 70 then Some (n - 55) else None)"

text \<open>The character an escape stands for, with the text behind it.\<close>

definition unescape :: "string \<Rightarrow> (char \<times> string) option" where
  "unescape s = (case s of
     [] \<Rightarrow> None
   | c # r \<Rightarrow>
       (let n = (of_char c :: nat) in
        if n = 34 \<or> n = 92 \<or> n = 47 then Some (c, r)
        else if n = 110 then Some (CHR 0x0A, r) else if n = 114 then Some (CHR 0x0D, r)
        else if n = 116 then Some (CHR 0x09, r) else if n = 98 then Some (CHR 0x08, r)
        else if n = 102 then Some (CHR 0x0C, r)
        else if n = 117 then
          (case r of
             a # b # d # e # r' \<Rightarrow>
               (case (hex_val a, hex_val b, hex_val d, hex_val e) of
                  (Some 0, Some 0, Some h, Some l) \<Rightarrow> Some (char_of (16 * h + l), r')
                | _ \<Rightarrow> None)
           | _ \<Rightarrow> None)
        else None))"

lemma unescape_shorter: "unescape s = Some (c, r) \<Longrightarrow> length r < length s"
  by (auto simp: unescape_def Let_def split: list.splits if_splits option.splits nat.splits)

text \<open>The text up to the closing quotation mark, and what follows it.\<close>

function unquote :: "string \<Rightarrow> (string \<times> string) option" where
  "unquote s = (case s of
     [] \<Rightarrow> None
   | c # r \<Rightarrow>
       if c = CHR 0x22 then Some ([], r)
       else if c = CHR 0x5C then
         (case unescape r of
            None \<Rightarrow> None
          | Some (d, r') \<Rightarrow> map_option (\<lambda>(t, r''). (d # t, r'')) (unquote r'))
       else if (of_char c :: nat) < 32 then None
       else map_option (\<lambda>(t, r'). (c # t, r')) (unquote r))"
  by pat_completeness auto
termination
  by (relation "measure length") (auto dest: unescape_shorter)

declare unquote.simps [simp del]

text \<open>A number: the value and the text behind it.\<close>

definition int_part :: "string \<Rightarrow> string" where
  "int_part s =
     (let ds = takeWhile is_digit s
      in case ds of [] \<Rightarrow> [] | d # _ \<Rightarrow> if d = CHR ''0'' then [d] else ds)"

definition exp_part :: "string \<Rightarrow> (string \<times> string) option" where
  "exp_part s = (case s of
     [] \<Rightarrow> None
   | e # r \<Rightarrow>
       if e = CHR ''e'' \<or> e = CHR ''E'' then
         (let sg = takeWhile (\<lambda>c. c = CHR ''-'' \<or> c = CHR ''+'') r;
              es = takeWhile is_digit (drop (length sg) r)
          in if length sg \<le> 1 \<and> es \<noteq> [] then Some (sg, es) else None)
       else None)"

definition frac_part :: "string \<Rightarrow> string" where
  "frac_part s = (case eat (CHR ''.'') s of None \<Rightarrow> [] | Some r \<Rightarrow> takeWhile is_digit r)"

definition parse_number :: "string \<Rightarrow> (json \<times> string) option" where
  "parse_number s =
     (let (neg, t) = (case eat (CHR ''-'') s of None \<Rightarrow> (False, s) | Some r \<Rightarrow> (True, r));
          ip = int_part t;
          r1 = drop (length ip) t;
          fp = frac_part r1;
          r2 = (if fp = [] then r1 else drop (Suc (length fp)) r1);
          n = int (digits_val ip)
      in if ip = [] then None
         else case exp_part r2 of
                None \<Rightarrow>
                  if fp = [] then Some (JInt (if neg then - n else n), r2)
                  else (let q = of_int n + of_nat (digits_val fp) / 10 ^ length fp
                        in Some (JFlt (if neg then - q else q), r2))
              | Some (sg, es) \<Rightarrow>
                  (let q = scale10 (if sg = ''-'' then - int (digits_val es) else int (digits_val es))
                         (of_int n + of_nat (digits_val fp) / 10 ^ length fp)
                   in Some (JFlt (if neg then - q else q), drop (Suc (length sg + length es)) r2)))"

text \<open>A dictionary from its pairs: a later value replaces an earlier one in its place.\<close>

definition dict_of :: "(string \<times> json) list \<Rightarrow> (string \<times> json) list" where
  "dict_of kvs = fold (\<lambda>(k, v). AList.update k v) kvs []"

fun parse_value :: "nat \<Rightarrow> string \<Rightarrow> (json \<times> string) option"
and parse_items :: "nat \<Rightarrow> string \<Rightarrow> (json list \<times> string) option"
and parse_members :: "nat \<Rightarrow> string \<Rightarrow> ((string \<times> json) list \<times> string) option" where
  "parse_value 0 s = None"
| "parse_value (Suc n) s =
     (case eat (CHR 0x22) s of
        Some r \<Rightarrow> map_option (\<lambda>(t, r'). (JStr t, r')) (unquote r)
      | None \<Rightarrow>
     (case eat (CHR ''['') s of
        Some r \<Rightarrow>
          (case eat (CHR '']'') (skip_ws r) of
             Some r' \<Rightarrow> Some (JArr [], r')
           | None \<Rightarrow> map_option (\<lambda>(vs, r'). (JArr vs, r')) (parse_items n (skip_ws r)))
      | None \<Rightarrow>
     (case eat (CHR ''{'') s of
        Some r \<Rightarrow>
          (case eat (CHR ''}'') (skip_ws r) of
             Some r' \<Rightarrow> Some (JObj [], r')
           | None \<Rightarrow> map_option (\<lambda>(kvs, r'). (JObj (dict_of kvs), r')) (parse_members n (skip_ws r)))
      | None \<Rightarrow>
          if prefix ''null'' s then Some (JNull, drop 4 s)
          else if prefix ''true'' s then Some (JBool True, drop 4 s)
          else if prefix ''false'' s then Some (JBool False, drop 5 s)
          else parse_number s)))"
| "parse_items 0 s = None"
| "parse_items (Suc n) s =
     (case parse_value n s of
        None \<Rightarrow> None
      | Some (v, r) \<Rightarrow>
          (case eat (CHR '']'') (skip_ws r) of
             Some r' \<Rightarrow> Some ([v], r')
           | None \<Rightarrow>
          (case eat (CHR '','') (skip_ws r) of
             Some r' \<Rightarrow> map_option (\<lambda>(vs, r''). (v # vs, r'')) (parse_items n (skip_ws r'))
           | None \<Rightarrow> None)))"
| "parse_members 0 s = None"
| "parse_members (Suc n) s =
     (case Option.bind (eat (CHR 0x22) s) unquote of
        None \<Rightarrow> None
      | Some (k, r) \<Rightarrow>
          (case eat (CHR '':'') (skip_ws r) of
             None \<Rightarrow> None
           | Some r1 \<Rightarrow>
               (case parse_value n (skip_ws r1) of
                  None \<Rightarrow> None
                | Some (v, r2) \<Rightarrow>
                    (case eat (CHR ''}'') (skip_ws r2) of
                       Some r' \<Rightarrow> Some ([(k, v)], r')
                     | None \<Rightarrow>
                    (case eat (CHR '','') (skip_ws r2) of
                       Some r' \<Rightarrow> map_option (\<lambda>(kvs, r''). ((k, v) # kvs, r''))
                                    (parse_members n (skip_ws r'))
                     | None \<Rightarrow> None)))))"

definition loads :: "string \<Rightarrow> json option" where
  "loads s =
     (case parse_value (2 * length s) (skip_ws s) of
        None \<Rightarrow> None
      | Some (v, r) \<Rightarrow> if skip_ws r = [] then Some v else None)"


subsection \<open>Reading back what was printed\<close>

lemma eat_simps [simp]:
  "eat c [] = None" "eat c (x # r) = (if x = c then Some r else None)"
  by (simp_all add: eat_def)

lemma hex_val_nat: "k < 16 \<Longrightarrow> hex_val (hex_nat k) = Some k"
  by (auto simp: hex_val_def hex_nat_def less_Suc_eq numeral_eq_Suc)

lemma unescape_hex:
  assumes "n < 256"
  shows "unescape (''u00'' @ [hex_nat (n div 16), hex_nat (n mod 16)] @ s) = Some (char_of n, s)"
proof -
  have "hex_val (CHR ''0'') = Some 0" by (simp add: hex_val_def)
  moreover have "n div 16 < 16" using assms by simp
  moreover have "16 * (n div 16) + n mod 16 = n" by simp
  ultimately show ?thesis by (simp add: unescape_def hex_val_nat)
qed

lemma control_chars:
  "of_char c = (10::nat) \<Longrightarrow> c = CHR 0x0A" "of_char c = (13::nat) \<Longrightarrow> c = CHR 0x0D"
  "of_char c = (9::nat) \<Longrightarrow> c = CHR 0x09" "of_char c = (8::nat) \<Longrightarrow> c = CHR 0x08"
  "of_char c = (12::nat) \<Longrightarrow> c = CHR 0x0C"
proof -
  have eq: "c = d" if "of_char c = n" "of_char d = n" for d and n :: nat
    using that by (metis of_char_eq_iff)
  have "of_char (CHR 0x0A) = (10::nat)" "of_char (CHR 0x0D) = (13::nat)" "of_char (CHR 0x09) = (9::nat)"
    "of_char (CHR 0x08) = (8::nat)" "of_char (CHR 0x0C) = (12::nat)" by simp_all
  then show "of_char c = (10::nat) \<Longrightarrow> c = CHR 0x0A" "of_char c = (13::nat) \<Longrightarrow> c = CHR 0x0D"
    "of_char c = (9::nat) \<Longrightarrow> c = CHR 0x09" "of_char c = (8::nat) \<Longrightarrow> c = CHR 0x08"
    "of_char c = (12::nat) \<Longrightarrow> c = CHR 0x0C" by (blast intro: eq)+
qed

lemma unescape_pairs:
  "unescape (CHR ''n'' # s) = Some (CHR 0x0A, s)" "unescape (CHR ''r'' # s) = Some (CHR 0x0D, s)"
  "unescape (CHR ''t'' # s) = Some (CHR 0x09, s)" "unescape (CHR ''b'' # s) = Some (CHR 0x08, s)"
  "unescape (CHR ''f'' # s) = Some (CHR 0x0C, s)"
  by (simp_all add: unescape_def)

lemma esc_pairs:
  "esc_char (CHR 0x0A) = [CHR 0x5C, CHR ''n'']" "esc_char (CHR 0x0D) = [CHR 0x5C, CHR ''r'']"
  "esc_char (CHR 0x09) = [CHR 0x5C, CHR ''t'']" "esc_char (CHR 0x08) = [CHR 0x5C, CHR ''b'']"
  "esc_char (CHR 0x0C) = [CHR 0x5C, CHR ''f'']"
  by (simp_all add: esc_char_def)

lemma unquote_pair:
  assumes "unescape (e # s) = Some (d, s)"
  shows "unquote (CHR 0x5C # e # s) = map_option (\<lambda>(t, r). (d # t, r)) (unquote s)"
  by (subst unquote.simps) (simp add: assms)

lemma unquote_esc: "unquote (esc_char c @ s) = map_option (\<lambda>(t, r). (c # t, r)) (unquote s)"
proof -
  define n :: nat where "n = of_char c"
  have n: "n < 256" "char_of n = c" by (simp_all add: n_def)
  have esc: "esc_char c = (if n = 34 \<or> n = 92 then [CHR 0x5C, c]
      else if n = 10 then CHR 0x5C # ''n'' else if n = 13 then CHR 0x5C # ''r''
      else if n = 9 then CHR 0x5C # ''t'' else if n = 8 then CHR 0x5C # ''b''
      else if n = 12 then CHR 0x5C # ''f''
      else if 32 \<le> n \<and> n \<le> 126 then [c]
      else CHR 0x5C # ''u00'' @ [hex_nat (n div 16), hex_nat (n mod 16)])"
    by (simp add: esc_char_def n_def Let_def)
  have through: "unquote (CHR 0x5C # e @ s) = map_option (\<lambda>(t, r). (c # t, r)) (unquote s)"
    if "unescape (e @ s) = Some (c, s)" for e
    using that by (subst unquote.simps) simp
  consider "n = 34 \<or> n = 92" | "n \<in> {10, 13, 9, 8, 12}"
    | "n \<noteq> 34" "n \<noteq> 92" "32 \<le> n" "n \<le> 126"
    | "\<not> (32 \<le> n \<and> n \<le> 126)" "n \<notin> {10, 13, 9, 8, 12}" by fastforce
  then show ?thesis
  proof cases
    case 1
    then have "unescape ([c] @ s) = Some (c, s)" by (auto simp: unescape_def n_def)
    with through [of "[c]"] 1 show ?thesis by (simp add: esc)
  next
    case 2
    then consider "n = 10" | "n = 13" | "n = 9" | "n = 8" | "n = 12" by blast
    then consider "c = CHR 0x0A" | "c = CHR 0x0D" | "c = CHR 0x09" | "c = CHR 0x08" | "c = CHR 0x0C"
      unfolding n_def by cases (blast intro: control_chars)+
    then show ?thesis
      by cases (hypsubst, simp only: esc_pairs append.simps unquote_pair [OF unescape_pairs(1)]
        unquote_pair [OF unescape_pairs(2)] unquote_pair [OF unescape_pairs(3)]
        unquote_pair [OF unescape_pairs(4)] unquote_pair [OF unescape_pairs(5)])+
  next
    case 3
    then have "c \<noteq> CHR 0x22" "c \<noteq> CHR 0x5C" by (auto simp: n_def)
    with 3 show ?thesis by (subst unquote.simps) (simp add: esc n_def)
  next
    case 4
    then have "esc_char c = CHR 0x5C # (''u00'' @ [hex_nat (n div 16), hex_nat (n mod 16)])"
      by (auto simp: esc)
    with through [of "''u00'' @ [hex_nat (n div 16), hex_nat (n mod 16)]"] unescape_hex [OF n(1)] n(2)
    show ?thesis by simp
  qed
qed

lemma unquote_quote: "unquote (concat (map esc_char s) @ CHR 0x22 # r) = Some (s, r)"
proof (induction s)
  case Nil
  show ?case by (subst unquote.simps) simp
qed (simp add: unquote_esc)

text \<open>Values without floats whose objects have each key once: what the sources print.\<close>

fun plain :: "json \<Rightarrow> bool" where
  "plain (JFlt q) = False"
| "plain (JArr vs) = (\<forall>v \<in> set vs. plain v)"
| "plain (JObj kvs) = (distinct (map fst kvs) \<and> (\<forall>(k, v) \<in> set kvs. plain v))"
| "plain _ = True"

lemma dict_of_distinct: "distinct (map fst kvs) \<Longrightarrow> dict_of kvs = kvs"
proof -
  have new: "k \<notin> fst ` set xs \<Longrightarrow> AList.update k v xs = xs @ [(k, v)]"
    for k :: string and v :: json and xs by (induction xs) auto
  have "distinct (map fst (xs @ ys)) \<Longrightarrow> fold (\<lambda>(k, v). AList.update k v) ys xs = xs @ ys"
    for xs ys :: "(string \<times> json) list"
    by (induction ys arbitrary: xs) (auto simp: new)
  from this [of "[]" kvs] show "distinct (map fst kvs) \<Longrightarrow> dict_of kvs = kvs" by (simp add: dict_of_def)
qed

definition stops :: "string \<Rightarrow> bool" where
  "stops r \<longleftrightarrow> r = [] \<or> hd r \<in> set '',]}''"

lemma digits_all: "list_all is_digit (digits n)"
  unfolding list_all_iff is_digit_def by (rule ballI, rule subsetD [OF set_digits])

lemma digits_hd: "\<exists>c cs. digits n = c # cs \<and> is_digit c \<and> (c = CHR ''0'' \<longrightarrow> cs = [])"
proof (induction n rule: digits.induct)
  case (1 n)
  show ?case
  proof (cases "n < 10")
    case True
    then have "''0123456789'' ! n \<in> set ''0123456789''" by (intro nth_mem) simp
    with True show ?thesis by (subst digits.simps) (simp add: is_digit_def)
  next
    case False
    with 1 obtain c cs where h: "digits (n div 10) = c # cs" "is_digit c"
      "c = CHR ''0'' \<longrightarrow> cs = []" by blast
    have "c \<noteq> CHR ''0''"
    proof
      assume "c = CHR ''0''"
      with h have "digits (n div 10) = [CHR ''0'']" by simp
      moreover have "digits 0 = [CHR ''0'']" by (subst digits.simps) simp
      ultimately have "n div 10 = 0" by (metis digits_inj)
      with False show False by simp
    qed
    with h False show ?thesis by (subst digits.simps) simp
  qed
qed

lemma takeWhile_digits:
  assumes "stops r" shows "takeWhile is_digit (digits n @ r) = digits n"
proof -
  from assms have "takeWhile is_digit r = []" by (cases r) (auto simp: stops_def is_digit_def)
  with digits_all [of n] show ?thesis by (simp add: list_all_iff)
qed

lemma int_part_digits: "stops r \<Longrightarrow> int_part (digits n @ r) = digits n"
  using digits_hd [of n] by (auto simp: int_part_def takeWhile_digits)

lemma stops_parts: "stops r \<Longrightarrow> frac_part r = []" "stops r \<Longrightarrow> exp_part r = None"
  by (cases r; auto simp: stops_def frac_part_def exp_part_def)+

lemma parse_number_nat:
  assumes "stops r"
  shows "parse_number (digits n @ r) = Some (JInt (int n), r)"
    "parse_number (CHR ''-'' # digits n @ r) = Some (JInt (- int n), r)"
proof -
  obtain c cs where h: "digits n = c # cs" "is_digit c" using digits_hd by blast
  then have "c \<noteq> CHR ''-''" by (auto simp: is_digit_def)
  with h have e: "eat (CHR ''-'') (digits n @ r) = None" by simp
  have ne: "digits n \<noteq> []" using h by simp
  note calc = int_part_digits [OF assms] stops_parts [OF assms] digits_val_digits ne
  show "parse_number (digits n @ r) = Some (JInt (int n), r)"
    unfolding parse_number_def e by (simp add: calc)
  show "parse_number (CHR ''-'' # digits n @ r) = Some (JInt (- int n), r)"
    unfolding parse_number_def by (simp add: calc)
qed

lemma str_int_head: "\<exists>c t. str_int i = c # t \<and> (c = CHR ''-'' \<or> is_digit c)"
  using digits_hd [of "nat i"] by (fastforce simp: str_int_def)

lemma parse_number_int: "stops r \<Longrightarrow> parse_number (str_int i @ r) = Some (JInt i, r)"
  by (simp add: str_int_def parse_number_nat)

lemma digit_head:
  assumes "is_digit c" shows "\<not> is_ws c \<and> c \<notin> set ''[]{}ntf'' \<and> c \<noteq> CHR 0x22"
proof -
  have "\<forall>c \<in> set ''0123456789''. \<not> is_ws c \<and> c \<notin> set ''[]{}ntf'' \<and> c \<noteq> CHR 0x22"
    by (simp add: is_ws_def)
  with assms show ?thesis unfolding is_digit_def by (rule bspec [rotated])
qed

lemma dumps_head:
  assumes "plain v"
  shows "\<exists>c t. dumps fr v = c # t \<and> \<not> is_ws c \<and> c \<noteq> CHR '']'' \<and> c \<noteq> CHR ''}''"
proof (cases v)
  case (JInt i)
  with str_int_head [of i] digit_head show ?thesis by (fastforce simp: is_ws_def)
qed (use assms in \<open>auto simp: is_ws_def quote_def\<close>)

lemma parse_value_int:
  assumes "stops r" shows "parse_value (Suc n) (str_int i @ r) = Some (JInt i, r)"
proof -
  obtain c t where "str_int i = c # t" "c = CHR ''-'' \<or> is_digit c" using str_int_head by blast
  then have ne: "c \<noteq> CHR 0x22" "c \<noteq> CHR ''[''" "c \<noteq> CHR ''{''" "c \<noteq> CHR ''n''" "c \<noteq> CHR ''t''" "c \<noteq> CHR ''f''"
    and ct: "str_int i = c # t" using digit_head [of c] by auto
  have "parse_value (Suc n) (c # t @ r) = parse_number (c # t @ r)"
    using ne by simp
  with ct parse_number_int [OF assms, of i] show ?thesis by simp
qed

lemma skip_dumps: "plain v \<Longrightarrow> skip_ws (dumps fr v @ r) = dumps fr v @ r"
  using dumps_head [of v fr] by auto

lemma not_ws [simp]: "\<not> is_ws (CHR '','')" "\<not> is_ws (CHR '']'')" "\<not> is_ws (CHR ''}'')"
  "\<not> is_ws (CHR '':'')" "\<not> is_ws (CHR 0x22)" "is_ws (CHR '' '')"
  by (simp_all add: is_ws_def)

lemma stops_simps [simp]: "stops []" "stops (CHR '','' # r)" "stops (CHR '']'' # r)" "stops (CHR ''}'' # r)"
  by (simp_all add: stops_def)

text \<open>\<open>n\<close> calls are enough for the text of \<open>v\<close>.\<close>

definition reads :: "(rat \<Rightarrow> string) \<Rightarrow> json \<Rightarrow> bool" where
  "reads fr v \<longleftrightarrow> (\<forall>n r. 2 * length (dumps fr v) \<le> n \<longrightarrow> stops r \<longrightarrow>
     parse_value n (dumps fr v @ r) = Some (v, r))"

lemma readsD: "reads fr v \<Longrightarrow> 2 * length (dumps fr v) \<le> n \<Longrightarrow> stops r \<Longrightarrow>
    parse_value n (dumps fr v @ r) = Some (v, r)"
  by (simp add: reads_def)

lemma parse_items_dumps:
  assumes "vs \<noteq> []" "\<forall>v \<in> set vs. reads fr v \<and> plain v"
    and "2 * length (join '', '' (map (dumps fr) vs)) < n"
  shows "parse_items n (join '', '' (map (dumps fr) vs) @ CHR '']'' # r) = Some (vs, r)"
  using assms
proof (induction vs arbitrary: n)
  case (Cons v vs)
  then obtain m where n: "n = Suc m" by (cases n) auto
  show ?case
  proof (cases vs)
    case Nil
    with Cons.prems n show ?thesis by (simp add: readsD)
  next
    case (Cons w ws)
    let ?rest = "join '', '' (map (dumps fr) vs)"
    have "parse_value m (dumps fr v @ CHR '','' # CHR '' '' # ?rest @ CHR '']'' # r) =
        Some (v, CHR '','' # CHR '' '' # ?rest @ CHR '']'' # r)"
      using Cons.prems n Cons by (intro readsD) auto
    moreover have "parse_items m (?rest @ CHR '']'' # r) = Some (vs, r)"
      using Cons.prems n Cons by (intro Cons.IH) auto
    moreover have "skip_ws (?rest @ CHR '']'' # r) = ?rest @ CHR '']'' # r"
    proof -
      have "plain w" using Cons.prems Cons by simp
      with dumps_head [of w fr] Cons show ?thesis by (cases ws) auto
    qed
    ultimately show ?thesis using Cons n by simp
  qed
qed simp

definition member_text :: "(rat \<Rightarrow> string) \<Rightarrow> string \<times> json \<Rightarrow> string" where
  "member_text fr kv = quote (fst kv) @ '': '' @ dumps fr (snd kv)"

lemma dumps_object: "dumps fr (JObj kvs) = ''{'' @ join '', '' (map (member_text fr) kvs) @ ''}''"
proof -
  have "member_text fr = (\<lambda>(k, v). quote k @ '': '' @ dumps fr v)"
    by (simp add: member_text_def fun_eq_iff)
  then show ?thesis by simp
qed

lemma member_text_quote: "member_text fr kv @ r = CHR 0x22 # concat (map esc_char (fst kv)) @
    CHR 0x22 # CHR '':'' # CHR '' '' # dumps fr (snd kv) @ r"
  by (simp add: member_text_def quote_def)

lemma length_member_text: "length (dumps fr (snd kv)) < length (member_text fr kv)"
  by (simp add: member_text_def)

lemma parse_members_dumps:
  assumes "kvs \<noteq> []" "\<forall>kv \<in> set kvs. reads fr (snd kv) \<and> plain (snd kv)"
    and "2 * length (join '', '' (map (member_text fr) kvs)) < n"
  shows "parse_members n (join '', '' (map (member_text fr) kvs) @ CHR ''}'' # r) = Some (kvs, r)"
  using assms
proof (induction kvs arbitrary: n)
  case (Cons kv kvs)
  then obtain m where n: "n = Suc m" by (cases n) auto
  obtain k v where kv: "kv = (k, v)" by fastforce
  have v: "reads fr v" "plain v" using Cons.prems kv by auto
  have "length (member_text fr kv) \<le> length (join '', '' (map (member_text fr) (kv # kvs)))"
    by (cases kvs) auto
  with Cons.prems(3) n length_member_text [of fr kv] kv have len: "2 * length (dumps fr v) \<le> m" by simp
  have val: "parse_value m (dumps fr v @ t) = Some (v, t)" if "stops t" for t
    using v(1) len that by (rule readsD)
  note step = member_text_quote kv unquote_quote skip_dumps [OF v(2)] val
  show ?case
  proof (cases kvs)
    case Nil
    with n show ?thesis by (simp add: step)
  next
    case (Cons kw ks)
    let ?rest = "join '', '' (map (member_text fr) kvs)"
    have rest: "parse_members m (?rest @ CHR ''}'' # r) = Some (kvs, r)"
      using Cons.prems n Cons by (intro Cons.IH) auto
    have skip: "skip_ws (?rest @ CHR ''}'' # r) = ?rest @ CHR ''}'' # r"
      using Cons by (cases ks) (auto simp: member_text_quote)
    have "join '', '' (map (member_text fr) (kv # kvs)) @ CHR ''}'' # r =
        member_text fr kv @ CHR '','' # CHR '' '' # ?rest @ CHR ''}'' # r"
      using Cons by simp
    then show ?thesis unfolding n by (simp add: step rest skip)
  qed
qed simp

lemma plain_reads: "plain v \<Longrightarrow> reads fr v"
proof (induction v)
  case (JInt i)
  show ?case unfolding reads_def
  proof (intro allI impI)
    fix n r assume "2 * length (dumps fr (JInt i)) \<le> n" "stops r"
    moreover obtain c t where "str_int i = c # t" using str_int_head by blast
    ultimately obtain m where "n = Suc m" by (cases n) auto
    with \<open>stops r\<close> show "parse_value n (dumps fr (JInt i) @ r) = Some (JInt i, r)"
      by (simp add: parse_value_int del: parse_value.simps)
  qed
next
  case (JStr s)
  show ?case unfolding reads_def
  proof (intro allI impI)
    fix n r assume "2 * length (dumps fr (JStr s)) \<le> n" "stops r"
    then obtain m where "n = Suc m" by (cases n) (auto simp: quote_def)
    then show "parse_value n (dumps fr (JStr s) @ r) = Some (JStr s, r)"
      by (simp add: quote_def unquote_quote)
  qed
next
  case (JArr vs)
  show ?case unfolding reads_def
  proof (intro allI impI)
    fix n r assume n: "2 * length (dumps fr (JArr vs)) \<le> n" and "stops r"
    then obtain m where m: "n = Suc m" by (cases n) auto
    show "parse_value n (dumps fr (JArr vs) @ r) = Some (JArr vs, r)"
    proof (cases vs)
      case Nil
      with m show ?thesis by simp
    next
      case (Cons w ws)
      have "\<forall>v \<in> set vs. reads fr v \<and> plain v" using JArr by auto
      with Cons m n have items: "parse_items m (join '', '' (map (dumps fr) vs) @ CHR '']'' # r) = Some (vs, r)"
        by (intro parse_items_dumps) auto
      have "plain w" using JArr.prems Cons by simp
      with dumps_head [of w fr] Cons obtain c t where
        "join '', '' (map (dumps fr) vs) = c # t" "\<not> is_ws c" "c \<noteq> CHR '']''" by (cases ws) auto
      with items m show ?thesis by simp
    qed
  qed
next
  case (JObj kvs)
  show ?case unfolding reads_def
  proof (intro allI impI)
    fix n r assume n: "2 * length (dumps fr (JObj kvs)) \<le> n" and "stops r"
    then obtain m where m: "n = Suc m" by (cases n) auto
    show "parse_value n (dumps fr (JObj kvs) @ r) = Some (JObj kvs, r)"
    proof (cases kvs)
      case Nil
      with m show ?thesis by simp
    next
      case (Cons kw ks)
      have "\<forall>kv \<in> set kvs. reads fr (snd kv) \<and> plain (snd kv)"
        using JObj by (auto simp: snds.simps)
      with Cons m n have members: "parse_members m (join '', '' (map (member_text fr) kvs) @ CHR ''}'' # r) =
          Some (kvs, r)"
        by (intro parse_members_dumps) (auto simp: dumps_object simp del: dumps.simps)
      obtain t where "join '', '' (map (member_text fr) kvs) = CHR 0x22 # t"
        using Cons member_text_quote [of fr kw "[]"] by (cases ks) auto
      with members m JObj.prems show ?thesis
        by (simp add: dumps_object dict_of_distinct del: dumps.simps)
    qed
  qed
next
  case JNull
  show ?case unfolding reads_def
  proof (intro allI impI)
    fix n r assume "2 * length (dumps fr JNull) \<le> n" "stops r"
    then obtain m where "n = Suc m" by (cases n) auto
    then show "parse_value n (dumps fr JNull @ r) = Some (JNull, r)" by simp
  qed
next
  case (JBool b)
  show ?case unfolding reads_def
  proof (intro allI impI)
    fix n r assume "2 * length (dumps fr (JBool b)) \<le> n" "stops r"
    then obtain m where "n = Suc m" by (cases n) (auto split: if_splits)
    then show "parse_value n (dumps fr (JBool b) @ r) = Some (JBool b, r)" by simp
  qed
qed simp

theorem loads_dumps: "plain v \<Longrightarrow> loads (dumps fr v) = Some v"
  using readsD [OF plain_reads, of v fr "2 * length (dumps fr v)" "[]"] skip_dumps [of v fr "[]"]
  by (simp add: loads_def)

subsection \<open>The bound is enough\<close>

lemma eat_shorter: "eat c s = Some r \<Longrightarrow> length s = Suc (length r)"
  by (cases s) (auto split: if_splits)

lemma skip_shorter: "length (skip_ws s) \<le> length s"
  by (rule length_dropWhile_le)

lemma eat_skip: "eat c (skip_ws s) = Some r \<Longrightarrow> length r < length s"
  using eat_shorter [of c "skip_ws s" r] skip_shorter [of s] by simp

lemma skip_Suc: "length (skip_ws s) = Suc m \<Longrightarrow> m < length s"
  using skip_shorter [of s] by simp

lemma unquote_shorter: "unquote s = Some (t, r) \<Longrightarrow> length r < length s"
proof (induction s arbitrary: t rule: measure_induct_rule [of length])
  case (less s)
  from less.prems obtain c s' where s: "s = c # s'" by (subst (asm) unquote.simps) (cases s; simp)
  have step: "length r < length s" if "length u \<le> length s'" "unquote u = Some (t', r)" for u t'
    using that s less.IH [of u t'] by simp
  from less.prems s consider "r = s'" | u t' where "length u \<le> length s'" "unquote u = Some (t', r)"
    by (subst (asm) unquote.simps)
      (auto split: if_splits option.splits dest: unescape_shorter less_imp_le)
  then show ?case
  proof cases
    case 1
    with s show ?thesis by simp
  qed (rule step)
qed

lemma int_part_le: "length (int_part t) \<le> length t"
  using length_takeWhile_le [of is_digit t] by (auto simp: int_part_def Let_def split: list.splits)

lemma parse_number_shorter: "parse_number s = Some (v, r) \<Longrightarrow> length r < length s"
proof -
  assume a: "parse_number s = Some (v, r)"
  obtain neg t where t: "(case eat (CHR ''-'') s of None \<Rightarrow> (False, s) | Some r \<Rightarrow> (True, r)) = (neg, t)"
    by fastforce
  then have "length t \<le> length s" by (auto split: option.splits dest: eat_shorter)
  moreover have "length (int_part t) \<le> length t" by (rule int_part_le)
  moreover from a t have "int_part t \<noteq> []" by (auto simp: parse_number_def Let_def)
  moreover from a t have "length r \<le> length (drop (length (int_part t)) t)"
    by (auto simp: parse_number_def Let_def split: option.splits if_splits)
  ultimately show ?thesis by (cases "int_part t") auto
qed

lemma parse_shorter:
  "(\<forall>s v r. parse_value n s = Some (v, r) \<longrightarrow> length r < length s) \<and>
   (\<forall>s vs r. parse_items n s = Some (vs, r) \<longrightarrow> length r < length s) \<and>
   (\<forall>s kvs r. parse_members n s = Some (kvs, r) \<longrightarrow> length r < length s)"
proof (induction n)
  case (Suc n)
  have v: "length r < length s" if "parse_value n s = Some (w, r)" for s w r using Suc that by blast
  have vs: "length r < length s" if "parse_items n (skip_ws s) = Some (w, r)" for s w r
    using Suc that skip_shorter [of s] by (meson order_less_le_trans)
  have kvs: "length r < length s" if "parse_members n (skip_ws s) = Some (w, r)" for s w r
    using Suc that skip_shorter [of s] by (meson order_less_le_trans)
  have sv: "length r < length s" if "parse_value n (skip_ws s) = Some (w, r)" for s w r
    using Suc that skip_shorter [of s] by (meson order_less_le_trans)
  have "length r < length s" if "parse_value (Suc n) s = Some (w, r)" for s w r
    using that
    by (auto split: option.splits if_splits dest: parse_number_shorter
        dest!: skip_Suc eat_shorter unquote_shorter vs kvs prefix_length_le)
  moreover have "length r < length s" if "parse_items (Suc n) s = Some (w, r)" for s w r
    using that by (auto split: option.splits dest!: eat_skip vs v)
  moreover have "length r < length s" if "parse_members (Suc n) s = Some (w, r)" for s w r
    using that by (auto simp: Option.bind_eq_Some_conv split: option.splits
        dest!: skip_Suc eat_shorter unquote_shorter kvs sv)
  ultimately show ?case by blast
qed simp

lemma value_shorter: "parse_value n s = Some (v, r) \<Longrightarrow> length r < length s"
  using parse_shorter by blast

lemma value_skip_shorter: "parse_value n (skip_ws s) = Some (v, r) \<Longrightarrow> length r < length s"
  using value_shorter [of n "skip_ws s" v r] skip_shorter [of s] by simp

lemma fuel_step:
  "(\<forall>s. 2 * length s \<le> n \<longrightarrow> parse_value (Suc n) s = parse_value n s) \<and>
   (\<forall>s. 2 * length s < n \<longrightarrow> parse_items (Suc n) s = parse_items n s) \<and>
   (\<forall>s. 2 * length s < n \<longrightarrow> parse_members (Suc n) s = parse_members n s)"
proof (induction n)
  case (Suc n)
  have v: "parse_value (Suc n) s = parse_value n s" if "2 * length s \<le> n" for s using Suc that by blast
  have sv: "parse_value (Suc n) (skip_ws s) = parse_value n (skip_ws s)" if "2 * length s \<le> n" for s
    using v that skip_shorter [of s] by (meson mult_le_mono2 order_trans)
  have vs: "parse_items (Suc n) (skip_ws s) = parse_items n (skip_ws s)" if "2 * length s < n" for s
    using Suc that skip_shorter [of s] by (meson mult_le_mono2 order_le_less_trans)
  have kvs: "parse_members (Suc n) (skip_ws s) = parse_members n (skip_ws s)" if "2 * length s < n" for s
    using Suc that skip_shorter [of s] by (meson mult_le_mono2 order_le_less_trans)
  have "parse_value (Suc (Suc n)) s = parse_value (Suc n) s" if "2 * length s \<le> Suc n" for s
    unfolding parse_value.simps(2) [of "Suc n" s] parse_value.simps(2) [of n s] using that vs kvs
    by (auto split: option.splits dest!: eat_shorter
        simp del: parse_value.simps parse_items.simps parse_members.simps)
  moreover have "parse_items (Suc (Suc n)) s = parse_items (Suc n) s" if "2 * length s < Suc n" for s
    unfolding parse_items.simps(2) [of "Suc n" s] parse_items.simps(2) [of n s] using that v vs
    by (auto split: option.splits dest!: eat_skip value_shorter
        simp del: parse_value.simps parse_items.simps parse_members.simps)
  moreover have "parse_members (Suc (Suc n)) s = parse_members (Suc n) s" if "2 * length s < Suc n" for s
  proof (cases "Option.bind (eat (CHR 0x22) s) unquote")
    case (Some kr)
    obtain k r where kr: "kr = (k, r)" by fastforce
    with Some have r: "length r < length s"
      by (auto simp: Option.bind_eq_Some_conv dest!: eat_shorter unquote_shorter)
    show ?thesis
    proof (cases "eat (CHR '':'') (skip_ws r)")
      case c: (Some r1)
      from eat_skip [OF c] r that sv have v1: "parse_value (Suc n) (skip_ws r1) = parse_value n (skip_ws r1)"
        by simp
      have rest: "parse_members (Suc n) (skip_ws r') = parse_members n (skip_ws r')"
        if "parse_value n (skip_ws r1) = Some (w, r2)" "eat (CHR '','') (skip_ws r2) = Some r'" for w r2 r'
        using value_skip_shorter [OF that(1)] eat_skip [OF that(2)] eat_skip [OF c] r \<open>2 * length s < Suc n\<close>
        by (intro kvs) simp
      show ?thesis
        unfolding parse_members.simps(2) [of "Suc n" s] parse_members.simps(2) [of n s]
        using Some kr c v1 rest by (auto split: option.splits
            simp del: parse_value.simps parse_items.simps parse_members.simps)
    qed (simp add: Some kr)
  qed simp
  ultimately show ?case by blast
qed (simp add: parse_number_def int_part_def)

lemma parse_fuel: "2 * length s \<le> n \<Longrightarrow> parse_value n s = parse_value (2 * length s) s"
proof (induction n rule: dec_induct [of "2 * length s"])
  case (step n)
  with fuel_step [of n] show ?case by simp
qed auto

end
