(* ===== verification/Gateway.thy ===== *)
theory Gateway
  imports Config_Sync Json_Text
begin

text \<open>
  What every request passes before its route: \<open>app/middleware/auth.py\<close> with \<open>app/core/security.py\<close>, the
  stack of \<open>main.py\<close>, and the tenant dependencies of \<open>app/api/dependencies/tenant.py\<close> (suspension flag,
  snapshot cache, database).  The JWT library is a parameter.
\<close>

subsection \<open>Domain errors\<close>

definition TokenMissingError :: exn where "TokenMissingError = NeuralOpsError 401 ''TOKEN_MISSING''"
definition TokenExpiredError :: exn where "TokenExpiredError = NeuralOpsError 401 ''TOKEN_EXPIRED''"
definition TokenInvalidError :: exn where "TokenInvalidError = NeuralOpsError 401 ''TOKEN_INVALID''"
definition TenantNotFoundError :: exn where "TenantNotFoundError = NeuralOpsError 404 ''TENANT_NOT_FOUND''"
definition TenantSuspendedError :: exn where "TenantSuspendedError = NeuralOpsError 403 ''TENANT_SUSPENDED''"
definition TenantConfigStaleError :: exn where "TenantConfigStaleError = NeuralOpsError 503 ''TENANT_CONFIG_STALE''"

text \<open>\<open>http_exception_handler\<close> and its neighbours: the status and the code of an error reply.\<close>

definition http_code :: "int \<Rightarrow> string" where
  "http_code status = get_or (map_of [(400, ''BAD_REQUEST''), (401, ''UNAUTHORIZED''), (403, ''FORBIDDEN''),
     (404, ''NOT_FOUND''), (405, ''METHOD_NOT_ALLOWED''), (408, ''REQUEST_TIMEOUT''), (409, ''CONFLICT''),
     (413, ''PAYLOAD_TOO_LARGE''), (422, ''UNPROCESSABLE_ENTITY''), (429, ''TOO_MANY_REQUESTS''),
     (500, ''INTERNAL_ERROR''), (502, ''BAD_GATEWAY''), (503, ''SERVICE_UNAVAILABLE'')] status)
     ''HTTP_ERROR''"

definition error_reply :: "exn \<Rightarrow> int \<times> string" where
  "error_reply e = (case e of
     NeuralOpsError status code \<Rightarrow> (status, code)
   | HTTPException status _ \<Rightarrow> (status, http_code status)
   | _ \<Rightarrow> (500, ''INTERNAL_ERROR''))"

subsection \<open>Tokens\<close>

datatype jwt_answer = Claims "(string \<times> json) list" | ExpiredSignature | JWTFailure string

definition decode_token :: "(string \<Rightarrow> jwt_answer) \<Rightarrow> string \<Rightarrow> json res" where
  "decode_token jwt token = (case jwt token of
     Claims kvs \<Rightarrow> Inr (JObj kvs)
   | ExpiredSignature \<Rightarrow> Inl TokenExpiredError
   | JWTFailure _ \<Rightarrow> Inl TokenInvalidError)"

text \<open>\<open>extract_tenant_id\<close>, \<open>extract_user_id\<close> and \<open>extract_user_role\<close>\<close>

definition extract_claim :: "string \<Rightarrow> json \<Rightarrow> json res" where
  "extract_claim k payload =
     (let v = jget k payload in if truthy v then Inr v else Inl TokenInvalidError)"

subsection \<open>Requests\<close>

text \<open>Header names are in lower case, as the server compares them.\<close>

record http_request =
  rq_method :: string
  rq_path :: string
  rq_headers :: "(string \<times> string) list"
  rq_gunzips :: bool  \<comment> \<open>the body is valid gzip\<close>

definition header :: "string \<Rightarrow> http_request \<Rightarrow> string option" where
  "header k rq = map_of (rq_headers rq) k"

text \<open>\<open>request.state\<close>\<close>

record request_state =
  rs_tenant_id :: "json option"
  rs_user_id :: "json option"
  rs_user_role :: "json option"
  rs_jwt_payload :: "json option"
  rs_rls_tenant_id :: "json option"

definition no_claims :: request_state where
  "no_claims = \<lparr>rs_tenant_id = None, rs_user_id = None, rs_user_role = None, rs_jwt_payload = None,
     rs_rls_tenant_id = None\<rparr>"

definition UNAUTHENTICATED_PATHS :: "string list" where
  "UNAUTHENTICATED_PATHS = [''/health'', ''/metrics'', ''/docs'', ''/redoc'', ''/openapi.json'',
     ''/api/v1/webhooks/github'', ''/api/v1/ingest/logs'']"

definition protected :: "http_request \<Rightarrow> bool" where
  "protected rq \<longleftrightarrow>
     rq_path rq \<notin> set UNAUTHENTICATED_PATHS \<and> \<not> prefix ''/health'' (rq_path rq)"

text \<open>\<open>JWTAuthMiddleware.dispatch\<close> up to \<open>call_next\<close>.\<close>

definition auth_state ::
  "'s redis \<Rightarrow> (string \<Rightarrow> jwt_answer) \<Rightarrow> http_request \<Rightarrow> ('s, request_state) prog" where
  "auth_state R jwt rq =
     (if \<not> protected rq then
        (if rq_path rq = ''/api/v1/ingest/logs'' then
           (case nonempty (header ''x-api-key'' rq) of
              None \<Rightarrow> rret no_claims
            | Some k \<Rightarrow> rbind (r_get R (api_key_cache k)) (\<lambda>v.
                case nonempty (map_option reply_str v) of
                  None \<Rightarrow> rret no_claims
                | Some t \<Rightarrow> rret (no_claims\<lparr>rs_tenant_id := Some (JStr t)\<rparr>)))
         else rret no_claims)
      else
        (case (nonempty (header ''x-tenant-id'' rq), nonempty (header ''x-user-id'' rq),
               nonempty (header ''x-user-role'' rq)) of
           (Some t, Some u, Some r) \<Rightarrow>
             rret \<lparr>rs_tenant_id = Some (JStr t), rs_user_id = Some (JStr u), rs_user_role = Some (JStr r),
                   rs_jwt_payload = Some (JObj []), rs_rls_tenant_id = None\<rparr>
         | _ \<Rightarrow>
             (let auth = get_or (header ''authorization'' rq) [] in
              if \<not> prefix ''Bearer '' auth then rfail TokenMissingError
              else
                (case decode_token jwt (strip (drop 7 auth)) of
                   Inl e \<Rightarrow> rfail e
                 | Inr payload \<Rightarrow>
                     (let t = get_default ''tenant_id'' payload (JStr []) in
                      if \<not> truthy t then rfail TokenMissingError
                      else rret \<lparr>rs_tenant_id = Some t,
                             rs_user_id = Some (get_default ''user_id'' payload (JStr [])),
                             rs_user_role = Some (get_default ''role'' payload (JStr [])),
                             rs_jwt_payload = Some payload, rs_rls_tenant_id = None\<rparr>)))))"

text \<open>The middleware answers the domain errors itself; any other exception reaches the server.\<close>

datatype http_answer = Reply int string

definition auth_dispatch ::
  "'s redis \<Rightarrow> (string \<Rightarrow> jwt_answer) \<Rightarrow> (request_state \<Rightarrow> ('s, http_answer) prog) \<Rightarrow> http_request \<Rightarrow>
   ('s, http_answer) prog" where
  "auth_dispatch R jwt call_next rq s =
     (case rbind (auth_state R jwt rq) call_next s of
        (Inl (NeuralOpsError status code), s') \<Rightarrow> (Inr (Reply status code), s')
      | r \<Rightarrow> r)"

subsection \<open>The stack\<close>

text \<open>The middleware of \<open>main.py\<close> in the order it is added; what is added last is dispatched first.\<close>

datatype layer = CORS | GZipRequest | TenantRLS | JWTAuth

definition added_layers :: "layer list" where
  "added_layers = [CORS, GZipRequest, TenantRLS, JWTAuth]"

definition dispatch_order :: "layer list" where
  "dispatch_order = rev added_layers"

definition RLS_SKIP_PATHS :: "string list" where
  "RLS_SKIP_PATHS = [''/health'', ''/docs'', ''/redoc'', ''/openapi.json'']"

definition rls_state :: "http_request \<Rightarrow> request_state \<Rightarrow> request_state" where
  "rls_state rq st =
     (if rq_path rq \<in> set RLS_SKIP_PATHS \<or> prefix ''/health'' (rq_path rq) then st
      else st\<lparr>rs_rls_tenant_id := Some (case rs_tenant_id st of
                None \<Rightarrow> JStr [] | Some t \<Rightarrow> if truthy t then t else JStr [])\<rparr>)"

text \<open>The CORS layer answers a preflight request itself, the others pass a request on or refuse it.\<close>

definition layer_step ::
  "'s redis \<Rightarrow> (string \<Rightarrow> jwt_answer) \<Rightarrow> layer \<Rightarrow> (request_state \<Rightarrow> ('s, http_answer) prog) \<Rightarrow> http_request \<Rightarrow>
   request_state \<Rightarrow> ('s, http_answer) prog" where
  "layer_step R jwt l next rq st =
     (case l of
        CORS \<Rightarrow> if rq_method rq = ''OPTIONS'' \<and> header ''origin'' rq \<noteq> None \<and>
                   header ''access-control-request-method'' rq \<noteq> None
                then rret (Reply 200 ''OK'') else next st
      | GZipRequest \<Rightarrow> if map_option lower (header ''content-encoding'' rq) = Some ''gzip'' \<and> \<not> rq_gunzips rq
                       then rret (Reply 400 ''Invalid gzip payload'') else next st
      | TenantRLS \<Rightarrow> next (rls_state rq st)
      | JWTAuth \<Rightarrow> auth_dispatch R jwt next rq)"

fun through_layers ::
  "'s redis \<Rightarrow> (string \<Rightarrow> jwt_answer) \<Rightarrow> layer list \<Rightarrow> (request_state \<Rightarrow> ('s, http_answer) prog) \<Rightarrow> http_request \<Rightarrow>
   request_state \<Rightarrow> ('s, http_answer) prog" where
  "through_layers R jwt [] route rq st = route st"
| "through_layers R jwt (l # ls) route rq st =
     layer_step R jwt l (through_layers R jwt ls route rq) rq st"

subsection \<open>Tenants\<close>

text \<open>A tenant as a route sees it: the row, or what the cache had, whose texts need not be texts.\<close>

record tenant_context =
  tc_tenant_id :: uuid
  tc_plan_tier :: json
  tc_vector_namespace :: json
  tc_kafka_group_id :: json
  tc_is_suspended :: bool
  tc_source_version :: json

definition tenant_suspension_key :: "string \<Rightarrow> string" where
  "tenant_suspension_key tenant = ''tenant:'' @ tenant @ '':suspended''"

definition check_suspension_flag :: "'s redis \<Rightarrow> string \<Rightarrow> ('s, unit) prog" where
  "check_suspension_flag R tenant s =
     (case r_get R (tenant_suspension_key tenant) s of
        (Inr (Some _), s1) \<Rightarrow> (Inl TenantSuspendedError, s1)
      | (_, s1) \<Rightarrow> (Inr (), s1))"

definition CACHE_TTL_SECONDS :: int where
  "CACHE_TTL_SECONDS = 3600"

definition context_of :: "tenant_snapshot \<Rightarrow> tenant_context" where
  "context_of r = \<lparr>tc_tenant_id = ts_tenant_id r, tc_plan_tier = jopt JStr (ts_plan_tier r),
     tc_vector_namespace = jopt JStr (ts_vector_namespace r),
     tc_kafka_group_id = jopt JStr (ts_kafka_group_id r), tc_is_suspended = ts_is_suspended r,
     tc_source_version = jopt JInt (ts_source_version r)\<rparr>"

definition snapshot_to_dict :: "tenant_context \<Rightarrow> json" where
  "snapshot_to_dict c = JObj [(''tenant_id'', JStr (tc_tenant_id c)), (''plan_tier'', tc_plan_tier c),
     (''vector_namespace'', tc_vector_namespace c), (''kafka_group_id'', tc_kafka_group_id c),
     (''is_suspended'', JBool (tc_is_suspended c)), (''source_version'', tc_source_version c)]"

text \<open>\<open>uuid.UUID(v)\<close> where \<open>v\<close> may be any decoded value\<close>

definition uuid_of :: "json \<Rightarrow> uuid res" where
  "uuid_of v = (case v of
     JStr t \<Rightarrow> (case uuid_parse t of None \<Rightarrow> Inl (ValueError ''badly formed hexadecimal UUID string'')
                 | Some u \<Rightarrow> Inr u)
   | JNull \<Rightarrow> Inl (TypeError ''one of the hex, bytes, bytes_le, fields, or int arguments must be given'')
   | _ \<Rightarrow> Inl (AttributeError ''replace''))"

definition dict_to_snapshot :: "json \<Rightarrow> tenant_context res" where
  "dict_to_snapshot d =
     bind_res (bind_res (subscript d ''tenant_id'') uuid_of) (\<lambda>u.
       Inr \<lparr>tc_tenant_id = u, tc_plan_tier = jget ''plan_tier'' d,
         tc_vector_namespace = jget ''vector_namespace'' d, tc_kafka_group_id = jget ''kafka_group_id'' d,
         tc_is_suspended = truthy (jget ''is_suspended'' d), tc_source_version = jget ''source_version'' d\<rparr>)"

text \<open>A cache entry that does not parse is a miss; one that is JSON of another shape may raise.\<close>

definition get_cached_snapshot :: "'s redis \<Rightarrow> string \<Rightarrow> ('s, tenant_context option) prog" where
  "get_cached_snapshot R tenant s =
     (case r_get R (tenant_config_cache_key tenant) s of
        (Inl _, s1) \<Rightarrow> (Inr None, s1)
      | (Inr None, s1) \<Rightarrow> (Inr None, s1)
      | (Inr (Some raw), s1) \<Rightarrow>
          (case loads (reply_str raw) of
             None \<Rightarrow> (Inr None, s1)
           | Some d \<Rightarrow>
               (case dict_to_snapshot d of
                  Inr c \<Rightarrow> (Inr (Some c), s1)
                | Inl (KeyError k) \<Rightarrow> (Inr None, s1)
                | Inl (ValueError m) \<Rightarrow> (Inr None, s1)
                | Inl e \<Rightarrow> (Inl e, s1))))"

definition populate_cache :: "'s redis \<Rightarrow> string \<Rightarrow> tenant_context \<Rightarrow> 's \<Rightarrow> 's" where
  "populate_cache R tenant c s =
     snd (r_setex R (tenant_config_cache_key tenant) CACHE_TTL_SECONDS
            (Text (dumps (\<lambda>_. []) (snapshot_to_dict c))) s)"

text \<open>\<open>_get_tenant_snapshot\<close>; \<open>db_error\<close> says whether the query raises.\<close>

definition get_tenant_snapshot ::
  "'s redis \<Rightarrow> exn option \<Rightarrow> db2 \<Rightarrow> json \<Rightarrow> ('s, tenant_context) prog" where
  "get_tenant_snapshot R db_error db tenant =
     (case uuid_of tenant of
        Inl (ValueError _) \<Rightarrow> rfail TenantNotFoundError
      | Inl e \<Rightarrow> rfail e
      | Inr u \<Rightarrow>
          rbind (get_cached_snapshot R (py_str tenant)) (\<lambda>cached. case cached of
            Some c \<Rightarrow> if tc_is_suspended c then rfail TenantSuspendedError else rret c
          | None \<Rightarrow>
              (case db_error of
                 Some e \<Rightarrow> rfail e
               | None \<Rightarrow>
                   (case row_at ts_tenant_id u (tenant_snapshots db) of
                      None \<Rightarrow> rfail TenantConfigStaleError
                    | Some r \<Rightarrow>
                        if ts_is_suspended r then rfail TenantSuspendedError
                        else (\<lambda>s. (Inr (context_of r),
                                    populate_cache R (py_str tenant) (context_of r) s))))))"

definition get_validated_tenant ::
  "'s redis \<Rightarrow> exn option \<Rightarrow> db2 \<Rightarrow> request_state \<Rightarrow> ('s, tenant_context) prog" where
  "get_validated_tenant R db_error db st =
     (let tenant = get_or (rs_tenant_id st) (JStr []) in
      if \<not> truthy tenant then rfail TokenMissingError
      else rbind (check_suspension_flag R (py_str tenant)) (\<lambda>_.
             get_tenant_snapshot R db_error db tenant))"

text \<open>The key is unique in its table.  Failures of Redis are not caught around the key's own cache.\<close>

definition tenant_of_key :: "'s redis \<Rightarrow> exn option \<Rightarrow> db2 \<Rightarrow> string \<Rightarrow> ('s, string option) prog" where
  "tenant_of_key R db_error db k =
     rbind (r_get R (api_key_cache k)) (\<lambda>v.
       case nonempty (map_option reply_str v) of
         Some t \<Rightarrow> rret (Some t)
       | None \<Rightarrow>
           (case db_error of
              Some e \<Rightarrow> rfail e
            | None \<Rightarrow>
                (case List.find (\<lambda>a. ak_key a = k \<and> ak_is_active a) (api_key_snapshots db) of
                   None \<Rightarrow> rret None
                 | Some a \<Rightarrow> rbind (r_setex R (api_key_cache k) 3600 (Text (ak_tenant_id a)))
                               (\<lambda>_. rret (Some (ak_tenant_id a))))))"

text \<open>The dependency writes the tenant it found into the state of the request.\<close>

definition get_tenant_from_api_key ::
  "'s redis \<Rightarrow> exn option \<Rightarrow> db2 \<Rightarrow> http_request \<Rightarrow> request_state \<Rightarrow>
   ('s, tenant_context \<times> request_state) prog" where
  "get_tenant_from_api_key R db_error db rq st =
     (case nonempty (header ''x-api-key'' rq) of
        None \<Rightarrow> rfail (HTTPException 401 ''Missing X-Api-Key header'')
      | Some k \<Rightarrow>
          rbind (tenant_of_key R db_error db k) (\<lambda>t. case nonempty t of
            None \<Rightarrow> rfail (HTTPException 401 ''Invalid or inactive API key'')
          | Some t \<Rightarrow> rbind (check_suspension_flag R t) (\<lambda>_.
              rbind (get_tenant_snapshot R db_error db (JStr t)) (\<lambda>c.
                rret (c, st\<lparr>rs_tenant_id := Some (JStr t)\<rparr>)))))"

end
