(* ===== verification/Gateway_Spec.thy ===== *)
theory Gateway_Spec
  imports Gateway Config_Sync_Spec
begin

text \<open>
  What the way into the FastAPI service guarantees: a protected route always has a tenant, the tenant a
  request is given is the row of the database in spite of the cache in front of it, and a suspension that
  the configuration consumer has stored is enforced.
\<close>

subsection \<open>Every protected route has its tenant\<close>

lemma auth_state_tenant:
  assumes "protected rq" "auth_state R jwt rq s = (Inr st, s')"
  shows "\<exists>t. rs_tenant_id st = Some t \<and> truthy t"
  using assms
  by (auto simp: auth_state_def rret_def rfail_def Let_def nonempty_Some_iff
      split: option.splits sum.splits if_splits)

definition has_tenant :: "request_state \<Rightarrow> bool" where
  "has_tenant st \<longleftrightarrow>
     (\<exists>t. rs_tenant_id st = Some t \<and> truthy t \<and> rs_rls_tenant_id st = Some t)"

text \<open>C17: behind the middleware stack of the application a route on a protected path
  only ever runs with a tenant, and with the same tenant for the row level security of its session: what a
  route does on any other request state makes no difference.\<close>

theorem protected_route_has_tenant:
  assumes "protected rq" and "rq_path rq \<notin> set RLS_SKIP_PATHS"
    and "\<And>st. has_tenant st \<Longrightarrow> route st = route' st"
  shows "through_layers R jwt dispatch_order route rq st = through_layers R jwt dispatch_order route' rq st"
proof -
  have skip: "\<not> prefix ''/health'' (rq_path rq)" using assms(1) by (simp add: protected_def)
  have inner: "through_layers R jwt [TenantRLS, GZipRequest, CORS] route rq st1 =
      through_layers R jwt [TenantRLS, GZipRequest, CORS] route' rq st1"
    if "auth_state R jwt rq s = (Inr st1, s1)" for st1 s s1
  proof -
    from auth_state_tenant [OF assms(1) that] obtain t where "rs_tenant_id st1 = Some t" "truthy t" by blast
    then have "has_tenant (rls_state rq st1)"
      using assms(2) skip by (simp add: has_tenant_def rls_state_def)
    from assms(3) [OF this] show ?thesis by (simp only: through_layers.simps layer_step_def layer.case)
  qed
  have order: "dispatch_order = [JWTAuth, TenantRLS, GZipRequest, CORS]"
    by (simp add: dispatch_order_def added_layers_def)
  have outer: "through_layers R jwt dispatch_order r rq st =
      auth_dispatch R jwt (through_layers R jwt [TenantRLS, GZipRequest, CORS] r rq) rq" for r
    unfolding order through_layers.simps(2) [of R jwt JWTAuth] layer_step_def layer.case ..
  have "rbind (auth_state R jwt rq) (through_layers R jwt [TenantRLS, GZipRequest, CORS] route rq) s =
      rbind (auth_state R jwt rq) (through_layers R jwt [TenantRLS, GZipRequest, CORS] route' rq) s" for s
  proof (cases "auth_state R jwt rq s")
    case (Pair x s1)
    then show ?thesis
      by (cases x) (simp_all only: rbind_def prod.case sum.case inner [of s])
  qed
  then show ?thesis unfolding outer by (simp add: auth_dispatch_def fun_eq_iff del: through_layers.simps)
qed

definition preflight :: http_request where
  "preflight = \<lparr>rq_method = ''OPTIONS'', rq_path = ''/api/v1/incidents'',
     rq_headers = [(''origin'', ''https://app''), (''access-control-request-method'', ''GET'')],
     rq_gunzips = True\<rparr>"

lemma protected_route_has_tenant_witness:
  "through_layers mem (\<lambda>_. ExpiredSignature) dispatch_order (\<lambda>st. rret (Reply 200 ''OK''))
     (preflight\<lparr>rq_method := ''GET'', rq_headers := [(''x-tenant-id'', ''t''), (''x-user-id'', ''u''),
        (''x-user-role'', ''admin'')]\<rparr>) no_claims =
   through_layers mem (\<lambda>_. ExpiredSignature) dispatch_order
     (\<lambda>st. if rs_tenant_id st = None then rfail (OtherError ''none'') else rret (Reply 200 ''OK''))
     (preflight\<lparr>rq_method := ''GET'', rq_headers := [(''x-tenant-id'', ''t''), (''x-user-id'', ''u''),
        (''x-user-role'', ''admin'')]\<rparr>) no_claims"
  by (rule protected_route_has_tenant)
    (auto simp: protected_def preflight_def UNAUTHENTICATED_PATHS_def RLS_SKIP_PATHS_def has_tenant_def)

text \<open>The authentication layer is dispatched before the CORS layer, and a browser sends no
  credentials with a preflight request: every preflight request for a protected path is answered with 401.\<close>

theorem preflight_refused:
  assumes "protected rq" and "rq_method rq = ''OPTIONS''"
    and "header ''x-tenant-id'' rq = None" and "header ''authorization'' rq = None"
  shows "fst (through_layers R jwt dispatch_order route rq st s) = Inr (Reply 401 ''TOKEN_MISSING'')"
  using assms
  by (simp add: dispatch_order_def added_layers_def layer_step_def auth_dispatch_def auth_state_def rbind_def
      rfail_def TokenMissingError_def)

lemma preflight_refused_witness:
  "fst (through_layers mem (\<lambda>_. ExpiredSignature) dispatch_order (\<lambda>_. rret (Reply 200 ''OK'')) preflight
     no_claims quiet_mem) = Inr (Reply 401 ''TOKEN_MISSING'')"
  by (rule preflight_refused)
    (simp_all add: preflight_def protected_def UNAUTHENTICATED_PATHS_def header_def)

subsection \<open>The cache in front of the tenants\<close>

definition cache_entry :: "tenant_snapshot \<Rightarrow> rval" where
  "cache_entry r = Text (dumps (\<lambda>_. []) (snapshot_to_dict (context_of r)))"

text \<open>Every entry of the cache is the image of the row that the database has now.\<close>

definition coherent :: "kv \<Rightarrow> db2 \<Rightarrow> bool" where
  "coherent m db \<longleftrightarrow> (\<forall>t v. is_uuid t \<longrightarrow> m (tenant_config_cache_key t) = Some v \<longrightarrow>
     (\<exists>r. row_at ts_tenant_id t (tenant_snapshots db) = Some r \<and> v = cache_entry r))"

lemma context_suspended [simp]: "tc_is_suspended (context_of r) = ts_is_suspended r"
  by (simp add: context_of_def)

lemma plain_context: "plain (snapshot_to_dict (context_of r))"
  by (simp add: snapshot_to_dict_def context_of_def jopt_def split: option.splits)

lemma cache_roundtrip:
  assumes "is_uuid (ts_tenant_id r)"
  shows "Option.bind (loads (reply_str (cache_entry r))) (\<lambda>d. Some (dict_to_snapshot d)) =
         Some (Inr (context_of r))"
proof -
  have "loads (reply_str (cache_entry r)) = Some (snapshot_to_dict (context_of r))"
    by (simp add: cache_entry_def reply_str_def loads_dumps plain_context)
  moreover have "dict_to_snapshot (snapshot_to_dict (context_of r)) = Inr (context_of r)"
    using assms by (simp add: dict_to_snapshot_def snapshot_to_dict_def context_of_def uuid_of_def is_uuid_def)
  ultimately show ?thesis by simp
qed

lemma config_key_inj [simp]: "tenant_config_cache_key t = tenant_config_cache_key u \<longleftrightarrow> t = u"
  by (simp add: tenant_config_cache_key_def)

lemma suspension_key_other: "tenant_suspension_key t \<noteq> tenant_config_cache_key u"
proof
  assume "tenant_suspension_key t = tenant_config_cache_key u"
  then have "last (tenant_suspension_key t) = last (tenant_config_cache_key u)" by simp
  then show False by (simp add: tenant_suspension_key_def tenant_config_cache_key_def)
qed

text \<open>The answer without a cache.\<close>

definition tenant_answer :: "kv \<Rightarrow> db2 \<Rightarrow> uuid \<Rightarrow> tenant_context res" where
  "tenant_answer m db t =
     (if m (tenant_suspension_key t) \<noteq> None then Inl TenantSuspendedError
      else case row_at ts_tenant_id t (tenant_snapshots db) of
             None \<Rightarrow> Inl TenantConfigStaleError
           | Some r \<Rightarrow> if ts_is_suspended r then Inl TenantSuspendedError else Inr (context_of r))"

context live_redis begin

lemma get_eq: "r_get R k s = (Inr (view s k), snd (r_get R k s)) \<and> view (snd (r_get R k s)) = view s"
  using get_up [of k s] get_ok by (metis snd_conv)

lemma setex_eq: "view (snd (r_setex R k ttl v s)) = (view s)(k \<mapsto> v)"
  using setex_up [of k ttl v s] setex_ok by (metis snd_conv)

lemma exec_eq: "view (snd (r_exec R cmds s)) = fold apply_cmd cmds (view s)"
  using exec_up [of cmds s] exec_ok by (metis snd_conv)

lemma cached_coherent:
  assumes "is_uuid t" "coherent (view s) db"
  shows "\<exists>s'. get_cached_snapshot R t s =
    (Inr (case view s (tenant_config_cache_key t) of
            None \<Rightarrow> None | Some _ \<Rightarrow> map_option context_of (row_at ts_tenant_id t (tenant_snapshots db))), s') \<and>
    view s' = view s"
proof -
  obtain s1 where g: "r_get R (tenant_config_cache_key t) s = (Inr (view s (tenant_config_cache_key t)), s1)"
    "view s1 = view s" using get_eq by metis
  show ?thesis
  proof (cases "view s (tenant_config_cache_key t)")
    case None
    with g show ?thesis by (simp add: get_cached_snapshot_def)
  next
    case (Some v)
    with assms obtain r where r: "row_at ts_tenant_id t (tenant_snapshots db) = Some r" "v = cache_entry r"
      unfolding coherent_def by blast
    have "is_uuid (ts_tenant_id r)" using row_at_Some [OF r(1)] assms(1) by simp
    from cache_roundtrip [OF this] r(2) obtain d where "loads (reply_str v) = Some d"
      "dict_to_snapshot d = Inr (context_of r)" by (auto simp: bind_eq_Some_conv)
    with g Some r show ?thesis by (simp add: get_cached_snapshot_def)
  qed
qed

lemma snapshot_current:
  assumes "is_uuid t" "coherent (view s) db"
    and "get_tenant_snapshot R None db (JStr t) s = (x, s')"
  shows "x = tenant_answer ((view s)(tenant_suspension_key t := None)) db t"
    and "\<forall>k. view s' k = view s k \<or> k = tenant_config_cache_key t \<and> x \<noteq> Inl TenantSuspendedError \<and>
           view s' k = map_option cache_entry (row_at ts_tenant_id t (tenant_snapshots db))"
proof -
  let ?row = "row_at ts_tenant_id t (tenant_snapshots db)"
  obtain s1 where c: "get_cached_snapshot R t s = (Inr (case view s (tenant_config_cache_key t) of
      None \<Rightarrow> None | Some _ \<Rightarrow> map_option context_of ?row), s1)" "view s1 = view s"
    using cached_coherent [OF assms(1,2)] by blast
  have u: "uuid_of (JStr t) = Inr t" using assms(1) by (simp add: uuid_of_def is_uuid_def)
  have "x = tenant_answer ((view s)(tenant_suspension_key t := None)) db t \<and>
    (\<forall>k. view s' k = view s k \<or> k = tenant_config_cache_key t \<and> x \<noteq> Inl TenantSuspendedError \<and>
           view s' k = map_option cache_entry ?row)"
  proof (cases "view s (tenant_config_cache_key t)")
    case None
    show ?thesis
    proof (cases ?row)
      case n: None
      with None c u assms(3) show ?thesis
        by (auto simp: get_tenant_snapshot_def tenant_answer_def rbind_def rfail_def)
    next
      case (Some r)
      with None c u assms(3) show ?thesis
        by (auto simp: get_tenant_snapshot_def tenant_answer_def rbind_def rfail_def populate_cache_def
            setex_eq cache_entry_def split: if_splits)
    qed
  next
    case (Some v)
    with assms(1,2) obtain r where "?row = Some r" unfolding coherent_def by blast
    with Some c u assms(3) show ?thesis
      by (auto simp: get_tenant_snapshot_def tenant_answer_def rbind_def rfail_def rret_def
          split: if_splits)
  qed
  then show "x = tenant_answer ((view s)(tenant_suspension_key t := None)) db t"
    and "\<forall>k. view s' k = view s k \<or> k = tenant_config_cache_key t \<and> x \<noteq> Inl TenantSuspendedError \<and>
           view s' k = map_option cache_entry (row_at ts_tenant_id t (tenant_snapshots db))"
    by blast+
qed

lemma coherent_refill:
  assumes "is_uuid t" "coherent m db"
    and "\<forall>k. m' k = m k \<or> k = tenant_config_cache_key t \<and> P \<and>
           m' k = map_option cache_entry (row_at ts_tenant_id t (tenant_snapshots db))"
  shows "coherent m' db"
  unfolding coherent_def
proof (intro allI impI)
  fix u v assume "is_uuid u" "m' (tenant_config_cache_key u) = Some v"
  with assms show "\<exists>r. row_at ts_tenant_id u (tenant_snapshots db) = Some r \<and> v = cache_entry r"
    unfolding coherent_def by (metis config_key_inj map_option_eq_Some)
qed

lemma validated_current:
  assumes "is_uuid t" "coherent (view s) db" "rs_tenant_id st = Some (JStr t)"
    and "get_validated_tenant R None db st s = (x, s')"
  shows "x = tenant_answer (view s) db t \<and> coherent (view s') db \<and>
         (\<forall>u. view s' (tenant_suspension_key u) = view s (tenant_suspension_key u))"
proof -
  obtain s1 where g: "r_get R (tenant_suspension_key t) s = (Inr (view s (tenant_suspension_key t)), s1)"
    "view s1 = view s" using get_eq by metis
  have ne: "t \<noteq> []" using assms(1) by (auto simp: is_uuid_def uuid_parse_def hyphenate_def Let_def split: if_splits)
  show ?thesis
  proof (cases "view s (tenant_suspension_key t)")
    case None
    then have same: "(view s)(tenant_suspension_key t := None) = view s" by auto
    from None g ne assms(3,4) have "get_tenant_snapshot R None db (JStr t) s1 = (x, s')"
      by (simp add: get_validated_tenant_def check_suspension_flag_def rbind_def)
    from snapshot_current [OF assms(1) _ this] coherent_refill [OF assms(1,2)] g(2) same assms(2)
    show ?thesis using suspension_key_other by metis
  next
    case (Some v)
    with g ne assms(2,3,4) show ?thesis
      by (auto simp: get_validated_tenant_def check_suspension_flag_def rbind_def tenant_answer_def)
  qed
qed

end

subsection \<open>Configuration events and the cache\<close>

text \<open>What a handler does to the keys \<open>tenant:\<dots>\<close>: it leaves them or removes cache entries.\<close>

definition only_drops :: "kv \<Rightarrow> kv \<Rightarrow> bool" where
  "only_drops m m' \<longleftrightarrow> (\<forall>k. prefix ''tenant:'' k \<longrightarrow>
     m' k = m k \<or> (\<exists>t. k = tenant_config_cache_key t) \<and> m' k = None)"

lemma only_drops_refl [simp]: "only_drops m m"
  by (simp add: only_drops_def)

lemma only_drops_trans: "only_drops m m1 \<Longrightarrow> only_drops m1 m2 \<Longrightarrow> only_drops m m2"
  unfolding only_drops_def by metis

lemma only_drops_other: "only_drops m m' \<Longrightarrow> \<not> prefix ''tenant:'' k \<Longrightarrow> only_drops m (m'(k := v))"
  by (auto simp: only_drops_def)

lemma config_key_prefix: "prefix ''tenant:'' (tenant_config_cache_key t)"
  by (simp add: tenant_config_cache_key_def)

lemma other_keys:
  "\<not> prefix ''tenant:'' (rate_limit_key t)" "\<not> prefix ''tenant:'' (''rl:agent:'' @ t)"
  "\<not> prefix ''tenant:'' (token_cache_key i)" "\<not> prefix ''tenant:'' (api_key_cache k)"
  by (simp_all add: rate_limit_key_def token_cache_key_def api_key_cache_def)

context live_redis begin

lemma invalidate_view:
  "view (invalidate_tenant_cache R t s) = (view s)(tenant_config_cache_key t := None,
     rate_limit_key t := None, ''rl:agent:'' @ t := None)"
  by (simp add: invalidate_tenant_cache_def exec_eq)

lemma invalidate_drops:
  "only_drops (view s) (view (invalidate_tenant_cache R t s))"
  "view (invalidate_tenant_cache R t s) (tenant_config_cache_key t) = None"
proof -
  have d: "only_drops (view s) ((view s)(tenant_config_cache_key t := None))"
    by (auto simp: only_drops_def)
  show "only_drops (view s) (view (invalidate_tenant_cache R t s))"
    unfolding invalidate_view
    by (rule only_drops_other [OF only_drops_other [OF d other_keys(1)] other_keys(2)])
  show "view (invalidate_tenant_cache R t s) (tenant_config_cache_key t) = None"
    unfolding invalidate_view using other_keys config_key_prefix by (metis fun_upd_apply)
qed

lemma token_drops: "only_drops (view s) (view (snd (get_installation_token R G i s)))"
proof -
  obtain s1 where g: "r_get R (token_cache_key i) s = (Inr (view s (token_cache_key i)), s1)" "view s1 = view s"
    using get_eq by metis
  have "only_drops (view s) (view (snd (r_setex R (token_cache_key i) TOKEN_TTL v s1)))" for v
    unfolding setex_eq g(2) by (rule only_drops_other [OF only_drops_refl other_keys(3)])
  with g show ?thesis
    by (auto simp: get_installation_token_def rbind_def rret_def rfail_def split: option.splits sum.splits prod.splits)
      (metis snd_conv)+
qed

lemma resolve_drops: "only_drops (view s) (view (snd (resolve_branch_sha R G ow repo br i s)))"
  using token_drops [of s G i]
  by (auto simp: resolve_branch_sha_def split: prod.splits sum.splits)

lemma dispatch_drops:
  assumes "ce_redis env = R" "maybe_dispatch_initial_index env t d p s = (x, s', q)"
  shows "only_drops (view s) (view s')"
  using assms resolve_drops [of s "ce_github env" "jget ''repo_owner'' d" "jget ''repo_name'' d"
      "str_of ''default_branch'' ''main'' d" "jget ''installation_id'' d"]
  by (auto simp: maybe_dispatch_initial_index_def Let_def split: if_splits prod.splits)

end

lemma coherent_drop:
  assumes "coherent m db" "only_drops m m'"
    and "\<forall>t. row_at ts_tenant_id t (tenant_snapshots db') \<noteq> row_at ts_tenant_id t (tenant_snapshots db) \<longrightarrow>
           m' (tenant_config_cache_key t) = None"
  shows "coherent m' db'"
  unfolding coherent_def
proof (intro allI impI)
  fix t v assume t: "is_uuid t" "m' (tenant_config_cache_key t) = Some v"
  with assms(2) config_key_prefix [of t] have "m (tenant_config_cache_key t) = Some v"
    unfolding only_drops_def by (metis option.distinct(1))
  moreover from t assms(3) have "row_at ts_tenant_id t (tenant_snapshots db') = row_at ts_tenant_id t (tenant_snapshots db)"
    by (metis option.distinct(1))
  ultimately show "\<exists>r. row_at ts_tenant_id t (tenant_snapshots db') = Some r \<and> v = cache_entry r"
    using assms(1) t(1) unfolding coherent_def by simp
qed

lemma tenant_event_rows:
  assumes "handle_tenant_event env p db s = (x, db', s', q)"
  obtains (same) "tenant_snapshots db' = tenant_snapshots db" "s' = s"
  | (changed) d t v r s1 where "subscript p ''tenant'' = Inr d" "bind_res (subscript d ''id'') as_uuid = Inr t"
      "tenant_row t v d (row_at ts_tenant_id t (tenant_snapshots db)) = Inr r"
      "tenant_snapshots db' = put_row ts_tenant_id r (tenant_snapshots db)" "ts_tenant_id r = t"
      "s1 = invalidate_tenant_cache (ce_redis env) t s"
      "s' = s1 \<or> (\<exists>data pr y q'. maybe_dispatch_initial_index env t data pr s1 = (y, s', q'))"
proof -
  let ?ev = "bind_res (subscript p ''tenant'') (\<lambda>d.
             bind_res (bind_res (subscript d ''id'') as_uuid) (\<lambda>i.
             bind_res (bind_res (subscript d ''source_version'') py_int) (\<lambda>v. Inr (d, i, v))))"
  show ?thesis
  proof (cases ?ev)
    case (Inl e)
    with assms show ?thesis by (intro same) (auto simp: handle_tenant_event_def)
  next
    case (Inr y)
    obtain d t v where y: "y = (d, t, v)" by (metis prod_cases3)
    from Inr y have ids: "subscript p ''tenant'' = Inr d" "bind_res (subscript d ''id'') as_uuid = Inr t"
      by (auto simp: bind_res_eq_Inr)
    obtain z db1 fx where tr: "transact env (tenant_body env d t v) db = (z, db1, fx)" by (metis prod_cases3)
    then show ?thesis
    proof (cases rule: transact_cases)
      case (failed e)
      with assms Inr y tr show ?thesis by (intro same) (auto simp: handle_tenant_event_def)
    next
      case (through b)
      show ?thesis
      proof (cases b)
        case None
        with through(3) have "db1 = db"
          by (auto simp: tenant_body_def Let_def bind_res_eq_Inr split: if_splits sum.splits prod.splits)
        with None assms Inr y tr through show ?thesis by (intro same) (auto simp: handle_tenant_event_def)
      next
        case (Some pr)
        let ?old = "row_at ts_tenant_id t (tenant_snapshots db)"
        from through(3) Some obtain r db2 pr' q' where
          r: "tenant_row t v d ?old = Inr r" and
          g: "sync_integration env t v (jget ''github_integration_event'' d)
                (db\<lparr>tenant_snapshots := put_row ts_tenant_id r (tenant_snapshots db)\<rparr>) = (Inr (pr', db2), q')" and
          m: "sync_mapping (ce_now env) t (jget ''service_repo_mapping_event'' d) db2 = Inr db1"
          by (auto simp: tenant_body_def Let_def bind_res_eq_Inr split: if_splits sum.splits prod.splits)
        have rows: "tenant_snapshots db1 = put_row ts_tenant_id r (tenant_snapshots db)"
          using sync_mapping_tenants [OF m] sync_integration_tenants [OF g] by simp
        from assms Inr y tr through(1) Some have h: "db' = db1"
          "s' = invalidate_tenant_cache (ce_redis env) t s \<or>
           (\<exists>data pr y q'. maybe_dispatch_initial_index env t data pr
              (invalidate_tenant_cache (ce_redis env) t s) = (y, s', q'))"
          by (auto simp: handle_tenant_event_def Let_def split: if_splits prod.splits)
        show ?thesis
          using ids r rows h tenant_row_key [OF r] by (intro changed [OF ids r _ _ refl]) auto
      qed
    qed
  qed
qed

lemma rule_event_tenants:
  assumes "handle_alert_rule_event env p db s = (x, db', s', q)"
  shows "tenant_snapshots db' = tenant_snapshots db \<and> (s' = s \<or> (\<exists>t. s' = invalidate_tenant_cache (ce_redis env) t s))"
proof (cases "event_of p ''alert_rule''")
  case (Inr y)
  obtain d i t v del where y: "y = (d, i, t, v, del)" by (metis prod_cases5)
  obtain z db1 fx where tr: "transact env (rule_body env d i t v del) db = (z, db1, fx)" by (metis prod_cases3)
  then show ?thesis
  proof (cases rule: transact_cases)
    case (failed e)
    with assms Inr y tr show ?thesis by (auto simp: handle_alert_rule_event_def)
  next
    case (through b)
    from through(3) have "tenant_snapshots db1 = tenant_snapshots db"
      by (auto simp: rule_body_def split: sum.splits sync.splits if_splits)
    with through assms Inr y tr show ?thesis by (auto simp: handle_alert_rule_event_def split: if_splits)
  qed
qed (use assms in \<open>auto simp: handle_alert_rule_event_def\<close>)

lemma playbook_event_tenants:
  assumes "handle_playbook_event env p db s = (x, db', s', q)"
  shows "tenant_snapshots db' = tenant_snapshots db \<and> (s' = s \<or> (\<exists>t. s' = invalidate_tenant_cache (ce_redis env) t s))"
proof (cases "event_of p ''playbook''")
  case (Inr y)
  obtain d i t v del where y: "y = (d, i, t, v, del)" by (metis prod_cases5)
  obtain z db1 fx where tr: "transact env (playbook_body d i t v del) db = (z, db1, fx)" by (metis prod_cases3)
  then show ?thesis
  proof (cases rule: transact_cases)
    case (failed e)
    with assms Inr y tr show ?thesis by (auto simp: handle_playbook_event_def)
  next
    case (through b)
    from through(3) have "tenant_snapshots db1 = tenant_snapshots db"
      by (auto simp: playbook_body_def split: sum.splits sync.splits if_splits)
    with through assms Inr y tr show ?thesis
      by (auto simp: handle_playbook_event_def Let_def split: bool.splits prod.splits)
  qed
qed (use assms in \<open>auto simp: handle_playbook_event_def\<close>)

context live_redis begin

lemma delete_eq: "view (snd (r_delete R k s)) = (view s)(k := None)"
  using delete_up [of k s] delete_ok by (metis snd_conv)

lemma key_event_tenants:
  assumes "handle_api_keys_event env p db s = (x, db', s', q)" "ce_redis env = R"
  shows "tenant_snapshots db' = tenant_snapshots db \<and> only_drops (view s) (view s')"
proof (cases "api_key_ids p")
  case (Inr y)
  show ?thesis
  proof (cases y)
    case (Some it)
    obtain i t where it: "it = (i, t)" by (cases it)
    let ?key = "get_default ''key'' p (JStr [])" and ?active = "get_default ''is_active'' p (JBool True)"
    let ?body = "\<lambda>db. (map_sum id (Pair ()) (upsert_api_key i t ?key ?active db), [])"
    obtain z db1 fx where tr: "transact env ?body db = (z, db1, fx)" by (metis prod_cases3)
    then have rows: "tenant_snapshots db1 = tenant_snapshots db"
    proof (cases rule: transact_cases)
      case (through b)
      then show ?thesis
        by (cases "upsert_api_key i t ?key ?active db")
          (auto simp: upsert_api_key_def bind_res_eq_Inr split: option.splits if_splits)
    qed simp
    have set: "only_drops (view s) (view (snd (r_setex R (api_key_cache k) 3600 v s)))"
      and del: "only_drops (view s) (view (snd (r_delete R (api_key_cache k) s)))" for k v
      unfolding setex_eq delete_eq by (rule only_drops_other [OF only_drops_refl other_keys(4)])+
    have "s' = s \<or> s' = snd (r_setex R (api_key_cache (py_str ?key)) 3600 (Text t) s) \<or>
        s' = snd (r_delete R (api_key_cache (py_str ?key)) s)" and "db' = db1"
      using assms Inr Some it tr
      by (auto simp: handle_api_keys_event_def Let_def split: sum.splits prod.splits if_splits)
    with rows set del show ?thesis by auto
  qed (use assms Inr in \<open>auto simp: handle_api_keys_event_def\<close>)
qed (use assms in \<open>auto simp: handle_api_keys_event_def\<close>)

lemma tenant_event_keeps:
  assumes "ce_redis env = R" "handle_tenant_event env p db s = (x, db', s', q)"
  shows "only_drops (view s) (view s')"
    and "row_at ts_tenant_id u (tenant_snapshots db') \<noteq> row_at ts_tenant_id u (tenant_snapshots db) \<Longrightarrow>
         view s' (tenant_config_cache_key u) = None"
proof -
  have "only_drops (view s) (view s') \<and>
      (row_at ts_tenant_id u (tenant_snapshots db') \<noteq> row_at ts_tenant_id u (tenant_snapshots db) \<longrightarrow>
         view s' (tenant_config_cache_key u) = None)"
    using assms(2)
  proof (cases rule: tenant_event_rows)
    case (changed d t v r s1)
    have s1: "only_drops (view s) (view s1)" "view s1 (tenant_config_cache_key t) = None"
      using changed(6) assms(1) invalidate_drops by auto
    have s': "only_drops (view s1) (view s')"
      using changed(7) dispatch_drops [OF assms(1)] by auto
    then have "view s' (tenant_config_cache_key t) = None"
      using s1(2) config_key_prefix [of t] unfolding only_drops_def by metis
    moreover have "u = t" if "row_at ts_tenant_id u (tenant_snapshots db') \<noteq> row_at ts_tenant_id u (tenant_snapshots db)"
      using that changed(4,5) by (auto split: if_splits)
    ultimately show ?thesis using only_drops_trans [OF s1(1) s'] by auto
  qed auto
  then show "only_drops (view s) (view s')"
    and "row_at ts_tenant_id u (tenant_snapshots db') \<noteq> row_at ts_tenant_id u (tenant_snapshots db) \<Longrightarrow>
         view s' (tenant_config_cache_key u) = None" by blast+
qed

lemma config_keeps:
  assumes env: "ce_redis env = R" and h: "handle_config env topic p db s = (x, db', s', q)"
    and co: "coherent (view s) db"
  shows "only_drops (view s) (view s')" "coherent (view s') db'"
proof -
  have inv: "only_drops (view s) (view s1)" if "s1 = s \<or> (\<exists>t. s1 = invalidate_tenant_cache (ce_redis env) t s)" for s1
    using that invalidate_drops(1) env by auto
  have "only_drops (view s) (view s') \<and>
    (\<forall>t. row_at ts_tenant_id t (tenant_snapshots db') \<noteq> row_at ts_tenant_id t (tenant_snapshots db) \<longrightarrow>
       view s' (tenant_config_cache_key t) = None)"
  proof -
    consider "handle_tenant_event env p db s = (x, db', s', q)"
      | "handle_alert_rule_event env p db s = (x, db', s', q)"
      | "handle_playbook_event env p db s = (x, db', s', q)"
      | "handle_api_keys_event env p db s = (x, db', s', q)" | "db' = db" "s' = s"
      using h by (auto simp: handle_config_def split: if_splits)
    then show ?thesis
    proof cases
      case 1 then show ?thesis using tenant_event_keeps [OF env 1] by blast
    next
      case 2 then show ?thesis using rule_event_tenants [OF 2] inv by auto
    next
      case 3 then show ?thesis using playbook_event_tenants [OF 3] inv by auto
    next
      case 4 then show ?thesis using key_event_tenants [OF 4 env] by auto
    qed auto
  qed
  then show "only_drops (view s) (view s')" "coherent (view s') db'"
    using coherent_drop [OF co] by blast+
qed

end

text \<open>Events and requests in the order in which they are served; each answer with the database it met.\<close>

datatype gate_step = ConfigEvent string json | TenantRequest uuid

fun gate_run :: "'s config_env \<Rightarrow> gate_step list \<Rightarrow> db2 \<Rightarrow> 's \<Rightarrow> (uuid \<times> tenant_context res \<times> db2) list" where
  "gate_run env [] db s = []"
| "gate_run env (ConfigEvent topic p # es) db s =
     (case handle_config env topic p db s of (_, db', s', _) \<Rightarrow> gate_run env es db' s')"
| "gate_run env (TenantRequest t # es) db s =
     (case get_validated_tenant (ce_redis env) None db (no_claims\<lparr>rs_tenant_id := Some (JStr t)\<rparr>) s of
        (x, s') \<Rightarrow> (t, x, db) # gate_run env es db s')"

lemma flag_prefix: "prefix ''tenant:'' (tenant_suspension_key t)"
  by (simp add: tenant_suspension_key_def)

lemma only_drops_flag:
  "only_drops m m' \<Longrightarrow> m' (tenant_suspension_key t) = m (tenant_suspension_key t)"
  unfolding only_drops_def using flag_prefix suspension_key_other by metis

lemma tenant_answer_cong:
  "m' (tenant_suspension_key t) = m (tenant_suspension_key t) \<Longrightarrow> tenant_answer m' db t = tenant_answer m db t"
  by (simp add: tenant_answer_def)

context live_redis begin

lemma gate_run_current:
  assumes "ce_redis env = R" "coherent (view s) db" "\<forall>u. TenantRequest u \<in> set es \<longrightarrow> is_uuid u"
    and "(t, x, db1) \<in> set (gate_run env es db s)"
  shows "x = tenant_answer (view s) db1 t"
  using assms(2-)
proof (induction es arbitrary: db s)
  case (Cons e es)
  show ?case
  proof (cases e)
    case (ConfigEvent topic p)
    obtain y db' s' q where h: "handle_config env topic p db s = (y, db', s', q)" by (metis prod_cases4)
    note keeps = config_keeps [OF assms(1) h Cons.prems(1)]
    have "x = tenant_answer (view s') db1 t"
      using Cons.prems ConfigEvent h by (intro Cons.IH [OF keeps(2)]) auto
    then show ?thesis
      using tenant_answer_cong [where m = "view s" and m' = "view s'", OF only_drops_flag [OF keeps(1)]] by simp
  next
    case (TenantRequest u)
    obtain y s' where h: "get_validated_tenant R None db (no_claims\<lparr>rs_tenant_id := Some (JStr u)\<rparr>) s = (y, s')"
      by (metis surj_pair)
    have u: "is_uuid u" using Cons.prems(2) TenantRequest by simp
    have now: "y = tenant_answer (view s) db u" "coherent (view s') db"
      "\<forall>k. view s' (tenant_suspension_key k) = view s (tenant_suspension_key k)"
      using validated_current [OF u Cons.prems(1) _ h] by auto
    from Cons.prems(3) TenantRequest h assms(1)
    have "t = u \<and> x = y \<and> db1 = db \<or> (t, x, db1) \<in> set (gate_run env es db s')" by auto
    then show ?thesis
    proof
      assume "(t, x, db1) \<in> set (gate_run env es db s')"
      then have "x = tenant_answer (view s') db1 t"
        using Cons.prems(2) by (intro Cons.IH [OF now(2)]) auto
      then show ?thesis using now(3) tenant_answer_cong by metis
    qed (use now(1) in simp)
  qed
qed simp

lemma cached_answer:
  assumes "is_uuid t" "ts_tenant_id r = t" "\<not> ts_is_suspended r"
    and "view s (tenant_suspension_key t) = None" "view s (tenant_config_cache_key t) = Some (cache_entry r)"
  shows "fst (get_validated_tenant R err db (no_claims\<lparr>rs_tenant_id := Some (JStr t)\<rparr>) s) = Inr (context_of r)"
proof -
  obtain s1 where g: "r_get R (tenant_suspension_key t) s = (Inr None, s1)" "view s1 = view s"
    using get_eq [of "tenant_suspension_key t" s] assms(4) by metis
  obtain s2 where g2: "r_get R (tenant_config_cache_key t) s1 = (Inr (Some (cache_entry r)), s2)"
    using get_eq [of "tenant_config_cache_key t" s1] assms(5) g(2) by metis
  obtain d where d: "loads (reply_str (cache_entry r)) = Some d" "dict_to_snapshot d = Inr (context_of r)"
    using cache_roundtrip [of r] assms(1,2) by (auto simp: bind_eq_Some_conv)
  have ne: "t \<noteq> []" using assms(1) by (auto simp: is_uuid_def uuid_parse_def hyphenate_def Let_def split: if_splits)
  have u: "uuid_of (JStr t) = Inr t" using assms(1) by (simp add: uuid_of_def is_uuid_def)
  from g g2 d ne u assms(3) show ?thesis
    by (simp add: get_validated_tenant_def check_suspension_flag_def get_tenant_snapshot_def
        get_cached_snapshot_def rbind_def rret_def)
qed

text \<open>The steps of a request are not atomic: one that read its row before an event was served and fills
  the cache after it brings the old row back, and the next requests are let through on it.\<close>

lemma late_refill:
  assumes "ce_redis env = R" "is_uuid t" "row_at ts_tenant_id t (tenant_snapshots db) = Some r"
    and "\<not> ts_is_suspended r" "view s (tenant_suspension_key t) = None" "coherent (view s) db"
    and "handle_config env topic p db s = (x, db', s', q)"
    and "s2 = populate_cache R t (context_of r) s'"
  shows "fst (get_validated_tenant R None db' (no_claims\<lparr>rs_tenant_id := Some (JStr t)\<rparr>) s2) = Inr (context_of r)"
proof (rule cached_answer [OF assms(2) _ assms(4)])
  have v: "view s2 = (view s')(tenant_config_cache_key t \<mapsto> cache_entry r)"
    by (simp add: assms(8) populate_cache_def setex_eq cache_entry_def)
  show "ts_tenant_id r = t" using row_at_Some [OF assms(3)] by simp
  show "view s2 (tenant_config_cache_key t) = Some (cache_entry r)" by (simp add: v)
  show "view s2 (tenant_suspension_key t) = None"
    using only_drops_flag [OF config_keeps(1) [OF assms(1,7,6)]] assms(5) suspension_key_other
    by (simp add: v)
qed

end

text \<open>C18: in every sequence of configuration events and requests on a Redis server that
  answers, each request is told what the suspension flag and the row that the database has at that moment
  say, as if there were no cache: the handlers drop the entry of every row they change.\<close>

theorem cached_answers_current:
  assumes "live_redis (ce_redis env) view" and "coherent (view s) db"
    and "\<forall>u. TenantRequest u \<in> set es \<longrightarrow> is_uuid u"
    and "(t, x, db1) \<in> set (gate_run env es db s)"
  shows "x = tenant_answer (view s) db1 t"
  using live_redis.gate_run_current [OF assms(1) refl assms(2-4)] .

definition live_env :: "mem config_env" where
  "live_env = quiet_env\<lparr>ce_redis := live\<rparr>"

definition suspend_event :: json where
  "suspend_event = JObj [(''tenant'', JObj [(''id'', JStr tenant_a), (''source_version'', JInt 2),
     (''is_suspended'', JBool True)])]"

definition suspended_db :: db2 where
  "suspended_db = tenant_db\<lparr>tenant_snapshots := [\<lparr>ts_tenant_id = tenant_a, ts_plan_tier = Some ''pro'',
     ts_vector_namespace = None, ts_kafka_group_id = None, ts_is_suspended = True,
     ts_source_version = Some 2\<rparr>]\<rparr>"

lemma suspend_event_row: "\<exists>s'. handle_config live_env ''config.tenants'' suspend_event tenant_db s =
    (Inr (), suspended_db, s', [])"
  using sample_uuids(1)
  by (simp add: handle_config_def handle_tenant_event_def suspend_event_def transact_def live_env_def
      quiet_env_def tenant_body_def tenant_row_def tenant_db_def empty_db2_def stale_def fits_bigint_def
      get_default_def sync_integration_def sync_mapping_def action_block_def suspended_db_def Let_def)

lemma cached_answers_current_witness:
  "snd (snd (gate_run live_env [TenantRequest tenant_a, ConfigEvent ''config.tenants'' suspend_event,
     TenantRequest tenant_a] tenant_db quiet_mem ! 1)) = suspended_db \<and>
   fst (snd (gate_run live_env [TenantRequest tenant_a, ConfigEvent ''config.tenants'' suspend_event,
     TenantRequest tenant_a] tenant_db quiet_mem ! 1)) = Inl TenantSuspendedError"
proof -
  let ?es = "[TenantRequest tenant_a, ConfigEvent ''config.tenants'' suspend_event, TenantRequest tenant_a]"
  let ?run = "gate_run live_env ?es tenant_db quiet_mem"
  obtain y s1 where g: "get_validated_tenant live None tenant_db (no_claims\<lparr>rs_tenant_id := Some (JStr tenant_a)\<rparr>)
      quiet_mem = (y, s1)" by (metis surj_pair)
  obtain s2 where h: "handle_config live_env ''config.tenants'' suspend_event tenant_db s1 =
      (Inr (), suspended_db, s2, [])" using suspend_event_row by blast
  obtain x s3 where r: "get_validated_tenant live None suspended_db
      (no_claims\<lparr>rs_tenant_id := Some (JStr tenant_a)\<rparr>) s2 = (x, s3)" by (metis surj_pair)
  have R: "ce_redis live_env = live" by (simp add: live_env_def)
  have run: "?run = [(tenant_a, y, tenant_db), (tenant_a, x, suspended_db)]"
    using g h r R by simp
  have view: "mem_view quiet_mem = (\<lambda>_. None)" by (simp add: quiet_mem_def mem_view_def fun_eq_iff)
  have "x = tenant_answer (mem_view quiet_mem) suspended_db tenant_a"
    by (rule cached_answers_current [of live_env mem_view quiet_mem tenant_db ?es])
       (use run in \<open>auto simp: R coherent_def view sample_uuids intro: live.live_redis_axioms\<close>)
  with run show ?thesis by (simp add: tenant_answer_def view suspended_db_def tenant_db_def)
qed

end
