(* ===== verification/Rate_Limit.thy ===== *)
theory Rate_Limit
  imports Gateway
begin

text \<open>
  \<open>app/api/dependencies/rate_limit.py\<close>: the token bucket of the ingest route.  The Lua script runs inside
  Redis in one step; a bucket is the hash it keeps under the tenant's key, with the time the key expires.
  Times are seconds; the clock that Redis expires keys by is taken to be the caller's.
\<close>

record bucket =
  bk_tokens :: rat
  bk_last_refill :: rat
  bk_expires_at :: rat

type_synonym buckets = "string \<Rightarrow> bucket option"

definition BUCKET_TTL :: rat where
  "BUCKET_TTL = 120"

subsection \<open>The script\<close>

definition unexpired :: "rat \<Rightarrow> bucket option \<Rightarrow> bucket option" where
  "unexpired now b = (case b of None \<Rightarrow> None | Some k \<Rightarrow> if now < bk_expires_at k then Some k else None)"

definition refilled :: "rat \<Rightarrow> rat \<Rightarrow> rat \<Rightarrow> bucket option \<Rightarrow> rat" where
  "refilled capacity refill_rate now b =
     (let (tokens, last_refill) = (case b of None \<Rightarrow> (capacity, now) | Some k \<Rightarrow> (bk_tokens k, bk_last_refill k))
      in min capacity (tokens + (now - last_refill) * refill_rate))"

text \<open>A refused call leaves the hash and its expiry as they are.\<close>

definition token_bucket :: "rat \<Rightarrow> rat \<Rightarrow> rat \<Rightarrow> bucket option \<Rightarrow> bool \<times> bucket option" where
  "token_bucket capacity refill_rate now b0 =
     (let b = unexpired now b0; tokens = refilled capacity refill_rate now b in
      if 1 \<le> tokens
      then (True, Some \<lparr>bk_tokens = tokens - 1, bk_last_refill = now, bk_expires_at = now + BUCKET_TTL\<rparr>)
      else (False, b))"

subsection \<open>The dependency\<close>

definition PLAN_LIMITS :: "(string \<times> int) list" where
  "PLAN_LIMITS = [(''free'', 200), (''pro'', 1000), (''enterprise'', 5000)]"

definition DEFAULT_LIMIT :: int where
  "DEFAULT_LIMIT = 200"

text \<open>A plan read from the cache may be of any type.\<close>

definition plan_capacity :: "json \<Rightarrow> int res" where
  "plan_capacity plan =
     (if \<not> truthy plan then Inr (get_or (map_of PLAN_LIMITS ''free'') DEFAULT_LIMIT)
      else case plan of
             JStr p \<Rightarrow> Inr (get_or (map_of PLAN_LIMITS (lower p)) DEFAULT_LIMIT)
           | _ \<Rightarrow> Inl (AttributeError ''lower''))"

definition refill_rate_of :: "int \<Rightarrow> rat" where
  "refill_rate_of capacity = of_int capacity / 60"

definition rate_limit_dependency ::
  "exn option \<Rightarrow> rat \<Rightarrow> tenant_context \<Rightarrow> buckets \<Rightarrow> unit res \<times> buckets" where
  "rate_limit_dependency redis_error now tenant bs =
     (case plan_capacity (tc_plan_tier tenant) of
        Inl e \<Rightarrow> (Inl e, bs)
      | Inr capacity \<Rightarrow>
          (let key = rate_limit_key (tc_tenant_id tenant) in
           case redis_error of
             Some e \<Rightarrow> (Inr (), bs)
           | None \<Rightarrow>
               (case token_bucket (of_int capacity) (refill_rate_of capacity) now (bs key) of
                  (allowed, b) \<Rightarrow>
                    (if allowed then Inr () else Inl (HTTPException 429 ''Rate limit exceeded''), bs(key := b)))))"

subsection \<open>The level of a bucket\<close>

text \<open>The tokens a bucket without expiry has at a time; a bucket that is not there is full.\<close>

definition level :: "rat \<Rightarrow> rat \<Rightarrow> rat \<Rightarrow> bucket option \<Rightarrow> rat" where
  "level capacity refill_rate now b =
     (case b of None \<Rightarrow> capacity
      | Some k \<Rightarrow> min capacity (bk_tokens k + (now - bk_last_refill k) * refill_rate))"

text \<open>A bucket at a time: it was written before, with tokens left, and lives for two minutes.\<close>

definition bucket_ok :: "rat \<Rightarrow> rat \<Rightarrow> bucket option \<Rightarrow> bool" where
  "bucket_ok capacity now b =
     (case b of None \<Rightarrow> True
      | Some k \<Rightarrow> 0 \<le> bk_tokens k \<and> bk_tokens k \<le> capacity \<and> bk_last_refill k \<le> now \<and>
                  bk_expires_at k = bk_last_refill k + BUCKET_TTL)"

lemma sorted_le_last: "sorted xs \<Longrightarrow> x \<in> set xs \<Longrightarrow> x \<le> last xs" for x :: rat
  by (induction xs) auto

text \<open>The script refills a bucket in a minute, so one that expires after two was full.\<close>

lemma unexpired_level:
  assumes "bucket_ok capacity now b" "rate = capacity / 60" "0 \<le> capacity"
  shows "level capacity rate now (unexpired now b) = level capacity rate now b"
proof (cases b)
  case (Some k)
  show ?thesis
  proof (cases "now < bk_expires_at k")
    case False
    with assms(1) Some have k: "0 \<le> bk_tokens k" "120 \<le> now - bk_last_refill k"
      by (auto simp: bucket_ok_def BUCKET_TTL_def)
    have "120 * rate \<le> (now - bk_last_refill k) * rate"
      using k(2) assms(2,3) by (intro mult_right_mono) auto
    with k(1) assms(2,3) have "capacity \<le> bk_tokens k + (now - bk_last_refill k) * rate" by simp
    with Some False show ?thesis by (simp add: unexpired_def level_def)
  qed (simp add: Some unexpired_def)
qed (simp add: unexpired_def)

lemma refilled_level: "refilled capacity rate now b = level capacity rate now b"
  by (simp add: refilled_def level_def split: option.splits)

lemma level_nonneg:
  assumes "bucket_ok capacity now b" "0 \<le> rate" "0 \<le> capacity"
  shows "0 \<le> level capacity rate now b" "level capacity rate now b \<le> capacity"
  using assms by (auto simp: level_def bucket_ok_def split: option.splits)

lemma level_later:
  assumes "now \<le> t" "0 \<le> rate"
  shows "level capacity rate t b \<le> level capacity rate now b + (t - now) * rate"
proof (cases b)
  case (Some k)
  have "(t - bk_last_refill k) * rate = (now - bk_last_refill k) * rate + (t - now) * rate"
    by (simp add: algebra_simps)
  moreover have "0 \<le> (t - now) * rate" using assms by simp
  ultimately show ?thesis by (simp add: Some level_def min_def)
qed (use assms in \<open>simp add: level_def\<close>)

text \<open>The script takes exactly one token when there is one, and none otherwise.\<close>

lemma token_bucket_level:
  assumes "bucket_ok capacity now b" "rate = capacity / 60" "1 \<le> capacity"
    and "token_bucket capacity rate now b = (ok, b')"
  shows "ok \<longleftrightarrow> 1 \<le> level capacity rate now b"
    and "level capacity rate now b' = level capacity rate now b - (if ok then 1 else 0)"
    and "bucket_ok capacity now b'"
proof -
  have same: "level capacity rate now (unexpired now b) = level capacity rate now b"
    using unexpired_level [OF assms(1,2)] assms(3) by simp
  have le: "level capacity rate now b \<le> capacity"
    using level_nonneg(2) [OF assms(1)] assms(2,3) by simp
  have keep: "bucket_ok capacity now (unexpired now b)"
    using assms(1) by (auto simp: unexpired_def bucket_ok_def split: option.splits)
  have "(ok \<longleftrightarrow> 1 \<le> level capacity rate now b) \<and>
    level capacity rate now b' = level capacity rate now b - (if ok then 1 else 0) \<and>
    bucket_ok capacity now b'"
    using assms(4) same le keep
    by (auto simp: token_bucket_def refilled_level Let_def level_def bucket_ok_def BUCKET_TTL_def split: if_splits)
  then show "ok \<longleftrightarrow> 1 \<le> level capacity rate now b"
    and "level capacity rate now b' = level capacity rate now b - (if ok then 1 else 0)"
    and "bucket_ok capacity now b'" by blast+
qed

lemma bucket_ok_later: "bucket_ok capacity now b \<Longrightarrow> now \<le> t \<Longrightarrow> bucket_ok capacity t b"
  by (auto simp: bucket_ok_def split: option.splits)

subsection \<open>What a tenant can send\<close>

text \<open>
  The life of one tenant's bucket: requests at their times, and configuration events, each of which deletes
  the key (\<open>invalidate_tenant_cache\<close>).
\<close>

datatype bucket_event = Hit rat | ConfigChange

fun admitted :: "rat \<Rightarrow> bucket_event list \<Rightarrow> bucket option \<Rightarrow> nat" where
  "admitted capacity [] b = 0"
| "admitted capacity (ConfigChange # es) b = admitted capacity es None"
| "admitted capacity (Hit now # es) b =
     (case token_bucket capacity (capacity / 60) now b of
        (ok, b') \<Rightarrow> (if ok then 1 else 0) + admitted capacity es b')"

definition hits :: "bucket_event list \<Rightarrow> rat list" where
  "hits es = concat (map (\<lambda>e. case e of Hit t \<Rightarrow> [t] | ConfigChange \<Rightarrow> []) es)"

lemma hits_simps [simp]:
  "hits [] = []" "hits (Hit t # es) = t # hits es" "hits (ConfigChange # es) = hits es"
  by (simp_all add: hits_def)

definition changes :: "bucket_event list \<Rightarrow> nat" where
  "changes es = length (filter (\<lambda>e. e = ConfigChange) es)"

lemma changes_simps [simp]:
  "changes [] = 0" "changes (Hit t # es) = changes es" "changes (ConfigChange # es) = Suc (changes es)"
  by (simp_all add: changes_def)

lemma admitted_le_level:
  assumes "1 \<le> capacity" "sorted (now # hits es)" "\<forall>t \<in> set (now # hits es). t \<le> until" "bucket_ok capacity now b"
  shows "of_nat (admitted capacity es b) \<le>
         level capacity (capacity / 60) now b + capacity * of_nat (changes es) + (until - now) * (capacity / 60)"
  using assms(2-)
proof (induction es arbitrary: now b)
  case Nil
  have "0 \<le> level capacity (capacity / 60) now b" using level_nonneg(1) [OF Nil(3)] assms(1) by simp
  moreover have "0 \<le> (until - now) * (capacity / 60)" using Nil(2) assms(1) by simp
  ultimately show ?case by simp
next
  case (Cons e es)
  show ?case
  proof (cases e)
    case (Hit t)
    obtain ok b' where s: "token_bucket capacity (capacity / 60) t b = (ok, b')" by fastforce
    from Cons.prems Hit have t: "now \<le> t" "sorted (t # hits es)" "\<forall>u \<in> set (t # hits es). u \<le> until" by auto
    note step = token_bucket_level [OF bucket_ok_later [OF Cons.prems(3) t(1)] refl assms(1) s]
    have "of_nat (admitted capacity es b') \<le>
        level capacity (capacity / 60) t b' + capacity * of_nat (changes es) + (until - t) * (capacity / 60)"
      by (rule Cons.IH [OF t(2,3) step(3)])
    moreover have "level capacity (capacity / 60) t b \<le>
        level capacity (capacity / 60) now b + (t - now) * (capacity / 60)"
      using assms(1) by (intro level_later [OF t(1)]) simp
    moreover have "(until - now) * (capacity / 60) =
        (until - t) * (capacity / 60) + (t - now) * (capacity / 60)"
      by (simp only: distrib_right [symmetric]) simp
    ultimately show ?thesis using s step(2) Hit by (cases ok) (simp_all del: times_divide_eq_right)
  next
    case ConfigChange
    with Cons.prems have p: "sorted (now # hits es)" "\<forall>t \<in> set (now # hits es). t \<le> until" by simp_all
    have "bucket_ok capacity now None" by (simp add: bucket_ok_def)
    from Cons.IH [OF p this] have "of_nat (admitted capacity es None) \<le>
        capacity + capacity * of_nat (changes es) + (until - now) * (capacity / 60)" by (simp add: level_def)
    moreover have "0 \<le> level capacity (capacity / 60) now b"
      using level_nonneg(1) [OF Cons.prems(3)] assms(1) by simp
    ultimately show ?thesis using ConfigChange by (simp add: algebra_simps)
  qed
qed

lemma admitted_bound:
  assumes "1 \<le> capacity" "sorted (hits es)" "hits es = t0 # ts"
  shows "of_nat (admitted capacity es None) \<le>
         capacity * of_nat (1 + changes es) + (last (hits es) - t0) * (capacity / 60)"
proof -
  have "\<forall>t \<in> set (hits es). t \<le> last (hits es)"
    using sorted_le_last [OF assms(2)] by blast
  moreover have "t0 \<in> set (hits es)" using assms(3) by simp
  moreover have "sorted (t0 # hits es)" using assms(2,3) by auto
  ultimately have "of_nat (admitted capacity es None) \<le>
      level capacity (capacity / 60) t0 None + capacity * of_nat (changes es) +
      (last (hits es) - t0) * (capacity / 60)"
    by (intro admitted_le_level [OF assms(1)]) (auto simp: bucket_ok_def)
  then show ?thesis by (simp add: level_def algebra_simps)
qed

text \<open>Requests and configuration events of all tenants, and the requests of one of them that pass.\<close>

datatype traffic = Request tenant_context rat | Config uuid

fun passed :: "uuid \<Rightarrow> traffic list \<Rightarrow> buckets \<Rightarrow> nat" where
  "passed t [] bs = 0"
| "passed t (Config u # es) bs = passed t es (bs(rate_limit_key u := None))"
| "passed t (Request c now # es) bs =
     (case rate_limit_dependency None now c bs of
        (r, bs') \<Rightarrow> (if tc_tenant_id c = t \<and> r = Inr () then 1 else 0) + passed t es bs')"

definition of_tenant :: "uuid \<Rightarrow> traffic list \<Rightarrow> bucket_event list" where
  "of_tenant t es = concat (map (\<lambda>e. case e of
     Request c now \<Rightarrow> if tc_tenant_id c = t then [Hit now] else []
   | Config u \<Rightarrow> if u = t then [ConfigChange] else []) es)"

lemma of_tenant_simps [simp]:
  "of_tenant t [] = []"
  "of_tenant t (Request c now # es) = (if tc_tenant_id c = t then [Hit now] else []) @ of_tenant t es"
  "of_tenant t (Config u # es) = (if u = t then [ConfigChange] else []) @ of_tenant t es"
  by (simp_all add: of_tenant_def)

lemma rate_key_inj [simp]: "rate_limit_key t = rate_limit_key u \<longleftrightarrow> t = u"
  by (simp add: rate_limit_key_def)

lemma passed_admitted:
  assumes "\<forall>c now. Request c now \<in> set es \<longrightarrow> tc_tenant_id c = t \<longrightarrow> plan_capacity (tc_plan_tier c) = Inr n"
  shows "passed t es bs = admitted (of_int n) (of_tenant t es) (bs (rate_limit_key t))"
  using assms
proof (induction es arbitrary: bs)
  case (Cons e es)
  have rest: "\<forall>c now. Request c now \<in> set es \<longrightarrow> tc_tenant_id c = t \<longrightarrow> plan_capacity (tc_plan_tier c) = Inr n"
    using Cons.prems by simp
  show ?case
  proof (cases e)
    case (Request c now)
    then show ?thesis
      using Cons.prems Cons.IH [OF rest]
      by (auto simp: rate_limit_dependency_def refill_rate_of_def Let_def split: sum.splits prod.splits)
  next
    case (Config u)
    then show ?thesis using Cons.IH [OF rest] by simp
  qed
qed simp

text \<open>C19: whatever all tenants send, and however a tenant spaces its own requests, at most the
  capacity of its plan pass, one more capacity for each configuration event, which deletes the bucket, and what
  a sixtieth of the capacity per second refills; the expiry of the key after two minutes adds nothing.\<close>

theorem rate_limit_bound:
  assumes "\<forall>c now. Request c now \<in> set es \<longrightarrow> tc_tenant_id c = t \<longrightarrow> plan_capacity (tc_plan_tier c) = Inr n"
    and "1 \<le> n" and "bs (rate_limit_key t) = None"
    and "hits (of_tenant t es) = t0 # ts" and "sorted (t0 # ts)"
  shows "of_nat (passed t es bs) \<le>
         of_int n * of_nat (1 + changes (of_tenant t es)) + (last (t0 # ts) - t0) * (of_int n / 60)"
  using admitted_bound [of "of_int n" "of_tenant t es" t0 ts] assms(2-5) passed_admitted [OF assms(1)]
  by simp

definition free_tenant :: "uuid \<Rightarrow> tenant_context" where
  "free_tenant t = \<lparr>tc_tenant_id = t, tc_plan_tier = JNull, tc_vector_namespace = JNull,
     tc_kafka_group_id = JNull, tc_is_suspended = False, tc_source_version = JNull\<rparr>"

lemma rate_limit_bound_witness:
  "of_nat (passed ''a'' [Request (free_tenant ''a'') 0, Request (free_tenant ''b'') 0, Config ''a'',
     Request (free_tenant ''a'') 30] (\<lambda>_. None)) \<le> (of_int 200 * of_nat (1 + 1) + (30 - 0) * (of_int 200 / 60) :: rat)"
  using rate_limit_bound [of "[Request (free_tenant ''a'') 0, Request (free_tenant ''b'') 0, Config ''a'',
     Request (free_tenant ''a'') 30]" "''a''" 200 "\<lambda>_. None" 0 "[30]"]
  by (simp add: free_tenant_def plan_capacity_def PLAN_LIMITS_def)

text \<open>A tenant below its rate is never refused.\<close>

lemma token_each_interval:
  assumes "1 \<le> capacity" "bucket_ok capacity now b" "1 \<le> level capacity (capacity / 60) now b"
    and "token_bucket capacity (capacity / 60) now b = (ok, b')" "now + 60 / capacity \<le> t"
  shows "ok" "bucket_ok capacity t b'" "1 \<le> level capacity (capacity / 60) t b'"
proof -
  note step = token_bucket_level [OF assms(2) refl assms(1,4)]
  show ok: ok using step(1) assms(3) by simp
  have later: "now \<le> t" using assms(1,5) divide_nonneg_nonneg [of 60 capacity] by linarith
  show "bucket_ok capacity t b'" by (rule bucket_ok_later [OF step(3) later])
  have eq: "b' = Some \<lparr>bk_tokens = bk_tokens (the b'), bk_last_refill = now, bk_expires_at = now + BUCKET_TTL\<rparr>"
    and nonneg: "0 \<le> bk_tokens (the b')"
    using assms(4) ok by (auto simp: token_bucket_def Let_def split: if_splits)
  have "60 / capacity * (capacity / 60) \<le> (t - now) * (capacity / 60)"
    using assms(1,5) by (intro mult_right_mono) auto
  with assms(1) have "1 \<le> (t - now) * (capacity / 60)" by simp
  with nonneg assms(1) show "1 \<le> level capacity (capacity / 60) t b'"
    by (subst eq) (simp add: level_def)
qed

lemma spaced_admitted:
  assumes "1 \<le> capacity" "successively (\<lambda>a b. a + 60 / capacity \<le> b) (now # ts)"
    and "bucket_ok capacity now b" "1 \<le> level capacity (capacity / 60) now b"
  shows "admitted capacity (map Hit (now # ts)) b = Suc (length ts)"
  using assms(2-)
proof (induction ts arbitrary: now b)
  case Nil
  obtain ok b' where s: "token_bucket capacity (capacity / 60) now b = (ok, b')" by fastforce
  have ok using token_bucket_level(1) [OF Nil(2) refl assms(1) s] Nil(3) by simp
  with s show ?case by simp
next
  case (Cons t ts)
  obtain ok b' where s: "token_bucket capacity (capacity / 60) now b = (ok, b')" by fastforce
  from Cons.prems(1) have gaps: "now + 60 / capacity \<le> t"
    "successively (\<lambda>a b. a + 60 / capacity \<le> b) (t # ts)" by simp_all
  note step = token_each_interval [OF assms(1) Cons.prems(2,3) s gaps(1)]
  from Cons.IH [OF gaps(2) step(2,3)] step(1) s show ?case by simp
qed

text \<open>A tenant whose requests are at least sixty seconds divided by its plan's capacity
  apart is never refused, whatever other tenants send.\<close>

theorem rate_limit_serves:
  assumes "\<forall>c now. Request c now \<in> set es \<longrightarrow> tc_tenant_id c = t \<longrightarrow> plan_capacity (tc_plan_tier c) = Inr n"
    and "1 \<le> n" and "bs (rate_limit_key t) = None" and "of_tenant t es = map Hit (t0 # ts)"
    and "successively (\<lambda>a b. a + 60 / of_int n \<le> b) (t0 # ts)"
  shows "passed t es bs = length (t0 # ts)"
  using spaced_admitted [of "of_int n" t0 ts None] assms(2-5) passed_admitted [OF assms(1)]
  by (simp add: bucket_ok_def level_def)

lemma rate_limit_serves_witness:
  "passed ''a'' [Request (free_tenant ''a'') 0, Request (free_tenant ''b'') 0, Request (free_tenant ''b'') 0,
     Request (free_tenant ''a'') 1] (\<lambda>_. None) = length [0, 1 :: rat]"
  by (rule rate_limit_serves [where n = 200])
    (simp_all add: free_tenant_def plan_capacity_def PLAN_LIMITS_def)

end
