(* ===== verification/Log_Events.thy ===== *)
theory Log_Events
  imports Gateway
begin

text \<open>
  The log events in Elasticsearch: \<open>app/services/index_template.py\<close> (aliases),
  \<open>app/services/log_event_indexer.py\<close> (writes) and \<open>app/services/log_search_repository.py\<close> (searches).
  Elasticsearch is a record of the operations the code uses; the locale states what is documented of them
  for indices whose text fields are mapped dynamically, as the repository has no mapping of its own and its
  comments say: a text is analysed into tokens, and kept whole under \<open>.keyword\<close> up to 256 characters.
\<close>

subsection \<open>The server\<close>

datatype es_query =
    Term string string
  | Wildcard string string
  | Range string "(string \<times> string) list"
  | Should "es_query list"  \<comment> \<open>\<open>minimum_should_match: 1\<close>\<close>
  | Must "es_query list"
  | Filter "es_query list"

definition keyword :: "string \<Rightarrow> string" where
  "keyword field = field @ ''.keyword''"

record es_hits =
  eh_hits :: "json list"
  eh_sorts :: "json list"
  eh_total :: int
  eh_took :: int

record 'w elasticsearch =
  es_index :: "string \<Rightarrow> string \<Rightarrow> json \<Rightarrow> 'w \<Rightarrow> unit res \<times> 'w"
  es_bulk :: "string \<Rightarrow> json list \<Rightarrow> 'w \<Rightarrow> (int \<times> int) res \<times> 'w"
  es_update :: "string \<Rightarrow> es_query \<Rightarrow> (json \<Rightarrow> json) \<Rightarrow> 'w \<Rightarrow> int res \<times> 'w"
  es_search :: "string \<Rightarrow> es_query \<Rightarrow> nat \<Rightarrow> json \<Rightarrow> 'w \<Rightarrow> es_hits res \<times> 'w"
  es_terms :: "string \<Rightarrow> es_query \<Rightarrow> (string \<times> nat) list \<Rightarrow> 'w \<Rightarrow> string list list res \<times> 'w"
  es_count :: "string \<Rightarrow> es_query \<Rightarrow> 'w \<Rightarrow> int res \<times> 'w"

definition NotFoundError :: exn where
  "NotFoundError = NotFound ''elasticsearch''"

text \<open>A conflict skips a document, so an update changes some of the documents that match.\<close>

locale es_server =
  fixes E :: "'w elasticsearch"
    and docs :: "'w \<Rightarrow> string \<Rightarrow> json list"
    and matches :: "json \<Rightarrow> es_query \<Rightarrow> bool"
    and tokens :: "string \<Rightarrow> string list"
  assumes filter_all: "matches d (Filter qs) \<longleftrightarrow> (\<forall>q \<in> set qs. matches d q)"
    and must_all: "matches d (Must qs) \<longleftrightarrow> (\<forall>q \<in> set qs. matches d q)"
    and keyword_term: "matches d (Term (keyword fld) v) \<longleftrightarrow> jget fld d = JStr v \<and> length v \<le> 256"
    and text_term: "\<not> suffix ''.keyword'' fld \<Longrightarrow> jget fld d = JStr s \<Longrightarrow> matches d (Term fld v) \<Longrightarrow> v \<in> set (tokens s)"
    and absent_term: "\<not> suffix ''.keyword'' fld \<Longrightarrow> jget fld d = JNull \<Longrightarrow> \<not> matches d (Term fld v)"
    and tokens_split: "v \<in> set (tokens s) \<Longrightarrow> CHR ''-'' \<notin> set v"
    and search_hits: "es_search E ix q n after w = (Inr r, w') \<Longrightarrow>
          docs w' = docs w \<and> length (eh_hits r) \<le> n \<and> length (eh_sorts r) = length (eh_hits r) \<and>
          (\<forall>d \<in> set (eh_hits r). d \<in> set (docs w ix) \<and> matches d q)"
    and update_some: "es_update E ix q f w = (x, w') \<Longrightarrow>
          list_all2 (\<lambda>d d'. d' = d \<or> matches d q \<and> d' = f d) (docs w ix) (docs w' ix) \<and>
          (\<forall>iy. iy \<noteq> ix \<longrightarrow> docs w' iy = docs w iy)"
    and update_none: "es_update E ix q f w = (Inr k, w') \<Longrightarrow> \<not> (\<exists>d \<in> set (docs w ix). matches d q) \<Longrightarrow> k = 0"
begin

lemma update_unmatched:
  assumes "es_update E ix q f w = (x, w')" "\<forall>d \<in> set (docs w ix). \<not> matches d q"
  shows "docs w' = docs w"
proof
  fix iy
  from update_some [OF assms(1)] assms(2)
  have "list_all2 (=) (docs w ix) (docs w' ix)"
    by (auto simp: list_all2_conv_all_nth)
  then have "docs w' ix = docs w ix" by (simp add: list.rel_eq)
  with update_some [OF assms(1)] show "docs w' iy = docs w iy" by (cases "iy = ix") auto
qed

end

subsection \<open>Aliases\<close>

definition get_write_alias :: "string \<Rightarrow> json \<Rightarrow> string" where
  "get_write_alias tenant_id plan_tier =
     (if plan_tier = JStr ''enterprise'' then ''neuralops-logs-'' @ tenant_id else ''neuralops-logs'')"

definition get_search_index :: "string \<Rightarrow> json \<Rightarrow> string" where
  "get_search_index tenant_id plan_tier =
     (if plan_tier = JStr ''enterprise'' then ''neuralops-logs-'' @ tenant_id else ''neuralops-logs'')"

subsection \<open>Writes\<close>

text \<open>The fields of \<open>LogIngestRequest\<close> (\<open>app/schemas/ingest.py\<close>), after validation.\<close>

record log_request =
  lr_incident_id :: uuid
  lr_service_name :: string
  lr_environment :: string
  lr_severity :: string
  lr_error_type :: string
  lr_file_path :: "string option"
  lr_line_number :: "int option"
  lr_trigger :: "json option"
  lr_context_logs :: "json list"
  lr_sdk_meta :: "json option"

definition build_document :: "uuid \<Rightarrow> time \<Rightarrow> log_request \<Rightarrow> string \<Rightarrow> string \<Rightarrow> string \<Rightarrow> json" where
  "build_document log_id now r incident_id tenant_id s3_key = JObj [
     (''log_id'', JStr log_id), (''tenant_id'', JStr tenant_id), (''incident_id'', JStr incident_id),
     (''service_name'', JStr (strip (lower (lr_service_name r)))),
     (''environment'', JStr (strip (lower (lr_environment r)))),
     (''severity'', JStr (lower (lr_severity r))), (''error_type'', JStr (strip (lr_error_type r))),
     (''file_path'', jopt (\<lambda>p. JStr (strip p)) (nonempty (lr_file_path r))),
     (''line_number'', jopt JInt (lr_line_number r)),
     (''timestamp'', JStr (isoformat now)), (''status'', JStr ''open''), (''s3_key'', JStr s3_key)]"

text \<open>The body of \<open>index_log_event\<close>: every exception is answered with False.\<close>

definition index_once ::
  "'w elasticsearch \<Rightarrow> uuid \<Rightarrow> time \<Rightarrow> log_request \<Rightarrow> string \<Rightarrow> string \<Rightarrow> json \<Rightarrow> string \<Rightarrow> 'w \<Rightarrow> bool res \<times> 'w" where
  "index_once E log_id now r incident_id tenant_id plan_tier s3_key w =
     (case es_index E (get_write_alias tenant_id plan_tier) log_id
             (build_document log_id now r incident_id tenant_id s3_key) w of
        (Inr _, w') \<Rightarrow> (Inr True, w')
      | (Inl _, w') \<Rightarrow> (Inr False, w'))"

text \<open>The decorator of \<open>tenacity\<close>, which is not part of the repository, is the argument \<open>retrying\<close>.\<close>

definition index_log_event ::
  "(('w \<Rightarrow> bool res \<times> 'w) \<Rightarrow> 'w \<Rightarrow> bool res \<times> 'w) \<Rightarrow> 'w elasticsearch \<Rightarrow> uuid \<Rightarrow> time \<Rightarrow> log_request \<Rightarrow>
   string \<Rightarrow> string \<Rightarrow> json \<Rightarrow> string \<Rightarrow> 'w \<Rightarrow> bool res \<times> 'w" where
  "index_log_event retrying E log_id now r incident_id tenant_id plan_tier s3_key =
     retrying (index_once E log_id now r incident_id tenant_id plan_tier s3_key)"

definition bulk_index_log_events ::
  "'w elasticsearch \<Rightarrow> json list \<Rightarrow> string \<Rightarrow> json \<Rightarrow> 'w \<Rightarrow> (int \<times> int) res \<times> 'w" where
  "bulk_index_log_events E events tenant_id plan_tier w =
     (if list_all (jhas ''log_id'') events
      then es_bulk E (get_write_alias tenant_id plan_tier) events w
      else (Inl (KeyError ''log_id''), w))"

definition of_incident :: "string \<Rightarrow> string \<Rightarrow> es_query" where
  "of_incident tenant_id incident_id = Must [Term ''tenant_id'' tenant_id, Term ''incident_id'' incident_id]"

fun set_field :: "string \<Rightarrow> json \<Rightarrow> json \<Rightarrow> json" where
  "set_field k v (JObj kvs) =
     (if map_of kvs k = None then JObj (kvs @ [(k, v)])
      else JObj (map (\<lambda>(k', v'). (k', if k' = k then v else v')) kvs))"
| "set_field k v d = d"

definition update_incident_status ::
  "'w elasticsearch \<Rightarrow> string \<Rightarrow> string \<Rightarrow> json \<Rightarrow> string \<Rightarrow> 'w \<Rightarrow> unit res \<times> 'w" where
  "update_incident_status E incident_id tenant_id plan_tier new_status w =
     (case es_update E (get_write_alias tenant_id plan_tier) (of_incident tenant_id incident_id)
             (set_field ''status'' (JStr new_status)) w of
        (Inl e, w') \<Rightarrow> (Inl e, w') | (Inr _, w') \<Rightarrow> (Inr (), w'))"

definition MAX_RETRIES :: nat where
  "MAX_RETRIES = 12"

text \<open>The update is repeated until it changes something; the count is of the attempts made.\<close>

fun update_until ::
  "'w elasticsearch \<Rightarrow> string \<Rightarrow> es_query \<Rightarrow> (json \<Rightarrow> json) \<Rightarrow> nat \<Rightarrow> 'w \<Rightarrow> nat res \<times> 'w" where
  "update_until E ix q f 0 w = (Inr 0, w)"
| "update_until E ix q f (Suc n) w =
     (case es_update E ix q f w of
        (Inl e, w1) \<Rightarrow> (Inl e, w1)
      | (Inr updated, w1) \<Rightarrow>
          if 0 < updated then (Inr 1, w1)
          else (case update_until E ix q f n w1 of
                  (Inl e, w2) \<Rightarrow> (Inl e, w2) | (Inr k, w2) \<Rightarrow> (Inr (Suc k), w2)))"

definition link_script :: "string \<Rightarrow> string \<Rightarrow> string \<Rightarrow> json \<Rightarrow> json" where
  "link_script grouped severity status d =
     set_field ''status'' (JStr status) (set_field ''severity'' (JStr (lower severity))
       (set_field ''incident_id'' (JStr grouped) d))"

definition link_log_to_incident ::
  "'w elasticsearch \<Rightarrow> string \<Rightarrow> string \<Rightarrow> json \<Rightarrow> string \<Rightarrow> string \<Rightarrow> string \<Rightarrow> 'w \<Rightarrow> nat res \<times> 'w" where
  "link_log_to_incident E raw_log_id tenant_id plan_tier grouped severity status =
     update_until E (get_write_alias tenant_id plan_tier) (of_incident tenant_id raw_log_id)
       (link_script grouped severity status) MAX_RETRIES"

definition parsed_script :: "string \<Rightarrow> string option \<Rightarrow> int option \<Rightarrow> string \<Rightarrow> json \<Rightarrow> json" where
  "parsed_script error_type file_path line_number severity d =
     set_field ''severity'' (JStr (lower severity))
       ((case line_number of None \<Rightarrow> id | Some n \<Rightarrow> set_field ''line_number'' (JInt n))
         ((case file_path of None \<Rightarrow> id | Some p \<Rightarrow> set_field ''file_path'' (JStr p))
           (set_field ''error_type'' (JStr error_type) d)))"

definition update_parsed_fields ::
  "'w elasticsearch \<Rightarrow> string \<Rightarrow> string \<Rightarrow> json \<Rightarrow> string \<Rightarrow> string option \<Rightarrow> int option \<Rightarrow> string \<Rightarrow> 'w \<Rightarrow>
   nat res \<times> 'w" where
  "update_parsed_fields E incident_id tenant_id plan_tier error_type file_path line_number severity =
     update_until E (get_write_alias tenant_id plan_tier) (of_incident tenant_id incident_id)
       (parsed_script error_type file_path line_number severity) MAX_RETRIES"

subsection \<open>Searches\<close>

record search_filters =
  sf_tenant_id :: string
  sf_severity :: "string option"
  sf_service_name :: "string option"
  sf_environment :: "string option"
  sf_error_type :: "string option"
  sf_file_path :: "string option"
  sf_search_query :: "string option"
  sf_status :: "string option"
  sf_time_from :: "string option"
  sf_time_to :: "string option"
  sf_time_window :: "string option"

record search_request =
  sr_filters :: search_filters
  sr_page_size :: nat
  sr_search_after :: json
  sr_plan_tier :: json

record search_result =
  sx_hits :: "json list"
  sx_total :: int
  sx_next_search_after :: "json option"
  sx_took_ms :: int

definition build_time_range ::
  "string option \<Rightarrow> string option \<Rightarrow> string option \<Rightarrow> (string \<times> string) list option" where
  "build_time_range time_from time_to time_window =
     (case nonempty time_window of
        Some t \<Rightarrow> Some [(''gte'', ''now-'' @ t), (''lte'', ''now'')]
      | None \<Rightarrow>
          (let r = (case nonempty time_from of None \<Rightarrow> [] | Some a \<Rightarrow> [(''gte'', a)]) @
                   (case nonempty time_to of None \<Rightarrow> [] | Some b \<Rightarrow> [(''lte'', b)])
           in if r = [] then None else Some r))"

definition escape_backslashes :: "string \<Rightarrow> string" where
  "escape_backslashes s = concat (map (\<lambda>c. if c = CHR 0x5C then [CHR 0x5C, CHR 0x5C] else [c]) s)"

text \<open>\<open>re.sub(r':\d+$', '', s)\<close>; the end may stand before a final newline, which stays.\<close>

definition drop_line_number :: "string \<Rightarrow> string" where
  "drop_line_number s =
     (let (body, nl) = (if s \<noteq> [] \<and> last s = CHR 0x0A then (butlast s, [CHR 0x0A]) else (s, []));
          ds = takeWhile is_digit (rev body); rest = dropWhile is_digit (rev body)
      in if ds \<noteq> [] \<and> rest \<noteq> [] \<and> hd rest = CHR '':'' then rev (tl rest) @ nl else s)"

definition exact_filters :: "search_filters \<Rightarrow> (string \<times> string option) list" where
  "exact_filters f = [(''severity'', sf_severity f), (''service_name'', sf_service_name f),
     (''environment'', sf_environment f), (''error_type'', sf_error_type f), (''file_path'', sf_file_path f),
     (''status'', sf_status f)]"

definition build_query :: "search_filters \<Rightarrow> es_query" where
  "build_query f = Filter (
     Term (keyword ''tenant_id'') (sf_tenant_id f) #
     concat (map (\<lambda>(field, v). case nonempty v of
       None \<Rightarrow> [] | Some x \<Rightarrow> [Term (keyword field) (strip x)]) (exact_filters f)) @
     (case nonempty (sf_search_query f) of
        None \<Rightarrow> []
      | Some q \<Rightarrow>
          (let raw = strip q in
           [Should [Wildcard (keyword ''file_path'') (''*'' @ escape_backslashes (drop_line_number raw) @ ''*''),
                    Wildcard (keyword ''error_type'') (''*'' @ escape_backslashes raw @ ''*'')]])) @
     (case build_time_range (sf_time_from f) (sf_time_to f) (sf_time_window f) of
        None \<Rightarrow> [] | Some r \<Rightarrow> [Range ''timestamp'' r]))"

definition search :: "'w elasticsearch \<Rightarrow> search_request \<Rightarrow> 'w \<Rightarrow> search_result res \<times> 'w" where
  "search E rq w =
     (case es_search E (get_search_index (sf_tenant_id (sr_filters rq)) (sr_plan_tier rq))
             (build_query (sr_filters rq)) (min (sr_page_size rq) 200)
             (if truthy (sr_search_after rq) then sr_search_after rq else JNull) w of
        (Inr r, w') \<Rightarrow>
          (Inr \<lparr>sx_hits = eh_hits r, sx_total = eh_total r,
                sx_next_search_after = (if eh_hits r = [] then None else Some (last (eh_sorts r))),
                sx_took_ms = eh_took r\<rparr>, w')
      | (Inl e, w') \<Rightarrow>
          (if e = NotFoundError
           then (Inr \<lparr>sx_hits = [], sx_total = 0, sx_next_search_after = None, sx_took_ms = 0\<rparr>, w')
           else (Inl e, w')))"

definition volume_query :: "string \<Rightarrow> string \<Rightarrow> es_query" where
  "volume_query tenant_id time_window = Must [Term (keyword ''tenant_id'') tenant_id,
     Range ''timestamp'' [(''gte'', ''now-'' @ time_window)]]"

definition count_volume :: "'w elasticsearch \<Rightarrow> string \<Rightarrow> json \<Rightarrow> string \<Rightarrow> 'w \<Rightarrow> int res \<times> 'w" where
  "count_volume E tenant_id plan_tier time_window w =
     (case es_count E (get_search_index tenant_id plan_tier) (volume_query tenant_id time_window) w of
        (Inl e, w') \<Rightarrow> (if e = NotFoundError then Inr 0 else Inl e, w') | r \<Rightarrow> r)"

text \<open>The values of the five filters: service names, severities, error types, environments, statuses.\<close>

definition FILTER_FIELDS :: "(string \<times> nat) list" where
  "FILTER_FIELDS = [(keyword ''service_name'', 100), (keyword ''severity'', 10), (keyword ''error_type'', 50),
     (keyword ''environment'', 10), (keyword ''status'', 5)]"

definition get_filter_options ::
  "'w elasticsearch \<Rightarrow> string \<Rightarrow> json \<Rightarrow> string \<Rightarrow> 'w \<Rightarrow> string list list res \<times> 'w" where
  "get_filter_options E tenant_id plan_tier time_window w =
     (case es_terms E (get_search_index tenant_id plan_tier) (volume_query tenant_id time_window) FILTER_FIELDS w of
        (Inl e, w') \<Rightarrow> (if e = NotFoundError then Inr [[], [], [], [], []] else Inl e, w') | r \<Rightarrow> r)"

text \<open>The route of \<open>app/api/v1/log_search_endpoint.py\<close>: the tenant and its plan come from the dependency.\<close>

record search_params =
  sp_filters :: search_filters
  sp_page_size :: nat
  sp_cursor :: "string option"

definition search_logs ::
  "'w elasticsearch \<Rightarrow> (string \<Rightarrow> json option) \<Rightarrow> (json \<Rightarrow> string) \<Rightarrow> tenant_context \<Rightarrow> search_params \<Rightarrow> 'w \<Rightarrow>
   (search_result \<times> string option) res \<times> 'w" where
  "search_logs E json_loads json_dumps tenant p w =
     (case (case nonempty (sp_cursor p) of
              None \<Rightarrow> Inr JNull
            | Some c \<Rightarrow> (case json_loads c of None \<Rightarrow> Inl (HTTPException 400 ''Invalid cursor format'') | Some v \<Rightarrow> Inr v)) of
        Inl e \<Rightarrow> (Inl e, w)
      | Inr after \<Rightarrow>
          (case search E \<lparr>sr_filters = (sp_filters p)\<lparr>sf_tenant_id := tc_tenant_id tenant\<rparr>,
                   sr_page_size = sp_page_size p, sr_search_after = after,
                   sr_plan_tier = tc_plan_tier tenant\<rparr> w of
             (Inl e, w') \<Rightarrow> (Inl e, w')
           | (Inr r, w') \<Rightarrow> (Inr (r, case sx_next_search_after r of
               None \<Rightarrow> None | Some v \<Rightarrow> if truthy v then Some (json_dumps v) else None), w')))"

end
