(* ===== verification/Log_Events_Spec.thy ===== *)
theory Log_Events_Spec
  imports Log_Events
begin

text \<open>
  What the log explorer guarantees: a search stays with its tenant, it finds an event by its service exactly
  when the filter has the spelling of the index; and what it does not: the updates of the indexed events name
  fields that hold tokens, so they reach no event.
\<close>

subsection \<open>A server in memory\<close>

text \<open>The instance has the tokens between hyphens; it ignores wildcards and ranges.\<close>

type_synonym es_mem = "string \<Rightarrow> json list"

definition words :: "string \<Rightarrow> string list" where
  "words s = split_on (CHR ''-'') (lower s)"

fun mem_matches :: "json \<Rightarrow> es_query \<Rightarrow> bool" where
  "mem_matches d (Term f v) =
     (if suffix ''.keyword'' f then jget (take (length f - 8) f) d = JStr v \<and> length v \<le> 256
      else case jget f d of JStr s \<Rightarrow> v \<in> set (words s) | _ \<Rightarrow> False)"
| "mem_matches d (Wildcard f v) = True"
| "mem_matches d (Range f r) = True"
| "mem_matches d (Should qs) = list_ex (mem_matches d) qs"
| "mem_matches d (Must qs) = list_all (mem_matches d) qs"
| "mem_matches d (Filter qs) = list_all (mem_matches d) qs"

definition mem_es :: "es_mem elasticsearch" where
  "mem_es = \<lparr>es_index = (\<lambda>ix i d w. (Inr (), w(ix := w ix @ [d]))),
     es_bulk = (\<lambda>ix ds w. (Inr (int (length ds), 0), w(ix := w ix @ ds))),
     es_update = (\<lambda>ix q f w. (Inr (int (length (filter (\<lambda>d. mem_matches d q) (w ix)))),
        w(ix := map (\<lambda>d. if mem_matches d q then f d else d) (w ix)))),
     es_search = (\<lambda>ix q n after w. (let ds = take n (filter (\<lambda>d. mem_matches d q) (w ix)) in
        (Inr \<lparr>eh_hits = ds, eh_sorts = map (jget ''timestamp'') ds,
              eh_total = int (length (filter (\<lambda>d. mem_matches d q) (w ix))), eh_took = 1\<rparr>, w))),
     es_terms = (\<lambda>ix q fs w. (Inr (map (\<lambda>(f, n). take n (remdups (concat (map (\<lambda>d.
        case jget (take (length f - 8) f) d of JStr s \<Rightarrow> [s] | _ \<Rightarrow> []) (filter (\<lambda>d. mem_matches d q) (w ix)))))) fs), w)),
     es_count = (\<lambda>ix q w. (Inr (int (length (filter (\<lambda>d. mem_matches d q) (w ix)))), w))\<rparr>"

lemma split_on_free: "v \<in> set (split_on c s) \<Longrightarrow> c \<notin> set v"
  by (induction c s arbitrary: v rule: split_on.induct) (auto split: list.splits if_splits)

interpretation mem_es: es_server mem_es "\<lambda>w. w" mem_matches words
proof unfold_locales
  fix d :: json and fld v
  show "mem_matches d (Term (keyword fld) v) \<longleftrightarrow> jget fld d = JStr v \<and> length v \<le> 256"
    by (auto simp: suffix_def keyword_def)
qed (auto simp: mem_es_def words_def split_on_free list_all_iff list_all2_conv_all_nth Let_def
    dest: set_take_subset [THEN subsetD] split: json.splits)

subsection \<open>Searches\<close>

context es_server begin

lemma query_tenant:
  "matches d (build_query f) \<Longrightarrow> jget ''tenant_id'' d = JStr (sf_tenant_id f)"
  by (simp add: build_query_def filter_all keyword_term)

lemma search_tenant:
  assumes "search E rq w = (Inr r, w')"
  shows "length (sx_hits r) \<le> 200"
    and "\<forall>d \<in> set (sx_hits r). jget ''tenant_id'' d = JStr (sf_tenant_id (sr_filters rq))"
proof -
  let ?ix = "get_search_index (sf_tenant_id (sr_filters rq)) (sr_plan_tier rq)"
    and ?n = "min (sr_page_size rq) 200"
    and ?after = "if truthy (sr_search_after rq) then sr_search_after rq else JNull"
  have "length (sx_hits r) \<le> 200 \<and> (\<forall>d \<in> set (sx_hits r). matches d (build_query (sr_filters rq)))"
  proof (cases "es_search E ?ix (build_query (sr_filters rq)) ?n ?after w")
    case (Pair x w1)
    show ?thesis
    proof (cases x)
      case (Inr h)
      with search_hits [of ?ix "build_query (sr_filters rq)" ?n ?after w h w1] Pair assms show ?thesis
        by (simp add: search_def del: If_def split: if_splits)
          (auto simp: search_def)
    next
      case (Inl e)
      with Pair assms show ?thesis by (auto simp: search_def split: if_splits)
    qed
  qed
  then show "length (sx_hits r) \<le> 200"
    and "\<forall>d \<in> set (sx_hits r). jget ''tenant_id'' d = JStr (sf_tenant_id (sr_filters rq))"
    using query_tenant by blast+
qed

end

text \<open>C20: whatever filters, cursor and page size a request has, every hit of a search is an event
  of the tenant that the request was validated for, and there are at most two hundred.\<close>

theorem search_isolated:
  assumes "es_server E docs matches tokens"
    and "search_logs E json_loads json_dumps tenant p w = (Inr (r, c), w')"
  shows "length (sx_hits r) \<le> 200 \<and> (\<forall>d \<in> set (sx_hits r). jget ''tenant_id'' d = JStr (tc_tenant_id tenant))"
proof -
  from assms(2) obtain after where "search E \<lparr>sr_filters = (sp_filters p)\<lparr>sf_tenant_id := tc_tenant_id tenant\<rparr>,
      sr_page_size = sp_page_size p, sr_search_after = after, sr_plan_tier = tc_plan_tier tenant\<rparr> w = (Inr r, w')"
    by (auto simp: search_logs_def split: sum.splits prod.splits)
  from es_server.search_tenant [OF assms(1) this] show ?thesis by simp
qed

definition no_filters :: search_filters where
  "no_filters = \<lparr>sf_tenant_id = [], sf_severity = None, sf_service_name = None, sf_environment = None,
     sf_error_type = None, sf_file_path = None, sf_search_query = None, sf_status = None,
     sf_time_from = None, sf_time_to = None, sf_time_window = None\<rparr>"

definition pay_request :: log_request where
  "pay_request = \<lparr>lr_incident_id = ''0c000000-0000-4000-8000-00000000000c'', lr_service_name = ''Pay'',
     lr_environment = ''production'', lr_severity = ''error'', lr_error_type = ''KeyError'',
     lr_file_path = None, lr_line_number = Some 7, lr_trigger = None, lr_context_logs = [], lr_sdk_meta = None\<rparr>"

definition pay_event :: "string \<Rightarrow> json" where
  "pay_event tenant = build_document ''l'' 0 pay_request (lr_incident_id pay_request) tenant ''k''"

definition explorer :: tenant_context where
  "explorer = \<lparr>tc_tenant_id = ''t-1'', tc_plan_tier = JNull, tc_vector_namespace = JNull,
     tc_kafka_group_id = JNull, tc_is_suspended = False, tc_source_version = JNull\<rparr>"

definition two_tenants :: es_mem where
  "two_tenants ix = (if ix = ''neuralops-logs'' then [pay_event ''t-2'', pay_event ''t-1''] else [])"

lemma search_isolated_witness:
  "\<exists>r c w'. search_logs mem_es (\<lambda>_. None) (\<lambda>_. []) explorer
       \<lparr>sp_filters = no_filters, sp_page_size = 50, sp_cursor = None\<rparr> two_tenants = (Inr (r, c), w') \<and>
     sx_total r = 1 \<and> length (sx_hits r) \<le> 200 \<and> (\<forall>d \<in> set (sx_hits r). jget ''tenant_id'' d = JStr ''t-1'')"
proof -
  let ?s = "search_logs mem_es (\<lambda>_. None) (\<lambda>_. []) explorer
       \<lparr>sp_filters = no_filters, sp_page_size = 50, sp_cursor = None\<rparr> two_tenants"
  obtain r c w' where s: "?s = (Inr (r, c), w')" and "sx_total r = 1"
    by (simp add: search_logs_def search_def mem_es_def explorer_def no_filters_def get_search_index_def
        two_tenants_def pay_event_def build_document_def build_query_def exact_filters_def build_time_range_def
        keyword_def suffix_def Let_def)
  with search_isolated [OF mem_es.es_server_axioms s] show ?thesis by (auto simp: explorer_def)
qed

text \<open>A search by service finds an event exactly when the filter, stripped, is the
  stripped lower-case name of the event's service: the index is written in lower case and the filter is not
  converted, so a service is never found under a name with a capital letter, its own included.\<close>

theorem event_found_by_service:
  assumes "es_server E docs matches tokens"
    and "d = build_document log_id now r incident_id tenant_id s3_key" and "length tenant_id \<le> 256"
    and "length (strip v) \<le> 256" and "v \<noteq> []"
    and "f = no_filters\<lparr>sf_tenant_id := tenant_id, sf_service_name := Some v\<rparr>"
  shows "matches d (build_query f) \<longleftrightarrow> strip v = strip (lower (lr_service_name r))"
  using assms(3-5)
  by (auto simp: assms(2,6) build_query_def exact_filters_def no_filters_def build_time_range_def nonempty_def
      es_server.filter_all [OF assms(1)] es_server.keyword_term [OF assms(1)] build_document_def)

lemma event_found_by_service_witness:
  "\<not> mem_matches (pay_event ''t-1'')
     (build_query (no_filters\<lparr>sf_tenant_id := ''t-1'', sf_service_name := Some ''Pay''\<rparr>)) \<and>
   mem_matches (pay_event ''t-1'')
     (build_query (no_filters\<lparr>sf_tenant_id := ''t-1'', sf_service_name := Some ''pay ''\<rparr>))"
proof -
  have names: "strip ''Pay'' = ''Pay''" "strip ''pay '' = ''pay''" "strip (lower ''Pay'') = ''pay''" by code_simp+
  have len: "length ''t-1'' \<le> 256" "length (strip ''Pay'') \<le> 256" "length (strip ''pay '') \<le> 256"
    by (simp_all add: names)
  note found = event_found_by_service [OF mem_es.es_server_axioms pay_event_def [of "''t-1''"] len(1)]
  show ?thesis
    using found [OF len(2) _ refl] found [OF len(3) _ refl] by (simp add: pay_request_def names)
qed

subsection \<open>Updates\<close>

text \<open>Every document the indexer writes has the text of a UUID for its tenant.\<close>

definition tenant_texts :: "json list \<Rightarrow> bool" where
  "tenant_texts ds \<longleftrightarrow> (\<forall>d \<in> set ds. \<exists>s. jget ''tenant_id'' d = JStr s)"

lemma build_document_tenant: "jget ''tenant_id'' (build_document i now r inc t k) = JStr t"
  by (simp add: build_document_def)

context es_server begin

lemma of_incident_unmatched:
  assumes "CHR ''-'' \<in> set tenant_id" "tenant_texts (docs w ix)"
  shows "\<forall>d \<in> set (docs w ix). \<not> matches d (of_incident tenant_id incident_id)"
proof (intro ballI notI)
  fix d assume d: "d \<in> set (docs w ix)" "matches d (of_incident tenant_id incident_id)"
  then obtain s where s: "jget ''tenant_id'' d = JStr s" using assms(2) by (auto simp: tenant_texts_def)
  from d(2) have "matches d (Term ''tenant_id'' tenant_id)" by (simp add: of_incident_def must_all)
  with text_term [OF _ s] tokens_split assms(1) show False by (force simp: suffix_def)
qed

lemma update_until_unmatched:
  assumes "CHR ''-'' \<in> set tenant_id" "tenant_texts (docs w ix)"
    and "update_until E ix (of_incident tenant_id incident_id) f n w = (x, w')"
  shows "docs w' = docs w \<and> (\<forall>k. x = Inr k \<longrightarrow> k = n)"
  using assms(2,3)
proof (induction n arbitrary: w x)
  case (Suc n)
  obtain y w1 where u: "es_update E ix (of_incident tenant_id incident_id) f w = (y, w1)" by fastforce
  note none = of_incident_unmatched [OF assms(1) Suc.prems(1)]
  have same: "docs w1 = docs w" by (rule update_unmatched [OF u none])
  show ?case
  proof (cases y)
    case (Inl e)
    with Suc.prems u same show ?thesis by auto
  next
    case (Inr m)
    with u none update_none have "m = 0" by blast
    moreover from Suc.prems(2) u Inr this obtain z where
      r: "update_until E ix (of_incident tenant_id incident_id) f n w1 = (z, w')"
      by (auto split: prod.splits sum.splits)
    moreover have "docs w' = docs w1 \<and> (\<forall>k. z = Inr k \<longrightarrow> k = n)"
      using Suc.IH [of w1 z] r Suc.prems(1) same by simp
    ultimately show ?thesis using Suc.prems(2) u Inr same by (cases z) auto
  qed
qed simp

end

text \<open>The updates look for the tenant and the incident in the analysed fields,
  which hold the tokens between the hyphens of the ids.  So neither the status of an incident nor the fields the
  worker parsed nor the link to the grouped incident ever reach an indexed event, and the two loops spend all of
  their twelve attempts.\<close>

theorem indexed_events_never_updated:
  assumes "es_server E docs matches tokens" and "CHR ''-'' \<in> set tenant_id"
    and "tenant_texts (docs w (get_write_alias tenant_id plan_tier))"
  shows "docs (snd (update_incident_status E incident_id tenant_id plan_tier new_status w)) = docs w \<and>
    (case link_log_to_incident E raw_log_id tenant_id plan_tier grouped severity status w of
       (x, w') \<Rightarrow> docs w' = docs w \<and> (\<forall>k. x = Inr k \<longrightarrow> k = 12)) \<and>
    (case update_parsed_fields E incident_id tenant_id plan_tier error_type file_path line_number severity w of
       (x, w') \<Rightarrow> docs w' = docs w \<and> (\<forall>k. x = Inr k \<longrightarrow> k = 12))"
proof (intro conjI)
  let ?ix = "get_write_alias tenant_id plan_tier"
  obtain y w1 where u: "es_update E ?ix (of_incident tenant_id incident_id)
      (set_field ''status'' (JStr new_status)) w = (y, w1)" by fastforce
  have "docs w1 = docs w"
    by (rule es_server.update_unmatched [OF assms(1) u es_server.of_incident_unmatched [OF assms]])
  then show "docs (snd (update_incident_status E incident_id tenant_id plan_tier new_status w)) = docs w"
    using u by (cases y) (simp_all add: update_incident_status_def)
  show "case link_log_to_incident E raw_log_id tenant_id plan_tier grouped severity status w of
       (x, w') \<Rightarrow> docs w' = docs w \<and> (\<forall>k. x = Inr k \<longrightarrow> k = 12)"
    using es_server.update_until_unmatched [OF assms] unfolding link_log_to_incident_def MAX_RETRIES_def
    by (blast intro: case_prodI2 [OF prod.collapse])
  show "case update_parsed_fields E incident_id tenant_id plan_tier error_type file_path line_number severity w of
       (x, w') \<Rightarrow> docs w' = docs w \<and> (\<forall>k. x = Inr k \<longrightarrow> k = 12)"
    using es_server.update_until_unmatched [OF assms] unfolding update_parsed_fields_def MAX_RETRIES_def
    by (blast intro: case_prodI2 [OF prod.collapse])
qed

lemma indexed_events_never_updated_witness:
  "snd (update_incident_status mem_es (lr_incident_id pay_request) ''t-1'' JNull ''resolved'' two_tenants) =
     two_tenants \<and>
   mem_matches (pay_event ''t-1'') (Term (keyword ''tenant_id'') ''t-1'')"
proof
  have t: "CHR ''-'' \<in> set ''t-1''" "tenant_texts (two_tenants (get_write_alias ''t-1'' JNull))"
    by (simp_all add: tenant_texts_def two_tenants_def pay_event_def build_document_tenant get_write_alias_def)
  show "snd (update_incident_status mem_es (lr_incident_id pay_request) ''t-1'' JNull ''resolved'' two_tenants) =
     two_tenants"
    using indexed_events_never_updated [where docs = "\<lambda>w. w" and w = two_tenants, OF mem_es.es_server_axioms t]
    by blast
  show "mem_matches (pay_event ''t-1'') (Term (keyword ''tenant_id'') ''t-1'')"
    by (simp add: keyword_def suffix_def pay_event_def build_document_def)
qed

end
