(* ===== verification/Regex.thy ===== *)
theory Regex
  imports Prelude
begin

text \<open>
  The part of Python's \<open>re\<close> module the sources use: a backtracking matcher, in continuation-passing style,
  over expressions whose repetitions repeat a class of characters.  \<open>re.match\<close> anchors at the start of the
  text; repetitions and options are greedy, alternatives are tried in order, and the last text a group
  matched is its value.  Classes are ASCII.
\<close>

datatype re =
    Eps
  | One "char \<Rightarrow> bool"  \<comment> \<open>a character of a class\<close>
  | Seq re re
  | Alt re re
  | Rep nat "char \<Rightarrow> bool"  \<comment> \<open>a class, at least that many times\<close>
  | Opt re
  | Grp nat re
  | Eos  \<comment> \<open>\<open>$\<close>: the end, or in front of a final newline\<close>

type_synonym captures = "(nat \<times> string) list"

text \<open>\<open>m, m - 1, \<dots>, lo\<close> in this order: the first that succeeds.\<close>

fun tries :: "nat \<Rightarrow> nat \<Rightarrow> (nat \<Rightarrow> 'r option) \<Rightarrow> 'r option" where
  "tries lo m f =
     (if m < lo then None
      else case f m of Some r \<Rightarrow> Some r | None \<Rightarrow> (case m of 0 \<Rightarrow> None | Suc m' \<Rightarrow> tries lo m' f))"

declare tries.simps [simp del]

primrec run :: "re \<Rightarrow> string \<Rightarrow> captures \<Rightarrow> (string \<Rightarrow> captures \<Rightarrow> 'r option) \<Rightarrow> 'r option" where
  "run Eps s g k = k s g"
| "run (One P) s g k = (case s of [] \<Rightarrow> None | x # r \<Rightarrow> if P x then k r g else None)"
| "run (Seq a b) s g k = run a s g (\<lambda>s' g'. run b s' g' k)"
| "run (Alt a b) s g k = (case run a s g k of Some r \<Rightarrow> Some r | None \<Rightarrow> run b s g k)"
| "run (Rep n P) s g k = tries n (length (takeWhile P s)) (\<lambda>i. k (drop i s) g)"
| "run (Opt a) s g k = (case run a s g k of Some r \<Rightarrow> Some r | None \<Rightarrow> k s g)"
| "run (Grp i a) s g k = run a s g (\<lambda>s' g'. k s' ((i, take (length s - length s') s) # g'))"
| "run Eos s g k = (if s = [] \<or> s = [CHR 0x0A] then k s g else None)"

definition re_match :: "re \<Rightarrow> string \<Rightarrow> captures option" where
  "re_match e s = run e s [] (\<lambda>_ g. Some g)"

definition group :: "nat \<Rightarrow> captures \<Rightarrow> string" where
  "group i g = get_or (map_of g i) []"

text \<open>\<open>P+\<close> and \<open>P*\<close>, a fixed text, and the classes.\<close>

abbreviation Plus :: "(char \<Rightarrow> bool) \<Rightarrow> re" where
  "Plus P \<equiv> Rep 1 P"

abbreviation Many :: "(char \<Rightarrow> bool) \<Rightarrow> re" where
  "Many P \<equiv> Rep 0 P"

definition lits :: "string \<Rightarrow> re" where
  "lits s = foldr (\<lambda>c. Seq (One ((=) c))) s Eps"

definition is_upper :: "char \<Rightarrow> bool" where
  "is_upper c \<longleftrightarrow> (let n = (of_char c :: nat) in 65 \<le> n \<and> n \<le> 90)"

definition is_lower :: "char \<Rightarrow> bool" where
  "is_lower c \<longleftrightarrow> (let n = (of_char c :: nat) in 97 \<le> n \<and> n \<le> 122)"

definition is_dec :: "char \<Rightarrow> bool" where
  "is_dec c \<longleftrightarrow> (let n = (of_char c :: nat) in 48 \<le> n \<and> n \<le> 57)"

definition is_alpha :: "char \<Rightarrow> bool" where
  "is_alpha c \<longleftrightarrow> is_upper c \<or> is_lower c"

definition is_alnum :: "char \<Rightarrow> bool" where
  "is_alnum c \<longleftrightarrow> is_alpha c \<or> is_dec c"

definition is_word :: "char \<Rightarrow> bool" where
  "is_word c \<longleftrightarrow> is_alnum c \<or> c = CHR ''_''"


subsection \<open>What the expressions denote\<close>

text \<open>\<open>den e s t\<close>: \<open>e\<close> matches some beginning of \<open>s\<close> whose remainder is \<open>t\<close>.\<close>

primrec den :: "re \<Rightarrow> string \<Rightarrow> string \<Rightarrow> bool" where
  "den Eps s t \<longleftrightarrow> t = s"
| "den (One P) s t \<longleftrightarrow> (\<exists>c. P c \<and> s = c # t)"
| "den (Seq a b) s t \<longleftrightarrow> (\<exists>u. den a s u \<and> den b u t)"
| "den (Alt a b) s t \<longleftrightarrow> den a s t \<or> den b s t"
| "den (Rep n P) s t \<longleftrightarrow> (\<exists>u. s = u @ t \<and> n \<le> length u \<and> list_all P u)"
| "den (Opt a) s t \<longleftrightarrow> den a s t \<or> t = s"
| "den (Grp i a) s t \<longleftrightarrow> den a s t"
| "den Eos s t \<longleftrightarrow> t = s \<and> (s = [] \<or> s = [CHR 0x0A])"

lemma tries_Some: "tries lo m f = Some r \<Longrightarrow> \<exists>i. lo \<le> i \<and> i \<le> m \<and> f i = Some r"
proof (induction m)
  case 0
  then show ?case by (subst (asm) tries.simps) (auto split: if_splits option.splits)
next
  case (Suc m)
  then show ?case
    by (subst (asm) (2) tries.simps) (auto split: if_splits option.splits intro: exI [of _ "Suc m"] le_SucI)
qed

lemma tries_None: "tries lo m f = None \<Longrightarrow> lo \<le> i \<Longrightarrow> i \<le> m \<Longrightarrow> f i = None"
proof (induction m)
  case 0
  then show ?case by (subst (asm) tries.simps) (auto split: if_splits option.splits)
next
  case (Suc m)
  from Suc.prems have "f (Suc m) = None" "tries lo m f = None"
    by (subst (asm) tries.simps, auto split: if_splits option.splits)+
  with Suc show ?case by (cases "i = Suc m") auto
qed

text \<open>The first try, the longest, when it succeeds.\<close>

lemma tries_first: "f m = Some r \<Longrightarrow> lo \<le> m \<Longrightarrow> tries lo m f = Some r"
  by (subst tries.simps) simp

lemma takeWhile_longest: "list_all P u \<Longrightarrow> length u \<le> length (takeWhile P (u @ t))"
  by (induction u) auto

lemma take_takeWhile: "i \<le> length (takeWhile P s) \<Longrightarrow> list_all P (take i s)"
proof (induction s arbitrary: i)
  case (Cons c s)
  then show ?case by (cases i) (auto split: if_splits)
qed simp

text \<open>What the matcher returns comes from a match, and it fails only when no match satisfies the continuation.\<close>

lemma run_sound: "run e s g k = Some r \<Longrightarrow> \<exists>t g'. den e s t \<and> k t g' = Some r"
proof (induction e arbitrary: s g k)
  case (Seq a b)
  from Seq.IH(1) [OF Seq.prems [simplified]] obtain u g' where
    u: "den a s u" "run b u g' k = Some r" by blast
  with Seq.IH(2) [OF u(2)] show ?case by auto
next
  case (Alt a b)
  then show ?case by (fastforce split: option.splits)
next
  case (Rep n P)
  from tries_Some [OF Rep [simplified]] obtain i where
    i: "n \<le> i" "i \<le> length (takeWhile P s)" "k (drop i s) g = Some r" by blast
  moreover have "length (takeWhile P s) \<le> length s" by (rule length_takeWhile_le)
  ultimately have "s = take i s @ drop i s" "n \<le> length (take i s)" "list_all P (take i s)"
    using take_takeWhile by auto
  with i(3) have "den (Rep n P) s (drop i s)" by (auto simp: append_eq_conv_conj intro!: exI [of _ "take i s"])
  with i(3) show ?case by blast
next
  case (Opt a)
  then show ?case by (fastforce split: option.splits)
next
  case (Grp i a)
  then show ?case by fastforce
qed (auto split: list.splits if_splits)

lemma run_complete:
  assumes "den e s t" "\<And>g. k t g \<noteq> None" shows "run e s g k \<noteq> None"
  using assms
proof (induction e arbitrary: s t g k)
  case (Seq a b)
  then obtain u where u: "den a s u" "den b u t" by auto
  have "run b u g' k \<noteq> None" for g' using Seq.IH(2) [OF u(2)] Seq.prems(2) by blast
  with Seq.IH(1) [OF u(1)] show ?case by simp
next
  case (Alt a b)
  from Alt.prems(1) Alt.IH(1) [of s t k g] Alt.IH(2) [of s t k g] Alt.prems(2) show ?case
    by (cases "run a s g k") auto
next
  case (Rep n P)
  then obtain u where u: "s = u @ t" "n \<le> length u" "list_all P u" by auto
  show ?case
  proof
    assume "run (Rep n P) s g k = None"
    with tries_None [of n "length (takeWhile P s)" "\<lambda>i. k (drop i s) g" "length u"] u
      takeWhile_longest [OF u(3)] have "k t g = None" by simp
    with Rep.prems(2) show False by blast
  qed
next
  case (Opt a)
  from Opt.prems(1) Opt.IH [of s t k g] Opt.prems(2) show ?case
    by (cases "run a s g k") auto
next
  case (Grp i a)
  then show ?case by simp
qed auto

lemma re_match_iff: "re_match e s \<noteq> None \<longleftrightarrow> (\<exists>t. den e s t)"
  unfolding re_match_def using run_sound [of e s "[]" "\<lambda>_ g. Some g"] run_complete [of e s _ "\<lambda>_ g. Some g"]
  by blast

text \<open>A fixed text, and a repetition that has to take all it can.\<close>

lemma run_lits [simp]: "run (lits p) (p @ s) g k = k s g"
  by (induction p arbitrary: s) (simp_all add: lits_def)

lemma run_Rep_all:
  assumes "list_all P u" "n \<le> length u" "s = [] \<or> \<not> P (hd s)" "k s g = Some r"
  shows "run (Rep n P) (u @ s) g k = Some r"
proof -
  have "takeWhile P s = []" using assms(3) by (cases s) auto
  then have "takeWhile P (u @ s) = u" using assms(1) by (simp add: list_all_iff)
  with assms show ?thesis by (simp add: tries_first)
qed

text \<open>What a pattern matches one piece after the other.\<close>

lemma run_Seq_Rep:
  assumes "list_all P u" "n \<le> length u" "s = [] \<or> \<not> P (hd s)" "run e s g k = Some r"
  shows "run (Seq (Rep n P) e) (u @ s) g k = Some r"
  using run_Rep_all [OF assms(1-3), of "\<lambda>s g. run e s g k" g] assms(4) by simp

lemma run_Seq_Grp_Rep:
  assumes "list_all P u" "n \<le> length u" "s = [] \<or> \<not> P (hd s)" "run e s ((i, u) # g) k = Some r"
  shows "run (Seq (Grp i (Rep n P)) e) (u @ s) g k = Some r"
  using run_Rep_all [OF assms(1-3), of "\<lambda>s' g'. run e s' ((i, take (length (u @ s) - length s') (u @ s)) # g') k" g]
    assms(4) by simp

lemma run_Seq_lits: "run e s g k = Some r \<Longrightarrow> run (Seq (lits p) e) (p @ s) g k = Some r"
  by simp

lemma run_Seq_One: "P c \<Longrightarrow> run e s g k = Some r \<Longrightarrow> run (Seq (One P) e) (c # s) g k = Some r"
  by simp

end
