(* ===== verification/Es_Breaker.thy ===== *)
theory Es_Breaker
  imports Log_Events
begin

text \<open>
  \<open>app/services/circuit_breaker.py\<close>: the breaker in front of Elasticsearch.  A call takes its lock twice, to
  enter and to record its outcome, so between the two other calls of the process enter and end.  Times are
  those of the monotonic clock, in seconds; metrics are not modelled.
\<close>

datatype es_circuit = ES_CLOSED | ES_OPEN | ES_HALF_OPEN

record es_breaker =
  eb_state :: es_circuit
  eb_failure_count :: int
  eb_last_failure_time :: "rat option"

definition failure_threshold :: int where
  "failure_threshold = 5"

definition probe_interval :: rat where
  "probe_interval = 30"

definition new_breaker :: es_breaker where
  "new_breaker = \<lparr>eb_state = ES_CLOSED, eb_failure_count = 0, eb_last_failure_time = None\<rparr>"

subsection \<open>The three critical sections\<close>

definition es_enter :: "rat \<Rightarrow> es_breaker \<Rightarrow> bool res \<times> es_breaker" where
  "es_enter now b =
     (if eb_state b = ES_OPEN then
        (case eb_last_failure_time b of
           None \<Rightarrow> (Inl (TypeError ''unsupported operand''), b)
         | Some t \<Rightarrow> if probe_interval \<le> now - t then (Inr True, b\<lparr>eb_state := ES_HALF_OPEN\<rparr>)
                     else (Inr False, b))
      else (Inr True, b))"

definition es_success :: "es_breaker \<Rightarrow> es_breaker" where
  "es_success b = b\<lparr>eb_failure_count := 0,
     eb_state := if eb_state b = ES_HALF_OPEN then ES_CLOSED else eb_state b\<rparr>"

definition es_failure :: "rat \<Rightarrow> es_breaker \<Rightarrow> es_breaker" where
  "es_failure now b = b\<lparr>eb_failure_count := eb_failure_count b + 1, eb_last_failure_time := Some now,
     eb_state := if failure_threshold \<le> eb_failure_count b + 1 then ES_OPEN else eb_state b\<rparr>"

text \<open>A call that nothing comes between: None when it is refused or fails.\<close>

definition es_call ::
  "rat \<Rightarrow> rat \<Rightarrow> ('w \<Rightarrow> 'a res \<times> 'w) \<Rightarrow> es_breaker \<Rightarrow> 'w \<Rightarrow> 'a option res \<times> es_breaker \<times> 'w" where
  "es_call start stop fn b w =
     (case es_enter start b of
        (Inl e, b1) \<Rightarrow> (Inl e, b1, w)
      | (Inr False, b1) \<Rightarrow> (Inr None, b1, w)
      | (Inr True, b1) \<Rightarrow>
          (case fn w of
             (Inr x, w1) \<Rightarrow> (Inr (Some x), es_success b1, w1)
           | (Inl e, w1) \<Rightarrow> (Inr None, es_failure stop b1, w1)))"

subsection \<open>Calls in flight\<close>

datatype es_event = Entered rat | Refused rat | Raised exn | Succeeded | Failed rat

inductive es_step :: "es_breaker \<times> nat \<Rightarrow> es_event \<Rightarrow> es_breaker \<times> nat \<Rightarrow> bool" where
  enter: "es_enter t b = (Inr True, b') \<Longrightarrow> es_step (b, n) (Entered t) (b', Suc n)"
| refuse: "es_enter t b = (Inr False, b') \<Longrightarrow> es_step (b, n) (Refused t) (b', n)"
| raise: "es_enter t b = (Inl e, b') \<Longrightarrow> es_step (b, n) (Raised e) (b', n)"
| succeed: "es_step (b, Suc n) Succeeded (es_success b, n)"
| fail: "es_step (b, Suc n) (Failed t) (es_failure t b, n)"

inductive es_run :: "es_breaker \<times> nat \<Rightarrow> es_event list \<Rightarrow> es_breaker \<times> nat \<Rightarrow> bool" where
  stop: "es_run s [] s"
| step: "es_run s es s1 \<Longrightarrow> es_step s1 e s2 \<Longrightarrow> es_run s (es @ [e]) s2"

inductive_cases es_stepE: "es_step (b, n) e s'"
inductive_simps es_step_simps [simp]:
  "es_step (b, n) (Entered t) s'" "es_step (b, n) (Refused t) s'" "es_step (b, n) (Raised e) s'"
  "es_step (b, n) Succeeded s'" "es_step (b, n) (Failed t) s'"

lemma es_run_Nil [simp]: "es_run s [] s' \<longleftrightarrow> s' = s"
  by (auto intro: es_run.stop elim: es_run.cases)

lemma es_run_Cons:
  "es_run s (e # es) s' \<longleftrightarrow> (\<exists>s1. es_step s e s1 \<and> es_run s1 es s')"
proof
  have "\<exists>s1. es_step s e s1 \<and> es_run s1 es s'" if "es_run s es' s'" "es' = e # es" for es'
    using that
  proof (induction arbitrary: es rule: es_run.induct)
    case (step s es1 s1 d s2)
    show ?case
    proof (cases es1)
      case Nil
      with step.hyps step.prems show ?thesis by (cases s2) auto
    next
      case (Cons c es2)
      with step.prems have "es1 = e # es2" "es = es2 @ [d]" by simp_all
      with step.IH step.hyps(2) show ?thesis by (blast intro: es_run.step)
    qed
  qed simp
  then show "es_run s (e # es) s' \<Longrightarrow> \<exists>s1. es_step s e s1 \<and> es_run s1 es s'" by blast
next
  have "es_run s1 es s' \<Longrightarrow> es_step s e s1 \<Longrightarrow> es_run s (e # es) s'" for s1
  proof (induction rule: es_run.induct)
    case (stop s1)
    then show ?case using es_run.step [OF es_run.stop] by simp
  next
    case (step s1 es2 s2 d s3)
    from es_run.step [OF step.IH [OF step.prems] step.hyps(2)] show ?case by simp
  qed
  then show "\<exists>s1. es_step s e s1 \<and> es_run s1 es s' \<Longrightarrow> es_run s (e # es) s'" by blast
qed

definition es_inv :: "es_breaker \<Rightarrow> bool" where
  "es_inv b \<longleftrightarrow> 0 \<le> eb_failure_count b \<and>
     (eb_state b = ES_CLOSED \<longrightarrow> eb_failure_count b < failure_threshold) \<and>
     (eb_state b = ES_OPEN \<longrightarrow> eb_last_failure_time b \<noteq> None)"

lemma es_step_inv:
  assumes "es_step (b, n) e (b', n')" "es_inv b"
  shows "es_inv b' \<and> (\<forall>x. e \<noteq> Raised x)"
  using assms
  by (cases e) (auto simp: es_enter_def es_success_def es_failure_def es_inv_def failure_threshold_def
      split: if_splits option.splits)

text \<open>However calls overlap, entering the breaker never raises, a closed breaker has
  counted fewer failures than the threshold, and an open one knows the time of its last failure.\<close>

theorem es_breaker_invariant:
  assumes "es_run (new_breaker, 0) es (b, n)"
  shows "es_inv b \<and> (\<forall>x. Raised x \<notin> set es)"
  using assms
proof (induction "(new_breaker, 0 :: nat)" es "(b, n)" arbitrary: b n rule: es_run.induct)
  case stop
  show ?case by (simp add: es_inv_def new_breaker_def failure_threshold_def)
next
  case (step es s1 e)
  obtain b1 n1 where s1: "s1 = (b1, n1)" by (cases s1)
  from step(2) [OF this] es_step_inv [of b1 n1 e b n] step(3) s1 show ?case by auto
qed

definition outcome :: "es_event \<Rightarrow> bool" where
  "outcome e \<longleftrightarrow> (case e of Succeeded \<Rightarrow> True | Failed _ \<Rightarrow> True | _ \<Rightarrow> False)"

definition failed :: "es_event \<Rightarrow> bool" where
  "failed e \<longleftrightarrow> (case e of Failed _ \<Rightarrow> True | _ \<Rightarrow> False)"

lemma es_run_count:
  assumes "es_run (b, n) es (b', n')" "\<forall>e \<in> set es. outcome e \<longrightarrow> failed e"
  shows "eb_failure_count b' = eb_failure_count b + int (length (filter failed es))"
  using assms
proof (induction "(b, n)" es "(b', n')" arbitrary: b' n' rule: es_run.induct)
  case (step es s1 e)
  obtain b1 n1 where s1: "s1 = (b1, n1)" by (cases s1)
  from step(2) [OF this] step(3-) s1 show ?case
    by (cases e) (auto simp: es_enter_def es_failure_def outcome_def failed_def split: if_splits option.splits)
qed simp

text \<open>When five calls in a row have failed, however they overlap with others, the breaker is
  open at the fifth, and it refuses every call of the next thirty seconds.\<close>

theorem es_breaker_trips:
  assumes "es_run (new_breaker, 0) es0 (b0, n0)" and "es_run (b0, n0) (es @ [Failed t]) (b, n)"
    and "\<forall>e \<in> set es. outcome e \<longrightarrow> failed e" and "4 \<le> length (filter failed es)" and "now - t < 30"
  shows "es_enter now b = (Inr False, b)"
proof -
  from assms(2) obtain b1 n1 where r: "es_run (b0, n0) es (b1, n1)" and s: "es_step (b1, n1) (Failed t) (b, n)"
    by (cases rule: es_run.cases) auto
  have "0 \<le> eb_failure_count b0" using es_breaker_invariant [OF assms(1)] by (simp add: es_inv_def)
  with es_run_count [OF r assms(3)] assms(4) have "4 \<le> eb_failure_count b1" by linarith
  with s assms(5) show ?thesis
    by (auto simp: es_failure_def es_enter_def failure_threshold_def probe_interval_def)
qed

lemmas es_eval = es_run_Cons es_enter_def es_success_def es_failure_def new_breaker_def
  failure_threshold_def probe_interval_def

text \<open>The fifth failure opens; the call that was in flight then succeeds and resets the count, so the probe
  half a minute later fails without opening the breaker again, and it admits every call.\<close>

definition lost_probe :: "es_event list" where
  "lost_probe = replicate 6 (Entered 0) @ replicate 5 (Failed 1) @ [Succeeded, Entered 31, Failed 32]"

lemma probe_failure_keeps_half_open:
  "\<exists>b. es_run (new_breaker, 0) lost_probe (b, 0) \<and> eb_state b = ES_HALF_OPEN \<and>
       es_enter 32 b = (Inr True, b)"
  by (simp add: lost_probe_def eval_nat_numeral es_eval)

lemma es_breaker_invariant_witness:
  "\<exists>b. es_run (new_breaker, 0) lost_probe (b, 0) \<and> es_inv b \<and> (\<forall>x. Raised x \<notin> set lost_probe)"
  using probe_failure_keeps_half_open es_breaker_invariant by blast

lemma es_breaker_trips_witness:
  "\<exists>b. es_run (new_breaker, 5) ([Failed 1, Failed 1, Failed 2, Failed 3] @ [Failed 4]) (b, 0) \<and>
       es_enter 5 b = (Inr False, b)"
proof -
  let ?es = "[Failed 1, Failed 1, Failed 2, Failed 3]"
  have start: "es_run (new_breaker, 0) (replicate 5 (Entered 0)) (new_breaker, 5)"
    by (simp add: eval_nat_numeral es_run_Cons es_enter_def new_breaker_def)
  obtain b where run: "es_run (new_breaker, 5) (?es @ [Failed 4]) (b, 0)"
    by (simp add: es_eval)
  have "es_enter 5 b = (Inr False, b)"
    by (rule es_breaker_trips [OF start run]) (simp_all add: failed_def)
  with run show ?thesis by blast
qed

subsection \<open>The breaker and the indexer\<close>

text \<open>What is documented of the decorator of \<open>tenacity\<close>: a call that returns is not repeated.\<close>

definition returns_first :: "(('w \<Rightarrow> bool res \<times> 'w) \<Rightarrow> 'w \<Rightarrow> bool res \<times> 'w) \<Rightarrow> bool" where
  "returns_first retrying \<longleftrightarrow> (\<forall>f w x w'. f w = (Inr x, w') \<longrightarrow> retrying f w = (Inr x, w'))"

text \<open>One event: start and end of the call, the id drawn, the clock, the event and where it goes.\<close>

record es_write =
  ew_start :: rat
  ew_stop :: rat
  ew_log_id :: uuid
  ew_now :: time
  ew_request :: log_request
  ew_tenant_id :: string
  ew_plan_tier :: json
  ew_s3_key :: string

definition attempt :: "'w elasticsearch \<Rightarrow> es_write \<Rightarrow> 'w \<Rightarrow> unit res \<times> 'w" where
  "attempt E x = es_index E (get_write_alias (ew_tenant_id x) (ew_plan_tier x)) (ew_log_id x)
     (build_document (ew_log_id x) (ew_now x) (ew_request x) (lr_incident_id (ew_request x))
        (ew_tenant_id x) (ew_s3_key x))"

definition write_event ::
  "(('w \<Rightarrow> bool res \<times> 'w) \<Rightarrow> 'w \<Rightarrow> bool res \<times> 'w) \<Rightarrow> 'w elasticsearch \<Rightarrow> es_write \<Rightarrow> es_breaker \<Rightarrow> 'w \<Rightarrow>
   bool option res \<times> es_breaker \<times> 'w" where
  "write_event retrying E x b w =
     es_call (ew_start x) (ew_stop x)
       (index_log_event retrying E (ew_log_id x) (ew_now x) (ew_request x) (lr_incident_id (ew_request x))
          (ew_tenant_id x) (ew_plan_tier x) (ew_s3_key x)) b w"

lemma index_log_event_once:
  assumes "returns_first retrying"
  shows "index_log_event retrying E log_id now r incident_id tenant_id plan_tier s3_key w =
    index_once E log_id now r incident_id tenant_id plan_tier s3_key w"
  using assms by (auto simp: index_log_event_def returns_first_def index_once_def split: prod.splits sum.splits)

text \<open>The indexer answers its own exceptions with False, so the breaker never sees one: over
  any number of events, and if Elasticsearch refuses every single one, the breaker stays as it was created and
  lets each of them try exactly once; nothing is ever retried or refused.\<close>

theorem es_breaker_blind:
  assumes "returns_first retrying"
  shows "fold (\<lambda>x (b, w). snd (write_event retrying E x b w)) xs (new_breaker, w) =
         (new_breaker, fold (\<lambda>x w. snd (attempt E x w)) xs w)"
proof (induction xs arbitrary: w)
  case (Cons x xs)
  have "snd (write_event retrying E x new_breaker w) = (new_breaker, snd (attempt E x w))"
    by (cases "attempt E x w")
      (auto simp: write_event_def es_call_def es_enter_def es_success_def new_breaker_def index_once_def
        index_log_event_once [OF assms] attempt_def split: prod.splits sum.splits)
  with Cons.IH show ?case by simp
qed simp

definition down :: "nat elasticsearch" where
  "down = \<lparr>es_index = (\<lambda>_ _ _ n. (Inl TimeoutErr, Suc n)), es_bulk = (\<lambda>_ _ n. (Inl TimeoutErr, Suc n)),
     es_update = (\<lambda>_ _ _ n. (Inl TimeoutErr, Suc n)), es_search = (\<lambda>_ _ _ _ n. (Inl TimeoutErr, Suc n)),
     es_terms = (\<lambda>_ _ _ n. (Inl TimeoutErr, Suc n)),
     es_count = (\<lambda>_ _ n. (Inl TimeoutErr, Suc n))\<rparr>"

definition sample_request :: log_request where
  "sample_request = \<lparr>lr_incident_id = ''0c000000-0000-4000-8000-00000000000c'', lr_service_name = ''pay'',
     lr_environment = ''production'', lr_severity = ''error'', lr_error_type = ''KeyError'',
     lr_file_path = None, lr_line_number = Some 7, lr_trigger = None, lr_context_logs = [], lr_sdk_meta = None\<rparr>"

lemma es_breaker_blind_witness:
  "fold (\<lambda>x (b, w). snd (write_event (\<lambda>f. f) down x b w))
     (replicate 7 \<lparr>ew_start = 0, ew_stop = 5, ew_log_id = [], ew_now = 0, ew_request = sample_request,
        ew_tenant_id = [], ew_plan_tier = JNull, ew_s3_key = []\<rparr>) (new_breaker, 0) = (new_breaker, 7)"
  by (subst es_breaker_blind) (simp_all add: returns_first_def attempt_def down_def eval_nat_numeral)

end
