(* ===== verification/Ingest.thy ===== *)
theory Ingest
  imports Rate_Limit Es_Breaker Raw_Logs
begin

text \<open>
  \<open>POST /api/v1/ingest/logs\<close>: the schema of \<open>app/schemas/ingest.py\<close> and the route of \<open>app/api/v1/ingest.py\<close>.
  The bucket of S3 is the map of its objects; gzip and the lax integer conversion of pydantic are parameters.
\<close>

subsection \<open>The schema\<close>

definition invalid :: "string \<Rightarrow> exn" where
  "invalid field = HTTPException 422 field"

text \<open>Fields that are missing take their default; \<open>as_int\<close> is the lax conversion.\<close>

definition body_str :: "string \<Rightarrow> json \<Rightarrow> string res" where
  "body_str k d = (case jget k d of JStr s \<Rightarrow> Inr s | _ \<Rightarrow> Inl (invalid k))"

definition body_opt_str :: "string \<Rightarrow> json \<Rightarrow> string option res" where
  "body_opt_str k d = (case jget k d of JNull \<Rightarrow> Inr None | JStr s \<Rightarrow> Inr (Some s) | _ \<Rightarrow> Inl (invalid k))"

definition body_str_default :: "string \<Rightarrow> string \<Rightarrow> json \<Rightarrow> string res" where
  "body_str_default k dflt d = (if jhas k d then body_str k d else Inr dflt)"

definition max_length :: "string \<Rightarrow> nat \<Rightarrow> string res \<Rightarrow> string res" where
  "max_length k n x = bind_res x (\<lambda>s. if length s \<le> n then Inr s else Inl (invalid k))"

definition body_int :: "(json \<Rightarrow> int option) \<Rightarrow> string \<Rightarrow> json \<Rightarrow> int res" where
  "body_int as_int k d = (case as_int (jget k d) of None \<Rightarrow> Inl (invalid k) | Some n \<Rightarrow> Inr n)"

definition body_object :: "string \<Rightarrow> json \<Rightarrow> json res" where
  "body_object k v = (case v of JObj _ \<Rightarrow> Inr v | _ \<Rightarrow> Inl (invalid k))"

definition body_list :: "string \<Rightarrow> json \<Rightarrow> json list res" where
  "body_list k v = (case v of JArr xs \<Rightarrow> Inr xs | _ \<Rightarrow> Inl (invalid k))"

fun each :: "('a \<Rightarrow> 'b res) \<Rightarrow> 'a list \<Rightarrow> 'b list res" where
  "each f [] = Inr []"
| "each f (x # xs) = bind_res (f x) (\<lambda>y. bind_res (each f xs) (\<lambda>ys. Inr (y # ys)))"

text \<open>The nested models, each with the dictionary that \<open>dict()\<close> makes of it: the code of a frame is read from
  its alias \<open>code_context\<close> and written as \<open>code\<close>.\<close>

definition frame_model :: "(json \<Rightarrow> int option) \<Rightarrow> json \<Rightarrow> json res" where
  "frame_model as_int v =
     bind_res (body_object ''frames'' v) (\<lambda>d. bind_res (body_str ''file'' d) (\<lambda>f.
     bind_res (body_int as_int ''line'' d) (\<lambda>n. bind_res (body_str ''function'' d) (\<lambda>g.
     bind_res (body_opt_str ''code_context'' d) (\<lambda>c.
       Inr (JObj [(''file'', JStr f), (''line'', JInt n), (''function'', JStr g), (''code'', jopt JStr c)]))))))"

definition trace_model :: "(json \<Rightarrow> int option) \<Rightarrow> json \<Rightarrow> json res" where
  "trace_model as_int v =
     bind_res (body_object ''stack_trace'' v) (\<lambda>d. bind_res (body_str ''exception_type'' d) (\<lambda>t.
     bind_res (body_str ''exception_message'' d) (\<lambda>m.
     bind_res (bind_res (body_list ''frames'' (jget ''frames'' d)) (each (frame_model as_int))) (\<lambda>fs.
       Inr (JObj [(''exception_type'', JStr t), (''exception_message'', JStr m), (''frames'', JArr fs)])))))"

definition body_optional :: "(json \<Rightarrow> json res) \<Rightarrow> json \<Rightarrow> json option res" where
  "body_optional f v = (if v = JNull then Inr None else bind_res (f v) (\<lambda>x. Inr (Some x)))"

definition trigger_model :: "(json \<Rightarrow> int option) \<Rightarrow> json \<Rightarrow> json res" where
  "trigger_model as_int v =
     bind_res (body_object ''trigger'' v) (\<lambda>d. bind_res (body_str ''level'' d) (\<lambda>l.
     bind_res (body_str ''message'' d) (\<lambda>m. bind_res (body_str ''timestamp'' d) (\<lambda>t.
     bind_res (body_optional (trace_model as_int) (jget ''stack_trace'' d)) (\<lambda>s.
       Inr (JObj [(''level'', JStr l), (''message'', JStr m), (''timestamp'', JStr t),
                  (''stack_trace'', jopt id s)]))))))"

definition meta_model :: "json \<Rightarrow> json res" where
  "meta_model v =
     bind_res (body_object ''sdk_meta'' v) (\<lambda>d. bind_res (body_str ''sdk_version'' d) (\<lambda>a.
     bind_res (body_str ''python_version'' d) (\<lambda>b. bind_res (body_opt_str ''hostname'' d) (\<lambda>h.
     bind_res (body_opt_str ''framework'' d) (\<lambda>f.
       Inr (JObj [(''sdk_version'', JStr a), (''python_version'', JStr b), (''hostname'', jopt JStr h),
                  (''framework'', jopt JStr f)]))))))"

definition normalize_severity :: "string \<Rightarrow> string" where
  "normalize_severity v = (if v \<noteq> [] then lower v else ''error'')"

definition log_ingest_request :: "(json \<Rightarrow> int option) \<Rightarrow> json \<Rightarrow> log_request res" where
  "log_ingest_request as_int d =
     bind_res (case jget ''incident_id'' d of JStr s \<Rightarrow>
         (case uuid_parse s of None \<Rightarrow> Inl (invalid ''incident_id'') | Some u \<Rightarrow> Inr u)
       | _ \<Rightarrow> Inl (invalid ''incident_id'')) (\<lambda>i.
     bind_res (max_length ''service_name'' 255 (body_str ''service_name'' d)) (\<lambda>service.
     bind_res (max_length ''environment'' 64 (body_str ''environment'' d)) (\<lambda>env.
     bind_res (max_length ''severity'' 64 (body_str_default ''severity'' ''error'' d)) (\<lambda>sev.
     bind_res (max_length ''error_type'' 255 (body_str_default ''error_type'' ''UnknownError'' d)) (\<lambda>ty.
     bind_res (body_opt_str ''file_path'' d) (\<lambda>path.
     bind_res (case path of Some p \<Rightarrow> if length p \<le> 1024 then Inr () else Inl (invalid ''file_path'') | None \<Rightarrow> Inr ()) (\<lambda>_.
     bind_res (if jget ''line_number'' d = JNull then Inr None
               else bind_res (body_int as_int ''line_number'' d) (\<lambda>n. Inr (Some n))) (\<lambda>line.
     bind_res (body_optional (trigger_model as_int) (jget ''trigger'' d)) (\<lambda>trigger.
     bind_res (if jhas ''context_logs'' d
               then bind_res (body_list ''context_logs'' (jget ''context_logs'' d)) (each (body_object ''context_logs''))
               else Inr []) (\<lambda>logs.
     bind_res (body_optional meta_model (jget ''sdk_meta'' d)) (\<lambda>meta.
       Inr \<lparr>lr_incident_id = i, lr_service_name = service, lr_environment = env,
            lr_severity = normalize_severity sev, lr_error_type = ty, lr_file_path = path,
            lr_line_number = line, lr_trigger = trigger, lr_context_logs = logs, lr_sdk_meta = meta\<rparr>)))))))))))"

subsection \<open>The route\<close>

type_synonym 'b bucket_objects = "string \<Rightarrow> 'b option"

datatype s3_failure = ClientError string | BotoCoreError

record ('b, 'w) ingest_env =
  ie_now :: time
  ie_fresh :: uuid
  ie_log_id :: uuid
  ie_start :: rat
  ie_stop :: rat
  ie_gzip :: "string \<Rightarrow> 'b"
  ie_float_repr :: "rat \<Rightarrow> string"
  ie_query_error :: "exn option"
  ie_s3_failure :: "s3_failure option"
  ie_commit_error :: "exn option"
  ie_retrying :: "('w \<Rightarrow> bool res \<times> 'w) \<Rightarrow> 'w \<Rightarrow> bool res \<times> 'w"
  ie_es :: "'w elasticsearch"

definition build_s3_key :: "string \<Rightarrow> uuid \<Rightarrow> string" where
  "build_s3_key tenant_id incident_id =
     ''logs/'' @ tenant_id @ ''/context/'' @ incident_id @ ''.json.gz''"

text \<open>Every decoded value has a JSON text, so the serialisation cannot fail.\<close>

definition compress_context_logs :: "('b, 'w) ingest_env \<Rightarrow> json list \<Rightarrow> 'b" where
  "compress_context_logs env logs = ie_gzip env (dumps (ie_float_repr env) (JArr logs))"

definition upload_to_s3 ::
  "s3_failure option \<Rightarrow> string \<Rightarrow> 'b \<Rightarrow> 'b bucket_objects \<Rightarrow> unit res \<times> 'b bucket_objects" where
  "upload_to_s3 failure key body s3 =
     (case failure of
        Some (ClientError code) \<Rightarrow> (Inl (HTTPException 502 code), s3)
      | Some BotoCoreError \<Rightarrow> (Inl (HTTPException 503 ''Object storage is temporarily unavailable''), s3)
      | None \<Rightarrow> (Inr (), s3(key \<mapsto> body)))"

definition mapped_service :: "uuid \<Rightarrow> string \<Rightarrow> db2 \<Rightarrow> bool" where
  "mapped_service tenant_id service db \<longleftrightarrow>
     (\<exists>m \<in> set (service_repo_mapping_snapshots db). sm_tenant_id m = tenant_id \<and> sm_service_name m = service)"

definition log_row :: "time \<Rightarrow> uuid \<Rightarrow> log_request \<Rightarrow> string \<Rightarrow> ingested_log_metadata" where
  "log_row now tenant_id r s3_key = \<lparr>lm_incident_id = lr_incident_id r, lm_tenant_id = tenant_id,
     lm_service_name = lr_service_name r, lm_environment = lr_environment r, lm_s3_path = s3_key,
     lm_created_at = now\<rparr>"

definition insert_log :: "ingested_log_metadata \<Rightarrow> db2 \<Rightarrow> db2 res" where
  "insert_log m db =
     (if lm_incident_id m \<in> lm_incident_id ` set (ingested_logs db)
      then Inl (IntegrityError ''ingested_log_metadata_pkey'')
      else if \<not> tenant_known (lm_tenant_id m) db
      then Inl (IntegrityError ''ingested_log_metadata_tenant_id_fkey'')
      else Inr (db\<lparr>ingested_logs := ingested_logs db @ [m]\<rparr>))"

definition opt_entry :: "string \<Rightarrow> ('a \<Rightarrow> json) \<Rightarrow> 'a option \<Rightarrow> (string \<times> json) list" where
  "opt_entry k f x = (case x of None \<Rightarrow> [] | Some v \<Rightarrow> [(k, f v)])"

definition log_payload :: "uuid \<Rightarrow> log_request \<Rightarrow> string \<Rightarrow> json" where
  "log_payload tenant_id r s3_key = JObj ([
     (''event_type'', JStr ''log.ingested''), (''incident_id'', JStr (lr_incident_id r)),
     (''tenant_id'', JStr tenant_id), (''service_name'', JStr (lr_service_name r)),
     (''environment'', JStr (lr_environment r)), (''s3_path'', JStr s3_key),
     (''context_log_count'', JInt (int (length (lr_context_logs r))))] @
     opt_entry ''trigger'' id (lr_trigger r) @ opt_entry ''sdk_meta'' id (lr_sdk_meta r) @
     opt_entry ''file_path'' JStr (lr_file_path r) @ opt_entry ''line_number'' JInt (lr_line_number r) @
     [(''error_type'', JStr (lr_error_type r))])"

definition ingest_transaction ::
  "('b, 'w) ingest_env \<Rightarrow> uuid \<Rightarrow> log_request \<Rightarrow> string \<Rightarrow> db2 \<Rightarrow> db2 res" where
  "ingest_transaction env tenant_id r s3_key db =
     bind_res (write_outbox (ie_fresh env) (ie_now env) (''raw.logs.'' @ tenant_id) (lr_incident_id r)
                 (log_payload tenant_id r s3_key)) (\<lambda>ev.
     bind_res (insert_log (log_row (ie_now env) tenant_id r s3_key) db) (\<lambda>db1.
     bind_res (insert_outbox ev db1) (\<lambda>db2.
       case ie_commit_error env of Some e \<Rightarrow> Inl e | None \<Rightarrow> Inr db2)))"

record log_response =
  rp_incident_id :: uuid
  rp_s3_path :: string

record ('b, 'w) ingest_world =
  iw_db :: db2
  iw_s3 :: "'b bucket_objects"
  iw_breaker :: es_breaker
  iw_es :: 'w

definition ingest_logs ::
  "('b, 'w) ingest_env \<Rightarrow> tenant_context \<Rightarrow> log_request \<Rightarrow> ('b, 'w) ingest_world \<Rightarrow>
   log_response res \<times> ('b, 'w) ingest_world" where
  "ingest_logs env tenant r w =
     (let t = tc_tenant_id tenant; s3_key = build_s3_key t (lr_incident_id r) in
      case ie_query_error env of
        Some e \<Rightarrow> (Inl e, w)
      | None \<Rightarrow>
          if \<not> mapped_service t (lr_service_name r) (iw_db w)
          then (Inl (HTTPException 403 ''No code mapping configured''), w)
          else
            (case upload_to_s3 (ie_s3_failure env) s3_key (compress_context_logs env (lr_context_logs r)) (iw_s3 w) of
               (Inl e, s3) \<Rightarrow> (Inl e, w\<lparr>iw_s3 := s3\<rparr>)
             | (Inr _, s3) \<Rightarrow>
                 (case ingest_transaction env t r s3_key (iw_db w) of
                    Inl e \<Rightarrow> (Inl (HTTPException 500 ''Failed to persist ingestion record''), w\<lparr>iw_s3 := s3\<rparr>)
                  | Inr db \<Rightarrow>
                      (case es_call (ie_start env) (ie_stop env)
                              (index_log_event (ie_retrying env) (ie_es env) (ie_log_id env) (ie_now env) r
                                 (lr_incident_id r) t (tc_plan_tier tenant) s3_key) (iw_breaker w) (iw_es w) of
                         (Inl e, b, es) \<Rightarrow> (Inl e, w\<lparr>iw_db := db, iw_s3 := s3, iw_breaker := b, iw_es := es\<rparr>)
                       | (Inr _, b, es) \<Rightarrow>
                           (Inr \<lparr>rp_incident_id = lr_incident_id r, rp_s3_path = s3_key\<rparr>,
                            w\<lparr>iw_db := db, iw_s3 := s3, iw_breaker := b, iw_es := es\<rparr>)))))"

text \<open>The whole request: the tenant of the API key, the rate limit, the body, the route.\<close>

definition ingest_request ::
  "'s redis \<Rightarrow> exn option \<Rightarrow> exn option \<Rightarrow> rat \<Rightarrow> (json \<Rightarrow> int option) \<Rightarrow> ('b, 'w) ingest_env \<Rightarrow> http_request \<Rightarrow>
   json \<Rightarrow> request_state \<Rightarrow> 's \<Rightarrow> buckets \<Rightarrow> ('b, 'w) ingest_world \<Rightarrow>
   log_response res \<times> 's \<times> buckets \<times> ('b, 'w) ingest_world" where
  "ingest_request R db_error redis_error now as_int env rq body st s bs w =
     (case get_tenant_from_api_key R db_error (iw_db w) rq st s of
        (Inl e, s1) \<Rightarrow> (Inl e, s1, bs, w)
      | (Inr (tenant, _), s1) \<Rightarrow>
          (case rate_limit_dependency redis_error now tenant bs of
             (Inl e, bs1) \<Rightarrow> (Inl e, s1, bs1, w)
           | (Inr _, bs1) \<Rightarrow>
               (case log_ingest_request as_int body of
                  Inl e \<Rightarrow> (Inl e, s1, bs1, w)
                | Inr r \<Rightarrow> (case ingest_logs env tenant r w of (x, w1) \<Rightarrow> (x, s1, bs1, w1)))))"

end
