(* ===== verification/Incident_Api.thy ===== *)
theory Incident_Api
  imports Regex Ingest Incident_Service
begin

text \<open>
  The REST API of incidents: \<open>app/api/v1/incidents.py\<close> with the schemas of \<open>app/schemas/incidents.py\<close>.  The
  tenant is the one \<open>get_validated_tenant\<close> gives; each request is one transaction, committed when the route
  has returned.  How pydantic writes a time and reads an integer are parameters.
\<close>

subsection \<open>Values\<close>

definition INCIDENT_STATUS :: "string list" where
  "INCIDENT_STATUS = [''open'', ''investigating'', ''resolved'', ''closed'', ''draft'', ''duplicate'']"

definition SEVERITY :: "string list" where
  "SEVERITY = [''critical'', ''high'', ''medium'', ''low'', ''unknown'']"

datatype sort_by = by_created_at | by_last_seen_at | by_confidence_score | by_occurrence_count

definition validation_error :: exn where
  "validation_error = OtherError ''ValidationError''"

definition one_of_enum :: "string list \<Rightarrow> string \<Rightarrow> string res" where
  "one_of_enum vs s = (if s \<in> set vs then Inr s else Inl validation_error)"

text \<open>\<open>re.search\<close>\<close>

fun re_search :: "re \<Rightarrow> string \<Rightarrow> captures option" where
  "re_search e [] = re_match e []"
| "re_search e (c # s) = (case re_match e (c # s) of Some g \<Rightarrow> Some g | None \<Rightarrow> re_search e s)"

text \<open>\<open>k='\<dots>'\<close>\<close>

definition quoted_re :: "string \<Rightarrow> re" where
  "quoted_re k = Seq (lits (k @ [CHR ''='', CHR 0x27])) (Seq (Grp 1 (Plus (\<lambda>c. c \<noteq> CHR 0x27))) (lits [CHR 0x27]))"

definition line_re :: re where
  "line_re = Seq (lits ''line='') (Grp 1 (Plus is_dec))"

definition parse_string_frame :: "json \<Rightarrow> json" where
  "parse_string_frame v = (case v of
     JStr s \<Rightarrow> JObj [
       (''file'', JStr (case re_search (quoted_re ''file'') s of Some g \<Rightarrow> group 1 g | None \<Rightarrow> ''unknown'')),
       (''line'', JInt (case re_search line_re s of Some g \<Rightarrow> int (digits_val (group 1 g)) | None \<Rightarrow> 0)),
       (''method'', JStr (case re_search (quoted_re ''method'') s of Some g \<Rightarrow> group 1 g | None \<Rightarrow> ''unknown'')),
       (''module'', jopt JStr (map_option (group 1) (re_search (quoted_re ''module'') s)))]
   | _ \<Rightarrow> v)"

text \<open>The schema \<open>StackFrame\<close>, dumped again.\<close>

definition detail_frame :: "(json \<Rightarrow> int option) \<Rightarrow> json \<Rightarrow> json res" where
  "detail_frame as_int v =
     bind_res (body_object ''stack_frames'' v) (\<lambda>d. bind_res (body_str ''file'' d) (\<lambda>f.
     bind_res (body_int as_int ''line'' d) (\<lambda>n. bind_res (body_str ''method'' d) (\<lambda>m.
     bind_res (body_opt_str ''module'' d) (\<lambda>md.
       Inr (JObj [(''file'', JStr f), (''line'', JInt n), (''method'', JStr m), (''module'', jopt JStr md)]))))))"

subsection \<open>One incident\<close>

definition known_by :: "uuid \<Rightarrow> uuid \<Rightarrow> incident \<Rightarrow> bool" where
  "known_by t x i \<longleftrightarrow> i_tenant_id i = t \<and>
     (i_id i = x \<or> i_source_log_id i = Some x \<or>
      (''logs/'' @ t @ ''/context/'' @ x @ ''.json.gz'') \<in> set (i_occurrences i))"

definition scalar_one_or_none :: "'a list \<Rightarrow> 'a option res" where
  "scalar_one_or_none rows = (case rows of
     [] \<Rightarrow> Inr None | [r] \<Rightarrow> Inr (Some r) | _ \<Rightarrow> Inl (OtherError ''MultipleResultsFound''))"

definition fetch_incident :: "uuid \<Rightarrow> uuid \<Rightarrow> db2 \<Rightarrow> incident res" where
  "fetch_incident t x db =
     bind_res (scalar_one_or_none (filter (known_by t x) (incidents db))) (\<lambda>r.
       case r of None \<Rightarrow> Inl (HTTPException 404 ''Incident not found.'') | Some i \<Rightarrow> Inr i)"

text \<open>The fields that a list item and the detail share.\<close>

definition common_fields :: "(time \<Rightarrow> string) \<Rightarrow> incident \<Rightarrow> (string \<times> json) list" where
  "common_fields show i = [
     (''id'', JStr (i_id i)), (''tenant_id'', JStr (i_tenant_id i)), (''fingerprint'', JStr (i_fingerprint i)),
     (''status'', JStr (i_status i)), (''severity'', JStr (i_severity i)),
     (''error_category'', JStr (i_error_category i)), (''error_type'', JStr (i_error_type i)),
     (''error_message'', jopt JStr (i_error_message i)), (''service_name'', JStr (i_service_name i)),
     (''environment'', JStr (i_environment i)), (''crash_file'', jopt JStr (i_crash_file i)),
     (''crash_line'', jopt JInt (i_crash_line i)), (''crash_method'', jopt JStr (i_crash_method i)),
     (''root_cause'', jopt JStr (i_root_cause i)), (''suggested_fix'', jopt JStr (i_suggested_fix i)),
     (''confidence_score'', jopt JFlt (i_confidence_score i)),
     (''occurrence_count'', JInt (i_occurrence_count i)), (''is_draft'', JBool (i_is_draft i)),
     (''assigned_user_ids'', JArr (map JStr (i_assigned_user_ids i))),
     (''first_seen_at'', JStr (show (i_first_seen_at i))), (''last_seen_at'', JStr (show (i_last_seen_at i))),
     (''created_at'', JStr (show (i_created_at i))),
     (''pr_url'', jopt JStr (i_pr_url i)), (''pr_number'', jopt JInt (i_pr_number i)),
     (''pr_status'', jopt JStr (i_pr_status i)), (''pr_title'', jopt JStr (i_pr_title i)),
     (''pr_error'', jopt JStr (i_pr_error i))]"

definition list_item :: "(time \<Rightarrow> string) \<Rightarrow> incident \<Rightarrow> json res" where
  "list_item show i =
     bind_res (one_of_enum INCIDENT_STATUS (i_status i)) (\<lambda>_. bind_res (one_of_enum SEVERITY (i_severity i)) (\<lambda>_.
       Inr (JObj (common_fields show i))))"

definition incident_detail :: "(time \<Rightarrow> string) \<Rightarrow> (json \<Rightarrow> int option) \<Rightarrow> incident \<Rightarrow> json res" where
  "incident_detail show as_int i =
     bind_res (one_of_enum INCIDENT_STATUS (i_status i)) (\<lambda>_. bind_res (one_of_enum SEVERITY (i_severity i)) (\<lambda>_.
     bind_res (each (detail_frame as_int) (map parse_string_frame (i_stack_frames i))) (\<lambda>frames.
       Inr (JObj (common_fields show i @ [
         (''stack_frames'', JArr frames), (''occurrences'', JArr (map JStr (i_occurrences i))),
         (''source_log_id'', jopt JStr (i_source_log_id i)),
         (''resolved_at'', jopt (\<lambda>t. JStr (show t)) (i_resolved_at i)),
         (''updated_at'', JStr (show (i_updated_at i)))])))))"

definition analysis_detail :: "(time \<Rightarrow> string) \<Rightarrow> analysis \<Rightarrow> json res" where
  "analysis_detail show a =
     bind_res (body_object ''node_results'' (an_node_results a)) (\<lambda>nodes.
       Inr (JObj [(''id'', JStr (an_id a)), (''agent_version'', JStr (an_agent_version a)),
         (''total_tokens_used'', jopt JInt (an_total_tokens_used a)),
         (''prompt_tokens'', jopt JInt (an_prompt_tokens a)),
         (''completion_tokens'', jopt JInt (an_completion_tokens a)),
         (''total_latency_ms'', jopt JInt (an_total_latency_ms a)), (''node_results'', nodes),
         (''matched_playbook_id'', jopt JStr (an_matched_playbook_id a)),
         (''created_at'', JStr (show (an_created_at a)))]))"

definition get_incident :: "(time \<Rightarrow> string) \<Rightarrow> (json \<Rightarrow> int option) \<Rightarrow> uuid \<Rightarrow> uuid \<Rightarrow> db2 \<Rightarrow> json res" where
  "get_incident show as_int t x db =
     bind_res (fetch_incident t x db) (\<lambda>i. bind_res (incident_detail show as_int i) (\<lambda>d.
     bind_res (case List.find (\<lambda>a. an_incident_id a = i_id i) (analyses db) of
                 None \<Rightarrow> Inr JNull | Some a \<Rightarrow> analysis_detail show a) (\<lambda>a.
       Inr (JObj [(''success'', JBool True), (''data'', JObj [(''incident'', d), (''analysis'', a)])]))))"

subsection \<open>The list\<close>

record list_params =
  lp_status :: "string option"
  lp_severity :: "string option"
  lp_error_category :: "string option"
  lp_service_name :: "string option"
  lp_environment :: "string option"
  lp_assigned_user_id :: "uuid option"
  lp_search :: "string option"
  lp_is_draft :: bool
  lp_page :: nat
  lp_page_size :: nat
  lp_sort_by :: sort_by
  lp_descending :: bool

definition csv :: "string \<Rightarrow> string list" where
  "csv s = map strip (split_on (CHR '','') s)"

definition checked_csv :: "string list \<Rightarrow> string \<Rightarrow> string list res" where
  "checked_csv valid s =
     (let bad = filter (\<lambda>x. x \<notin> set valid) (csv s)
      in if bad \<noteq> [] then Inl (HTTPException 400 (join '', '' bad)) else Inr (csv s))"

text \<open>\<open>ILIKE\<close>: a backslash takes the next character as it is.\<close>

fun sql_like :: "string \<Rightarrow> string \<Rightarrow> bool" where
  "sql_like [] s = (s = [])"
| "sql_like (p # ps) [] = (p = CHR ''%'' \<and> sql_like ps [])"
| "sql_like (p # ps) (c # cs) =
     (if p = CHR ''%'' then sql_like ps (c # cs) \<or> sql_like (p # ps) cs
      else if p = CHR 0x5C then (case ps of [] \<Rightarrow> False | q # qs \<Rightarrow> c = q \<and> sql_like qs cs)
      else (p = CHR ''_'' \<or> p = c) \<and> sql_like ps cs)"

definition ilike :: "string \<Rightarrow> string option \<Rightarrow> bool" where
  "ilike p x = (case x of None \<Rightarrow> False | Some s \<Rightarrow> sql_like (lower p) (lower s))"

definition other_filters :: "list_params \<Rightarrow> incident \<Rightarrow> bool" where
  "other_filters p i \<longleftrightarrow>
     (case nonempty (lp_error_category p) of Some s \<Rightarrow> i_error_category i \<in> set (csv s) | None \<Rightarrow> True) \<and>
     (case nonempty (lp_service_name p) of Some s \<Rightarrow> i_service_name i = s | None \<Rightarrow> True) \<and>
     (case nonempty (lp_environment p) of Some s \<Rightarrow> i_environment i = s | None \<Rightarrow> True) \<and>
     (case lp_assigned_user_id p of Some u \<Rightarrow> u \<in> set (i_assigned_user_ids i) | None \<Rightarrow> True) \<and>
     (case nonempty (lp_search p) of
        Some s \<Rightarrow> ilike (''%'' @ s @ ''%'') (Some (i_error_type i)) \<or> ilike (''%'' @ s @ ''%'') (i_crash_file i)
      | None \<Rightarrow> True)"

definition base_filter :: "uuid \<Rightarrow> list_params \<Rightarrow> (incident \<Rightarrow> bool) res" where
  "base_filter t p =
     bind_res (case nonempty (lp_status p) of
                 Some s \<Rightarrow> bind_res (checked_csv INCIDENT_STATUS s) (\<lambda>vs. Inr (\<lambda>i. i_status i \<in> set vs))
               | None \<Rightarrow> Inr (\<lambda>i. lp_is_draft p \<or> i_status i \<noteq> ''draft'')) (\<lambda>by_status.
     bind_res (case nonempty (lp_severity p) of
                 Some s \<Rightarrow> bind_res (checked_csv SEVERITY s) (\<lambda>vs. Inr (\<lambda>i. i_severity i \<in> set vs))
               | None \<Rightarrow> Inr (\<lambda>_. True)) (\<lambda>by_severity.
       Inr (\<lambda>i. i_tenant_id i = t \<and> by_status i \<and> by_severity i \<and> other_filters p i)))"

text \<open>\<open>ORDER BY\<close> one column: null is the greatest value; the order of equal values is the server's.\<close>

definition sort_column :: "sort_by \<Rightarrow> incident \<Rightarrow> rat option" where
  "sort_column by i = (case by of
     by_created_at \<Rightarrow> Some (of_int (i_created_at i))
   | by_last_seen_at \<Rightarrow> Some (of_int (i_last_seen_at i))
   | by_confidence_score \<Rightarrow> i_confidence_score i
   | by_occurrence_count \<Rightarrow> Some (of_int (i_occurrence_count i)))"

definition sql_le :: "rat option \<Rightarrow> rat option \<Rightarrow> bool" where
  "sql_le x y = (case y of None \<Rightarrow> True | Some b \<Rightarrow> (case x of None \<Rightarrow> False | Some a \<Rightarrow> a \<le> b))"

definition comes_before :: "list_params \<Rightarrow> incident \<Rightarrow> incident \<Rightarrow> bool" where
  "comes_before p i j =
     (if lp_descending p then sql_le (sort_column (lp_sort_by p) j) (sort_column (lp_sort_by p) i)
      else sql_le (sort_column (lp_sort_by p) i) (sort_column (lp_sort_by p) j))"

record pagination_meta =
  pm_page :: nat
  pm_page_size :: nat
  pm_total :: nat
  pm_total_pages :: nat
  pm_has_next :: bool
  pm_has_previous :: bool

definition page_count :: "nat \<Rightarrow> nat \<Rightarrow> nat" where
  "page_count n sz = max 1 ((n + sz - 1) div sz)"

definition list_incidents ::
  "(time \<Rightarrow> string) \<Rightarrow> (list_params \<Rightarrow> incident list \<Rightarrow> incident list) \<Rightarrow> uuid \<Rightarrow> list_params \<Rightarrow> db2 \<Rightarrow>
   (json list \<times> pagination_meta) res" where
  "list_incidents show arrange t p db =
     (if lp_page p < 1 \<or> lp_page_size p < 1 \<or> 100 < lp_page_size p then Inl (invalid ''page'')
      else bind_res (base_filter t p) (\<lambda>keep.
        let rows = filter keep (incidents db); n = length rows; sz = lp_page_size p;
            pages = page_count n sz
        in bind_res (each (list_item show) (take sz (drop ((lp_page p - 1) * sz) (arrange p rows)))) (\<lambda>items.
             Inr (items, \<lparr>pm_page = lp_page p, pm_page_size = sz, pm_total = n, pm_total_pages = pages,
                          pm_has_next = lp_page p < pages, pm_has_previous = 1 < lp_page p\<rparr>))))"

subsection \<open>The update\<close>

record update_request =
  ur_status :: "string option"
  ur_assigned_user_ids :: "uuid list option"
  ur_actor_id :: "uuid option"
  ur_note :: "string option"

definition body_uuid :: "string \<Rightarrow> json \<Rightarrow> uuid res" where
  "body_uuid k v = (case v of JStr s \<Rightarrow> (case uuid_parse s of None \<Rightarrow> Inl (invalid k) | Some u \<Rightarrow> Inr u)
                    | _ \<Rightarrow> Inl (invalid k))"

definition incident_update_request :: "json \<Rightarrow> update_request res" where
  "incident_update_request d =
     bind_res (case jget ''status'' d of
                 JNull \<Rightarrow> Inr None
               | JStr s \<Rightarrow> if s \<in> set INCIDENT_STATUS \<and> s \<noteq> ''draft'' then Inr (Some s) else Inl (invalid ''status'')
               | _ \<Rightarrow> Inl (invalid ''status'')) (\<lambda>st.
     bind_res (if jget ''assigned_user_ids'' d = JNull then Inr None
               else bind_res (bind_res (body_list ''assigned_user_ids'' (jget ''assigned_user_ids'' d))
                                (each (body_uuid ''assigned_user_ids''))) (\<lambda>us. Inr (Some us))) (\<lambda>us.
     bind_res (if jget ''actor_id'' d = JNull then Inr None
               else bind_res (body_uuid ''actor_id'' (jget ''actor_id'' d)) (\<lambda>u. Inr (Some u))) (\<lambda>actor.
     bind_res (body_opt_str ''note'' d) (\<lambda>note.
     bind_res (case note of Some n \<Rightarrow> if length n \<le> 280 then Inr () else Inl (invalid ''note'') | None \<Rightarrow> Inr ()) (\<lambda>_.
       Inr \<lparr>ur_status = st, ur_assigned_user_ids = us, ur_actor_id = actor, ur_note = note\<rparr>)))))"

definition allowed_transitions :: "string \<Rightarrow> string list option" where
  "allowed_transitions = map_of [
     (''open'', [''investigating'']), (''investigating'', [''resolved'']), (''resolved'', [''closed'']),
     (''closed'', [''open'', ''investigating'', ''resolved''])]"

definition check_transition :: "string \<Rightarrow> string option \<Rightarrow> unit res" where
  "check_transition current new = (case new of
     None \<Rightarrow> Inr ()
   | Some s \<Rightarrow>
       if current = ''draft'' \<and> s \<in> set [''investigating'', ''resolved'']
       then Inl (HTTPException 400 ''Cannot transition a draft incident'')
       else (case allowed_transitions current of
               Some ss \<Rightarrow> if s \<in> set ss then Inr () else Inl (HTTPException 400 ''Invalid status transition'')
             | None \<Rightarrow> Inr ()))"

text \<open>The raw body is searched for an explicit null, as two spellings of it.\<close>

definition unassigns_all :: "string \<Rightarrow> bool" where
  "unassigns_all raw_body \<longleftrightarrow>
     contains (CHR 0x22 # ''assigned_user_ids'' @ CHR 0x22 # '': null'') raw_body \<or>
     contains (CHR 0x22 # ''assigned_user_ids'' @ CHR 0x22 # '':null'') raw_body"

definition assigned_after :: "string \<Rightarrow> update_request \<Rightarrow> incident \<Rightarrow> uuid list" where
  "assigned_after raw_body r i =
     (let us = get_or (ur_assigned_user_ids r) (i_assigned_user_ids i);
          us' = (case ur_actor_id r of
                   Some a \<Rightarrow> if ur_status r = Some ''investigating'' \<and> i_status i = ''open'' \<and> a \<notin> set us
                             then us @ [a] else us
                 | None \<Rightarrow> us)
      in if unassigns_all raw_body then [] else us')"

definition check_unassignment :: "update_request \<Rightarrow> incident \<Rightarrow> uuid list \<Rightarrow> unit res" where
  "check_unassignment r i new_assigned =
     (case ur_actor_id r of
        None \<Rightarrow> Inr ()
      | Some a \<Rightarrow>
          if a \<in> set (i_assigned_user_ids i) \<and> a \<notin> set new_assigned \<and> new_assigned = []
          then Inl (HTTPException 400 ''You cannot unassign yourself'')
          else if \<exists>u \<in> set (i_assigned_user_ids i). u \<noteq> a \<and> u \<notin> set new_assigned
          then Inl (HTTPException 403 ''You do not have permission to unassign other responders.'')
          else Inr ())"

definition updated :: "time \<Rightarrow> update_request \<Rightarrow> uuid list \<Rightarrow> incident \<Rightarrow> incident" where
  "updated now r new_assigned i =
     i\<lparr>i_updated_at := now, i_assigned_user_ids := new_assigned,
       i_status := get_or (ur_status r) (i_status i),
       i_resolved_at := (if ur_status r = Some ''resolved'' then Some now else i_resolved_at i)\<rparr>"

text \<open>\<open>UPDATE incidents \<dots> WHERE id\<close>, refused when the new row would be a second active one.\<close>

definition update_row :: "incident \<Rightarrow> db2 \<Rightarrow> db2 res" where
  "update_row i db =
     (if uq_active db \<and> i_status i \<noteq> ''resolved'' \<and>
         (\<exists>j \<in> set (active_incidents (i_tenant_id i) (i_fingerprint i) db). i_id j \<noteq> i_id i)
      then Inl (IntegrityError ''uq_incidents_tenant_fingerprint_active'')
      else Inr (db\<lparr>incidents := map (\<lambda>j. if i_id j = i_id i then i else j) (incidents db)\<rparr>))"

record 'w patch_env =
  pt_now :: time
  pt_stamp :: string  \<comment> \<open>the seconds of \<open>now\<close>, rounded\<close>
  pt_event_id :: uuid
  pt_es :: "'w elasticsearch"
  pt_commit_error :: "exn option"

definition newly_assigned :: "incident \<Rightarrow> uuid list \<Rightarrow> uuid list" where
  "newly_assigned i new_assigned = filter (\<lambda>u. u \<notin> set (i_assigned_user_ids i)) new_assigned"

definition updated_payload :: "'w patch_env \<Rightarrow> uuid \<Rightarrow> update_request \<Rightarrow> incident \<Rightarrow> uuid list \<Rightarrow> json" where
  "updated_payload env t r i new_assigned = JObj [
     (''event_id'', JStr (pt_event_id env)), (''event_type'', JStr ''incident.updated''), (''version'', JInt 1),
     (''idempotency_key'', JStr (''tenant:'' @ t @ '':incident:'' @ i_id i @ '':v'' @ pt_stamp env)),
     (''source_version'', JInt 2), (''occurred_at'', JStr (isoformat (pt_now env))),
     (''payload'', JObj [
        (''incident_id'', JStr (i_id i)), (''tenant_id'', JStr t),
        (''status'', JStr (get_or (ur_status r) (i_status i))), (''from_status'', JStr (i_status i)),
        (''assigned_user_ids'', JArr (map JStr new_assigned)),
        (''newly_assigned_user_ids'', JArr (map JStr (newly_assigned i new_assigned))),
        (''actor_id'', jopt JStr (ur_actor_id r)), (''note'', jopt JStr (ur_note r)),
        (''updated_at'', JStr (isoformat (pt_now env)))])]"

text \<open>Elasticsearch is updated, if it can be, before the transaction is committed.\<close>

definition update_incident ::
  "'w patch_env \<Rightarrow> tenant_context \<Rightarrow> uuid \<Rightarrow> string \<Rightarrow> update_request \<Rightarrow> db2 \<Rightarrow> 'w \<Rightarrow> json res \<times> db2 \<times> 'w" where
  "update_incident env tenant x raw_body r db w =
     (let t = tc_tenant_id tenant in
      case bind_res (fetch_incident t x db) (\<lambda>i. bind_res (check_transition (i_status i) (ur_status r)) (\<lambda>_.
             let new_assigned = assigned_after raw_body r i in
             bind_res (check_unassignment r i new_assigned) (\<lambda>_.
             bind_res (update_row (updated (pt_now env) r new_assigned i) db) (\<lambda>db1.
             bind_res (write_outbox (pt_event_id env) (pt_now env) ''incidents.updated'' t
                         (updated_payload env t r i new_assigned)) (\<lambda>ev. Inr (i, new_assigned, ev, db1)))))) of
        Inl e \<Rightarrow> (Inl e, db, w)
      | Inr (i, new_assigned, ev, db1) \<Rightarrow>
          (let w' = (case ur_status r of
                       None \<Rightarrow> w
                     | Some s \<Rightarrow> snd (update_incident_status (pt_es env) (i_id i) t (tc_plan_tier tenant) s w))
           in case bind_res (insert_outbox ev db1) (\<lambda>db2.
                     case pt_commit_error env of Some e \<Rightarrow> Inl e | None \<Rightarrow> Inr db2) of
                Inl e \<Rightarrow> (Inl e, db, w')
              | Inr db2 \<Rightarrow>
                  (Inr (JObj [(''id'', JStr (i_id i)), (''status'', JStr (get_or (ur_status r) (i_status i))),
                     (''assigned_user_ids'', JArr (map JStr new_assigned)),
                     (''updated_at'', JStr (isoformat (pt_now env)))]), db2, w')))"

subsection \<open>The context logs\<close>

text \<open>\<open>str.replace\<close> of a text that is not empty\<close>

function replace_all :: "string \<Rightarrow> string \<Rightarrow> string \<Rightarrow> string" where
  "replace_all p r s =
     (if p = [] \<or> s = [] then s
      else if prefix p s then r @ replace_all p r (drop (length p) s)
      else hd s # replace_all p r (tl s))"
  by pat_completeness auto
termination
  by (relation "measure (\<lambda>(p, r, s). length s)") (auto simp: prefix_def)

declare replace_all.simps [simp del]

definition get_context_logs ::
  "(string \<Rightarrow> s3_failure + string) \<Rightarrow> int \<Rightarrow> time \<Rightarrow> uuid \<Rightarrow> uuid \<Rightarrow> db2 \<Rightarrow> json res" where
  "get_context_logs presign expiry_seconds now t x db =
     bind_res (scalar_one_or_none (filter (known_by t x) (incidents db))) (\<lambda>row.
       case row of
         None \<Rightarrow> Inl (HTTPException 404 ''Incident not found.'')
       | Some i \<Rightarrow>
           (case i_occurrences i of
              [] \<Rightarrow> Inl (HTTPException 404 ''No context logs found for this incident.'')
            | s3_path # _ \<Rightarrow>
                (case presign s3_path of
                   Inl _ \<Rightarrow> Inl (HTTPException 502 ''Failed to generate context log download URL.'')
                 | Inr url \<Rightarrow>
                     Inr (JObj [(''incident_id'', JStr x), (''s3_path'', JStr s3_path),
                       (''download_url'', JStr (replace_all ''http://minio:9000'' ''http://localhost:9000'' url)),
                       (''expires_at'', JStr (isoformat (now + 1000000 * expiry_seconds)))]))))"

end
