(* ===== verification/Github_Pr.thy ===== *)
theory Github_Pr
  imports Incident_Api
begin

text \<open>
  \<open>app/worker/tasks/github_pr.py\<close>: a patch of the workflow becomes a pull request.  GitHub is a record of the calls
  the task makes, each with its reply (a status and a body, or the exception of a lost connection); the locale
  says what is documented of their effect on branches and commits.  Python's compiler is a parameter.
\<close>

subsection \<open>GitHub\<close>

type_synonym files = "string \<Rightarrow> string option"

record 'g git_api =
  git_contents :: "string \<Rightarrow> string \<Rightarrow> 'g \<Rightarrow> (int \<times> string) res \<times> 'g"
  git_ref :: "string \<Rightarrow> string \<Rightarrow> 'g \<Rightarrow> (int \<times> json) res \<times> 'g"
  git_create_ref :: "string \<Rightarrow> string \<Rightarrow> json \<Rightarrow> 'g \<Rightarrow> (int \<times> json) res \<times> 'g"
  git_create_tree :: "string \<Rightarrow> json \<Rightarrow> (string \<times> string) list \<Rightarrow> 'g \<Rightarrow> (int \<times> json) res \<times> 'g"
  git_create_commit :: "string \<Rightarrow> string \<Rightarrow> json \<Rightarrow> json \<Rightarrow> 'g \<Rightarrow> (int \<times> json) res \<times> 'g"
  git_update_ref :: "string \<Rightarrow> string \<Rightarrow> json \<Rightarrow> 'g \<Rightarrow> (int \<times> json) res \<times> 'g"
  git_create_pull :: "string \<Rightarrow> json \<Rightarrow> 'g \<Rightarrow> (int \<times> json) res \<times> 'g"

text \<open>
  Paths and branches stand in the addresses as they are, without being escaped.  Only such as these name
  there what they name in the repository: others may be cut at a question mark or a hash sign, decoded
  at a percent sign, or rewritten at a dot segment.
\<close>

definition url_char :: "char \<Rightarrow> bool" where
  "url_char c = (is_alnum c \<or> c \<in> set ''._-'')"

definition url_plain :: "string \<Rightarrow> bool" where
  "url_plain s = list_all (\<lambda>seg. seg \<noteq> [] \<and> seg \<noteq> ''.'' \<and> seg \<noteq> ''..'' \<and> list_all url_char seg)
     (split_on (CHR ''/'') s)"

definition is_dir :: "files \<Rightarrow> string \<Rightarrow> bool" where
  "is_dir fs path \<longleftrightarrow> (\<exists>name. fs (path @ CHR ''/'' # name) \<noteq> None)"

text \<open>
  \<open>heads\<close> are the branches of a repository; \<open>trees\<close> and \<open>commits\<close> the objects it has, by their SHA; trees hold
  ordinary files, by their paths.  A call whose reply is lost may have taken effect; nobody else pushes in
  between.  \<open>git_contents\<close> is given the text after \<open>/contents/\<close>.  It answers 200 for a file, with its text, and
  for a directory, with a listing.  A tree written over another one is promised only for entries that replace
  files: one at the path of a directory takes away what is below it.
\<close>

locale git_server =
  fixes G :: "'g git_api"
    and heads :: "'g \<Rightarrow> string \<Rightarrow> string \<Rightarrow> json option"
    and trees :: "'g \<Rightarrow> string \<Rightarrow> json \<Rightarrow> files option"
    and commits :: "'g \<Rightarrow> string \<Rightarrow> json \<Rightarrow> (files \<times> json) option"
  assumes contents_reads: "git_contents G repo target g = (text_reply, g') \<Longrightarrow> heads g' = heads g \<and> trees g' = trees g \<and> commits g' = commits g"
    and contents_text: "url_plain path \<Longrightarrow> url_plain branch \<Longrightarrow>
          git_contents G repo (path @ ''?ref='' @ branch) g = (Inr (200, t), g') \<Longrightarrow>
          \<exists>c fs p. heads g repo branch = Some c \<and> commits g repo c = Some (fs, p) \<and>
                   (fs path = Some t \<or> is_dir fs path)"
    and ref_reads: "git_ref G repo branch g = (r, g') \<Longrightarrow> heads g' = heads g \<and> trees g' = trees g \<and> commits g' = commits g"
    and ref_sha: "url_plain branch \<Longrightarrow> git_ref G repo branch g = (Inr (200, d), g') \<Longrightarrow>
          \<exists>c. heads g repo branch = Some c \<and> jget ''sha'' (jget ''object'' d) = c"
    and create_ref_adds: "git_create_ref G repo b c g = (r, g') \<Longrightarrow> trees g' = trees g \<and> commits g' = commits g \<and>
          (heads g' = heads g \<or> heads g repo b = None \<and> heads g' = (heads g)(repo := (heads g repo)(b \<mapsto> c)))"
    and create_tree_objects: "git_create_tree G repo base es g = (r, g') \<Longrightarrow>
          heads g' = heads g \<and> (\<forall>q c x. commits g q c = Some x \<longrightarrow> commits g' q c = Some x)"
    and create_tree_files: "git_create_tree G repo base es g = (Inr (code, d), g') \<Longrightarrow> code \<in> {200, 201} \<Longrightarrow>
          \<exists>fs p. commits g repo base = Some (fs, p) \<and>
                 ((\<forall>e \<in> set es. fs (fst e) \<noteq> None) \<longrightarrow>
                    trees g' repo (jget ''sha'' d) = Some (fs ++ map_of (rev es)))"
    and create_commit_objects: "git_create_commit G repo msg tree parent g = (r, g') \<Longrightarrow>
          heads g' = heads g \<and> (\<forall>q c x. commits g q c = Some x \<longrightarrow> commits g' q c = Some x)"
    and create_commit_files: "git_create_commit G repo msg tree parent g = (Inr (code, d), g') \<Longrightarrow> code \<in> {200, 201} \<Longrightarrow>
          \<exists>fs. trees g repo tree = Some fs \<and> commits g' repo (jget ''sha'' d) = Some (fs, parent)"
    and update_ref_moves: "git_update_ref G repo b c g = (r, g') \<Longrightarrow>
          (\<forall>q x y. commits g q x = Some y \<longrightarrow> commits g' q x = Some y) \<and>
          (heads g' = heads g \<or> heads g' = (heads g)(repo := (heads g repo)(b \<mapsto> c)))"
    and update_ref_done: "git_update_ref G repo b c g = (Inr (code, d), g') \<Longrightarrow> code \<in> {200, 201} \<Longrightarrow>
          heads g' = (heads g)(repo := (heads g repo)(b \<mapsto> c))"
    and create_pull_keeps: "git_create_pull G repo d g = (r, g') \<Longrightarrow>
          heads g' = heads g \<and> (\<forall>q x y. commits g q x = Some y \<longrightarrow> commits g' q x = Some y)"

subsection \<open>Saving the outcome\<close>

record pr_fields =
  pf_url :: json
  pf_number :: json
  pf_status :: string
  pf_title :: "string option"
  pf_error :: "string option"

definition with_pr_fields :: "pr_fields \<Rightarrow> incident \<Rightarrow> incident res" where
  "with_pr_fields f i =
     bind_res (text_col ''pr_url'' None (pf_url f)) (\<lambda>url. bind_res (bigint_col ''pr_number'' (pf_number f)) (\<lambda>n.
     bind_res (case n of Some k \<Rightarrow> if - (2 ^ 31) \<le> k \<and> k < 2 ^ 31 then Inr () else Inl (DataError ''pr_number'')
               | None \<Rightarrow> Inr ()) (\<lambda>_.
       Inr (i\<lparr>i_pr_url := url, i_pr_number := n, i_pr_status := Some (pf_status f), i_pr_title := pf_title f,
              i_pr_error := pf_error f\<rparr>))))"

text \<open>Every failure to save is swallowed.\<close>

definition save_pr_fields :: "exn option \<Rightarrow> string \<Rightarrow> pr_fields \<Rightarrow> db2 \<Rightarrow> db2" where
  "save_pr_fields db_error incident_id f db =
     (case uuid_parse incident_id of
        None \<Rightarrow> db
      | Some u \<Rightarrow>
          (case (db_error, map_res (\<lambda>i. if i_id i = u then with_pr_fields f i else Inr i) (incidents db)) of
             (None, Inr rows) \<Rightarrow> db\<lparr>incidents := rows\<rparr>
           | _ \<Rightarrow> db))"

subsection \<open>Steps\<close>

text \<open>A step goes on with a value, saves an outcome and returns, or raises.\<close>

datatype 'a step = Go 'a | Stop pr_fields | Raise exn

definition after :: "'a step \<times> 'g \<Rightarrow> ('a \<Rightarrow> 'g \<Rightarrow> 'b step \<times> 'g) \<Rightarrow> 'b step \<times> 'g" where
  "after m f = (case m of (Go x, g) \<Rightarrow> f x g | (Stop p, g) \<Rightarrow> (Stop p, g) | (Raise e, g) \<Rightarrow> (Raise e, g))"

definition outcome :: "string \<Rightarrow> pr_fields" where
  "outcome s = \<lparr>pf_url = JNull, pf_number = JNull, pf_status = s, pf_title = None, pf_error = None\<rparr>"

definition failure :: "string \<Rightarrow> string \<Rightarrow> pr_fields" where
  "failure s why = (outcome s)\<lparr>pf_error := Some why\<rparr>"

definition of_res :: "'a res \<Rightarrow> 'a step" where
  "of_res r = (case r of Inl e \<Rightarrow> Raise e | Inr x \<Rightarrow> Go x)"

record 'g pr_env =
  ge_api :: "string \<Rightarrow> 'g git_api"
  ge_token :: "int \<Rightarrow> string res"
  ge_syntax :: "string \<Rightarrow> string option"
  ge_show :: "exn \<Rightarrow> string"
  ge_db_error :: "exn option"
  ge_save_error :: "exn option"

record pr_args =
  pr_tenant_id :: string
  pr_incident_id :: string
  pr_structured_patch :: string
  pr_error_type :: string
  pr_root_cause :: string
  pr_suggested_fix :: string
  pr_is_draft :: bool

subsection \<open>The repository\<close>

definition resolve_repo :: "'g pr_env \<Rightarrow> uuid \<Rightarrow> uuid \<Rightarrow> db2 \<Rightarrow> (string \<times> string \<times> int) step" where
  "resolve_repo env tenant inc db =
     (case ge_db_error env of
        Some e \<Rightarrow> Raise e
      | None \<Rightarrow>
          (case List.find (\<lambda>i. i_id i = inc) (incidents db) of
             None \<Rightarrow> Stop (outcome ''failed'')
           | Some i \<Rightarrow>
               (case scalar_one_or_none (filter (\<lambda>m. sm_tenant_id m = tenant \<and> sm_service_name m = i_service_name i)
                       (service_repo_mapping_snapshots db)) of
                  Inl e \<Rightarrow> Raise e
                | Inr None \<Rightarrow> Stop (outcome ''skipped'')
                | Inr (Some m) \<Rightarrow>
                    (case scalar_one_or_none (filter (\<lambda>r. gi_tenant_id r = tenant \<and> gi_repo_url r = sm_repo_url m)
                            (github_integration_snapshots db)) of
                       Inl e \<Rightarrow> Raise e
                     | Inr None \<Rightarrow> Stop (outcome ''skipped'')
                     | Inr (Some r) \<Rightarrow>
                         (case gi_installation_id r of
                            None \<Rightarrow> Stop (outcome ''skipped'')
                          | Some n \<Rightarrow>
                              if gi_repo_owner r = [] \<or> gi_repo_name r = [] then Stop (outcome ''skipped'')
                              else Go (gi_repo_owner r @ ''/'' @ gi_repo_name r,
                                       if gi_default_branch r = [] then ''main'' else gi_default_branch r, n))))))"

subsection \<open>The patches\<close>

definition fetch_file_from_github :: "'g git_api \<Rightarrow> string \<Rightarrow> string \<Rightarrow> string \<Rightarrow> 'g \<Rightarrow> string option \<times> 'g" where
  "fetch_file_from_github G repo path branch g =
     (case git_contents G repo (path @ ''?ref='' @ branch) g of
        (Inr (code, text), g') \<Rightarrow> (if code = 200 then Some text else None, g')
      | (Inl _, g') \<Rightarrow> (None, g'))"

definition elements :: "json \<Rightarrow> json list step" where
  "elements v = (case v of
     JArr xs \<Rightarrow> Go xs
   | JStr s \<Rightarrow> Go (map (\<lambda>c. JStr [c]) s)
   | JObj kvs \<Rightarrow> Go (map (JStr \<circ> fst) kvs)
   | _ \<Rightarrow> Raise (TypeError ''not iterable''))"

definition parse_patches :: "string \<Rightarrow> json list step" where
  "parse_patches text = (case loads text of
     None \<Rightarrow> Stop (outcome ''failed'')
   | Some (JObj kvs) \<Rightarrow>
       if truthy (jget ''patches'' (JObj kvs)) then elements (jget ''patches'' (JObj kvs))
       else Stop (failure ''no_patch'' ''Patch JSON contained no patches'')
   | Some _ \<Rightarrow> Raise (AttributeError ''get''))"

fun set_file :: "string \<Rightarrow> string \<Rightarrow> (string \<times> string) list \<Rightarrow> (string \<times> string) list" where
  "set_file k v [] = [(k, v)]"
| "set_file k v ((k', v') # kvs) = (if k' = k then (k, v) # kvs else (k', v') # set_file k v kvs)"

text \<open>One patch against the file as it is on GitHub; \<open>None\<close> when it is passed over.\<close>

definition patched :: "(string \<Rightarrow> string option) \<Rightarrow> json \<Rightarrow> json \<Rightarrow> json \<Rightarrow> string \<Rightarrow> (string \<times> string) option step" where
  "patched check f search_str replace_str old =
     (case (search_str, replace_str) of
        (JStr s, JStr r) \<Rightarrow>
          (let new = replace_first s r old in
           if new = old then Go None
           else (case f of
                   JStr path \<Rightarrow>
                     (case (if suffix ''.py'' path then check new else None) of
                        Some e \<Rightarrow> if e = [] then Go (Some (path, new))
                                  else Stop (failure ''syntax_error'' (''Syntax error in '' @ path @ '': '' @ e))
                      | None \<Rightarrow> Go (Some (path, new)))
                 | _ \<Rightarrow> Raise (AttributeError ''endswith'')))
      | _ \<Rightarrow> Raise (TypeError ''replace''))"

definition apply_patch ::
  "(string \<Rightarrow> string option) \<Rightarrow> 'g git_api \<Rightarrow> string \<Rightarrow> string \<Rightarrow> json \<Rightarrow> (string \<times> string) list \<Rightarrow> 'g \<Rightarrow>
   (string \<times> string) list step \<times> 'g" where
  "apply_patch check G repo branch p changed g =
     (case p of
        JObj _ \<Rightarrow>
          (let f = get_default ''file'' p (JStr []); s = get_default ''search'' p (JStr []);
               r = get_default ''replace'' p (JStr []) in
           if \<not> truthy f \<or> \<not> truthy s then (Go changed, g)
           else (case fetch_file_from_github G repo (py_str f) branch g of
                   (None, g') \<Rightarrow> (Go changed, g')
                 | (Some old, g') \<Rightarrow>
                     (case patched check f s r old of
                        Go None \<Rightarrow> (Go changed, g')
                      | Go (Some (path, new)) \<Rightarrow> (Go (set_file path new changed), g')
                      | Stop x \<Rightarrow> (Stop x, g')
                      | Raise e \<Rightarrow> (Raise e, g'))))
      | _ \<Rightarrow> (Raise (AttributeError ''get''), g))"

fun apply_patches ::
  "(string \<Rightarrow> string option) \<Rightarrow> 'g git_api \<Rightarrow> string \<Rightarrow> string \<Rightarrow> json list \<Rightarrow> (string \<times> string) list \<Rightarrow> 'g \<Rightarrow>
   (string \<times> string) list step \<times> 'g" where
  "apply_patches check G repo branch [] changed g = (Go changed, g)"
| "apply_patches check G repo branch (p # ps) changed g =
     after (apply_patch check G repo branch p changed g) (\<lambda>changed' g'. apply_patches check G repo branch ps changed' g')"

subsection \<open>Branch, commit and pull request\<close>

definition answered :: "int set \<Rightarrow> (int \<times> json) res \<times> 'g \<Rightarrow> json step \<times> 'g" where
  "answered ok x = (case x of
     (Inl e, g) \<Rightarrow> (Raise e, g)
   | (Inr (code, d), g) \<Rightarrow> (if code \<in> ok then Go d else Stop (outcome ''failed''), g))"

definition branch_name :: "string \<Rightarrow> string" where
  "branch_name incident_id = ''neuralops-fix/'' @ take 8 incident_id"

definition pr_title :: "pr_args \<Rightarrow> string" where
  "pr_title a = ''fix('' @ pr_error_type a @ ''): NeuralOps AI fix for incident '' @ take 8 (pr_incident_id a)"

text \<open>The fixed wording around the fields of the body, and after the title in the message of the commit, is left out.\<close>

definition pr_body :: "pr_args \<Rightarrow> (string \<times> string) list \<Rightarrow> string" where
  "pr_body a changed = join [CHR 0x0A] [pr_incident_id a,
     if pr_root_cause a = [] then ''_Not available_'' else pr_root_cause a,
     if pr_suggested_fix a = [] then ''_Not available_'' else pr_suggested_fix a,
     join [CHR 0x0A] (map (\<lambda>(f, _). ''- `'' @ f @ ''`'') changed)]"

definition pull_payload :: "pr_args \<Rightarrow> string \<Rightarrow> (string \<times> string) list \<Rightarrow> json" where
  "pull_payload a branch changed = JObj [
     (''title'', JStr (pr_title a)), (''body'', JStr (pr_body a changed)), (''base'', JStr branch),
     (''head'', JStr (branch_name (pr_incident_id a))), (''draft'', JBool (pr_is_draft a))]"

definition open_pull ::
  "'g git_api \<Rightarrow> pr_args \<Rightarrow> string \<Rightarrow> string \<Rightarrow> (string \<times> string) list \<Rightarrow> 'g \<Rightarrow> pr_fields step \<times> 'g" where
  "open_pull G a repo branch changed g =
     after (answered {200, 201} (git_create_pull G repo (pull_payload a branch changed) g)) (\<lambda>d g1.
       (case d of
          JObj _ \<Rightarrow> Go \<lparr>pf_url = get_default ''html_url'' d (JStr []), pf_number = get_default ''number'' d (JInt 0),
            pf_status = (if pr_is_draft a then ''draft'' else ''open''), pf_title = Some (pr_title a), pf_error = None\<rparr>
        | _ \<Rightarrow> Raise (AttributeError ''get''), g1))"

definition push_and_open ::
  "'g git_api \<Rightarrow> pr_args \<Rightarrow> string \<Rightarrow> string \<Rightarrow> (string \<times> string) list \<Rightarrow> 'g \<Rightarrow> pr_fields step \<times> 'g" where
  "push_and_open G a repo branch changed g =
     (let fix_branch = branch_name (pr_incident_id a) in
      after (answered {200} (git_ref G repo branch g)) (\<lambda>d g1.
      after (of_res (bind_res (subscript d ''object'') (\<lambda>ob. subscript ob ''sha'')), g1) (\<lambda>base g2.
      after (answered {200, 201, 422} (git_create_ref G repo fix_branch base g2)) (\<lambda>_ g3.
      after (answered {200, 201} (git_create_tree G repo base changed g3)) (\<lambda>d4 g4.
      after (of_res (subscript d4 ''sha''), g4) (\<lambda>tree g5.
      after (answered {200, 201} (git_create_commit G repo (pr_title a) tree base g5)) (\<lambda>d6 g6.
      after (of_res (subscript d6 ''sha''), g6) (\<lambda>c g7.
      after (answered {200, 201} (git_update_ref G repo fix_branch c g7)) (\<lambda>_ g8.
        open_pull G a repo branch changed g8)))))))))"

subsection \<open>The task\<close>

definition execute_create_github_pr :: "'g pr_env \<Rightarrow> pr_args \<Rightarrow> db2 \<Rightarrow> 'g \<Rightarrow> pr_fields step \<times> 'g" where
  "execute_create_github_pr env a db g =
     (case (uuid_parse (pr_tenant_id a), uuid_parse (pr_incident_id a)) of
        (Some tenant, Some inc) \<Rightarrow>
          after (resolve_repo env tenant inc db, g) (\<lambda>(repo, branch, installation) g1.
            case ge_token env installation of
              Inl e \<Rightarrow> (Stop (failure ''failed'' (''Failed to fetch GitHub token: '' @ ge_show env e)), g1)
            | Inr token \<Rightarrow>
                after (parse_patches (pr_structured_patch a), g1) (\<lambda>ps g2.
                after (apply_patches (ge_syntax env) (ge_api env token) repo branch ps [] g2) (\<lambda>changed g3.
                  if changed = [] then (Stop (failure ''no_patch'' ''No valid patches were applied to the source files''), g3)
                  else push_and_open (ge_api env token) a repo branch changed g3)))
      | _ \<Rightarrow> (Stop (outcome ''failed''), g))"

definition PR_RETRIES :: nat where
  "PR_RETRIES = 3"

text \<open>One attempt; \<open>k\<close> attempts went before it.  It saves the failure only when none is left.\<close>

definition create_github_pr :: "'g pr_env \<Rightarrow> pr_args \<Rightarrow> nat \<Rightarrow> db2 \<Rightarrow> 'g \<Rightarrow> unit res \<times> db2 \<times> 'g" where
  "create_github_pr env a k db g =
     (case execute_create_github_pr env a db g of
        (Raise e, g') \<Rightarrow>
          (Inl e, (if PR_RETRIES \<le> k
                   then save_pr_fields (ge_save_error env) (pr_incident_id a)
                          (failure ''failed'' (''Unhandled task exception: '' @ ge_show env e)) db
                   else db), g')
      | (Go f, g') \<Rightarrow> (Inr (), save_pr_fields (ge_save_error env) (pr_incident_id a) f db, g')
      | (Stop f, g') \<Rightarrow> (Inr (), save_pr_fields (ge_save_error env) (pr_incident_id a) f db, g'))"

text \<open>\<open>autoretry_for\<close>\<close>

fun pr_attempts :: "nat \<Rightarrow> (nat \<Rightarrow> 'g pr_env) \<Rightarrow> pr_args \<Rightarrow> nat \<Rightarrow> db2 \<Rightarrow> 'g \<Rightarrow> unit res \<times> db2 \<times> 'g \<times> nat" where
  "pr_attempts left env a k db g =
     (case create_github_pr (env k) a k db g of
        (Inr _, db', g') \<Rightarrow> (Inr (), db', g', k + 1)
      | (Inl e, db', g') \<Rightarrow>
          (case left of
             0 \<Rightarrow> (Inl e, db', g', k + 1)
           | Suc m \<Rightarrow> if is_request_error e then pr_attempts m env a (k + 1) db' g' else (Inl e, db', g', k + 1)))"

definition create_github_pr_task :: "(nat \<Rightarrow> 'g pr_env) \<Rightarrow> pr_args \<Rightarrow> db2 \<Rightarrow> 'g \<Rightarrow> unit res \<times> db2 \<times> 'g \<times> nat" where
  "create_github_pr_task env a db g = pr_attempts PR_RETRIES env a 0 db g"

end
