(* ===== verification/Parse_Log.thy ===== *)
theory Parse_Log
  imports Regex Parsed_Log_Event Orm Json_Text Raw_Logs
begin

text \<open>
  \<open>app/worker/tasks/parse_log.py\<close>: from the compressed context of a log to the event that \<open>run_agent\<close>
  analyses.  The patterns of the module are expressions of \<open>Regex\<close>; an event is built by the validation of
  \<open>Parsed_Log_Event\<close>, to which the keyword arguments of the constructor are given as a dictionary.
\<close>

subsection \<open>Patterns\<close>

definition SEVERITY_ORDER :: "(string \<times> int) list" where
  "SEVERITY_ORDER = [(''critical'', 6), (''fatal'', 6), (''error'', 5), (''err'', 5), (''warning'', 4),
     (''warn'', 4), (''info'', 3), (''information'', 3), (''debug'', 2), (''trace'', 1)]"

definition word_or_dot :: "char \<Rightarrow> bool" where
  "word_or_dot c \<longleftrightarrow> is_word c \<or> c = CHR ''.''"

text \<open>One of the words, the first that fits.\<close>

definition one_of :: "string list \<Rightarrow> re" where
  "one_of ws = foldr (\<lambda>w r. Alt (lits w) r) (butlast ws) (lits (last ws))"

definition pascal :: "re \<Rightarrow> re" where
  "pascal r = Grp 1 (Seq (One is_upper) (Seq (Many is_alnum) r))"

definition ERROR_TYPE_PATTERNS :: "re list" where
  "ERROR_TYPE_PATTERNS = [
     Seq (Opt (Seq (Plus word_or_dot) (lits ''.'')))
         (pascal (one_of [''Exception'', ''Error'', ''Fault'', ''Panic''])),
     pascal (one_of [''Exception'', ''Error'', ''Warning'', ''Fault'']),
     Seq (lits ''panic:'') (Seq (Plus is_space) (Seq (Opt (Seq (lits ''runtime error:'') (Plus is_space)))
         (Grp 1 (Seq (One is_alpha) (Plus (\<lambda>c. is_alnum c \<or> c = CHR '' '')))))),
     pascal (lits ''Error''),
     Seq (Grp 1 (Seq (One is_upper) (Rep 2 is_alnum))) (Seq (Many is_space) (lits '':''))]"

definition JAVA_FRAME_RE :: re where
  "JAVA_FRAME_RE =
     Seq (Many is_space) (Seq (lits ''at'') (Seq (Plus is_space)
    (Seq (Grp 1 (Plus (\<lambda>c. is_word c \<or> c \<in> set ''$.<>'')))
    (Seq (lits ''('') (Seq (Grp 2 (Plus (\<lambda>c. c \<noteq> CHR '':'' \<and> c \<noteq> CHR '')'')))
    (Seq (Opt (Seq (lits '':'') (Grp 3 (Plus is_dec))))
    (Seq (lits '')'') (Seq (Many is_space) Eos))))))))"

definition PYTHON_FRAME_RE :: re where
  "PYTHON_FRAME_RE =
     Seq (Many is_space) (Seq (lits ''File'') (Seq (Plus is_space) (Seq (One ((=) (CHR 0x22)))
    (Seq (Grp 1 (Plus (\<lambda>c. c \<noteq> CHR 0x22))) (Seq (One ((=) (CHR 0x22)))
    (Seq (lits '','') (Seq (Plus is_space) (Seq (lits ''line'') (Seq (Plus is_space) (Seq (Grp 2 (Plus is_dec))
    (Seq (lits '','') (Seq (Plus is_space) (Seq (lits ''in'') (Seq (Plus is_space)
    (Seq (Grp 3 (Plus (\<lambda>c. c \<noteq> CHR 0x0A))) (Seq (Many is_space) Eos))))))))))))))))"

definition MAX_STACK_FRAMES :: nat where
  "MAX_STACK_FRAMES = 20"

definition MAX_SCAN_ENTRIES :: nat where
  "MAX_SCAN_ENTRIES = 500"

subsection \<open>The object in S3\<close>

datatype 'b s3_answer = Body 'b | S3ClientError string | TransportError exn

definition fetch_compressed_context :: "'b s3_answer \<Rightarrow> 'b res" where
  "fetch_compressed_context a = (case a of
     Body b \<Rightarrow> Inr b
   | S3ClientError code \<Rightarrow>
       if code = ''NoSuchKey'' then Inl (OSErr ''FileNotFoundError'') else Inl (OtherError ''RuntimeError'')
   | TransportError e \<Rightarrow> Inl e)"

text \<open>\<open>gunzip\<close> gives the text of the object, if it is gzip of UTF-8.\<close>

definition decompress_and_parse :: "('b \<Rightarrow> string option) \<Rightarrow> 'b \<Rightarrow> json list res" where
  "decompress_and_parse gunzip b =
     (case gunzip b of
        None \<Rightarrow> Inl (ValueError ''gzip'')
      | Some t \<Rightarrow> (case loads t of Some (JArr xs) \<Rightarrow> Inr xs | _ \<Rightarrow> Inl (ValueError ''json'')))"

subsection \<open>The trigger\<close>

text \<open>The entries are scanned in order; an entry as severe as the best so far replaces it.\<close>

definition better :: "int \<times> json \<Rightarrow> json \<Rightarrow> int \<times> json" where
  "better best entry = (case entry of
     JObj _ \<Rightarrow>
       (let level = strip (lower (py_str (get_default ''level'' entry (JStr []))));
            score = get_or (map_of SEVERITY_ORDER level) 0
        in if fst best \<le> score then (score, entry) else best)
   | _ \<Rightarrow> best)"

definition find_trigger_log :: "json list \<Rightarrow> json" where
  "find_trigger_log entries = snd (foldl better (-1, JObj []) (take MAX_SCAN_ENTRIES entries))"

fun first_match :: "re list \<Rightarrow> string \<Rightarrow> captures option" where
  "first_match [] s = None"
| "first_match (p # ps) s = (case re_match p s of Some g \<Rightarrow> Some g | None \<Rightarrow> first_match ps s)"

definition extract_error_type :: "string \<Rightarrow> string" where
  "extract_error_type message =
     (if message = [] then ''UnknownError''
      else case first_match ERROR_TYPE_PATTERNS (strip message) of
             Some g \<Rightarrow> take 255 (strip (group 1 g))
           | None \<Rightarrow> ''UnknownError'')"

subsection \<open>Stack frames\<close>

text \<open>A frame built from keyword arguments.\<close>

definition frame_of :: "json \<Rightarrow> json \<Rightarrow> json \<Rightarrow> json \<Rightarrow> json \<Rightarrow> stack_frame res" where
  "frame_of f n m md c = frame_from (JObj [(''file'', f), (''line'', n), (''method'', m), (''module'', md),
     (''code_context'', c)])"

definition list_frame :: "json \<Rightarrow> stack_frame option" where
  "list_frame raw = (case raw of
     JObj _ \<Rightarrow>
       (let meth = (if truthy (jget ''method'' raw) then jget ''method'' raw else jget ''function'' raw)
        in case frame_of (JStr (str_of ''file'' [] raw)) (get_default ''line'' raw (JInt 0))
                (JStr (if truthy meth then py_str meth else [])) (JStr (str_of ''module'' [] raw))
                (JStr (str_of ''code_context'' [] raw)) of
             Inr f \<Rightarrow> Some f | Inl _ \<Rightarrow> None)
   | _ \<Rightarrow> None)"

definition parse_stack_frames_from_list :: "json list \<Rightarrow> stack_frame list" where
  "parse_stack_frames_from_list raws = take MAX_STACK_FRAMES (List.map_filter list_frame raws)"

text \<open>\<open>str.splitlines\<close>\<close>

definition is_line_break :: "char \<Rightarrow> bool" where
  "is_line_break c \<longleftrightarrow> c \<in> set [CHR 0x0A, CHR 0x0B, CHR 0x0C, CHR 0x0D, CHR 0x1C, CHR 0x1D, CHR 0x1E]"

function splitlines :: "string \<Rightarrow> string list" where
  "splitlines s =
     (if s = [] then []
      else (let l = takeWhile (\<lambda>c. \<not> is_line_break c) s; r = dropWhile (\<lambda>c. \<not> is_line_break c) s
            in l # splitlines (if prefix [CHR 0x0D, CHR 0x0A] r then drop 2 r else drop 1 r)))"
  by pat_completeness auto
termination
proof (relation "measure length")
  fix s l r :: string
  assume s: "s \<noteq> []" "l = takeWhile (\<lambda>c. \<not> is_line_break c) s" "r = dropWhile (\<lambda>c. \<not> is_line_break c) s"
  then have "length s = length l + length r" by (metis length_append takeWhile_dropWhile_id)
  with s(1) show "((if prefix [CHR 0x0D, CHR 0x0A] r then drop 2 r else drop 1 r), s) \<in> measure length"
    by (cases r; cases l) (auto simp: prefix_def)
qed simp

declare splitlines.simps [simp del]

definition java_frame :: "string \<Rightarrow> stack_frame option" where
  "java_frame line = map_option (\<lambda>g.
     (let full = group 1 g; parts = split_on (CHR ''.'') full in
      \<lparr>sf_file = group 2 g, sf_line = (if group 3 g = [] then 0 else int (digits_val (group 3 g))),
       sf_method = (if 2 \<le> length parts then join ''.'' (last_n 2 parts) else full),
       sf_module = join ''.'' (take (length parts - 2) parts), sf_code_context = []\<rparr>))
     (re_match JAVA_FRAME_RE line)"

definition python_frame :: "string \<Rightarrow> stack_frame option" where
  "python_frame line = map_option (\<lambda>g.
     \<lparr>sf_file = group 1 g, sf_line = int (digits_val (group 2 g)), sf_method = strip (group 3 g),
      sf_module = [], sf_code_context = []\<rparr>) (re_match PYTHON_FRAME_RE line)"

text \<open>Both loops stop at the twentieth frame.\<close>

definition parse_java_text :: "string \<Rightarrow> stack_frame list" where
  "parse_java_text text = take MAX_STACK_FRAMES (List.map_filter java_frame (splitlines text))"

definition parse_python_text :: "string \<Rightarrow> stack_frame list" where
  "parse_python_text text = rev (take MAX_STACK_FRAMES (List.map_filter python_frame (splitlines text)))"

definition parse_stack_frames :: "json \<Rightarrow> stack_frame list" where
  "parse_stack_frames raw =
     (if \<not> truthy raw then []
      else case raw of
             JArr xs \<Rightarrow> parse_stack_frames_from_list xs
           | JObj _ \<Rightarrow> (case get_default ''frames'' raw (JArr []) of
                          JArr xs \<Rightarrow> parse_stack_frames_from_list xs | _ \<Rightarrow> [])
           | JStr s \<Rightarrow>
               (let text = strip s in
                if text = [] then []
                else if contains (CHR 0x09 # ''at '') text \<or> prefix ''at '' text then parse_java_text text
                else if contains (''File '' @ [CHR 0x22]) text then parse_python_text text
                else (let frames = parse_java_text text in
                      if frames \<noteq> [] then frames else parse_python_text text))
           | _ \<Rightarrow> [])"

subsection \<open>The event\<close>

text \<open>\<open>ParsedLogEvent(\<dots>)\<close>\<close>

definition new_event ::
  "parse_log_args \<Rightarrow> json \<Rightarrow> json \<Rightarrow> json \<Rightarrow> json \<Rightarrow> json \<Rightarrow> json \<Rightarrow> stack_frame list \<Rightarrow> nat \<Rightarrow> json \<Rightarrow>
   parsed_log_event res" where
  "new_event a error_type message severity crash_file crash_line crash_method frames n meta =
     from_dict (JObj [
       (''tenant_id'', pa_tenant_id a), (''incident_id'', pa_incident_id a), (''s3_path'', pa_s3_path a),
       (''service_name'', pa_service_name a), (''environment'', pa_environment a),
       (''error_type'', error_type), (''error_message'', message), (''severity'', severity),
       (''crash_file'', crash_file), (''crash_line'', crash_line), (''crash_method'', crash_method),
       (''stack_frames'', JArr (map frame_dump frames)), (''context_log_count'', JInt (int n)),
       (''sdk_meta'', meta)])"

definition py_or :: "json \<Rightarrow> json \<Rightarrow> json" where
  "py_or a b = (if truthy a then a else b)"

text \<open>A frame of the SDK's own structure; anything that is no dictionary has no \<open>get\<close>.\<close>

definition sdk_frame :: "json \<Rightarrow> stack_frame res" where
  "sdk_frame f = (case f of
     JObj _ \<Rightarrow> frame_of (get_default ''file'' f (JStr [])) (get_default ''line'' f (JInt 0))
                (get_default ''function'' f (JStr [])) (JStr [])
                (py_or (jget ''code'' f) (py_or (jget ''code_context'' f) (JStr [])))
   | _ \<Rightarrow> Inl (AttributeError ''get''))"

definition frames_of_trace :: "json \<Rightarrow> stack_frame list res" where
  "frames_of_trace trace =
     (case trace of
        JObj _ \<Rightarrow>
          if jhas ''frames'' trace
          then (case jget ''frames'' trace of
                  JArr fs \<Rightarrow> map_res sdk_frame fs
                | JStr s \<Rightarrow> if s = [] then Inr [] else Inl (AttributeError ''get'')
                | JObj kvs \<Rightarrow> if kvs = [] then Inr [] else Inl (AttributeError ''get'')
                | _ \<Rightarrow> Inl (TypeError ''not iterable''))
          else Inr (parse_stack_frames trace)
      | _ \<Rightarrow> Inr (parse_stack_frames trace))"

text \<open>The type and the message: the log's own type, the type of the trace, or what the message shows.\<close>

definition type_and_message :: "json \<Rightarrow> json \<Rightarrow> string \<Rightarrow> json \<times> string" where
  "type_and_message error_type trace message =
     (if truthy error_type \<and> error_type \<noteq> JStr ''UnknownError'' then (error_type, message)
      else if truthy (jget ''exception_type'' trace)
      then (JStr (py_str (jget ''exception_type'' trace)),
            py_str (py_or (jget ''exception_message'' trace) (JStr message)))
      else (JStr (extract_error_type message), message))"

text \<open>The place of the crash: the log's own fields first, then the frame at index 0.\<close>

definition crash_site :: "json \<Rightarrow> json \<Rightarrow> stack_frame list \<Rightarrow> json \<times> json \<times> json" where
  "crash_site file line frames =
     (let f = py_or file (JStr []); n = py_or line (JInt 0) in
      case frames of
        [] \<Rightarrow> (f, n, JStr [])
      | frame0 # _ \<Rightarrow> (py_or f (JStr (sf_file frame0)), py_or n (JInt (sf_line frame0)), JStr (sf_method frame0)))"

definition event_of_trigger :: "parse_log_args \<Rightarrow> json \<Rightarrow> nat \<Rightarrow> parsed_log_event res" where
  "event_of_trigger a trigger n =
     (let trace = py_or (jget ''stack_trace'' trigger) (jget ''stackTrace'' trigger);
          (ty, message) = type_and_message (pa_error_type a) trace (str_of ''message'' [] trigger)
      in bind_res (frames_of_trace trace) (\<lambda>frames.
           case crash_site (pa_file_path a) (pa_line_number a) frames of
             (file, line, meth) \<Rightarrow>
               new_event a ty (JStr message) (JStr (str_of ''level'' ''unknown'' trigger)) file line meth frames n
                 (pa_sdk_meta a)))"

definition build_parsed_event :: "parse_log_args \<Rightarrow> json list \<Rightarrow> parsed_log_event res" where
  "build_parsed_event a entries =
     (let trigger = (if truthy (pa_trigger a) then pa_trigger a else find_trigger_log entries) in
      if \<not> truthy trigger
      then new_event a (JStr ''UnknownError'') (JStr []) (JStr ''unknown'') (JStr []) (JInt 0) (JStr []) []
             (length entries) JNull
      else (case trigger of JObj _ \<Rightarrow> event_of_trigger a trigger (length entries)
            | _ \<Rightarrow> Inl (AttributeError ''get'')))"

subsection \<open>The task\<close>

record 'b parse_env =
  pv_s3 :: "string \<Rightarrow> 'b s3_answer"
  pv_gunzip :: "'b \<Rightarrow> string option"
  pv_event_id :: uuid
  pv_fresh :: uuid
  pv_now :: time
  pv_db_error :: "exn option"
  pv_broker :: "json \<Rightarrow> exn option"  \<comment> \<open>\<open>run_agent.delay\<close> raises\<close>

definition parsed_payload :: "uuid \<Rightarrow> time \<Rightarrow> parsed_log_event \<Rightarrow> json" where
  "parsed_payload event_id now e = JObj [
     (''event_id'', JStr event_id), (''event_type'', JStr ''log.parsed''), (''version'', JInt 1),
     (''idempotency_key'', JStr (''tenant:'' @ pe_tenant_id e @ '':parsed:'' @ pe_incident_id e)),
     (''source_version'', JInt 1), (''occurred_at'', JStr (isoformat now)), (''payload'', to_dict e)]"

text \<open>Every failure of the audit event is swallowed.\<close>

definition publish_parsed_event :: "'b parse_env \<Rightarrow> parsed_log_event \<Rightarrow> db2 \<Rightarrow> db2" where
  "publish_parsed_event env e db =
     (case bind_res (write_outbox (pv_fresh env) (pv_now env) (''parsed.logs.'' @ pe_tenant_id e) (pe_incident_id e)
                  (parsed_payload (pv_event_id env) (pv_now env) e)) (\<lambda>ev.
            bind_res (insert_outbox ev db) (\<lambda>db'. case pv_db_error env of Some x \<Rightarrow> Inl x | None \<Rightarrow> Inr db')) of
        Inr db' \<Rightarrow> db' | Inl _ \<Rightarrow> db)"

text \<open>One attempt: its result, the database, and the tasks it queued.\<close>

definition parse_log :: "'b parse_env \<Rightarrow> parse_log_args \<Rightarrow> db2 \<Rightarrow> json res \<times> db2 \<times> json list" where
  "parse_log env a db =
     (case bind_res (fetch_compressed_context (pv_s3 env (py_str (pa_s3_path a)))) (decompress_and_parse (pv_gunzip env)) of
        Inl e \<Rightarrow> (Inl e, db, [])
      | Inr entries \<Rightarrow>
          (case build_parsed_event a entries of
             Inl e \<Rightarrow> (Inl (ValueError ''Failed to build ParsedLogEvent''), db, [])
           | Inr e \<Rightarrow>
               (let d = to_dict e; db' = publish_parsed_event env e db in
                case pv_broker env d of
                  Some x \<Rightarrow> (Inl (OSErr ''ConnectionError''), db', [])
                | None \<Rightarrow> (Inr d, db', [d]))))"

text \<open>\<open>autoretry_for\<close>: \<open>ConnectionError\<close>, \<open>TimeoutError\<close> and \<open>FileNotFoundError\<close> are classes of \<open>OSError\<close>.\<close>

definition retried :: "exn \<Rightarrow> bool" where
  "retried e \<longleftrightarrow> (case e of OSErr _ \<Rightarrow> True | TimeoutErr \<Rightarrow> True | _ \<Rightarrow> False)"

definition PARSE_RETRIES :: nat where
  "PARSE_RETRIES = 5"

fun attempts :: "nat \<Rightarrow> (nat \<Rightarrow> 'b parse_env) \<Rightarrow> parse_log_args \<Rightarrow> nat \<Rightarrow> db2 \<Rightarrow> json res \<times> db2 \<times> json list \<times> nat" where
  "attempts left env a k db =
     (case parse_log (env k) a db of
        (Inl e, db', q) \<Rightarrow>
          (case left of
             0 \<Rightarrow> (Inl e, db', q, k + 1)
           | Suc m \<Rightarrow> if retried e then (case attempts m env a (k + 1) db' of (x, db2, q2, j) \<Rightarrow> (x, db2, q @ q2, j))
                     else (Inl e, db', q, k + 1))
      | (Inr d, db', q) \<Rightarrow> (Inr d, db', q, k + 1))"

definition parse_log_task :: "(nat \<Rightarrow> 'b parse_env) \<Rightarrow> parse_log_args \<Rightarrow> db2 \<Rightarrow> json res \<times> db2 \<times> json list \<times> nat" where
  "parse_log_task env a db = attempts PARSE_RETRIES env a 0 db"

end
