(* ===== verification/Ingest_Spec.thy ===== *)
theory Ingest_Spec
  imports Ingest Config_Sync_Spec
begin

text \<open>
  What an SDK can rely on when it sends a log: all or nothing in the database, and a task for the worker behind
  every accepted log; and what it cannot: that sending the same log again is harmless.
\<close>

subsection \<open>One request\<close>

lemma es_call_total:
  assumes "es_inv b"
  shows "\<exists>x b' w'. es_call start stop fn b w = (Inr x, b', w')"
  using assms by (auto simp: es_call_def es_enter_def es_inv_def split: option.splits prod.splits sum.splits bool.splits)

lemma log_outbox_event:
  "write_outbox fresh now topic key (log_payload t r s3_key) =
   Inr \<lparr>ob_event_id = fresh, ob_topic = topic, ob_key = key, ob_payload = log_payload t r s3_key,
        ob_created_at = now, ob_published = False\<rparr>"
proof -
  have "jget ''event_id'' (log_payload t r s3_key) = JNull"
    by (auto simp: log_payload_def opt_entry_def split: option.splits)
  then show ?thesis by (simp add: write_outbox_def)
qed

definition log_event :: "('b, 'w) ingest_env \<Rightarrow> uuid \<Rightarrow> log_request \<Rightarrow> string \<Rightarrow> outbox_event" where
  "log_event env t r s3_key = \<lparr>ob_event_id = ie_fresh env, ob_topic = ''raw.logs.'' @ t, ob_key = lr_incident_id r,
     ob_payload = log_payload t r s3_key, ob_created_at = ie_now env, ob_published = False\<rparr>"

lemma ingest_transaction_Inr:
  assumes "ingest_transaction env t r s3_key db = Inr db'"
  shows "db' = db\<lparr>ingested_logs := ingested_logs db @ [log_row (ie_now env) t r s3_key],
                 outbox := outbox db @ [log_event env t r s3_key]\<rparr> \<and>
         lr_incident_id r \<notin> lm_incident_id ` set (ingested_logs db) \<and> tenant_known t db"
  using assms
  by (auto simp: ingest_transaction_def log_outbox_event bind_res_eq_Inr insert_log_def insert_outbox_def
      log_event_def log_row_def split: if_splits option.splits)

lemma ingest_outcome:
  assumes "ingest_logs env tenant r w = (x, w')" and "es_inv (iw_breaker w)"
    and "t = tc_tenant_id tenant" and "s3_key = build_s3_key t (lr_incident_id r)"
  shows "case x of
      Inr p \<Rightarrow> mapped_service t (lr_service_name r) (iw_db w) \<and>
        iw_s3 w' = (iw_s3 w)(s3_key \<mapsto> compress_context_logs env (lr_context_logs r)) \<and>
        iw_db w' = (iw_db w)\<lparr>ingested_logs := ingested_logs (iw_db w) @ [log_row (ie_now env) t r s3_key],
                            outbox := outbox (iw_db w) @ [log_event env t r s3_key]\<rparr>
    | Inl e \<Rightarrow> iw_db w' = iw_db w \<and> (mapped_service t (lr_service_name r) (iw_db w) \<or> w' = w)"
proof -
  obtain y b es where call: "es_call (ie_start env) (ie_stop env)
      (index_log_event (ie_retrying env) (ie_es env) (ie_log_id env) (ie_now env) r
         (lr_incident_id r) t (tc_plan_tier tenant) s3_key) (iw_breaker w) (iw_es w) = (Inr y, b, es)"
    using es_call_total [OF assms(2), of "ie_start env" "ie_stop env" "index_log_event (ie_retrying env) (ie_es env)
      (ie_log_id env) (ie_now env) r (lr_incident_id r) t (tc_plan_tier tenant) s3_key" "iw_es w"] by blast
  show ?thesis
    using assms(1) call
    by (auto simp: ingest_logs_def Let_def assms(3,4) upload_to_s3_def dest!: ingest_transaction_Inr
        split: option.splits if_splits sum.splits prod.splits s3_failure.splits)
qed

text \<open>C21: an accepted log has its object in the bucket and exactly one metadata row and one outbox
  event, for a service that the tenant has mapped; a refused one has changed nothing in the database, and when
  the service is not mapped, nothing at all.\<close>

theorem ingest_atomic:
  assumes "ingest_logs env tenant r w = (x, w')" and "es_inv (iw_breaker w)"
    and "t = tc_tenant_id tenant" and "s3_key = build_s3_key t (lr_incident_id r)"
  shows "case x of
      Inr p \<Rightarrow> mapped_service t (lr_service_name r) (iw_db w) \<and>
        iw_s3 w' = (iw_s3 w)(s3_key \<mapsto> compress_context_logs env (lr_context_logs r)) \<and>
        iw_db w' = (iw_db w)\<lparr>ingested_logs := ingested_logs (iw_db w) @ [log_row (ie_now env) t r s3_key],
                            outbox := outbox (iw_db w) @ [log_event env t r s3_key]\<rparr>
    | Inl e \<Rightarrow> iw_db w' = iw_db w \<and> (mapped_service t (lr_service_name r) (iw_db w) \<or> w' = w)"
  using assms by (rule ingest_outcome)

text \<open>A log whose incident id is already stored, for this tenant or any other, is answered
  with 500 each time it is sent, and its upload replaces the object that the stored row points to.\<close>

theorem ingest_retry_fails:
  assumes "lr_incident_id r \<in> lm_incident_id ` set (ingested_logs (iw_db w))"
    and "mapped_service (tc_tenant_id tenant) (lr_service_name r) (iw_db w)"
    and "ie_query_error env = None" and "ie_s3_failure env = None"
  shows "ingest_logs env tenant r w =
    (Inl (HTTPException 500 ''Failed to persist ingestion record''),
     w\<lparr>iw_s3 := (iw_s3 w)(build_s3_key (tc_tenant_id tenant) (lr_incident_id r) \<mapsto>
                         compress_context_logs env (lr_context_logs r))\<rparr>)"
  using assms
  by (simp add: ingest_logs_def Let_def upload_to_s3_def ingest_transaction_def log_outbox_event insert_log_def
      log_row_def)

subsection \<open>From the request to the task\<close>

lemma each_all: "each f xs = Inr ys \<Longrightarrow> \<forall>y \<in> set ys. \<exists>x \<in> set xs. f x = Inr y"
  by (induction xs arbitrary: ys) (fastforce simp: bind_res_eq_Inr)+

lemma plain_jopt: "plain (jopt JStr c)" by (cases c) simp_all

lemma plain_frame:
  assumes "frame_model as_int v = Inr d"
  shows "plain d"
proof -
  from assms obtain f n g c where
    "d = JObj [(''file'', JStr f), (''line'', JInt n), (''function'', JStr g), (''code'', jopt JStr c)]"
    unfolding frame_model_def bind_res_eq_Inr by blast
  then show ?thesis by (simp add: plain_jopt)
qed

lemma plain_stack:
  assumes "trace_model as_int v = Inr d"
  shows "plain d"
proof -
  from assms obtain t m xs fs where fs: "each (frame_model as_int) xs = Inr fs"
    and d: "d = JObj [(''exception_type'', JStr t), (''exception_message'', JStr m), (''frames'', JArr fs)]"
    unfolding trace_model_def bind_res_eq_Inr by blast
  from each_all [OF fs] plain_frame have "\<forall>y \<in> set fs. plain y" by blast
  with d show ?thesis by simp
qed

lemma plain_optional:
  assumes "body_optional f v = Inr (Some d)" "\<And>x y. f x = Inr y \<Longrightarrow> plain y"
  shows "plain d"
  using assms(1) by (auto simp: body_optional_def bind_res_eq_Inr split: if_splits dest: assms(2))

lemma plain_trigger:
  assumes "trigger_model as_int v = Inr d"
  shows "plain d"
proof -
  from assms obtain l m t s w where s: "body_optional (trace_model as_int) w = Inr s"
    and d: "d = JObj [(''level'', JStr l), (''message'', JStr m), (''timestamp'', JStr t), (''stack_trace'', jopt id s)]"
    unfolding trigger_model_def bind_res_eq_Inr by blast
  have "plain x" if "s = Some x" for x
    using plain_optional [OF s [unfolded that]] plain_stack by blast
  with d show ?thesis by (cases s) auto
qed

lemma plain_meta:
  assumes "meta_model v = Inr d"
  shows "plain d"
proof -
  from assms obtain a b h f where "d = JObj [(''sdk_version'', JStr a), (''python_version'', JStr b),
      (''hostname'', jopt JStr h), (''framework'', jopt JStr f)]"
    unfolding meta_model_def bind_res_eq_Inr by blast
  then show ?thesis by (simp add: plain_jopt)
qed

lemma request_fields:
  assumes "log_ingest_request as_int body = Inr r"
  shows "body_optional (trigger_model as_int) (jget ''trigger'' body) = Inr (lr_trigger r)"
    and "body_optional meta_model (jget ''sdk_meta'' body) = Inr (lr_sdk_meta r)"
    and "(case jget ''incident_id'' body of JStr s \<Rightarrow>
           (case uuid_parse s of None \<Rightarrow> Inl (invalid ''incident_id'') | Some u \<Rightarrow> Inr u)
         | _ \<Rightarrow> Inl (invalid ''incident_id'')) = Inr (lr_incident_id r)"
  using assms unfolding log_ingest_request_def bind_res_eq_Inr by (elim exE conjE, force)+

lemma request_plain:
  assumes "log_ingest_request as_int body = Inr r"
  shows "plain (log_payload t r s3_key)"
proof -
  have "plain x" if "lr_trigger r = Some x" for x
    using plain_optional [OF request_fields(1) [OF assms, unfolded that]] plain_trigger by blast
  moreover have "plain x" if "lr_sdk_meta r = Some x" for x
    using plain_optional [OF request_fields(2) [OF assms, unfolded that]] plain_meta by blast
  ultimately show ?thesis by (auto simp: log_payload_def opt_entry_def split: option.splits)
qed

lemma uuid_parse_nonempty: "uuid_parse s = Some u \<Longrightarrow> u \<noteq> []"
  by (auto simp: uuid_parse_def hyphenate_def Let_def split: if_splits)

lemma request_incident: "log_ingest_request as_int body = Inr r \<Longrightarrow> lr_incident_id r \<noteq> []"
  using request_fields(3) [of as_int body r]
  by (auto dest: uuid_parse_nonempty split: json.splits option.splits)

text \<open>The arguments of the task that an accepted log ends in.\<close>

definition task_of :: "uuid \<Rightarrow> log_request \<Rightarrow> string \<Rightarrow> parse_log_args" where
  "task_of t r s3_key = \<lparr>pa_tenant_id = JStr t, pa_incident_id = JStr (lr_incident_id r), pa_s3_path = JStr s3_key,
     pa_service_name = JStr (lr_service_name r), pa_environment = JStr (lr_environment r),
     pa_trigger = jopt id (lr_trigger r), pa_sdk_meta = jopt id (lr_sdk_meta r),
     pa_file_path = jopt JStr (lr_file_path r), pa_line_number = jopt JInt (lr_line_number r),
     pa_error_type = JStr (lr_error_type r)\<rparr>"

lemma log_payload_args: "parse_log_args_of (log_payload t r s3_key) = task_of t r s3_key"
  by (auto simp: parse_log_args_of_def log_payload_def opt_entry_def task_of_def split: option.splits)

text \<open>C22: whatever body the SDK sends, once its log is accepted for a tenant with an
  id, the outbox ends with an event which, rendered to text, read back by the consumer and handed to a broker
  that takes it, lets the message be committed; the object under the path of the reply holds the log's
  context.  If the log names its service and its environment, exactly one \<open>parse_log\<close> task is queued, with the
  log's own fields and the key of the uploaded object.  If one of the two is the empty text, nothing is queued:
  the schema bounds the length of both from above only, so such a log is answered with 202 and then dropped.\<close>

theorem accepted_log_is_parsed:
  assumes "log_ingest_request as_int body = Inr r" and "tc_tenant_id tenant \<noteq> []" and "es_inv (iw_breaker w)"
    and "ingest_logs env tenant r w = (Inr p, w')"
    and "km_value m = Some (dumps fr (ob_payload (last (outbox (iw_db w')))))" and "\<forall>a. broker a = None"
  shows "raw_verdict loads broker m queued =
           (Commit, queued @ (if lr_service_name r = [] \<or> lr_environment r = [] then []
                              else [task_of (tc_tenant_id tenant) r (rp_s3_path p)])) \<and>
         iw_s3 w' (rp_s3_path p) = Some (compress_context_logs env (lr_context_logs r))"
proof -
  let ?t = "tc_tenant_id tenant" and ?key = "build_s3_key (tc_tenant_id tenant) (lr_incident_id r)"
  from ingest_outcome [OF assms(4,3) refl refl]
  have w': "iw_s3 w' ?key = Some (compress_context_logs env (lr_context_logs r))"
    "last (outbox (iw_db w')) = log_event env ?t r ?key" by simp_all
  have p: "rp_s3_path p = ?key"
    using assms(4) by (auto simp: ingest_logs_def Let_def split: option.splits if_splits sum.splits prod.splits)
  have "Option.bind (km_value m) loads = Some (log_payload ?t r ?key)"
    using assms(5) w'(2) loads_dumps [OF request_plain [OF assms(1)]] by (simp add: log_event_def)
  moreover have "complete_args (task_of ?t r ?key) \<longleftrightarrow> lr_service_name r \<noteq> [] \<and> lr_environment r \<noteq> []"
    using assms(2) request_incident [OF assms(1)] by (simp add: complete_args_def task_of_def build_s3_key_def)
  moreover obtain kvs where "log_payload ?t r ?key = JObj kvs" "jget ''event_type'' (JObj kvs) = JStr ''log.ingested''"
    by (simp add: log_payload_def)
  ultimately have "raw_verdict loads broker m queued =
      (Commit, queued @ (if lr_service_name r = [] \<or> lr_environment r = [] then [] else [task_of ?t r ?key]))"
    using assms(6) log_payload_args [of ?t r ?key] by (auto simp: raw_verdict_def Let_def)
  with w'(1) p show ?thesis by simp
qed

subsection \<open>A sample\<close>

definition pay_tenant :: tenant_context where
  "pay_tenant = \<lparr>tc_tenant_id = tenant_a, tc_plan_tier = JStr ''pro'', tc_vector_namespace = JNull,
     tc_kafka_group_id = JNull, tc_is_suspended = False, tc_source_version = JInt 1\<rparr>"

definition pay_env :: "(string, nat) ingest_env" where
  "pay_env = \<lparr>ie_now = 0, ie_fresh = row_a, ie_log_id = row_a, ie_start = 0, ie_stop = 1, ie_gzip = (\<lambda>t. t),
     ie_float_repr = (\<lambda>_. ''0.5''), ie_query_error = None, ie_s3_failure = None, ie_commit_error = None,
     ie_retrying = (\<lambda>f. f), ie_es = down\<rparr>"

definition pay_world :: "(string, nat) ingest_world" where
  "pay_world = \<lparr>iw_db = tenant_db\<lparr>service_repo_mapping_snapshots := [\<lparr>sm_id = row_a, sm_tenant_id = tenant_a,
       sm_service_name = ''pay'', sm_repo_url = ''https://github.com/o/r'', sm_synced_at = 0\<rparr>]\<rparr>,
     iw_s3 = (\<lambda>_. None), iw_breaker = new_breaker, iw_es = 0\<rparr>"

definition pay_body_in :: "string \<Rightarrow> json" where
  "pay_body_in environment = JObj [(''incident_id'', JStr row_a), (''service_name'', JStr ''pay''),
     (''environment'', JStr environment), (''trigger'', JObj [(''level'', JStr ''error''),
        (''message'', JStr ''boom''), (''timestamp'', JStr ''now''), (''stack_trace'', JObj [
          (''exception_type'', JStr ''KeyError''), (''exception_message'', JStr ''k''), (''frames'', JArr [
            JObj [(''file'', JStr ''pay.py''), (''line'', JInt 7), (''function'', JStr ''charge''),
                  (''code'', JStr ''x = d[k]'')]])])])]"

abbreviation pay_body :: json where
  "pay_body \<equiv> pay_body_in ''production''"

definition pay_log :: log_request where
  "pay_log = \<lparr>lr_incident_id = row_a, lr_service_name = ''pay'', lr_environment = ''production'',
     lr_severity = ''error'', lr_error_type = ''UnknownError'', lr_file_path = None, lr_line_number = None,
     lr_trigger = Some (JObj [(''level'', JStr ''error''), (''message'', JStr ''boom''), (''timestamp'', JStr ''now''),
        (''stack_trace'', JObj [(''exception_type'', JStr ''KeyError''), (''exception_message'', JStr ''k''),
          (''frames'', JArr [JObj [(''file'', JStr ''pay.py''), (''line'', JInt 7), (''function'', JStr ''charge''),
             (''code'', JNull)]])])]),
     lr_context_logs = [], lr_sdk_meta = None\<rparr>"

text \<open>The body is the shape of the schema's own example; the line of code in it is dropped.\<close>

lemma pay_request_in:
  assumes "length environment \<le> 64"
  shows "log_ingest_request jint (pay_body_in environment) = Inr (pay_log\<lparr>lr_environment := environment\<rparr>)"
proof -
  have "uuid_parse row_a = Some row_a" using sample_uuids(2) by (simp add: is_uuid_def)
  moreover have "lower ''error'' = ''error''" by code_simp
  ultimately show ?thesis
    using assms
    by (simp add: log_ingest_request_def pay_body_in_def pay_log_def body_str_def body_opt_str_def body_str_default_def
        max_length_def body_int_def body_object_def body_list_def body_optional_def trigger_model_def trace_model_def
        frame_model_def normalize_severity_def)
qed

lemma pay_request: "log_ingest_request jint pay_body = Inr pay_log"
  using pay_request_in [of "''production''"] by (simp add: pay_log_def)

lemma pay_accepted_in:
  "\<exists>p w'. ingest_logs pay_env pay_tenant (pay_log\<lparr>lr_environment := environment\<rparr>) pay_world = (Inr p, w')"
  by (simp add: ingest_logs_def pay_env_def pay_tenant_def pay_log_def pay_world_def mapped_service_def
      upload_to_s3_def ingest_transaction_def log_outbox_event insert_log_def insert_outbox_def log_row_def
      tenant_db_def empty_db2_def tenant_known_def es_call_def es_enter_def new_breaker_def index_log_event_def
      index_once_def down_def Let_def)

lemma pay_accepted: "\<exists>p w'. ingest_logs pay_env pay_tenant pay_log pay_world = (Inr p, w')"
  using pay_accepted_in [of "''production''"] by (simp add: pay_log_def)

lemma pay_breaker: "es_inv (iw_breaker pay_world)"
  by (simp add: pay_world_def es_inv_def new_breaker_def failure_threshold_def)

lemma ingest_atomic_witness:
  "\<exists>p w'. ingest_logs pay_env pay_tenant pay_log pay_world = (Inr p, w') \<and>
     ingested_logs (iw_db w') = [log_row 0 tenant_a pay_log (build_s3_key tenant_a row_a)]"
proof -
  obtain p w' where run: "ingest_logs pay_env pay_tenant pay_log pay_world = (Inr p, w')"
    using pay_accepted by blast
  from ingest_atomic [OF run pay_breaker refl refl] run show ?thesis
    by (simp add: pay_world_def pay_tenant_def tenant_db_def empty_db2_def pay_env_def pay_log_def)
qed

definition paid_world :: "(string, nat) ingest_world" where
  "paid_world = pay_world\<lparr>iw_db := (iw_db pay_world)\<lparr>ingested_logs :=
     [log_row 0 tenant_a pay_log (build_s3_key tenant_a row_a)]\<rparr>\<rparr>"

lemma ingest_retry_fails_witness:
  "fst (ingest_logs pay_env pay_tenant (pay_log\<lparr>lr_context_logs := [JObj []]\<rparr>) paid_world) =
     Inl (HTTPException 500 ''Failed to persist ingestion record'')"
proof -
  let ?r = "pay_log\<lparr>lr_context_logs := [JObj []]\<rparr>"
  have "lr_incident_id ?r \<in> lm_incident_id ` set (ingested_logs (iw_db paid_world))"
    "mapped_service (tc_tenant_id pay_tenant) (lr_service_name ?r) (iw_db paid_world)"
    "ie_query_error pay_env = None" "ie_s3_failure pay_env = None"
    by (simp_all add: paid_world_def pay_world_def pay_log_def log_row_def mapped_service_def pay_tenant_def
        pay_env_def)
  from ingest_retry_fails [OF this] show ?thesis by simp
qed

text \<open>The message of what the outbox ends with.\<close>

definition last_message :: "(string, nat) ingest_world \<Rightarrow> message" where
  "last_message w = \<lparr>km_topic = ''raw.logs'', km_partition = 0, km_offset = 0,
     km_value = Some (dumps (\<lambda>_. []) (ob_payload (last (outbox (iw_db w)))))\<rparr>"

text \<open>The same log with an environment and with an empty one.\<close>

theorem accepted_log_is_parsed_witness:
  "(\<exists>p w'. ingest_logs pay_env pay_tenant pay_log pay_world = (Inr p, w') \<and>
      raw_verdict loads (\<lambda>_. None) (last_message w') [] =
        (Commit, [task_of tenant_a pay_log (rp_s3_path p)])) \<and>
   (\<exists>p w'. ingest_logs pay_env pay_tenant (pay_log\<lparr>lr_environment := []\<rparr>) pay_world = (Inr p, w') \<and>
      raw_verdict loads (\<lambda>_. None) (last_message w') [] = (Commit, []))"
proof -
  have val: "km_value (last_message w) = Some (dumps (\<lambda>_. []) (ob_payload (last (outbox (iw_db w)))))"
    for w by (simp add: last_message_def)
  have t: "tc_tenant_id pay_tenant = tenant_a" "tc_tenant_id pay_tenant \<noteq> []"
    by (simp_all add: pay_tenant_def tenant_a_def)
  have up: "\<forall>a. (\<lambda>_ :: parse_log_args. None :: exn option) a = None" by simp
  obtain p w1 where run: "ingest_logs pay_env pay_tenant pay_log pay_world = (Inr p, w1)"
    using pay_accepted by blast
  obtain q w2 where blank: "ingest_logs pay_env pay_tenant (pay_log\<lparr>lr_environment := []\<rparr>) pay_world = (Inr q, w2)"
    using pay_accepted_in by blast
  have "log_ingest_request jint (pay_body_in []) = Inr (pay_log\<lparr>lr_environment := []\<rparr>)"
    by (rule pay_request_in) simp
  from accepted_log_is_parsed [OF this t(2) pay_breaker blank val up, of "[]"]
    accepted_log_is_parsed [OF pay_request t(2) pay_breaker run val up, of "[]"] run blank
  show ?thesis by (simp add: t(1) pay_log_def)
qed

end
