(* ===== verification/Parse_Log_Spec.thy ===== *)
theory Parse_Log_Spec
  imports Parse_Log Ingest_Spec
begin

text \<open>
  What parsing guarantees: every event it queues is one that \<open>run_agent\<close> accepts; a log that was accepted
  reaches \<open>run_agent\<close>; a traceback of Python is read back frame by frame, up to the twentieth; and which
  failures are retried.
\<close>

subsection \<open>Retries\<close>

lemma new_event_valid:
  "new_event a ty m s f l c fs n meta = Inr e \<Longrightarrow> event_valid e"
  unfolding new_event_def by (rule from_dict_valid)

lemma trigger_event_valid: "event_of_trigger a t n = Inr e \<Longrightarrow> event_valid e"
  by (auto simp: event_of_trigger_def Let_def bind_res_eq_Inr case_prod_beta intro: new_event_valid)

lemma build_valid: "build_parsed_event a entries = Inr e \<Longrightarrow> event_valid e"
  by (auto simp: build_parsed_event_def Let_def split: if_splits json.splits
      intro: new_event_valid trigger_event_valid)

lemma parse_log_result:
  assumes "parse_log env a db = (x, db', q)"
  shows "case x of Inr d \<Rightarrow> q = [d] \<and> (\<exists>e. d = to_dict e \<and> event_valid e) | Inl _ \<Rightarrow> q = []"
  using assms build_valid
  by (auto simp: parse_log_def Let_def split: sum.splits option.splits)

text \<open>C24: whatever S3, the object, the database and the broker do at each attempt, the
  task ends within six attempts, and it has queued exactly one \<open>run_agent\<close> task with a dictionary that
  \<open>run_agent\<close> validates to a well-formed event, or, when it failed, none.\<close>

theorem parse_log_feeds_run_agent:
  assumes "parse_log_task env a db = (x, db', q, k)"
  shows "1 \<le> k \<and> k \<le> 6 \<and>
    (case x of Inr d \<Rightarrow> q = [d] \<and> (\<exists>e. from_dict d = Inr e \<and> event_valid e) | Inl _ \<Rightarrow> q = [])"
proof -
  have "n < k \<and> k \<le> n + 1 + left \<and>
    (case x of Inr d \<Rightarrow> q = [d] \<and> (\<exists>e. d = to_dict e \<and> event_valid e) | Inl _ \<Rightarrow> q = [])"
    if "attempts left env a n db = (x, db', q, k)" for left n db
    using that
  proof (induction left arbitrary: n db q)
    case 0
    obtain y db1 q1 where p: "parse_log (env n) a db = (y, db1, q1)" by (metis prod_cases3)
    from parse_log_result [OF p] 0 p show ?case by (cases y) auto
  next
    case (Suc left)
    obtain y db1 q1 where p: "parse_log (env n) a db = (y, db1, q1)" by (metis prod_cases3)
    show ?case
    proof (cases y)
      case (Inr d)
      from parse_log_result [OF p] Suc.prems p Inr show ?thesis by auto
    next
      case (Inl e)
      with parse_log_result [OF p] have q1: "q1 = []" by simp
      show ?thesis
      proof (cases "retried e")
        case True
        with Suc.prems p Inl q1 have "attempts left env a (n + 1) db1 = (x, db', q, k)"
          by (auto split: prod.splits)
        from Suc.IH [OF this] show ?thesis by auto
      next
        case False
        with Suc.prems p Inl q1 show ?thesis by auto
      qed
    qed
  qed
  from this [of PARSE_RETRIES 0 db] assms from_dict_to_dict show ?thesis
    unfolding parse_log_task_def PARSE_RETRIES_def by (auto split: sum.splits)
qed

text \<open>An object that is missing is asked for six times, although the source calls that
  failure permanent; a failure that passes, like S3 asking to slow down, is not retried at all, although the source
  says that transient failures are.\<close>

theorem missing_object_retried:
  assumes "\<forall>k. pv_s3 (env k) (py_str (pa_s3_path a)) = S3ClientError code"
  shows "parse_log_task env a db =
    (if code = ''NoSuchKey'' then (Inl (OSErr ''FileNotFoundError''), db, [], 6)
     else (Inl (OtherError ''RuntimeError''), db, [], 1))"
proof -
  have once: "parse_log (env k) a db =
      (Inl (if code = ''NoSuchKey'' then OSErr ''FileNotFoundError'' else OtherError ''RuntimeError''), db, [])" for k
    using assms by (simp add: parse_log_def fetch_compressed_context_def)
  have "attempts left env a n db =
    (if code = ''NoSuchKey'' then (Inl (OSErr ''FileNotFoundError''), db, [], n + left + 1)
     else (Inl (OtherError ''RuntimeError''), db, [], n + 1))" for left n
  proof (induction left arbitrary: n)
    case 0
    show ?case by (subst attempts.simps) (simp add: once)
  next
    case (Suc left)
    show ?case by (subst attempts.simps) (simp add: once retried_def Suc.IH del: attempts.simps)
  qed
  then show ?thesis by (simp add: parse_log_task_def PARSE_RETRIES_def)
qed

subsection \<open>Tracebacks\<close>

definition frame_line :: "stack_frame \<Rightarrow> string" where
  "frame_line f = ''  '' @ ''File'' @ '' '' @ CHR 0x22 # sf_file f @ CHR 0x22 # '','' @ '' '' @ ''line'' @ '' '' @
     digits (nat (sf_line f)) @ '','' @ '' '' @ ''in'' @ '' '' @ sf_method f"

text \<open>A frame that a traceback of Python can have.\<close>

definition python_ok :: "stack_frame \<Rightarrow> bool" where
  "python_ok f \<longleftrightarrow> sf_file f \<noteq> [] \<and> list_all (\<lambda>c. c \<noteq> CHR 0x22 \<and> \<not> is_line_break c) (sf_file f) \<and>
     0 \<le> sf_line f \<and> sf_method f \<noteq> [] \<and> list_all (\<lambda>c. \<not> is_space c) (sf_method f) \<and>
     sf_module f = [] \<and> sf_code_context f = []"

lemma digit_dec: "n < 10 \<Longrightarrow> is_dec (''0123456789'' ! n)"
proof -
  assume "n < (10 :: nat)"
  then have "n = 0 \<or> n = 1 \<or> n = 2 \<or> n = 3 \<or> n = 4 \<or> n = 5 \<or> n = 6 \<or> n = 7 \<or> n = 8 \<or> n = 9" by presburger
  then show ?thesis by (elim disjE) (simp_all add: is_dec_def)
qed

lemma digits_dec: "list_all is_dec (digits n)"
  by (induction n rule: digits.induct) (subst digits.simps, auto simp: digit_dec)

lemma digits_nonempty: "digits n \<noteq> []"
  by (subst digits.simps) simp

lemma strip_no_space: "list_all (\<lambda>c. \<not> is_space c) s \<Longrightarrow> strip s = s"
proof -
  assume s: "list_all (\<lambda>c. \<not> is_space c) s"
  then have "dropWhile is_space t = t" if "set t \<subseteq> set s" for t
    using that by (cases t) (auto simp: list_all_iff)
  then show ?thesis by (simp add: strip_def)
qed

lemma frame_line_match:
  assumes "python_ok f"
  shows "re_match PYTHON_FRAME_RE (frame_line f) =
    Some [(3, sf_method f), (2, digits (nat (sf_line f))), (1, sf_file f)]"
proof -
  note ok = assms [unfolded python_ok_def list_all_iff]
  have m: "list_all (\<lambda>c. c \<noteq> CHR 0x0A) (sf_method f)" "\<not> is_space (hd (sf_method f))"
    using ok by (auto simp: list_all_iff is_space_def)
  have q: "list_all (\<lambda>c. c \<noteq> CHR 0x22) (sf_file f)" using ok by (auto simp: list_all_iff)
  have len: "1 \<le> length (sf_method f)" "1 \<le> length (sf_file f)" "1 \<le> length (digits (nat (sf_line f)))"
    using ok digits_nonempty [of "nat (sf_line f)"] by (auto simp: Suc_le_eq)
  have last: "run (Seq (Grp 3 (Plus (\<lambda>c. c \<noteq> CHR 0x0A))) (Seq (Many is_space) Eos)) (sf_method f @ []) g
      (\<lambda>_ g. Some g) = Some ((3, sf_method f) # g)" for g
    using m(1) len(1) by (intro run_Seq_Grp_Rep) (simp_all add: tries.simps)
  have space: "list_all is_space '' ''" "list_all is_space ''  ''" "0 \<le> length ''  ''" "1 \<le> length '' ''"
    by (simp_all add: is_space_def)
  note steps = run_Seq_Rep [OF space(1) space(4)] run_Seq_Rep [OF space(2) space(3)] run_Seq_lits run_Seq_One
    run_Seq_Grp_Rep [OF q len(2)] run_Seq_Grp_Rep [OF digits_dec len(3)] last [unfolded append_Nil2]
  have "\<not> is_space (hd (''line'' @ t))" "\<not> is_space (hd (''File'' @ t))" "\<not> is_space (hd (''in'' @ t))"
    "\<not> is_space (hd (CHR 0x22 # t))" "\<not> is_space (hd (digits (nat (sf_line f)) @ t))" for t
    using digits_dec [of "nat (sf_line f)"] digits_nonempty [of "nat (sf_line f)"]
    by (simp_all add: is_space_def, cases "digits (nat (sf_line f))") (auto simp: is_dec_def)
  note heads = this m(2)
  have "\<not> is_dec (hd ('','' @ t))" for t by (simp add: is_dec_def)
  with heads show ?thesis
    unfolding re_match_def PYTHON_FRAME_RE_def frame_line_def
    by (intro steps disjI2) (simp_all only: append_Cons append_Nil list.sel simp_thms)
qed

lemma frame_line_frame: "python_ok f \<Longrightarrow> python_frame (frame_line f) = Some f"
proof -
  assume f: "python_ok f"
  then have "strip (sf_method f) = sf_method f" "0 \<le> sf_line f" "sf_module f = []" "sf_code_context f = []"
    by (simp_all add: python_ok_def strip_no_space)
  then show ?thesis
    by (simp add: python_frame_def frame_line_match [OF f] group_def digits_val_digits)
qed

text \<open>Lines, each ended by a newline.\<close>

lemma splitlines_lines:
  assumes "\<forall>l \<in> set ls. list_all (\<lambda>c. \<not> is_line_break c) l"
  shows "splitlines (concat (map (\<lambda>l. l @ [CHR 0x0A]) ls)) = ls"
  using assms
proof (induction ls)
  case Nil
  show ?case by (simp add: splitlines.simps)
next
  case (Cons l ls)
  let ?r = "concat (map (\<lambda>l. l @ [CHR 0x0A]) ls)"
  have l: "list_all (\<lambda>c. \<not> is_line_break c) l" and ls: "splitlines ?r = ls" using Cons by simp_all
  have "is_line_break (CHR 0x0A)" by (simp add: is_line_break_def)
  then have "takeWhile (\<lambda>c. \<not> is_line_break c) (l @ CHR 0x0A # ?r) = l"
    "dropWhile (\<lambda>c. \<not> is_line_break c) (l @ CHR 0x0A # ?r) = CHR 0x0A # ?r"
    using l by (simp_all add: list_all_iff)
  then show ?case using ls by (subst splitlines.simps) simp
qed

lemma line_break_space: "is_line_break c \<Longrightarrow> is_space c"
  by (auto simp: is_line_break_def is_space_def)

lemma frame_line_whole: "python_ok f \<Longrightarrow> list_all (\<lambda>c. \<not> is_line_break c) (frame_line f)"
proof -
  assume f: "python_ok f"
  have "\<not> is_line_break c" if "is_dec c" for c
    using that by (auto simp: is_line_break_def is_dec_def)
  then have "list_all (\<lambda>c. \<not> is_line_break c) (digits (nat (sf_line f)))"
    using digits_dec [of "nat (sf_line f)"] by (auto simp: list_all_iff)
  moreover have "list_all (\<lambda>c. \<not> is_line_break c) (sf_method f)" "list_all (\<lambda>c. \<not> is_line_break c) (sf_file f)"
    using f line_break_space by (auto simp: python_ok_def list_all_iff)
  ultimately show ?thesis by (simp add: frame_line_def is_line_break_def)
qed

text \<open>A traceback: frames, outermost first, among other lines.\<close>

definition traceback :: "(stack_frame + string) list \<Rightarrow> string" where
  "traceback ls = concat (map (\<lambda>l. (case l of Inl f \<Rightarrow> frame_line f | Inr t \<Rightarrow> t) @ [CHR 0x0A]) ls)"

definition frames_in :: "(stack_frame + string) list \<Rightarrow> stack_frame list" where
  "frames_in ls = List.map_filter (\<lambda>l. case l of Inl f \<Rightarrow> Some f | Inr t \<Rightarrow> None) ls"

lemma parse_traceback:
  assumes "\<forall>f. Inl f \<in> set ls \<longrightarrow> python_ok f"
    and "\<forall>t. Inr t \<in> set ls \<longrightarrow> list_all (\<lambda>c. \<not> is_line_break c) t \<and> re_match PYTHON_FRAME_RE t = None"
  shows "parse_python_text (traceback ls) = rev (take 20 (frames_in ls))"
proof -
  let ?text = "\<lambda>l. case l of Inl f \<Rightarrow> frame_line f | Inr t \<Rightarrow> t"
  have "traceback ls = concat (map (\<lambda>l. l @ [CHR 0x0A]) (map ?text ls))"
    by (simp add: traceback_def comp_def)
  moreover have "\<forall>l \<in> set (map ?text ls). list_all (\<lambda>c. \<not> is_line_break c) l"
    using assms frame_line_whole by (auto split: sum.splits)
  ultimately have "splitlines (traceback ls) = map ?text ls" by (metis splitlines_lines)
  moreover have "List.map_filter python_frame (map ?text ls) = frames_in ls"
    using assms
  proof (induction ls)
    case (Cons l ls)
    then show ?case
      by (cases l) (auto simp: frames_in_def map_filter_simps frame_line_frame, simp add: python_frame_def)
  qed (simp add: frames_in_def map_filter_simps)
  ultimately show ?thesis by (simp add: parse_python_text_def MAX_STACK_FRAMES_def)
qed

text \<open>C25: from a traceback of Python with up to twenty frames the parser reads back exactly its
  frames, innermost first, whatever lines stand between them; of a longer one it keeps the twenty outermost, so
  the frame that raised, the last one, is lost and another is reported as the place of the crash.\<close>

theorem traceback_roundtrip:
  assumes "\<forall>f. Inl f \<in> set ls \<longrightarrow> python_ok f"
    and "\<forall>t. Inr t \<in> set ls \<longrightarrow> list_all (\<lambda>c. \<not> is_line_break c) t \<and> re_match PYTHON_FRAME_RE t = None"
  shows "(length (frames_in ls) \<le> 20 \<longrightarrow> parse_python_text (traceback ls) = rev (frames_in ls)) \<and>
    (20 < length (frames_in ls) \<longrightarrow> hd (parse_python_text (traceback ls)) = frames_in ls ! 19)"
proof -
  have "last (take 20 (frames_in ls)) = frames_in ls ! 19" if "20 < length (frames_in ls)"
    using that by (subst last_conv_nth) auto
  with parse_traceback [OF assms] show ?thesis by (auto simp: hd_rev)
qed

subsection \<open>From the SDK to the agent\<close>

text \<open>What has to hold of a log beyond its schema: no negative line, and a name of the exception that fits.\<close>

definition frame_fits :: "json \<Rightarrow> bool" where
  "frame_fits f \<longleftrightarrow> (case jget ''line'' f of JInt n \<Rightarrow> 0 \<le> n | _ \<Rightarrow> True)"

definition trigger_fits :: "json \<Rightarrow> bool" where
  "trigger_fits t \<longleftrightarrow> (let s = jget ''stack_trace'' t in
     length (py_str (jget ''exception_type'' s)) \<le> 255 \<and> list_all frame_fits (jarr (jget ''frames'' s)))"

lemma frame_model_dump:
  assumes "frame_model as_int v = Inr d" "frame_fits d"
  shows "\<exists>f. sdk_frame d = Inr f"
proof -
  from assms(1) obtain f n g c where
    d: "d = JObj [(''file'', JStr f), (''line'', JInt n), (''function'', JStr g), (''code'', jopt JStr c)]"
    unfolding frame_model_def bind_res_eq_Inr by blast
  with assms(2) have "0 \<le> n" by (simp add: frame_fits_def)
  then show ?thesis
    by (cases c) (auto simp: d sdk_frame_def get_default_def py_or_def frame_of_def frame_from_def
        Parsed_Log_Event.str_field_def coerce_line_to_int_def)
qed

lemma frames_total: "\<forall>x \<in> set xs. \<exists>y. f x = Inr y \<Longrightarrow> \<exists>ys. map_res f xs = Inr ys"
  by (induction xs) fastforce+

lemma trace_frames:
  assumes "trace_model as_int v = Inr s" "list_all frame_fits (jarr (jget ''frames'' s))"
  shows "\<exists>fs. frames_of_trace s = Inr fs"
proof -
  from assms(1) obtain t m xs fs where fs: "each (frame_model as_int) xs = Inr fs"
    and s: "s = JObj [(''exception_type'', JStr t), (''exception_message'', JStr m), (''frames'', JArr fs)]"
    unfolding trace_model_def bind_res_eq_Inr by blast
  have "\<forall>d \<in> set fs. \<exists>f. sdk_frame d = Inr f"
    using each_all [OF fs] frame_model_dump assms(2) s by (fastforce simp: list_all_iff)
  with frames_total show ?thesis by (fastforce simp: s frames_of_trace_def)
qed

lemma extract_fits: "length (extract_error_type m) \<le> 255"
  by (simp add: extract_error_type_def split: option.splits)

lemma type_fits:
  assumes "length (py_str (jget ''exception_type'' trace)) \<le> 255" "length ty \<le> 255"
  shows "\<exists>x. fst (type_and_message (JStr ty) trace m) = JStr x \<and> length x \<le> 255"
  using assms extract_fits [of m] by (auto simp: type_and_message_def)

lemma new_event_total:
  assumes "lr_service_name r \<noteq> []" "length (lr_service_name r) \<le> 255"
    and "lr_environment r \<noteq> []" "length (lr_environment r) \<le> 64"
    and "length x \<le> 255" "0 \<le> line" "\<forall>f \<in> set fs. 0 \<le> sf_line f"
    and "meta = JNull \<or> (\<exists>kvs. meta = JObj kvs)"
  shows "\<exists>e. new_event (task_of t r key) (JStr x) (JStr m) sev (JStr file) (JInt line) (JStr meth) fs n meta = Inr e \<and>
           pe_incident_id e = lr_incident_id r \<and> pe_tenant_id e = t \<and> pe_s3_path e = key"
proof -
  have "list_all (\<lambda>f. 0 \<le> sf_line f) (take 20 fs)"
    using assms(7) by (auto simp: list_all_iff dest: in_set_takeD)
  then have "map_res frame_from (cap_stack_frames (JArr (map frame_dump fs))) = Inr (take 20 fs)"
    by (simp add: cap_stack_frames_def take_map map_res_frames)
  then show ?thesis
    using assms
    by (auto simp: new_event_def from_dict_def task_of_def Parsed_Log_Event.str_field_def len_between_def
        Parsed_Log_Event.int_field_def sdk_meta_field_def Suc_le_eq)
qed

lemma crash_site_typed:
  assumes "case n of None \<Rightarrow> True | Some i \<Rightarrow> 0 \<le> i" "\<forall>f \<in> set fs. 0 \<le> sf_line f"
  shows "\<exists>file line meth. crash_site (jopt JStr p) (jopt JInt n) fs = (JStr file, JInt line, JStr meth) \<and> 0 \<le> line"
  using assms by (cases p; cases n; cases fs) (auto simp: crash_site_def py_or_def)

lemma max_length_Inr: "max_length k n x = Inr s \<Longrightarrow> length s \<le> n"
  by (auto simp: max_length_def bind_res_eq_Inr split: if_splits)

lemma request_lengths:
  assumes "log_ingest_request as_int body = Inr r"
  shows "length (lr_service_name r) \<le> 255" "length (lr_environment r) \<le> 64" "length (lr_error_type r) \<le> 255"
  using assms unfolding log_ingest_request_def bind_res_eq_Inr by (elim exE conjE, force dest: max_length_Inr)+

lemma request_meta:
  assumes "log_ingest_request as_int body = Inr r"
  shows "jopt id (lr_sdk_meta r) = JNull \<or> (\<exists>kvs. jopt id (lr_sdk_meta r) = JObj kvs)"
proof -
  have object: "\<exists>kvs. d = JObj kvs" if "meta_model v = Inr d" for v d
    using that unfolding meta_model_def bind_res_eq_Inr by blast
  show ?thesis
  proof (cases "lr_sdk_meta r")
    case (Some d)
    with request_fields(2) [OF assms] have "meta_model (jget ''sdk_meta'' body) = Inr d"
      by (auto simp: body_optional_def bind_res_eq_Inr split: if_splits)
    from object [OF this] Some show ?thesis by simp
  qed simp
qed

lemma frames_lines: "frames_of_trace s = Inr fs \<Longrightarrow> s = JNull \<or> (\<exists>v. trace_model as_int v = Inr s) \<Longrightarrow>
    \<forall>f \<in> set fs. 0 \<le> sf_line f"
proof (elim disjE exE)
  fix v assume fs: "frames_of_trace s = Inr fs" and v: "trace_model as_int v = Inr s"
  from v obtain t m ds where
    s: "s = JObj [(''exception_type'', JStr t), (''exception_message'', JStr m), (''frames'', JArr ds)]"
    unfolding trace_model_def bind_res_eq_Inr by blast
  have "map_res sdk_frame ds = Inr fs" using fs by (simp add: s frames_of_trace_def)
  moreover have "0 \<le> sf_line f" if "sdk_frame d = Inr f" for d f
    using that by (auto simp: sdk_frame_def frame_of_def dest: frame_from_line split: json.splits)
  moreover have "map_res g xs = Inr ys \<Longrightarrow> \<forall>y \<in> set ys. \<exists>x. g x = Inr y" for g :: "json \<Rightarrow> stack_frame res" and xs ys
    by (induction xs arbitrary: ys) (auto simp: bind_res_eq_Inr)
  ultimately show ?thesis by blast
qed (auto simp: frames_of_trace_def parse_stack_frames_def)

lemma trigger_builds:
  assumes "log_ingest_request as_int body = Inr r" "lr_service_name r \<noteq> []" "lr_environment r \<noteq> []"
    and "lr_trigger r = Some trig" "trigger_fits trig" "case lr_line_number r of None \<Rightarrow> True | Some n \<Rightarrow> 0 \<le> n"
  shows "\<exists>e. build_parsed_event (task_of t r key) entries = Inr e \<and>
           pe_incident_id e = lr_incident_id r \<and> pe_tenant_id e = t \<and> pe_s3_path e = key"
proof -
  have "trigger_model as_int (jget ''trigger'' body) = Inr trig"
    using request_fields(1) [OF assms(1)] assms(4) by (auto simp: body_optional_def bind_res_eq_Inr split: if_splits)
  then obtain l m ts sx v where sx: "body_optional (trace_model as_int) v = Inr sx" and
    trig: "trig = JObj [(''level'', JStr l), (''message'', JStr m), (''timestamp'', JStr ts), (''stack_trace'', jopt id sx)]"
    unfolding trigger_model_def bind_res_eq_Inr by blast
  define s where "s = jopt id sx"
  have s: "s = JNull \<or> (\<exists>v. trace_model as_int v = Inr s)"
    using sx by (auto simp: s_def body_optional_def bind_res_eq_Inr split: if_splits)
  have trace: "py_or (jget ''stack_trace'' trig) (jget ''stackTrace'' trig) = s"
  proof -
    have "truthy s \<or> s = JNull" using s unfolding trace_model_def bind_res_eq_Inr by auto
    then show ?thesis by (auto simp: trig py_or_def s_def)
  qed
  have fits: "length (py_str (jget ''exception_type'' s)) \<le> 255" "list_all frame_fits (jarr (jget ''frames'' s))"
    using assms(5) by (simp_all add: trigger_fits_def trig s_def Let_def)
  obtain fs where fs: "frames_of_trace s = Inr fs"
    using s trace_frames [OF _ fits(2)] by (auto simp: frames_of_trace_def parse_stack_frames_def)
  note lines = frames_lines [OF fs s]
  obtain x where ty: "fst (type_and_message (JStr (lr_error_type r)) s (str_of ''message'' [] trig)) = JStr x"
    "length x \<le> 255" using type_fits [OF fits(1) request_lengths(3) [OF assms(1)]] by blast
  obtain path line meth where site: "crash_site (jopt JStr (lr_file_path r)) (jopt JInt (lr_line_number r)) fs =
      (JStr path, JInt line, JStr meth)" "0 \<le> line" using crash_site_typed [OF assms(6) lines] by blast
  note total = new_event_total [OF assms(2) request_lengths(1) [OF assms(1)] assms(3) request_lengths(2) [OF assms(1)]
      ty(2) site(2) lines request_meta [OF assms(1)], of t key _ _ path meth]
  have args: "pa_trigger (task_of t r key) = trig" "pa_error_type (task_of t r key) = JStr (lr_error_type r)"
    "pa_file_path (task_of t r key) = jopt JStr (lr_file_path r)"
    "pa_line_number (task_of t r key) = jopt JInt (lr_line_number r)"
    "pa_sdk_meta (task_of t r key) = jopt id (lr_sdk_meta r)"
    by (simp_all add: task_of_def assms(4))
  have "truthy trig" by (simp add: trig)
  then have "build_parsed_event (task_of t r key) entries = event_of_trigger (task_of t r key) trig (length entries)"
    by (simp add: build_parsed_event_def args Let_def) (simp add: trig)
  also have "\<dots> = (case type_and_message (JStr (lr_error_type r)) s (str_of ''message'' [] trig) of
      (ty, message) \<Rightarrow> new_event (task_of t r key) ty (JStr message) (JStr (str_of ''level'' ''unknown'' trig))
        (JStr path) (JInt line) (JStr meth) fs (length entries) (jopt id (lr_sdk_meta r)))"
    by (simp add: event_of_trigger_def args trace fs site(1) Let_def)
  finally show ?thesis using ty(1) total by (simp add: case_prod_beta)
qed

lemma context_decodes:
  assumes "loads (dumps (ie_float_repr env) (JArr (lr_context_logs r))) = Some (JArr (lr_context_logs r))"
    and "\<forall>t. gunzip (ie_gzip env t) = Some t"
  shows "decompress_and_parse gunzip (compress_context_logs env (lr_context_logs r)) = Inr (lr_context_logs r)"
  using assms by (simp add: decompress_and_parse_def compress_context_logs_def)

text \<open>C23: take an accepted log that names its service and its environment, with a
  trigger in which no line is negative and no name of an exception overlong, and with context logs that
  \<open>json.loads\<close> reads back from what \<open>json.dumps\<close> writes for them.  When its object is still in the bucket,
  gzip decompresses what it compressed and the broker takes the task, the first attempt of \<open>parse_log\<close> queues
  exactly one \<open>run_agent\<close> task, whose event, as \<open>run_agent\<close> validates it, is for the tenant and the incident of
  the log.  (A log with an empty environment is accepted too, but \<open>accepted_log_is_parsed\<close> shows that it
  never gets here.)\<close>

theorem accepted_log_reaches_run_agent:
  assumes "log_ingest_request as_int body = Inr r" and "lr_service_name r \<noteq> []" and "lr_environment r \<noteq> []"
    and "lr_trigger r = Some trig" and "trigger_fits trig" and "case lr_line_number r of None \<Rightarrow> True | Some n \<Rightarrow> 0 \<le> n"
    and "es_inv (iw_breaker w)" and "ingest_logs env tenant r w = (Inr p, w')"
    and "loads (dumps (ie_float_repr env) (JArr (lr_context_logs r))) = Some (JArr (lr_context_logs r))"
    and "\<forall>k. pv_s3 (pe 0) k = (case iw_s3 w' k of Some b \<Rightarrow> Body b | None \<Rightarrow> S3ClientError ''NoSuchKey'')"
    and "\<forall>t. pv_gunzip (pe 0) (ie_gzip env t) = Some t" and "\<forall>d. pv_broker (pe 0) d = None"
  shows "\<exists>e db'. parse_log_task pe (task_of (tc_tenant_id tenant) r (rp_s3_path p)) db =
             (Inr (to_dict e), db', [to_dict e], 1) \<and> from_dict (to_dict e) = Inr e \<and>
           pe_incident_id e = lr_incident_id r \<and> pe_tenant_id e = tc_tenant_id tenant \<and> pe_s3_path e = rp_s3_path p"
proof -
  let ?t = "tc_tenant_id tenant"
  let ?key = "build_s3_key ?t (lr_incident_id r)"
  let ?a = "task_of ?t r ?key"
  have p: "rp_s3_path p = ?key"
    using assms(8) by (auto simp: ingest_logs_def Let_def split: option.splits if_splits sum.splits prod.splits)
  from ingest_outcome [OF assms(8,7) refl refl]
  have "pv_s3 (pe 0) ?key = Body (compress_context_logs env (lr_context_logs r))" using assms(10) by simp
  then have entries: "bind_res (fetch_compressed_context (pv_s3 (pe 0) (py_str (pa_s3_path ?a))))
      (decompress_and_parse (pv_gunzip (pe 0))) = Inr (lr_context_logs r)"
    using context_decodes [OF assms(9,11)] by (simp add: task_of_def fetch_compressed_context_def)
  obtain e where e: "build_parsed_event ?a (lr_context_logs r) = Inr e" "pe_incident_id e = lr_incident_id r"
    "pe_tenant_id e = ?t" "pe_s3_path e = ?key"
    using trigger_builds [OF assms(1-6)] by blast
  obtain db' where "parse_log (pe 0) ?a db = (Inr (to_dict e), db', [to_dict e])"
    using entries e(1) assms(12) by (simp add: parse_log_def Let_def)
  then have "parse_log_task pe ?a db = (Inr (to_dict e), db', [to_dict e], 1)"
    by (simp add: parse_log_task_def)
  with e from_dict_to_dict [OF build_valid [OF e(1)]] p show ?thesis by auto
qed

subsection \<open>A sample\<close>

definition sample_parse_env :: "(string \<Rightarrow> string s3_answer) \<Rightarrow> nat \<Rightarrow> string parse_env" where
  "sample_parse_env s3 = (\<lambda>_. \<lparr>pv_s3 = s3, pv_gunzip = Some, pv_event_id = row_a, pv_fresh = row_a, pv_now = 0,
     pv_db_error = None, pv_broker = (\<lambda>_. None)\<rparr>)"

lemma parse_log_feeds_run_agent_witness:
  "\<exists>x db' q k. parse_log_task (sample_parse_env (\<lambda>_. S3ClientError ''SlowDown''))
       (task_of tenant_a pay_log ''k'') (empty_db2 True) = (x, db', q, k) \<and> 1 \<le> k \<and> k \<le> 6"
proof -
  obtain x db' q k where run: "parse_log_task (sample_parse_env (\<lambda>_. S3ClientError ''SlowDown''))
       (task_of tenant_a pay_log ''k'') (empty_db2 True) = (x, db', q, k)" by (metis prod_cases4)
  from parse_log_feeds_run_agent [OF run] run show ?thesis by blast
qed

lemma missing_object_retried_witness:
  "parse_log_task (sample_parse_env (\<lambda>_. S3ClientError ''NoSuchKey'')) (task_of tenant_a pay_log ''k'') (empty_db2 True) =
     (Inl (OSErr ''FileNotFoundError''), empty_db2 True, [], 6)"
  using missing_object_retried [of "sample_parse_env (\<lambda>_. S3ClientError ''NoSuchKey'')" "task_of tenant_a pay_log ''k''"
      "''NoSuchKey''" "empty_db2 True"]
  by (simp add: sample_parse_env_def)

definition sample_frame :: "string \<Rightarrow> stack_frame" where
  "sample_frame g = \<lparr>sf_file = ''a.py'', sf_line = 7, sf_method = g, sf_module = [], sf_code_context = []\<rparr>"

text \<open>Twenty-one frames: the one that raised is lost.\<close>

lemma traceback_roundtrip_witness:
  "hd (parse_python_text (traceback (Inr ''Traceback'' # map Inl (replicate 20 (sample_frame ''f'') @ [sample_frame ''g''])))) =
     sample_frame ''f''"
proof -
  let ?ls = "Inr ''Traceback'' # map Inl (replicate 20 (sample_frame ''f'') @ [sample_frame ''g''])"
  have ok: "python_ok (sample_frame ''f'')" "python_ok (sample_frame ''g'')"
    by (simp_all add: python_ok_def sample_frame_def is_line_break_def is_space_def)
  have frames: "frames_in ?ls = replicate 20 (sample_frame ''f'') @ [sample_frame ''g'']"
  proof -
    have "frames_in (map Inl fs) = fs" for fs
      by (induction fs) (simp_all add: frames_in_def map_filter_simps)
    moreover have "frames_in (Inr t # ls) = frames_in ls" for t ls by (simp add: frames_in_def map_filter_simps)
    ultimately show ?thesis by (simp only:)
  qed
  have fs: "\<forall>f. Inl f \<in> set ?ls \<longrightarrow> python_ok f" using ok by auto
  have ts: "\<forall>t. Inr t \<in> set ?ls \<longrightarrow>
      list_all (\<lambda>c. \<not> is_line_break c) t \<and> re_match PYTHON_FRAME_RE t = None"
    by (auto simp: is_line_break_def re_match_def PYTHON_FRAME_RE_def is_space_def lits_def tries.simps)
  have "20 < length (frames_in ?ls)" "frames_in ?ls ! 19 = sample_frame ''f''"
    unfolding frames by (simp_all add: nth_append)
  with conjunct2 [OF traceback_roundtrip [OF fs ts]] show ?thesis by (simp only: simp_thms)
qed

lemma accepted_log_reaches_run_agent_witness:
  "\<exists>p w' e db'. ingest_logs pay_env pay_tenant pay_log pay_world = (Inr p, w') \<and>
     parse_log_task (sample_parse_env (\<lambda>k. case iw_s3 w' k of Some b \<Rightarrow> Body b | None \<Rightarrow> S3ClientError ''NoSuchKey''))
       (task_of tenant_a pay_log (rp_s3_path p)) (empty_db2 True) = (Inr (to_dict e), db', [to_dict e], 1) \<and>
     pe_incident_id e = row_a"
proof -
  obtain p w' where run: "ingest_logs pay_env pay_tenant pay_log pay_world = (Inr p, w')"
    using pay_accepted by blast
  obtain trig where trig: "lr_trigger pay_log = Some trig" "trigger_fits trig"
    by (simp add: pay_log_def trigger_fits_def frame_fits_def Let_def)
  have ne: "lr_service_name pay_log \<noteq> []" "lr_environment pay_log \<noteq> []"
    "case lr_line_number pay_log of None \<Rightarrow> True | Some n \<Rightarrow> 0 \<le> n" "loads (dumps (ie_float_repr pay_env) (JArr (lr_context_logs pay_log))) = Some (JArr (lr_context_logs pay_log))"
    "lr_incident_id pay_log = row_a" "tc_tenant_id pay_tenant = tenant_a" "\<forall>t. Some (ie_gzip pay_env t) = Some t"
    using loads_dumps [of "JArr []" "ie_float_repr pay_env"]
    by (simp_all add: pay_log_def pay_tenant_def pay_env_def)
  let ?pe = "sample_parse_env (\<lambda>k. case iw_s3 w' k of Some b \<Rightarrow> Body b | None \<Rightarrow> S3ClientError ''NoSuchKey'')"
  have pe: "\<forall>k. pv_s3 (?pe 0) k = (case iw_s3 w' k of Some b \<Rightarrow> Body b | None \<Rightarrow> S3ClientError ''NoSuchKey'')"
    "\<forall>t. pv_gunzip (?pe 0) (ie_gzip pay_env t) = Some t" "\<forall>d. pv_broker (?pe 0) d = None"
    using ne(7) by (simp_all add: sample_parse_env_def)
  from accepted_log_reaches_run_agent [where pe = ?pe and db = "empty_db2 True",
      OF pay_request ne(1,2) trig ne(3) pay_breaker run ne(4) pe] ne(5,6) run show ?thesis by auto
qed

end
