(* ===== verification/Incident_Api_Spec.thy ===== *)
theory Incident_Api_Spec
  imports Incident_Api Parse_Log_Spec "HOL-Library.Multiset"
begin

text \<open>
  What the REST API promises of incidents: every accepted update is one step of the life cycle, written
  together with its event; nobody unassigns somebody else; the pages of a list are a partition of the
  incidents that match; frames stored as text are read back.
\<close>

subsection \<open>Updates\<close>

lemma each_map: "each f xs = Inr ys \<Longrightarrow> length ys = length xs \<and> list_all2 (\<lambda>x y. f x = Inr y) xs ys"
  by (induction xs arbitrary: ys) (auto simp: bind_res_eq_Inr)

lemma fetch_incident_Inr:
  "fetch_incident t x db = Inr i \<Longrightarrow> i \<in> set (incidents db) \<and> known_by t x i \<and> i_tenant_id i = t"
proof -
  assume f: "fetch_incident t x db = Inr i"
  then have "filter (known_by t x) (incidents db) = [i]"
    by (auto simp: fetch_incident_def scalar_one_or_none_def split: list.splits option.splits)
  then have "i \<in> set (filter (known_by t x) (incidents db))" by simp
  then show ?thesis by (simp add: known_by_def)
qed

definition put_incident :: "incident \<Rightarrow> incident list \<Rightarrow> incident list" where
  "put_incident i rows = map (\<lambda>j. if i_id j = i_id i then i else j) rows"

lemma updated_simps [simp]:
  "i_id (updated now r us i) = i_id i" "i_tenant_id (updated now r us i) = i_tenant_id i"
  "i_fingerprint (updated now r us i) = i_fingerprint i" "i_assigned_user_ids (updated now r us i) = us"
  "i_status (updated now r us i) = get_or (ur_status r) (i_status i)"
  "i_resolved_at (updated now r us i) = (if ur_status r = Some ''resolved'' then Some now else i_resolved_at i)"
  by (simp_all add: updated_def)

lemma update_row_Inr:
  "update_row i db = Inr db' \<longleftrightarrow>
     \<not> (uq_active db \<and> i_status i \<noteq> ''resolved'' \<and>
        (\<exists>j \<in> set (active_incidents (i_tenant_id i) (i_fingerprint i) db). i_id j \<noteq> i_id i)) \<and>
     db' = db\<lparr>incidents := put_incident i (incidents db)\<rparr>"
  by (auto simp: update_row_def put_incident_def)

lemma update_cases:
  assumes "update_incident env tenant x raw r db w = (res, db', w')"
  obtains e where "res = Inl e" "db' = db"
  | a i us ev where "res = Inr a" "fetch_incident (tc_tenant_id tenant) x db = Inr i" "us = assigned_after raw r i"
    "check_transition (i_status i) (ur_status r) = Inr ()" "check_unassignment r i us = Inr ()"
    "update_row (updated (pt_now env) r us i) db = Inr (db\<lparr>incidents := incidents db'\<rparr>)"
    "db' = db\<lparr>incidents := put_incident (updated (pt_now env) r us i) (incidents db), outbox := outbox db @ [ev]\<rparr>"
    "ob_payload ev = updated_payload env (tc_tenant_id tenant) r i us" "ob_topic ev = ''incidents.updated''"
proof (cases res)
  case (Inl e)
  with assms have "db' = db"
    by (auto simp: update_incident_def Let_def split: sum.splits prod.splits)
  with Inl that(1) show ?thesis by blast
next
  case (Inr a)
  let ?t = "tc_tenant_id tenant"
  from assms Inr obtain i us ev db1 db2 where
    i: "fetch_incident ?t x db = Inr i" and us: "us = assigned_after raw r i" and
    ok: "check_transition (i_status i) (ur_status r) = Inr ()" "check_unassignment r i us = Inr ()" and
    row: "update_row (updated (pt_now env) r us i) db = Inr db1" and
    ev: "write_outbox (pt_event_id env) (pt_now env) ''incidents.updated'' ?t (updated_payload env ?t r i us) = Inr ev" and
    ins: "insert_outbox ev db1 = Inr db2" and db': "db' = db2"
    by (auto simp: update_incident_def Let_def bind_res_eq_Inr split: sum.splits prod.splits option.splits)
  have "db1 = db\<lparr>incidents := put_incident (updated (pt_now env) r us i) (incidents db)\<rparr>"
    using row by (simp add: update_row_Inr)
  with insert_outbox_InrD [OF ins] db'
  have "db' = db\<lparr>incidents := put_incident (updated (pt_now env) r us i) (incidents db), outbox := outbox db @ [ev]\<rparr>"
    by simp
  moreover from this row have "update_row (updated (pt_now env) r us i) db = Inr (db\<lparr>incidents := incidents db'\<rparr>)"
    by (simp add: update_row_Inr)
  moreover have "ob_payload ev = updated_payload env ?t r i us" "ob_topic ev = ''incidents.updated''"
    using ev by (auto simp: write_outbox_def bind_res_eq_Inr)
  ultimately show ?thesis using that(2) [OF Inr i us ok] by blast
qed

subsection \<open>The life cycle\<close>

definition STAGES :: "string list" where
  "STAGES = [''open'', ''investigating'', ''resolved'', ''closed'']"

definition life_ok :: "incident \<Rightarrow> bool" where
  "life_ok i \<longleftrightarrow> i_status i \<in> set STAGES \<and>
     (i_status i \<in> set [''resolved'', ''closed''] \<longrightarrow> i_resolved_at i \<noteq> None)"

text \<open>Any number of requests, of any tenant, accepted or not.\<close>

inductive patches :: "'w elasticsearch \<Rightarrow> db2 \<Rightarrow> db2 \<Rightarrow> bool" for E where
  none: "patches E db db"
| more: "patches E db db1 \<Longrightarrow> pt_es env = E \<Longrightarrow> incident_update_request d = Inr r \<Longrightarrow>
     update_incident env tenant x raw_body r db1 w = (res, db2, w') \<Longrightarrow> patches E db db2"

lemma transition_stage:
  assumes "check_transition s (Some s') = Inr ()" "s \<in> set STAGES"
  shows "s' \<in> set STAGES \<and> (s' = ''closed'' \<longrightarrow> s = ''resolved'')"
  using assms by (auto simp: STAGES_def check_transition_def allowed_transitions_def split: if_splits)

lemma updated_life:
  assumes "life_ok i" "check_transition (i_status i) (ur_status r) = Inr ()"
  shows "life_ok (updated now r us i)"
proof (cases "ur_status r")
  case None
  with assms(1) show ?thesis by (simp add: life_ok_def)
next
  case (Some s')
  with transition_stage [of "i_status i" s'] assms show ?thesis by (auto simp: life_ok_def)
qed

lemma put_incident_ids [simp]: "map i_id (put_incident i rows) = map i_id rows"
  by (induction rows) (auto simp: put_incident_def)

lemma index_distinct_iff:
  assumes "distinct (map i_id rows)"
  shows "distinct (map index_key (filter P rows)) \<longleftrightarrow>
    (\<forall>i \<in> set rows. \<forall>j \<in> set rows. P i \<longrightarrow> P j \<longrightarrow> i_id i \<noteq> i_id j \<longrightarrow> index_key i \<noteq> index_key j)"
proof -
  have rows: "distinct rows" and inj: "inj_on i_id (set rows)" using assms by (simp_all add: distinct_map)
  have "distinct (map index_key (filter P rows)) \<longleftrightarrow>
      (\<forall>i \<in> set rows. \<forall>j \<in> set rows. P i \<longrightarrow> P j \<longrightarrow> index_key i = index_key j \<longrightarrow> i = j)"
    using rows by (auto simp: distinct_map inj_on_def)
  also have "\<dots> \<longleftrightarrow> (\<forall>i \<in> set rows. \<forall>j \<in> set rows. P i \<longrightarrow> P j \<longrightarrow> i_id i \<noteq> i_id j \<longrightarrow> index_key i \<noteq> index_key j)"
    using inj_on_eq_iff [OF inj] by (intro ball_cong refl) auto
  finally show ?thesis .
qed

lemma put_index_ok:
  assumes "index_ok db" "distinct (map i_id (incidents db))"
    and "i_status i = ''resolved'' \<or>
      (\<forall>j \<in> set (active_incidents (i_tenant_id i) (i_fingerprint i) db). i_id j = i_id i)"
  shows "index_ok (db\<lparr>incidents := put_incident i (incidents db)\<rparr>)"
proof -
  let ?act = "\<lambda>i. i_status i \<noteq> ''resolved''"
  have old: "index_key j \<noteq> index_key k"
    if "j \<in> set (incidents db)" "k \<in> set (incidents db)" "?act j" "?act k" "i_id j \<noteq> i_id k" for j k
    using assms(1) that index_distinct_iff [OF assms(2), of ?act] by (simp add: index_ok_def)
  have new: "index_key j \<noteq> index_key i" if "j \<in> set (incidents db)" "?act j" "?act i" "i_id j \<noteq> i_id i" for j
    using assms(3) that by (auto simp: active_incidents_def active_for_def index_key_def)
  have member: "j = i \<or> j \<in> set (incidents db) \<and> i_id j \<noteq> i_id i" if "j \<in> set (put_incident i (incidents db))" for j
    using that by (auto simp: put_incident_def split: if_splits)
  have "index_key j \<noteq> index_key k"
    if "j \<in> set (put_incident i (incidents db))" "k \<in> set (put_incident i (incidents db))" "?act j" "?act k"
      "i_id j \<noteq> i_id k" for j k
    using member [OF that(1)] member [OF that(2)] old [of j k] new [of j] new [of k] that(3-5) by metis
  moreover have "distinct (map i_id (put_incident i (incidents db)))" using assms(2) by simp
  ultimately show ?thesis using index_distinct_iff [of "put_incident i (incidents db)" ?act]
    by (simp add: index_ok_def)
qed

text \<open>C26: whatever requests arrive, every incident keeps its identity and stays in one of
  the stages open, investigating, resolved and closed; it is only closed after it was resolved, so a resolved or
  closed incident has the time of its resolution; and the unique index stays satisfied.\<close>

theorem incident_life_cycle:
  assumes "patches E db db'" and "\<forall>i \<in> set (incidents db). life_ok i" and "distinct (map i_id (incidents db))"
  shows "map i_id (incidents db') = map i_id (incidents db) \<and> (\<forall>i \<in> set (incidents db'). life_ok i) \<and>
    (uq_active db \<and> index_ok db \<longrightarrow> uq_active db' \<and> index_ok db')"
  using assms
proof (induction rule: patches.induct)
  case (more db db1 env d r tenant x raw_body w res db2 w')
  note ih = more.IH [OF more.prems]
  from more.hyps(4) show ?case
  proof (cases rule: update_cases)
    case (1 e)
    with ih show ?thesis by simp
  next
    case (2 a i us ev)
    let ?i = "updated (pt_now env) r us i"
    have i: "i \<in> set (incidents db1)" "life_ok i" using fetch_incident_Inr [OF 2(2)] ih by simp_all
    have "life_ok ?i" by (rule updated_life [OF i(2) 2(4)])
    then have "\<forall>j \<in> set (put_incident ?i (incidents db1)). life_ok j" using ih by (auto simp: put_incident_def)
    moreover have "index_ok (db1\<lparr>incidents := put_incident ?i (incidents db1)\<rparr>)" if "uq_active db1" "index_ok db1"
      using 2(6) that ih more.prems(2) by (intro put_index_ok) (auto simp: update_row_Inr)
    ultimately show ?thesis using ih 2(7) by (simp add: index_ok_def)
  qed
qed simp

text \<open>C27: an accepted update changes exactly one incident, of the tenant of the request, along an
  edge of the table unless it is a draft or a duplicate, and adds exactly one event, which names the old and the
  new status; any other answer leaves the database as it was.\<close>

theorem accepted_update:
  assumes "update_incident env tenant x raw r db w = (res, db', w')"
  shows "case res of
      Inl e \<Rightarrow> db' = db
    | Inr a \<Rightarrow> \<exists>i us ev. i \<in> set (incidents db) \<and> known_by (tc_tenant_id tenant) x i \<and>
        db' = db\<lparr>incidents := put_incident (updated (pt_now env) r us i) (incidents db), outbox := outbox db @ [ev]\<rparr> \<and>
        jget ''from_status'' (jget ''payload'' (ob_payload ev)) = JStr (i_status i) \<and>
        jget ''status'' (jget ''payload'' (ob_payload ev)) = JStr (get_or (ur_status r) (i_status i)) \<and>
        (\<forall>s ss. ur_status r = Some s \<longrightarrow> allowed_transitions (i_status i) = Some ss \<longrightarrow> s \<in> set ss)"
  using assms
proof (cases rule: update_cases)
  case (2 a i us ev)
  have "s \<in> set ss" if "ur_status r = Some s" "allowed_transitions (i_status i) = Some ss" for s ss
    using 2(4) that by (auto simp: check_transition_def split: if_splits)
  with 2 fetch_incident_Inr [OF 2(2)] show ?thesis by (fastforce simp: updated_payload_def)
qed simp

lemma two_in_list: "a \<in> set xs \<Longrightarrow> b \<in> set xs \<Longrightarrow> a \<noteq> b \<Longrightarrow> 2 \<le> length xs"
  by (cases xs; cases "tl xs") auto

text \<open>Once an error has recurred after its incident was resolved, the resolved
  incident cannot be closed where the unique index exists, because a closed incident counts as active there; where
  it does not exist, closing leaves two active incidents.\<close>

theorem recurred_incident_not_closed:
  assumes "fetch_incident (tc_tenant_id tenant) x db = Inr i" and "i_status i = ''resolved''"
    and "j \<in> set (active_incidents (i_tenant_id i) (i_fingerprint i) db)" and "distinct (map i_id (incidents db))"
    and "ur_status r = Some ''closed''" and "ur_actor_id r = None"
    and "update_incident env tenant x raw r db w = (res, db', w')"
  shows "(uq_active db \<longrightarrow> res = Inl (IntegrityError ''uq_incidents_tenant_fingerprint_active'') \<and> db' = db) \<and>
    (\<forall>a. res = Inr a \<longrightarrow> 2 \<le> length (active_incidents (i_tenant_id i) (i_fingerprint i) db'))"
proof -
  have j: "j \<in> set (incidents db)" "i_tenant_id j = i_tenant_id i" "i_fingerprint j = i_fingerprint i"
    "i_status j \<noteq> ''resolved''" using assms(3) by (auto simp: active_incidents_def active_for_def)
  have i: "i \<in> set (incidents db)" using fetch_incident_Inr [OF assms(1)] by simp
  have ids: "i_id j \<noteq> i_id i" using assms(2,4) i j(1,4) by (auto simp: distinct_map dest: inj_onD)
  have refused: "update_row (updated now r us i) db = Inl (IntegrityError ''uq_incidents_tenant_fingerprint_active'')"
    if "uq_active db" for now us
    using that assms(3,5) ids by (auto simp: update_row_def)
  have step: "check_transition (i_status i) (ur_status r) = Inr ()" "check_unassignment r i us = Inr ()" for us
    using assms(2,5,6) by (simp_all add: check_transition_def allowed_transitions_def check_unassignment_def)
  have first: "res = Inl (IntegrityError ''uq_incidents_tenant_fingerprint_active'') \<and> db' = db" if "uq_active db"
    using assms(7) refused [OF that] by (simp add: update_incident_def assms(1) step Let_def)
  have second: "2 \<le> length (active_incidents (i_tenant_id i) (i_fingerprint i) db')" if "res = Inr a" for a
    using assms(7)
  proof (cases rule: update_cases)
    case (2 a' i' us ev)
    with assms(1) have [simp]: "i' = i" by simp
    let ?i = "updated (pt_now env) r us i"
    have "?i \<in> set (incidents db')" "j \<in> set (incidents db')"
      using 2(7) i j(1) ids by (force simp: put_incident_def)+
    then have "?i \<in> set (active_incidents (i_tenant_id i) (i_fingerprint i) db')"
      "j \<in> set (active_incidents (i_tenant_id i) (i_fingerprint i) db')"
      using assms(5) j by (simp_all add: active_incidents_def active_for_def)
    moreover have "?i \<noteq> j" using ids by auto
    ultimately show ?thesis by (rule two_in_list)
  qed (use that in simp)
  from first second show ?thesis by blast
qed

text \<open>C29: a request that names its actor never unassigns anybody else, and its actor
  only leaves when somebody remains; but the actor is what the body says, and a request that names none unassigns
  everybody.\<close>

theorem nobody_unassigned_by_others:
  assumes "update_incident env tenant x raw r db w = (Inr a, db', w')"
    and "fetch_incident (tc_tenant_id tenant) x db = Inr i"
  shows "\<exists>us. (\<forall>j \<in> set (incidents db'). i_id j = i_id i \<longrightarrow> i_assigned_user_ids j = us) \<and>
    (case ur_actor_id r of
       Some u \<Rightarrow> set (i_assigned_user_ids i) - {u} \<subseteq> set us \<and> (u \<in> set (i_assigned_user_ids i) \<longrightarrow> us \<noteq> [])
     | None \<Rightarrow> ur_assigned_user_ids r = Some [] \<longrightarrow> us = [])"
  using assms(1)
proof (cases rule: update_cases)
  case (2 a' i' us ev)
  with assms(2) have [simp]: "i' = i" by simp
  let ?i = "updated (pt_now env) r us i"
  have "\<forall>j \<in> set (incidents db'). i_id j = i_id i \<longrightarrow> i_assigned_user_ids j = us"
    using 2(7) by (auto simp: put_incident_def)
  moreover have "case ur_actor_id r of
       Some u \<Rightarrow> set (i_assigned_user_ids i) - {u} \<subseteq> set us \<and> (u \<in> set (i_assigned_user_ids i) \<longrightarrow> us \<noteq> [])
     | None \<Rightarrow> ur_assigned_user_ids r = Some [] \<longrightarrow> us = []"
    using 2(3,5)
    by (auto simp: check_unassignment_def assigned_after_def Let_def split: option.splits if_splits)
  ultimately show ?thesis by blast
qed simp

subsection \<open>Pages\<close>

text \<open>What \<open>ORDER BY\<close> promises: the rows, sorted by the column.\<close>

locale db_order =
  fixes arrange :: "list_params \<Rightarrow> incident list \<Rightarrow> incident list"
  assumes same_rows: "mset (arrange p rows) = mset rows"
    and in_order: "sorted_wrt (comes_before p) (arrange p rows)"
begin

lemma same_set: "set (arrange p rows) = set rows"
  using same_rows by (metis mset_eq_setD)

lemma same_length: "length (arrange p rows) = length rows"
  using same_rows by (metis size_mset)

end

fun insert_in :: "('a \<Rightarrow> 'a \<Rightarrow> bool) \<Rightarrow> 'a \<Rightarrow> 'a list \<Rightarrow> 'a list" where
  "insert_in le x [] = [x]"
| "insert_in le x (y # ys) = (if le x y then x # y # ys else y # insert_in le x ys)"

definition by_insertion :: "list_params \<Rightarrow> incident list \<Rightarrow> incident list" where
  "by_insertion p rows = foldr (insert_in (comes_before p)) rows []"

lemma sql_le_total: "sql_le x y \<or> sql_le y x"
  by (auto simp: sql_le_def split: option.splits)

lemma sql_le_trans: "sql_le x y \<Longrightarrow> sql_le y z \<Longrightarrow> sql_le x z"
  by (auto simp: sql_le_def split: option.splits)

lemma comes_before_total: "comes_before p i j \<or> comes_before p j i"
  using sql_le_total by (auto simp: comes_before_def)

lemma comes_before_trans: "comes_before p i j \<Longrightarrow> comes_before p j k \<Longrightarrow> comes_before p i k"
  by (auto simp: comes_before_def intro: sql_le_trans split: if_splits)

lemma mset_insert_in: "mset (insert_in le x ys) = add_mset x (mset ys)"
  by (induction ys) auto

lemma sorted_insert_in: "sorted_wrt (comes_before p) ys \<Longrightarrow> sorted_wrt (comes_before p) (insert_in (comes_before p) x ys)"
proof (induction ys)
  case (Cons y ys)
  have "set (insert_in (comes_before p) x ys) = insert x (set ys)"
    by (metis mset_insert_in set_mset_add_mset_insert set_mset_mset)
  with Cons comes_before_total [of p x y] show ?case by (auto intro: comes_before_trans)
qed simp

interpretation insertion: db_order by_insertion
proof
  show "mset (by_insertion p rows) = mset rows" for p rows
    by (induction rows) (simp_all add: by_insertion_def mset_insert_in)
  show "sorted_wrt (comes_before p) (by_insertion p rows)" for p rows
    by (induction rows) (simp_all add: by_insertion_def sorted_insert_in)
qed

lemma chunks: "concat (map (\<lambda>n. take sz (drop (n * sz) ls)) [0..<k]) = take (k * sz) ls"
proof (induction k)
  case (Suc k)
  have "Suc k * sz = k * sz + sz" by simp
  with Suc show ?case by (simp only: take_add) simp
qed simp

lemma page_count_enough:
  assumes "0 < sz"
  shows "n \<le> page_count n sz * sz"
proof -
  have "n + sz - 1 < ((n + sz - 1) div sz + 1) * sz"
    using assms by (metis add.commute dividend_less_div_times mult.commute mult_Suc Suc_eq_plus1)
  then have "n \<le> (n + sz - 1) div sz * sz" by (simp add: algebra_simps)
  also have "\<dots> \<le> page_count n sz * sz" by (simp add: page_count_def)
  finally show ?thesis .
qed

lemma list_items: "\<forall>i \<in> set rows. i_status i \<in> set INCIDENT_STATUS \<and> i_severity i \<in> set SEVERITY \<Longrightarrow>
    each (list_item show) rows = Inr (map (\<lambda>i. JObj (common_fields show i)) rows)"
  by (induction rows) (simp_all add: list_item_def one_of_enum_def)

lemma base_filter_tenant:
  assumes "base_filter t p = Inr keep" "keep i"
  shows "i_tenant_id i = t \<and> (nonempty (lp_status p) = None \<longrightarrow> \<not> lp_is_draft p \<longrightarrow> i_status i \<noteq> ''draft'')"
proof -
  from assms(1) obtain by_status by_severity where
    st: "(case nonempty (lp_status p) of
            Some s \<Rightarrow> bind_res (checked_csv INCIDENT_STATUS s) (\<lambda>vs. Inr (\<lambda>i. i_status i \<in> set vs))
          | None \<Rightarrow> Inr (\<lambda>i. lp_is_draft p \<or> i_status i \<noteq> ''draft'')) = Inr by_status"
    and keep: "keep = (\<lambda>i. i_tenant_id i = t \<and> by_status i \<and> by_severity i \<and> other_filters p i)"
    unfolding base_filter_def bind_res_eq_Inr by blast
  from keep assms(2) have "i_tenant_id i = t" "by_status i" by simp_all
  moreover have "i_status i \<noteq> ''draft''" if "nonempty (lp_status p) = None" "\<not> lp_is_draft p"
    using st that \<open>by_status i\<close> by auto
  ultimately show ?thesis by blast
qed

lemma base_filter_page: "base_filter t (p\<lparr>lp_page := n\<rparr>) = base_filter t p"
  by (simp add: base_filter_def other_filters_def cong: option.case_cong)

text \<open>Rows with different keys have one order only, whatever page is asked for.\<close>

lemma sorted_unique:
  assumes "sorted_wrt P xs" "sorted_wrt P ys" "mset xs = mset ys"
    and "\<And>x y. x \<in> set xs \<Longrightarrow> y \<in> set xs \<Longrightarrow> P x y \<Longrightarrow> P y x \<Longrightarrow> x = y"
  shows "xs = ys"
  using assms
proof (induction xs arbitrary: ys)
  case (Cons x xs)
  then obtain y zs where ys: "ys = y # zs" by (cases ys) auto
  have same: "set (x # xs) = set ys" using Cons.prems(3) by (metis set_mset_mset)
  have "x = y"
  proof (rule ccontr)
    assume "x \<noteq> y"
    with same ys have "y \<in> set xs" "x \<in> set zs" by auto
    with Cons.prems(1,2) ys have "P x y" "P y x" by auto
    with Cons.prems(4) \<open>y \<in> set xs\<close> \<open>x \<noteq> y\<close> show False by auto
  qed
  moreover have "xs = zs"
    by (rule Cons.IH) (use Cons.prems ys \<open>x = y\<close> in auto)
  ultimately show ?case using ys by simp
qed simp

lemma comes_before_page: "comes_before (p\<lparr>lp_page := n\<rparr>) = comes_before p"
  by (simp add: comes_before_def fun_eq_iff)

lemma comes_before_antisym:
  "comes_before p i j \<Longrightarrow> comes_before p j i \<Longrightarrow>
   sort_column (lp_sort_by p) i = sort_column (lp_sort_by p) j"
  by (auto simp: comes_before_def sql_le_def split: if_splits option.splits)

lemma arrange_page:
  assumes "db_order arrange" "inj_on (sort_column (lp_sort_by p)) (set rows)"
  shows "arrange (p\<lparr>lp_page := n\<rparr>) rows = arrange p rows"
proof (rule sorted_unique [where P = "comes_before p"])
  show "sorted_wrt (comes_before p) (arrange (p\<lparr>lp_page := n\<rparr>) rows)"
    using db_order.in_order [OF assms(1), of "p\<lparr>lp_page := n\<rparr>"] by (simp add: comes_before_page)
  show "sorted_wrt (comes_before p) (arrange p rows)" by (rule db_order.in_order [OF assms(1)])
  show "mset (arrange (p\<lparr>lp_page := n\<rparr>) rows) = mset (arrange p rows)"
    by (simp add: db_order.same_rows [OF assms(1)])
  fix x y
  assume "x \<in> set (arrange (p\<lparr>lp_page := n\<rparr>) rows)" "y \<in> set (arrange (p\<lparr>lp_page := n\<rparr>) rows)"
    "comes_before p x y" "comes_before p y x"
  then show "x = y"
    using assms(2) db_order.same_set [OF assms(1)] comes_before_antisym by (metis inj_onD)
qed

text \<open>C28: when no two of the incidents that match have the same value in the column the
  list is sorted by, the pages of a list are the incidents of the tenant that match, each of them once, in the
  order asked for, and no drafts unless they are asked for; the totals and flags of each page are right.  Of the
  server it is assumed only that each query returns the rows in the order of that column.  (The order has no tie
  breaker: among incidents with equal values the server may choose another order for every page, so that one
  may be shown twice and another never.)\<close>

theorem pages_partition:
  assumes "db_order arrange" and "base_filter t p = Inr keep" and "1 \<le> lp_page_size p" and "lp_page_size p \<le> 100"
    and "\<forall>i \<in> set (incidents db). i_status i \<in> set INCIDENT_STATUS \<and> i_severity i \<in> set SEVERITY"
    and "inj_on (sort_column (lp_sort_by p)) (set (filter keep (incidents db)))"
  shows "\<exists>ls k. mset ls = mset (filter keep (incidents db)) \<and> sorted_wrt (comes_before p) ls \<and>
    (\<forall>i \<in> set ls. i_tenant_id i = t \<and> (nonempty (lp_status p) = None \<longrightarrow> \<not> lp_is_draft p \<longrightarrow> i_status i \<noteq> ''draft'')) \<and>
    concat (map (\<lambda>n. take (lp_page_size p) (drop (n * lp_page_size p) ls)) [0..<k]) = ls \<and>
    (\<forall>n \<ge> 1. list_incidents show arrange t (p\<lparr>lp_page := n\<rparr>) db =
      Inr (map (\<lambda>i. JObj (common_fields show i)) (take (lp_page_size p) (drop ((n - 1) * lp_page_size p) ls)),
           \<lparr>pm_page = n, pm_page_size = lp_page_size p, pm_total = length ls, pm_total_pages = k,
            pm_has_next = n < k, pm_has_previous = 1 < n\<rparr>))"
proof -
  note rows = db_order.same_rows [OF assms(1)] and sorted = db_order.in_order [OF assms(1)] and
    same_set = db_order.same_set [OF assms(1)] and same_length = db_order.same_length [OF assms(1)]
  let ?rows = "filter keep (incidents db)" and ?size = "lp_page_size p"
  let ?ls = "arrange p ?rows" and ?k = "page_count (length ?rows) ?size"
  have "list_incidents show arrange t (p\<lparr>lp_page := n\<rparr>) db =
      Inr (map (\<lambda>i. JObj (common_fields show i)) (take ?size (drop ((n - 1) * ?size) ?ls)),
           \<lparr>pm_page = n, pm_page_size = ?size, pm_total = length ?ls, pm_total_pages = ?k,
            pm_has_next = n < ?k, pm_has_previous = 1 < n\<rparr>)" if "1 \<le> n" for n
  proof -
    have "base_filter t (p\<lparr>lp_page := n\<rparr>) = Inr keep" using assms(2) by (simp add: base_filter_page)
    moreover have "\<forall>i \<in> set (take ?size (drop ((n - 1) * ?size) ?ls)). i_status i \<in> set INCIDENT_STATUS \<and> i_severity i \<in> set SEVERITY"
      using assms(5) same_set [of p ?rows] by (auto dest!: in_set_takeD in_set_dropD)
    ultimately show ?thesis
      using that assms(3,4) arrange_page [OF assms(1,6)]
      by (simp add: list_incidents_def Let_def list_items same_length)
  qed
  moreover have "concat (map (\<lambda>n. take ?size (drop (n * ?size) ?ls)) [0..<?k]) = ?ls"
    unfolding chunks using page_count_enough [of ?size "length ?rows"] assms(3) by (simp add: same_length)
  moreover have "\<forall>i \<in> set ?ls. i_tenant_id i = t \<and>
      (nonempty (lp_status p) = None \<longrightarrow> \<not> lp_is_draft p \<longrightarrow> i_status i \<noteq> ''draft'')"
    using base_filter_tenant [OF assms(2)] same_set [of p ?rows] by auto
  ultimately show ?thesis using rows [of p ?rows] sorted [of p ?rows] by blast
qed

subsection \<open>Frames\<close>

text \<open>A text that \<open>repr\<close> puts between single quotes as it is, and that has no equals sign.\<close>

definition clear :: "string \<Rightarrow> bool" where
  "clear s \<longleftrightarrow> list_all (\<lambda>c. c \<noteq> CHR 0x27 \<and> c \<noteq> CHR ''='' \<and> repr_char (CHR 0x27) c = [c]) s"

definition storable :: "stack_frame \<Rightarrow> bool" where
  "storable f \<longleftrightarrow> clear (sf_file f) \<and> sf_file f \<noteq> [] \<and> 0 \<le> sf_line f \<and> clear (sf_method f) \<and> sf_method f \<noteq> [] \<and>
     clear (sf_module f) \<and> (sf_module f = [] \<longrightarrow> sf_code_context f = [])"

lemma repr_clear:
  assumes "clear s"
  shows "repr s = CHR 0x27 # s @ [CHR 0x27]"
proof -
  have "CHR 0x27 \<notin> set s" using assms by (auto simp: clear_def list_all_iff)
  moreover have "concat (map (repr_char (CHR 0x27)) s) = s"
    using assms by (induction s) (simp_all add: clear_def)
  ultimately show ?thesis by (simp add: repr_def Let_def)
qed

text \<open>A search for \<open>q=\<dots>\<close> looks only where an equals sign follows \<open>q\<close>.\<close>

lemma search_here: "re_match e s = Some g \<Longrightarrow> re_search e s = Some g"
  by (cases s) simp_all

lemma search_skip: "\<forall>k < length u. re_match e (drop k u @ s) = None \<Longrightarrow> re_search e (u @ s) = re_search e s"
proof (induction u)
  case (Cons c u)
  from Cons.prems have "re_match e (c # u @ s) = None" by (metis append_Cons drop0 length_Cons zero_less_Suc)
  moreover have "\<forall>k < length u. re_match e (drop k u @ s) = None"
    using Cons.prems by (metis drop_Suc_Cons length_Cons Suc_less_eq)
  ultimately show ?case using Cons.IH by simp
qed simp

lemma run_lits_prefix: "run (lits p) s g k = Some r \<Longrightarrow> prefix p s"
  by (induction p arbitrary: s) (auto simp: lits_def split: list.splits if_splits)

lemma match_lits: "re_match (Seq (lits p) e) s \<noteq> None \<Longrightarrow> prefix p s"
  by (auto simp: re_match_def dest: run_lits_prefix)

lemma before_equals:
  assumes "prefix (q @ CHR ''='' # r) (u @ CHR ''='' # s)" "CHR ''='' \<notin> set q" "CHR ''='' \<notin> set u"
  shows "u = q"
proof -
  from assms(1) obtain t where "u @ CHR ''='' # s = q @ CHR ''='' # r @ t" by (auto simp: prefix_def)
  then have "takeWhile (\<lambda>c. c \<noteq> CHR ''='') (u @ CHR ''='' # s) = takeWhile (\<lambda>c. c \<noteq> CHR ''='') (q @ CHR ''='' # r @ t)"
    by (rule arg_cong)
  moreover have "takeWhile (\<lambda>c. c \<noteq> CHR ''='') (v @ CHR ''='' # w) = v" if "CHR ''='' \<notin> set v" for v w
    using that by (induction v) auto
  ultimately show ?thesis using assms(2,3) by simp
qed

lemma search_past:
  assumes "CHR ''='' \<notin> set q" "q \<noteq> []" "CHR ''='' \<notin> set u"
    and "\<not> suffix q u \<or> re_match (Seq (lits (q @ CHR ''='' # r)) e) (q @ CHR ''='' # s) = None"
  shows "re_search (Seq (lits (q @ CHR ''='' # r)) e) (u @ CHR ''='' # s) = re_search (Seq (lits (q @ CHR ''='' # r)) e) s"
proof -
  have "re_match (Seq (lits (q @ CHR ''='' # r)) e) (drop k (u @ [CHR ''='']) @ s) = None" if "k < length (u @ [CHR ''=''])" for k
  proof (rule ccontr)
    assume m: "re_match (Seq (lits (q @ CHR ''='' # r)) e) (drop k (u @ [CHR ''='']) @ s) \<noteq> None"
    have d: "drop k (u @ [CHR ''='']) @ s = drop k u @ CHR ''='' # s" using that by simp
    from match_lits [OF m] have "prefix (q @ CHR ''='' # r) (drop k u @ CHR ''='' # s)" using d by simp
    moreover have "CHR ''='' \<notin> set (drop k u)" using assms(3) by (meson in_set_dropD)
    ultimately have k: "drop k u = q" using before_equals assms(1) by blast
    then have "suffix q u" by (metis suffix_drop)
    with assms(4) m d k show False by simp
  qed
  from search_skip [of "u @ [CHR ''='']", OF allI] this show ?thesis by simp
qed

lemma search_none:
  assumes "CHR ''='' \<notin> set u"
  shows "re_search (Seq (lits (q @ CHR ''='' # r)) e) u = None"
proof -
  have none: "re_match (Seq (lits (q @ CHR ''='' # r)) e) w = None" if "CHR ''='' \<notin> set w" for w
  proof (rule ccontr)
    assume "re_match (Seq (lits (q @ CHR ''='' # r)) e) w \<noteq> None"
    from match_lits [OF this] that show False by (auto simp: prefix_def)
  qed
  from search_skip [of u "Seq (lits (q @ CHR ''='' # r)) e" "[]"] none assms
  show ?thesis by (auto dest: in_set_dropD)
qed

lemma search_hit:
  assumes "CHR ''='' \<notin> set q" "CHR ''='' \<notin> set v" "run e s [] (\<lambda>_ g. Some g) = Some g"
  shows "re_search (Seq (lits (q @ CHR ''='' # r)) e) (v @ q @ CHR ''='' # r @ s) = Some g"
proof -
  have "re_match (Seq (lits (q @ CHR ''='' # r)) e) (drop k v @ q @ CHR ''='' # r @ s) = None" if "k < length v" for k
  proof (rule ccontr)
    assume "re_match (Seq (lits (q @ CHR ''='' # r)) e) (drop k v @ q @ CHR ''='' # r @ s) \<noteq> None"
    from match_lits [OF this] have "prefix (q @ CHR ''='' # r) ((drop k v @ q) @ CHR ''='' # r @ s)" by simp
    moreover have "CHR ''='' \<notin> set (drop k v @ q)" using assms(1,2) by (auto dest: in_set_dropD)
    ultimately have "drop k v @ q = q" using before_equals assms(1) by blast
    with that show False by simp
  qed
  then have "re_search (Seq (lits (q @ CHR ''='' # r)) e) (v @ q @ CHR ''='' # r @ s) =
      re_search (Seq (lits (q @ CHR ''='' # r)) e) (q @ CHR ''='' # r @ s)"
    by (intro search_skip) blast
  moreover have "re_match (Seq (lits (q @ CHR ''='' # r)) e) (q @ CHR ''='' # r @ s) = Some g"
    using run_Seq_lits [OF assms(3), of "q @ CHR ''='' # r"] by (simp add: re_match_def)
  ultimately show ?thesis by (simp add: search_here)
qed

lemma run_quoted:
  assumes "CHR 0x27 \<notin> set m" "m \<noteq> []"
  shows "run (Seq (Grp 1 (Plus (\<lambda>c. c \<noteq> CHR 0x27))) (lits [CHR 0x27])) (m @ CHR 0x27 # s) [] (\<lambda>_ g. Some g) = Some [(1, m)]"
  using assms by (intro run_Seq_Grp_Rep) (auto simp: list_all_iff Suc_le_eq lits_def)

lemma quoted_hit:
  assumes "CHR ''='' \<notin> set k" "CHR ''='' \<notin> set v" "CHR 0x27 \<notin> set m" "m \<noteq> []"
  shows "re_search (quoted_re k) (v @ k @ CHR ''='' # CHR 0x27 # m @ CHR 0x27 # s) = Some [(1, m)]"
  using search_hit [OF assms(1,2) run_quoted [OF assms(3,4)], of "[CHR 0x27]"] by (simp add: quoted_re_def)

lemma quoted_past:
  assumes "CHR ''='' \<notin> set k" "k \<noteq> []" "CHR ''='' \<notin> set u" "\<not> suffix k u"
  shows "re_search (quoted_re k) (u @ CHR ''='' # s) = re_search (quoted_re k) s"
  unfolding quoted_re_def using assms by (intro search_past) simp_all

lemma quoted_empty:
  assumes "CHR ''='' \<notin> set k" "k \<noteq> []" "CHR ''='' \<notin> set u"
  shows "re_search (quoted_re k) (u @ CHR ''='' # CHR 0x27 # CHR 0x27 # s) =
    re_search (quoted_re k) (CHR 0x27 # CHR 0x27 # s)"
proof -
  have step: "run (Seq (lits (k @ [CHR ''='', CHR 0x27])) e) (k @ CHR ''='' # CHR 0x27 # s) g c = run e s g c" for e s g and c :: "string \<Rightarrow> captures \<Rightarrow> captures option"
    using run_lits [of "k @ [CHR ''='', CHR 0x27]" s] by simp
  have "re_match (quoted_re k) (k @ CHR ''='' # CHR 0x27 # CHR 0x27 # s) = None"
    by (simp only: re_match_def quoted_re_def step) (simp add: tries.simps)
  with assms show ?thesis unfolding quoted_re_def by (intro search_past) simp_all
qed

lemma quoted_none: "CHR ''='' \<notin> set u \<Longrightarrow> re_search (quoted_re k) u = None"
  unfolding quoted_re_def by (rule search_none)

lemma line_hit:
  assumes "CHR ''='' \<notin> set v" "\<not> is_dec (hd s)"
  shows "re_search line_re (v @ ''line'' @ CHR ''='' # digits n @ s) = Some [(1, digits n)]"
proof -
  have "1 \<le> length (digits n)" using digits_nonempty [of n] by (simp add: Suc_le_eq)
  then have "run (Grp 1 (Plus is_dec)) (digits n @ s) [] (\<lambda>_ g. Some g) = Some [(1, digits n)]"
    unfolding run.simps(7) using digits_dec assms(2) by (intro run_Rep_all) simp_all
  from search_hit [OF _ assms(1) this, of "''line''" "[]"] show ?thesis by (simp add: line_re_def)
qed

lemma line_past: "CHR ''='' \<notin> set u \<Longrightarrow> \<not> suffix ''line'' u \<Longrightarrow> re_search line_re (u @ CHR ''='' # s) = re_search line_re s"
  using search_past [of "''line''" u "[]"] by (simp add: line_re_def)

text \<open>A frame that \<open>run_agent\<close> stored as text is shown by the detail endpoint with its own file,
  line and method, and its module, if it has one, provided that its texts have no quotes and no equals signs.\<close>

theorem frames_read_back:
  assumes "storable f" and "\<forall>n. as_int (JInt n) = Some n"
  shows "detail_frame as_int (parse_string_frame (JStr (str_frame f))) =
    Inr (JObj [(''file'', JStr (sf_file f)), (''line'', JInt (sf_line f)), (''method'', JStr (sf_method f)),
               (''module'', if sf_module f = [] then JNull else JStr (sf_module f))])"
proof -
  let ?F = "sf_file f" and ?L = "digits (nat (sf_line f))" and ?M = "sf_method f" and ?D = "sf_module f"
  let ?q = "CHR 0x27" and ?e = "CHR ''=''"
  let ?S4 = "?q # ?D @ ?q # '' code_context'' @ ?e # repr (sf_code_context f)"
  let ?S3 = "?q # ?M @ ?q # '' module'' @ ?e # ?S4"
  let ?S2 = "?L @ '' method'' @ ?e # ?S3"
  let ?S1 = "?q # ?F @ ?q # '' line'' @ ?e # ?S2"
  note ok = assms(1) [unfolded storable_def]
  have clean: "?e \<notin> set s" "?q \<notin> set s" if "clear s" for s
    using that unfolding clear_def list_all_iff by blast+
  have str: "str_frame f = ''file'' @ ?e # ?S1"
    using ok by (simp add: str_frame_def repr_clear str_int_def)
  have dig: "?e \<notin> set ?L" using digits_dec [of "nat (sf_line f)"] by (auto simp: list_all_iff is_dec_def)
  have path: "re_search (quoted_re ''file'') (str_frame f) = Some [(1, ?F)]"
    unfolding str using quoted_hit [of "''file''" "[]" ?F] clean ok by simp
  have not_file: "\<not> suffix k ''file''" if "k \<in> {''line'', ''method'', ''module''}" for k
    using that by (auto simp: suffix_to_prefix)
  have not_line: "\<not> suffix k (?q # ?F @ ?q # '' line'')" if "k \<in> {''method'', ''module''}" for k
    using that by (auto simp: suffix_to_prefix)
  have not_method: "\<not> suffix ''module'' (?L @ '' method'')" by (simp add: suffix_to_prefix)
  have line: "re_search line_re (str_frame f) = Some [(1, ?L)]"
    unfolding str using line_past [of "''file''" ?S1] not_file [of "''line''"]
      line_hit [of "?q # ?F @ ?q # '' ''" "'' method'' @ ?e # ?S3"] clean(1) ok by (simp add: is_dec_def)
  have past: "re_search (quoted_re k) (str_frame f) = re_search (quoted_re k) ?S2" if "k \<in> {''method'', ''module''}" for k
    unfolding str using quoted_past [of k "''file''" ?S1] not_file [of k] not_line [OF that]
      quoted_past [of k "?q # ?F @ ?q # '' line''" ?S2] clean(1) ok that by auto
  have meth: "re_search (quoted_re ''method'') ?S2 = Some [(1, ?M)]"
    using quoted_hit [of "''method''" "?L @ '' ''" ?M] clean ok dig by simp
  have "re_search (quoted_re ''module'') ?S2 = re_search (quoted_re ''module'') ?S3"
    using quoted_past [of "''module''" "?L @ '' method''" ?S3] not_method dig by simp
  also have "\<dots> = (if ?D = [] then None else Some [(1, ?D)])"
  proof (cases "?D = []")
    case True
    then have C: "repr (sf_code_context f) = [?q, ?q]" using ok by (simp add: repr_def Let_def)
    have "re_search (quoted_re ''module'') ?S3 = re_search (quoted_re ''module'') ((?q # ?q # '' code_context'') @ ?e # [?q, ?q])"
      using quoted_empty [of "''module''" "?q # ?M @ ?q # '' module''"] clean(1) ok True C by simp
    also have "\<dots> = re_search (quoted_re ''module'') [?q, ?q]"
      by (rule quoted_past) (simp_all add: suffix_to_prefix)
    also have "\<dots> = None" by (rule quoted_none) simp
    finally show ?thesis using True by (simp only: if_True simp_thms)
  next
    case False
    then show ?thesis using quoted_hit [of "''module''" "?q # ?M @ ?q # '' ''" ?D] clean ok by simp
  qed
  finally have md: "re_search (quoted_re ''module'') ?S2 = (if ?D = [] then None else Some [(1, ?D)])" .
  have "0 \<le> sf_line f" using ok by simp
  then show ?thesis using assms(2) past meth md
    by (simp add: parse_string_frame_def path line group_def digits_val_digits detail_frame_def body_object_def
        body_str_def body_int_def body_opt_str_def)
qed

subsection \<open>A sample\<close>

definition case_incident :: "uuid \<Rightarrow> string \<Rightarrow> incident" where
  "case_incident u st = \<lparr>i_id = u, i_tenant_id = tenant_a, i_fingerprint = ''f0'', i_occurrence_count = 1,
     i_occurrences = [''k''], i_error_type = ''KeyError'', i_error_message = None, i_service_name = ''pay'',
     i_environment = ''production'', i_crash_file = None, i_crash_line = None, i_crash_method = None,
     i_stack_frames = [], i_root_cause = None, i_suggested_fix = None, i_confidence_score = None,
     i_severity = ''high'', i_error_category = ''unknown'', i_pr_url = None, i_pr_number = None,
     i_pr_status = None, i_pr_title = None, i_pr_error = None, i_structured_patch = None, i_status = st,
     i_is_draft = False, i_assigned_user_ids = [tenant_a], i_source_log_id = None, i_first_seen_at = 0,
     i_last_seen_at = 0, i_resolved_at = Some 0, i_created_at = 0, i_updated_at = 0\<rparr>"

definition case_db :: "incident list \<Rightarrow> db2" where
  "case_db rows = tenant_db\<lparr>incidents := rows\<rparr>"

definition case_env :: "nat patch_env" where
  "case_env = \<lparr>pt_now = 5, pt_stamp = ''0'', pt_event_id = row_a, pt_es = down, pt_commit_error = None\<rparr>"

definition to_status :: "string \<Rightarrow> update_request" where
  "to_status s = \<lparr>ur_status = Some s, ur_assigned_user_ids = None, ur_actor_id = None, ur_note = None\<rparr>"

lemma case_simps [simp]:
  "i_id (case_incident u st) = u" "i_tenant_id (case_incident u st) = tenant_a"
  "i_fingerprint (case_incident u st) = ''f0''" "i_status (case_incident u st) = st"
  "i_severity (case_incident u st) = ''high''" "i_source_log_id (case_incident u st) = None"
  "i_occurrences (case_incident u st) = [''k'']" "i_resolved_at (case_incident u st) = Some 0"
  "incidents (case_db rows) = rows" "outbox (case_db rows) = []" "uq_active (case_db rows)"
  by (simp_all add: case_incident_def case_db_def tenant_db_def empty_db2_def)

lemma case_uuid: "uuid_parse row_a = Some row_a" "row_a \<noteq> []"
  using sample_uuids(2) by (simp_all add: is_uuid_def row_a_def)

lemma case_fetch: "fetch_incident tenant_a row_a (case_db [case_incident row_a st]) = Inr (case_incident row_a st)"
  by (simp add: fetch_incident_def scalar_one_or_none_def known_by_def)

lemma case_update:
  "\<exists>a db' w'. update_incident case_env pay_tenant row_a ''{}'' (to_status ''investigating'')
     (case_db [case_incident row_a ''open'']) 0 = (Inr a, db', w')"
proof -
  let ?i = "case_incident row_a ''open''" and ?r = "to_status ''investigating''"
  let ?us = "assigned_after ''{}'' ?r ?i"
  have t: "tc_tenant_id pay_tenant = tenant_a" by (simp add: pay_tenant_def)
  have step: "check_transition ''open'' (ur_status ?r) = Inr ()" "check_unassignment ?r ?i ?us = Inr ()"
    by (simp_all add: to_status_def check_transition_def allowed_transitions_def check_unassignment_def)
  obtain db1 where db1: "update_row (updated (pt_now case_env) ?r ?us ?i) (case_db [?i]) = Inr db1" "outbox db1 = []"
    by (auto simp: update_row_Inr active_incidents_def)
  obtain ev where ev: "write_outbox (pt_event_id case_env) (pt_now case_env) ''incidents.updated'' tenant_a
      (updated_payload case_env tenant_a ?r ?i ?us) = Inr ev"
    using case_uuid by (auto simp: write_outbox_def updated_payload_def case_env_def split: list.splits)
  have "pt_commit_error case_env = None" by (simp add: case_env_def)
  with db1 show ?thesis
    by (simp add: update_incident_def t case_fetch step ev Let_def insert_outbox_def)
qed

lemma accepted_update_witness:
  "\<exists>a db' w'. update_incident case_env pay_tenant row_a ''{}'' (to_status ''investigating'')
     (case_db [case_incident row_a ''open'']) 0 = (Inr a, db', w') \<and> length (outbox db') = 1"
proof -
  obtain a db' w' where run: "update_incident case_env pay_tenant row_a ''{}'' (to_status ''investigating'')
     (case_db [case_incident row_a ''open'']) 0 = (Inr a, db', w')" using case_update by blast
  from accepted_update [OF run] run show ?thesis by auto
qed

lemma nobody_unassigned_by_others_witness:
  "\<exists>a db' w'. update_incident case_env pay_tenant row_a ''{}'' (to_status ''investigating'')
     (case_db [case_incident row_a ''open'']) 0 = (Inr a, db', w') \<and>
     (\<exists>us. \<forall>j \<in> set (incidents db'). i_id j = row_a \<longrightarrow> i_assigned_user_ids j = us)"
proof -
  obtain a db' w' where run: "update_incident case_env pay_tenant row_a ''{}'' (to_status ''investigating'')
     (case_db [case_incident row_a ''open'']) 0 = (Inr a, db', w')" using case_update by blast
  have t: "tc_tenant_id pay_tenant = tenant_a" by (simp add: pay_tenant_def)
  from nobody_unassigned_by_others [OF run, of "case_incident row_a ''open''"] case_fetch [of "''open''"] run
  show ?thesis by (auto simp: t)
qed

lemma incident_life_cycle_witness:
  "\<exists>db'. patches down (case_db [case_incident row_a ''open'']) db' \<and> map i_id (incidents db') = [row_a] \<and>
     length (outbox db') = 1"
proof -
  obtain a db' w' where run: "update_incident case_env pay_tenant row_a ''{}'' (to_status ''investigating'')
     (case_db [case_incident row_a ''open'']) 0 = (Inr a, db', w')" using case_update by blast
  have d: "incident_update_request (JObj [(''status'', JStr ''investigating'')]) = Inr (to_status ''investigating'')"
    by (simp add: incident_update_request_def to_status_def INCIDENT_STATUS_def body_opt_str_def)
  have E: "pt_es case_env = down" by (simp add: case_env_def)
  have p: "patches down (case_db [case_incident row_a ''open'']) db'" by (rule patches.more [OF patches.none E d run])
  have "\<forall>i \<in> set (incidents (case_db [case_incident row_a ''open''])). life_ok i"
    "distinct (map i_id (incidents (case_db [case_incident row_a ''open''])))"
    by (simp_all add: life_ok_def STAGES_def)
  from incident_life_cycle [OF p this] have "map i_id (incidents db') = [row_a]" by simp
  moreover from run have "length (outbox db') = 1"
    by (cases rule: update_cases) simp_all
  ultimately show ?thesis using p by (intro exI [of _ db'] conjI)
qed

lemma recurred_incident_not_closed_witness:
  "fst (update_incident case_env pay_tenant row_a ''{}'' (to_status ''closed'')
     (case_db [case_incident row_a ''resolved'', case_incident tenant_a ''open'']) 0) =
   Inl (IntegrityError ''uq_incidents_tenant_fingerprint_active'')"
proof -
  let ?i = "case_incident row_a ''resolved''" and ?j = "case_incident tenant_a ''open''"
  have ne: "row_a \<noteq> tenant_a" by (simp add: row_a_def tenant_a_def)
  have t: "tc_tenant_id pay_tenant = tenant_a" by (simp add: pay_tenant_def)
  have f: "fetch_incident (tc_tenant_id pay_tenant) row_a (case_db [?i, ?j]) = Inr ?i"
    using ne by (simp add: fetch_incident_def scalar_one_or_none_def known_by_def t)
  have s: "i_status ?i = ''resolved''" by simp
  have j: "?j \<in> set (active_incidents (i_tenant_id ?i) (i_fingerprint ?i) (case_db [?i, ?j]))"
    by (simp add: active_incidents_def active_for_def)
  have d: "distinct (map i_id (incidents (case_db [?i, ?j])))" using ne by simp
  have r: "ur_status (to_status ''closed'') = Some ''closed''" "ur_actor_id (to_status ''closed'') = None"
    by (simp_all add: to_status_def)
  obtain res db' w' where run: "update_incident case_env pay_tenant row_a ''{}'' (to_status ''closed'') (case_db [?i, ?j]) 0 = (res, db', w')"
    by (metis prod_cases3)
  from recurred_incident_not_closed [OF f s j d r run] case_simps(11) show ?thesis by (simp add: run)
qed

theorem pages_partition_witness:
  "\<exists>ls k. mset ls = mset [case_incident row_a ''open'', (case_incident tenant_a ''resolved'')\<lparr>i_last_seen_at := 7\<rparr>] \<and>
     concat (map (\<lambda>n. take 1 (drop (n * 1) ls)) [0..<k]) = ls"
proof -
  let ?p = "\<lparr>lp_status = None, lp_severity = None, lp_error_category = None, lp_service_name = None,
     lp_environment = None, lp_assigned_user_id = None, lp_search = None, lp_is_draft = False, lp_page = 1,
     lp_page_size = 1, lp_sort_by = by_last_seen_at, lp_descending = True\<rparr>"
  let ?db = "case_db [case_incident row_a ''open'', (case_incident tenant_a ''resolved'')\<lparr>i_last_seen_at := 7\<rparr>]"
  let ?keep = "\<lambda>i. i_tenant_id i = tenant_a \<and> (False \<or> i_status i \<noteq> ''draft'') \<and> True \<and> other_filters ?p i"
  have f: "base_filter tenant_a ?p = Inr ?keep" by (simp add: base_filter_def nonempty_def)
  have size: "1 \<le> lp_page_size ?p" "lp_page_size ?p \<le> 100" by simp_all
  have rows: "\<forall>i \<in> set (incidents ?db). i_status i \<in> set INCIDENT_STATUS \<and> i_severity i \<in> set SEVERITY"
    by (simp add: INCIDENT_STATUS_def SEVERITY_def)
  have found: "filter ?keep (incidents ?db) =
      [case_incident row_a ''open'', (case_incident tenant_a ''resolved'')\<lparr>i_last_seen_at := 7\<rparr>]"
    by (simp add: other_filters_def nonempty_def)
  have keys: "inj_on (sort_column (lp_sort_by ?p)) (set (filter ?keep (incidents ?db)))"
    unfolding found by (simp add: case_incident_def sort_column_def)
  from pages_partition [OF insertion.db_order_axioms f size rows keys, of isoformat]
  show ?thesis unfolding found by auto
qed

lemma frames_read_back_witness:
  "detail_frame (\<lambda>v. case v of JInt n \<Rightarrow> Some n | _ \<Rightarrow> None) (parse_string_frame (JStr (str_frame (sample_frame ''f'')))) =
     Inr (JObj [(''file'', JStr ''a.py''), (''line'', JInt 7), (''method'', JStr ''f''), (''module'', JNull)])"
proof -
  have "storable (sample_frame ''f'')"
    by (simp add: storable_def sample_frame_def clear_def repr_char_def Let_def)
  from frames_read_back [OF this, of "\<lambda>v. case v of JInt n \<Rightarrow> Some n | _ \<Rightarrow> None"] show ?thesis
    by (simp add: sample_frame_def)
qed

end
