(* ===== verification/Github_Pr_Spec.thy ===== *)
theory Github_Pr_Spec
  imports Github_Pr Incident_Api_Spec
begin

text \<open>
  What the task may do to a repository, under every server that follows the contract of \<open>Github_Pr\<close>: it moves one
  branch only, and the commit it puts there is the base with the patched files; and what becomes of failures.
\<close>

subsection \<open>One branch\<close>

context git_server begin

definition other_heads :: "string \<Rightarrow> 'g \<Rightarrow> 'g \<Rightarrow> bool" where
  "other_heads fb g g' \<longleftrightarrow> (\<forall>q b. b \<noteq> fb \<longrightarrow> heads g' q b = heads g q b)"

lemma other_refl [simp]: "other_heads fb g g"
  by (simp add: other_heads_def)

lemma other_trans: "other_heads fb g g1 \<Longrightarrow> other_heads fb g1 g2 \<Longrightarrow> other_heads fb g g2"
  by (simp add: other_heads_def)

lemma after_other:
  assumes "other_heads fb g (snd m)" "\<And>x. fst m = Go x \<Longrightarrow> other_heads fb (snd m) (snd (f x (snd m)))"
  shows "other_heads fb g (snd (after m f))"
  using assms by (auto simp: after_def intro: other_trans split: prod.splits step.splits)

lemma answered_snd [simp]: "snd (answered ok m) = snd m"
  by (auto simp: answered_def split: prod.splits sum.splits)

lemma calls_other:
  "other_heads fb g (snd (git_contents G repo target g))" "other_heads fb g (snd (git_ref G repo branch g))"
  "other_heads fb g (snd (git_create_ref G repo fb c g))" "other_heads fb g (snd (git_create_tree G repo base es g))"
  "other_heads fb g (snd (git_create_commit G repo msg t p g))" "other_heads fb g (snd (git_update_ref G repo fb c g))"
  "other_heads fb g (snd (git_create_pull G repo d g))"
proof -
  show "other_heads fb g (snd (git_contents G repo target g))"
    by (cases "git_contents G repo target g") (simp add: other_heads_def contents_reads)
  show "other_heads fb g (snd (git_ref G repo branch g))"
    by (cases "git_ref G repo branch g") (simp add: other_heads_def ref_reads)
  show "other_heads fb g (snd (git_create_ref G repo fb c g))"
    by (cases "git_create_ref G repo fb c g") (auto simp: other_heads_def dest!: create_ref_adds)
  show "other_heads fb g (snd (git_create_tree G repo base es g))"
    by (cases "git_create_tree G repo base es g") (auto simp: other_heads_def dest!: create_tree_objects)
  show "other_heads fb g (snd (git_create_commit G repo msg t p g))"
    by (cases "git_create_commit G repo msg t p g") (auto simp: other_heads_def dest!: create_commit_objects)
  show "other_heads fb g (snd (git_update_ref G repo fb c g))"
    by (cases "git_update_ref G repo fb c g") (auto simp: other_heads_def dest!: update_ref_moves)
  show "other_heads fb g (snd (git_create_pull G repo d g))"
    by (cases "git_create_pull G repo d g") (auto simp: other_heads_def dest!: create_pull_keeps)
qed

lemma patches_other: "other_heads fb g (snd (apply_patches check G repo branch ps changed g))"
proof (induction ps arbitrary: changed g)
  case (Cons p ps)
  have "other_heads fb g (snd (apply_patch check G repo branch p changed g))"
    using calls_other(1)
    by (auto simp: apply_patch_def Let_def fetch_file_from_github_def split: json.splits prod.splits sum.splits
        option.splits step.splits) (metis snd_conv)+
  with Cons.IH show ?case by (simp add: after_other)
qed simp

lemma push_other: "other_heads (branch_name (pr_incident_id a)) g (snd (push_and_open G a repo branch changed g))"
  unfolding push_and_open_def open_pull_def Let_def
  by (intro after_other) (simp_all add: calls_other split: json.splits)

end

lemma execute_other:
  assumes "\<forall>token. git_server (ge_api env token) heads trees commits"
    and "execute_create_github_pr env a db g = (r, g')"
  shows "\<forall>q b. b \<noteq> branch_name (pr_incident_id a) \<longrightarrow> heads g' q b = heads g q b"
proof -
  have p: "\<forall>q b. b \<noteq> branch_name (pr_incident_id a) \<longrightarrow>
      heads (snd (apply_patches check (ge_api env token) repo branch ps changed g)) q b = heads g q b" for token check repo branch ps changed g
    using git_server.patches_other [OF assms(1) [rule_format]] git_server.other_heads_def [OF assms(1) [rule_format]] by metis
  have u: "\<forall>q b. b \<noteq> branch_name (pr_incident_id a) \<longrightarrow>
      heads (snd (push_and_open (ge_api env token) a repo branch changed g)) q b = heads g q b" for token repo branch changed g
    using git_server.push_other [OF assms(1) [rule_format]] git_server.other_heads_def [OF assms(1) [rule_format]] by metis
  show ?thesis
    using assms(2) p u
    by (auto simp: execute_create_github_pr_def after_def split: option.splits prod.splits sum.splits step.splits if_splits)
      (metis snd_conv)+
qed

text \<open>C30: whatever GitHub answers, through all attempts and lost connections, the task changes no
  branch of any repository but the one it names after the incident; the default branch is only ever read.\<close>

theorem only_fix_branch_moves:
  assumes "\<forall>k token. git_server (ge_api (env k) token) heads trees commits"
    and "create_github_pr_task env a db g = (r, db', g', n)" and "b \<noteq> branch_name (pr_incident_id a)"
  shows "heads g' q b = heads g q b"
proof -
  have "pr_attempts left env a k db g = (r, db', g', n) \<Longrightarrow> heads g' q b = heads g q b" for left k db g
  proof (induction left arbitrary: k db g)
    case 0
    obtain x g1 where e: "execute_create_github_pr (env k) a db g = (x, g1)" by (metis surj_pair)
    from execute_other [OF _ e, of heads trees commits] assms(1,3) have "heads g1 q b = heads g q b" by blast
    with 0 e show ?case by (auto simp: create_github_pr_def split: step.splits)
  next
    case (Suc left)
    obtain x g1 where e: "execute_create_github_pr (env k) a db g = (x, g1)" by (metis surj_pair)
    from execute_other [OF _ e, of heads trees commits] assms(1,3) have "heads g1 q b = heads g q b" by blast
    with Suc e show ?case by (auto simp: create_github_pr_def split: step.splits if_splits prod.splits)
  qed
  with assms(2) show ?thesis by (simp add: create_github_pr_task_def)
qed

subsection \<open>What the pull request holds\<close>

lemma after_Go: "after m f = (Go y, g') \<longleftrightarrow> (\<exists>x g1. m = (Go x, g1) \<and> f x g1 = (Go y, g'))"
  by (auto simp: after_def split: prod.splits step.splits)

lemma answered_Go: "answered ok m = (Go d, g) \<longleftrightarrow> (\<exists>code \<in> ok. m = (Inr (code, d), g))"
  by (auto simp: answered_def split: prod.splits sum.splits if_splits)

lemma open_pull_snd: "snd (open_pull G a repo branch changed g) = snd (git_create_pull G repo (pull_payload a branch changed) g)"
  by (cases "git_create_pull G repo (pull_payload a branch changed) g"; cases "fst (git_create_pull G repo (pull_payload a branch changed) g)")
    (auto simp: open_pull_def after_def answered_def)

lemma of_res_Go: "of_res r = Go x \<longleftrightarrow> r = Inr x"
  by (simp add: of_res_def split: sum.split)

lemma subscript_jget: "subscript d k = Inr v \<Longrightarrow> jget k d = v"
  by (auto simp: subscript_def split: json.splits option.splits)

text \<open>A file and its new text come from a patch that applies to the text that is there.\<close>

definition from_patch :: "files \<Rightarrow> json list \<Rightarrow> string \<times> string \<Rightarrow> bool" where
  "from_patch fs ps fn \<longleftrightarrow> (\<exists>p \<in> set ps. \<exists>s r old.
     get_default ''file'' p (JStr []) = JStr (fst fn) \<and> get_default ''search'' p (JStr []) = JStr s \<and>
     get_default ''replace'' p (JStr []) = JStr r \<and> fs (fst fn) = Some old \<and> contains s old \<and>
     snd fn = replace_first s r old)"

text \<open>The file a patch names, if it names one, is plain in an address and no directory.\<close>

definition names_file :: "files \<Rightarrow> json \<Rightarrow> bool" where
  "names_file fs p \<longleftrightarrow> (\<forall>path. get_default ''file'' p (JStr []) = JStr path \<longrightarrow> path \<noteq> [] \<longrightarrow>
     url_plain path \<and> \<not> is_dir fs path)"

lemma set_file_keys: "map fst (set_file k v kvs) = (if k \<in> fst ` set kvs then map fst kvs else map fst kvs @ [k])"
  by (induction kvs) (auto split: if_splits)

lemma set_set_file: "set (set_file k v kvs) \<subseteq> insert (k, v) (set kvs)"
  by (induction kvs) (auto split: if_splits)

lemma distinct_set_file: "distinct (map fst kvs) \<Longrightarrow> distinct (map fst (set_file k v kvs))"
  unfolding set_file_keys by simp

lemma map_of_rev: "distinct (map fst kvs) \<Longrightarrow> map_of (rev kvs) = map_of kvs"
  by (subst map_of_inject_set) (simp_all add: rev_map [symmetric])

context git_server begin

lemma fetch_reads:
  "fetch_file_from_github G repo path branch g = (x, g') \<Longrightarrow> heads g' = heads g \<and> commits g' = commits g"
  by (auto simp: fetch_file_from_github_def dest: contents_reads split: prod.splits sum.splits)

lemma fetch_text:
  assumes "fetch_file_from_github G repo path branch g = (Some old, g')"
    and "heads g repo branch = Some c" "commits g repo c = Some (fs, p)"
    and "url_plain path" "url_plain branch" "\<not> is_dir fs path"
  shows "fs path = Some old"
proof -
  from assms(1) have "git_contents G repo (path @ ''?ref='' @ branch) g = (Inr (200, old), g')"
    by (auto simp: fetch_file_from_github_def split: prod.splits sum.splits if_splits)
  from contents_text [OF assms(4,5) this] assms(2,3,6) show ?thesis by auto
qed

lemma apply_patch_Go:
  assumes "apply_patch check G repo branch p changed g = (Go ch, g')"
    and "heads g repo branch = Some c" "commits g repo c = Some (fs, q)" "url_plain branch" "names_file fs p"
  shows "heads g' = heads g \<and> commits g' = commits g \<and>
    (ch = changed \<or> (\<exists>path new. ch = set_file path new changed \<and> from_patch fs [p] (path, new)))"
proof -
  let ?f = "get_default ''file'' p (JStr [])" and ?s = "get_default ''search'' p (JStr [])"
  let ?r = "get_default ''replace'' p (JStr [])"
  obtain x g1 where x: "fetch_file_from_github G repo (py_str ?f) branch g = (x, g1)" by (metis surj_pair)
  note r = fetch_reads [OF x]
  show ?thesis
  proof (cases "is_object p \<and> truthy ?f \<and> truthy ?s")
    case True
    show ?thesis
    proof (cases x)
      case None
      with assms(1) True x r show ?thesis by (auto simp: apply_patch_def is_object_def split: json.splits)
    next
      case (Some old)
      from assms(1) True x Some have "g' = g1" and
        ch: "patched check ?f ?s ?r old = Go None \<and> ch = changed \<or>
             (\<exists>path new. patched check ?f ?s ?r old = Go (Some (path, new)) \<and> ch = set_file path new changed)"
        by (auto simp: apply_patch_def is_object_def Let_def split: json.splits step.splits option.splits)
      moreover have "from_patch fs [p] (path, new)" if "patched check ?f ?s ?r old = Go (Some (path, new))" for path new
      proof -
        from that obtain s r where sr: "?s = JStr s" "?r = JStr r" "new = replace_first s r old" "new \<noteq> old" "?f = JStr path"
          by (auto simp: patched_def Let_def split: json.splits if_splits option.splits)
        with replace_first_absent [of s old r] have "contains s old" by blast
        moreover have "path \<noteq> []" using True sr(5) by auto
        then have "url_plain path" "\<not> is_dir fs path" using assms(5) sr(5) by (auto simp: names_file_def)
        with fetch_text [OF x [unfolded Some] assms(2,3)] assms(4) sr(5) have "fs path = Some old" by simp
        ultimately show ?thesis using sr by (auto simp: from_patch_def)
      qed
      ultimately show ?thesis using r by auto
    qed
  next
    case False
    with assms(1) show ?thesis by (auto simp: apply_patch_def is_object_def Let_def split: json.splits)
  qed
qed

lemma apply_patches_Go:
  assumes "apply_patches check G repo branch ps changed g = (Go ch, g')"
    and "heads g repo branch = Some c" "commits g repo c = Some (fs, q)"
    and "distinct (map fst changed)" "\<forall>fn \<in> set changed. from_patch fs all fn" "set ps \<subseteq> set all"
    and "url_plain branch" "\<forall>p \<in> set all. names_file fs p"
  shows "heads g' = heads g \<and> commits g' = commits g \<and> distinct (map fst ch) \<and> (\<forall>fn \<in> set ch. from_patch fs all fn)"
  using assms
proof (induction ps arbitrary: changed g)
  case (Cons p ps)
  from Cons.prems(1) obtain ch1 g1 where
    one: "apply_patch check G repo branch p changed g = (Go ch1, g1)" and
    rest: "apply_patches check G repo branch ps ch1 g1 = (Go ch, g')" by (auto simp: after_Go)
  have p: "names_file fs p" using Cons.prems(6,8) by auto
  from apply_patch_Go [OF one Cons.prems(2,3,7) p] have
    g1: "heads g1 = heads g" "commits g1 = commits g" and
    ch1: "ch1 = changed \<or> (\<exists>path new. ch1 = set_file path new changed \<and> from_patch fs [p] (path, new))" by auto
  have new: "from_patch fs all (path, new)" if "from_patch fs [p] (path, new)" for path new
    using that Cons.prems(6) by (auto simp: from_patch_def)
  have "distinct (map fst ch1)" using ch1 distinct_set_file Cons.prems(4) by auto
  moreover have "\<forall>fn \<in> set ch1. from_patch fs all fn"
    using ch1 Cons.prems(5) new by (auto dest!: subsetD [OF set_set_file])
  ultimately show ?case using Cons.IH [OF rest] g1 Cons.prems(2,3,6-8) by auto
qed simp

lemma apply_patch_reads:
  "apply_patch check G repo branch p changed g = (x, g') \<Longrightarrow> heads g' = heads g \<and> commits g' = commits g"
  by (auto simp: apply_patch_def Let_def dest: fetch_reads split: json.splits if_splits prod.splits option.splits step.splits)

lemma apply_patches_reads:
  "apply_patches check G repo branch ps changed g = (Go ch, g') \<Longrightarrow> heads g' = heads g \<and> commits g' = commits g"
proof (induction ps arbitrary: changed g)
  case (Cons p ps)
  then obtain ch1 g1 where "apply_patch check G repo branch p changed g = (Go ch1, g1)"
    "apply_patches check G repo branch ps ch1 g1 = (Go ch, g')" by (auto simp: after_Go)
  with Cons.IH apply_patch_reads show ?case by metis
qed simp

lemma push_Go:
  assumes "push_and_open G a repo branch changed g = (Go f, g')" "url_plain branch"
  shows "\<exists>c0 fs p. heads g repo branch = Some c0 \<and> commits g repo c0 = Some (fs, p) \<and>
    ((\<forall>e \<in> set changed. fs (fst e) \<noteq> None) \<longrightarrow>
      (\<exists>c. heads g' repo (branch_name (pr_incident_id a)) = Some c \<and>
           commits g' repo c = Some (fs ++ map_of (rev changed), c0)))"
proof -
  let ?fb = "branch_name (pr_incident_id a)"
  from assms(1) obtain d g1 ob base code3 d3 g3 code4 d4 g4 tree code6 d6 g6 c code8 d8 g8 where
    ref: "git_ref G repo branch g = (Inr (200, d), g1)" and
    sha: "subscript d ''object'' = Inr ob" "subscript ob ''sha'' = Inr base" and
    cr: "git_create_ref G repo ?fb base g1 = (Inr (code3, d3), g3)" and
    ct: "git_create_tree G repo base changed g3 = (Inr (code4, d4), g4)" "code4 \<in> {200, 201}" and
    tree: "subscript d4 ''sha'' = Inr tree" and
    cc: "git_create_commit G repo (pr_title a) tree base g4 = (Inr (code6, d6), g6)" "code6 \<in> {200, 201}" and
    c: "subscript d6 ''sha'' = Inr c" and
    up: "git_update_ref G repo ?fb c g6 = (Inr (code8, d8), g8)" "code8 \<in> {200, 201}" and
    op: "open_pull G a repo branch changed g8 = (Go f, g')"
    unfolding push_and_open_def Let_def after_Go answered_Go
    by (auto simp: of_res_Go bind_res_eq_Inr)
  obtain c0 where c0: "heads g repo branch = Some c0" "base = c0"
    using ref_sha [OF assms(2) ref] subscript_jget sha by metis
  from ref_reads [OF ref] create_ref_adds [OF cr] have g3: "commits g3 = commits g" by simp
  from create_tree_files [OF ct] subscript_jget [OF tree] g3 c0 obtain fs p where
    fs: "commits g repo c0 = Some (fs, p)" "(\<forall>e \<in> set changed. fs (fst e) \<noteq> None) \<longrightarrow>
      trees g4 repo tree = Some (fs ++ map_of (rev changed))" by auto
  from create_commit_files [OF cc] subscript_jget [OF c] fs(2) c0 have
    "(\<forall>e \<in> set changed. fs (fst e) \<noteq> None) \<longrightarrow> commits g6 repo c = Some (fs ++ map_of (rev changed), c0)" by auto
  with update_ref_moves [OF up(1)] have
    "(\<forall>e \<in> set changed. fs (fst e) \<noteq> None) \<longrightarrow> commits g8 repo c = Some (fs ++ map_of (rev changed), c0)" by blast
  moreover have "heads g8 repo ?fb = Some c" using update_ref_done [OF up] by simp
  moreover obtain r where "git_create_pull G repo (pull_payload a branch changed) g8 = (r, g')"
    using open_pull_snd [of G a repo branch changed g8] op by (metis prod.collapse snd_conv)
  note create_pull_keeps [OF this]
  ultimately show ?thesis using c0(1) fs(1) by fastforce
qed

end

text \<open>C31: take a task that opens a pull request.  The repository is the one of the
  GitHub integration of the task's tenant that is mapped to the service of the task's incident, and the base
  is its default branch.  If the name of that branch and the files the patches name are plain in an
  address, if none of these is a directory there, and while nobody else pushes, the branch named after the
  incident is one commit on top of the default branch as it was.  The two differ in a file only if a patch
  names it and its search text occurs in it, and the file then holds its text with the first occurrence
  replaced.  (Paths are put into the address unescaped, and a directory is answered with a listing, so without
  these conditions a patch may be applied to another text than that of the file it names.)\<close>

theorem pull_request_contents:
  assumes "\<forall>token. git_server (ge_api env token) heads trees commits"
    and "uuid_parse (pr_tenant_id a) = Some tenant" "uuid_parse (pr_incident_id a) = Some inc"
    and "resolve_repo env tenant inc db = Go (repo, branch, installation)"
    and "parse_patches (pr_structured_patch a) = Go ps"
    and "heads g repo branch = Some c0" "commits g repo c0 = Some (fs, p)"
    and "url_plain branch" "\<forall>p \<in> set ps. names_file fs p"
    and "execute_create_github_pr env a db g = (Go f, g')"
  shows "\<exists>c ch. heads g' repo (branch_name (pr_incident_id a)) = Some c \<and>
    commits g' repo c = Some (fs ++ map_of ch, c0) \<and>
    ch \<noteq> [] \<and> distinct (map fst ch) \<and> (\<forall>fn \<in> set ch. from_patch fs ps fn)"
proof -
  from assms(2-5,10) obtain token ch g1 where
    ap: "apply_patches (ge_syntax env) (ge_api env token) repo branch ps [] g = (Go ch, g1)" and
    push: "push_and_open (ge_api env token) a repo branch ch g1 = (Go f, g')" and ne: "ch \<noteq> []"
    by (cases "ge_token env installation")
      (auto simp: execute_create_github_pr_def after_Go split: if_splits)
  have S: "git_server (ge_api env token) heads trees commits" using assms(1) by blast
  have reads: "heads g1 = heads g \<and> commits g1 = commits g"
    using git_server.apply_patches_reads [OF S ap] .
  from git_server.apply_patches_Go [OF S ap assms(6,7) _ _ _ assms(8,9)] have
    ch: "distinct (map fst ch)" "\<forall>fn \<in> set ch. from_patch fs ps fn" by auto
  then have "\<forall>e \<in> set ch. fs (fst e) \<noteq> None" by (auto simp: from_patch_def)
  with git_server.push_Go [OF S push assms(8)] reads assms(6,7) obtain c where
    g': "heads g' repo (branch_name (pr_incident_id a)) = Some c" "commits g' repo c = Some (fs ++ map_of (rev ch), c0)"
    by auto
  from g'(2) have "commits g' repo c = Some (fs ++ map_of ch, c0)" using map_of_rev [OF ch(1)] by simp
  with g'(1) ne ch show ?thesis by blast
qed

text \<open>Two patches to the same file are both applied to the file as it is on GitHub, so of the
  first nothing is left in the pull request.\<close>

theorem second_patch_wins:
  assumes "git_contents G repo (path @ ''?ref='' @ branch) g = (Inr (200, old), g1)"
    and "git_contents G repo (path @ ''?ref='' @ branch) g1 = (Inr (200, old), g2)"
    and "path \<noteq> []" "\<not> suffix ''.py'' path" "s1 \<noteq> []" "s2 \<noteq> []"
    and "replace_first s1 r1 old \<noteq> old" "replace_first s2 r2 old \<noteq> old"
  shows "apply_patches check G repo branch
      [JObj [(''file'', JStr path), (''search'', JStr s1), (''replace'', JStr r1)],
       JObj [(''file'', JStr path), (''search'', JStr s2), (''replace'', JStr r2)]] [] g =
    (Go [(path, replace_first s2 r2 old)], g2)"
  using assms
  by (simp add: apply_patch_def get_default_def fetch_file_from_github_def patched_def after_def)

subsection \<open>Failures\<close>

lemma attempt_Inl:
  "create_github_pr env a k db g = (Inl e, db', g') \<Longrightarrow>
     db' = (if 3 \<le> k then save_pr_fields (ge_save_error env) (pr_incident_id a)
                            (failure ''failed'' (''Unhandled task exception: '' @ ge_show env e)) db else db)"
  by (auto simp: create_github_pr_def PR_RETRIES_def split: prod.splits step.splits)

text \<open>The task makes at most four attempts.  When an exception leaves it, it is written to the incident only if
  the fourth attempt raised it; an exception that is not retried ends the task where it occurs, and before the fourth
  attempt the incident never shows it, although the task is documented to save every unhandled error.  (Failures
  the task handles itself are saved in the attempt they occur in.)\<close>

theorem only_last_failure_saved:
  assumes "create_github_pr_task env a db g = (Inl e, db', g', n)"
  shows "1 \<le> n \<and> n \<le> 4 \<and>
    (if n = 4 then db' = save_pr_fields (ge_save_error (env 3)) (pr_incident_id a)
                           (failure ''failed'' (''Unhandled task exception: '' @ ge_show (env 3) e)) db
     else db' = db \<and> \<not> is_request_error e)"
proof -
  have "k < n \<and> n \<le> 4 \<and>
    (if n = 4 then db' = save_pr_fields (ge_save_error (env 3)) (pr_incident_id a)
                           (failure ''failed'' (''Unhandled task exception: '' @ ge_show (env 3) e)) db
     else db' = db \<and> \<not> is_request_error e)"
    if "pr_attempts left env a k db g = (Inl e, db', g', n)" "k + left = 3" for left k g
    using that
  proof (induction left arbitrary: k g)
    case 0
    then obtain x db1 g1 where "create_github_pr (env 3) a 3 db g = (Inl x, db1, g1)"
      by (auto split: prod.splits sum.splits)
    with 0 attempt_Inl [OF this] show ?case by auto
  next
    case (Suc left)
    obtain x db1 g1 where c: "create_github_pr (env k) a k db g = (Inl x, db1, g1)"
      using Suc.prems(1) by (auto split: prod.splits sum.splits)
    with attempt_Inl [OF c] Suc.prems(2) have [simp]: "db1 = db" by auto
    show ?case
    proof (cases "is_request_error x")
      case True
      with Suc.prems c have "pr_attempts left env a (k + 1) db g1 = (Inl e, db', g', n)" by simp
      from Suc.IH [OF this] Suc.prems(2) show ?thesis by auto
    next
      case False
      with Suc.prems c show ?thesis by auto
    qed
  qed
  from this [of PR_RETRIES 0] assms show ?thesis by (auto simp: create_github_pr_task_def PR_RETRIES_def Suc_le_eq)
qed

subsection \<open>A server in memory\<close>

record git_state =
  gs_heads :: "string \<Rightarrow> string \<Rightarrow> json option"
  gs_trees :: "string \<Rightarrow> json \<Rightarrow> files option"
  gs_commits :: "string \<Rightarrow> json \<Rightarrow> (files \<times> json) option"
  gs_next :: int

definition created :: "int \<Rightarrow> json" where
  "created n = JObj [(''sha'', JInt n)]"

definition mem_git :: "git_state git_api" where
  "mem_git = \<lparr>
     git_contents = (\<lambda>repo target g.
       (let path = takeWhile (\<lambda>c. c \<noteq> CHR ''?'') target; branch = drop (length path + 5) target in
        case Option.bind (Option.bind (gs_heads g repo branch) (gs_commits g repo)) (\<lambda>c. fst c path) of
          None \<Rightarrow> (Inr (404, []), g) | Some t \<Rightarrow> (Inr (200, t), g))),
     git_ref = (\<lambda>repo branch g.
       (case gs_heads g repo branch of
          None \<Rightarrow> (Inr (404, JNull), g) | Some c \<Rightarrow> (Inr (200, JObj [(''object'', JObj [(''sha'', c)])]), g))),
     git_create_ref = (\<lambda>repo b c g.
       if gs_heads g repo b = None
       then (Inr (201, JNull), g\<lparr>gs_heads := (gs_heads g)(repo := (gs_heads g repo)(b \<mapsto> c))\<rparr>)
       else (Inr (422, JNull), g)),
     git_create_tree = (\<lambda>repo base es g.
       (case gs_commits g repo base of
          None \<Rightarrow> (Inr (422, JNull), g)
        | Some (fs, p) \<Rightarrow> (Inr (201, created (gs_next g)),
            g\<lparr>gs_trees := (gs_trees g)(repo := (gs_trees g repo)(JInt (gs_next g) \<mapsto> fs ++ map_of (rev es))),
              gs_next := gs_next g + 1\<rparr>))),
     git_create_commit = (\<lambda>repo msg t p g.
       (case (gs_trees g repo t, gs_commits g repo (JInt (gs_next g))) of
          (Some fs, None) \<Rightarrow> (Inr (201, created (gs_next g)),
            g\<lparr>gs_commits := (gs_commits g)(repo := (gs_commits g repo)(JInt (gs_next g) \<mapsto> (fs, p))),
              gs_next := gs_next g + 1\<rparr>)
        | _ \<Rightarrow> (Inr (422, JNull), g))),
     git_update_ref = (\<lambda>repo b c g.
       (case (gs_heads g repo b, gs_commits g repo c) of
          (Some h, Some (fs, p)) \<Rightarrow>
            if p = h then (Inr (200, JNull), g\<lparr>gs_heads := (gs_heads g)(repo := (gs_heads g repo)(b \<mapsto> c))\<rparr>)
            else (Inr (422, JNull), g)
        | _ \<Rightarrow> (Inr (422, JNull), g))),
     git_create_pull = (\<lambda>repo d g. (Inr (201, JObj [(''html_url'', JStr ''u''), (''number'', JInt 1)]), g))\<rparr>"

lemma split_on_chars: "list_all (list_all P) (split_on d s) \<Longrightarrow> list_all (\<lambda>c. P c \<or> c = d) s"
  by (induction d s rule: split_on.induct) (auto split: list.splits if_splits)

lemma plain_chars:
  assumes "url_plain s" shows "list_all (\<lambda>c. c \<noteq> CHR ''?'') s"
proof -
  have "list_all (list_all url_char) (split_on (CHR ''/'') s)"
    using assms by (auto simp: url_plain_def list_all_iff)
  from split_on_chars [OF this] show ?thesis
    by (auto simp: list_all_iff url_char_def is_alnum_def is_alpha_def is_dec_def is_upper_def is_lower_def)
qed

lemma plain_target:
  assumes "url_plain path" "target = path @ ''?ref='' @ branch"
  shows "takeWhile (\<lambda>c. c \<noteq> CHR ''?'') target = path \<and> drop (length path + 5) target = branch"
  using plain_chars [OF assms(1)] assms(2) by (simp add: list_all_iff)

lemma mem_contents:
  "git_contents mem_git repo target g = (x, g') \<Longrightarrow> g' = g"
  by (auto simp: mem_git_def Let_def split: option.splits)

lemma mem_contents_text:
  assumes "url_plain path" "git_contents mem_git repo (path @ ''?ref='' @ branch) g = (Inr (200, t), g')"
  shows "\<exists>c fs p. gs_heads g repo branch = Some c \<and> gs_commits g repo c = Some (fs, p) \<and> fs path = Some t"
proof -
  have tg: "takeWhile (\<lambda>c. c \<noteq> CHR ''?'') (path @ ''?ref='' @ branch) = path"
    "drop (length path + 5) (path @ ''?ref='' @ branch) = branch"
    using plain_target [OF assms(1) refl] by blast+
  show ?thesis
    using assms(2) unfolding mem_git_def git_api.simps tg Let_def
    by (auto split: option.splits bind_splits)
qed

interpretation mem_git: git_server mem_git gs_heads gs_trees gs_commits
proof (unfold_locales, goal_cases)
  case (2 path branch repo g t g')
  then show ?case using mem_contents_text by blast
qed (auto simp: mem_git_def created_def Let_def split: option.splits if_splits bind_splits prod.splits)

definition sample_git :: git_state where
  "sample_git = \<lparr>gs_heads = (\<lambda>_. [''main'' \<mapsto> JInt 0]), gs_trees = (\<lambda>_ _. None),
     gs_commits = (\<lambda>_. [JInt 0 \<mapsto> ([''a.c'' \<mapsto> ''x=1''], JNull)]), gs_next = 1\<rparr>"

definition sample_pr_db :: db2 where
  "sample_pr_db = tenant_db\<lparr>incidents := [case_incident row_a ''open''],
     service_repo_mapping_snapshots := [\<lparr>sm_id = row_a, sm_tenant_id = tenant_a, sm_service_name = ''pay'',
        sm_repo_url = ''r'', sm_synced_at = 0\<rparr>],
     github_integration_snapshots := [\<lparr>gi_id = row_a, gi_tenant_id = tenant_a, gi_repo_url = ''r'',
        gi_repo_owner = ''o'', gi_repo_name = ''r'', gi_installation_id = Some 7, gi_default_branch = ''main'',
        gi_indexing_status = ''indexed'', gi_last_indexed_commit = None, gi_source_version = 1\<rparr>]\<rparr>"

definition sample_pr_env :: "string res \<Rightarrow> git_state pr_env" where
  "sample_pr_env tok = \<lparr>ge_api = (\<lambda>_. mem_git), ge_token = (\<lambda>_. tok), ge_syntax = (\<lambda>_. None), ge_show = (\<lambda>_. ''e''),
     ge_db_error = None, ge_save_error = None\<rparr>"

definition sample_pr :: "string \<Rightarrow> pr_args" where
  "sample_pr p = \<lparr>pr_tenant_id = tenant_a, pr_incident_id = row_a, pr_structured_patch = p,
     pr_error_type = ''KeyError'', pr_root_cause = [], pr_suggested_fix = [], pr_is_draft = False\<rparr>"

definition one_patch :: json where
  "one_patch = JObj [(''file'', JStr ''a.c''), (''search'', JStr ''1''), (''replace'', JStr ''2'')]"

definition patch_text :: "json \<Rightarrow> string" where
  "patch_text v = dumps (\<lambda>_. []) v"

lemma patch_texts: "parse_patches (patch_text (JObj [(''patches'', JArr [one_patch])])) = Go [one_patch]"
  "parse_patches (patch_text (JArr [])) = Raise (AttributeError ''get'')"
proof -
  have "plain (JObj [(''patches'', JArr [one_patch])])" "plain (JArr [])" by (simp_all add: one_patch_def)
  note l = this [THEN loads_dumps, of "\<lambda>_. []"]
  show "parse_patches (patch_text (JObj [(''patches'', JArr [one_patch])])) = Go [one_patch]"
    unfolding parse_patches_def patch_text_def l(1) by (simp add: elements_def)
  show "parse_patches (patch_text (JArr [])) = Raise (AttributeError ''get'')"
    unfolding parse_patches_def patch_text_def l(2) by simp
qed

lemma sample_repo: "resolve_repo (sample_pr_env tok) tenant_a row_a sample_pr_db = Go (''o/r'', ''main'', 7)"
  by (simp add: resolve_repo_def sample_pr_env_def sample_pr_db_def scalar_one_or_none_def case_incident_def)

lemma sample_ids: "uuid_parse tenant_a = Some tenant_a" "uuid_parse row_a = Some row_a"
  using sample_uuids by (simp_all add: is_uuid_def)

lemma sample_apply: "apply_patches (\<lambda>_. None) mem_git ''o/r'' ''main'' [one_patch] [] sample_git =
    (Go [(''a.c'', ''x=2'')], sample_git)"
  by (simp add: apply_patch_def one_patch_def get_default_def fetch_file_from_github_def mem_git_def sample_git_def
      patched_def after_def)

lemma sample_push: "\<exists>f g'. push_and_open mem_git (sample_pr p) ''o/r'' ''main'' [(''a.c'', ''x=2'')] sample_git = (Go f, g')"
  by (simp add: push_and_open_def open_pull_def mem_git_def sample_git_def after_def answered_def of_res_def
      created_def branch_name_def Let_def)

lemma sample_servers: "\<forall>token. git_server (ge_api (sample_pr_env tok) token) gs_heads gs_trees gs_commits"
  using mem_git.git_server_axioms by (simp add: sample_pr_env_def)

lemma only_fix_branch_moves_witness:
  "\<exists>r db' g' n. create_github_pr_task (\<lambda>_. sample_pr_env (Inr ''t''))
     (sample_pr (patch_text (JObj [(''patches'', JArr [one_patch])]))) sample_pr_db sample_git = (r, db', g', n) \<and>
     gs_heads g' ''o/r'' ''main'' = Some (JInt 0)"
proof -
  let ?a = "sample_pr (patch_text (JObj [(''patches'', JArr [one_patch])]))"
  obtain r db' g' n where run: "create_github_pr_task (\<lambda>_. sample_pr_env (Inr ''t'')) ?a sample_pr_db sample_git = (r, db', g', n)"
    by (metis prod_cases4)
  have "\<forall>k token. git_server (ge_api ((\<lambda>_. sample_pr_env (Inr ''t'')) (k :: nat)) token) gs_heads gs_trees gs_commits"
    using sample_servers by simp
  moreover have "''main'' \<noteq> branch_name (pr_incident_id ?a)" by (simp add: branch_name_def)
  ultimately have "gs_heads g' ''o/r'' ''main'' = gs_heads sample_git ''o/r'' ''main''"
    using only_fix_branch_moves [OF _ run] by blast
  with run show ?thesis by (simp add: sample_git_def)
qed

lemma sample_plain: "url_plain ''main''" "url_plain ''a.c''"
  by code_simp+

theorem pull_request_contents_witness:
  "\<exists>f g' c. execute_create_github_pr (sample_pr_env (Inr ''t''))
     (sample_pr (patch_text (JObj [(''patches'', JArr [one_patch])]))) sample_pr_db sample_git = (Go f, g') \<and>
     gs_heads g' ''o/r'' (branch_name row_a) = Some c"
proof -
  let ?a = "sample_pr (patch_text (JObj [(''patches'', JArr [one_patch])]))"
  let ?env = "sample_pr_env (Inr ''t'')"
  have f: "pr_tenant_id ?a = tenant_a" "pr_incident_id ?a = row_a" "ge_syntax ?env = (\<lambda>_. None)"
    "pr_structured_patch ?a = patch_text (JObj [(''patches'', JArr [one_patch])])"
    "ge_token ?env n = Inr ''t''" "ge_api ?env t = mem_git" for n t by (simp_all add: sample_pr_def sample_pr_env_def)
  obtain x g' where x: "push_and_open mem_git ?a ''o/r'' ''main'' [(''a.c'', ''x=2'')] sample_git = (Go x, g')"
    using sample_push by blast
  have run: "execute_create_github_pr ?env ?a sample_pr_db sample_git = (Go x, g')"
    unfolding execute_create_github_pr_def f sample_ids
    by (simp only: option.case prod.case sample_repo patch_texts sample_apply x after_def step.case sum.case f) simp
  have heads: "gs_heads sample_git ''o/r'' ''main'' = Some (JInt 0)"
    "gs_commits sample_git ''o/r'' (JInt 0) = Some ([''a.c'' \<mapsto> ''x=1''], JNull)"
    by (simp_all add: sample_git_def)
  have "\<not> is_dir [''a.c'' \<mapsto> ''x=1''] ''a.c''" by (auto simp: is_dir_def)
  then have named: "\<forall>p \<in> set [one_patch]. names_file [''a.c'' \<mapsto> ''x=1''] p"
    using sample_plain(2) by (simp add: names_file_def one_patch_def get_default_def)
  have ids: "uuid_parse (pr_tenant_id ?a) = Some tenant_a" "uuid_parse (pr_incident_id ?a) = Some row_a"
    and ps: "parse_patches (pr_structured_patch ?a) = Go [one_patch]"
    unfolding f by (fact sample_ids patch_texts)+
  from pull_request_contents [OF sample_servers ids sample_repo ps heads sample_plain(1) named run] run
  show ?thesis unfolding f by blast
qed

definition ab_git :: git_state where
  "ab_git = sample_git\<lparr>gs_commits := (\<lambda>_. [JInt 0 \<mapsto> ([''a.c'' \<mapsto> ''ab''], JNull)])\<rparr>"

lemma second_patch_wins_witness:
  "apply_patches (\<lambda>_. None) mem_git ''o/r'' ''main''
      [JObj [(''file'', JStr ''a.c''), (''search'', JStr ''a''), (''replace'', JStr ''c'')],
       JObj [(''file'', JStr ''a.c''), (''search'', JStr ''b''), (''replace'', JStr ''d'')]] [] ab_git =
    (Go [(''a.c'', ''ad'')], ab_git)"
proof -
  have c: "git_contents mem_git ''o/r'' (''a.c'' @ ''?ref='' @ ''main'') ab_git = (Inr (200, ''ab''), ab_git)"
    by (simp add: mem_git_def ab_git_def sample_git_def)
  have "\<not> suffix ''.py'' ''a.c''" by (simp add: suffix_to_prefix)
  with second_patch_wins [OF c c, of "''a''" "''b''" "''c''" "''d''" "\<lambda>_. None"] show ?thesis by simp
qed

lemma only_last_failure_saved_witness:
  "\<exists>e g' n. create_github_pr_task (\<lambda>_. sample_pr_env (Inr ''t'')) (sample_pr (patch_text (JArr []))) sample_pr_db sample_git =
     (Inl e, sample_pr_db, g', n)"
proof -
  let ?a = "sample_pr (patch_text (JArr []))" and ?env = "sample_pr_env (Inr ''t'')"
  have f: "pr_tenant_id ?a = tenant_a" "pr_incident_id ?a = row_a" "pr_structured_patch ?a = patch_text (JArr [])"
    "ge_token ?env n = Inr ''t''" for n by (simp_all add: sample_pr_def sample_pr_env_def)
  have "execute_create_github_pr ?env ?a sample_pr_db sample_git = (Raise (AttributeError ''get''), sample_git)"
    unfolding execute_create_github_pr_def f sample_ids
    by (simp only: option.case prod.case sample_repo patch_texts after_def step.case sum.case f)
  then obtain db' n where run: "create_github_pr_task (\<lambda>_. ?env) ?a sample_pr_db sample_git =
      (Inl (AttributeError ''get''), db', sample_git, n)" and "n = 1"
    by (simp add: create_github_pr_task_def create_github_pr_def PR_RETRIES_def numeral_3_eq_3 is_request_error_def)
  with only_last_failure_saved [OF run] show ?thesis by auto
qed

end
