(* ===== verification/Dj_Models.thy ===== *)
theory Dj_Models
  imports Kafka Django_Config
begin

text \<open>
  Django's database, DB-1: the tables of \<open>apps/users\<close>, \<open>apps/tenants\<close>, \<open>apps/billing\<close>,
  \<open>apps/collaboration\<close>, \<open>apps/analytics\<close> and \<open>apps/outbox\<close>, with the methods of their models, the
  constraints of the tables that the services can run into, and the conversions that Django's model fields
  apply to the values assigned to them.
\<close>

subsection \<open>Tenants and users\<close>

record tenant =
  tnt_id :: uuid
  tnt_name :: string
  tnt_slug :: string
  tnt_plan_tier :: string
  tnt_status :: string
  tnt_razorpay_customer_id :: "string option"
  tnt_razorpay_subscription_id :: "string option"

definition is_suspended :: "tenant \<Rightarrow> bool" where
  "is_suspended t \<longleftrightarrow> tnt_status t = ''suspended''"

definition vector_namespace :: "tenant \<Rightarrow> string" where
  "vector_namespace t = tnt_slug t"

definition kafka_group_id :: "tenant \<Rightarrow> string" where
  "kafka_group_id t = ''group_'' @ tnt_slug t"

record user =
  usr_id :: uuid
  usr_email :: string
  usr_tenant :: "uuid option"
  usr_first_name :: string
  usr_last_name :: string
  usr_role :: string
  usr_is_active :: bool
  usr_is_staff :: bool
  usr_is_superuser :: bool
  usr_is_superadmin :: bool
  usr_email_verified :: bool
  usr_profile_picture_key :: "string option"
  usr_password :: string  \<comment> \<open>the hash\<close>
  usr_created_at :: time

definition get_full_name :: "user \<Rightarrow> string" where
  "get_full_name u =
     (let full = strip (usr_first_name u @ '' '' @ usr_last_name u)
      in if full = [] then usr_email u else full)"

definition is_tenant_owner :: "user \<Rightarrow> bool" where
  "is_tenant_owner u \<longleftrightarrow> usr_role u = ''owner'' \<and> usr_tenant u \<noteq> None"

definition is_tenant_admin :: "user \<Rightarrow> bool" where
  "is_tenant_admin u \<longleftrightarrow> usr_role u \<in> set [''admin'', ''owner''] \<and> usr_tenant u \<noteq> None"

definition is_platform_admin :: "user \<Rightarrow> bool" where
  "is_platform_admin u \<longleftrightarrow> usr_is_superuser u \<and> usr_tenant u = None"

record api_key =
  apk_id :: uuid
  apk_tenant :: uuid
  apk_created_by :: "uuid option"
  apk_name :: string
  apk_key :: string
  apk_is_active :: bool
  apk_created_at :: time

subsection \<open>Signing in\<close>

record user_session =
  ses_id :: uuid
  ses_user :: uuid
  ses_tenant :: "uuid option"
  ses_current_refresh_jti :: string
  ses_device_name :: string
  ses_ip_address :: string
  ses_user_agent :: string
  ses_is_active :: bool
  ses_is_revoked :: bool
  ses_revoked_at :: "time option"
  ses_revoked_reason :: string
  ses_last_activity_at :: time
  ses_created_at :: time
  ses_expires_at :: time

definition session_is_valid :: "time \<Rightarrow> user_session \<Rightarrow> bool" where
  "session_is_valid now s \<longleftrightarrow> ses_is_active s \<and> \<not> ses_is_revoked s \<and> now \<le> ses_expires_at s"

definition revoke :: "time \<Rightarrow> user_session \<Rightarrow> user_session" where
  "revoke now s = s\<lparr>ses_is_revoked := True, ses_revoked_at := Some now, ses_last_activity_at := now\<rparr>"

record user_invitation =
  inv_id :: uuid
  inv_email :: string
  inv_tenant :: uuid
  inv_invited_by :: "uuid option"
  inv_role :: string
  inv_token :: string
  inv_status :: string
  inv_accepted_by :: "uuid option"
  inv_created_at :: time
  inv_expires_at :: time
  inv_accepted_at :: "time option"
  inv_cancelled_at :: "time option"

definition invitation_is_valid :: "time \<Rightarrow> user_invitation \<Rightarrow> bool" where
  "invitation_is_valid now i \<longleftrightarrow> inv_status i = ''pending'' \<and> now \<le> inv_expires_at i"

record email_verification =
  emv_id :: uuid
  emv_user :: uuid
  emv_token :: string
  emv_status :: string
  emv_expires_at :: time
  emv_verified_at :: "time option"

definition verification_is_valid :: "time \<Rightarrow> email_verification \<Rightarrow> bool" where
  "verification_is_valid now v \<longleftrightarrow> emv_status v = ''pending'' \<and> now \<le> emv_expires_at v"

record password_reset =
  pwr_id :: uuid
  pwr_user :: uuid
  pwr_token :: string
  pwr_status :: string
  pwr_expires_at :: time
  pwr_used_at :: "time option"
  pwr_ip_address :: "string option"

definition reset_is_valid :: "time \<Rightarrow> password_reset \<Rightarrow> bool" where
  "reset_is_valid now r \<longleftrightarrow> pwr_status r = ''pending'' \<and> now \<le> pwr_expires_at r"

record totp_device =
  otp_user :: uuid
  otp_secret_key :: string
  otp_is_confirmed :: bool
  otp_confirmed_at :: "time option"

record backup_code =
  bkc_id :: uuid
  bkc_user :: uuid
  bkc_code_hash :: string
  bkc_is_used :: bool
  bkc_used_at :: "time option"

record mfa_token =
  mft_token :: string
  mft_user :: uuid
  mft_expires_at :: time

definition mfa_token_is_valid :: "time \<Rightarrow> mfa_token \<Rightarrow> bool" where
  "mfa_token_is_valid now t \<longleftrightarrow> now \<le> mft_expires_at t"

record audit_log =
  aud_action :: string
  aud_user :: "uuid option"
  aud_tenant :: "uuid option"
  aud_user_email :: string
  aud_resource_id :: string
  aud_success :: bool

subsection \<open>Collaboration, analytics, billing\<close>

record notification =
  ntf_id :: uuid
  ntf_tenant :: uuid
  ntf_user :: uuid
  ntf_type :: string
  ntf_title :: string
  ntf_body :: string
  ntf_incident_id :: "uuid option"
  ntf_is_read :: bool
  ntf_created_at :: time

record incident_thread =
  thr_id :: uuid
  thr_tenant :: uuid
  thr_incident_id :: uuid
  thr_created_at :: time

record thread_message =
  msg_id :: uuid
  msg_thread :: uuid
  msg_tenant :: uuid
  msg_author :: "uuid option"
  msg_content :: string
  msg_parent :: "uuid option"
  msg_is_system_message :: bool
  msg_is_deleted :: bool
  msg_created_at :: time
  msg_updated_at :: time

record status_transition =
  trn_id :: uuid
  trn_tenant :: uuid
  trn_incident_id :: uuid
  trn_actor :: "uuid option"
  trn_from_status :: string
  trn_to_status :: string
  trn_note :: "string option"
  trn_created_at :: time

record incident_snapshot =
  snp_incident_id :: uuid
  snp_tenant :: uuid
  snp_fingerprint :: string
  snp_status :: string
  snp_is_draft :: bool
  snp_severity :: string
  snp_error_category :: string
  snp_confidence_score :: "rat option"
  snp_error_type :: string
  snp_error_message :: string
  snp_service_name :: string
  snp_environment :: string
  snp_crash_file :: string
  snp_crash_method :: string
  snp_root_cause :: string
  snp_suggested_fix :: string
  snp_occurrence_count :: int
  snp_assigned_user_id :: "uuid option"
  snp_source_version :: int
  snp_first_seen_at :: "time option"
  snp_last_seen_at :: "time option"
  snp_resolved_at :: "time option"
  snp_created_at :: time

record processed_event =
  prc_event_id :: uuid
  prc_consumer_group :: string
  prc_topic :: string

record billing_event =
  bil_razorpay_event_id :: string
  bil_event_type :: string
  bil_payload :: json

record db1 =
  d_tenants :: "tenant list"
  d_users :: "user list"
  d_api_keys :: "api_key list"
  d_sessions :: "user_session list"
  d_invitations :: "user_invitation list"
  d_verifications :: "email_verification list"
  d_resets :: "password_reset list"
  d_devices :: "totp_device list"
  d_backup_codes :: "backup_code list"
  d_mfa_tokens :: "mfa_token list"
  d_audit :: "audit_log list"
  d_notifications :: "notification list"
  d_threads :: "incident_thread list"
  d_messages :: "thread_message list"
  d_transitions :: "status_transition list"
  d_snapshots :: "incident_snapshot list"
  d_processed :: "processed_event list"
  d_billing :: "billing_event list"
  d_outbox :: "dj_event list"

definition empty_db1 :: db1 where
  "empty_db1 = \<lparr>d_tenants = [], d_users = [], d_api_keys = [], d_sessions = [], d_invitations = [],
     d_verifications = [], d_resets = [], d_devices = [], d_backup_codes = [], d_mfa_tokens = [], d_audit = [],
     d_notifications = [], d_threads = [], d_messages = [], d_transitions = [], d_snapshots = [],
     d_processed = [], d_billing = [], d_outbox = []\<rparr>"

text \<open>\<open>write_outbox\<close> of \<open>apps/outbox/mixins.py\<close>; the columns hold 256 characters.\<close>

definition emit_event :: "string \<Rightarrow> string \<Rightarrow> json \<Rightarrow> db1 \<Rightarrow> db1 res" where
  "emit_event topic key payload d =
     (if 256 < length topic then Inl (DataError ''outbox.topic'')
      else if 256 < length key then Inl (DataError ''outbox.key'')
      else Inr (d\<lparr>d_outbox := d_outbox d @ [\<lparr>de_topic = topic, de_key = key, de_payload = payload\<rparr>]\<rparr>))"

text \<open>\<open>AuditLog.log\<close>: tenant and address are those of the user unless they are given.\<close>

definition audit ::
  "string \<Rightarrow> user option \<Rightarrow> uuid option \<Rightarrow> string \<Rightarrow> string \<Rightarrow> bool \<Rightarrow> db1 \<Rightarrow> db1" where
  "audit action u t email resource_id success d =
     d\<lparr>d_audit := d_audit d @ [\<lparr>
         aud_action = action, aud_user = map_option usr_id u,
         aud_tenant = (case t of Some x \<Rightarrow> Some x | None \<Rightarrow> (case u of Some w \<Rightarrow> usr_tenant w | None \<Rightarrow> None)),
         aud_user_email = (if email \<noteq> [] then email else case u of Some w \<Rightarrow> usr_email w | None \<Rightarrow> []),
         aud_resource_id = resource_id, aud_success = success\<rparr>]\<rparr>"

definition user_by_id :: "uuid \<Rightarrow> db1 \<Rightarrow> user option" where
  "user_by_id u d = row_at usr_id u (d_users d)"

definition tenant_by_id :: "uuid \<Rightarrow> db1 \<Rightarrow> tenant option" where
  "tenant_by_id t d = row_at tnt_id t (d_tenants d)"

definition save_user :: "user \<Rightarrow> db1 \<Rightarrow> db1" where
  "save_user u d = d\<lparr>d_users := put_row usr_id u (d_users d)\<rparr>"

subsection \<open>Fields of the models\<close>

text \<open>
  \<open>uuid.UUID(v)\<close> of a decoded value: the constructor calls \<open>v.replace\<close>, and refuses \<open>None\<close> first.
\<close>

definition uuid_arg :: "json \<Rightarrow> uuid res" where
  "uuid_arg v = (case v of
     JStr s \<Rightarrow> (case uuid_parse s of None \<Rightarrow> Inl (ValueError ''badly formed hexadecimal UUID string'')
                | Some u \<Rightarrow> Inr u)
   | JNull \<Rightarrow> Inl (TypeError ''UUID'')
   | _ \<Rightarrow> Inl (AttributeError ''replace''))"

text \<open>
  A character field makes a text of every value but null; the column is not null and may be bounded.  An
  integer field calls \<open>int\<close>; its column has 32 bits.  A boolean field knows a few spellings.  A
  date field reads texts, by a function of Django that is a parameter.
\<close>

definition char_field :: "(rat \<Rightarrow> string) \<Rightarrow> string \<Rightarrow> nat option \<Rightarrow> json \<Rightarrow> string res" where
  "char_field float_repr c w v =
     (if v = JNull then Inl (IntegrityError c)
      else let s = str_value float_repr v
           in if (case w of None \<Rightarrow> True | Some n \<Rightarrow> length s \<le> n) then Inr s else Inl (DataError c))"

definition integer_field :: "string \<Rightarrow> json \<Rightarrow> int res" where
  "integer_field c v =
     (if v = JNull then Inl (IntegrityError c)
      else bind_res (py_int v) (\<lambda>i. if - (2 ^ 31) \<le> i \<and> i < 2 ^ 31 then Inr i else Inl (DataError c)))"

definition float_field :: "json \<Rightarrow> rat option res" where
  "float_field v =
     (if v = JNull then Inr None
      else case json_float v of None \<Rightarrow> Inl (ValueError ''float'') | Some q \<Rightarrow> Inr (Some q))"

definition bool_field :: "string \<Rightarrow> json \<Rightarrow> bool res" where
  "bool_field c v = (case v of
     JNull \<Rightarrow> Inl (IntegrityError c)
   | JBool b \<Rightarrow> Inr b
   | JInt i \<Rightarrow> if i = 0 \<or> i = 1 then Inr (i = 1) else Inl (OtherError ''ValidationError'')
   | JFlt q \<Rightarrow> if q = 0 \<or> q = 1 then Inr (q = 1) else Inl (OtherError ''ValidationError'')
   | JStr s \<Rightarrow> if s \<in> set [''t'', ''True'', ''1''] then Inr True
              else if s \<in> set [''f'', ''False'', ''0''] then Inr False
              else Inl (OtherError ''ValidationError'')
   | _ \<Rightarrow> Inl (OtherError ''ValidationError''))"

definition date_field :: "(string \<Rightarrow> time option) \<Rightarrow> json \<Rightarrow> time option res" where
  "date_field parse_datetime v = (case v of
     JNull \<Rightarrow> Inr None
   | JStr s \<Rightarrow> (case parse_datetime s of None \<Rightarrow> Inl (OtherError ''ValidationError'') | Some t \<Rightarrow> Inr (Some t))
   | _ \<Rightarrow> Inl (TypeError ''expected string or bytes-like object''))"

text \<open>\<open>DateTimeField.to_representation\<close> of the REST framework\<close>

definition drf_time :: "time \<Rightarrow> string" where
  "drf_time t =
     (let s = isoformat t
      in if removesuffix ''+00:00'' s \<noteq> s then removesuffix ''+00:00'' s @ ''Z'' else s)"

lemma uuid_arg_text [simp]: "is_uuid u \<Longrightarrow> uuid_arg (JStr u) = Inr u"
  by (simp add: uuid_arg_def is_uuid_def)

lemma field_simps' [simp]:
  "char_field f c None (JStr s) = Inr s"
  "char_field f c (Some n) (JStr s) = (if length s \<le> n then Inr s else Inl (DataError c))"
  "float_field JNull = Inr None" "float_field (JFlt q) = Inr (Some q)"
  "bool_field c (JBool b) = Inr b" "date_field p JNull = Inr None"
  by (simp_all add: char_field_def str_value_def py_str_def float_field_def json_float_def bool_field_def
      date_field_def)

lemma float_field_jopt [simp]: "float_field (jopt JFlt q) = Inr q"
  by (cases q) simp_all

end
