(* ===== verification/Collaboration.thy ===== *)
theory Collaboration
  imports Dj_Models Regex
begin

text \<open>
  \<open>apps/collaboration\<close> and \<open>apps/websockets/publisher.py\<close>: the discussion threads of incidents.  The
  channel layer, the queue of push messages and the signing of picture addresses are parameters; what a
  function sends is the second component of its result.  Identifiers come from a supply of fresh ones, in
  the order the code draws them.
\<close>

subsection \<open>Publishing\<close>

datatype push = Group string json | Queue json

datatype queue_answer = Queued | Client_Error | Raises exn

record push_env =
  pu_group :: "string \<Rightarrow> json \<Rightarrow> exn option"  \<comment> \<open>\<open>group_send\<close> raises\<close>
  pu_queue_url :: string
  pu_queue :: "json \<Rightarrow> queue_answer"

type_synonym 'a act = "'a res \<times> push list"

definition abind :: "'a act \<Rightarrow> ('a \<Rightarrow> 'b act) \<Rightarrow> 'b act" where
  "abind m f = (case m of
     (Inl e, ps) \<Rightarrow> (Inl e, ps) | (Inr x, ps) \<Rightarrow> (let (r, qs) = f x in (r, ps @ qs)))"

lemma abind_simps [simp]:
  "abind (Inl e, ps) f = (Inl e, ps)" "abind (Inr x, ps) f = (fst (f x), ps @ snd (f x))"
  by (simp_all add: abind_def case_prod_beta)

definition group_send :: "push_env \<Rightarrow> string \<Rightarrow> json \<Rightarrow> unit act" where
  "group_send p g d = (case pu_group p g d of Some e \<Rightarrow> (Inl e, []) | None \<Rightarrow> (Inr (), [Group g d]))"

definition publish_to_sqs ::
  "push_env \<Rightarrow> uuid \<Rightarrow> string \<Rightarrow> string \<Rightarrow> json \<Rightarrow> json \<Rightarrow> json \<Rightarrow> string \<Rightarrow> unit act" where
  "publish_to_sqs p event_id tenant_id incident_id severity error_type service_name environment =
     (if pu_queue_url p = [] then (Inr (), [])
      else let m = JObj [(''event_id'', JStr event_id), (''tenant_id'', JStr tenant_id),
                         (''incident_id'', JStr incident_id), (''severity'', severity),
                         (''error_type'', error_type), (''service_name'', service_name),
                         (''environment'', JStr environment)]
           in case pu_queue p m of
                Queued \<Rightarrow> (Inr (), [Queue m]) | Client_Error \<Rightarrow> (Inr (), []) | Raises e \<Rightarrow> (Inl e, []))"

definition push_notification :: "push_env \<Rightarrow> uuid \<Rightarrow> string \<Rightarrow> string \<Rightarrow> json \<Rightarrow> unit act" where
  "push_notification p event_id tenant_id user_id d =
     abind (group_send p (''notifications_'' @ tenant_id @ ''_'' @ user_id)
              (JObj [(''type'', JStr ''notification.new''), (''data'', d)])) (\<lambda>_.
       publish_to_sqs p event_id tenant_id (py_str (get_default ''incident_id'' d (get_default ''id'' d (JStr ''notif''))))
         (get_default ''severity'' d (JStr ''HIGH'')) (get_default ''title'' d (JStr ''New Notification''))
         (get_default ''service_name'' d (JStr ''NeuralOps'')) ''production'')"

definition push_collaboration_event :: "push_env \<Rightarrow> string \<Rightarrow> string \<Rightarrow> json \<Rightarrow> unit act" where
  "push_collaboration_event p tenant_id event_type d =
     group_send p (''collaboration_'' @ tenant_id)
       (JObj [(''type'', JStr (''collaboration.'' @ event_type)), (''data'', d)])"

subsection \<open>Serializers\<close>

record collab_env =
  co_now :: time
  co_fresh :: "nat \<Rightarrow> uuid"
  co_push :: push_env
  co_presigned :: "string \<Rightarrow> json"  \<comment> \<open>null when signing fails\<close>
  co_set_order :: "string list \<Rightarrow> string list"  \<comment> \<open>the order in which a set of texts is iterated\<close>

definition AVATAR_COLOURS :: "string list" where
  "AVATAR_COLOURS = [''#6366F1'', ''#8B5CF6'', ''#EC4899'', ''#F59E0B'', ''#10B981'', ''#3B82F6'', ''#EF4444'', ''#14B8A6'']"

definition hex_value :: "char \<Rightarrow> nat" where
  "hex_value c = (let n = (of_char c :: nat) in if n < 58 then n - 48 else if n < 71 then n - 55 else n - 87)"

definition avatar_colour_for :: "uuid \<Rightarrow> string" where
  "avatar_colour_for u =
     AVATAR_COLOURS ! (foldl (\<lambda>n c. 16 * n + hex_value c) 0 (last_n 4 (filter (\<lambda>c. c \<noteq> CHR ''-'') u)) mod 8)"

definition author_json :: "collab_env \<Rightarrow> user \<Rightarrow> json" where
  "author_json env u = JObj [
     (''id'', JStr (usr_id u)), (''first_name'', JStr (usr_first_name u)), (''last_name'', JStr (usr_last_name u)),
     (''full_name'', JStr (get_full_name u)), (''avatar_colour'', JStr (avatar_colour_for (usr_id u))),
     (''avatar_url'', case nonempty (usr_profile_picture_key u) of None \<Rightarrow> JNull | Some k \<Rightarrow> co_presigned env k)]"

definition author_of :: "collab_env \<Rightarrow> db1 \<Rightarrow> uuid option \<Rightarrow> json" where
  "author_of env d a = (case a of None \<Rightarrow> JNull | Some x \<Rightarrow> jopt (author_json env) (user_by_id x d))"

definition shown_content :: "thread_message \<Rightarrow> string" where
  "shown_content m = (if msg_is_deleted m then ''This message was deleted.'' else msg_content m)"

definition message_fields :: "collab_env \<Rightarrow> db1 \<Rightarrow> json list \<Rightarrow> thread_message \<Rightarrow> json" where
  "message_fields env d replies m = JObj [
     (''id'', JStr (msg_id m)), (''thread_id'', JStr (msg_thread m)), (''author'', author_of env d (msg_author m)),
     (''content'', JStr (shown_content m)), (''parent_id'', jopt JStr (msg_parent m)), (''replies'', JArr replies),
     (''is_system_message'', JBool (msg_is_system_message m)), (''is_deleted'', JBool (msg_is_deleted m)),
     (''created_at'', JStr (drf_time (msg_created_at m))), (''updated_at'', JStr (drf_time (msg_updated_at m)))]"

definition replies_to :: "uuid \<Rightarrow> db1 \<Rightarrow> thread_message list" where
  "replies_to x d = sort_key msg_created_at (filter (\<lambda>m. msg_parent m = Some x) (d_messages d))"

text \<open>The replies of a reply are not listed, so the recursion of the serializer is one level deep.\<close>

definition message_json :: "collab_env \<Rightarrow> db1 \<Rightarrow> thread_message \<Rightarrow> json" where
  "message_json env d m =
     message_fields env d
       (if msg_parent m \<noteq> None then [] else map (message_fields env d []) (replies_to (msg_id m) d)) m"

definition notification_json :: "notification \<Rightarrow> json" where
  "notification_json n = JObj [
     (''id'', JStr (ntf_id n)), (''user_id'', JStr (ntf_user n)), (''type'', JStr (ntf_type n)),
     (''title'', JStr (ntf_title n)), (''body'', JStr (ntf_body n)), (''incident_id'', jopt JStr (ntf_incident_id n)),
     (''is_read'', JBool (ntf_is_read n)), (''created_at'', JStr (drf_time (ntf_created_at n)))]"

subsection \<open>Mentions\<close>

text \<open>
  \<open>@\[.*?\]\(([0-9a-fA-F\-]{36})\)\<close>: the shortest text before a closing bracket that is followed by 36
  digits or dashes in parentheses, on the same line; the result is the identifier and what follows.
\<close>

definition is_hexdash :: "char \<Rightarrow> bool" where
  "is_hexdash c \<longleftrightarrow> c \<in> set hex_chars \<or> c \<in> set ''ABCDEF'' \<or> c = CHR ''-''"

definition mention_tail :: "string \<Rightarrow> (string \<times> string) option" where
  "mention_tail s = (case s of
     CHR '']'' # CHR ''('' # r \<Rightarrow>
       (case drop 36 r of
          CHR '')'' # r' \<Rightarrow> if list_all is_hexdash (take 36 r) then Some (take 36 r, r') else None
        | _ \<Rightarrow> None)
   | _ \<Rightarrow> None)"

fun lazy_dots :: "(string \<Rightarrow> 'r option) \<Rightarrow> string \<Rightarrow> 'r option" where
  "lazy_dots k [] = k []"
| "lazy_dots k (c # s) = (case k (c # s) of
     Some r \<Rightarrow> Some r | None \<Rightarrow> if c = CHR 0x0A then None else lazy_dots k s)"

definition mention_at :: "string \<Rightarrow> (string \<times> string) option" where
  "mention_at s = (case s of CHR ''@'' # CHR ''['' # r \<Rightarrow> lazy_dots mention_tail r | _ \<Rightarrow> None)"

text \<open>\<open>findall\<close>; the number counts the characters a match has consumed.\<close>

fun mentions_from :: "nat \<Rightarrow> string \<Rightarrow> string list" where
  "mentions_from n [] = []"
| "mentions_from (Suc n) (c # s) = mentions_from n s"
| "mentions_from 0 (c # s) = (case mention_at (c # s) of
     Some (x, r) \<Rightarrow> x # mentions_from (length s - length r) s
   | None \<Rightarrow> mentions_from 0 s)"

abbreviation mentions :: "string \<Rightarrow> string list" where
  "mentions \<equiv> mentions_from 0"

text \<open>\<open>re.sub(r'@\[([^\]]+)\]\([^\)]+\)', r'@\1', content)\<close>\<close>

definition plain_re :: re where
  "plain_re = Grp 0 (Seq (lits ''@['') (Seq (Grp 1 (Plus (\<lambda>c. c \<noteq> CHR '']'')))
     (Seq (lits ''](''  ) (Seq (Plus (\<lambda>c. c \<noteq> CHR '')'')) (lits '')'')))))"

fun plain_from :: "nat \<Rightarrow> string \<Rightarrow> string" where
  "plain_from n [] = []"
| "plain_from (Suc n) (c # s) = plain_from n s"
| "plain_from 0 (c # s) = (case re_match plain_re (c # s) of
     Some g \<Rightarrow> CHR ''@'' # group 1 g @ plain_from (length (group 0 g) - 1) s
   | None \<Rightarrow> c # plain_from 0 s)"

definition excerpt :: "string \<Rightarrow> string" where
  "excerpt content =
     (let plain = plain_from 0 content in if 80 < length plain then take 80 plain @ ''...'' else plain)"

subsection \<open>The service\<close>

definition permission_denied :: "string \<Rightarrow> exn" where
  "permission_denied m = HTTPException 403 m"

definition not_found :: "string \<Rightarrow> exn" where
  "not_found m = HTTPException 404 m"

text \<open>A text that reaches a UUID column; what is not a UUID is a \<open>ValidationError\<close> of Django.\<close>

definition field_uuid :: "string \<Rightarrow> uuid res" where
  "field_uuid s = (case uuid_parse s of None \<Rightarrow> Inl (OtherError ''ValidationError'') | Some u \<Rightarrow> Inr u)"

definition thread_for :: "uuid \<Rightarrow> uuid \<Rightarrow> db1 \<Rightarrow> incident_thread option" where
  "thread_for t i d = List.find (\<lambda>h. thr_tenant h = t \<and> thr_incident_id h = i) (d_threads d)"

definition has_snapshot :: "uuid \<Rightarrow> uuid \<Rightarrow> db1 \<Rightarrow> bool" where
  "has_snapshot t i d \<longleftrightarrow> (\<exists>s \<in> set (d_snapshots d). snp_incident_id s = i \<and> snp_tenant s = t)"

definition get_or_create_thread ::
  "time \<Rightarrow> uuid \<Rightarrow> uuid \<Rightarrow> uuid \<Rightarrow> db1 \<Rightarrow> incident_thread res \<times> db1" where
  "get_or_create_thread now fresh t i d =
     (if \<not> has_snapshot t i d then (Inl (not_found ''incident''), d)
      else case thread_for t i d of
             Some h \<Rightarrow> (Inr h, d)
           | None \<Rightarrow>
               (let h = \<lparr>thr_id = fresh, thr_tenant = t, thr_incident_id = i, thr_created_at = now\<rparr>
                in (Inr h, d\<lparr>d_threads := d_threads d @ [h]\<rparr>)))"

definition message_payload ::
  "collab_env \<Rightarrow> uuid \<Rightarrow> string \<Rightarrow> incident_thread \<Rightarrow> thread_message \<Rightarrow> db1 \<Rightarrow> json" where
  "message_payload env event_id event_type h m d = JObj [
     (''event_id'', JStr event_id), (''event_type'', JStr event_type),
     (''incident_id'', JStr (thr_incident_id h)), (''tenant_id'', JStr (thr_tenant h)),
     (''message'', message_json env d m)]"

text \<open>What the direct push raises is only logged.\<close>

definition push_ws :: "collab_env \<Rightarrow> incident_thread \<Rightarrow> thread_message \<Rightarrow> db1 \<Rightarrow> push list" where
  "push_ws env h m d =
     snd (push_collaboration_event (co_push env) (msg_tenant m) ''message''
            (JObj [(''incident_id'', JStr (thr_incident_id h)), (''message'', message_json env d m)]))"

definition events_topic :: "uuid \<Rightarrow> string" where
  "events_topic t = ''collaboration.events.'' @ t"

definition mention_notification ::
  "collab_env \<Rightarrow> uuid \<Rightarrow> incident_thread \<Rightarrow> user \<Rightarrow> uuid \<Rightarrow> string \<Rightarrow> notification" where
  "mention_notification env fresh h author u content = \<lparr>
     ntf_id = fresh, ntf_tenant = thr_tenant h, ntf_user = u, ntf_type = ''mention'',
     ntf_title = get_full_name author @ '' mentioned you'', ntf_body = excerpt content,
     ntf_incident_id = Some (thr_incident_id h), ntf_is_read = False, ntf_created_at = co_now env\<rparr>"

text \<open>One mentioned identifier: the author and strangers are passed over.\<close>

definition notify_mentioned ::
  "collab_env \<Rightarrow> nat \<Rightarrow> incident_thread \<Rightarrow> user \<Rightarrow> string \<Rightarrow> string \<Rightarrow> db1 \<Rightarrow> db1 act" where
  "notify_mentioned env k h author content x d =
     (if x = usr_id author then (Inr d, [])
      else case field_uuid x of
        Inl e \<Rightarrow> (Inl e, [])
      | Inr u \<Rightarrow>
          (case user_by_id u d of
             None \<Rightarrow> (Inr d, [])
           | Some v \<Rightarrow>
               if usr_tenant v \<noteq> Some (thr_tenant h) then (Inr d, [])
               else let n = mention_notification env (co_fresh env k) h author u content
                    in if 255 < length (ntf_title n) then (Inl (DataError ''notifications.title''), [])
                       else abind (push_notification (co_push env) (co_fresh env (Suc k)) (thr_tenant h) u
                                     (notification_json n))
                              (\<lambda>_. (Inr (d\<lparr>d_notifications := d_notifications d @ [n]\<rparr>), []))))"

fun notify_all ::
  "collab_env \<Rightarrow> nat \<Rightarrow> incident_thread \<Rightarrow> user \<Rightarrow> string \<Rightarrow> string list \<Rightarrow> db1 \<Rightarrow> db1 act" where
  "notify_all env k h author content [] d = (Inr d, [])"
| "notify_all env k h author content (x # xs) d =
     abind (notify_mentioned env k h author content x d) (notify_all env (k + 2) h author content xs)"

definition new_message ::
  "collab_env \<Rightarrow> uuid \<Rightarrow> incident_thread \<Rightarrow> uuid option \<Rightarrow> string \<Rightarrow> uuid option \<Rightarrow> bool \<Rightarrow> thread_message" where
  "new_message env fresh h author content parent sys = \<lparr>
     msg_id = fresh, msg_thread = thr_id h, msg_tenant = thr_tenant h, msg_author = author, msg_content = content,
     msg_parent = parent, msg_is_system_message = sys, msg_is_deleted = False,
     msg_created_at = co_now env, msg_updated_at = co_now env\<rparr>"

definition add_message :: "thread_message \<Rightarrow> db1 \<Rightarrow> db1" where
  "add_message m d = d\<lparr>d_messages := d_messages d @ [m]\<rparr>"

definition find_parent :: "incident_thread \<Rightarrow> uuid option \<Rightarrow> db1 \<Rightarrow> uuid option res" where
  "find_parent h parent_id d = (case parent_id of
     None \<Rightarrow> Inr None
   | Some x \<Rightarrow> if \<exists>p \<in> set (d_messages d). msg_id p = x \<and> msg_thread p = thr_id h then Inr (Some x)
              else Inl (not_found ''parent''))"

text \<open>The transaction: an exception leaves the database as it was; what was sent is sent.\<close>

definition post_message ::
  "collab_env \<Rightarrow> incident_thread \<Rightarrow> user \<Rightarrow> string \<Rightarrow> uuid option \<Rightarrow> db1 \<Rightarrow> thread_message act \<times> db1" where
  "post_message env h author content parent_id d =
     (case find_parent h parent_id d of
        Inl e \<Rightarrow> ((Inl e, []), d)
      | Inr parent \<Rightarrow>
          (let m = new_message env (co_fresh env 0) h (Some (usr_id author)) content parent False
           in case notify_all env 2 h author content (co_set_order env (mentions content)) (add_message m d) of
                (Inl e, ps) \<Rightarrow> ((Inl e, ps), d)
              | (Inr d1, ps) \<Rightarrow>
                  (case emit_event (events_topic (thr_tenant h)) (thr_incident_id h)
                          (message_payload env (co_fresh env 1) ''collaboration.message'' h m d1) d1 of
                     Inl e \<Rightarrow> ((Inl e, ps), d)
                   | Inr d2 \<Rightarrow> ((Inr m, ps @ push_ws env h m d2), d2))))"

definition post_system_message ::
  "collab_env \<Rightarrow> uuid \<Rightarrow> uuid \<Rightarrow> incident_thread \<Rightarrow> string \<Rightarrow> db1 \<Rightarrow> thread_message act \<times> db1" where
  "post_system_message env fresh event_id h content d =
     (let m = new_message env fresh h None content None True; d1 = add_message m d
      in case emit_event (events_topic (thr_tenant h)) (thr_incident_id h)
                (message_payload env event_id ''collaboration.message'' h m d1) d1 of
           Inl e \<Rightarrow> ((Inl e, []), d)
         | Inr d2 \<Rightarrow> ((Inr m, push_ws env h m d2), d2))"

text \<open>\<open>str(message.author_id) == str(requesting_user_id)\<close>\<close>

definition str_opt :: "string option \<Rightarrow> string" where
  "str_opt x = get_or x ''None''"

definition may_delete :: "thread_message \<Rightarrow> string option \<Rightarrow> string option \<Rightarrow> unit res" where
  "may_delete m user_id role =
     (if msg_is_system_message m then Inl (permission_denied ''system message'')
      else if str_opt (msg_author m) = str_opt user_id \<or> role \<in> set [Some ''admin'', Some ''owner''] then Inr ()
      else Inl (permission_denied ''not yours''))"

definition thread_by_id :: "uuid \<Rightarrow> db1 \<Rightarrow> incident_thread option" where
  "thread_by_id x d = row_at thr_id x (d_threads d)"

definition mark_deleted :: "time \<Rightarrow> thread_message \<Rightarrow> thread_message" where
  "mark_deleted now m = m\<lparr>msg_is_deleted := True, msg_updated_at := now\<rparr>"

definition soft_delete_message ::
  "collab_env \<Rightarrow> incident_thread \<Rightarrow> thread_message \<Rightarrow> string option \<Rightarrow> string option \<Rightarrow> db1 \<Rightarrow>
   thread_message act \<times> db1" where
  "soft_delete_message env h m user_id role d =
     (case may_delete m user_id role of
        Inl e \<Rightarrow> ((Inl e, []), d)
      | Inr _ \<Rightarrow>
          (let m' = mark_deleted (co_now env) m; d1 = d\<lparr>d_messages := put_row msg_id m' (d_messages d)\<rparr>
           in case emit_event (events_topic (msg_tenant m)) (thr_incident_id h)
                     (message_payload env (co_fresh env 0) ''collaboration.message_deleted'' h m' d1) d1 of
                Inl e \<Rightarrow> ((Inl e, []), d)
              | Inr d2 \<Rightarrow> ((Inr m', push_ws env h m' d2), d2)))"

subsection \<open>The views\<close>

text \<open>What the middleware has attached to a request; the permission class wants a tenant.\<close>

record dj_request =
  rq_tenant_id :: "string option"
  rq_user_id :: "string option"
  rq_user_role :: "string option"

definition tenant_of :: "dj_request \<Rightarrow> uuid res" where
  "tenant_of rq = (case nonempty (rq_tenant_id rq) of
     None \<Rightarrow> Inl (permission_denied ''tenant'') | Some t \<Rightarrow> field_uuid t)"

definition requesting_user :: "dj_request \<Rightarrow> db1 \<Rightarrow> user res" where
  "requesting_user rq d = (case nonempty (rq_user_id rq) of
     None \<Rightarrow> Inl (permission_denied ''User context is missing.'')
   | Some x \<Rightarrow> bind_res (field_uuid x) (\<lambda>u.
       case user_by_id u d of None \<Rightarrow> Inl (permission_denied ''Authenticated user not found.'') | Some v \<Rightarrow> Inr v))"

definition messages_in :: "incident_thread \<Rightarrow> db1 \<Rightarrow> thread_message list" where
  "messages_in h d = filter (\<lambda>m. msg_thread m = thr_id h) (d_messages d)"

definition message_count :: "incident_thread \<Rightarrow> db1 \<Rightarrow> nat" where
  "message_count h d = length (filter (\<lambda>m. \<not> msg_is_deleted m) (messages_in h d))"

definition participant_count :: "incident_thread \<Rightarrow> db1 \<Rightarrow> nat" where
  "participant_count h d =
     length (remdups (map msg_author (filter (\<lambda>m. \<not> msg_is_system_message m \<and> \<not> msg_is_deleted m) (messages_in h d))))"

definition thread_json :: "incident_thread \<Rightarrow> db1 \<Rightarrow> json" where
  "thread_json h d = JObj [
     (''id'', JStr (thr_id h)), (''incident_id'', JStr (thr_incident_id h)),
     (''message_count'', JInt (int (message_count h d))),
     (''participant_count'', JInt (int (participant_count h d))),
     (''created_at'', JStr (drf_time (thr_created_at h)))]"

definition top_level :: "incident_thread \<Rightarrow> db1 \<Rightarrow> thread_message list" where
  "top_level h d = sort_key msg_created_at (filter (\<lambda>m. msg_parent m = None) (messages_in h d))"

definition get_messages :: "collab_env \<Rightarrow> dj_request \<Rightarrow> uuid \<Rightarrow> db1 \<Rightarrow> json res \<times> db1" where
  "get_messages env rq incident_id d =
     (case tenant_of rq of
        Inl e \<Rightarrow> (Inl e, d)
      | Inr t \<Rightarrow>
          (case get_or_create_thread (co_now env) (co_fresh env 0) t incident_id d of
             (Inl e, d1) \<Rightarrow> (Inl e, d1)
           | (Inr h, d1) \<Rightarrow>
               (Inr (JObj [(''data'', JArr (map (message_json env d1) (top_level h d1))),
                           (''message'', JStr (str_int (int (message_count h d1)) @ '' message(s) in thread.'')),
                           (''thread'', thread_json h d1)]), d1)))"

text \<open>The fields arrive as the serializer could parse them; the length of the content is checked here.\<close>

definition valid_content :: "string \<Rightarrow> bool" where
  "valid_content s \<longleftrightarrow> 1 \<le> length s \<and> length s \<le> 10000"

definition post_view ::
  "collab_env \<Rightarrow> dj_request \<Rightarrow> uuid \<Rightarrow> (string \<times> uuid option) option \<Rightarrow> db1 \<Rightarrow> json act \<times> db1" where
  "post_view env rq incident_id body d =
     (case tenant_of rq of
        Inl e \<Rightarrow> ((Inl e, []), d)
      | Inr t \<Rightarrow>
          if rq_user_role rq = Some ''viewer'' then ((Inl (permission_denied ''Viewers cannot post messages.''), []), d)
          else case body of
            None \<Rightarrow> ((Inl (HTTPException 400 ''validation_error''), []), d)
          | Some (content, parent_id) \<Rightarrow>
              if \<not> valid_content content then ((Inl (HTTPException 400 ''validation_error''), []), d)
              else (case get_or_create_thread (co_now env) (co_fresh env 0) t incident_id d of
                      (Inl e, d1) \<Rightarrow> ((Inl e, []), d1)
                    | (Inr h, d1) \<Rightarrow>
                        (case requesting_user rq d1 of
                           Inl e \<Rightarrow> ((Inl e, []), d1)
                         | Inr author \<Rightarrow>
                             (let (r, d2) = post_message (env\<lparr>co_fresh := \<lambda>k. co_fresh env (Suc k)\<rparr>) h author
                                              content parent_id d1
                              in (abind r (\<lambda>m. (Inr (message_json env d2 m), [])), d2)))))"

definition delete_view ::
  "collab_env \<Rightarrow> dj_request \<Rightarrow> uuid \<Rightarrow> uuid \<Rightarrow> db1 \<Rightarrow> json act \<times> db1" where
  "delete_view env rq incident_id message_id d =
     (case tenant_of rq of
        Inl e \<Rightarrow> ((Inl e, []), d)
      | Inr t \<Rightarrow>
          (case row_at msg_id message_id (d_messages d) of
             None \<Rightarrow> ((Inl (not_found ''Message not found.''), []), d)
           | Some m \<Rightarrow>
               (case thread_by_id (msg_thread m) d of
                  None \<Rightarrow> ((Inl (not_found ''Message not found.''), []), d)
                | Some h \<Rightarrow>
                    if msg_tenant m \<noteq> t \<or> thr_incident_id h \<noteq> incident_id
                    then ((Inl (not_found ''Message not found.''), []), d)
                    else if msg_is_deleted m then ((Inl (HTTPException 400 ''already_deleted''), []), d)
                    else (let (r, d') = soft_delete_message env h m (rq_user_id rq) (rq_user_role rq) d
                          in (abind r (\<lambda>m'. (Inr (message_json env d' m'), [])), d')))))"

definition transition_json :: "collab_env \<Rightarrow> db1 \<Rightarrow> status_transition \<Rightarrow> json" where
  "transition_json env d x = JObj [
     (''id'', JStr (trn_id x)), (''incident_id'', JStr (trn_incident_id x)), (''actor'', author_of env d (trn_actor x)),
     (''from_status'', JStr (trn_from_status x)), (''to_status'', JStr (trn_to_status x)),
     (''note'', jopt JStr (trn_note x)), (''created_at'', JStr (drf_time (trn_created_at x)))]"

definition list_transitions :: "collab_env \<Rightarrow> dj_request \<Rightarrow> uuid \<Rightarrow> db1 \<Rightarrow> json res" where
  "list_transitions env rq incident_id d =
     bind_res (tenant_of rq) (\<lambda>t.
       Inr (JArr (map (transition_json env d)
         (rev (sort_key trn_created_at
           (filter (\<lambda>x. trn_tenant x = t \<and> trn_incident_id x = incident_id) (d_transitions d)))))))"

end
