(* ===== verification/Collaboration_Spec.thy ===== *)
theory Collaboration_Spec
  imports Collaboration
begin

text \<open>
  What the discussion threads promise: which rows the requests of users can add or change, whom a mention
  can reach, and what is left to see of a deleted message.
\<close>

subsection \<open>The content of a deleted message\<close>

definition censored :: "thread_message \<Rightarrow> thread_message" where
  "censored m = (if msg_is_deleted m then m\<lparr>msg_content := []\<rparr> else m)"

definition censor :: "db1 \<Rightarrow> db1" where
  "censor d = d\<lparr>d_messages := map censored (d_messages d)\<rparr>"

lemma censored_simps [simp]:
  "msg_id (censored m) = msg_id m" "msg_thread (censored m) = msg_thread m"
  "msg_tenant (censored m) = msg_tenant m" "msg_author (censored m) = msg_author m"
  "msg_parent (censored m) = msg_parent m" "msg_is_system_message (censored m) = msg_is_system_message m"
  "msg_is_deleted (censored m) = msg_is_deleted m" "msg_created_at (censored m) = msg_created_at m"
  "msg_updated_at (censored m) = msg_updated_at m" "shown_content (censored m) = shown_content m"
  by (simp_all add: censored_def shown_content_def)

lemma sort_key_map: "(\<And>x. k (f x) = k x) \<Longrightarrow> sort_key k (map f xs) = map f (sort_key k xs)"
proof (induction xs)
  case (Cons x xs)
  have "insort_key k (f x) (map f ys) = map f (insort_key k x ys)" for ys
    by (induction ys) (simp_all add: Cons.prems)
  with Cons show ?case by simp
qed simp

lemma censor_simps [simp]:
  "d_users (censor d) = d_users d" "d_threads (censor d) = d_threads d" "d_snapshots (censor d) = d_snapshots d"
  "d_messages (censor d) = map censored (d_messages d)"
  by (simp_all add: censor_def)

lemma author_of_censor [simp]: "author_of env (censor d) a = author_of env d a"
  by (simp add: author_of_def user_by_id_def split: option.split)

lemma message_fields_censor [simp]:
  "message_fields env (censor d) rs (censored m) = message_fields env d rs m"
  by (simp add: message_fields_def)

lemma message_json_censor [simp]: "message_json env (censor d) (censored m) = message_json env d m"
  by (simp add: message_json_def replies_to_def filter_map comp_def sort_key_map)

lemma thread_json_censor [simp]: "thread_json h (censor d) = thread_json h d"
  by (simp add: thread_json_def message_count_def participant_count_def messages_in_def filter_map comp_def)

lemma get_or_create_censor:
  "get_or_create_thread now x t i (censor d) =
   (let (r, d1) = get_or_create_thread now x t i d in (r, censor d1))"
  by (auto simp: get_or_create_thread_def has_snapshot_def thread_for_def censor_def Let_def split: option.split)

text \<open>C34: what the thread view answers does not depend on the text of deleted messages:
  two databases that differ in nothing else give the same answer to every request.
\<close>

theorem deleted_content_hidden:
  "fst (get_messages env rq incident_id (censor d)) = fst (get_messages env rq incident_id d)"
proof (cases "tenant_of rq")
  case (Inr t)
  obtain r d1 where g: "get_or_create_thread (co_now env) (co_fresh env 0) t incident_id d = (r, d1)"
    by fastforce
  have tl: "top_level h (censor d1) = map censored (top_level h d1)" for h
    by (simp add: top_level_def messages_in_def filter_map comp_def sort_key_map)
  have mc: "message_count h (censor d1) = message_count h d1" for h
    by (simp add: message_count_def messages_in_def filter_map comp_def)
  from Inr g show ?thesis
    by (cases r) (simp_all add: get_messages_def get_or_create_censor tl mc comp_def)
qed (simp add: get_messages_def)

subsection \<open>What the operations do to the tables\<close>

lemma act_InrD: "abind m f = (Inr y, ps) \<Longrightarrow> \<exists>x qs qs'. m = (Inr x, qs) \<and> f x = (Inr y, qs') \<and> ps = qs @ qs'"
  by (cases m; cases "fst m") (auto simp: abind_def case_prod_beta prod_eq_iff)

lemma emit_event_InrD: "emit_event t k p d = Inr d' \<Longrightarrow>
    \<exists>e. d' = d\<lparr>d_outbox := d_outbox d @ [e]\<rparr>"
  by (auto simp: emit_event_def split: if_splits)

definition reaches_only_members :: "uuid \<Rightarrow> notification list \<Rightarrow> db1 \<Rightarrow> bool" where
  "reaches_only_members t ns d \<longleftrightarrow> (\<forall>n \<in> set ns. ntf_tenant n = t \<and>
     (\<exists>u \<in> set (d_users d). usr_id u = ntf_user n \<and> usr_tenant u = Some t))"

lemma user_by_id_SomeD: "user_by_id x d = Some u \<Longrightarrow> u \<in> set (d_users d) \<and> usr_id u = x"
  by (auto simp: user_by_id_def dest: row_at_Some)

lemma notify_mentioned_cases:
  assumes "notify_mentioned env k h author content x d = (Inr d', ps)"
  shows "d' = d \<or> (\<exists>n. d' = d\<lparr>d_notifications := d_notifications d @ [n]\<rparr> \<and> ntf_tenant n = thr_tenant h \<and>
           (\<exists>u \<in> set (d_users d). usr_id u = ntf_user n \<and> usr_tenant u = Some (thr_tenant h)))"
  using assms
  by (auto simp: notify_mentioned_def mention_notification_def Let_def intro!: bexI
      dest!: act_InrD user_by_id_SomeD split: if_splits sum.splits option.splits)

lemma notify_mentioned_InrD:
  assumes "notify_mentioned env k h author content x d = (Inr d', ps)"
  shows "\<exists>ns. d' = d\<lparr>d_notifications := d_notifications d @ ns\<rparr> \<and> reaches_only_members (thr_tenant h) ns d"
proof (cases "d' = d")
  case True
  then show ?thesis by (intro exI [of _ "[]"]) (simp add: reaches_only_members_def)
next
  case False
  with notify_mentioned_cases [OF assms] obtain n where
    "d' = d\<lparr>d_notifications := d_notifications d @ [n]\<rparr>" "ntf_tenant n = thr_tenant h"
    "\<exists>u \<in> set (d_users d). usr_id u = ntf_user n \<and> usr_tenant u = Some (thr_tenant h)" by blast
  then show ?thesis by (intro exI [of _ "[n]"]) (auto simp: reaches_only_members_def)
qed

lemma notify_all_InrD:
  "notify_all env k h author content xs d = (Inr d', ps) \<Longrightarrow>
   \<exists>ns. d' = d\<lparr>d_notifications := d_notifications d @ ns\<rparr> \<and> reaches_only_members (thr_tenant h) ns d"
proof (induction xs arbitrary: k d ps)
  case Nil
  then show ?case by (auto simp: reaches_only_members_def intro!: exI [of _ "[]"])
next
  case (Cons x xs)
  then obtain d1 qs qs' where a: "notify_mentioned env k h author content x d = (Inr d1, qs)"
    and b: "notify_all env (k + 2) h author content xs d1 = (Inr d', qs')"
    by (auto dest: act_InrD)
  from notify_mentioned_InrD [OF a] obtain ns where
    d1: "d1 = d\<lparr>d_notifications := d_notifications d @ ns\<rparr>" and r: "reaches_only_members (thr_tenant h) ns d"
    by blast
  from Cons.IH [OF b] d1 obtain ns' where
    "d' = d\<lparr>d_notifications := d_notifications d @ (ns @ ns')\<rparr>" "reaches_only_members (thr_tenant h) ns' d"
    by (auto simp: reaches_only_members_def)
  with r show ?case
    by (intro exI [of _ "ns @ ns'"]) (auto simp: reaches_only_members_def)
qed

lemma post_message_Inr:
  assumes "post_message env h author content p d = ((Inr m, ps), d')"
  obtains ns e where
    "d' = d\<lparr>d_messages := d_messages d @ [m], d_notifications := d_notifications d @ ns, d_outbox := d_outbox d @ [e]\<rparr>"
    "reaches_only_members (thr_tenant h) ns d" "find_parent h p d = Inr p"
    "m = new_message env (co_fresh env 0) h (Some (usr_id author)) content p False"
proof -
  from assms obtain q where q: "find_parent h p d = Inr q"
    by (cases "find_parent h p d") (auto simp: post_message_def)
  then have qp: "q = p" by (auto simp: find_parent_def split: option.splits if_splits)
  let ?m = "new_message env (co_fresh env 0) h (Some (usr_id author)) content p False"
  obtain r qs where n: "notify_all env 2 h author content (co_set_order env (mentions content)) (add_message ?m d) = (r, qs)"
    by fastforce
  from assms q qp n obtain d1 where r: "r = Inr d1" by (cases r) (auto simp: post_message_def)
  from notify_all_InrD [OF n [unfolded r]] obtain ns where
    d1: "d1 = (add_message ?m d)\<lparr>d_notifications := d_notifications d @ ns\<rparr>"
    and rm: "reaches_only_members (thr_tenant h) ns d"
    by (auto simp: add_message_def reaches_only_members_def)
  from assms q qp n r obtain d2 where
    o: "emit_event (events_topic (thr_tenant h)) (thr_incident_id h)
          (message_payload env (co_fresh env 1) ''collaboration.message'' h ?m d1) d1 = Inr d2" "d' = d2" "m = ?m"
    by (auto simp: post_message_def Let_def split: sum.splits)
  from emit_event_InrD [OF o(1)] d1 o(2,3) rm q qp that show ?thesis
    by (auto simp: add_message_def)
qed

lemma post_message_Inl: "post_message env h author content p d = ((Inl e, ps), d') \<Longrightarrow> d' = d"
  by (auto simp: post_message_def Let_def split: sum.splits prod.splits)

lemma get_or_create_Inr:
  assumes "get_or_create_thread now x t i d = (Inr h, d')"
  shows "(thread_for t i d = Some h \<and> d' = d \<or> thread_for t i d = None \<and>
          thr_id h = x \<and>
          d' = d\<lparr>d_threads := d_threads d @ [h]\<rparr>) \<and>
         h \<in> set (d_threads d') \<and> thr_tenant h = t \<and> thr_incident_id h = i"
  using assms
  by (auto simp: get_or_create_thread_def thread_for_def Let_def find_Some_iff split: if_splits option.splits)

lemma get_or_create_Inl: "get_or_create_thread now x t i d = (Inl e, d') \<Longrightarrow> d' = d"
  by (auto simp: get_or_create_thread_def Let_def split: if_splits option.splits)

subsection \<open>Well-formed threads\<close>

definition threads_ok :: "db1 \<Rightarrow> bool" where
  "threads_ok d \<longleftrightarrow> distinct (map thr_id (d_threads d)) \<and>
     distinct (map (\<lambda>h. (thr_tenant h, thr_incident_id h)) (d_threads d)) \<and> distinct (map msg_id (d_messages d))"

definition message_ok :: "db1 \<Rightarrow> thread_message \<Rightarrow> bool" where
  "message_ok d m \<longleftrightarrow>
     (\<exists>h \<in> set (d_threads d). thr_id h = msg_thread m \<and> thr_tenant h = msg_tenant m) \<and>
     (case msg_parent m of None \<Rightarrow> True
      | Some x \<Rightarrow> \<exists>p \<in> set (d_messages d). msg_id p = x \<and> msg_thread p = msg_thread m) \<and>
     (msg_is_system_message m \<longrightarrow> msg_author m = None \<and> \<not> msg_is_deleted m)"

definition notification_ok :: "db1 \<Rightarrow> notification \<Rightarrow> bool" where
  "notification_ok d n \<longleftrightarrow> (\<exists>u \<in> set (d_users d). usr_id u = ntf_user n \<and> usr_tenant u = Some (ntf_tenant n))"

definition collaboration_ok :: "db1 \<Rightarrow> bool" where
  "collaboration_ok d \<longleftrightarrow> threads_ok d \<and> (\<forall>m \<in> set (d_messages d). message_ok d m) \<and>
     (\<forall>n \<in> set (d_notifications d). notification_ok d n)"

definition fresh_for :: "collab_env \<Rightarrow> db1 \<Rightarrow> bool" where
  "fresh_for env d \<longleftrightarrow> inj (co_fresh env) \<and>
     (\<forall>k. co_fresh env k \<notin> thr_id ` set (d_threads d) \<union> msg_id ` set (d_messages d))"

text \<open>The requests of users and the consumer's system messages.\<close>

inductive collab_step :: "db1 \<Rightarrow> db1 \<Rightarrow> bool" where
  reading: "fresh_for env d \<Longrightarrow> collab_step d (snd (get_messages env rq i d))"
| posting: "fresh_for env d \<Longrightarrow> collab_step d (snd (post_view env rq i body d))"
| deleting: "collab_step d (snd (delete_view env rq i x d))"
| system: "fresh_for env d \<Longrightarrow> h \<in> set (d_threads d) \<Longrightarrow>
    collab_step d (snd (post_system_message env (co_fresh env 0) ev h content d))"

lemma collaboration_ok_thread:
  assumes "collaboration_ok d" "get_or_create_thread now x t i d = (Inr h, d')" "x \<notin> thr_id ` set (d_threads d)"
  shows "collaboration_ok d'"
proof (cases "thread_for t i d")
  case None
  with get_or_create_Inr [OF assms(2)] have
    h: "thr_id h = x" "thr_tenant h = t" "thr_incident_id h = i" and d': "d' = d\<lparr>d_threads := d_threads d @ [h]\<rparr>"
    by auto
  from None have "\<forall>g \<in> set (d_threads d). \<not> (thr_tenant g = t \<and> thr_incident_id g = i)"
    by (auto simp: thread_for_def find_None_iff)
  with assms(1,3) h d' show ?thesis
    by (auto simp: collaboration_ok_def threads_ok_def message_ok_def notification_ok_def split: option.splits)
next
  case (Some g)
  with assms get_or_create_Inr [OF assms(2)] show ?thesis by auto
qed

lemma message_ok_more:
  "message_ok d m \<Longrightarrow> set (d_threads d) \<subseteq> set (d_threads d') \<Longrightarrow> set (d_messages d) \<subseteq> set (d_messages d') \<Longrightarrow>
   message_ok d' m"
  by (fastforce simp: message_ok_def split: option.splits)

lemma collaboration_ok_message:
  assumes "collaboration_ok d" "message_ok d m" "msg_id m \<notin> msg_id ` set (d_messages d)"
    and ns: "\<forall>n \<in> set ns. notification_ok d n"
  shows "collaboration_ok (d\<lparr>d_messages := d_messages d @ [m], d_notifications := d_notifications d @ ns,
           d_outbox := es\<rparr>)" (is "collaboration_ok ?d")
proof -
  have "message_ok d m' \<Longrightarrow> message_ok ?d m'" for m'
    by (erule message_ok_more) auto
  with assms show ?thesis
    by (auto simp: collaboration_ok_def threads_ok_def notification_ok_def)
qed

lemma collaboration_ok_post:
  assumes ok: "collaboration_ok d" and p: "post_message env h author content q d = ((r, ps), d')"
    and h: "h \<in> set (d_threads d)" and f: "fresh_for env d"
  shows "collaboration_ok d'"
proof (cases r)
  case (Inl e)
  with p post_message_Inl ok show ?thesis by blast
next
  case (Inr m)
  from p [unfolded Inr] show ?thesis
  proof (rule post_message_Inr)
    fix ns e
    assume d': "d' = d\<lparr>d_messages := d_messages d @ [m], d_notifications := d_notifications d @ ns,
        d_outbox := d_outbox d @ [e]\<rparr>"
      and rm: "reaches_only_members (thr_tenant h) ns d" and fp: "find_parent h q d = Inr q"
      and m: "m = new_message env (co_fresh env 0) h (Some (usr_id author)) content q False"
    have "message_ok d m"
      using h fp by (auto simp: m message_ok_def new_message_def find_parent_def split: option.splits if_splits)
    moreover have "msg_id m \<notin> msg_id ` set (d_messages d)"
      using f by (auto simp: m new_message_def fresh_for_def)
    moreover have "\<forall>n \<in> set ns. notification_ok d n"
      using rm by (auto simp: reaches_only_members_def notification_ok_def)
    ultimately show ?thesis unfolding d' using ok by (intro collaboration_ok_message)
  qed
qed

lemma collaboration_ok_get:
  assumes "collaboration_ok d" "fresh_for env d"
  shows "collaboration_ok (snd (get_messages env rq i d))"
proof (cases "tenant_of rq")
  case (Inr t)
  obtain r d1 where g: "get_or_create_thread (co_now env) (co_fresh env 0) t i d = (r, d1)" by fastforce
  show ?thesis
  proof (cases r)
    case (Inl e)
    with assms Inr g get_or_create_Inl [OF g [unfolded Inl]] show ?thesis by (simp add: get_messages_def)
  next
    case r: (Inr h)
    have "collaboration_ok d1"
      using assms by (intro collaboration_ok_thread [OF _ g [unfolded r]]) (auto simp: fresh_for_def)
    with Inr g r show ?thesis by (simp add: get_messages_def)
  qed
qed (use assms in \<open>simp add: get_messages_def\<close>)

lemma fresh_for_thread:
  assumes "fresh_for env d" "get_or_create_thread now (co_fresh env 0) t i d = (Inr h, d')"
  shows "fresh_for (env\<lparr>co_fresh := \<lambda>k. co_fresh env (Suc k)\<rparr>) d'"
proof -
  have "co_fresh env (Suc k) \<noteq> co_fresh env 0" for k
    using assms(1) by (auto simp: fresh_for_def inj_def)
  moreover have "inj (\<lambda>k. co_fresh env (Suc k))" using assms(1) by (auto simp: fresh_for_def inj_def)
  ultimately show ?thesis using assms(1) get_or_create_Inr [OF assms(2)]
    by (auto simp: fresh_for_def image_iff)
qed

lemma collaboration_ok_post_view:
  assumes ok: "collaboration_ok d" and f: "fresh_for env d"
  shows "collaboration_ok (snd (post_view env rq i body d))"
proof -
  { fix t content p
    obtain r d1 where g: "get_or_create_thread (co_now env) (co_fresh env 0) t i d = (r, d1)" by fastforce
    have "collaboration_ok d1 \<and> (\<forall>h. r = Inr h \<longrightarrow> (\<forall>author x y.
            post_message (env\<lparr>co_fresh := \<lambda>k. co_fresh env (Suc k)\<rparr>) h author content p d1 = (x, y) \<longrightarrow>
            collaboration_ok y))"
    proof (cases r)
      case (Inl e)
      with g ok get_or_create_Inl show ?thesis by blast
    next
      case (Inr h)
      have "collaboration_ok d1"
        using ok f by (intro collaboration_ok_thread [OF _ g [unfolded Inr]]) (auto simp: fresh_for_def)
      then show ?thesis
        using Inr get_or_create_Inr [OF g [unfolded Inr]] fresh_for_thread [OF f g [unfolded Inr]]
          collaboration_ok_post by (metis sum.inject(2) surj_pair)
    qed
    with g have "collaboration_ok (snd (get_or_create_thread (co_now env) (co_fresh env 0) t i d))"
      "\<And>h author x y d1. get_or_create_thread (co_now env) (co_fresh env 0) t i d = (Inr h, d1) \<Longrightarrow>
         post_message (env\<lparr>co_fresh := \<lambda>k. co_fresh env (Suc k)\<rparr>) h author content p d1 = (x, y) \<Longrightarrow>
         collaboration_ok y"
      by auto }
  note * = this
  show ?thesis
    using ok *(1) *(2)
    by (auto simp: post_view_def split: sum.split option.split prod.split) (metis snd_conv)+
qed

lemma message_ok_map:
  assumes "message_ok d r"
    "\<And>p. p \<in> set (d_messages d) \<Longrightarrow> \<exists>p' \<in> set ms. msg_id p' = msg_id p \<and> msg_thread p' = msg_thread p"
  shows "message_ok (d\<lparr>d_messages := ms, d_outbox := es\<rparr>) r"
proof (cases "msg_parent r")
  case None
  with assms(1) show ?thesis by (simp add: message_ok_def)
next
  case (Some x)
  with assms(1) obtain p where "p \<in> set (d_messages d)" "msg_id p = x" "msg_thread p = msg_thread r"
    by (auto simp: message_ok_def)
  with assms(2) [of p] assms(1) Some show ?thesis by (auto simp: message_ok_def)
qed

lemma mark_deleted_simps [simp]:
  "msg_id (mark_deleted now m) = msg_id m" "msg_thread (mark_deleted now m) = msg_thread m"
  "msg_tenant (mark_deleted now m) = msg_tenant m" "msg_author (mark_deleted now m) = msg_author m"
  "msg_parent (mark_deleted now m) = msg_parent m" "msg_content (mark_deleted now m) = msg_content m"
  "msg_is_system_message (mark_deleted now m) = msg_is_system_message m" "msg_is_deleted (mark_deleted now m)"
  by (simp_all add: mark_deleted_def)

lemma put_row_map:
  "distinct (map key rows) \<Longrightarrow> r \<in> set rows \<Longrightarrow> key r' = key r \<Longrightarrow>
   put_row key r' rows = map (\<lambda>x. if key x = key r then r' else x) rows"
proof (induction rows)
  case (Cons x rows)
  then show ?case by (cases "key x = key r") (auto simp: rev_image_eqI intro!: map_idI [symmetric])
qed simp

lemma collaboration_ok_delete:
  assumes ok: "collaboration_ok d"
  shows "collaboration_ok (snd (delete_view env rq i x d))"
proof (cases "\<exists>e ps. fst (delete_view env rq i x d) = (Inl e, ps)")
  case True
  then have "snd (delete_view env rq i x d) = d"
    by (auto simp: delete_view_def soft_delete_message_def Let_def split: sum.splits option.splits if_splits prod.splits)
  with ok show ?thesis by simp
next
  case False
  then obtain m h where m: "row_at msg_id x (d_messages d) = Some m" "may_delete m (rq_user_id rq) (rq_user_role rq) = Inr ()"
    and d': "\<exists>es. snd (delete_view env rq i x d) =
          d\<lparr>d_messages := put_row msg_id (mark_deleted (co_now env) m) (d_messages d), d_outbox := es\<rparr>"
    by (auto simp: delete_view_def soft_delete_message_def Let_def dest!: emit_event_InrD
        split: sum.splits option.splits if_splits prod.splits)
  let ?m' = "mark_deleted (co_now env) m"
  let ?f = "\<lambda>r. if msg_id r = msg_id m then ?m' else r"
  from row_at_Some [OF m(1)] have mem: "m \<in> set (d_messages d)" by simp
  have put: "put_row msg_id ?m' (d_messages d) = map ?f (d_messages d)"
    using ok mem by (intro put_row_map) (auto simp: collaboration_ok_def threads_ok_def mark_deleted_def)
  have f: "msg_id (?f r) = msg_id r" "r \<in> set (d_messages d) \<Longrightarrow> msg_thread (?f r) = msg_thread r" for r
    using ok mem by (auto simp: collaboration_ok_def threads_ok_def distinct_map inj_on_def)
  have "message_ok d m" "\<not> msg_is_system_message m"
    using ok mem m(2) by (auto simp: collaboration_ok_def may_delete_def split: if_splits)
  then have g: "message_ok d (?f r)" if "message_ok d r" for r
    using that by (auto simp: message_ok_def cong: option.case_cong)
  have m': "message_ok (d\<lparr>d_messages := map ?f (d_messages d), d_outbox := es\<rparr>) r" if "message_ok d r" for r es
    using that
  proof (rule message_ok_map)
    fix p assume "p \<in> set (d_messages d)"
    with f(2) have "?f p \<in> set (map ?f (d_messages d))" "msg_thread (?f p) = msg_thread p"
      unfolding set_map by (blast, blast)
    with f(1) show "\<exists>p' \<in> set (map ?f (d_messages d)). msg_id p' = msg_id p \<and> msg_thread p' = msg_thread p"
      by blast
  qed
  have keys: "map msg_id (map ?f (d_messages d)) = map msg_id (d_messages d)"
    using f(1) by simp
  from d' put obtain es where
    d': "snd (delete_view env rq i x d) = d\<lparr>d_messages := map ?f (d_messages d), d_outbox := es\<rparr>" by metis
  have all: "\<forall>r \<in> set (map ?f (d_messages d)). message_ok (d\<lparr>d_messages := map ?f (d_messages d), d_outbox := es\<rparr>) r"
  proof
    fix r assume "r \<in> set (map ?f (d_messages d))"
    then obtain p where "p \<in> set (d_messages d)" "r = ?f p" unfolding set_map by blast
    with ok g m' show "message_ok (d\<lparr>d_messages := map ?f (d_messages d), d_outbox := es\<rparr>) r"
      unfolding collaboration_ok_def by blast
  qed
  have sel: "d_messages (d\<lparr>d_messages := ms, d_outbox := es\<rparr>) = ms" for ms by simp
  show ?thesis
    unfolding d' collaboration_ok_def threads_ok_def
  proof (intro conjI)
    show "\<forall>r \<in> set (d_messages (d\<lparr>d_messages := map ?f (d_messages d), d_outbox := es\<rparr>)).
        message_ok (d\<lparr>d_messages := map ?f (d_messages d), d_outbox := es\<rparr>) r"
      using all unfolding sel .
    show "distinct (map msg_id (d_messages (d\<lparr>d_messages := map ?f (d_messages d), d_outbox := es\<rparr>)))"
      using ok unfolding sel keys collaboration_ok_def threads_ok_def by blast
  qed (use ok in \<open>simp_all add: collaboration_ok_def threads_ok_def notification_ok_def\<close>)
qed

lemma collaboration_ok_system:
  assumes ok: "collaboration_ok d" and f: "fresh_for env d" and h: "h \<in> set (d_threads d)"
  shows "collaboration_ok (snd (post_system_message env (co_fresh env 0) ev h content d))"
proof (cases "fst (fst (post_system_message env (co_fresh env 0) ev h content d))")
  case (Inl e)
  with ok show ?thesis by (auto simp: post_system_message_def Let_def split: sum.splits)
next
  case (Inr m)
  let ?m = "new_message env (co_fresh env 0) h None content None True"
  from Inr obtain e where d': "snd (post_system_message env (co_fresh env 0) ev h content d) =
      d\<lparr>d_messages := d_messages d @ [?m], d_notifications := d_notifications d @ [], d_outbox := d_outbox d @ [e]\<rparr>"
    by (auto simp: post_system_message_def Let_def add_message_def dest!: emit_event_InrD split: sum.splits)
  show ?thesis unfolding d' using ok f h
    by (intro collaboration_ok_message) (auto simp: message_ok_def new_message_def fresh_for_def)
qed

lemma collaboration_ok_step: "collab_step d d' \<Longrightarrow> collaboration_ok d \<Longrightarrow> collaboration_ok d'"
  by (induction rule: collab_step.induct)
    (blast intro: collaboration_ok_get collaboration_ok_post_view collaboration_ok_delete collaboration_ok_system)+

text \<open>C32: whatever requests arrive, starting without threads: there is one thread per
  tenant and incident, every message lies in a thread of its own tenant, a reply in the thread of what it
  answers, a system message has no author and is never deleted, and a mention only ever notifies a user of
  the tenant it was written in.
\<close>

theorem threads_stay_well_formed:
  assumes "collab_step\<^sup>*\<^sup>* d d'" "d_threads d = []" "d_messages d = []" "d_notifications d = []"
  shows "collaboration_ok d'"
proof -
  have "collaboration_ok d"
    using assms(2-4) by (simp add: collaboration_ok_def threads_ok_def)
  with assms(1) show ?thesis
    by (induction rule: rtranclp_induct) (auto intro: collaboration_ok_step)
qed

text \<open>C33: a deletion that succeeds was asked for by the author or an administrator
  of the message's tenant, for a message of a user that was not deleted yet; it marks this message and changes
  no other row of any table except for the event it adds, so that the thread keeps its chronology.
\<close>

theorem only_author_or_admin_deletes:
  assumes "distinct (map msg_id (d_messages d))" "delete_view env rq i x d = ((Inr js, ps), d')"
  obtains m e where "m \<in> set (d_messages d)" "msg_id m = x" "tenant_of rq = Inr (msg_tenant m)"
    "\<not> msg_is_system_message m" "\<not> msg_is_deleted m"
    "str_opt (msg_author m) = str_opt (rq_user_id rq) \<or> rq_user_role rq \<in> set [Some ''admin'', Some ''owner'']"
    "d' = d\<lparr>d_messages := map (\<lambda>r. if msg_id r = x then mark_deleted (co_now env) r else r) (d_messages d),
            d_outbox := d_outbox d @ [e]\<rparr>"
proof -
  from assms(2) obtain t m h where t: "tenant_of rq = Inr t" and r: "row_at msg_id x (d_messages d) = Some m"
    and h: "thread_by_id (msg_thread m) d = Some h" "\<not> (msg_tenant m \<noteq> t \<or> thr_incident_id h \<noteq> i)" "\<not> msg_is_deleted m"
    and s: "\<exists>m' qs. soft_delete_message env h m (rq_user_id rq) (rq_user_role rq) d = ((Inr m', qs), d')"
    by (auto simp: delete_view_def abind_def Let_def split: sum.splits option.splits if_splits prod.splits)
  have mem: "m \<in> set (d_messages d)" "msg_id m = x" using row_at_Some [OF r] by simp_all
  from s obtain e where may: "may_delete m (rq_user_id rq) (rq_user_role rq) = Inr ()"
    and d': "d' = d\<lparr>d_messages := put_row msg_id (mark_deleted (co_now env) m) (d_messages d), d_outbox := d_outbox d @ [e]\<rparr>"
    by (auto simp: soft_delete_message_def Let_def dest!: emit_event_InrD split: sum.splits)
  have "put_row msg_id (mark_deleted (co_now env) m) (d_messages d) =
      map (\<lambda>r. if msg_id r = msg_id m then mark_deleted (co_now env) m else r) (d_messages d)"
    using assms(1) mem(1) by (intro put_row_map) auto
  also have "\<dots> = map (\<lambda>r. if msg_id r = x then mark_deleted (co_now env) r else r) (d_messages d)"
    using assms(1) mem by (auto simp: distinct_map inj_on_def)
  finally show ?thesis
    using that [OF mem, of e] t h may d' by (auto simp: may_delete_def split: if_splits)
qed

text \<open>
  A text that looks like a mention but is not an identifier makes posting fail: 36 dashes are enough.  The
  exception is not the one the loop expects, so that nothing of the message is stored.
\<close>

definition dashes :: string where
  "dashes = replicate 36 (CHR ''-'')"

lemma dashes_mention: "mentions (''@[x]('' @ dashes @ '')'') = [dashes]"
  "field_uuid dashes = Inl (OtherError ''ValidationError'')"
  by code_simp+

theorem malformed_mention_refused:
  assumes "find_parent h p d = Inr q" "co_set_order env [dashes] = [dashes]" "usr_id author \<noteq> dashes"
  shows "post_message env h author (''@[x]('' @ dashes @ '')'') p d = ((Inl (OtherError ''ValidationError''), []), d)"
  unfolding post_message_def dashes_mention(1) assms(1,2)
  using assms(3) dashes_mention(2) by (simp add: notify_mentioned_def Let_def)

subsection \<open>A small tenant\<close>

definition acme_tenant :: uuid where
  "acme_tenant = ''00000000-0000-0000-0000-00000000000a''"

definition acme_user :: uuid where
  "acme_user = ''00000000-0000-0000-0000-00000000000b''"

definition sample_collab :: collab_env where
  "sample_collab = \<lparr>co_now = 0, co_fresh = (\<lambda>k. replicate (Suc k) CHR ''f''),
     co_push = \<lparr>pu_group = (\<lambda>_ _. None), pu_queue_url = [], pu_queue = (\<lambda>_. Queued)\<rparr>,
     co_presigned = (\<lambda>_. JNull), co_set_order = (\<lambda>xs. xs)\<rparr>"

definition acme_author :: user where
  "acme_author = \<lparr>usr_id = acme_user, usr_email = ''a@b.c'', usr_tenant = Some acme_tenant,
     usr_first_name = ''Ada'', usr_last_name = ''B'', usr_role = ''engineer'', usr_is_active = True,
     usr_is_staff = False, usr_is_superuser = False, usr_is_superadmin = False, usr_email_verified = True,
     usr_profile_picture_key = None, usr_password = ''x'', usr_created_at = 0\<rparr>"

definition acme_thread :: incident_thread where
  "acme_thread = \<lparr>thr_id = ''t'', thr_tenant = acme_tenant, thr_incident_id = ''i'', thr_created_at = 0\<rparr>"

definition acme_message :: thread_message where
  "acme_message = \<lparr>msg_id = ''m'', msg_thread = ''t'', msg_tenant = acme_tenant,
     msg_author = Some acme_user, msg_content = ''hello'', msg_parent = None, msg_is_system_message = False,
     msg_is_deleted = False, msg_created_at = 0, msg_updated_at = 0\<rparr>"

definition sample_collab_db :: db1 where
  "sample_collab_db = empty_db1\<lparr>d_users := [acme_author], d_threads := [acme_thread], d_messages := [acme_message]\<rparr>"

definition sample_rq :: dj_request where
  "sample_rq = \<lparr>rq_tenant_id = Some acme_tenant, rq_user_id = Some acme_user, rq_user_role = Some ''engineer''\<rparr>"

lemma acme_tenant_of: "tenant_of sample_rq = Inr acme_tenant"
  by code_simp

lemma sample_deletion: "isl (fst (fst (delete_view sample_collab sample_rq ''i'' ''m'' sample_collab_db))) = False"
proof -
  have "length (events_topic acme_tenant) \<le> 256" by (simp add: events_topic_def acme_tenant_def)
  moreover have "rq_user_id sample_rq = Some acme_user" by (simp add: sample_rq_def)
  ultimately show ?thesis
    by (simp add: delete_view_def acme_tenant_of sample_collab_db_def empty_db1_def acme_message_def
        thread_by_id_def acme_thread_def soft_delete_message_def may_delete_def str_opt_def
        emit_event_def Let_def get_or_def)
qed

theorem only_author_or_admin_deletes_witness:
  "\<exists>m \<in> set (d_messages sample_collab_db). msg_id m = ''m'' \<and> \<not> msg_is_deleted m \<and>
     (\<exists>e. snd (delete_view sample_collab sample_rq ''i'' ''m'' sample_collab_db) =
        sample_collab_db\<lparr>d_messages := [mark_deleted 0 acme_message], d_outbox := [e]\<rparr>)"
proof -
  obtain r d' where "delete_view sample_collab sample_rq ''i'' ''m'' sample_collab_db = (r, d')" by fastforce
  with sample_deletion obtain js ps where
    e: "delete_view sample_collab sample_rq ''i'' ''m'' sample_collab_db = ((Inr js, ps), d')"
    by (cases r; cases "fst r") auto
  have "distinct (map msg_id (d_messages sample_collab_db))" by (simp add: sample_collab_db_def)
  from only_author_or_admin_deletes [OF this e] show ?thesis
    by (rule, unfold e) (auto simp: sample_collab_db_def sample_collab_def acme_message_def empty_db1_def)
qed

theorem threads_stay_well_formed_witness:
  "collaboration_ok (snd (post_view sample_collab sample_rq ''i'' (Some (''hello'', None)) empty_db1))"
proof -
  have "fresh_for sample_collab empty_db1"
    by (auto simp: fresh_for_def sample_collab_def empty_db1_def inj_def dest: arg_cong [where f = length])
  then have "collab_step empty_db1 (snd (post_view sample_collab sample_rq ''i'' (Some (''hello'', None)) empty_db1))"
    by (rule posting)
  from threads_stay_well_formed [OF r_into_rtranclp [of collab_step, OF this]] show ?thesis
    by (simp add: empty_db1_def)
qed

end
