(* ===== verification/Consume_Incidents.thy ===== *)
theory Consume_Incidents
  imports Collaboration Incident_Api
begin

text \<open>
  \<open>apps/analytics/management/commands/consume_incidents.py\<close>: the consumer that keeps Django's snapshots of
  the incidents.  A handler runs inside a transaction and returns the new database with what it has sent, or
  an exception; \<open>broken\<close> marks a transaction in which a statement failed and the exception was swallowed:
  such a transaction is rolled back when its block ends, without an exception.  JSON decoding, the parsing of
  dates and the rendering of floats are parameters.
\<close>

definition CONSUMER_GROUP :: string where
  "CONSUMER_GROUP = ''django-incident-snapshot-consumer''"

definition TOPICS :: "string list" where
  "TOPICS = [''incidents.created'', ''incidents.duplicate_detected'', ''incidents.analyzed'', ''incidents.updated'']"

record consume_env =
  cn_collab :: collab_env
  cn_loads :: "string \<Rightarrow> json option"
  cn_float_repr :: "rat \<Rightarrow> string"
  cn_parse_datetime :: "string \<Rightarrow> time option"
  cn_db_error :: "exn option"  \<comment> \<open>the transaction cannot be opened\<close>
  cn_commit_error :: "exn option"

text \<open>\<open>str.title()\<close>\<close>

fun title_from :: "bool \<Rightarrow> string \<Rightarrow> string" where
  "title_from p [] = []"
| "title_from p (c # s) =
     (if p then lower_char c else if is_lower c then char_of (of_char c - 32 :: nat) else c) # title_from (is_alpha c) s"

abbreviation title :: "string \<Rightarrow> string" where
  "title \<equiv> title_from False"

subsection \<open>The handlers\<close>

text \<open>The identifiers of the payload; a missing or malformed one is only logged.\<close>

definition id_of :: "string \<Rightarrow> json \<Rightarrow> uuid res" where
  "id_of k d = bind_res (subscript d k) uuid_arg"

definition logged :: "exn \<Rightarrow> bool" where
  "logged e = (case e of KeyError _ \<Rightarrow> True | ValueError _ \<Rightarrow> True | _ \<Rightarrow> False)"

definition or_json :: "json \<Rightarrow> json \<Rightarrow> json" where
  "or_json a b = (if truthy a then a else b)"

definition snapshot_by_id :: "uuid \<Rightarrow> db1 \<Rightarrow> incident_snapshot option" where
  "snapshot_by_id x d = row_at snp_incident_id x (d_snapshots d)"

definition put_snapshot :: "incident_snapshot \<Rightarrow> db1 \<Rightarrow> db1" where
  "put_snapshot s d = d\<lparr>d_snapshots := put_row snp_incident_id s (d_snapshots d)\<rparr>"

text \<open>The row that \<open>update_or_create\<close> writes: a row that exists keeps its fingerprint and resolution.\<close>

definition snapshot_of ::
  "consume_env \<Rightarrow> uuid \<Rightarrow> uuid \<Rightarrow> json \<Rightarrow> incident_snapshot option \<Rightarrow> incident_snapshot res" where
  "snapshot_of env i t d old =
     (let chr = char_field (cn_float_repr env); date = date_field (cn_parse_datetime env);
          first = jget ''first_seen_at'' d
      in bind_res (if truthy (jget ''assigned_user_id'' d)
                   then bind_res (uuid_arg (jget ''assigned_user_id'' d)) (\<lambda>u. Inr (Some u)) else Inr None) (\<lambda>assigned.
         bind_res (chr ''status'' (Some 32) (get_default ''status'' d (JStr ''open''))) (\<lambda>st.
         bind_res (chr ''severity'' (Some 32) (get_default ''severity'' d (JStr ''unknown''))) (\<lambda>sev.
         bind_res (chr ''error_category'' (Some 32) (get_default ''error_category'' d (JStr ''unknown''))) (\<lambda>cat.
         bind_res (float_field (jget ''confidence_score'' d)) (\<lambda>conf.
         bind_res (chr ''error_type'' (Some 255) (get_default ''error_type'' d (JStr []))) (\<lambda>ety.
         bind_res (chr ''error_message'' None (get_default ''error_message'' d (JStr []))) (\<lambda>msg.
         bind_res (chr ''service_name'' (Some 255) (get_default ''service_name'' d (JStr []))) (\<lambda>svc.
         bind_res (chr ''environment'' (Some 64) (get_default ''environment'' d (JStr []))) (\<lambda>envt.
         bind_res (chr ''crash_file'' None (get_default ''crash_file'' d (JStr []))) (\<lambda>cf.
         bind_res (chr ''crash_method'' (Some 255) (get_default ''crash_method'' d (JStr []))) (\<lambda>cm.
         bind_res (chr ''root_cause'' None (get_default ''root_cause'' d (JStr []))) (\<lambda>rc.
         bind_res (chr ''suggested_fix'' None (get_default ''suggested_fix'' d (JStr []))) (\<lambda>fix'.
         bind_res (integer_field ''occurrence_count'' (get_default ''occurrence_count'' d (JInt 1))) (\<lambda>n.
         bind_res (bool_field ''is_draft'' (get_default ''is_draft'' d (JBool False))) (\<lambda>draft.
         bind_res (date first) (\<lambda>fs.
         bind_res (date (or_json (jget ''last_seen_at'' d) first)) (\<lambda>ls.
         bind_res (not_null ''created_at'' (date (or_json (jget ''created_at'' d) first))) (\<lambda>cr.
           Inr \<lparr>snp_incident_id = i, snp_tenant = t,
                snp_fingerprint = (case old of None \<Rightarrow> [] | Some s \<Rightarrow> snp_fingerprint s),
                snp_status = st, snp_is_draft = draft, snp_severity = sev, snp_error_category = cat,
                snp_confidence_score = conf, snp_error_type = ety, snp_error_message = msg, snp_service_name = svc,
                snp_environment = envt, snp_crash_file = cf, snp_crash_method = cm, snp_root_cause = rc,
                snp_suggested_fix = fix', snp_occurrence_count = n, snp_assigned_user_id = assigned,
                snp_source_version = 1, snp_first_seen_at = fs, snp_last_seen_at = ls,
                snp_resolved_at = (case old of None \<Rightarrow> None | Some s \<Rightarrow> snp_resolved_at s),
                snp_created_at = cr\<rparr>)))))))))))))))))))"

definition handle_created :: "consume_env \<Rightarrow> json \<Rightarrow> db1 \<Rightarrow> db1 res" where
  "handle_created env data d =
     (case bind_res (id_of ''incident_id'' data) (\<lambda>i. bind_res (id_of ''tenant_id'' data) (\<lambda>t. Inr (i, t))) of
        Inl e \<Rightarrow> if logged e then Inr d else Inl e
      | Inr (i, t) \<Rightarrow>
          bind_res (snapshot_of env i t data (snapshot_by_id i d)) (\<lambda>s. Inr (put_snapshot s d)))"

text \<open>
  \<open>filter(\<dots>).update(\<dots>)\<close>: the values are converted first; the constraints of the columns are checked where
  there is a row.
\<close>

definition handle_duplicate :: "consume_env \<Rightarrow> json \<Rightarrow> db1 \<Rightarrow> db1 res" where
  "handle_duplicate env data d =
     (case id_of ''incident_id'' data of
        Inl e \<Rightarrow> if logged e then Inr d else Inl e
      | Inr i \<Rightarrow>
          (let n = get_default ''new_occurrence_count'' data (JInt 1) in
           bind_res (if n = JNull then Inr 0 else py_int n) (\<lambda>_.
           bind_res (date_field (cn_parse_datetime env) (jget ''last_seen_at'' data)) (\<lambda>ls.
             case snapshot_by_id i d of
               None \<Rightarrow> Inr d
             | Some s \<Rightarrow> bind_res (integer_field ''occurrence_count'' n) (\<lambda>c.
                 Inr (put_snapshot (s\<lparr>snp_occurrence_count := c, snp_last_seen_at := ls\<rparr>) d))))))"

definition safe_uuid_value :: "consume_env \<Rightarrow> json \<Rightarrow> uuid option" where
  "safe_uuid_value env v = (if \<not> truthy v \<or> v = JStr ''None'' then None else uuid_parse (str_value (cn_float_repr env) v))"

text \<open>\<open>v[0]\<close> of something true\<close>

definition first_item :: "json \<Rightarrow> json res" where
  "first_item v = (case v of
     JArr (x # _) \<Rightarrow> Inr x
   | JStr (c # _) \<Rightarrow> Inr (JStr [c])
   | JObj _ \<Rightarrow> Inl (KeyError ''0'')
   | _ \<Rightarrow> Inl (TypeError ''not subscriptable''))"

text \<open>The new assignee, if the payload has one of the two keys.\<close>

definition new_assignee :: "consume_env \<Rightarrow> json \<Rightarrow> uuid option option res" where
  "new_assignee env data =
     (if jhas ''assigned_user_ids'' data
      then let v = jget ''assigned_user_ids'' data in
           if truthy v then bind_res (first_item v) (\<lambda>x. Inr (Some (safe_uuid_value env x))) else Inr (Some None)
      else if jhas ''assigned_user_id'' data
      then (case jget ''assigned_user_id'' data of
              JArr [] \<Rightarrow> Inr (Some None)
            | JArr (x # _) \<Rightarrow> Inr (Some (safe_uuid_value env x))
            | v \<Rightarrow> Inr (Some (safe_uuid_value env v)))
      else Inr None)"

definition update_snapshot :: "consume_env \<Rightarrow> uuid \<Rightarrow> json \<Rightarrow> uuid option option \<Rightarrow> db1 \<Rightarrow> db1 res" where
  "update_snapshot env i data assigned d =
     (if \<not> jhas ''status'' data \<and> assigned = None then Inr d
      else case snapshot_by_id i d of
        None \<Rightarrow> Inr d
      | Some s \<Rightarrow>
          bind_res (if jhas ''status'' data
                    then char_field (cn_float_repr env) ''status'' (Some 32) (jget ''status'' data)
                    else Inr (snp_status s)) (\<lambda>st.
            Inr (put_snapshot (s\<lparr>snp_status := st,
                   snp_resolved_at := (if jget ''status'' data = JStr ''resolved'' then Some (co_now (cn_collab env))
                                       else snp_resolved_at s),
                   snp_assigned_user_id := get_or assigned (snp_assigned_user_id s)\<rparr>) d)))"

text \<open>
  What the two guarded blocks return: the database, what was sent, and whether a statement has failed.
\<close>

type_synonym guarded = "db1 \<times> push list \<times> bool"

definition actor_of :: "json \<Rightarrow> db1 \<Rightarrow> user res" where
  "actor_of v d = bind_res (uuid_arg v) (\<lambda>u. case user_by_id u d of None \<Rightarrow> Inl (OtherError ''DoesNotExist'') | Some a \<Rightarrow> Inr a)"

definition full_name :: "user \<Rightarrow> string" where
  "full_name u = usr_first_name u @ '' '' @ usr_last_name u"

definition transition_row ::
  "consume_env \<Rightarrow> uuid \<Rightarrow> uuid \<Rightarrow> uuid \<Rightarrow> uuid \<Rightarrow> json \<Rightarrow> status_transition res" where
  "transition_row env fresh t i a data =
     bind_res (char_field (cn_float_repr env) ''from_status'' (Some 32) (jget ''from_status'' data)) (\<lambda>f.
     bind_res (char_field (cn_float_repr env) ''to_status'' (Some 32) (jget ''status'' data)) (\<lambda>s.
       Inr \<lparr>trn_id = fresh, trn_tenant = t, trn_incident_id = i, trn_actor = Some a, trn_from_status = f,
            trn_to_status = s,
            trn_note = (if get_default ''note'' data (JStr []) = JNull then None
                        else Some (str_value (cn_float_repr env) (get_default ''note'' data (JStr [])))),
            trn_created_at = co_now (cn_collab env)\<rparr>))"

text \<open>The dash of the message, which is not ASCII, is written as two hyphens.\<close>

definition moved_text :: "consume_env \<Rightarrow> user \<Rightarrow> string \<Rightarrow> json \<Rightarrow> string" where
  "moved_text env a s data =
     full_name a @ '' moved this incident to '' @ title s @
     (if truthy (jget ''note'' data) then '' -- '' @ [CHR 0x27] @ str_value (cn_float_repr env) (jget ''note'' data) @ [CHR 0x27]
      else [])"

definition record_transition :: "consume_env \<Rightarrow> uuid \<Rightarrow> json \<Rightarrow> db1 \<Rightarrow> guarded" where
  "record_transition env i data d =
     (let from = jget ''from_status'' data; st = jget ''status'' data; co = cn_collab env in
      if \<not> (truthy from \<and> truthy st \<and> from \<noteq> st \<and> truthy (jget ''actor_id'' data)) then (d, [], False)
      else case bind_res (actor_of (jget ''actor_id'' data) d) (\<lambda>a.
                bind_res (id_of ''tenant_id'' data) (\<lambda>t. Inr (a, t))) of
        Inl _ \<Rightarrow> (d, [], False)
      | Inr (a, t) \<Rightarrow>
          (case transition_row env (co_fresh co 0) t i (usr_id a) data of
             Inl _ \<Rightarrow> (d, [], True)
           | Inr row \<Rightarrow>
               (let d1 = d\<lparr>d_transitions := d_transitions d @ [row]\<rparr> in
                case get_or_create_thread (co_now co) (co_fresh co 1) t i d1 of
                  (Inl _, d2) \<Rightarrow> (d2, [], False)
                | (Inr h, d2) \<Rightarrow>
                    (case st of
                       JStr s \<Rightarrow> (let ((r, ps), d3) = post_system_message co (co_fresh co 2) (co_fresh co 3) h
                                                     (moved_text env a s data) d2
                                 in (d3, ps, False))
                     | _ \<Rightarrow> (d2, [], False)))))"

text \<open>The assignees to tell; an exception, of whatever kind, ends the loop and is logged.\<close>

definition assignment_notification :: "consume_env \<Rightarrow> uuid \<Rightarrow> uuid \<Rightarrow> uuid \<Rightarrow> uuid \<Rightarrow> user \<Rightarrow> notification" where
  "assignment_notification env fresh t u i a = \<lparr>
     ntf_id = fresh, ntf_tenant = t, ntf_user = u, ntf_type = ''assignment'', ntf_title = ''Incident Assignment'',
     ntf_body = full_name a @ '' assigned you as a responder to an incident.'',
     ntf_incident_id = Some i, ntf_is_read = False, ntf_created_at = co_now (cn_collab env)\<rparr>"

fun notify_assignees ::
  "consume_env \<Rightarrow> nat \<Rightarrow> uuid \<Rightarrow> user \<Rightarrow> json \<Rightarrow> json list \<Rightarrow> db1 \<Rightarrow> db1 \<times> push list" where
  "notify_assignees env k i a data [] d = (d, [])"
| "notify_assignees env k i a data (x # xs) d =
     (if x = jget ''actor_id'' data then notify_assignees env k i a data xs d
      else case bind_res (uuid_arg x) (\<lambda>u. bind_res (uuid_arg (jget ''tenant_id'' data)) (\<lambda>t. Inr (u, t))) of
        Inl _ \<Rightarrow> (d, [])
      | Inr (u, t) \<Rightarrow>
          (let co = cn_collab env; n = assignment_notification env (co_fresh co k) t u i a;
               d1 = d\<lparr>d_notifications := d_notifications d @ [n]\<rparr>
           in case push_notification (co_push co) (co_fresh co (Suc k)) (py_str (jget ''tenant_id'' data)) (py_str x)
                     (notification_json n) of
                (Inl _, ps) \<Rightarrow> (d1, ps)
              | (Inr _, ps) \<Rightarrow>
                  (let (d2, qs) = notify_assignees env (k + 2) i a data xs d1 in (d2, ps @ qs))))"

definition assignees :: "json \<Rightarrow> json list option" where
  "assignees v = (case v of JArr xs \<Rightarrow> Some xs | JStr s \<Rightarrow> Some (map (\<lambda>c. JStr [c]) s)
     | JObj kvs \<Rightarrow> Some (map (JStr \<circ> fst) kvs) | _ \<Rightarrow> None)"

definition notify_newly_assigned :: "consume_env \<Rightarrow> uuid \<Rightarrow> json \<Rightarrow> db1 \<Rightarrow> db1 \<times> push list" where
  "notify_newly_assigned env i data d =
     (let newly = get_default ''newly_assigned_user_ids'' data (JArr []) in
      if \<not> (truthy newly \<and> truthy (jget ''actor_id'' data)) then (d, [])
      else case (actor_of (jget ''actor_id'' data) d, assignees newly) of
             (Inr a, Some xs) \<Rightarrow> notify_assignees env 4 i a data xs d
           | _ \<Rightarrow> (d, []))"

definition broadcast_update :: "consume_env \<Rightarrow> uuid \<Rightarrow> json \<Rightarrow> unit act" where
  "broadcast_update env i data =
     (case subscript data ''tenant_id'' of
        Inl e \<Rightarrow> (Inl e, [])
      | Inr t \<Rightarrow> group_send (co_push (cn_collab env)) (''collaboration_'' @ str_value (cn_float_repr env) t)
          (JObj [(''type'', JStr ''incident.updated''),
                 (''data'', JObj [(''incident_id'', JStr i), (''status'', jget ''status'' data),
                    (''assigned_user_id'', jget ''assigned_user_id'' data), (''updated_at'', jget ''updated_at'' data)])]))"

definition handle_updated :: "consume_env \<Rightarrow> json \<Rightarrow> db1 \<Rightarrow> unit act \<times> db1 \<times> bool" where
  "handle_updated env data d =
     (case id_of ''incident_id'' data of
        Inl e \<Rightarrow> if logged e then ((Inr (), []), d, False) else ((Inl e, []), d, False)
      | Inr i \<Rightarrow>
          (case bind_res (new_assignee env data) (\<lambda>as. bind_res (update_snapshot env i data as d) (\<lambda>d1. Inr (as, d1))) of
             Inl e \<Rightarrow> ((Inl e, []), d, False)
           | Inr (as, d1) \<Rightarrow>
               (let (d2, ps, broken) = record_transition env i data d1;
                    (d3, qs) = (if broken then (d2, []) else notify_newly_assigned env i data d2);
                    (r, rs) = (if jhas ''status'' data \<or> as \<noteq> None then broadcast_update env i data else (Inr (), []))
                in ((r, ps @ qs @ rs), d3, broken))))"

subsection \<open>One message\<close>

text \<open>Foreign keys are deferred in Django's tables: they are checked when the transaction is committed.\<close>

definition tenant_exists :: "db1 \<Rightarrow> uuid \<Rightarrow> bool" where
  "tenant_exists d t \<longleftrightarrow> (\<exists>x \<in> set (d_tenants d). tnt_id x = t)"

definition user_exists :: "db1 \<Rightarrow> uuid \<Rightarrow> bool" where
  "user_exists d u \<longleftrightarrow> (\<exists>x \<in> set (d_users d). usr_id x = u)"

definition foreign_keys_ok :: "db1 \<Rightarrow> bool" where
  "foreign_keys_ok d \<longleftrightarrow>
     (\<forall>s \<in> set (d_snapshots d). tenant_exists d (snp_tenant s)) \<and>
     (\<forall>x \<in> set (d_transitions d). tenant_exists d (trn_tenant x)) \<and>
     (\<forall>h \<in> set (d_threads d). tenant_exists d (thr_tenant h)) \<and>
     (\<forall>n \<in> set (d_notifications d). tenant_exists d (ntf_tenant n) \<and> user_exists d (ntf_user n))"

datatype handler = Created | Duplicate | Analyzed | Updated

definition handler_map :: "string \<Rightarrow> handler option" where
  "handler_map = map_of [(''incident.created'', Created), (''incident.duplicate_detected'', Duplicate),
     (''incident.analyzed'', Analyzed), (''incident.updated'', Updated)]"

definition run_handler :: "consume_env \<Rightarrow> handler \<Rightarrow> json \<Rightarrow> db1 \<Rightarrow> unit act \<times> db1 \<times> bool" where
  "run_handler env h data d =
     (let plain = (\<lambda>r. case r of Inl e \<Rightarrow> ((Inl e, []), d, False) | Inr d' \<Rightarrow> ((Inr (), []), d', False)) in
      case h of
        Created \<Rightarrow> plain (handle_created env data d)
      | Duplicate \<Rightarrow> plain (handle_duplicate env data d)
      | Analyzed \<Rightarrow> plain (bind_res (dict_get data ''incident_id'') (\<lambda>_. Inr d))
      | Updated \<Rightarrow> handle_updated env data d)"

text \<open>The block \<open>transaction.atomic()\<close>: the row of the event first, then the handler.\<close>

definition process_event ::
  "consume_env \<Rightarrow> string \<Rightarrow> uuid \<Rightarrow> handler \<Rightarrow> json \<Rightarrow> db1 \<Rightarrow> unit act \<times> db1" where
  "process_event env topic x h data d =
     (case cn_db_error env of
        Some e \<Rightarrow> ((Inl e, []), d)
      | None \<Rightarrow>
          if x \<in> prc_event_id ` set (d_processed d) then ((Inr (), []), d)
          else (let d0 = d\<lparr>d_processed := d_processed d @
                      [\<lparr>prc_event_id = x, prc_consumer_group = CONSUMER_GROUP, prc_topic = topic\<rparr>]\<rparr>;
                    ((r, ps), d1, broken) = run_handler env h data d0
                in case r of
                     Inl e \<Rightarrow> ((Inl e, ps), d)
                   | Inr _ \<Rightarrow>
                       if broken then ((Inr (), ps), d)
                       else if \<not> foreign_keys_ok d1 then ((Inl (IntegrityError ''foreign key''), ps), d)
                       else (case cn_commit_error env of
                               Some e \<Rightarrow> ((Inl e, ps), d) | None \<Rightarrow> ((Inr (), ps), d1))))"

text \<open>
  \<open>_handle_message\<close>: what it ignores is committed like what it has processed; an exception reaches the
  loop, which ends and starts again at the committed offset.
\<close>

definition event_handler :: "json \<Rightarrow> handler option res" where
  "event_handler v = (case v of
     JStr s \<Rightarrow> Inr (handler_map s)
   | _ \<Rightarrow> if unhashable v then Inl (TypeError ''unhashable'') else Inr None)"

definition handle_payload :: "consume_env \<Rightarrow> string \<Rightarrow> json \<Rightarrow> db1 \<Rightarrow> unit act \<times> db1" where
  "handle_payload env topic p d =
     (case bind_res (dict_get p ''event_type'') (\<lambda>ty. bind_res (dict_get p ''event_id'') (\<lambda>x.
             if \<not> truthy x then Inr None
             else case uuid_arg x of
                    Inl (ValueError m) \<Rightarrow> Inr None
                  | Inl e \<Rightarrow> Inl e
                  | Inr u \<Rightarrow> bind_res (event_handler ty) (\<lambda>h. Inr (map_option (Pair u) h)))) of
        Inl e \<Rightarrow> ((Inl e, []), d)
      | Inr None \<Rightarrow> ((Inr (), []), d)
      | Inr (Some (u, h)) \<Rightarrow> process_event env topic u h (get_default ''payload'' p (JObj [])) d)"

definition handle_message :: "consume_env \<Rightarrow> message \<Rightarrow> db1 \<times> push list \<Rightarrow> verdict \<times> db1 \<times> push list" where
  "handle_message env m w =
     (case km_value m of
        None \<Rightarrow> (Crash (AttributeError ''decode''), w)
      | Some v \<Rightarrow>
          (case cn_loads env v of
             None \<Rightarrow> (Commit, w)
           | Some p \<Rightarrow>
               (case handle_payload env (km_topic m) p (fst w) of
                  ((Inl e, ps), d) \<Rightarrow> (Crash e, d, snd w @ ps)
                | ((Inr _, ps), d) \<Rightarrow> (Commit, d, snd w @ ps))))"

text \<open>
  The loop takes a message, handles it and commits its offset, which is the position of its partition; the
  positions of the other partitions have been committed before.
\<close>

definition run_consumer_loop ::
  "'k kafka \<Rightarrow> consume_env \<Rightarrow> nat \<Rightarrow> 'k \<Rightarrow> db1 \<times> push list \<Rightarrow>
   (message \<times> verdict) list \<times> exn option \<times> 'k \<times> db1 \<times> push list" where
  "run_consumer_loop K env = consume K (handle_message env)"

end
