(* ===== verification/Consume_Incidents_Spec.thy ===== *)
theory Consume_Incidents_Spec
  imports Consume_Incidents Incident_Api_Spec Collaboration_Spec
begin

text \<open>
  FastAPI's incidents and Django's snapshots of them, composed: the producer is the model of the incident
  API and of the incident service, the consumer that of the management command.
\<close>

subsection \<open>What a handler leaves alone\<close>

text \<open>
  The guarded blocks add transitions, threads and messages of the tenant and notifications of the users \<open>U\<close>
  to a database, and touch none of the other tables.
\<close>

definition grows :: "uuid \<Rightarrow> uuid set \<Rightarrow> db1 \<Rightarrow> db1 \<Rightarrow> bool" where
  "grows t U d d' \<longleftrightarrow>
     d_tenants d' = d_tenants d \<and> d_users d' = d_users d \<and> d_processed d' = d_processed d \<and>
     d_snapshots d' = d_snapshots d \<and>
     (\<forall>x \<in> set (d_transitions d'). x \<in> set (d_transitions d) \<or> trn_tenant x = t) \<and>
     (\<forall>h \<in> set (d_threads d'). h \<in> set (d_threads d) \<or> thr_tenant h = t) \<and>
     (\<forall>n \<in> set (d_notifications d'). n \<in> set (d_notifications d) \<or> ntf_tenant n = t \<and> ntf_user n \<in> U)"

lemma grows_refl [simp]: "grows t U d d"
  by (simp add: grows_def)

lemma grows_trans: "grows t U d d1 \<Longrightarrow> grows t U d1 d2 \<Longrightarrow> grows t U d d2"
  unfolding grows_def by (metis (no_types, lifting))

lemma grows_thread: "get_or_create_thread now x t i d = (r, d') \<Longrightarrow> grows t U d d'"
  by (auto simp: get_or_create_thread_def grows_def Let_def split: if_splits option.splits)

lemma grows_system_message: "grows t U d (snd (post_system_message env x ev h content d))"
  by (auto simp: post_system_message_def grows_def add_message_def Let_def dest!: emit_event_InrD split: sum.split)

lemma grows_transition: "trn_tenant row = t \<Longrightarrow> grows t U d (d\<lparr>d_transitions := d_transitions d @ [row]\<rparr>)"
  by (simp add: grows_def)

lemma grows_foreign_keys:
  assumes "grows t U d d'" "foreign_keys_ok d" "tenant_exists d t" "\<forall>u \<in> U. user_exists d u"
  shows "foreign_keys_ok d'"
proof -
  have t: "tenant_exists d' = tenant_exists d" "user_exists d' = user_exists d"
    using assms(1) by (auto simp: grows_def tenant_exists_def user_exists_def fun_eq_iff)
  show ?thesis using assms unfolding foreign_keys_ok_def t grows_def by (metis (no_types, lifting))
qed

lemma record_transition_grows:
  assumes "is_uuid t" "jget ''tenant_id'' data = JStr t" "jhas ''tenant_id'' data"
  shows "grows t U d (fst (record_transition env i data d))"
proof -
  have id: "id_of ''tenant_id'' data = Inr t"
    using assms by (cases data) (auto simp: id_of_def split: option.splits)
  have row: "trn_tenant row = t" if "transition_row env x t j a data = Inr row" for x j a row
    using that by (auto simp: transition_row_def bind_res_eq_Inr)
  let ?co = "cn_collab env"
  show ?thesis
  proof (cases "truthy (jget ''from_status'' data) \<and> truthy (jget ''status'' data) \<and>
      jget ''from_status'' data \<noteq> jget ''status'' data \<and> truthy (jget ''actor_id'' data)")
    case c: True
    show ?thesis
    proof (cases "actor_of (jget ''actor_id'' data) d")
      case a: (Inr a)
      show ?thesis
      proof (cases "transition_row env (co_fresh ?co 0) t i (usr_id a) data")
        case r: (Inr x)
        let ?d1 = "d\<lparr>d_transitions := d_transitions d @ [x]\<rparr>"
        obtain q d2 where q: "get_or_create_thread (co_now ?co) (co_fresh ?co 1) t i ?d1 = (q, d2)" by fastforce
        have g: "grows t U d d2"
          using grows_trans [OF grows_transition [OF row [OF r]] grows_thread [OF q]] .
        show ?thesis
          using c a r q id grows_trans [OF g grows_system_message]
          by (cases q; cases "jget ''status'' data") (simp_all add: record_transition_def Let_def g case_prod_beta)
      qed (use c a id in \<open>simp add: record_transition_def Let_def\<close>)
    qed (use c in \<open>simp add: record_transition_def Let_def\<close>)
  qed (simp add: record_transition_def Let_def)
qed

lemma notify_assignees_grows:
  assumes "is_uuid t" "jget ''tenant_id'' data = JStr t" "set us \<subseteq> U" "\<forall>u \<in> U. is_uuid u"
  shows "grows t U d (fst (notify_assignees env k i a data (map JStr us) d))"
  using assms(3)
proof (induction us arbitrary: k d)
  case (Cons u us)
  let ?n = "assignment_notification env (co_fresh (cn_collab env) k) t u i a"
  let ?d1 = "d\<lparr>d_notifications := d_notifications d @ [?n]\<rparr>"
  have n: "grows t U d ?d1"
    using Cons.prems by (simp add: grows_def assignment_notification_def)
  obtain r ps where "push_notification (co_push (cn_collab env)) (co_fresh (cn_collab env) (Suc k)) t u
      (notification_json ?n) = (r, ps)" by fastforce
  with Cons assms(1,2,4) show ?case
    by (cases r) (auto simp: Let_def case_prod_beta n intro: grows_trans [OF n])
qed simp

lemma notify_grows:
  assumes "is_uuid t" "jget ''tenant_id'' data = JStr t" "\<forall>u \<in> set us. is_uuid u"
    "get_default ''newly_assigned_user_ids'' data (JArr []) = JArr (map JStr us)"
  shows "grows t (set us) d (fst (notify_newly_assigned env i data d))"
  using notify_assignees_grows [OF assms(1,2) subset_refl assms(3)]
  by (auto simp: notify_newly_assigned_def assignees_def assms(4) Let_def split: sum.split)

subsection \<open>The consumer's part\<close>

text \<open>A consumer whose database and channel layer answer.\<close>

definition healthy :: "consume_env \<Rightarrow> bool" where
  "healthy env \<longleftrightarrow> cn_db_error env = None \<and> cn_commit_error env = None \<and>
     (\<forall>g x. pu_group (co_push (cn_collab env)) g x = None)"

definition first_of :: "uuid list \<Rightarrow> uuid option" where
  "first_of us = (case us of [] \<Rightarrow> None | u # _ \<Rightarrow> Some u)"

definition mark :: "string \<Rightarrow> uuid \<Rightarrow> db1 \<Rightarrow> db1" where
  "mark topic x d = d\<lparr>d_processed := d_processed d @
     [\<lparr>prc_event_id = x, prc_consumer_group = CONSUMER_GROUP, prc_topic = topic\<rparr>]\<rparr>"

abbreviation seen :: "db1 \<Rightarrow> uuid set" where
  "seen d \<equiv> prc_event_id ` set (d_processed d)"

lemma process_event_seen:
  "x \<in> seen d \<Longrightarrow> healthy env \<Longrightarrow> process_event env topic x h data d = ((Inr (), []), d)"
  by (simp add: process_event_def healthy_def)

lemma uuid_texts: "is_uuid u \<Longrightarrow> u \<noteq> [] \<and> u \<noteq> ''None''"
proof -
  assume "is_uuid u"
  then obtain h where h: "length h = 32" "hyphenate h = u"
    by (auto simp: is_uuid_def uuid_parse_def Let_def split: if_splits)
  have "length (hyphenate h) = 36" by (simp add: hyphenate_def h(1))
  then have "length u = 36" by (simp add: h(2))
  then show ?thesis by auto
qed

lemma safe_uuid_text: "is_uuid u \<Longrightarrow> safe_uuid_value env (JStr u) = Some u"
  by (simp add: safe_uuid_value_def uuid_texts str_value_def py_str_def is_uuid_def)

text \<open>What an update of FastAPI does to the snapshot of its incident.\<close>

definition followed :: "consume_env \<Rightarrow> update_request \<Rightarrow> incident \<Rightarrow> uuid list \<Rightarrow> incident_snapshot \<Rightarrow> incident_snapshot" where
  "followed env r i us s = s\<lparr>snp_status := get_or (ur_status r) (i_status i),
     snp_resolved_at := (if get_or (ur_status r) (i_status i) = ''resolved'' then Some (co_now (cn_collab env))
                         else snp_resolved_at s),
     snp_assigned_user_id := first_of us\<rparr>"

definition follow_in :: "consume_env \<Rightarrow> update_request \<Rightarrow> incident \<Rightarrow> uuid list \<Rightarrow> db1 \<Rightarrow> db1" where
  "follow_in env r i us d = (case snapshot_by_id (i_id i) d of
     None \<Rightarrow> d | Some s \<Rightarrow> put_snapshot (followed env r i us s) d)"

definition update_shape :: "update_request \<Rightarrow> incident \<Rightarrow> uuid list \<Rightarrow> bool" where
  "update_shape r i us \<longleftrightarrow> is_uuid (i_id i) \<and> is_uuid (i_tenant_id i) \<and> (\<forall>u \<in> set us. is_uuid u) \<and>
     length (get_or (ur_status r) (i_status i)) \<le> 32 \<and> length (i_status i) \<le> 32"

definition update_fits :: "update_request \<Rightarrow> incident \<Rightarrow> uuid list \<Rightarrow> db1 \<Rightarrow> bool" where
  "update_fits r i us d \<longleftrightarrow> update_shape r i us \<and>
     tenant_exists d (i_tenant_id i) \<and> (\<forall>u \<in> set (newly_assigned i us). user_exists d u)"

abbreviation updated_data :: "'w patch_env \<Rightarrow> update_request \<Rightarrow> incident \<Rightarrow> uuid list \<Rightarrow> json" where
  "updated_data pe r i us \<equiv> jget ''payload'' (updated_payload pe (i_tenant_id i) r i us)"

lemma updated_data_simps:
  fixes pe r i us
  defines "x \<equiv> updated_data pe r i us"
  shows "subscript x ''incident_id'' = Inr (JStr (i_id i))" "subscript x ''tenant_id'' = Inr (JStr (i_tenant_id i))"
    "jget ''tenant_id'' x = JStr (i_tenant_id i)" "jhas ''tenant_id'' x" "jhas ''status'' x"
    "jget ''status'' x = JStr (get_or (ur_status r) (i_status i))" "jget ''from_status'' x = JStr (i_status i)"
    "jhas ''assigned_user_ids'' x" "jget ''assigned_user_ids'' x = JArr (map JStr us)"
    "get_default ''newly_assigned_user_ids'' x (JArr []) = JArr (map JStr (newly_assigned i us))"
    "jget ''event_id'' (updated_payload pe (i_tenant_id i) r i us) = JStr (pt_event_id pe)"
    "jget ''event_type'' (updated_payload pe (i_tenant_id i) r i us) = JStr ''incident.updated''"
    "get_default ''payload'' (updated_payload pe (i_tenant_id i) r i us) (JObj []) = x"
    "dict_get (updated_payload pe (i_tenant_id i) r i us) k = Inr (jget k (updated_payload pe (i_tenant_id i) r i us))"
  by (simp_all add: x_def updated_payload_def get_default_def dict_get_def)

lemma broken_never:
  assumes "length (i_status i) \<le> 32" "length (get_or (ur_status r) (i_status i)) \<le> 32"
  shows "snd (snd (record_transition env j (updated_data pe r i us) d)) = False"
proof -
  have "\<exists>row. transition_row env x t j' a (updated_data pe r i us) = Inr row" for x t j' a
    using assms by (simp add: transition_row_def updated_data_simps)
  then show ?thesis
    by (auto simp: record_transition_def Let_def case_prod_beta split: sum.split json.split) (metis Inl_not_Inr)+
qed

lemma handle_updated_follows:
  assumes h: "healthy env" and f: "update_shape r i us"
  obtains ps d' d2 where "handle_updated env (updated_data pe r i us) d = ((Inr (), ps), d', False)"
    "grows (i_tenant_id i) (set (newly_assigned i us)) (follow_in env r i us d) d2"
    "d' = fst (notify_newly_assigned env (i_id i) (updated_data pe r i us) d2)"
    "grows (i_tenant_id i) (set (newly_assigned i us)) (follow_in env r i us d) d'"
proof -
  let ?x = "updated_data pe r i us"
  note simps = updated_data_simps
  have id: "id_of ''incident_id'' ?x = Inr (i_id i)" using f by (simp add: id_of_def simps update_shape_def)
  have as: "new_assignee env ?x = Inr (Some (first_of us))"
    using f by (cases us) (simp_all add: new_assignee_def simps first_item_def safe_uuid_text update_shape_def first_of_def)
  have up: "update_snapshot env (i_id i) ?x (Some (first_of us)) d = Inr (follow_in env r i us d)"
    using f by (auto simp: update_snapshot_def simps follow_in_def followed_def update_shape_def get_or_def split: option.split)
  obtain d2 ps br where t: "record_transition env (i_id i) ?x (follow_in env r i us d) = (d2, ps, br)"
    by (metis prod_cases3)
  have "br = False" using broken_never [of i r env "i_id i" pe us "follow_in env r i us d"] t f by (simp add: update_shape_def)
  obtain d3 qs where n: "notify_newly_assigned env (i_id i) ?x d2 = (d3, qs)" by fastforce
  have u: "is_uuid (i_tenant_id i)" "\<forall>u \<in> set (newly_assigned i us). is_uuid u"
    using f by (auto simp: update_shape_def newly_assigned_def)
  have "broadcast_update env (i_id i) ?x = (Inr (), [Group (''collaboration_'' @ i_tenant_id i)
      (JObj [(''type'', JStr ''incident.updated''),
             (''data'', JObj [(''incident_id'', JStr (i_id i)), (''status'', jget ''status'' ?x),
                    (''assigned_user_id'', jget ''assigned_user_id'' ?x), (''updated_at'', jget ''updated_at'' ?x)])])])"
    using h by (simp add: broadcast_update_def simps group_send_def healthy_def str_value_def)
  then have e: "handle_updated env ?x d = ((Inr (), ps @ qs @ snd (broadcast_update env (i_id i) ?x)), d3, False)"
    using id as up t n \<open>br = False\<close> by (simp add: handle_updated_def simps)
  have "grows (i_tenant_id i) (set (newly_assigned i us)) (follow_in env r i us d) d2"
    using record_transition_grows [OF u(1), of ?x "set (newly_assigned i us)" "follow_in env r i us d" env "i_id i"] t
    by (simp add: simps)
  moreover have "grows (i_tenant_id i) (set (newly_assigned i us)) d2 d3"
    using notify_grows [OF u(1) _ u(2), of ?x d2 env "i_id i"] n by (simp add: simps)
  moreover have "d3 = fst (notify_newly_assigned env (i_id i) ?x d2)" by (simp add: n)
  ultimately show ?thesis using that [OF e] grows_trans by blast
qed

lemma follow_in_simps [simp]:
  "d_tenants (follow_in env r i us d) = d_tenants d" "d_users (follow_in env r i us d) = d_users d"
  "d_processed (follow_in env r i us d) = d_processed d" "d_transitions (follow_in env r i us d) = d_transitions d"
  "d_threads (follow_in env r i us d) = d_threads d" "d_notifications (follow_in env r i us d) = d_notifications d"
  by (simp_all add: follow_in_def put_snapshot_def split: option.split)

lemma follow_in_at:
  "snapshot_by_id j (follow_in env r i us d) =
     (if j = i_id i then map_option (followed env r i us) (snapshot_by_id j d) else snapshot_by_id j d)"
  by (auto simp: follow_in_def put_snapshot_def snapshot_by_id_def followed_def dest!: row_at_Some split: option.split)

lemma follow_in_foreign_keys:
  assumes "foreign_keys_ok d" shows "foreign_keys_ok (follow_in env r i us d)"
proof (cases "snapshot_by_id (i_id i) d")
  case (Some s)
  then have s: "s \<in> set (d_snapshots d)" by (auto simp: snapshot_by_id_def dest: row_at_Some)
  have "\<forall>x \<in> set (d_snapshots (follow_in env r i us d)). tenant_exists d (snp_tenant x)"
    using assms s Some set_put_row [of snp_incident_id "followed env r i us s" "d_snapshots d"]
    by (auto simp: follow_in_def put_snapshot_def foreign_keys_ok_def followed_def)
  with assms show ?thesis by (simp add: foreign_keys_ok_def tenant_exists_def user_exists_def)
qed (use assms in \<open>simp add: follow_in_def\<close>)

text \<open>An event of the incident API, delivered once more or for the first time.\<close>

lemma updated_event:
  assumes h: "healthy env" and f: "update_fits r i us d" and x: "is_uuid (pt_event_id pe)"
    and ok: "foreign_keys_ok d"
  obtains ps d' where
    "handle_payload env topic (updated_payload pe (i_tenant_id i) r i us) d = ((Inr (), ps), d')" "foreign_keys_ok d'"
    "d_tenants d' = d_tenants d" "d_users d' = d_users d" "seen d' = insert (pt_event_id pe) (seen d)"
    "d_snapshots d' = (if pt_event_id pe \<in> seen d then d_snapshots d else d_snapshots (follow_in env r i us d))"
proof (cases "pt_event_id pe \<in> seen d")
  case True
  have "handle_payload env topic (updated_payload pe (i_tenant_id i) r i us) d = ((Inr (), []), d)"
    using True h x uuid_texts [OF x]
    by (simp add: handle_payload_def updated_data_simps event_handler_def handler_map_def process_event_seen)
  with ok True that show ?thesis by (simp add: insert_absorb)
next
  case False
  let ?d0 = "mark topic (pt_event_id pe) d"
  from f have shape: "update_shape r i us" by (simp add: update_fits_def)
  from handle_updated_follows [OF h shape, of pe ?d0] obtain ps d' where
    u: "handle_updated env (updated_data pe r i us) ?d0 = ((Inr (), ps), d', False)"
    and g: "grows (i_tenant_id i) (set (newly_assigned i us)) (follow_in env r i us ?d0) d'" by metis
  have fk: "foreign_keys_ok d'"
  proof (rule grows_foreign_keys [OF g follow_in_foreign_keys])
    show "foreign_keys_ok ?d0" using ok by (simp add: foreign_keys_ok_def mark_def tenant_exists_def user_exists_def)
  qed (use f in \<open>simp_all add: update_fits_def mark_def tenant_exists_def user_exists_def\<close>)
  have "handle_payload env topic (updated_payload pe (i_tenant_id i) r i us) d = ((Inr (), ps), d')"
    using False h x uuid_texts [OF x] u fk
    by (simp add: handle_payload_def updated_data_simps event_handler_def handler_map_def process_event_def
        healthy_def run_handler_def mark_def)
  moreover have "d_snapshots (follow_in env r i us ?d0) = d_snapshots (follow_in env r i us d)"
    by (simp add: follow_in_def snapshot_by_id_def mark_def put_snapshot_def split: option.split)
  ultimately show ?thesis using that [OF _ fk] g False by (simp add: grows_def mark_def)
qed

definition event_named :: "uuid \<Rightarrow> json \<Rightarrow> bool" where
  "event_named x e \<longleftrightarrow> is_uuid x \<and> (\<exists>kvs ty. e = JObj kvs \<and> jget ''event_id'' e = JStr x \<and> jget ''event_type'' e = JStr ty)"

lemma seen_event:
  assumes "healthy env" "event_named x e" "x \<in> seen d"
  shows "handle_payload env topic e d = ((Inr (), []), d)"
proof -
  from assms(2) obtain kvs ty where e: "e = JObj kvs" "jget ''event_id'' e = JStr x" "jget ''event_type'' e = JStr ty" "is_uuid x"
    by (auto simp: event_named_def)
  have "dict_get e k = Inr (jget k e)" for k by (simp add: e(1) dict_get_def)
  with assms e(2-4) uuid_texts [OF e(4)] show ?thesis
    by (cases "handler_map ty") (simp_all add: handle_payload_def event_handler_def process_event_seen)
qed

lemma updated_event_named: "is_uuid (pt_event_id pe) \<Longrightarrow> event_named (pt_event_id pe) (updated_payload pe t r i us)"
  by (simp add: event_named_def updated_payload_def)

subsection \<open>Producer and consumer\<close>

text \<open>
  Accepted requests to the incident API with the events they leave in the outbox.  Whom a request assigns are
  users that Django knows (\<open>K\<close>), and an event has an identifier that was not used before (\<open>S\<close>).
\<close>

definition known_users :: "(uuid \<Rightarrow> bool) \<Rightarrow> update_request \<Rightarrow> bool" where
  "known_users K r \<longleftrightarrow> (\<forall>u \<in> set (get_or (ur_assigned_user_ids r) []) \<union> set_option (ur_actor_id r). is_uuid u \<and> K u)"

inductive api_history ::
  "'w elasticsearch \<Rightarrow> (uuid \<Rightarrow> bool) \<Rightarrow> uuid set \<Rightarrow> db2 \<Rightarrow> json list \<Rightarrow> db2 \<Rightarrow> bool" for E K S db where
  none: "api_history E K S db [] db"
| more: "api_history E K S db es db1 \<Longrightarrow> pt_es pe = E \<Longrightarrow>
    update_incident pe tenant x raw r db1 w = (Inr a, db2, w') \<Longrightarrow>
    is_uuid (pt_event_id pe) \<Longrightarrow> pt_event_id pe \<notin> S \<Longrightarrow> known_users K r \<Longrightarrow> length (get_or (ur_status r) []) \<le> 32 \<Longrightarrow>
    api_history E K S db (es @ [ob_payload (last (outbox db2))]) db2"

text \<open>The events in order, each delivered at least once: any earlier one may come again.\<close>

inductive consumed :: "json list \<Rightarrow> db1 \<Rightarrow> db1 \<Rightarrow> bool" where
  start: "consumed [] d d"
| new: "consumed es d d1 \<Longrightarrow> healthy env \<Longrightarrow> handle_payload env topic e d1 = (r, d2) \<Longrightarrow> consumed (es @ [e]) d d2"
| again: "consumed es d d1 \<Longrightarrow> e \<in> set es \<Longrightarrow> healthy env \<Longrightarrow> handle_payload env topic e d1 = (r, d2) \<Longrightarrow> consumed es d d2"

definition rows_ok :: "db1 \<Rightarrow> db2 \<Rightarrow> bool" where
  "rows_ok d db \<longleftrightarrow> distinct (map i_id (incidents db)) \<and>
     (\<forall>i \<in> set (incidents db). is_uuid (i_id i) \<and> is_uuid (i_tenant_id i) \<and> tenant_exists d (i_tenant_id i) \<and>
        (\<forall>u \<in> set (i_assigned_user_ids i). is_uuid u) \<and> length (i_status i) \<le> 32)"

definition in_step :: "uuid \<Rightarrow> db1 \<Rightarrow> db2 \<Rightarrow> bool" where
  "in_step j d db \<longleftrightarrow> (\<exists>s i. snapshot_by_id j d = Some s \<and> i \<in> set (incidents db) \<and> i_id i = j \<and>
     snp_status s = i_status i \<and> snp_assigned_user_id s = first_of (i_assigned_user_ids i))"

lemma update_event_id:
  assumes "update_incident pe tenant x raw r db w = (Inr a, db', w')" "is_uuid (pt_event_id pe)"
  shows "pt_event_id pe \<notin> ob_event_id ` set (outbox db) \<and> ob_event_id (last (outbox db')) = pt_event_id pe"
proof -
  from assms obtain i us ev db1 where
    ev: "write_outbox (pt_event_id pe) (pt_now pe) ''incidents.updated'' (tc_tenant_id tenant)
          (updated_payload pe (tc_tenant_id tenant) r i us) = Inr ev" and
    row: "update_row (updated (pt_now pe) r us i) db = Inr db1" and ins: "insert_outbox ev db1 = Inr db'"
    by (auto simp: update_incident_def Let_def bind_res_eq_Inr split: sum.splits prod.splits option.splits)
  have "outbox db1 = outbox db" using row by (auto simp: update_row_Inr)
  moreover have "ob_event_id ev = pt_event_id pe"
    using ev assms(2) uuid_texts [OF assms(2)]
    by (auto simp: write_outbox_def updated_payload_def is_uuid_def)
  ultimately show ?thesis using ins by (auto simp: insert_outbox_def split: if_splits)
qed

lemma assigned_after_known:
  assumes "known_users K r" "\<forall>u \<in> set (i_assigned_user_ids i). is_uuid u"
  shows "\<forall>u \<in> set (assigned_after raw r i). is_uuid u \<and> (u \<in> set (i_assigned_user_ids i) \<or> K u)"
  using assms by (auto simp: known_users_def assigned_after_def Let_def get_or_def split: option.splits if_splits)

lemma rows_ok_updated:
  assumes "rows_ok d db" "i \<in> set (incidents db)" "length (get_or (ur_status r) (i_status i)) \<le> 32"
    "\<forall>u \<in> set us. is_uuid u"
  shows "rows_ok d (db\<lparr>incidents := put_incident (updated now r us i) (incidents db), outbox := es\<rparr>)"
  using assms by (auto simp: rows_ok_def) (auto simp: put_incident_def)

lemma in_step_updated:
  assumes s: "in_step j d db" and ok: "rows_ok d0 db" and i: "i \<in> set (incidents db)"
    and d': "d_snapshots d' = d_snapshots (follow_in env r i us d)"
  shows "in_step j d' (db\<lparr>incidents := put_incident (updated now r us i) (incidents db), outbox := es\<rparr>)"
proof -
  from s obtain s k where k: "snapshot_by_id j d = Some s" "k \<in> set (incidents db)" "i_id k = j"
    "snp_status s = i_status k" "snp_assigned_user_id s = first_of (i_assigned_user_ids k)" by (auto simp: in_step_def)
  have sn: "snapshot_by_id j d' = snapshot_by_id j (follow_in env r i us d)" by (simp add: snapshot_by_id_def d')
  show ?thesis
  proof (cases "j = i_id i")
    case True
    with ok i k(2,3) have "k = i" by (auto simp: rows_ok_def distinct_map inj_on_def)
    have "updated now r us i \<in> set (put_incident (updated now r us i) (incidents db))"
      using i by (force simp: put_incident_def)
    with True k(1) show ?thesis unfolding in_step_def sn follow_in_at
      by (intro exI [of _ "followed env r i us s"] exI [of _ "updated now r us i"]) (simp add: followed_def)
  next
    case False
    then have "k \<in> set (put_incident (updated now r us i) (incidents db))"
      using k(2,3) by (force simp: put_incident_def)
    with False k show ?thesis unfolding in_step_def sn follow_in_at by auto
  qed
qed

definition linked :: "db1 \<Rightarrow> uuid set \<Rightarrow> json list \<Rightarrow> db1 \<Rightarrow> db2 \<Rightarrow> bool" where
  "linked d0 S es d db \<longleftrightarrow> foreign_keys_ok d \<and> d_tenants d = d_tenants d0 \<and> d_users d = d_users d0 \<and> rows_ok d0 db \<and>
     seen d \<subseteq> S \<union> ob_event_id ` set (outbox db) \<and>
     (\<forall>e \<in> set es. \<exists>x. event_named x e \<and> x \<in> seen d)"

lemma linked_new:
  assumes l: "linked d0 S es d db" and K: "\<forall>u. K u \<longrightarrow> user_exists d0 u" and s: "in_step j d db"
    and u: "update_incident pe tenant x raw r db w = (Inr a, db', w')" and id: "is_uuid (pt_event_id pe)" "pt_event_id pe \<notin> S"
    and r: "known_users K r" "length (get_or (ur_status r) []) \<le> 32"
    and h: "healthy env" "handle_payload env topic (ob_payload (last (outbox db'))) d = (q, d')"
  shows "linked d0 S (es @ [ob_payload (last (outbox db'))]) d' db' \<and> in_step j d' db'"
  using u
proof (cases rule: update_cases)
  case (2 b i us ev)
  from fetch_incident_Inr [OF 2(2)] have i: "i \<in> set (incidents db)" "i_tenant_id i = tc_tenant_id tenant" by simp_all
  have rows: "rows_ok d0 db" and te: "tenant_exists d = tenant_exists d0" "user_exists d = user_exists d0"
    using l by (auto simp: linked_def tenant_exists_def user_exists_def fun_eq_iff)
  have us: "\<forall>u \<in> set us. is_uuid u \<and> (u \<in> set (i_assigned_user_ids i) \<or> K u)"
    unfolding 2(3) using rows i(1) by (intro assigned_after_known [OF r(1)]) (auto simp: rows_ok_def)
  have w: "length (get_or (ur_status r) (i_status i)) \<le> 32"
    using rows i(1) r(2) by (cases "ur_status r") (auto simp: rows_ok_def get_or_def)
  have fits: "update_fits r i us d"
    using rows i(1) us w K by (auto simp: update_fits_def update_shape_def rows_ok_def te newly_assigned_def)
  have pay: "ob_payload (last (outbox db')) = updated_payload pe (i_tenant_id i) r i us"
    using 2(7,8) i(2) by simp
  have new: "pt_event_id pe \<notin> seen d"
    using update_event_id [OF u id(1)] l id(2) by (auto simp: linked_def)
  obtain ps d1 where e: "handle_payload env topic (updated_payload pe (i_tenant_id i) r i us) d = ((Inr (), ps), d1)"
      "foreign_keys_ok d1" "d_tenants d1 = d_tenants d" "d_users d1 = d_users d"
      "seen d1 = insert (pt_event_id pe) (seen d)" "d_snapshots d1 = d_snapshots (follow_in env r i us d)"
    using updated_event [OF h(1) fits id(1), of topic] l new by (auto simp: linked_def)
  have d1: "d' = d1" using h(2) e(1) pay by simp
  have ob: "ob_event_id ` set (outbox db') = insert (pt_event_id pe) (ob_event_id ` set (outbox db))"
    using update_event_id [OF u id(1)] 2(7) by simp
  have rows': "rows_ok d0 db'"
    unfolding 2(7) using rows i(1) w us by (intro rows_ok_updated) auto
  have "event_named (pt_event_id pe) (ob_payload (last (outbox db')))"
    unfolding pay by (rule updated_event_named [OF id(1)])
  moreover have "\<exists>y. event_named y x \<and> y \<in> seen d'" if x: "x \<in> set es" for x
  proof -
    from l x have "\<exists>y. event_named y x \<and> y \<in> seen d" unfolding linked_def by blast
    then show ?thesis unfolding d1 e(5) by blast
  qed
  moreover have "pt_event_id pe \<in> seen d'" unfolding d1 e(5) by simp
  ultimately have all: "\<forall>x \<in> set (es @ [ob_payload (last (outbox db'))]). \<exists>y. event_named y x \<and> y \<in> seen d'"
    by (simp only: set_append list.set ball_Un ball_simps) blast
  have "foreign_keys_ok d' \<and> d_tenants d' = d_tenants d0 \<and> d_users d' = d_users d0"
    using l e d1 unfolding linked_def by simp
  moreover have "seen d' \<subseteq> S \<union> ob_event_id ` set (outbox db')"
    using l unfolding d1 e(5) ob linked_def by blast
  ultimately have "linked d0 S (es @ [ob_payload (last (outbox db'))]) d' db'"
    using all rows' unfolding linked_def by blast
  moreover have "in_step j d' db'"
    unfolding 2(7) using s rows i(1) e(6) d1 by (intro in_step_updated [where env = env]) simp_all
  ultimately show ?thesis by simp
qed simp

lemma api_history_snocD:
  assumes "api_history E K S db (es @ [e]) db2"
  obtains db1 pe tenant x raw r w a w' where "pt_es pe = E"
    "api_history E K S db es db1" "update_incident pe tenant x raw r db1 w = (Inr a, db2, w')"
    "is_uuid (pt_event_id pe)" "pt_event_id pe \<notin> S" "known_users K r" "length (get_or (ur_status r) []) \<le> 32"
    "e = ob_payload (last (outbox db2))"
  using assms
proof (cases rule: api_history.cases)
  case (more es' db1 pe tenant x raw r w a w')
  then show ?thesis by (intro that [of pe db1 tenant x raw r w a w']) simp_all
qed simp

lemma linked_history:
  assumes c: "consumed es d0 d" and p: "api_history E K S db0 es db"
    and l: "linked d0 S [] d0 db0" "in_step j d0 db0" and K: "\<forall>u. K u \<longrightarrow> user_exists d0 u"
  shows "linked d0 S es d db \<and> in_step j d db"
  using c p l K
proof (induction arbitrary: db)
  case (start d)
  then show ?case by (auto elim: api_history.cases)
next
  case (new es d d1 env topic e r d2)
  from new.prems(1) obtain db1 pe tenant x raw q w a w' where
    "pt_es pe = E" and p: "api_history E K S db0 es db1" and u: "update_incident pe tenant x raw q db1 w = (Inr a, db, w')"
    and o: "is_uuid (pt_event_id pe)" "pt_event_id pe \<notin> S" "known_users K q" "length (get_or (ur_status q) []) \<le> 32"
    and e: "e = ob_payload (last (outbox db))"
    by (rule api_history_snocD)
  from new.IH [OF p new.prems(2,3,4)] have "linked d S es d1 db1" "in_step j d1 db1" by blast+
  then show ?case
    using linked_new [OF _ new.prems(4) _ u o(1,2,3,4) new.hyps(2)] new.hyps(3) unfolding e by blast
next
  case (again es d d1 e env topic r d2)
  then have "linked d S es d1 db \<and> in_step j d1 db" by blast
  note ih = this
  with again.hyps(2) obtain x where "event_named x e" "x \<in> seen d1" unfolding linked_def by blast
  from seen_event [OF again.hyps(3) this] again.hyps(4) have "d2 = d1" by simp
  with ih show ?case by simp
qed

text \<open>C35: take any sequence of requests that the incident API accepts, in which every
  identifier a request assigns or names as its actor is a user of Django, and statuses fit their column
  (\<open>api_history\<close>); deliver their events to a healthy consumer in order, each at least once and earlier ones any
  number of times again.  Then the snapshot of an incident that had the status and the first assignee of its row
  has those of the row as it is now.  (A request that assigns an identifier unknown to Django is accepted as well,
  but its event is not taken: \<open>unknown_assignee_stops_consumer\<close>.)\<close>

theorem snapshot_follows_incident:
  assumes "api_history E (user_exists d0) S db0 es db" and "consumed es d0 d" and "in_step j d0 db0"
    and "foreign_keys_ok d0" and "rows_ok d0 db0" and "seen d0 \<subseteq> S"
  shows "in_step j d db"
proof -
  have "linked d0 S [] d0 db0" using assms(4-6) by (auto simp: linked_def)
  from linked_history [OF assms(2,1) this assms(3)] show ?thesis by simp
qed

subsection \<open>An event that comes too early\<close>

text \<open>
  Creations and updates are published on different topics, so an update can be delivered before the creation.
  It is accepted, marks its event as processed and finds no row; when the creation follows, the snapshot gets
  the status that the incident was created with, and a redelivery of the update is skipped.
\<close>

definition created_payload_of :: "json \<Rightarrow> uuid \<Rightarrow> uuid \<Rightarrow> uuid \<Rightarrow> string \<Rightarrow> time \<Rightarrow> bool" where
  "created_payload_of p x i t st at' \<longleftrightarrow> (\<exists>e fp sev cat rc fix' conf.
     p = build_incident_created_payload x i t fp e st sev cat rc fix' conf at' \<and>
     length st \<le> 32 \<and> length sev \<le> 32 \<and> length cat \<le> 32 \<and> length (pe_error_type e) \<le> 255 \<and>
     length (pe_service_name e) \<le> 255 \<and> length (pe_environment e) \<le> 64 \<and> length (pe_crash_method e) \<le> 255)"

lemma created_data:
  fixes x i t fp e st sev cat rc fix' conf at'
  defines "y \<equiv> jget ''payload'' (build_incident_created_payload x i t fp e st sev cat rc fix' conf at')"
  shows "subscript y ''incident_id'' = Inr (JStr i)" "subscript y ''tenant_id'' = Inr (JStr t)"
    "get_default ''status'' y z = JStr st" "get_default ''severity'' y z = JStr sev"
    "get_default ''error_category'' y z = JStr cat" "jget ''confidence_score'' y = jopt JFlt conf"
    "get_default ''error_type'' y z = JStr (pe_error_type e)" "get_default ''error_message'' y z = JStr (pe_error_message e)"
    "get_default ''service_name'' y z = JStr (pe_service_name e)" "get_default ''environment'' y z = JStr (pe_environment e)"
    "get_default ''crash_file'' y z = JStr (pe_crash_file e)" "get_default ''crash_method'' y z = JStr (pe_crash_method e)"
    "get_default ''root_cause'' y z = JStr rc" "get_default ''suggested_fix'' y z = JStr fix'"
    "get_default ''occurrence_count'' y z = JInt 1" "get_default ''is_draft'' y z = JBool False"
    "jget ''assigned_user_id'' y = JNull" "jget ''first_seen_at'' y = JStr (isoformat at')"
    "jget ''last_seen_at'' y = JStr (isoformat at')" "jget ''created_at'' y = JStr (isoformat at')"
  by (simp_all add: y_def build_incident_created_payload_def get_default_def)

lemma isoformat_nonempty: "isoformat z \<noteq> []"
  by (simp add: isoformat_def Let_def case_prod_beta)

lemma bind_res_weak_cong: "r = r' \<Longrightarrow> bind_res r f = bind_res r' f"
  by simp

lemma created_snapshot:
  assumes "created_payload_of p x i t st at'" "is_uuid i" "is_uuid t" "cn_parse_datetime env (isoformat at') = Some at'"
  shows "\<exists>s. handle_created env (jget ''payload'' p) d = Inr (put_snapshot s d) \<and> snp_incident_id s = i \<and>
     snp_tenant s = t \<and> snp_status s = st \<and> snp_assigned_user_id s = None"
proof -
  from assms(1) obtain e fp sev cat rc fix' conf where
    p: "p = build_incident_created_payload x i t fp e st sev cat rc fix' conf at'" and
    w: "length st \<le> 32" "length sev \<le> 32" "length cat \<le> 32" "length (pe_error_type e) \<le> 255"
     "length (pe_service_name e) \<le> 255" "length (pe_environment e) \<le> 64" "length (pe_crash_method e) \<le> 255"
    by (auto simp: created_payload_of_def)
  have dt: "date_field (cn_parse_datetime env) (JStr (isoformat at')) = Inr (Some at')"
    "or_json (JStr (isoformat at')) z = JStr (isoformat at')" for z
    using assms(4) isoformat_nonempty [of at'] by (simp_all add: date_field_def or_json_def)
  have one: "integer_field c (JInt 1) = Inr 1" for c by (simp add: integer_field_def)
  show ?thesis
    unfolding p handle_created_def id_of_def snapshot_of_def created_data Let_def dt one
    using w assms(2,3) by (simp cong: bind_res_weak_cong) (rule exI, rule conjI, rule refl, simp)
qed

lemma created_event_named:
  "created_payload_of p x i t st at' \<Longrightarrow> is_uuid x \<Longrightarrow> event_named x p \<and> jget ''event_type'' p = JStr ''incident.created'' \<and>
     get_default ''payload'' p (JObj []) = jget ''payload'' p"
  by (auto simp: created_payload_of_def event_named_def build_incident_created_payload_def get_default_def)

lemma created_event:
  assumes h: "healthy env" "cn_parse_datetime env (isoformat at') = Some at'"
    and p: "created_payload_of p x i t st at'" "is_uuid x" "is_uuid i" "is_uuid t"
    and d: "x \<notin> seen d" "foreign_keys_ok d" "tenant_exists d t"
  obtains s where "handle_payload env topic p d = ((Inr (), []), put_snapshot s (mark topic x d))"
    "snp_incident_id s = i" "snp_tenant s = t" "snp_status s = st"
proof -
  from created_snapshot [OF p(1,3,4) h(2), of "mark topic x d"] obtain s where
    s: "handle_created env (jget ''payload'' p) (mark topic x d) = Inr (put_snapshot s (mark topic x d))"
    "snp_incident_id s = i" "snp_tenant s = t" "snp_status s = st" by blast
  have fk: "foreign_keys_ok (put_snapshot s (mark topic x d))"
    using d(2,3) s(3) set_put_row [of snp_incident_id s "d_snapshots d"]
    by (auto simp: foreign_keys_ok_def put_snapshot_def mark_def tenant_exists_def user_exists_def)
  from created_event_named [OF p(1,2)] obtain kvs where
    e: "p = JObj kvs" "jget ''event_id'' p = JStr x" "jget ''event_type'' p = JStr ''incident.created''"
    "get_default ''payload'' p (JObj []) = jget ''payload'' p" by (auto simp: event_named_def)
  have "dict_get p k = Inr (jget k p)" for k by (simp add: e(1) dict_get_def)
  with e(2-4) p(2) uuid_texts [OF p(2)] d(1) h(1) s(1) fk
  have "handle_payload env topic p d = ((Inr (), []), put_snapshot s (mark topic x d))"
    by (simp add: handle_payload_def event_handler_def handler_map_def process_event_def run_handler_def healthy_def
        mark_def Let_def)
  with s that show ?thesis by blast
qed

text \<open>C37: an update that is delivered before the creation of its incident is lost: all three
  deliveries, the update, the creation and the update again, are accepted, and the snapshot is left with the status
  of the creation.\<close>

theorem early_update_lost:
  assumes "healthy e1" "healthy e2" "healthy e3" "cn_parse_datetime e2 (isoformat at') = Some at'"
    and "update_fits r i us d" "is_uuid (pt_event_id pe)" "pt_event_id pe \<notin> seen d"
    and "created_payload_of p x (i_id i) (i_tenant_id i) st at'" "is_uuid x" "x \<notin> seen d" "x \<noteq> pt_event_id pe"
    and "foreign_keys_ok d" "snapshot_by_id (i_id i) d = None"
    and "handle_payload e1 t1 (updated_payload pe (i_tenant_id i) r i us) d = (r1, d1)"
    and "handle_payload e2 t2 p d1 = (r2, d2)"
    and "handle_payload e3 t1 (updated_payload pe (i_tenant_id i) r i us) d2 = (r3, d3)"
  shows "fst r1 = Inr () \<and> fst r2 = Inr () \<and> fst r3 = Inr () \<and>
    (\<exists>s. snapshot_by_id (i_id i) d3 = Some s \<and> snp_status s = st)"
proof -
  from updated_event [OF assms(1,5,6,12), of t1] obtain ps d1' where
    u: "handle_payload e1 t1 (updated_payload pe (i_tenant_id i) r i us) d = ((Inr (), ps), d1')" "foreign_keys_ok d1'"
      "d_tenants d1' = d_tenants d" "d_users d1' = d_users d" "seen d1' = insert (pt_event_id pe) (seen d)" by metis
  have d1: "r1 = (Inr (), ps)" "d1 = d1'" using u(1) assms(14) by simp_all
  have ids: "is_uuid (i_id i)" "is_uuid (i_tenant_id i)" "tenant_exists d1 (i_tenant_id i)"
    using assms(5) u(3) by (auto simp: update_fits_def update_shape_def tenant_exists_def d1)
  have "x \<notin> seen d1" using u(5) assms(10,11) by (simp add: d1)
  from created_event [OF assms(2,4,8,9) ids(1,2) this _ ids(3), of t2] u(2) obtain s where
    c: "handle_payload e2 t2 p d1 = ((Inr (), []), put_snapshot s (mark t2 x d1))" "snp_incident_id s = i_id i"
      "snp_status s = st" by (auto simp: d1)
  have d2: "r2 = (Inr (), [])" "d2 = put_snapshot s (mark t2 x d1)" using c(1) assms(15) by simp_all
  have "pt_event_id pe \<in> seen d2" using u(5) by (simp add: d2 put_snapshot_def mark_def d1)
  from seen_event [OF assms(3) updated_event_named [OF assms(6)] this] assms(16)
  have "r3 = (Inr (), [])" "d3 = d2" by simp_all
  moreover have "snapshot_by_id (i_id i) d2 = Some s"
    using c(2) by (simp add: d2 snapshot_by_id_def put_snapshot_def mark_def)
  ultimately show ?thesis using c(3) by (simp add: d1 d2)
qed

subsection \<open>An assignee Django does not know\<close>

text \<open>
  The incident API takes any identifier as an assignee.  The notification of one who is no user of Django
  violates a foreign key when the transaction is committed, so the event is refused, every time.
\<close>

definition queue_answers :: "consume_env \<Rightarrow> bool" where
  "queue_answers env \<longleftrightarrow> (\<forall>m e. pu_queue (co_push (cn_collab env)) m \<noteq> Raises e)"

lemma push_answers:
  "healthy env \<Longrightarrow> queue_answers env \<Longrightarrow> \<exists>ps. push_notification (co_push (cn_collab env)) x t u n = (Inr (), ps)"
  by (auto simp: push_notification_def group_send_def publish_to_sqs_def healthy_def queue_answers_def Let_def
      split: queue_answer.split)

lemma notify_assignees_mono:
  "set (d_notifications d) \<subseteq> set (d_notifications (fst (notify_assignees env k i a data xs d)))"
proof (induction xs arbitrary: k d)
  case (Cons x xs)
  show ?case
    using Cons [of d k] Cons [of "d\<lparr>d_notifications := d_notifications d @ [_]\<rparr>" "k + 2"]
    by (auto simp: Let_def case_prod_beta split: sum.split prod.split) 
qed simp

lemma notify_assignees_adds:
  assumes "healthy env" "queue_answers env" "JStr u \<noteq> jget ''actor_id'' data" "is_uuid t" "jget ''tenant_id'' data = JStr t"
  shows "u \<in> set us \<Longrightarrow> \<forall>v \<in> set us. is_uuid v \<Longrightarrow>
    \<exists>n \<in> set (d_notifications (fst (notify_assignees env k i a data (map JStr us) d))). ntf_user n = u"
proof (induction us arbitrary: k d)
  case (Cons v us)
  show ?case
  proof (cases "JStr v = jget ''actor_id'' data")
    case True
    with assms(3) Cons show ?thesis by auto
  next
    case False
    let ?n = "assignment_notification env (co_fresh (cn_collab env) k) t v i a"
    let ?d1 = "d\<lparr>d_notifications := d_notifications d @ [?n]\<rparr>"
    obtain ps where "push_notification (co_push (cn_collab env)) (co_fresh (cn_collab env) (Suc k)) t v (notification_json ?n) = (Inr (), ps)"
      using push_answers [OF assms(1,2)] by blast
    with False assms(4,5) Cons.prems(2) have e: "fst (notify_assignees env k i a data (map JStr (v # us)) d) =
        fst (notify_assignees env (k + 2) i a data (map JStr us) ?d1)"
      by (simp add: Let_def case_prod_beta)
    show ?thesis
    proof (cases "u = v")
      case True
      have "?n \<in> set (d_notifications (fst (notify_assignees env (k + 2) i a data (map JStr us) ?d1)))"
        using notify_assignees_mono [of ?d1 env "k + 2" i a data "map JStr us"] by auto
      moreover have "ntf_user ?n = u" by (simp add: assignment_notification_def True)
      ultimately show ?thesis unfolding e by blast
    next
      case False
      with Cons show ?thesis unfolding e by simp
    qed
  qed
qed simp

text \<open>C36: take an accepted request whose actor is a user of Django and which
  newly assigns an identifier, not the actor's own, that is no user of Django.  (Without an actor nobody is
  notified and nothing fails.)  When the consumer takes its event, the notification of the assignee violates its
  foreign key at the commit: the loop ends there with the exception, the database stays as it is, and the offset
  committed for the partition is still at most that of the event, so that the next run takes it again.\<close>

theorem unknown_assignee_stops_consumer:
  assumes "healthy env" "queue_answers env" "update_shape r i us"
    and "is_uuid (pt_event_id pe)" "pt_event_id pe \<notin> seen d"
    and "ur_actor_id r = Some a" "is_uuid a" "user_by_id a d = Some w"
    and "u \<in> set (newly_assigned i us)" "u \<noteq> a" "\<not> user_exists d u"
    and "k_next K k = (Inr (Some m), k1)" "km_value m = Some v"
    and "cn_loads env v = Some (updated_payload pe (i_tenant_id i) r i us)"
    and "kafka_consumer K position committed" "\<forall>p. committed k p \<le> position k p"
  shows "\<exists>qs. run_consumer_loop K env (Suc n) k (d, ps) =
    ([(m, Crash (IntegrityError ''foreign key''))], Some (IntegrityError ''foreign key''), k1, d, qs) \<and>
    committed k1 (slot m) \<le> km_offset m"
proof -
  let ?d0 = "mark (km_topic m) (pt_event_id pe) d" and ?x = "updated_data pe r i us"
  from handle_updated_follows [OF assms(1,3), of pe ?d0] obtain qs d' d2 where
    h: "handle_updated env ?x ?d0 = ((Inr (), qs), d', False)" and
    g: "grows (i_tenant_id i) (set (newly_assigned i us)) (follow_in env r i us ?d0) d2"
      "grows (i_tenant_id i) (set (newly_assigned i us)) (follow_in env r i us ?d0) d'" and
    d': "d' = fst (notify_newly_assigned env (i_id i) ?x d2)" by metis
  have act: "jget ''actor_id'' ?x = JStr a" by (simp add: updated_payload_def assms(6))
  have us: "\<forall>v \<in> set (newly_assigned i us). is_uuid v" "is_uuid (i_tenant_id i)"
    using assms(3) by (auto simp: update_shape_def newly_assigned_def)
  have "user_by_id a d2 = Some w" using g(1) assms(8) by (simp add: grows_def user_by_id_def mark_def)
  then have "actor_of (jget ''actor_id'' ?x) d2 = Inr w" using assms(7) by (simp add: act actor_of_def)
  then have "d' = fst (notify_assignees env 4 (i_id i) w ?x (map JStr (newly_assigned i us)) d2)"
    using assms(9) uuid_texts [OF assms(7)]
    by (auto simp: d' notify_newly_assigned_def updated_data_simps act assignees_def)
  with notify_assignees_adds [OF assms(1,2), of u ?x "i_tenant_id i" "newly_assigned i us" 4 "i_id i" w d2]
  obtain x where "x \<in> set (d_notifications d')" "ntf_user x = u"
    using assms(9,10) us by (auto simp: act updated_data_simps)
  moreover have "\<not> user_exists d' u" using g(2) assms(11) by (simp add: grows_def user_exists_def mark_def)
  ultimately have "\<not> foreign_keys_ok d'" by (auto simp: foreign_keys_ok_def)
  then have "handle_payload env (km_topic m) (updated_payload pe (i_tenant_id i) r i us) d =
      ((Inl (IntegrityError ''foreign key''), qs), d)"
    using assms(1,4,5) uuid_texts [OF assms(4)] h
    by (simp add: handle_payload_def updated_data_simps event_handler_def handler_map_def process_event_def
        healthy_def run_handler_def mark_def)
  then have "handle_message env m (d, ps) = (Crash (IntegrityError ''foreign key''), d, ps @ qs)"
    using assms(13,14) by (simp add: handle_message_def)
  then have run: "run_consumer_loop K env (Suc n) k (d, ps) =
      ([] @ [(m, Crash (IntegrityError ''foreign key''))], Some (IntegrityError ''foreign key''), k1, d, ps @ qs)"
    using assms(12) by (simp add: run_consumer_loop_def)
  have "committed k1 (slot m) \<le> km_offset m"
    by (rule kafka_consumer.crash_redelivers [OF assms(15) run [unfolded run_consumer_loop_def]])
       (use assms(16) in blast)
  with run show ?thesis by simp
qed

subsection \<open>Samples\<close>

definition seen_snapshot :: "uuid \<Rightarrow> string \<Rightarrow> incident_snapshot" where
  "seen_snapshot i st = \<lparr>snp_incident_id = i, snp_tenant = tenant_a, snp_fingerprint = [], snp_status = st,
     snp_is_draft = False, snp_severity = ''high'', snp_error_category = ''unknown'', snp_confidence_score = None,
     snp_error_type = [], snp_error_message = [], snp_service_name = [], snp_environment = [], snp_crash_file = [],
     snp_crash_method = [], snp_root_cause = [], snp_suggested_fix = [], snp_occurrence_count = 1,
     snp_assigned_user_id = Some tenant_a, snp_source_version = 1, snp_first_seen_at = None, snp_last_seen_at = None,
     snp_resolved_at = None, snp_created_at = 0\<rparr>"

definition django_db :: "incident_snapshot list \<Rightarrow> db1" where
  "django_db rows = empty_db1\<lparr>d_tenants := [\<lparr>tnt_id = tenant_a, tnt_name = ''A'', tnt_slug = ''a'', tnt_plan_tier = ''free'',
     tnt_status = ''active'', tnt_razorpay_customer_id = None, tnt_razorpay_subscription_id = None\<rparr>],
     d_users := [acme_author\<lparr>usr_id := row_a\<rparr>], d_snapshots := rows\<rparr>"

definition calm_env :: consume_env where
  "calm_env = \<lparr>cn_collab = sample_collab, cn_loads = (\<lambda>_. None), cn_float_repr = (\<lambda>_. []),
     cn_parse_datetime = (\<lambda>_. Some 0), cn_db_error = None, cn_commit_error = None\<rparr>"

lemma calm: "healthy calm_env" "queue_answers calm_env"
  by (simp_all add: healthy_def queue_answers_def calm_env_def sample_collab_def)

lemma django_db_simps:
  "d_snapshots (django_db rows) = rows" "seen (django_db rows) = {}" "tenant_exists (django_db rows) tenant_a"
  "user_exists (django_db rows) u \<longleftrightarrow> u = row_a"
  "user_by_id row_a (django_db rows) = Some (acme_author\<lparr>usr_id := row_a\<rparr>)"
  by (auto simp: django_db_def empty_db1_def tenant_exists_def user_exists_def user_by_id_def)

lemma django_db_keys: "\<forall>s \<in> set rows. snp_tenant s = tenant_a \<Longrightarrow> foreign_keys_ok (django_db rows)"
  by (simp add: foreign_keys_ok_def django_db_simps) (simp add: django_db_def empty_db1_def)

lemma case_uuids: "is_uuid row_a" "is_uuid tenant_a"
  using case_uuid sample_uuids by (simp_all add: is_uuid_def)

theorem snapshot_follows_incident_witness:
  "\<exists>db d s. api_history down (user_exists (django_db [seen_snapshot row_a ''open''])) {}
       (case_db [case_incident row_a ''open'']) [ob_payload (last (outbox db))] db \<and>
     snapshot_by_id row_a d = Some s \<and> snp_status s = ''investigating''"
proof -
  let ?d0 = "django_db [seen_snapshot row_a ''open'']" and ?db0 = "case_db [case_incident row_a ''open'']"
  obtain a db w' where run: "update_incident case_env pay_tenant row_a ''{}'' (to_status ''investigating'') ?db0 0 = (Inr a, db, w')"
    using case_update by blast
  have E: "pt_es case_env = down" "pt_event_id case_env = row_a" by (simp_all add: case_env_def)
  have h: "api_history down (user_exists ?d0) {} ?db0 ([] @ [ob_payload (last (outbox db))]) db"
    by (rule api_history.more [OF api_history.none E(1) run]) (simp_all add: E(2) case_uuids known_users_def to_status_def get_or_def)
  obtain r d where "handle_payload calm_env ''incidents.updated'' (ob_payload (last (outbox db))) ?d0 = (r, d)" by fastforce
  then have c: "consumed ([] @ [ob_payload (last (outbox db))]) ?d0 d" by (rule consumed.new [OF consumed.start calm(1)])
  have s: "in_step row_a ?d0 ?db0"
    by (simp add: in_step_def snapshot_by_id_def django_db_simps seen_snapshot_def first_of_def)
      (simp add: case_incident_def first_of_def)
  have ok: "foreign_keys_ok ?d0" by (rule django_db_keys) (simp add: seen_snapshot_def)
  have rows: "rows_ok ?d0 ?db0" by (simp add: rows_ok_def case_uuids django_db_simps) (simp add: case_incident_def case_uuids)
  from snapshot_follows_incident [OF h c s ok rows] have "in_step row_a d db" by (simp add: django_db_simps)
  then obtain s i where si: "snapshot_by_id row_a d = Some s" "i \<in> set (incidents db)" "snp_status s = i_status i"
    by (auto simp: in_step_def)
  have "i_status i = ''investigating''" using run
  proof (cases rule: update_cases)
    case (2 b j us ev)
    have j: "j = case_incident row_a ''open''"
      using 2(2) case_fetch [of "''open''"] by (simp add: pay_tenant_def)
    have "incidents db = [updated (pt_now case_env) (to_status ''investigating'') us (case_incident row_a ''open'')]"
      unfolding 2(7) j by (simp add: put_incident_def)
    with si(2) show ?thesis by (simp add: to_status_def get_or_def)
  qed simp
  with si h show ?thesis by auto
qed

definition plain_event :: parsed_log_event where
  "plain_event = \<lparr>pe_tenant_id = tenant_a, pe_incident_id = row_a, pe_s3_path = [], pe_service_name = ''pay'',
     pe_environment = ''production'', pe_error_type = ''KeyError'', pe_error_message = [], pe_severity = ''high'',
     pe_crash_file = [], pe_crash_line = 0, pe_crash_method = [], pe_stack_frames = [], pe_context_log_count = 0,
     pe_sdk_meta = JNull\<rparr>"

lemma pay_case: "update_shape (to_status ''investigating'') (case_incident row_a ''open'') [tenant_a]"
  by (simp add: update_shape_def case_uuids to_status_def get_or_def)

lemma row_a_tenant_a: "row_a \<noteq> tenant_a"
  by (simp add: row_a_def tenant_a_def)

theorem early_update_lost_witness:
  "\<exists>s d3. snapshot_by_id row_a d3 = Some s \<and> snp_status s = ''open''"
proof -
  let ?d = "django_db []" and ?i = "case_incident row_a ''open''" and ?r = "to_status ''investigating''"
  let ?u = "updated_payload case_env (i_tenant_id ?i) ?r ?i [tenant_a]"
  let ?p = "build_incident_created_payload tenant_a row_a tenant_a [] plain_event ''open'' ''high'' ''unknown'' [] [] None 0"
  obtain r1 d1 where 1: "handle_payload calm_env ''incidents.updated'' ?u ?d = (r1, d1)" by fastforce
  obtain r2 d2 where 2: "handle_payload calm_env ''incidents.created'' ?p d1 = (r2, d2)" by fastforce
  obtain r3 d3 where 3: "handle_payload calm_env ''incidents.updated'' ?u d2 = (r3, d3)" by fastforce
  have u: "update_fits ?r ?i [tenant_a] ?d"
    by (simp add: update_fits_def pay_case django_db_simps newly_assigned_def) (simp add: case_incident_def)
  have p: "created_payload_of ?p tenant_a (i_id ?i) (i_tenant_id ?i) ''open'' 0"
    unfolding created_payload_of_def
    by (rule exI [of _ plain_event], rule exI [of _ "[]"], rule exI [of _ "''high''"], rule exI [of _ "''unknown''"],
        rule exI [of _ "[]"], rule exI [of _ "[]"], rule exI [of _ None]) (simp add: plain_event_def)
  have id: "pt_event_id case_env = row_a" by (simp add: case_env_def)
  have dt: "cn_parse_datetime calm_env (isoformat 0) = Some 0" by (simp add: calm_env_def)
  have none: "snapshot_by_id (i_id ?i) ?d = None" by (simp add: snapshot_by_id_def django_db_simps)
  have fk: "foreign_keys_ok ?d" by (rule django_db_keys) simp
  from early_update_lost [OF calm(1) calm(1) calm(1) dt u _ _ p case_uuids(2) _ _ fk none 1 2 3]
  show ?thesis by (simp add: id case_uuids django_db_simps row_a_tenant_a [symmetric]) blast
qed

definition assigning :: update_request where
  "assigning = \<lparr>ur_status = None, ur_assigned_user_ids = Some [tenant_a], ur_actor_id = Some row_a, ur_note = None\<rparr>"

definition open_incident :: incident where
  "open_incident = (case_incident row_a ''open'')\<lparr>i_assigned_user_ids := []\<rparr>"

definition one_message :: message where
  "one_message = \<lparr>km_topic = ''incidents.updated'', km_partition = 0, km_offset = 0, km_value = Some ''x''\<rparr>"

theorem unknown_assignee_stops_consumer_witness:
  "\<exists>env h k1 qs. run_consumer_loop klog env (Suc 7) (klog_of [one_message]) (django_db [], []) =
     (h, Some (IntegrityError ''foreign key''), k1, django_db [], qs) \<and>
     kl_committed k1 (slot one_message) = 0"
proof -
  let ?e = "calm_env\<lparr>cn_loads := \<lambda>_. Some (updated_payload case_env (i_tenant_id open_incident) assigning open_incident [tenant_a])\<rparr>"
  have c: "healthy ?e" "queue_answers ?e" using calm by (simp_all add: healthy_def queue_answers_def)
  have sh: "update_shape assigning open_incident [tenant_a]"
    by (simp add: update_shape_def open_incident_def assigning_def case_uuids get_or_def)
  have id: "pt_event_id case_env = row_a" by (simp add: case_env_def)
  have new: "tenant_a \<in> set (newly_assigned open_incident [tenant_a])" by (simp add: newly_assigned_def open_incident_def)
  have act: "ur_actor_id assigning = Some row_a" by (simp add: assigning_def)
  obtain k1 where k: "k_next klog (klog_of [one_message]) = (Inr (Some one_message), k1)"
    by (simp add: klog_def klog_of_def one_message_def slot_def)
  have v: "km_value one_message = Some ''x''" by (simp add: one_message_def)
  have l: "cn_loads ?e ''x'' = Some (updated_payload case_env (i_tenant_id open_incident) assigning open_incident [tenant_a])"
    by simp
  have fresh: "\<forall>p. kl_committed (klog_of [one_message]) p \<le> kl_position (klog_of [one_message]) p"
    by (simp add: klog_of_def)
  from unknown_assignee_stops_consumer [OF c sh _ _ act case_uuids(1) django_db_simps(5) new _ _ k v l
      klog.kafka_consumer_axioms fresh, where n = 7 and ps = "[]"]
  obtain qs where "run_consumer_loop klog ?e (Suc 7) (klog_of [one_message]) (django_db [], []) =
      ([(one_message, Crash (IntegrityError ''foreign key''))], Some (IntegrityError ''foreign key''), k1, django_db [], qs)"
    "kl_committed k1 (slot one_message) \<le> km_offset one_message"
    by (auto simp: id case_uuids django_db_simps row_a_tenant_a [symmetric])
  then show ?thesis by (simp add: one_message_def) blast
qed

end
