(* ===== verification/Dj_Web.thy ===== *)
theory Dj_Web
  imports Dj_Models Gateway
begin

text \<open>
  What the views of \<open>apps/users\<close>, \<open>apps/billing\<close> and \<open>apps/tenants\<close> share: a request as they read it,
  the replies of \<open>core/responses.py\<close>, programs over Redis and DB-1 together, the character fields of the
  REST framework's serializers, the rows of the audit log, and the saving of a tenant with the signals of
  \<open>apps/tenants/signals.py\<close>.
\<close>

subsection \<open>Programs over Redis and DB-1\<close>

type_synonym 's web = "'s \<times> db1"

definition on_redis :: "('s, 'a) prog \<Rightarrow> ('s web, 'a) prog" where
  "on_redis p w = (case p (fst w) of (r, s') \<Rightarrow> (r, (s', snd w)))"

definition on_db :: "(db1 \<Rightarrow> 'a res \<times> db1) \<Rightarrow> ('s web, 'a) prog" where
  "on_db f w = (case f (snd w) of (r, d') \<Rightarrow> (r, (fst w, d')))"

text \<open>A statement that fails leaves the tables as they were.\<close>

definition write_db :: "(db1 \<Rightarrow> db1 res) \<Rightarrow> ('s web, unit) prog" where
  "write_db f = on_db (\<lambda>d. case f d of Inl e \<Rightarrow> (Inl e, d) | Inr d' \<Rightarrow> (Inr (), d'))"

definition read_db :: "(db1 \<Rightarrow> 'a) \<Rightarrow> ('s web, 'a) prog" where
  "read_db f = on_db (\<lambda>d. (Inr (f d), d))"

text \<open>\<open>transaction.atomic()\<close>: an exception takes the rows back, not the keys of Redis.\<close>

definition atomic :: "('s web, 'a) prog \<Rightarrow> ('s web, 'a) prog" where
  "atomic p w = (case p w of (Inl e, (s', d')) \<Rightarrow> (Inl e, (s', snd w)) | r \<Rightarrow> r)"

definition raise_if :: "bool \<Rightarrow> exn \<Rightarrow> ('s, unit) prog" where
  "raise_if b e = (if b then rfail e else rret ())"

definition rlift :: "'a res \<Rightarrow> ('s, 'a) prog" where
  "rlift r = (case r of Inl e \<Rightarrow> rfail e | Inr x \<Rightarrow> rret x)"

lemma web_simps [simp]:
  "on_redis p (s, d) = (case p s of (r, s') \<Rightarrow> (r, (s', d)))"
  "on_db f (s, d) = (case f d of (r, d') \<Rightarrow> (r, (s, d')))"
  "write_db g (s, d) = (case g d of Inl e \<Rightarrow> (Inl e, (s, d)) | Inr d' \<Rightarrow> (Inr (), (s, d')))"
  "read_db h (s, d) = (Inr (h d), (s, d))"
  "raise_if b e w = (if b then (Inl e, w) else (Inr (), w))"
  "rlift r w = (r, w)"
  by (auto simp: on_redis_def on_db_def write_db_def read_db_def raise_if_def rlift_def rfail_def rret_def
      split: sum.splits prod.splits)

subsection \<open>Requests and replies\<close>

record web_request =
  wr_forwarded :: "string option"  \<comment> \<open>\<open>X-Forwarded-For\<close>\<close>
  wr_remote :: string
  wr_agent :: "string option"
  wr_authorization :: "string option"
  wr_data :: json

text \<open>
  \<open>APIResponse.success\<close> with its additional fields, and \<open>APIResponse.error\<close> with its code and errors (each
  field with its first message).
\<close>

datatype api_reply =
    Success (reply_status: int) (reply_fields: "(string \<times> json) list")
  | Failure (reply_status: int) string "(string \<times> string) list"

text \<open>
  The two readings of the client's address: \<open>CacheManager.get_client_ip\<close> and
  \<open>JWTAuthentication._get_client_ip\<close>.
\<close>

definition get_client_ip :: "web_request \<Rightarrow> string" where
  "get_client_ip rq = (case nonempty (wr_forwarded rq) of
     None \<Rightarrow> wr_remote rq
   | Some x \<Rightarrow>
       (let proxies = map strip (split_on (CHR '','') x)
        in if 1 < length proxies then proxies ! (length proxies - 2) else hd proxies))"

definition first_hop_ip :: "web_request \<Rightarrow> string" where
  "first_hop_ip rq = (case nonempty (wr_forwarded rq) of
     None \<Rightarrow> wr_remote rq | Some x \<Rightarrow> strip (hd (split_on (CHR '','') x)))"

text \<open>\<open>CharField\<close> of a serializer: the first of the messages, or the text without surrounding spaces.\<close>

record char_rule =
  cr_required :: bool
  cr_blank :: bool
  cr_min :: nat
  cr_max :: "nat option"

definition plain_rule :: char_rule where
  "plain_rule = \<lparr>cr_required = True, cr_blank = False, cr_min = 0, cr_max = None\<rparr>"

definition password_rule :: char_rule where
  "password_rule = plain_rule\<lparr>cr_min := 8, cr_max := Some 128\<rparr>"

definition check_text :: "char_rule \<Rightarrow> string \<Rightarrow> string + string" where
  "check_text c s =
     (if s = [] then (if cr_blank c then Inr [] else Inl ''This field may not be blank.'')
      else if \<not> (case cr_max c of None \<Rightarrow> True | Some n \<Rightarrow> length s \<le> n) then
        Inl (''Ensure this field has no more than '' @ str_int (int (the (cr_max c))) @ '' characters.'')
      else if length s < cr_min c then
        Inl (''Ensure this field has at least '' @ str_int (int (cr_min c)) @ '' characters.'')
      else if CHR 0x00 \<in> set s then Inl ''Null characters are not allowed.''
      else Inr s)"

definition char_input ::
  "(rat \<Rightarrow> string) \<Rightarrow> char_rule \<Rightarrow> string \<Rightarrow> json \<Rightarrow> string + string option" where
  "char_input float_repr c k body =
     (if \<not> jhas k body then
        (if cr_required c then Inl ''This field is required.'' else Inr None)
      else case jget k body of
             JNull \<Rightarrow> Inl ''This field may not be null.''
           | JStr s \<Rightarrow> map_sum id Some (check_text c (strip s))
           | JInt i \<Rightarrow> map_sum id Some (check_text c (str_int i))
           | JFlt q \<Rightarrow> map_sum id Some (check_text c (float_repr q))
           | _ \<Rightarrow> Inl ''Not a valid string.'')"

definition email_input ::
  "(rat \<Rightarrow> string) \<Rightarrow> (string \<Rightarrow> bool) \<Rightarrow> string \<Rightarrow> json \<Rightarrow> string + string option" where
  "email_input float_repr valid_email k body =
     (case char_input float_repr plain_rule k body of
        Inl m \<Rightarrow> Inl m
      | Inr None \<Rightarrow> Inr None
      | Inr (Some s) \<Rightarrow> if valid_email s then Inr (Some s) else Inl ''Enter a valid email address.'')"

text \<open>The errors of the fields, in the order the serializer declares them.\<close>

definition field_errors :: "(string \<times> (string + 'a)) list \<Rightarrow> (string \<times> string) list" where
  "field_errors fs = concat (map (\<lambda>(k, r). case r of Inl m \<Rightarrow> [(k, m)] | Inr _ \<Rightarrow> []) fs)"

definition field_text :: "string + string option \<Rightarrow> string" where
  "field_text r = (case r of Inr (Some s) \<Rightarrow> s | _ \<Rightarrow> [])"

lemma field_errors_simps [simp]:
  "field_errors [] = []"
  "field_errors ((k, Inl m) # fs) = (k, m) # field_errors fs"
  "field_errors ((k, Inr x) # fs) = field_errors fs"
  by (simp_all add: field_errors_def)

subsection \<open>Rows of the audit log and tenants\<close>

text \<open>
  \<open>AuditLog.log\<close> with an address: the column is of PostgreSQL's \<open>inet\<close> type, which refuses what is not an
  address; the column of the e-mail address holds 254 characters.
\<close>

definition audit_from ::
  "(string \<Rightarrow> bool) \<Rightarrow> string option \<Rightarrow> string \<Rightarrow> user option \<Rightarrow> uuid option \<Rightarrow> string \<Rightarrow> string \<Rightarrow> bool \<Rightarrow>
   db1 \<Rightarrow> db1 res" where
  "audit_from is_ip ip action u t email resource_id success d =
     (let e = (if email \<noteq> [] then email else case u of Some w \<Rightarrow> usr_email w | None \<Rightarrow> [])
      in if 254 < length e then Inl (DataError ''audit_logs.user_email'')
         else if (case ip of None \<Rightarrow> False | Some a \<Rightarrow> \<not> is_ip a) then Inl (DataError ''audit_logs.ip_address'')
         else Inr (audit action u t email resource_id success d))"

text \<open>
  \<open>Tenant.save\<close>: names and slugs are unique; \<open>capture_old_plan_tier\<close> reads the row before it is written and
  \<open>invalidate_cache_on_plan_change\<close> acts when the plan has changed, in the transaction of the caller.
\<close>

definition tenant_updated :: "time \<Rightarrow> tenant \<Rightarrow> json" where
  "tenant_updated now t = JObj [
     (''event_type'', JStr ''tenant.updated''),
     (''tenant'', JObj [
        (''id'', JStr (tnt_id t)), (''plan_tier'', JStr (tnt_plan_tier t)),
        (''vector_namespace'', JStr (vector_namespace t)), (''kafka_group_id'', JStr (kafka_group_id t)),
        (''is_suspended'', JBool (is_suspended t)), (''source_version'', JInt (now div 1000))])]"

definition tenant_columns :: "tenant \<Rightarrow> db1 \<Rightarrow> unit res" where
  "tenant_columns t d =
     (if \<exists>o' \<in> set (d_tenants d). tnt_id o' \<noteq> tnt_id t \<and> (tnt_name o' = tnt_name t \<or> tnt_slug o' = tnt_slug t)
      then Inl (IntegrityError ''tenants'')
      else if 255 < length (tnt_name t) \<or> 255 < length (tnt_slug t) \<or> 20 < length (tnt_plan_tier t) \<or>
              20 < length (tnt_status t)
      then Inl (DataError ''tenants'') else Inr ())"

definition save_tenant :: "'s redis \<Rightarrow> time \<Rightarrow> tenant \<Rightarrow> ('s web, unit) prog" where
  "save_tenant R now t =
     rbind (read_db (\<lambda>d. map_option tnt_plan_tier (tenant_by_id (tnt_id t) d))) (\<lambda>old_plan.
     rbind (write_db (\<lambda>d. bind_res (tenant_columns t d) (\<lambda>_.
              Inr (d\<lparr>d_tenants := put_row tnt_id t (d_tenants d)\<rparr>)))) (\<lambda>_.
     if old_plan = Some (tnt_plan_tier t) then rret ()
     else
       rbind (on_redis (r_delete R (''rl:billing:'' @ tnt_id t))) (\<lambda>_.
       rbind (on_redis (r_delete R (''tenant:config:'' @ tnt_id t))) (\<lambda>_.
       write_db (emit_event ''config.tenants'' (tnt_id t) (tenant_updated now t))))))"

subsection \<open>Runs against a server that answers\<close>

context live_redis begin

text \<open>
  Whatever state of the server has the keys \<open>m\<close>, the program started on the tables \<open>d\<close> ends with the
  result \<open>r\<close>, the keys \<open>m'\<close> and the tables \<open>d'\<close>.
\<close>

definition runs :: "('s web, 'a) prog \<Rightarrow> kv \<Rightarrow> db1 \<Rightarrow> 'a res \<Rightarrow> kv \<Rightarrow> db1 \<Rightarrow> bool" where
  "runs p m d r m' d' \<longleftrightarrow> (\<forall>s. view s = m \<longrightarrow> (\<exists>s'. p (s, d) = (r, (s', d')) \<and> view s' = m'))"

lemma runsD:
  assumes "runs p (view s) d r m' d'"
  obtains s' where "p (s, d) = (r, (s', d'))" "view s' = m'"
  using assms by (auto simp: runs_def)

lemma runs_ret: "runs (rret x) m d (Inr x) m d"
  by (simp add: runs_def rret_def)

lemma runs_fail: "runs (rfail e) m d (Inl e) m d"
  by (simp add: runs_def rfail_def)

lemma runs_lift: "runs (rlift r) m d r m d"
  by (simp add: runs_def)

lemma runs_read: "runs (read_db f) m d (Inr (f d)) m d"
  by (simp add: runs_def)

lemma runs_write: "f d = Inr d' \<Longrightarrow> runs (write_db f) m d (Inr ()) m d'"
  by (simp add: runs_def)

lemma runs_redis:
  assumes "yields p m x m'" shows "runs (on_redis p) m d (Inr x) m' d"
  using assms by (fastforce simp: runs_def yields_def)

lemma runs_bind:
  assumes "runs p m d (Inr x) m1 d1" "runs (q x) m1 d1 r m2 d2"
  shows "runs (rbind p q) m d r m2 d2"
  unfolding runs_def
proof (intro allI impI)
  fix s assume "view s = m"
  with assms(1) obtain s1 where "p (s, d) = (Inr x, (s1, d1))" "view s1 = m1" by (auto simp: runs_def)
  with assms(2) show "\<exists>s'. rbind p q (s, d) = (r, (s', d2)) \<and> view s' = m2"
    by (auto simp: runs_def rbind_def)
qed

lemma runs_bind_raises:
  assumes "runs p m d (Inl e) m1 d1" shows "runs (rbind p q) m d (Inl e) m1 d1"
  unfolding runs_def
proof (intro allI impI)
  fix s assume "view s = m"
  with assms obtain s1 where "p (s, d) = (Inl e, (s1, d1))" "view s1 = m1" by (auto simp: runs_def)
  then show "\<exists>s'. rbind p q (s, d) = (Inl e, (s', d1)) \<and> view s' = m1"
    by (auto simp: rbind_def)
qed

lemma runs_read_bind: "runs (q (f d)) m d r m' d' \<Longrightarrow> runs (rbind (read_db f) q) m d r m' d'"
  by (rule runs_bind [OF runs_read])

lemma runs_lift_bind: "runs (q x) m d r m' d' \<Longrightarrow> runs (rbind (rlift (Inr x)) q) m d r m' d'"
  by (rule runs_bind [OF runs_lift])

lemma runs_ret_bind: "runs (q x) m d r m' d' \<Longrightarrow> runs (rbind (rret x) q) m d r m' d'"
  by (rule runs_bind [OF runs_ret])

lemma runs_write_bind:
  "f d = Inr d1 \<Longrightarrow> runs (q ()) m d1 r m' d' \<Longrightarrow> runs (rbind (write_db f) q) m d r m' d'"
  by (rule runs_bind [OF runs_write])

lemma runs_redis_bind:
  "yields p m x m1 \<Longrightarrow> runs (q x) m1 d r m' d' \<Longrightarrow> runs (rbind (on_redis p) q) m d r m' d'"
  by (rule runs_bind [OF runs_redis])

lemma runs_unique: "runs p m d r m1 d1 \<Longrightarrow> runs p m d r' m2 d2 \<Longrightarrow> view s = m \<Longrightarrow> r = r' \<and> d1 = d2"
  by (fastforce simp: runs_def)

lemma yields_setex: "m' = m(k \<mapsto> v) \<Longrightarrow> yields (r_setex R k ttl v) m () m'"
  using setex_up setex_ok by (intro yieldsI) (metis (no_types))

end

end
