(* ===== verification/Auth.thy ===== *)
theory Auth
  imports Dj_Web
begin

text \<open>
  Signing in: \<open>apps/users/cache.py\<close> (the login limiter and the blocklist), \<open>authentication.py\<close> (tokens,
  sessions, the authentication of requests), \<open>services/auth_service.py\<close> and \<open>session_service.py\<close>, with
  the serializers and views that call them.  The open views (signing in, refreshing) are modelled for
  requests that carry no credentials: the default authentication class, which they keep, would refuse a request
  with bad ones.  PyJWT is a record of three functions: \<open>encode\<close>, \<open>decode\<close> with
  the key at a time, and \<open>decode\<close> without verification.
\<close>

record jwt_lib =
  jw_encode :: "(string \<times> json) list \<Rightarrow> string"
  jw_verify :: "time \<Rightarrow> string \<Rightarrow> jwt_answer"
  jw_peek :: "string \<Rightarrow> jwt_answer"

record auth_env =
  ae_now :: time
  ae_uuid :: "nat \<Rightarrow> uuid"  \<comment> \<open>the fresh UUIDs of the request\<close>
  ae_secret :: "nat \<Rightarrow> string"  \<comment> \<open>its fresh \<open>token_urlsafe\<close> texts\<close>
  ae_jwt :: jwt_lib
  ae_check_password :: "string \<Rightarrow> string \<Rightarrow> bool"
  ae_make_password :: "string \<Rightarrow> string"
  ae_password_ok :: "string \<Rightarrow> bool"
  ae_valid_email :: "string \<Rightarrow> bool"
  ae_normalize_email :: "string \<Rightarrow> string"
  ae_is_ip :: "string \<Rightarrow> bool"
  ae_float_repr :: "rat \<Rightarrow> string"

definition JWT_ACCESS_TOKEN_EXPIRE_MINUTES :: int where "JWT_ACCESS_TOKEN_EXPIRE_MINUTES = 15"
definition JWT_REFRESH_TOKEN_EXPIRE_DAYS :: int where "JWT_REFRESH_TOKEN_EXPIRE_DAYS = 7"

definition seconds :: "int \<Rightarrow> time" where "seconds n = n * 1000000"

text \<open>
  What the sources rely on: a payload is read back as it was encoded, and verified until it expires.  The codec
  that prints the payload in hexadecimal digits does so.
\<close>

locale jwt_codec =
  fixes J :: jwt_lib
  assumes peek_encode: "plain (JObj p) \<Longrightarrow> jw_peek J (jw_encode J p) = Claims p"
    and verify_encode: "plain (JObj p) \<Longrightarrow> map_of p ''exp'' = Some (JInt e) \<Longrightarrow>
      jw_verify J now (jw_encode J p) = (if seconds e \<le> now then ExpiredSignature else Claims p)"

definition to_hex :: "string \<Rightarrow> string" where
  "to_hex s = concat (map (\<lambda>c. [hex_nat (of_char c div 16), hex_nat (of_char c mod 16)]) s)"

fun of_hex :: "string \<Rightarrow> string option" where
  "of_hex [] = Some []"
| "of_hex (a # b # s) =
     (case (hex_val a, hex_val b, of_hex s) of
        (Some x, Some y, Some t) \<Rightarrow> Some (char_of (16 * x + y) # t) | _ \<Rightarrow> None)"
| "of_hex _ = None"

lemma char_halves: "of_char c div 16 < (16 :: nat)" "of_char c mod 16 < (16 :: nat)"
  using nat_of_char_less_256 [of c] by (auto intro: less_mult_imp_div_less)

lemma of_hex_to_hex: "of_hex (to_hex s) = Some s"
proof (induction s)
  case Nil
  show ?case by (simp add: to_hex_def)
next
  case (Cons c s)
  have "char_of (16 * (of_char c div 16) + of_char c mod (16 :: nat)) = c" by simp
  with Cons.IH show ?case by (simp add: to_hex_def hex_val_nat char_halves)
qed

lemma to_hex_no_space: "CHR '' '' \<notin> set (to_hex s)"
proof -
  have "hex_nat k \<noteq> CHR '' ''" if "k < 16" for k
  proof
    assume "hex_nat k = CHR '' ''"
    with hex_val_nat [OF that] show False by (simp add: hex_val_def)
  qed
  then have "hex_nat (of_char c div 16) \<noteq> CHR '' ''" "hex_nat (of_char c mod 16) \<noteq> CHR '' ''" for c
    using char_halves by blast+
  then show ?thesis unfolding to_hex_def by (induction s) (simp_all add: eq_commute [of "CHR '' ''"])
qed

definition hex_token :: "(string \<times> json) list \<Rightarrow> string" where
  "hex_token p = to_hex (dumps (\<lambda>_. []) (JObj p))"

definition hex_peek :: "string \<Rightarrow> jwt_answer" where
  "hex_peek s = (case Option.bind (of_hex s) loads of Some (JObj p) \<Rightarrow> Claims p | _ \<Rightarrow> JWTFailure [])"

definition hex_jwt :: jwt_lib where
  "hex_jwt = \<lparr>
     jw_encode = hex_token,
     jw_verify = (\<lambda>now s. case hex_peek s of
        Claims p \<Rightarrow> (case map_of p ''exp'' of
           Some (JInt e) \<Rightarrow> if seconds e \<le> now then ExpiredSignature else Claims p | _ \<Rightarrow> Claims p)
      | a \<Rightarrow> a),
     jw_peek = hex_peek\<rparr>"

lemma hex_peek_encode: "plain (JObj p) \<Longrightarrow> hex_peek (hex_token p) = Claims p"
  unfolding hex_peek_def hex_token_def of_hex_to_hex using loads_dumps [of "JObj p" "\<lambda>_. []"]
  by (simp del: dumps.simps)

interpretation hex_jwt: jwt_codec hex_jwt
proof
  fix p :: "(string \<times> json) list" and e now
  assume p: "plain (JObj p)"
  show "jw_peek hex_jwt (jw_encode hex_jwt p) = Claims p"
    using hex_peek_encode [OF p] by (simp add: hex_jwt_def)
  show "jw_verify hex_jwt now (jw_encode hex_jwt p) = (if seconds e \<le> now then ExpiredSignature else Claims p)"
    if "map_of p ''exp'' = Some (JInt e)"
    using hex_peek_encode [OF p] that by (simp add: hex_jwt_def del: map_of_eq_Some_iff)
qed

subsection \<open>The login limiter\<close>

definition login_ip_key :: "string \<Rightarrow> string" where
  "login_ip_key ip = ''rl:login:ip:'' @ ip"

definition login_combined_key :: "string \<Rightarrow> string \<Rightarrow> string" where
  "login_combined_key email ip = ''rl:login:combined:'' @ email @ '':'' @ ip"

definition login_email_key :: "string \<Rightarrow> string" where
  "login_email_key email = ''rl:login:email:'' @ email"

definition get_backoff_ttl :: "int \<Rightarrow> int" where
  "get_backoff_ttl failure_count = min (60 * 2 ^ nat (max 1 failure_count - 1)) 3600"

text \<open>\<open>int(get(k) or 0)\<close>\<close>

definition count_of :: "rval option \<Rightarrow> int res" where
  "count_of v = (case v of
     None \<Rightarrow> Inr 0
   | Some (Num q) \<Rightarrow> Inr \<lfloor>q\<rfloor>
   | Some (Text s) \<Rightarrow> if s = [] then Inr 0
       else (case int_of_string s of None \<Rightarrow> Inl (ValueError s) | Some i \<Rightarrow> Inr i))"

definition read_count :: "'s redis \<Rightarrow> string \<Rightarrow> ('s, int) prog" where
  "read_count R k = rbind (r_get R k) (\<lambda>v. rlift (count_of v))"

definition is_login_blocked :: "'s redis \<Rightarrow> string \<Rightarrow> string \<Rightarrow> ('s, string option) prog" where
  "is_login_blocked R email ip =
     rbind (read_count R (login_ip_key ip)) (\<lambda>ip_count.
     if 20 \<le> ip_count then rret (Some ''Too many attempts from this IP. Please try again later.'')
     else rbind (read_count R (login_combined_key email ip)) (\<lambda>combined_count.
     if 5 \<le> combined_count then rret (Some ''Too many failed attempts. Please try again later.'')
     else rbind (read_count R (login_email_key email)) (\<lambda>email_count.
     if 50 \<le> email_count then rret (Some ''Too many attempts for this account. Please try again later.'')
     else rret None)))"

definition increment_login_failure :: "'s redis \<Rightarrow> string \<Rightarrow> string \<Rightarrow> ('s, int) prog" where
  "increment_login_failure R email ip =
     rbind (r_incr R (login_ip_key ip)) (\<lambda>ip_count.
     rbind (if ip_count = 1 then r_expire R (login_ip_key ip) 60 else rret ()) (\<lambda>_.
     rbind (r_incr R (login_combined_key email ip)) (\<lambda>combined_count.
     rbind (r_expire R (login_combined_key email ip) (get_backoff_ttl combined_count)) (\<lambda>_.
     rbind (r_incr R (login_email_key email)) (\<lambda>email_count.
     rbind (if email_count = 1 then r_expire R (login_email_key email) 900 else rret ()) (\<lambda>_.
     rret combined_count))))))"

definition clear_login_failures :: "'s redis \<Rightarrow> string \<Rightarrow> string \<Rightarrow> ('s, unit) prog" where
  "clear_login_failures R email ip =
     r_exec R [CDel (login_ip_key ip), CDel (login_combined_key email ip), CDel (login_email_key email)]"

subsection \<open>Revoked sessions\<close>

definition blocklist_key :: "string \<Rightarrow> string" where
  "blocklist_key sid = ''session:blocklist:'' @ sid"

definition activity_key :: "string \<Rightarrow> string" where
  "activity_key sid = ''session:activity:'' @ sid"

definition blocklist_session :: "'s redis \<Rightarrow> string \<Rightarrow> int \<Rightarrow> ('s, unit) prog" where
  "blocklist_session R sid expiry_seconds = r_setex R (blocklist_key sid) expiry_seconds (Text ''1'')"

definition is_session_revoked :: "'s redis \<Rightarrow> string \<Rightarrow> ('s, bool) prog" where
  "is_session_revoked R sid = rbind (r_get R (blocklist_key sid)) (\<lambda>v. rret (v \<noteq> None))"

definition update_session_activity :: "'s redis \<Rightarrow> string \<Rightarrow> string \<Rightarrow> ('s, unit) prog" where
  "update_session_activity R sid timestamp_iso = r_setex R (activity_key sid) 604800 (Text timestamp_iso)"

definition get_session_activity :: "'s redis \<Rightarrow> string \<Rightarrow> ('s, string option) prog" where
  "get_session_activity R sid = rbind (r_get R (activity_key sid)) (\<lambda>v. rret (map_option reply_str v))"

subsection \<open>Tokens and sessions\<close>

definition user_by_email :: "string \<Rightarrow> db1 \<Rightarrow> user option" where
  "user_by_email e d = row_at usr_email e (d_users d)"

definition user_tenant :: "user \<Rightarrow> db1 \<Rightarrow> tenant option" where
  "user_tenant u d = Option.bind (usr_tenant u) (\<lambda>t. tenant_by_id t d)"

definition session_by_id :: "uuid \<Rightarrow> db1 \<Rightarrow> user_session option" where
  "session_by_id x d = row_at ses_id x (d_sessions d)"

text \<open>\<open>session.save()\<close>: \<open>last_activity_at\<close> is set on every save.\<close>

definition save_session :: "time \<Rightarrow> user_session \<Rightarrow> db1 \<Rightarrow> db1" where
  "save_session now x d =
     d\<lparr>d_sessions := put_row ses_id (x\<lparr>ses_last_activity_at := now\<rparr>) (d_sessions d)\<rparr>"

definition parse_device_name :: "string \<Rightarrow> string" where
  "parse_device_name ua =
     (let os_name =
        (if contains ''Windows'' ua then ''Windows'' else if contains ''Mac'' ua then ''Mac''
         else if contains ''Linux'' ua then ''Linux'' else if contains ''Android'' ua then ''Android''
         else if contains ''iPhone'' ua \<or> contains ''iPad'' ua then ''iOS'' else ''Unknown'');
        browser =
        (if contains ''Chrome'' ua then ''Chrome'' else if contains ''Firefox'' ua then ''Firefox''
         else if contains ''Safari'' ua then ''Safari'' else if contains ''Edge'' ua then ''Edge'' else ''Unknown'')
      in browser @ '' on '' @ os_name)"

text \<open>Times in a token are whole seconds.\<close>

definition access_payload :: "auth_env \<Rightarrow> user \<Rightarrow> db1 \<Rightarrow> uuid \<Rightarrow> (string \<times> json) list" where
  "access_payload env u d sid = [
     (''jti'', JStr (ae_uuid env 0)), (''sid'', JStr sid), (''iss'', JStr ''neuralops-jwt-key''),
     (''user_id'', JStr (usr_id u)), (''email'', JStr (usr_email u)),
     (''tenant_id'', jopt (\<lambda>t. JStr (tnt_id t)) (user_tenant u d)),
     (''tenant_name'', JStr (case user_tenant u d of Some t \<Rightarrow> tnt_name t | None \<Rightarrow> ''Platform Admin'')),
     (''role'', JStr (usr_role u)), (''is_superadmin'', JBool (usr_is_superadmin u)),
     (''exp'', JInt ((ae_now env + seconds (60 * JWT_ACCESS_TOKEN_EXPIRE_MINUTES)) div 1000000)),
     (''iat'', JInt (ae_now env div 1000000)), (''type'', JStr ''access'')]"

definition refresh_payload :: "auth_env \<Rightarrow> user \<Rightarrow> db1 \<Rightarrow> uuid \<Rightarrow> (string \<times> json) list" where
  "refresh_payload env u d sid = [
     (''jti'', JStr (ae_uuid env 1)), (''sid'', JStr sid), (''iss'', JStr ''neuralops-jwt-key''),
     (''user_id'', JStr (usr_id u)), (''tenant_id'', jopt (\<lambda>t. JStr (tnt_id t)) (user_tenant u d)),
     (''exp'', JInt ((ae_now env + seconds (86400 * JWT_REFRESH_TOKEN_EXPIRE_DAYS)) div 1000000)),
     (''iat'', JInt (ae_now env div 1000000)), (''type'', JStr ''refresh'')]"

definition new_session :: "auth_env \<Rightarrow> web_request \<Rightarrow> user \<Rightarrow> uuid \<Rightarrow> user_session" where
  "new_session env rq u sid = \<lparr>ses_id = sid, ses_user = usr_id u, ses_tenant = usr_tenant u,
     ses_current_refresh_jti = ae_uuid env 1, ses_device_name = parse_device_name (get_or (wr_agent rq) []),
     ses_ip_address = first_hop_ip rq, ses_user_agent = get_or (wr_agent rq) [], ses_is_active = True,
     ses_is_revoked = False, ses_revoked_at = None, ses_revoked_reason = [],
     ses_last_activity_at = ae_now env, ses_created_at = ae_now env,
     ses_expires_at = ae_now env + seconds (86400 * JWT_REFRESH_TOKEN_EXPIRE_DAYS)\<rparr>"

definition create_session :: "auth_env \<Rightarrow> user_session \<Rightarrow> db1 \<Rightarrow> db1 res" where
  "create_session env x d =
     (if session_by_id (ses_id x) d \<noteq> None then Inl (IntegrityError ''user_sessions'')
      else if \<not> ae_is_ip env (ses_ip_address x) then Inl (DataError ''user_sessions.ip_address'')
      else Inr (d\<lparr>d_sessions := d_sessions d @ [x]\<rparr>))"

text \<open>\<open>generate_tokens\<close>: the first signing in makes a session, a rotation keeps the one it has.\<close>

definition generate_tokens ::
  "auth_env \<Rightarrow> user \<Rightarrow> web_request option \<Rightarrow> uuid option \<Rightarrow> ('s web, string \<times> string) prog" where
  "generate_tokens env u rq existing_sid =
     (let sid = get_or existing_sid (ae_uuid env 2)
      in rbind (case (rq, existing_sid) of
                  (Some q, None) \<Rightarrow> write_db (create_session env (new_session env q u sid))
                | _ \<Rightarrow> rret ()) (\<lambda>_.
         read_db (\<lambda>d. (jw_encode (ae_jwt env) (access_payload env u d sid),
                       jw_encode (ae_jwt env) (refresh_payload env u d sid)))))"

definition authentication_failed :: "string \<Rightarrow> exn" where
  "authentication_failed m = HTTPException 401 m"

definition verify_token :: "auth_env \<Rightarrow> string \<Rightarrow> json res" where
  "verify_token env token = (case jw_verify (ae_jwt env) (ae_now env) token of
     Claims kvs \<Rightarrow> Inr (JObj kvs)
   | ExpiredSignature \<Rightarrow> Inl (authentication_failed ''Token has expired'')
   | JWTFailure m \<Rightarrow> Inl (authentication_failed (''Invalid token: '' @ m)))"

text \<open>What a request carries once it is authenticated: the user and the claims of the token.\<close>

record signed_in =
  si_user :: user
  si_claims :: json

text \<open>
  \<open>JWTAuthentication.authenticate\<close>; the outer \<open>except\<close> makes a refusal of every exception, the client library's
  included.  The texts of the claims appear in the keys of Redis.
\<close>

definition claim_user :: "json \<Rightarrow> db1 \<Rightarrow> user res" where
  "claim_user claims d = bind_res (subscript claims ''user_id'') (\<lambda>x. bind_res (uuid_arg x) (\<lambda>u.
     case user_by_id u d of None \<Rightarrow> Inl (OtherError ''User.DoesNotExist'') | Some v \<Rightarrow> Inr v))"

definition authenticate_claims ::
  "'s redis \<Rightarrow> auth_env \<Rightarrow> json \<Rightarrow> ('s web, signed_in) prog" where
  "authenticate_claims R env claims =
     (let sid = jget ''sid'' claims; sid_text = str_value (ae_float_repr env) sid in
      rbind (if truthy sid
             then rbind (on_redis (is_session_revoked R sid_text)) (\<lambda>revoked.
                  rbind (raise_if revoked (authentication_failed ''Session has been revoked'')) (\<lambda>_.
                  on_redis (update_session_activity R sid_text (isoformat (ae_now env)))))
             else rret ()) (\<lambda>_.
      rbind (read_db (claim_user claims)) (\<lambda>r. rbind (rlift r) (\<lambda>u.
      rret \<lparr>si_user = u, si_claims = claims\<rparr>))))"

definition as_refusal :: "('s, 'a) prog \<Rightarrow> ('s, 'a) prog" where
  "as_refusal p w = (case p w of
     (Inl (HTTPException c m), w') \<Rightarrow> (Inl (HTTPException c m), w')
   | (Inl e, w') \<Rightarrow> (Inl (authentication_failed ''Invalid token''), w')
   | (Inr x, w') \<Rightarrow> (Inr x, w'))"

definition bearer_token :: "string \<Rightarrow> string" where
  "bearer_token auth = takeWhile (\<lambda>c. c \<noteq> CHR '' '') (drop 7 auth)"

definition authenticate :: "'s redis \<Rightarrow> auth_env \<Rightarrow> web_request \<Rightarrow> ('s web, signed_in option) prog" where
  "authenticate R env rq =
     (let auth = get_or (wr_authorization rq) [] in
      if \<not> prefix ''Bearer '' auth then rret None
      else as_refusal (rbind (rlift (verify_token env (bearer_token auth))) (\<lambda>claims.
             rbind (authenticate_claims R env claims) (\<lambda>x. rret (Some x)))))"

text \<open>
  \<open>IsAuthenticated\<close> on top of it.  The views of \<open>apps/users\<close> name \<open>JWTAuthentication\<close> as their class; the default
  of the settings, \<open>GatewayAuthentication\<close>, is in \<open>Dj_Gateway\<close>.
\<close>

definition signed_in_user :: "'s redis \<Rightarrow> auth_env \<Rightarrow> web_request \<Rightarrow> ('s web, signed_in) prog" where
  "signed_in_user R env rq = rbind (authenticate R env rq) (\<lambda>x. case x of
     None \<Rightarrow> rfail (HTTPException 401 ''Authentication credentials were not provided.'')
   | Some y \<Rightarrow> rret y)"

subsection \<open>Logging in\<close>

text \<open>\<open>LoginSerializer\<close>: the errors of the fields, or what \<open>validate\<close> finds in its order.\<close>

definition is_tenant_active :: "user \<Rightarrow> db1 \<Rightarrow> bool" where
  "is_tenant_active u d = (case user_tenant u d of None \<Rightarrow> True | Some t \<Rightarrow> tnt_status t = ''active'')"

definition validate_login :: "auth_env \<Rightarrow> string \<Rightarrow> string \<Rightarrow> db1 \<Rightarrow> (string \<times> string) list + user" where
  "validate_login env email password d =
     (case user_by_email (strip (lower email)) d of
        None \<Rightarrow> Inl [(''email'', ''Invalid email or password.'')]
      | Some u \<Rightarrow>
          if \<not> ae_check_password env password (usr_password u)
            then Inl [(''password'', ''Invalid email or password.'')]
          else if \<not> usr_is_active u then Inl [(''email'', ''User account is inactive.'')]
          else if \<not> usr_email_verified u
            then Inl [(''email'', ''Please verify your email before logging in.'')]
          else if \<not> is_tenant_active u d
            then Inl [(''email'', ''Your organization account is currently inactive.'')]
          else Inr u)"

definition login_serializer :: "auth_env \<Rightarrow> json \<Rightarrow> db1 \<Rightarrow> (string \<times> string) list + user" where
  "login_serializer env body d =
     (let e = email_input (ae_float_repr env) (ae_valid_email env) ''email'' body;
          p = char_input (ae_float_repr env) plain_rule ''password'' body;
          errs = field_errors [(''email'', e), (''password'', p)]
      in if errs \<noteq> [] then Inl errs else validate_login env (field_text e) (field_text p) d)"

definition verification_for :: "auth_env \<Rightarrow> user \<Rightarrow> email_verification" where
  "verification_for env u = \<lparr>emv_id = ae_uuid env 0, emv_user = usr_id u, emv_token = ae_secret env 0,
     emv_status = ''pending'', emv_expires_at = ae_now env + seconds (2 * 86400), emv_verified_at = None\<rparr>"

text \<open>Delete the old tokens and create one (one row a user); the mail itself is outside.\<close>

definition renew_verification :: "auth_env \<Rightarrow> user \<Rightarrow> db1 \<Rightarrow> db1" where
  "renew_verification env u d =
     d\<lparr>d_verifications := drop_row emv_user (usr_id u) (d_verifications d) @ [verification_for env u]\<rparr>"

definition handle_unverified_login :: "auth_env \<Rightarrow> string \<Rightarrow> db1 \<Rightarrow> db1" where
  "handle_unverified_login env email d =
     (case user_by_email email d of
        None \<Rightarrow> d
      | Some u \<Rightarrow> if usr_email_verified u then d else renew_verification env u d)"

definition resend_if_unverified :: "auth_env \<Rightarrow> string \<Rightarrow> (string \<times> string) list \<Rightarrow> db1 \<Rightarrow> db1" where
  "resend_if_unverified env email errs d =
     (if map_of errs ''email'' = Some ''Please verify your email before logging in.''
      then handle_unverified_login env email d else d)"

definition confirmed_device :: "user \<Rightarrow> db1 \<Rightarrow> totp_device option" where
  "confirmed_device u d = List.find (\<lambda>x. otp_user x = usr_id u \<and> otp_is_confirmed x) (d_devices d)"

definition finish_login :: "auth_env \<Rightarrow> user \<Rightarrow> web_request \<Rightarrow> ('s web, api_reply) prog" where
  "finish_login env u rq =
     rbind (read_db (confirmed_device u)) (\<lambda>dev.
     if dev \<noteq> None then
       rbind (write_db (\<lambda>d. Inr (d\<lparr>d_mfa_tokens := d_mfa_tokens d @
                [\<lparr>mft_token = ae_secret env 0, mft_user = usr_id u,
                  mft_expires_at = ae_now env + seconds 300\<rparr>]\<rparr>))) (\<lambda>_.
       rret (Success 200 [(''mfa_token'', JStr (ae_secret env 0)), (''requires_mfa'', JBool True)]))
     else
       rbind (generate_tokens env u (Some rq) None) (\<lambda>(access, refresh).
       rbind (write_db (audit_from (ae_is_ip env) (Some (first_hop_ip rq)) ''LOGIN'' (Some u) None [] [] True)) (\<lambda>_.
       rret (Success 200 [(''access_token'', JStr access), (''refresh_token'', JStr refresh)]))))"

definition record_login_failure ::
  "'s redis \<Rightarrow> auth_env \<Rightarrow> string \<Rightarrow> string \<Rightarrow> (string \<times> string) list \<Rightarrow> ('s web, api_reply) prog" where
  "record_login_failure R env email ip errs =
     rbind (on_redis (increment_login_failure R email ip)) (\<lambda>_.
     rbind (write_db (audit_from (ae_is_ip env) (Some ip) ''LOGIN_FAILED'' None None email [] False)) (\<lambda>_.
     rret (Failure 401 ''auth_error'' errs)))"

definition login_email :: "json \<Rightarrow> string res" where
  "login_email body = (case body of
     JObj _ \<Rightarrow> (case get_default ''email'' body (JStr []) of
                  JStr s \<Rightarrow> Inr (lower s) | _ \<Rightarrow> Inl (AttributeError ''lower''))
   | _ \<Rightarrow> Inl (AttributeError ''get''))"

definition login_view :: "'s redis \<Rightarrow> auth_env \<Rightarrow> web_request \<Rightarrow> ('s web, api_reply) prog" where
  "login_view R env rq =
     (let ip = get_client_ip rq in
      rbind (rlift (login_email (wr_data rq))) (\<lambda>email.
      rbind (on_redis (is_login_blocked R email ip)) (\<lambda>blocked.
      case blocked of
        Some reason \<Rightarrow> rfail (NeuralOpsError 429 ''rate_limit'')
      | None \<Rightarrow>
          rbind (read_db (login_serializer env (wr_data rq))) (\<lambda>r. case r of
            Inr u \<Rightarrow> rbind (on_redis (clear_login_failures R email ip)) (\<lambda>_. finish_login env u rq)
          | Inl errs \<Rightarrow>
              rbind (write_db (\<lambda>d. Inr (resend_if_unverified env email errs d))) (\<lambda>_.
              record_login_failure R env email ip errs)))))"

subsection \<open>Refreshing\<close>

text \<open>\<open>ValidationException\<close>\<close>

definition validation_exception :: "string \<Rightarrow> exn" where
  "validation_exception m = NeuralOpsError 400 ''validation_error''"

text \<open>
  \<open>TokenRefreshSerializer\<close>: an unverifiable token is an exception that leaves the serializer, a token of
  another type an error of its field.
\<close>

definition refresh_serializer :: "auth_env \<Rightarrow> json \<Rightarrow> ((string \<times> string) list + string) res" where
  "refresh_serializer env body =
     (case char_input (ae_float_repr env) plain_rule ''refresh_token'' body of
        Inl m \<Rightarrow> Inr (Inl [(''refresh_token'', m)])
      | Inr r \<Rightarrow>
          bind_res (verify_token env (get_or r [])) (\<lambda>claims.
            if jget ''type'' claims \<noteq> JStr ''refresh'' then Inr (Inl [(''refresh_token'', ''Invalid refresh token.'')])
            else Inr (Inr (get_or r []))))"

text \<open>\<open>UserSession.objects.get(id=sid)\<close>: a missing claim matches no row.\<close>

definition claimed_session :: "json \<Rightarrow> db1 \<Rightarrow> user_session option res" where
  "claimed_session sid d = (case sid of
     JNull \<Rightarrow> Inr None
   | _ \<Rightarrow> (case uuid_arg sid of Inl e \<Rightarrow> Inl (OtherError ''ValidationError'') | Inr x \<Rightarrow> Inr (session_by_id x d)))"

definition reuse_detected :: "time \<Rightarrow> user_session \<Rightarrow> user_session" where
  "reuse_detected now x =
     x\<lparr>ses_is_revoked := True, ses_revoked_at := Some now, ses_revoked_reason := ''reuse_detected''\<rparr>"

definition new_jti :: "auth_env \<Rightarrow> string \<Rightarrow> string res" where
  "new_jti env token = (case jw_peek (ae_jwt env) token of
     Claims kvs \<Rightarrow> bind_res (subscript (JObj kvs) ''jti'') (\<lambda>v. char_field (ae_float_repr env) ''current_refresh_jti'' (Some 255) v)
   | _ \<Rightarrow> Inl (OtherError ''DecodeError''))"

definition rotate ::
  "'s redis \<Rightarrow> auth_env \<Rightarrow> json \<Rightarrow> user \<Rightarrow> user_session \<Rightarrow> ('s web, string \<times> string) prog" where
  "rotate R env claims u x =
     (if ses_is_revoked x then rfail (validation_exception ''Session has been revoked'')
      else if JStr (ses_current_refresh_jti x) \<noteq> jget ''jti'' claims then
        rbind (write_db (\<lambda>d. Inr (save_session (ae_now env) (reuse_detected (ae_now env) x) d))) (\<lambda>_.
        rbind (on_redis (blocklist_session R (str_value (ae_float_repr env) (jget ''sid'' claims)) 86400)) (\<lambda>_.
        rfail (validation_exception ''Token reuse detected. Session revoked.'')))
      else
        rbind (generate_tokens env u None (Some (str_value (ae_float_repr env) (jget ''sid'' claims)))) (\<lambda>(access, refresh).
        rbind (rlift (new_jti env refresh)) (\<lambda>jti.
        rbind (write_db (\<lambda>d. Inr (save_session (ae_now env) (x\<lparr>ses_current_refresh_jti := jti\<rparr>) d))) (\<lambda>_.
        rret (access, refresh)))))"

definition refresh_token :: "'s redis \<Rightarrow> auth_env \<Rightarrow> string \<Rightarrow> ('s web, string \<times> string) prog" where
  "refresh_token R env token =
     rbind (rlift (verify_token env token)) (\<lambda>claims.
     rbind (read_db (claim_user claims)) (\<lambda>ru. rbind (rlift ru) (\<lambda>u.
     rbind (read_db (claimed_session (jget ''sid'' claims))) (\<lambda>rx. rbind (rlift rx) (\<lambda>sx.
     case sx of
       None \<Rightarrow> rfail (validation_exception ''Session not found'')
     | Some x \<Rightarrow> rotate R env claims u x)))))"

definition refresh_view :: "'s redis \<Rightarrow> auth_env \<Rightarrow> web_request \<Rightarrow> ('s web, api_reply) prog" where
  "refresh_view R env rq =
     rbind (rlift (refresh_serializer env (wr_data rq))) (\<lambda>r. case r of
       Inl errs \<Rightarrow> rret (Failure 400 ''validation_error'' errs)
     | Inr token \<Rightarrow>
         rbind (refresh_token R env token) (\<lambda>(access, refresh).
         rret (Success 200 [(''access_token'', JStr access), (''refresh_token'', JStr refresh)])))"

subsection \<open>Logging out and revoking\<close>

definition remaining_seconds :: "time \<Rightarrow> time \<Rightarrow> int" where
  "remaining_seconds expires now = (expires - now) div 1000000"

definition user_logout :: "time \<Rightarrow> user_session \<Rightarrow> user_session" where
  "user_logout now x =
     x\<lparr>ses_is_revoked := True, ses_revoked_at := Some now, ses_revoked_reason := ''user_logout''\<rparr>"

text \<open>
  \<open>AuthService.logout\<close>.  The key of the blocklist lives as long as the token of the request; the row of the
  audit log needs the claims of an access token.
\<close>

definition logout_audit :: "auth_env \<Rightarrow> web_request \<Rightarrow> json \<Rightarrow> db1 \<Rightarrow> db1 res" where
  "logout_audit env rq claims d = (case jget ''email'' claims of
     JStr e \<Rightarrow>
       (case jget ''tenant_id'' claims of
          JNull \<Rightarrow> audit_from (ae_is_ip env) (Some (first_hop_ip rq)) ''LOGOUT'' None None e [] True d
        | v \<Rightarrow> bind_res (uuid_arg v) (\<lambda>t.
            audit_from (ae_is_ip env) (Some (first_hop_ip rq)) ''LOGOUT'' None (Some t) e [] True d))
   | _ \<Rightarrow> Inl (IntegrityError ''audit_logs.user_email''))"

definition logout :: "'s redis \<Rightarrow> auth_env \<Rightarrow> web_request \<Rightarrow> json \<Rightarrow> ('s web, unit) prog" where
  "logout R env rq claims =
     (let sid = jget ''sid'' claims; sid_text = str_value (ae_float_repr env) sid in
      if \<not> truthy sid then rfail (validation_exception ''Invalid token format'')
      else
        rbind (case jget ''exp'' claims of
                 JInt e \<Rightarrow> (let r = remaining_seconds (seconds e) (ae_now env)
                           in if 0 < r then on_redis (blocklist_session R sid_text r) else rret ())
               | _ \<Rightarrow> rret ()) (\<lambda>_.
        rbind (read_db (claimed_session sid)) (\<lambda>rx. rbind (rlift rx) (\<lambda>sx.
        rbind (case sx of None \<Rightarrow> rret ()
               | Some x \<Rightarrow> write_db (\<lambda>d. Inr (save_session (ae_now env) (user_logout (ae_now env) x) d))) (\<lambda>_.
        write_db (logout_audit env rq claims))))))"

definition logout_view :: "'s redis \<Rightarrow> auth_env \<Rightarrow> web_request \<Rightarrow> ('s web, api_reply) prog" where
  "logout_view R env rq =
     rbind (signed_in_user R env rq) (\<lambda>si. rbind (logout R env rq (si_claims si)) (\<lambda>_. rret (Success 200 [])))"

text \<open>\<open>SessionService\<close>; the claims of the token are the attributes of the request.\<close>

definition revoke_session ::
  "'s redis \<Rightarrow> auth_env \<Rightarrow> uuid \<Rightarrow> json \<Rightarrow> ('s web, unit) prog" where
  "revoke_session R env session_id claims =
     rbind (read_db (\<lambda>d. bind_res (subscript claims ''user_id'') (\<lambda>v. bind_res (uuid_arg v) (\<lambda>u.
              Inr (List.find (\<lambda>x. ses_id x = session_id \<and> ses_user x = u) (d_sessions d)))))) (\<lambda>rx.
     rbind (rlift rx) (\<lambda>sx. case sx of
       None \<Rightarrow> rfail (NeuralOpsError 404 ''not_found'')
     | Some x \<Rightarrow>
         rbind (write_db (\<lambda>d. Inr (save_session (ae_now env) (revoke (ae_now env) x) d))) (\<lambda>_.
         rbind (let r = remaining_seconds (ses_expires_at x) (ae_now env)
                in if 0 < r then on_redis (blocklist_session R (ses_id x) r) else rret ()) (\<lambda>_.
         write_db (audit_from (ae_is_ip env) None ''TOKEN_REVOKED'' None (ses_tenant x)
                     (get_or (jstring (jget ''email'' claims)) []) session_id True)))))"

definition revoke_session_view ::
  "'s redis \<Rightarrow> auth_env \<Rightarrow> uuid \<Rightarrow> web_request \<Rightarrow> ('s web, api_reply) prog" where
  "revoke_session_view R env session_id rq =
     rbind (signed_in_user R env rq) (\<lambda>si.
     rbind (revoke_session R env session_id (si_claims si)) (\<lambda>_. rret (Success 200 [])))"

definition session_json :: "json \<Rightarrow> string \<Rightarrow> user_session \<Rightarrow> json" where
  "session_json current_sid last_activity x = JObj [
     (''id'', JStr (ses_id x)), (''device_name'', JStr (ses_device_name x)),
     (''ip_address'', JStr (ses_ip_address x)), (''is_current'', JBool (JStr (ses_id x) = current_sid)),
     (''last_activity'', JStr last_activity), (''created_at'', JStr (isoformat (ses_created_at x))),
     (''expires_at'', JStr (isoformat (ses_expires_at x)))]"

fun sessions_data :: "'s redis \<Rightarrow> json \<Rightarrow> user_session list \<Rightarrow> ('s, (string \<times> json) list) prog" where
  "sessions_data R cur [] = rret []"
| "sessions_data R cur (x # xs) =
     rbind (get_session_activity R (ses_id x)) (\<lambda>a.
     (let last_activity = get_or (nonempty a) (isoformat (ses_last_activity_at x)) in
      rbind (sessions_data R cur xs) (\<lambda>rest. rret ((last_activity, session_json cur last_activity x) # rest))))"

text \<open>Most recent first, as the texts compare; equal ones stay in their order.\<close>

fun text_less :: "string \<Rightarrow> string \<Rightarrow> bool" where
  "text_less [] [] = False"
| "text_less [] (b # bs) = True"
| "text_less (a # as) [] = False"
| "text_less (a # as) (b # bs) =
     ((of_char a :: nat) < of_char b \<or> (a = b \<and> text_less as bs))"

fun insert_recent :: "string \<times> 'a \<Rightarrow> (string \<times> 'a) list \<Rightarrow> (string \<times> 'a) list" where
  "insert_recent x [] = [x]"
| "insert_recent x (y # ys) = (if text_less (fst x) (fst y) then y # insert_recent x ys else x # y # ys)"

definition most_recent_first :: "(string \<times> 'a) list \<Rightarrow> (string \<times> 'a) list" where
  "most_recent_first xs = foldr insert_recent xs []"

definition get_active_sessions ::
  "'s redis \<Rightarrow> auth_env \<Rightarrow> uuid \<Rightarrow> json \<Rightarrow> ('s web, json list) prog" where
  "get_active_sessions R env user_id current_sid =
     rbind (read_db (\<lambda>d. filter (\<lambda>x. ses_user x = user_id \<and> ses_is_active x \<and> \<not> ses_is_revoked x \<and>
                                   ae_now env < ses_expires_at x) (d_sessions d))) (\<lambda>xs.
     rbind (on_redis (sessions_data R current_sid xs)) (\<lambda>ys. rret (map snd (most_recent_first ys))))"

subsection \<open>Registering\<close>

text \<open>\<open>RegisterSerializer\<close>; Django's password validators raise an error that belongs to no field.\<close>

definition register_fields :: "auth_env \<Rightarrow> json \<Rightarrow> (string \<times> (string + string option)) list" where
  "register_fields env body =
     (let name_rule = plain_rule\<lparr>cr_max := Some 255\<rparr>; optional = name_rule\<lparr>cr_required := False, cr_blank := True\<rparr> in
      [(''email'', email_input (ae_float_repr env) (ae_valid_email env) ''email'' body),
       (''password'', char_input (ae_float_repr env) password_rule ''password'' body),
       (''password_confirm'', char_input (ae_float_repr env) password_rule ''password_confirm'' body),
       (''tenant_name'', char_input (ae_float_repr env) name_rule ''tenant_name'' body),
       (''first_name'', char_input (ae_float_repr env) optional ''first_name'' body),
       (''last_name'', char_input (ae_float_repr env) optional ''last_name'' body)])"

definition field_of :: "(string \<times> (string + string option)) list \<Rightarrow> string \<Rightarrow> string" where
  "field_of fs k = (case map_of fs k of None \<Rightarrow> [] | Some r \<Rightarrow> field_text r)"

definition validate_register ::
  "auth_env \<Rightarrow> (string \<times> (string + string option)) list \<Rightarrow> db1 \<Rightarrow> (string \<times> string) list" where
  "validate_register env fs d =
     (if field_errors fs \<noteq> [] then field_errors fs
      else if field_of fs ''password'' \<noteq> field_of fs ''password_confirm''
        then [(''password'', ''Password fields did not match.'')]
      else if user_by_email (field_of fs ''email'') d \<noteq> None then [(''email'', ''Email already registered.'')]
      else if \<exists>t \<in> set (d_tenants d). tnt_name t = field_of fs ''tenant_name''
        then [(''tenant_name'', ''Organization name already exists.'')]
      else if \<not> ae_password_ok env (field_of fs ''password'')
        then [(''non_field_errors'', ''password_too_weak'')]
      else [])"

definition slug_of :: "string \<Rightarrow> string" where
  "slug_of name = replace_char (CHR ''_'') (CHR ''-'') (replace_char (CHR '' '') (CHR ''-'') (lower name))"

definition new_tenant :: "uuid \<Rightarrow> string \<Rightarrow> tenant" where
  "new_tenant i name = \<lparr>tnt_id = i, tnt_name = name, tnt_slug = slug_of name, tnt_plan_tier = ''free'',
     tnt_status = ''active'', tnt_razorpay_customer_id = None, tnt_razorpay_subscription_id = None\<rparr>"

text \<open>\<open>UserManager.create_user\<close>; \<open>normalize_email\<close> is Django's.\<close>

definition create_user ::
  "auth_env \<Rightarrow> user \<Rightarrow> string \<Rightarrow> db1 \<Rightarrow> user res" where
  "create_user env u password d =
     (let e = ae_normalize_email env (usr_email u) in
      if usr_email u = [] then Inl (ValueError ''Email is required'')
      else if usr_tenant u = None \<and> \<not> usr_is_superuser u then Inl (ValueError ''Tenant is required for regular users'')
      else if usr_tenant u \<noteq> None \<and> (\<exists>o' \<in> set (d_users d). usr_email o' = e \<and> usr_tenant o' = usr_tenant u)
        then Inl (ValueError ''User already exists in this tenant'')
      else if user_by_email e d \<noteq> None then Inl (IntegrityError ''users.email'')
      else if 255 < length e \<or> 255 < length (usr_first_name u) \<or> 255 < length (usr_last_name u) \<or> 20 < length (usr_role u)
        then Inl (DataError ''users'')
      else Inr (u\<lparr>usr_email := e, usr_password := ae_make_password env password\<rparr>))"

definition new_user ::
  "auth_env \<Rightarrow> uuid \<Rightarrow> string \<Rightarrow> uuid \<Rightarrow> string \<Rightarrow> string \<Rightarrow> string \<Rightarrow> bool \<Rightarrow> user" where
  "new_user env i email t first last' role verified =
     \<lparr>usr_id = i, usr_email = email, usr_tenant = Some t, usr_first_name = first, usr_last_name = last',
      usr_role = role, usr_is_active = True, usr_is_staff = False, usr_is_superuser = False,
      usr_is_superadmin = False, usr_email_verified = verified, usr_profile_picture_key = None,
      usr_password = [], usr_created_at = ae_now env\<rparr>"

definition insert_user :: "auth_env \<Rightarrow> user \<Rightarrow> string \<Rightarrow> ('s web, user) prog" where
  "insert_user env u password =
     rbind (read_db (create_user env u password)) (\<lambda>r. rbind (rlift r) (\<lambda>v.
     rbind (write_db (\<lambda>d. Inr (d\<lparr>d_users := d_users d @ [v]\<rparr>))) (\<lambda>_. rret v)))"

definition create_owner ::
  "'s redis \<Rightarrow> auth_env \<Rightarrow> (string \<times> (string + string option)) list \<Rightarrow> ('s web, user) prog" where
  "create_owner R env fs =
     (let t = new_tenant (ae_uuid env 1) (field_of fs ''tenant_name'') in
      atomic (rbind (save_tenant R (ae_now env) t) (\<lambda>_.
        rbind (insert_user env (new_user env (ae_uuid env 2) (field_of fs ''email'') (tnt_id t)
                 (field_of fs ''first_name'') (field_of fs ''last_name'') ''owner'' False) (field_of fs ''password'')) (\<lambda>u.
        rbind (write_db (emit_event ''config.tenants'' (tnt_id t) (tenant_updated (ae_now env) t))) (\<lambda>_. rret u)))))"

text \<open>\<open>AuthService.register\<close>: what follows the transaction.\<close>

definition after_register :: "auth_env \<Rightarrow> user \<Rightarrow> ('s web, unit) prog" where
  "after_register env u =
     rbind (write_db (\<lambda>d. Inr (d\<lparr>d_verifications := d_verifications d @ [verification_for env u]\<rparr>))) (\<lambda>_.
     rbind (write_db (audit_from (ae_is_ip env) None ''TENANT_CREATED'' (Some u) None [] (get_or (usr_tenant u) []) True)) (\<lambda>_.
     write_db (audit_from (ae_is_ip env) None ''USER_CREATED'' (Some u) None [] [] True)))"

definition register_view :: "'s redis \<Rightarrow> auth_env \<Rightarrow> web_request \<Rightarrow> ('s web, api_reply) prog" where
  "register_view R env rq =
     (let fs = register_fields env (wr_data rq) in
      rbind (read_db (validate_register env fs)) (\<lambda>errs.
      if errs \<noteq> [] then rret (Failure 400 ''validation_error'' errs)
      else rbind (create_owner R env fs) (\<lambda>u. rbind (after_register env u) (\<lambda>_. rret (Success 201 [])))))"

end
