(* ===== verification/Dj_Gateway.thy ===== *)
theory Dj_Gateway
  imports Auth
begin

text \<open>
  How Django takes a request's tenant, user and role from the gateway: the headers that the Lua function of
  \<open>kong/kong.yml\<close> sets from the claims of a bearer token, \<open>TenantMiddleware\<close> of \<open>apps/users/middleware.py\<close>
  (context, suspension, row-level security), \<open>GatewayAuthentication\<close> of \<open>apps/users/authentication.py\<close>, and
  the permission classes of \<open>apps/core/permissions.py\<close>.
\<close>

subsection \<open>The gateway\<close>

text \<open>
  A claim that is present replaces the header of its name, one that is absent leaves what the client sent.  A
  claim that is neither a text, a number nor a boolean is refused by Kong's \<open>set_header\<close>: no request results.
  (The platform flag is printed before it is set; the tokens of the service have a boolean there.)
\<close>

definition set_header :: "string \<Rightarrow> string \<Rightarrow> (string \<times> string) list \<Rightarrow> (string \<times> string) list" where
  "set_header k v hs = (k, v) # filter (\<lambda>h. fst h \<noteq> k) hs"

definition claim_header ::
  "(string \<times> json) list \<Rightarrow> string \<Rightarrow> string \<Rightarrow> bool \<Rightarrow> (string \<times> string) list \<Rightarrow> (string \<times> string) list option" where
  "claim_header payload claim k false_too hs = (case map_of payload claim of
     None \<Rightarrow> Some hs
   | Some (JStr s) \<Rightarrow> Some (set_header k s hs)
   | Some (JInt i) \<Rightarrow> Some (set_header k (str_int i) hs)
   | Some (JBool b) \<Rightarrow> if b \<or> false_too then Some (set_header k (if b then ''true'' else ''false'') hs) else Some hs
   | _ \<Rightarrow> None)"

definition inject_claims ::
  "(string \<times> json) list \<Rightarrow> (string \<times> string) list \<Rightarrow> (string \<times> string) list option" where
  "inject_claims payload hs =
     Option.bind (claim_header payload ''tenant_id'' ''x-tenant-id'' False hs) (\<lambda>hs.
     Option.bind (claim_header payload ''user_id'' ''x-user-id'' False hs) (\<lambda>hs.
     Option.bind (claim_header payload ''role'' ''x-user-role'' False hs) (\<lambda>hs.
     Option.bind (claim_header payload ''email'' ''x-user-email'' False hs) (\<lambda>hs.
     Option.bind (claim_header payload ''is_superadmin'' ''x-is-superadmin'' True hs) (\<lambda>hs.
     if jhas ''plan_tier'' (JObj payload) then claim_header payload ''plan_tier'' ''x-plan-tier'' False hs
     else Some (set_header ''x-plan-tier'' ''free'' hs))))))"

subsection \<open>The tenant's context\<close>

text \<open>What the middleware attaches to a request; absent values are null.\<close>

record dj_context =
  cx_tenant_id :: json
  cx_user_id :: json
  cx_user_email :: json
  cx_user_role :: json
  cx_is_superadmin :: bool

definition no_context :: dj_context where
  "no_context = \<lparr>cx_tenant_id = JNull, cx_user_id = JNull, cx_user_email = JNull, cx_user_role = JNull,
     cx_is_superadmin = False\<rparr>"

definition claims_context :: "json \<Rightarrow> dj_context" where
  "claims_context claims = \<lparr>cx_tenant_id = jget ''tenant_id'' claims, cx_user_id = jget ''user_id'' claims,
     cx_user_email = jget ''email'' claims, cx_user_role = jget ''role'' claims,
     cx_is_superadmin = truthy (jget ''is_superadmin'' claims)\<rparr>"

definition tenant_context :: "auth_env \<Rightarrow> http_request \<Rightarrow> dj_context" where
  "tenant_context env rq =
     (case (nonempty (header ''x-user-id'' rq), nonempty (header ''x-tenant-id'' rq)) of
        (Some u, Some t) \<Rightarrow>
          \<lparr>cx_tenant_id = JStr t, cx_user_id = JStr u,
           cx_user_email = JStr (get_or (header ''x-user-email'' rq) []),
           cx_user_role = jopt JStr (header ''x-user-role'' rq),
           cx_is_superadmin = (lower (get_or (header ''x-is-superadmin'' rq) ''false'') = ''true'')\<rparr>
      | _ \<Rightarrow>
          (let auth = get_or (header ''authorization'' rq) [] in
           if prefix ''Bearer '' auth then
             (case verify_token env (bearer_token auth) of Inl e \<Rightarrow> no_context | Inr claims \<Rightarrow> claims_context claims)
           else no_context))"

definition UNRESTRICTED_PATHS :: "string list" where
  "UNRESTRICTED_PATHS = [''/api/v1/auth/login'', ''/api/v1/auth/register'', ''/api/v1/auth/forgot-password'',
     ''/api/v1/auth/reset-password'', ''/api/v1/auth/verify-email'', ''/api/v1/auth/resend-verification'',
     ''/api/v1/auth/refresh-token'', ''/api/v1/auth/google/callback'', ''/api/v1/auth/github/callback'',
     ''/api/v1/auth/mfa/'', ''/api/v1/invitations/'']"

definition is_unrestricted :: "http_request \<Rightarrow> bool" where
  "is_unrestricted rq \<longleftrightarrow> (\<exists>p \<in> set UNRESTRICTED_PATHS. prefix p (rq_path rq))"

text \<open>The settings \<open>app.bypass_rls\<close> and \<open>app.current_tenant\<close> that the policies of PostgreSQL read.\<close>

datatype rls = Bypass | Only_Tenant string | No_Rows

definition rls_context :: "auth_env \<Rightarrow> http_request \<Rightarrow> dj_context \<Rightarrow> rls" where
  "rls_context env rq cx =
     (if is_unrestricted rq \<or> cx_is_superadmin cx then Bypass
      else if truthy (cx_tenant_id cx) then Only_Tenant (str_value (ae_float_repr env) (cx_tenant_id cx))
      else No_Rows)"

definition suspended_key :: "auth_env \<Rightarrow> dj_context \<Rightarrow> string" where
  "suspended_key env cx = ''tenant:'' @ str_value (ae_float_repr env) (cx_tenant_id cx) @ '':suspended''"

text \<open>
  \<open>TenantMiddleware.__call__\<close>: a suspended tenant is answered at once, and Redis that fails lets the request
  pass; the settings of the connection are cleared when the view has answered.
\<close>

definition check_suspension :: "'s redis \<Rightarrow> auth_env \<Rightarrow> http_request \<Rightarrow> dj_context \<Rightarrow> ('s, bool) prog" where
  "check_suspension R env rq cx s =
     (if truthy (cx_tenant_id cx) \<and> \<not> is_unrestricted rq \<and> \<not> cx_is_superadmin cx then
        (case r_get R (suspended_key env cx) s of
           (Inr v, s') \<Rightarrow> (Inr (v \<noteq> None), s') | (Inl e, s') \<Rightarrow> (Inr False, s'))
      else (Inr False, s))"

definition tenant_middleware ::
  "'s redis \<Rightarrow> auth_env \<Rightarrow> (dj_context \<Rightarrow> rls \<Rightarrow> ('s web, http_answer) prog) \<Rightarrow> http_request \<Rightarrow>
   ('s web, http_answer) prog" where
  "tenant_middleware R env view rq =
     (let cx = tenant_context env rq in
      rbind (on_redis (check_suspension R env rq cx)) (\<lambda>suspended.
      if suspended then rret (Reply 403 ''tenant_suspended'') else view cx (rls_context env rq cx)))"

subsection \<open>Authentication by headers\<close>

text \<open>
  \<open>GatewayAuthentication.authenticate\<close>: the user of \<open>X-User-ID\<close> with the role the headers give; without that
  header a bearer token is verified as usual.
\<close>

record gateway_user =
  gu_user :: user
  gu_context :: dj_context
  gu_payload :: json  \<comment> \<open>the unverified claims, null if there are none\<close>

definition bearer_request :: "http_request \<Rightarrow> web_request" where
  "bearer_request rq = \<lparr>wr_forwarded = header ''x-forwarded-for'' rq, wr_remote = [], wr_agent = None,
     wr_authorization = header ''authorization'' rq, wr_data = JNull\<rparr>"

definition unverified_claims :: "auth_env \<Rightarrow> http_request \<Rightarrow> json" where
  "unverified_claims env rq =
     (let auth = get_or (header ''authorization'' rq) [] in
      if prefix ''Bearer '' auth then
        (case jw_peek (ae_jwt env) (bearer_token auth) of Claims kvs \<Rightarrow> JObj kvs | _ \<Rightarrow> JNull)
      else JNull)"

definition note_activity :: "'s redis \<Rightarrow> auth_env \<Rightarrow> json \<Rightarrow> ('s, unit) prog" where
  "note_activity R env payload s =
     (if truthy (jget ''sid'' payload) then
        (case update_session_activity R (str_value (ae_float_repr env) (jget ''sid'' payload)) (isoformat (ae_now env)) s of
           (r, s') \<Rightarrow> (Inr (), s'))
      else (Inr (), s))"

definition gateway_authenticate ::
  "'s redis \<Rightarrow> auth_env \<Rightarrow> http_request \<Rightarrow> ('s web, gateway_user option) prog" where
  "gateway_authenticate R env rq =
     (case nonempty (header ''x-user-id'' rq) of
        None \<Rightarrow>
          rbind (authenticate R env (bearer_request rq)) (\<lambda>r. rret (map_option (\<lambda>si.
            \<lparr>gu_user = si_user si, gu_context = claims_context (si_claims si), gu_payload = si_claims si\<rparr>) r))
      | Some x \<Rightarrow>
          rbind (read_db (\<lambda>d. bind_res (case uuid_parse x of None \<Rightarrow> Inl (OtherError ''ValidationError'')
                                         | Some u \<Rightarrow> Inr (user_by_id u d))
             (\<lambda>v. case v of None \<Rightarrow> Inl (authentication_failed ''User specified by gateway does not exist'')
                          | Some w \<Rightarrow> Inr w))) (\<lambda>ru.
          rbind (rlift ru) (\<lambda>u.
          (let payload = unverified_claims env rq in
           rbind (on_redis (note_activity R env payload)) (\<lambda>_.
           rret (Some \<lparr>gu_user = u,
             gu_context = \<lparr>cx_tenant_id = jopt JStr (header ''x-tenant-id'' rq), cx_user_id = JStr x,
               cx_user_email = JStr (get_or (header ''x-user-email'' rq) (usr_email u)),
               cx_user_role = JStr (get_or (header ''x-user-role'' rq) (usr_role u)),
               cx_is_superadmin = (header ''x-superadmin'' rq = Some ''true'')\<rparr>,
             gu_payload = payload\<rparr>))))))"

subsection \<open>Permissions\<close>

definition IsTenantOwner :: "dj_context \<Rightarrow> bool" where
  "IsTenantOwner cx \<longleftrightarrow> truthy (cx_user_id cx) \<and> cx_user_role cx = JStr ''owner''"

definition IsTenantAdmin :: "dj_context \<Rightarrow> bool" where
  "IsTenantAdmin cx \<longleftrightarrow> truthy (cx_user_id cx) \<and> is_one_of (cx_user_role cx) [''admin'', ''owner'']"

definition IsTenantUser :: "dj_context \<Rightarrow> bool" where
  "IsTenantUser cx \<longleftrightarrow> truthy (cx_tenant_id cx)"

definition IsPlatformAdmin :: "dj_context \<Rightarrow> bool" where
  "IsPlatformAdmin cx \<longleftrightarrow> cx_is_superadmin cx \<and> \<not> truthy (cx_tenant_id cx)"

definition CanAccessTenant :: "dj_context \<Rightarrow> bool res" where
  "CanAccessTenant cx = (if \<not> truthy (cx_tenant_id cx) then Inl (HTTPException 403 ''No tenant context'') else Inr True)"

end
