(* ===== verification/Team.thy ===== *)
theory Team
  imports Dj_Gateway Collaboration
begin

text \<open>
  The members of a tenant: the plans of \<open>core/quotas.py\<close>, the invitations of
  \<open>services/invitation_service.py\<close>, and the views of \<open>apps/users\<close> for roles, API keys, notifications and
  profile pictures.  Whether Celery's broker takes a task is a parameter.
\<close>

subsection \<open>Quotas\<close>

text \<open>\<open>PlanQuota\<close>: \<open>-1\<close> is unlimited.\<close>

record plan_quota =
  pq_max_users :: int
  pq_max_api_keys :: int
  pq_max_retention_days :: int
  pq_rate_limit :: string

definition PLAN_QUOTAS :: "(string \<times> plan_quota) list" where
  "PLAN_QUOTAS = [
     (''free'', \<lparr>pq_max_users = 3, pq_max_api_keys = 2, pq_max_retention_days = 30, pq_rate_limit = ''100/minute''\<rparr>),
     (''pro'', \<lparr>pq_max_users = 25, pq_max_api_keys = 10, pq_max_retention_days = 90, pq_rate_limit = ''500/minute''\<rparr>),
     (''max'', \<lparr>pq_max_users = -1, pq_max_api_keys = -1, pq_max_retention_days = 365, pq_rate_limit = ''2000/minute''\<rparr>)]"

definition free_quota :: plan_quota where
  "free_quota = snd (hd PLAN_QUOTAS)"

definition quota_of :: "tenant \<Rightarrow> plan_quota" where
  "quota_of t = get_or (map_of PLAN_QUOTAS (tnt_plan_tier t)) free_quota"

definition get_rate_limit :: "tenant \<Rightarrow> string" where
  "get_rate_limit t = pq_rate_limit (quota_of t)"

definition active_users :: "uuid \<Rightarrow> db1 \<Rightarrow> user list" where
  "active_users t d = filter (\<lambda>u. usr_tenant u = Some t \<and> usr_is_active u) (d_users d)"

definition active_keys :: "uuid \<Rightarrow> db1 \<Rightarrow> api_key list" where
  "active_keys t d = filter (\<lambda>k. apk_tenant k = t \<and> apk_is_active k) (d_api_keys d)"

definition check_user_limit :: "tenant \<Rightarrow> db1 \<Rightarrow> unit res" where
  "check_user_limit t d =
     (let q = quota_of t in
      if pq_max_users q = -1 then Inr ()
      else if pq_max_users q \<le> int (length (active_users (tnt_id t) d)) then Inl (permission_denied ''user limit'')
      else Inr ())"

definition check_api_key_limit :: "tenant \<Rightarrow> db1 \<Rightarrow> unit res" where
  "check_api_key_limit t d =
     (let q = quota_of t in
      if pq_max_api_keys q = -1 then Inr ()
      else if pq_max_api_keys q \<le> int (length (active_keys (tnt_id t) d)) then Inl (permission_denied ''API key limit'')
      else Inr ())"

definition clamp_retention_days :: "tenant \<Rightarrow> int \<Rightarrow> int" where
  "clamp_retention_days t requested = min requested (pq_max_retention_days (quota_of t))"

definition usage_of :: "int \<Rightarrow> int \<Rightarrow> json" where
  "usage_of current maximum = JObj [(''current'', JInt current),
     (''limit'', if maximum \<noteq> -1 then JInt maximum else JNull),
     (''at_limit'', JBool (maximum \<noteq> -1 \<and> maximum \<le> current))]"

definition usage_summary :: "tenant \<Rightarrow> db1 \<Rightarrow> json" where
  "usage_summary t d =
     (let q = quota_of t in JObj [(''plan_tier'', JStr (tnt_plan_tier t)),
        (''users'', usage_of (int (length (active_users (tnt_id t) d))) (pq_max_users q)),
        (''api_keys'', usage_of (int (length (active_keys (tnt_id t) d))) (pq_max_api_keys q)),
        (''log_retention_days'', JObj [(''limit'', JInt (pq_max_retention_days q))])])"

subsection \<open>Invitations\<close>

text \<open>A tenant has one invitation for an address in each status; a user accepts one at most.\<close>

definition invitation_conflict :: "user_invitation \<Rightarrow> db1 \<Rightarrow> bool" where
  "invitation_conflict i d \<longleftrightarrow> (\<exists>o' \<in> set (d_invitations d). inv_id o' \<noteq> inv_id i \<and>
     (inv_tenant o' = inv_tenant i \<and> inv_email o' = inv_email i \<and> inv_status o' = inv_status i \<or>
      inv_token o' = inv_token i \<or> (inv_accepted_by i \<noteq> None \<and> inv_accepted_by o' = inv_accepted_by i)))"

definition save_invitation :: "user_invitation \<Rightarrow> db1 \<Rightarrow> db1 res" where
  "save_invitation i d =
     (if invitation_conflict i d then Inl (IntegrityError ''user_invitations'')
      else if 254 < length (inv_email i) then Inl (DataError ''user_invitations.email'')
      else Inr (d\<lparr>d_invitations := put_row inv_id i (d_invitations d)\<rparr>))"

definition invitation_at :: "uuid \<Rightarrow> string \<Rightarrow> string \<Rightarrow> db1 \<Rightarrow> user_invitation option" where
  "invitation_at t email status d =
     List.find (\<lambda>i. inv_tenant i = t \<and> inv_email i = email \<and> inv_status i = status) (d_invitations d)"

definition new_invitation :: "auth_env \<Rightarrow> user \<Rightarrow> uuid \<Rightarrow> string \<Rightarrow> string \<Rightarrow> user_invitation" where
  "new_invitation env inviter t email role = \<lparr>inv_id = ae_uuid env 0, inv_email = email, inv_tenant = t,
     inv_invited_by = Some (usr_id inviter), inv_role = role, inv_token = ae_secret env 0,
     inv_status = ''pending'', inv_accepted_by = None, inv_created_at = ae_now env,
     inv_expires_at = ae_now env + seconds (2 * 86400), inv_accepted_at = None, inv_cancelled_at = None\<rparr>"

text \<open>
  \<open>get_or_create\<close> among the pending ones, and the reset of what it has found if that has expired (the status
  of what it has found is pending).
\<close>

definition renew_expired :: "auth_env \<Rightarrow> user \<Rightarrow> string \<Rightarrow> user_invitation \<Rightarrow> user_invitation" where
  "renew_expired env inviter role i = i\<lparr>inv_status := ''pending'', inv_expires_at := ae_now env + seconds (7 * 86400),
     inv_invited_by := Some (usr_id inviter), inv_role := role\<rparr>"

definition get_or_create_invitation ::
  "auth_env \<Rightarrow> user \<Rightarrow> uuid \<Rightarrow> string \<Rightarrow> string \<Rightarrow> db1 \<Rightarrow> user_invitation res \<times> db1" where
  "get_or_create_invitation env inviter t email role d =
     (case invitation_at t email ''pending'' d of
        None \<Rightarrow>
          (let i = new_invitation env inviter t email role in
           case save_invitation i d of Inl e \<Rightarrow> (Inl e, d) | Inr d' \<Rightarrow> (Inr i, d'))
      | Some i \<Rightarrow>
          if inv_status i = ''expired'' then
            (case save_invitation (renew_expired env inviter role i) d of
               Inl e \<Rightarrow> (Inl e, d) | Inr d' \<Rightarrow> (Inr (renew_expired env inviter role i), d'))
          else (Inr i, d))"

text \<open>\<open>InvitationService.send_invitation\<close>: an invitation, or the text of an error.\<close>

definition send_invitation ::
  "auth_env \<Rightarrow> bool \<Rightarrow> json \<Rightarrow> user \<Rightarrow> string \<Rightarrow> string \<Rightarrow> ('s web, string + user_invitation) prog" where
  "send_invitation env queued tenant_id inviter email role =
     rbind (read_db (\<lambda>d. case tenant_id of JNull \<Rightarrow> Inr None
              | _ \<Rightarrow> bind_res (uuid_arg tenant_id) (\<lambda>t. Inr (tenant_by_id t d)))) (\<lambda>rt. rbind (rlift rt) (\<lambda>t'. case t' of
       None \<Rightarrow> rfail (NeuralOpsError 404 ''not_found'')
     | Some t \<Rightarrow>
         rbind (read_db (check_user_limit t)) (\<lambda>q. rbind (rlift q) (\<lambda>_.
         rbind (read_db (\<lambda>d. \<exists>u \<in> set (d_users d). usr_email u = email \<and> usr_tenant u = Some (tnt_id t))) (\<lambda>member.
         if member then rret (Inl ''already_member'')
         else
           rbind (on_db (get_or_create_invitation env inviter (tnt_id t) email role)) (\<lambda>i.
           if \<not> queued then rret (Inl ''email_failed'')
           else
             rbind (write_db (audit_from (ae_is_ip env) None ''USER_INVITED'' (Some inviter) None [] (inv_id i) True)) (\<lambda>_.
             rret (Inr i))))))))"

definition role_field :: "json \<Rightarrow> string + string option" where
  "role_field body =
     (if \<not> jhas ''role'' body then Inl ''This field is required.''
      else case jget ''role'' body of
        JNull \<Rightarrow> Inl ''This field may not be null.''
      | JStr r \<Rightarrow>
          if r \<notin> set [''owner'', ''admin'', ''engineer'', ''viewer''] then Inl (CHR 0x22 # r @ CHR 0x22 # '' is not a valid choice.'')
          else if r \<notin> set [''engineer'', ''viewer''] then Inl ''Can only invite engineers or viewers. Owners must sign up directly.''
          else Inr (Some r)
      | _ \<Rightarrow> Inl ''not a valid choice.'')"

definition admin_of :: "'s redis \<Rightarrow> auth_env \<Rightarrow> web_request \<Rightarrow> ('s web, signed_in) prog" where
  "admin_of R env rq =
     rbind (signed_in_user R env rq) (\<lambda>si.
     if IsTenantAdmin (claims_context (si_claims si)) then rret si
     else rfail (permission_denied ''Only tenant admin can access this.''))"

definition invite_view :: "'s redis \<Rightarrow> auth_env \<Rightarrow> bool \<Rightarrow> web_request \<Rightarrow> ('s web, api_reply) prog" where
  "invite_view R env queued rq =
     rbind (admin_of R env rq) (\<lambda>si.
     (let e = email_input (ae_float_repr env) (ae_valid_email env) ''email'' (wr_data rq);
          r = role_field (wr_data rq);
          errs = field_errors [(''email'', e), (''role'', r)]
      in if errs \<noteq> [] then rret (Failure 400 ''validation_error'' errs)
         else rbind (send_invitation env queued (jget ''tenant_id'' (si_claims si)) (si_user si) (field_text e) (field_text r))
           (\<lambda>x. case x of
              Inl m \<Rightarrow> if m = ''email_failed'' then rret (Failure 500 ''email_error'' []) else rret (Failure 409 ''conflict'' [])
            | Inr i \<Rightarrow> rret (Success 201 [(''id'', JStr (inv_id i)), (''email'', JStr (inv_email i)), (''role'', JStr (inv_role i)),
                (''created_at'', JStr (isoformat (inv_created_at i))), (''expires_at'', JStr (isoformat (inv_expires_at i)))]))))"

definition invitation_by_token :: "string \<Rightarrow> db1 \<Rightarrow> user_invitation option" where
  "invitation_by_token tok d = row_at inv_token tok (d_invitations d)"

definition validate_invitation :: "time \<Rightarrow> string option \<Rightarrow> db1 \<Rightarrow> string + user_invitation" where
  "validate_invitation now tok d = (case nonempty tok of
     None \<Rightarrow> Inl ''missing_token''
   | Some s \<Rightarrow> (case invitation_by_token s d of
       None \<Rightarrow> Inl ''not_found''
     | Some i \<Rightarrow> if invitation_is_valid now i then Inr i else Inl ''expired''))"

subsection \<open>Joining\<close>

text \<open>\<open>UserInvitation.accept\<close>; its row of the log has the invitation's tenant.\<close>

definition accepted :: "time \<Rightarrow> user \<Rightarrow> user_invitation \<Rightarrow> user_invitation" where
  "accepted now u i = i\<lparr>inv_status := ''accepted'', inv_accepted_by := Some (usr_id u), inv_accepted_at := Some now\<rparr>"

definition accept_invitation :: "auth_env \<Rightarrow> user \<Rightarrow> user_invitation \<Rightarrow> ('s web, unit) prog" where
  "accept_invitation env u i =
     (if inv_status i \<noteq> ''pending'' then rfail (ValueError ''Cannot accept invitation'')
      else rbind (write_db (save_invitation (accepted (ae_now env) u i))) (\<lambda>_.
           write_db (audit_from (ae_is_ip env) None ''USER_INVITE_ACCEPTED'' (Some u) (Some (inv_tenant i)) [] (inv_id i) True)))"

definition join_with_password ::
  "auth_env \<Rightarrow> web_request \<Rightarrow> user_invitation \<Rightarrow> string \<Rightarrow> string \<Rightarrow> string \<Rightarrow> ('s web, user \<times> string \<times> string) prog" where
  "join_with_password env rq i password first last' =
     atomic (rbind (insert_user env (new_user env (ae_uuid env 3) (inv_email i) (inv_tenant i) first last' (inv_role i) True) password) (\<lambda>u.
       rbind (accept_invitation env u i) (\<lambda>_.
       rbind (generate_tokens env u (Some rq) None) (\<lambda>(access, refresh).
       rbind (write_db (audit_from (ae_is_ip env) (Some (first_hop_ip rq)) ''USER_CREATED'' (Some u) None [] [] True)) (\<lambda>_.
       rret (u, access, refresh))))))"

definition join_fields :: "auth_env \<Rightarrow> json \<Rightarrow> (string \<times> (string + string option)) list" where
  "join_fields env body =
     (let optional = plain_rule\<lparr>cr_max := Some 255, cr_required := False, cr_blank := True\<rparr> in
      [(''invite_token'', char_input (ae_float_repr env) plain_rule ''invite_token'' body),
       (''password'', char_input (ae_float_repr env) password_rule ''password'' body),
       (''password_confirm'', char_input (ae_float_repr env) password_rule ''password_confirm'' body),
       (''first_name'', char_input (ae_float_repr env) optional ''first_name'' body),
       (''last_name'', char_input (ae_float_repr env) optional ''last_name'' body)])"

definition join_invitation ::
  "auth_env \<Rightarrow> (string \<times> (string + string option)) list \<Rightarrow> db1 \<Rightarrow> (string \<times> string) list + user_invitation" where
  "join_invitation env fs d =
     (if field_errors fs \<noteq> [] then Inl (field_errors fs)
      else case invitation_by_token (field_of fs ''invite_token'') d of
        None \<Rightarrow> Inl [(''non_field_errors'', ''Invalid invitation token.'')]
      | Some i \<Rightarrow>
          if \<not> invitation_is_valid (ae_now env) i then Inl [(''non_field_errors'', ''Invitation has expired.'')]
          else if field_of fs ''password'' \<noteq> field_of fs ''password_confirm''
            then Inl [(''password'', ''Passwords do not match.'')]
          else if \<not> ae_password_ok env (field_of fs ''password'') then Inl [(''non_field_errors'', ''password_too_weak'')]
          else Inr i)"

definition join_view :: "auth_env \<Rightarrow> web_request \<Rightarrow> ('s web, api_reply) prog" where
  "join_view env rq =
     (let fs = join_fields env (wr_data rq) in
      rbind (read_db (join_invitation env fs)) (\<lambda>r. case r of
        Inl errs \<Rightarrow> rret (Failure 400 ''validation_error'' errs)
      | Inr i \<Rightarrow> (\<lambda>w.
          (case join_with_password env rq i (field_of fs ''password'') (field_of fs ''first_name'') (field_of fs ''last_name'') w of
             (Inl e, w') \<Rightarrow> (Inr (Failure 400 ''join_error'' []), w')
           | (Inr (u, access, refresh), w') \<Rightarrow>
               (Inr (Success 201 [(''access_token'', JStr access), (''refresh_token'', JStr refresh)]), w')))))"

subsection \<open>Managing invitations\<close>

definition invitation_json :: "db1 \<Rightarrow> user_invitation \<Rightarrow> json" where
  "invitation_json d i = JObj [
     (''id'', JStr (inv_id i)), (''email'', JStr (inv_email i)), (''role'', JStr (inv_role i)),
     (''status'', JStr (inv_status i)),
     (''invited_by'', jopt (\<lambda>u. JStr (usr_email u)) (Option.bind (inv_invited_by i) (\<lambda>u. user_by_id u d))),
     (''created_at'', JStr (isoformat (inv_created_at i))), (''expires_at'', JStr (isoformat (inv_expires_at i))),
     (''accepted_at'', jopt (\<lambda>t. JStr (isoformat t)) (inv_accepted_at i))]"

definition list_invitations :: "uuid \<Rightarrow> string \<Rightarrow> db1 \<Rightarrow> json list" where
  "list_invitations t status d =
     map (invitation_json d) (sort_key (\<lambda>i. - inv_created_at i)
       (filter (\<lambda>i. inv_tenant i = t \<and> inv_status i = status) (d_invitations d)))"

definition tenant_invitation :: "uuid \<Rightarrow> json \<Rightarrow> db1 \<Rightarrow> user_invitation res" where
  "tenant_invitation x tenant_id d = (case tenant_id of
     JNull \<Rightarrow> Inl (NeuralOpsError 404 ''not_found'')
   | _ \<Rightarrow> bind_res (uuid_arg tenant_id) (\<lambda>t.
       case List.find (\<lambda>i. inv_id i = x \<and> inv_tenant i = t) (d_invitations d) of
         None \<Rightarrow> Inl (NeuralOpsError 404 ''not_found'') | Some i \<Rightarrow> Inr i))"

definition cancelled :: "time \<Rightarrow> user_invitation \<Rightarrow> user_invitation" where
  "cancelled now i = i\<lparr>inv_status := ''cancelled'', inv_cancelled_at := Some now\<rparr>"

definition cancel_view :: "'s redis \<Rightarrow> auth_env \<Rightarrow> uuid \<Rightarrow> web_request \<Rightarrow> ('s web, api_reply) prog" where
  "cancel_view R env x rq =
     rbind (admin_of R env rq) (\<lambda>si.
     rbind (read_db (tenant_invitation x (jget ''tenant_id'' (si_claims si)))) (\<lambda>r. rbind (rlift r) (\<lambda>i.
     if inv_status i \<noteq> ''pending'' then rret (Failure 400 ''invalid_status'' [])
     else rbind (write_db (save_invitation (cancelled (ae_now env) i))) (\<lambda>_.
          rbind (write_db (audit_from (ae_is_ip env) None ''USER_INVITE_CANCELLED'' None (Some (inv_tenant i)) (inv_email i)
                             (inv_id i) True)) (\<lambda>_. rret (Success 200 []))))))"

definition resend_view :: "'s redis \<Rightarrow> auth_env \<Rightarrow> bool \<Rightarrow> uuid \<Rightarrow> web_request \<Rightarrow> ('s web, api_reply) prog" where
  "resend_view R env queued x rq =
     rbind (admin_of R env rq) (\<lambda>si.
     rbind (read_db (tenant_invitation x (jget ''tenant_id'' (si_claims si)))) (\<lambda>r. rbind (rlift r) (\<lambda>i.
     if inv_status i \<noteq> ''pending'' then rret (Failure 500 ''email_error'' [])
     else
       rbind (if invitation_is_valid (ae_now env) i then rret ()
              else write_db (save_invitation (i\<lparr>inv_expires_at := ae_now env + seconds (7 * 86400)\<rparr>))) (\<lambda>_.
       if \<not> queued then rret (Failure 500 ''email_error'' [])
       else rbind (write_db (audit_from (ae_is_ip env) None ''USER_INVITE_RESENT'' None (Some (inv_tenant i)) (inv_email i)
                               (inv_id i) True)) (\<lambda>_. rret (Success 200 []))))))"

text \<open>The periodic task \<open>cleanup_expired_invitations_task\<close>: one statement, refused as a whole on a conflict.\<close>

definition expire_invitation :: "time \<Rightarrow> user_invitation \<Rightarrow> user_invitation" where
  "expire_invitation now i = (if inv_status i = ''pending'' \<and> inv_expires_at i < now then i\<lparr>inv_status := ''expired''\<rparr> else i)"

definition cleanup_expired_invitations :: "time \<Rightarrow> db1 \<Rightarrow> db1 res" where
  "cleanup_expired_invitations now d =
     (let is' = map (expire_invitation now) (d_invitations d) in
      if distinct (map (\<lambda>i. (inv_tenant i, inv_email i, inv_status i)) is') then Inr (d\<lparr>d_invitations := is'\<rparr>)
      else Inl (IntegrityError ''user_invitations''))"

definition cleanup_expired_tokens :: "time \<Rightarrow> db1 \<Rightarrow> db1" where
  "cleanup_expired_tokens now d =
     d\<lparr>d_mfa_tokens := filter (\<lambda>t. \<not> mft_expires_at t < now) (d_mfa_tokens d),
       d_resets := filter (\<lambda>r. \<not> pwr_expires_at r < now) (d_resets d)\<rparr>"

subsection \<open>Roles\<close>

definition ROLE_CHOICES :: "string list" where
  "ROLE_CHOICES = [''owner'', ''admin'', ''engineer'', ''viewer'']"

definition list_team_members :: "user \<Rightarrow> db1 \<Rightarrow> user list" where
  "list_team_members u d =
     sort_key usr_created_at (filter (\<lambda>v. usr_tenant v = usr_tenant u \<and> usr_is_active v) (d_users d))"

definition role_event :: "user \<Rightarrow> json" where
  "role_event u = JObj [(''id'', JStr (usr_id u)), (''tenant_id'', JStr (get_or (usr_tenant u) ''None'')), (''role'', JStr (usr_role u))]"

definition change_role :: "user \<Rightarrow> uuid \<Rightarrow> json \<Rightarrow> db1 \<Rightarrow> (api_reply + user) res" where
  "change_role requester member_id body d =
     (case List.find (\<lambda>v. usr_id v = member_id \<and> usr_tenant v = usr_tenant requester \<and> usr_is_active v) (d_users d) of
        None \<Rightarrow> Inr (Inl (Failure 404 ''not_found'' []))
      | Some v \<Rightarrow> bind_res (dict_get body ''role'') (\<lambda>role.
          if unhashable role then Inl (TypeError ''unhashable type'')
          else if \<not> is_one_of role ROLE_CHOICES then Inr (Inl (Failure 400 ''validation_error'' []))
          else if usr_id v = usr_id requester then Inr (Inl (Failure 400 ''invalid_action'' []))
          else if usr_role v = ''owner'' then Inr (Inl (Failure 403 ''forbidden'' []))
          else if role = JStr ''owner'' \<and> usr_role requester \<noteq> ''owner'' then Inr (Inl (Failure 403 ''forbidden'' []))
          else Inr (Inr (v\<lparr>usr_role := py_str role\<rparr>))))"

definition update_role_view :: "'s redis \<Rightarrow> auth_env \<Rightarrow> uuid \<Rightarrow> web_request \<Rightarrow> ('s web, api_reply) prog" where
  "update_role_view R env member_id rq =
     rbind (admin_of R env rq) (\<lambda>si.
     rbind (read_db (change_role (si_user si) member_id (wr_data rq))) (\<lambda>r. rbind (rlift r) (\<lambda>x. case x of
       Inl reply \<Rightarrow> rret reply
     | Inr v \<Rightarrow>
         rbind (write_db (\<lambda>d. Inr (save_user v d))) (\<lambda>_.
         rbind (write_db (emit_event ''users.role_updated'' [] (role_event v))) (\<lambda>_. rret (Success 200 []))))))"

subsection \<open>API keys\<close>

definition api_key_event :: "api_key \<Rightarrow> json" where
  "api_key_event k = JObj [(''id'', JStr (apk_id k)), (''tenant_id'', JStr (apk_tenant k)), (''key'', JStr (apk_key k)),
     (''is_active'', JBool (apk_is_active k))]"

definition insert_api_key :: "api_key \<Rightarrow> db1 \<Rightarrow> db1 res" where
  "insert_api_key k d =
     (if \<exists>o' \<in> set (d_api_keys d). apk_key o' = apk_key k \<or> (apk_tenant o' = apk_tenant k \<and> apk_name o' = apk_name k)
      then Inl (IntegrityError ''api_keys'') else Inr (d\<lparr>d_api_keys := d_api_keys d @ [k]\<rparr>))"

definition create_api_key_view :: "'s redis \<Rightarrow> auth_env \<Rightarrow> web_request \<Rightarrow> ('s web, api_reply) prog" where
  "create_api_key_view R env rq =
     rbind (signed_in_user R env rq) (\<lambda>si.
     case char_input (ae_float_repr env) (plain_rule\<lparr>cr_max := Some 255\<rparr>) ''name'' (wr_data rq) of
       Inl m \<Rightarrow> rret (Failure 400 ''validation_error'' [(''name'', m)])
     | Inr name \<Rightarrow>
         (case usr_tenant (si_user si) of
            None \<Rightarrow> rfail (IntegrityError ''api_keys.tenant_id'')
          | Some t \<Rightarrow>
              (let k = \<lparr>apk_id = ae_uuid env 0, apk_tenant = t, apk_created_by = Some (usr_id (si_user si)),
                        apk_name = get_or name [], apk_key = ''nops_live_'' @ ae_secret env 0, apk_is_active = True,
                        apk_created_at = ae_now env\<rparr>
               in rbind (write_db (insert_api_key k)) (\<lambda>_.
                  rbind (write_db (emit_event ''config.api_keys'' [] (api_key_event k))) (\<lambda>_.
                  rret (Success 201 [(''id'', JStr (apk_id k)), (''name'', JStr (apk_name k)), (''key'', JStr (apk_key k)),
                                     (''created_at'', JStr (drf_time (apk_created_at k)))]))))))"

definition revoke_api_key_view :: "'s redis \<Rightarrow> auth_env \<Rightarrow> uuid \<Rightarrow> web_request \<Rightarrow> ('s web, api_reply) prog" where
  "revoke_api_key_view R env key_id rq =
     rbind (signed_in_user R env rq) (\<lambda>si.
     rbind (read_db (\<lambda>d. List.find (\<lambda>k. apk_id k = key_id \<and> Some (apk_tenant k) = usr_tenant (si_user si)) (d_api_keys d))) (\<lambda>r.
     case r of
       None \<Rightarrow> rret (Failure 404 ''not_found'' [])
     | Some k \<Rightarrow>
         (let k' = k\<lparr>apk_is_active := False\<rparr> in
          rbind (write_db (\<lambda>d. Inr (d\<lparr>d_api_keys := put_row apk_id k' (d_api_keys d)\<rparr>))) (\<lambda>_.
          rbind (write_db (emit_event ''config.api_keys'' [] (api_key_event k'))) (\<lambda>_. rret (Success 200 []))))))"

definition list_api_keys :: "user \<Rightarrow> db1 \<Rightarrow> json list" where
  "list_api_keys u d =
     map (\<lambda>k. JObj [(''id'', JStr (apk_id k)), (''name'', JStr (apk_name k)), (''key_prefix'', JStr (take 14 (apk_key k))),
                    (''is_active'', JBool (apk_is_active k)), (''created_at'', JStr (drf_time (apk_created_at k)))])
       (sort_key (\<lambda>k. - apk_created_at k) (filter (\<lambda>k. Some (apk_tenant k) = usr_tenant u) (d_api_keys d)))"

subsection \<open>Notifications and profile pictures\<close>

definition list_notifications :: "user \<Rightarrow> uuid \<Rightarrow> db1 \<Rightarrow> json list + api_reply" where
  "list_notifications u user_id d =
     (if usr_id u \<noteq> user_id then Inr (Failure 403 ''forbidden'' [])
      else Inl (map notification_json (take 50 (sort_key (\<lambda>n. - ntf_created_at n)
             (filter (\<lambda>n. ntf_user n = user_id) (d_notifications d))))))"

definition mark_notification_read :: "user \<Rightarrow> uuid \<Rightarrow> db1 \<Rightarrow> api_reply \<times> db1" where
  "mark_notification_read u x d =
     (case List.find (\<lambda>n. ntf_id n = x \<and> ntf_user n = usr_id u) (d_notifications d) of
        None \<Rightarrow> (Failure 404 ''not_found'' [], d)
      | Some n \<Rightarrow> (Success 200 [(''data'', notification_json (n\<lparr>ntf_is_read := True\<rparr>))],
                  d\<lparr>d_notifications := put_row ntf_id (n\<lparr>ntf_is_read := True\<rparr>) (d_notifications d)\<rparr>))"

text \<open>The key of an upload; any key may be confirmed; what deletion asks the object store to remove.\<close>

definition upload_key :: "user \<Rightarrow> uuid \<Rightarrow> string \<Rightarrow> string" where
  "upload_key u fresh filename =
     ''profile_pictures/'' @ usr_id u @ ''/'' @ fresh @ ''.'' @ last (split_on (CHR ''.'') filename)"

definition confirm_picture :: "user \<Rightarrow> string + string option \<Rightarrow> db1 \<Rightarrow> api_reply \<times> db1" where
  "confirm_picture u key d = (case key of
     Inl m \<Rightarrow> (Failure 400 ''error'' [(''object_key'', m)], d)
   | Inr k \<Rightarrow> (Success 200 [], save_user (u\<lparr>usr_profile_picture_key := Some (get_or k [])\<rparr>) d))"

definition delete_picture :: "user \<Rightarrow> db1 \<Rightarrow> string option \<times> db1" where
  "delete_picture u d = (case nonempty (usr_profile_picture_key u) of
     None \<Rightarrow> (None, d) | Some k \<Rightarrow> (Some k, save_user (u\<lparr>usr_profile_picture_key := None\<rparr>) d))"

end
