(* ===== verification/Credentials.thy ===== *)
theory Credentials
  imports Auth
begin

text \<open>
  Passwords, e-mail addresses and second factors: \<open>services/password_service.py\<close>,
  \<open>email_verification_service.py\<close> and \<open>mfa_service.py\<close> of \<open>apps/users\<close>, with their serializers and views.
  The mails and Celery tasks they send are outside: their failures are caught and logged.
\<close>

subsection \<open>Passwords\<close>

definition save_password :: "auth_env \<Rightarrow> user \<Rightarrow> string \<Rightarrow> db1 \<Rightarrow> db1" where
  "save_password env u raw d =
     (let d1 = save_user (u\<lparr>usr_password := ae_make_password env raw\<rparr>) d
      in d1\<lparr>d_sessions := filter (\<lambda>x. ses_user x \<noteq> usr_id u) (d_sessions d1)\<rparr>)"

definition password_completed :: "auth_env \<Rightarrow> user \<Rightarrow> db1 \<Rightarrow> db1 res" where
  "password_completed env u = audit_from (ae_is_ip env) None ''PASSWORD_RESET_COMPLETED'' (Some u) None [] [] True"

text \<open>\<open>ForgotPasswordSerializer\<close> and \<open>PasswordService.forgot_password\<close>\<close>

definition address_field :: "auth_env \<Rightarrow> json \<Rightarrow> string + string" where
  "address_field env body =
     (case email_input (ae_float_repr env) (ae_valid_email env) ''email'' body of
        Inl m \<Rightarrow> Inl m | Inr r \<Rightarrow> Inr (strip (lower (get_or r []))))"

definition new_reset :: "auth_env \<Rightarrow> web_request \<Rightarrow> user \<Rightarrow> password_reset" where
  "new_reset env rq u = \<lparr>pwr_id = ae_uuid env 0, pwr_user = usr_id u, pwr_token = ae_secret env 0,
     pwr_status = ''pending'', pwr_expires_at = ae_now env + seconds (2 * 86400), pwr_used_at = None,
     pwr_ip_address = Some (first_hop_ip rq)\<rparr>"

definition create_reset :: "auth_env \<Rightarrow> password_reset \<Rightarrow> db1 \<Rightarrow> db1 res" where
  "create_reset env r d =
     (if (case pwr_ip_address r of None \<Rightarrow> False | Some a \<Rightarrow> \<not> ae_is_ip env a)
      then Inl (DataError ''password_resets.ip_address'')
      else if row_at pwr_token (pwr_token r) (d_resets d) \<noteq> None then Inl (IntegrityError ''password_resets.token'')
      else Inr (d\<lparr>d_resets := d_resets d @ [r]\<rparr>))"

definition forgot_password :: "auth_env \<Rightarrow> web_request \<Rightarrow> string \<Rightarrow> ('s web, unit) prog" where
  "forgot_password env rq email =
     rbind (read_db (user_by_email email)) (\<lambda>r. case r of
       None \<Rightarrow> rret ()
     | Some u \<Rightarrow>
         rbind (write_db (\<lambda>d. Inr (d\<lparr>d_resets := filter (\<lambda>x. pwr_user x \<noteq> usr_id u) (d_resets d)\<rparr>))) (\<lambda>_.
         rbind (write_db (create_reset env (new_reset env rq u))) (\<lambda>_.
         write_db (audit_from (ae_is_ip env) (Some (first_hop_ip rq)) ''PASSWORD_RESET_REQUESTED'' (Some u) None []
                     (ae_uuid env 0) True))))"

definition forgot_password_view :: "auth_env \<Rightarrow> web_request \<Rightarrow> ('s web, api_reply) prog" where
  "forgot_password_view env rq =
     (case address_field env (wr_data rq) of
        Inl m \<Rightarrow> rret (Failure 400 ''validation_error'' [(''email'', m)])
      | Inr email \<Rightarrow> rbind (forgot_password env rq email) (\<lambda>_. rret (Success 200 [])))"

text \<open>\<open>ResetPasswordSerializer\<close>: the token becomes the row it names.\<close>

definition reset_field :: "auth_env \<Rightarrow> json \<Rightarrow> db1 \<Rightarrow> string + password_reset" where
  "reset_field env body d =
     (case char_input (ae_float_repr env) plain_rule ''token'' body of
        Inl m \<Rightarrow> Inl m
      | Inr r \<Rightarrow>
          (case row_at pwr_token (get_or r []) (d_resets d) of
             None \<Rightarrow> Inl ''Invalid reset token.''
           | Some x \<Rightarrow> if reset_is_valid (ae_now env) x then Inr x else Inl ''Token has expired.''))"

definition both_passwords ::
  "auth_env \<Rightarrow> json \<Rightarrow> (string \<times> (string + string option)) list" where
  "both_passwords env body =
     [(''new_password'', char_input (ae_float_repr env) password_rule ''new_password'' body),
      (''new_password_confirm'', char_input (ae_float_repr env) password_rule ''new_password_confirm'' body)]"

definition password_errors ::
  "auth_env \<Rightarrow> (string \<times> (string + string option)) list \<Rightarrow> (string \<times> string) list" where
  "password_errors env fs =
     (if field_of fs ''new_password'' \<noteq> field_of fs ''new_password_confirm''
        then [(''new_password'', ''Password fields did not match.'')]
      else if \<not> ae_password_ok env (field_of fs ''new_password'') then [(''non_field_errors'', ''password_too_weak'')]
      else [])"

definition used_reset :: "time \<Rightarrow> password_reset \<Rightarrow> password_reset" where
  "used_reset now r = r\<lparr>pwr_status := ''used'', pwr_used_at := Some now\<rparr>"

definition reset_password :: "auth_env \<Rightarrow> password_reset \<Rightarrow> string \<Rightarrow> ('s web, unit) prog" where
  "reset_password env r raw =
     rbind (read_db (user_by_id (pwr_user r))) (\<lambda>ru. case ru of
       None \<Rightarrow> rfail (OtherError ''User.DoesNotExist'')
     | Some u \<Rightarrow>
         rbind (write_db (\<lambda>d. let d1 = save_password env u raw d in
                  Inr (d1\<lparr>d_resets := put_row pwr_id (used_reset (ae_now env) r) (d_resets d1)\<rparr>))) (\<lambda>_.
         write_db (password_completed env u)))"

definition reset_password_view :: "auth_env \<Rightarrow> web_request \<Rightarrow> ('s web, api_reply) prog" where
  "reset_password_view env rq =
     rbind (read_db (reset_field env (wr_data rq))) (\<lambda>tok.
     (let fs = both_passwords env (wr_data rq);
          errs = field_errors [(''token'', map_sum id (\<lambda>_. ()) tok)] @ field_errors fs;
          errs' = (if errs \<noteq> [] then errs else password_errors env fs)
      in case tok of
           Inl _ \<Rightarrow> rret (Failure 400 ''validation_error'' errs')
         | Inr r \<Rightarrow>
             if errs' \<noteq> [] then rret (Failure 400 ''validation_error'' errs')
             else rbind (reset_password env r (field_of fs ''new_password'')) (\<lambda>_. rret (Success 200 []))))"

definition change_password_view :: "'s redis \<Rightarrow> auth_env \<Rightarrow> web_request \<Rightarrow> ('s web, api_reply) prog" where
  "change_password_view R env rq =
     rbind (signed_in_user R env rq) (\<lambda>si.
     (let cur = char_input (ae_float_repr env) plain_rule ''current_password'' (wr_data rq);
          fs = both_passwords env (wr_data rq);
          errs = field_errors ((''current_password'', cur) # fs);
          errs' = (if errs \<noteq> [] then errs else password_errors env fs)
      in if errs' \<noteq> [] then rret (Failure 400 ''validation_error'' errs')
         else if \<not> ae_check_password env (field_text cur) (usr_password (si_user si))
           then rret (Failure 400 ''auth_error'' [])
         else rbind (write_db (\<lambda>d. Inr (save_password env (si_user si) (field_of fs ''new_password'') d))) (\<lambda>_.
              rbind (write_db (password_completed env (si_user si))) (\<lambda>_. rret (Success 200 [])))))"

subsection \<open>E-mail addresses\<close>

text \<open>\<open>VerifyEmailSerializer\<close> and \<open>EmailVerificationService.verify_email\<close>\<close>

definition verification_field :: "auth_env \<Rightarrow> json \<Rightarrow> db1 \<Rightarrow> string + email_verification" where
  "verification_field env body d =
     (case char_input (ae_float_repr env) plain_rule ''token'' body of
        Inl m \<Rightarrow> Inl m
      | Inr r \<Rightarrow>
          (case row_at emv_token (get_or r []) (d_verifications d) of
             None \<Rightarrow> Inl ''Invalid verification token.''
           | Some x \<Rightarrow> if verification_is_valid (ae_now env) x then Inr x else Inl ''Token has expired.''))"

definition mark_verified :: "time \<Rightarrow> email_verification \<Rightarrow> user \<Rightarrow> db1 \<Rightarrow> db1" where
  "mark_verified now v u d =
     save_user (u\<lparr>usr_email_verified := True\<rparr>)
       (d\<lparr>d_verifications := put_row emv_id (v\<lparr>emv_status := ''verified'', emv_verified_at := Some now\<rparr>)
            (d_verifications d)\<rparr>)"

definition verify_email ::
  "auth_env \<Rightarrow> web_request \<Rightarrow> email_verification \<Rightarrow> ('s web, string \<times> string) prog" where
  "verify_email env rq v =
     rbind (read_db (user_by_id (emv_user v))) (\<lambda>ru. case ru of
       None \<Rightarrow> rfail (OtherError ''User.DoesNotExist'')
     | Some u \<Rightarrow>
         rbind (write_db (\<lambda>d. Inr (mark_verified (ae_now env) v u d))) (\<lambda>_.
         rbind (generate_tokens env (u\<lparr>usr_email_verified := True\<rparr>) (Some rq) None) (\<lambda>tokens.
         rbind (write_db (audit_from (ae_is_ip env) (Some (first_hop_ip rq)) ''EMAIL_VERIFIED'' (Some u) None []
                            (emv_id v) True)) (\<lambda>_. rret tokens))))"

definition verify_email_view :: "auth_env \<Rightarrow> web_request \<Rightarrow> ('s web, api_reply) prog" where
  "verify_email_view env rq =
     rbind (read_db (verification_field env (wr_data rq))) (\<lambda>r. case r of
       Inl m \<Rightarrow> rret (Failure 400 ''verification_error'' [(''token'', m)])
     | Inr v \<Rightarrow> rbind (verify_email env rq v) (\<lambda>(access, refresh).
         rret (Success 200 [(''access_token'', JStr access), (''refresh_token'', JStr refresh)])))"

text \<open>\<open>EmailVerificationService.resend_verification\<close>: whether the address is verified already.\<close>

definition resend_verification :: "auth_env \<Rightarrow> string \<Rightarrow> ('s web, bool) prog" where
  "resend_verification env email =
     rbind (read_db (user_by_email email)) (\<lambda>r. case r of
       None \<Rightarrow> rret False
     | Some u \<Rightarrow>
         if usr_email_verified u then rret True
         else rbind (write_db (\<lambda>d. Inr (renew_verification env u d))) (\<lambda>_. rret False))"

definition resend_verification_view :: "auth_env \<Rightarrow> web_request \<Rightarrow> ('s web, api_reply) prog" where
  "resend_verification_view env rq =
     (case address_field env (wr_data rq) of
        Inl m \<Rightarrow> rret (Failure 400 ''validation_error'' [(''email'', m)])
      | Inr email \<Rightarrow>
          rbind (resend_verification env email) (\<lambda>already.
          if already then rret (Failure 400 ''already_verified'' []) else rret (Success 200 [])))"

subsection \<open>Second factors\<close>

text \<open>PyOTP and the fresh secrets of a request; the hash of a backup code is salted.\<close>

record totp_env =
  te_verify :: "string \<Rightarrow> string \<Rightarrow> bool"  \<comment> \<open>secret and code, at the time of the request\<close>
  te_secret :: string
  te_codes :: "string list"
  te_hash :: "nat \<Rightarrow> string \<Rightarrow> string"
  te_uuid :: "nat \<Rightarrow> uuid"

definition device_of :: "user \<Rightarrow> db1 \<Rightarrow> totp_device option" where
  "device_of u d = row_at otp_user (usr_id u) (d_devices d)"

definition mfa_setup :: "totp_env \<Rightarrow> user \<Rightarrow> db1 \<Rightarrow> string option \<times> db1" where
  "mfa_setup te u d =
     (if confirmed_device u d \<noteq> None then (Some ''already_enabled'', d)
      else (None, d\<lparr>d_devices := drop_row otp_user (usr_id u) (d_devices d) @
              [\<lparr>otp_user = usr_id u, otp_secret_key = te_secret te, otp_is_confirmed = False, otp_confirmed_at = None\<rparr>]\<rparr>))"

definition mfa_setup_view :: "'s redis \<Rightarrow> auth_env \<Rightarrow> totp_env \<Rightarrow> web_request \<Rightarrow> ('s web, api_reply) prog" where
  "mfa_setup_view R env te rq =
     rbind (signed_in_user R env rq) (\<lambda>si.
     rbind (on_db (\<lambda>d. map_prod Inr id (mfa_setup te (si_user si) d))) (\<lambda>err.
     if err \<noteq> None then rret (Failure 400 ''mfa_already_enabled'' [])
     else rret (Success 200 [(''secret'', JStr (te_secret te))])))"

definition backup_rows :: "totp_env \<Rightarrow> user \<Rightarrow> backup_code list" where
  "backup_rows te u = map (\<lambda>(k, c). \<lparr>bkc_id = te_uuid te k, bkc_user = usr_id u, bkc_code_hash = te_hash te k c,
     bkc_is_used = False, bkc_used_at = None\<rparr>) (enumerate 0 (te_codes te))"

text \<open>\<open>MFAService.confirm\<close>: an exception of the transaction is an error of its own.\<close>

definition confirm_rows :: "auth_env \<Rightarrow> totp_env \<Rightarrow> user \<Rightarrow> totp_device \<Rightarrow> db1 \<Rightarrow> db1 res" where
  "confirm_rows env te u dev d =
     audit_from (ae_is_ip env) None ''MFA_SETUP'' (Some u) None [] [] True
       (d\<lparr>d_devices := put_row otp_user (dev\<lparr>otp_is_confirmed := True, otp_confirmed_at := Some (ae_now env)\<rparr>) (d_devices d),
          d_backup_codes := filter (\<lambda>b. bkc_user b \<noteq> usr_id u) (d_backup_codes d) @ backup_rows te u\<rparr>)"

definition mfa_confirm :: "auth_env \<Rightarrow> totp_env \<Rightarrow> user \<Rightarrow> string \<Rightarrow> db1 \<Rightarrow> (string + string list) \<times> db1" where
  "mfa_confirm env te u code d =
     (case device_of u d of
        None \<Rightarrow> (Inl ''setup_required'', d)
      | Some dev \<Rightarrow>
          if otp_is_confirmed dev then (Inl ''setup_required'', d)
          else if \<not> te_verify te (otp_secret_key dev) code then (Inl ''invalid_code'', d)
          else case confirm_rows env te u dev d of
                 Inl e \<Rightarrow> (Inl ''mfa_error'', d) | Inr d' \<Rightarrow> (Inr (te_codes te), d'))"

definition is_alnum :: "char \<Rightarrow> bool" where
  "is_alnum c \<longleftrightarrow> is_digit c \<or> (let n = (of_char c :: nat) in 65 \<le> n \<and> n \<le> 90 \<or> 97 \<le> n \<and> n \<le> 122)"

definition code_rule :: char_rule where
  "code_rule = plain_rule\<lparr>cr_min := 6, cr_max := Some 16\<rparr>"

definition confirm_code_field :: "auth_env \<Rightarrow> json \<Rightarrow> string + string" where
  "confirm_code_field env body =
     (case char_input (ae_float_repr env) (code_rule\<lparr>cr_max := Some 6\<rparr>) ''code'' body of
        Inl m \<Rightarrow> Inl m
      | Inr r \<Rightarrow> if list_all is_digit (get_or r []) then Inr (get_or r []) else Inl ''Code must be 6 digits.'')"

definition mfa_confirm_view :: "'s redis \<Rightarrow> auth_env \<Rightarrow> totp_env \<Rightarrow> web_request \<Rightarrow> ('s web, api_reply) prog" where
  "mfa_confirm_view R env te rq =
     rbind (signed_in_user R env rq) (\<lambda>si.
     case confirm_code_field env (wr_data rq) of
       Inl m \<Rightarrow> rret (Failure 400 ''validation_error'' [(''code'', m)])
     | Inr code \<Rightarrow>
         rbind (on_db (\<lambda>d. map_prod Inr id (mfa_confirm env te (si_user si) code d))) (\<lambda>r. case r of
           Inl e \<Rightarrow> rret (Failure (if e = ''mfa_error'' then 500 else 400) e [])
         | Inr codes \<Rightarrow> rret (Success 200 [(''backup_codes'', JArr (map JStr codes))])))"

subsection \<open>Exchanging the temporary token\<close>

definition mfa_attempts_key :: "string \<Rightarrow> string" where
  "mfa_attempts_key email = ''mfa_attempts:'' @ email"

definition mfa_locked_key :: "string \<Rightarrow> string" where
  "mfa_locked_key email = ''mfa_locked:'' @ email"

definition increment_mfa_attempts :: "'s redis \<Rightarrow> string \<Rightarrow> ('s, unit) prog" where
  "increment_mfa_attempts R email =
     rbind (r_incr R (mfa_attempts_key email)) (\<lambda>_. r_expire R (mfa_attempts_key email) 900)"

definition reset_mfa_attempts :: "'s redis \<Rightarrow> string \<Rightarrow> ('s, unit) prog" where
  "reset_mfa_attempts R email = rbind (r_delete R (mfa_attempts_key email)) (\<lambda>_. rret ())"

text \<open>\<open>.first()\<close> of an unordered query: the row with the least primary key.\<close>

fun first_by :: "('a \<Rightarrow> string) \<Rightarrow> 'a list \<Rightarrow> 'a option" where
  "first_by k [] = None"
| "first_by k (x # xs) = (case first_by k xs of
     None \<Rightarrow> Some x | Some y \<Rightarrow> if text_less (k y) (k x) then Some y else Some x)"

definition first_backup_code :: "user \<Rightarrow> db1 \<Rightarrow> backup_code option" where
  "first_backup_code u d = first_by bkc_id (filter (\<lambda>b. bkc_user b = usr_id u \<and> \<not> bkc_is_used b) (d_backup_codes d))"

definition delete_mfa_token :: "string \<Rightarrow> db1 \<Rightarrow> db1" where
  "delete_mfa_token token d = d\<lparr>d_mfa_tokens := drop_row mft_token token (d_mfa_tokens d)\<rparr>"

definition use_backup_code :: "time \<Rightarrow> backup_code \<Rightarrow> db1 \<Rightarrow> db1" where
  "use_backup_code now b d =
     d\<lparr>d_backup_codes := put_row bkc_id (b\<lparr>bkc_is_used := True, bkc_used_at := Some now\<rparr>) (d_backup_codes d)\<rparr>"

definition mfa_success ::
  "'s redis \<Rightarrow> auth_env \<Rightarrow> web_request \<Rightarrow> user \<Rightarrow> string \<Rightarrow> bool \<Rightarrow> ('s web, string + bool \<times> string \<times> string) prog" where
  "mfa_success R env rq u token backup =
     rbind (on_redis (reset_mfa_attempts R (usr_email u))) (\<lambda>_.
     rbind (write_db (\<lambda>d. Inr (delete_mfa_token token d))) (\<lambda>_.
     rbind (generate_tokens env u (Some rq) None) (\<lambda>(access, refresh).
     rbind (write_db (audit_from (ae_is_ip env) (Some (first_hop_ip rq)) ''MFA_VERIFIED'' (Some u) None [] [] True)) (\<lambda>_.
     rret (Inr (backup, access, refresh))))))"

definition mfa_check_code ::
  "'s redis \<Rightarrow> auth_env \<Rightarrow> totp_env \<Rightarrow> web_request \<Rightarrow> user \<Rightarrow> string \<Rightarrow> string \<Rightarrow>
   ('s web, string + bool \<times> string \<times> string) prog" where
  "mfa_check_code R env te rq u token code =
     rbind (read_db (device_of u)) (\<lambda>rd. case rd of
       None \<Rightarrow> rfail (OtherError ''TOTPDevice.DoesNotExist'')
     | Some dev \<Rightarrow>
         if te_verify te (otp_secret_key dev) code then mfa_success R env rq u token False
         else
           rbind (read_db (first_backup_code u)) (\<lambda>rb. case rb of
             Some b \<Rightarrow>
               if ae_check_password env code (bkc_code_hash b) then
                 rbind (write_db (\<lambda>d. Inr (use_backup_code (ae_now env) b d))) (\<lambda>_. mfa_success R env rq u token True)
               else rbind (on_redis (increment_mfa_attempts R (usr_email u))) (\<lambda>_. rret (Inl ''invalid_code''))
           | None \<Rightarrow> rbind (on_redis (increment_mfa_attempts R (usr_email u))) (\<lambda>_. rret (Inl ''invalid_code''))))"

definition mfa_verify ::
  "'s redis \<Rightarrow> auth_env \<Rightarrow> totp_env \<Rightarrow> web_request \<Rightarrow> string \<Rightarrow> string \<Rightarrow>
   ('s web, string + bool \<times> string \<times> string) prog" where
  "mfa_verify R env te rq token code =
     rbind (read_db (\<lambda>d. row_at mft_token token (d_mfa_tokens d))) (\<lambda>rt. case rt of
       None \<Rightarrow> rret (Inl ''invalid_token'')
     | Some t \<Rightarrow>
         if \<not> mfa_token_is_valid (ae_now env) t then
           rbind (write_db (\<lambda>d. Inr (delete_mfa_token token d))) (\<lambda>_. rret (Inl ''token_expired''))
         else
           rbind (read_db (user_by_id (mft_user t))) (\<lambda>ru. case ru of
             None \<Rightarrow> rfail (OtherError ''User.DoesNotExist'')
           | Some u \<Rightarrow>
               rbind (on_redis (read_count R (mfa_attempts_key (usr_email u)))) (\<lambda>n.
               if 5 \<le> n then
                 rbind (on_redis (r_setex R (mfa_locked_key (usr_email u)) (15 * 60) (Text ''1''))) (\<lambda>_.
                 rret (Inl ''rate_limited''))
               else mfa_check_code R env te rq u token code)))"

definition mfa_verify_fields :: "auth_env \<Rightarrow> json \<Rightarrow> (string \<times> (string + string option)) list" where
  "mfa_verify_fields env body =
     [(''mfa_token'', char_input (ae_float_repr env) plain_rule ''mfa_token'' body),
      (''code'', (case char_input (ae_float_repr env) code_rule ''code'' body of
          Inl m \<Rightarrow> Inl m
        | Inr r \<Rightarrow> if filter (\<lambda>c. c \<noteq> CHR ''-'') (get_or r []) \<noteq> [] \<and>
                       list_all is_alnum (filter (\<lambda>c. c \<noteq> CHR ''-'') (get_or r [])) then Inr r
                    else Inl ''Invalid code format.''))]"

definition mfa_verify_view :: "'s redis \<Rightarrow> auth_env \<Rightarrow> totp_env \<Rightarrow> web_request \<Rightarrow> ('s web, api_reply) prog" where
  "mfa_verify_view R env te rq =
     (let fs = mfa_verify_fields env (wr_data rq) in
      if field_errors fs \<noteq> [] then rret (Failure 400 ''validation_error'' (field_errors fs))
      else rbind (mfa_verify R env te rq (field_of fs ''mfa_token'') (field_of fs ''code'')) (\<lambda>r. case r of
        Inl e \<Rightarrow> rret (Failure (if e = ''rate_limited'' then 429 else 400) e [])
      | Inr (backup, access, refresh) \<Rightarrow>
          rret (Success 200 [(''access_token'', JStr access), (''refresh_token'', JStr refresh)])))"

subsection \<open>Disabling\<close>

definition disable_rows :: "auth_env \<Rightarrow> user \<Rightarrow> db1 \<Rightarrow> db1 res" where
  "disable_rows env u d =
     audit_from (ae_is_ip env) None ''MFA_DISABLED'' (Some u) None [] [] True
       (d\<lparr>d_devices := drop_row otp_user (usr_id u) (d_devices d),
          d_backup_codes := filter (\<lambda>b. bkc_user b \<noteq> usr_id u) (d_backup_codes d)\<rparr>)"

definition mfa_disable ::
  "auth_env \<Rightarrow> totp_env \<Rightarrow> user \<Rightarrow> string \<Rightarrow> string option \<Rightarrow> db1 \<Rightarrow> string option \<times> db1" where
  "mfa_disable env te u password code d =
     (if \<not> ae_check_password env password (usr_password u) then (Some ''wrong_password'', d)
      else case confirmed_device u d of
        None \<Rightarrow> (Some ''mfa_not_enabled'', d)
      | Some dev \<Rightarrow>
          (case nonempty code of
             None \<Rightarrow> (Some ''code_required'', d)
           | Some c \<Rightarrow>
               if \<not> te_verify te (otp_secret_key dev) c then (Some ''invalid_code'', d)
               else case disable_rows env u d of Inl e \<Rightarrow> (Some ''mfa_error'', d) | Inr d' \<Rightarrow> (None, d')))"

definition mfa_disable_view :: "'s redis \<Rightarrow> auth_env \<Rightarrow> totp_env \<Rightarrow> web_request \<Rightarrow> ('s web, api_reply) prog" where
  "mfa_disable_view R env te rq =
     rbind (signed_in_user R env rq) (\<lambda>si.
     (let p = char_input (ae_float_repr env) plain_rule ''password'' (wr_data rq);
          c = (case char_input (ae_float_repr env) (code_rule\<lparr>cr_required := False\<rparr>) ''code'' (wr_data rq) of
                 Inl m \<Rightarrow> Inl m
               | Inr None \<Rightarrow> Inr None
               | Inr (Some s) \<Rightarrow> if filter (\<lambda>c. c \<noteq> CHR ''-'') s \<noteq> [] \<and> list_all is_alnum (filter (\<lambda>c. c \<noteq> CHR ''-'') s)
                                then Inr (Some s) else Inl ''Invalid code format.'');
          errs = field_errors [(''password'', p), (''code'', c)]
      in if errs \<noteq> [] then rret (Failure 400 ''validation_error'' errs)
         else rbind (on_db (\<lambda>d. map_prod Inr id
                (mfa_disable env te (si_user si) (field_text p) (case c of Inr x \<Rightarrow> x | Inl _ \<Rightarrow> None) d))) (\<lambda>e.
           case e of
             None \<Rightarrow> rret (Success 200 [])
           | Some x \<Rightarrow> rret (Failure (if x = ''mfa_error'' then 500 else 400)
                          (if x = ''wrong_password'' then ''auth_error''
                           else if x = ''code_required'' then ''mfa_code_required'' else x) []))))"

end
