(* ===== verification/Auth_Spec.thy ===== *)
theory Auth_Spec
  imports Auth
begin

text \<open>
  What signing in promises: the login limiter, the rotation of refresh tokens with the detection of reuse,
  and what a bearer token depends on.
\<close>

subsection \<open>Counting failures\<close>

definition counter :: "kv \<Rightarrow> string \<Rightarrow> int \<Rightarrow> bool" where
  "counter m k n \<longleftrightarrow> m k = None \<and> n = 0 \<or> m k = Some (Num (of_int n))"

definition login_counters :: "kv \<Rightarrow> string \<Rightarrow> string \<Rightarrow> int \<Rightarrow> bool" where
  "login_counters m email ip n \<longleftrightarrow> counter m (login_ip_key ip) n \<and>
     counter m (login_combined_key email ip) n \<and> counter m (login_email_key email) n"

definition counted :: "string \<Rightarrow> string \<Rightarrow> int \<Rightarrow> kv \<Rightarrow> kv" where
  "counted email ip n m = m(login_ip_key ip \<mapsto> Num (of_int n), login_combined_key email ip \<mapsto> Num (of_int n),
     login_email_key email \<mapsto> Num (of_int n))"

lemma login_keys_differ [simp]:
  "login_ip_key ip \<noteq> login_combined_key email ip'" "login_ip_key ip \<noteq> login_email_key email"
  "login_combined_key email ip \<noteq> login_email_key email'" "login_combined_key email ip \<noteq> login_ip_key ip'"
  "login_email_key email \<noteq> login_ip_key ip" "login_email_key email' \<noteq> login_combined_key email ip"
  by (simp_all add: login_ip_key_def login_combined_key_def login_email_key_def)

lemma counted_counters: "login_counters (counted email ip n m) email ip n"
  by (simp add: login_counters_def counted_def counter_def)

lemma count_of_counter: "counter m k n \<Longrightarrow> count_of (m k) = Inr n"
  by (auto simp: counter_def count_of_def)

text \<open>The serializer reads the users and the tenants, which a failed attempt leaves alone.\<close>

lemma validate_login_frame:
  "d_users d' = d_users d \<Longrightarrow> d_tenants d' = d_tenants d \<Longrightarrow>
   validate_login env email password d' = validate_login env email password d"
proof -
  assume eq: "d_users d' = d_users d" "d_tenants d' = d_tenants d"
  then have act: "is_tenant_active u d' = is_tenant_active u d" for u
    by (simp add: is_tenant_active_def user_tenant_def tenant_by_id_def)
  show ?thesis by (simp only: validate_login_def user_by_email_def act eq)
qed

lemma login_serializer_frame:
  "d_users d' = d_users d \<Longrightarrow> d_tenants d' = d_tenants d \<Longrightarrow>
   login_serializer env body d' = login_serializer env body d"
proof -
  assume eq: "d_users d' = d_users d" "d_tenants d' = d_tenants d"
  show ?thesis unfolding login_serializer_def validate_login_frame [OF eq] by (rule refl)
qed

definition after_failure :: "auth_env \<Rightarrow> string \<Rightarrow> (string \<times> string) list \<Rightarrow> db1 \<Rightarrow> db1" where
  "after_failure env email errs d =
     audit ''LOGIN_FAILED'' None None email [] False (resend_if_unverified env email errs d)"

lemma after_failure_frame:
  "d_users (after_failure env email errs d) = d_users d"
  "d_tenants (after_failure env email errs d) = d_tenants d"
  by (simp_all add: after_failure_def audit_def resend_if_unverified_def handle_unverified_login_def
      renew_verification_def split: option.splits)

context live_redis begin

lemma yields_count: "counter m k n \<Longrightarrow> yields (read_count R k) m n m"
  unfolding read_count_def
  by (rule yields_bind [OF yields_get [OF refl]]) (simp add: count_of_counter yields_def)

lemma yields_not_blocked:
  assumes "login_counters m email ip n" "n < 5"
  shows "yields (is_login_blocked R email ip) m None m"
proof -
  from assms have c: "counter m (login_ip_key ip) n" "counter m (login_combined_key email ip) n"
    "counter m (login_email_key email) n" and le: "\<not> 20 \<le> n" "\<not> 5 \<le> n" "\<not> 50 \<le> n"
    by (simp_all add: login_counters_def)
  show ?thesis
    unfolding is_login_blocked_def
    by (rule yields_bind [OF yields_count [OF c(1)]], simp only: le if_False,
        rule yields_bind [OF yields_count [OF c(2)]], simp only: le if_False,
        rule yields_bind [OF yields_count [OF c(3)]], simp only: le if_False, rule yields_ret [OF refl])
qed

lemma yields_blocked:
  assumes "login_counters m email ip 5"
  shows "yields (is_login_blocked R email ip) m (Some ''Too many failed attempts. Please try again later.'') m"
proof -
  from assms have c: "counter m (login_ip_key ip) 5" "counter m (login_combined_key email ip) 5"
    by (simp_all add: login_counters_def)
  have le: "\<not> 20 \<le> (5 :: int)" "5 \<le> (5 :: int)" by simp_all
  show ?thesis
    unfolding is_login_blocked_def
    by (rule yields_bind [OF yields_count [OF c(1)]], simp only: le if_False,
        rule yields_bind [OF yields_count [OF c(2)]], simp only: le if_True, rule yields_ret [OF refl])
qed

lemma yields_incr_counter:
  "counter m k n \<Longrightarrow> yields (r_incr R k) m (n + 1) (m(k \<mapsto> Num (of_int (n + 1))))"
  by (rule yields_incr) (auto simp: counter_def)

lemma yields_increment:
  assumes "login_counters m email ip n"
  shows "yields (increment_login_failure R email ip) m (n + 1) (counted email ip (n + 1) m)"
proof -
  let ?v = "Num (of_int (n + 1))"
  let ?m1 = "m(login_ip_key ip \<mapsto> ?v)"
  let ?m2 = "?m1(login_combined_key email ip \<mapsto> ?v)"
  let ?m3 = "?m2(login_email_key email \<mapsto> ?v)"
  have c: "counter m (login_ip_key ip) n" "counter ?m1 (login_combined_key email ip) n"
    "counter ?m2 (login_email_key email) n"
    using assms by (simp_all add: login_counters_def counter_def)
  have ex: "yields (if b then r_expire R k t else rret ()) m' () m'" for b k t m'
    by (simp add: yields_expire yields_ret)
  show ?thesis
    unfolding increment_login_failure_def counted_def
    by (rule yields_bind [OF yields_incr_counter [OF c(1)]], rule yields_bind [OF ex],
        rule yields_bind [OF yields_incr_counter [OF c(2)]], rule yields_bind [OF yields_expire],
        rule yields_bind [OF yields_incr_counter [OF c(3)]], rule yields_bind [OF ex], rule yields_ret [OF refl])
qed

lemma runs_failed_login:
  assumes email: "login_email (wr_data rq) = Inr email" "length email \<le> 254"
    and ip: "ae_is_ip env (get_client_ip rq)"
    and wrong: "login_serializer env (wr_data rq) d = Inl errs"
    and few: "login_counters m email (get_client_ip rq) n" "n < 5"
  shows "runs (login_view R env rq) m d (Inr (Failure 401 ''auth_error'' errs))
           (counted email (get_client_ip rq) (n + 1) m) (after_failure env email errs d)"
proof -
  let ?d1 = "resend_if_unverified env email errs d"
  have logged: "audit_from (ae_is_ip env) (Some (get_client_ip rq)) ''LOGIN_FAILED'' None None email [] False ?d1 =
      Inr (after_failure env email errs d)"
    using email ip by (simp add: audit_from_def after_failure_def)
  show ?thesis
    unfolding login_view_def Let_def email
    by (rule runs_lift_bind, rule runs_redis_bind [OF yields_not_blocked [OF few]], unfold option.case,
        rule runs_read_bind, unfold wrong sum.case, rule runs_write_bind [OF refl],
        unfold record_login_failure_def, rule runs_redis_bind [OF yields_increment [OF few(1)]],
        rule runs_write_bind, rule logged, rule runs_ret)
qed

lemma runs_refused_login:
  assumes "login_email (wr_data rq) = Inr email" "login_counters m email (get_client_ip rq) 5"
  shows "runs (login_view R env rq) m d (Inl (NeuralOpsError 429 ''rate_limit'')) m d"
  unfolding login_view_def Let_def assms(1)
  by (rule runs_lift_bind, rule runs_redis_bind [OF yields_blocked [OF assms(2)]]) (simp add: runs_fail)

text \<open>The state after \<open>n\<close> equal attempts that fail.\<close>

lemma failed_attempts:
  assumes email: "login_email (wr_data rq) = Inr email" "length email \<le> 254"
    and ip: "ae_is_ip env (get_client_ip rq)"
    and wrong: "login_serializer env (wr_data rq) d = Inl errs"
    and fresh: "login_counters (view s) email (get_client_ip rq) 0"
  shows "\<exists>s' d'. ((\<lambda>w. snd (login_view R env rq w)) ^^ n) (s, d) = (s', d') \<and>
     login_counters (view s') email (get_client_ip rq) (int (min n 5)) \<and>
     d_users d' = d_users d \<and> d_tenants d' = d_tenants d"
proof (induction n)
  case 0
  show ?case using fresh by simp
next
  case (Suc n)
  then obtain s1 d1 where IH: "((\<lambda>w. snd (login_view R env rq w)) ^^ n) (s, d) = (s1, d1)"
    "login_counters (view s1) email (get_client_ip rq) (int (min n 5))" "d_users d1 = d_users d"
    "d_tenants d1 = d_tenants d" by blast
  show ?case
  proof (cases "n < 5")
    case True
    then have c: "login_counters (view s1) email (get_client_ip rq) (int n)" "int n < 5" using IH(2) by simp_all
    have w: "login_serializer env (wr_data rq) d1 = Inl errs" using login_serializer_frame [OF IH(3,4)] wrong by simp
    obtain s2 where s2: "login_view R env rq (s1, d1) =
        (Inr (Failure 401 ''auth_error'' errs), (s2, after_failure env email errs d1))"
      "view s2 = counted email (get_client_ip rq) (int n + 1) (view s1)"
      by (rule runsD [OF runs_failed_login [OF email ip w c]])
    have run: "((\<lambda>w. snd (login_view R env rq w)) ^^ Suc n) (s, d) = (s2, after_failure env email errs d1)"
      by (simp add: IH(1) s2(1))
    have "int (min (Suc n) 5) = int n + 1" using True by simp
    then have "login_counters (view s2) email (get_client_ip rq) (int (min (Suc n) 5))"
      by (simp only: s2(2) counted_counters)
    then show ?thesis using run IH(3,4) after_failure_frame by metis
  next
    case False
    then have c: "login_counters (view s1) email (get_client_ip rq) 5" using IH(2) by simp
    from runs_refused_login [OF email(1) c]
    obtain s2 where "login_view R env rq (s1, d1) = (Inl (NeuralOpsError 429 ''rate_limit''), (s2, d1))"
      "view s2 = view s1" by (rule runsD)
    then show ?thesis using IH c False by simp
  qed
qed

lemma limited:
  assumes email: "login_email (wr_data rq) = Inr email" "length email \<le> 254"
    and ip: "ae_is_ip env (get_client_ip rq)"
    and wrong: "login_serializer env (wr_data rq) d = Inl errs"
    and fresh: "login_counters (view s) email (get_client_ip rq) 0"
    and w: "w = ((\<lambda>w. snd (login_view R env rq w)) ^^ n) (s, d)"
    and other: "login_email (wr_data rq') = Inr email" "get_client_ip rq' = get_client_ip rq"
  shows "n < 5 \<Longrightarrow> fst (login_view R env rq w) = Inr (Failure 401 ''auth_error'' errs)"
    "5 \<le> n \<Longrightarrow> fst (login_view R env' rq' w) = Inl (NeuralOpsError 429 ''rate_limit'') \<and>
       snd (snd (login_view R env' rq' w)) = snd w"
proof -
  from failed_attempts [OF email ip wrong fresh, where n = n] w
  obtain s1 d1 where w1: "w = (s1, d1)" and c: "login_counters (view s1) email (get_client_ip rq) (int (min n 5))"
    and d1: "d_users d1 = d_users d" "d_tenants d1 = d_tenants d" by metis
  show "fst (login_view R env rq w) = Inr (Failure 401 ''auth_error'' errs)" if "n < 5"
  proof -
    have c': "login_counters (view s1) email (get_client_ip rq) (int n)" "int n < 5" using c that by simp_all
    have "login_serializer env (wr_data rq) d1 = Inl errs" using login_serializer_frame [OF d1] wrong by simp
    from runs_failed_login [OF email ip this c'] obtain s2 where
      "login_view R env rq (s1, d1) = (Inr (Failure 401 ''auth_error'' errs), (s2, after_failure env email errs d1))"
      by (rule runsD)
    then show ?thesis using w1 by simp
  qed
  show "fst (login_view R env' rq' w) = Inl (NeuralOpsError 429 ''rate_limit'') \<and>
       snd (snd (login_view R env' rq' w)) = snd w" if "5 \<le> n"
  proof -
    have "login_counters (view s1) email (get_client_ip rq') 5" using c that other by simp
    from runs_refused_login [OF other(1) this] obtain s2 where
      "login_view R env' rq' (s1, d1) = (Inl (NeuralOpsError 429 ''rate_limit''), (s2, d1))" by (rule runsD)
    then show ?thesis using w1 by simp
  qed
qed

end

subsection \<open>Refresh tokens\<close>

definition names_session :: "(string \<times> json) list \<Rightarrow> uuid \<Rightarrow> string \<Rightarrow> uuid \<Rightarrow> bool" where
  "names_session kvs sid jti uid \<longleftrightarrow> is_uuid sid \<and> is_uuid uid \<and> map_of kvs ''sid'' = Some (JStr sid) \<and>
     map_of kvs ''jti'' = Some (JStr jti) \<and> map_of kvs ''user_id'' = Some (JStr uid)"

lemma names_sessionD:
  assumes "names_session kvs sid jti uid"
  shows "jget ''sid'' (JObj kvs) = JStr sid" "jget ''jti'' (JObj kvs) = JStr jti"
    "claimed_session (JStr sid) d = Inr (session_by_id sid d)"
    "claim_user (JObj kvs) d = (case user_by_id uid d of
        None \<Rightarrow> Inl (OtherError ''User.DoesNotExist'') | Some v \<Rightarrow> Inr v)"
  using assms by (simp_all add: names_session_def claimed_session_def claim_user_def)

lemma session_saved:
  assumes "session_by_id sid d = Some x" "ses_id y = ses_id x"
  shows "session_by_id sid (save_session now y d) = Some (y\<lparr>ses_last_activity_at := now\<rparr>)"
proof -
  have "ses_id x = sid" using assms(1) by (auto simp: session_by_id_def row_at_def find_Some_iff)
  moreover have "row_at ses_id sid (put_row ses_id (y\<lparr>ses_last_activity_at := now\<rparr>) rows) =
      Some (y\<lparr>ses_last_activity_at := now\<rparr>)" if "ses_id y = sid" for rows
    using that by (induction rows) simp_all
  ultimately show ?thesis using assms(2) by (simp add: session_by_id_def save_session_def)
qed

lemma plain_refresh: "plain (JObj (refresh_payload env u d sid))"
  by (cases "user_tenant u d") (simp_all add: refresh_payload_def jopt_def)

lemma save_session_users [simp]: "d_users (save_session now y d) = d_users d"
  by (simp add: save_session_def)

lemma user_by_id_frame: "d_users d' = d_users d \<Longrightarrow> user_by_id u d' = user_by_id u d"
  by (simp add: user_by_id_def)

lemma uuid_not_empty: "\<not> is_uuid []"
  by code_simp

lemma rbind_lift: "rbind (rlift (Inr x)) f = f x"
  by (simp add: rbind_def fun_eq_iff)

context live_redis begin

lemma runs_refresh:
  assumes "jw_verify (ae_jwt env) (ae_now env) token = Claims kvs" "names_session kvs sid jti uid"
    and "user_by_id uid d = Some u" "session_by_id sid d = Some x"
    and "runs (rotate R env (JObj kvs) u x) m d r m' d'"
  shows "runs (refresh_token R env token) m d r m' d'"
  unfolding refresh_token_def verify_token_def assms(1) jwt_answer.case
  by (rule runs_lift_bind, rule runs_read_bind, unfold names_sessionD [OF assms(2)] assms(3) option.case,
      rule runs_lift_bind, rule runs_read_bind, unfold names_sessionD [OF assms(2)] assms(4),
      rule runs_lift_bind, unfold option.case, rule assms(5))

lemma runs_rotate_revoked:
  "ses_is_revoked x \<Longrightarrow>
   runs (rotate R env (JObj kvs) u x) m d (Inl (validation_exception ''Session has been revoked'')) m d"
  by (simp add: rotate_def runs_fail)

lemma runs_rotate_reused:
  assumes "\<not> ses_is_revoked x" "ses_current_refresh_jti x \<noteq> jti" "names_session kvs sid jti uid"
  shows "runs (rotate R env (JObj kvs) u x) m d
           (Inl (validation_exception ''Token reuse detected. Session revoked.''))
           (m(blocklist_key sid \<mapsto> Text ''1'')) (save_session (ae_now env) (reuse_detected (ae_now env) x) d)"
proof -
  have t: "str_value (ae_float_repr env) (JStr sid) = sid" by (simp add: str_value_def)
  have b: "JStr (ses_current_refresh_jti x) \<noteq> JStr jti" using assms(2) by simp
  show ?thesis
    unfolding rotate_def names_sessionD [OF assms(3)] t if_not_P [OF assms(1)] if_P [OF b] blocklist_session_def
    by (rule runs_write_bind [OF refl], rule runs_redis_bind [OF yields_setex [OF refl]], rule runs_fail)
qed

lemma runs_rotate_current:
  assumes "\<not> ses_is_revoked x" "ses_current_refresh_jti x = jti" "names_session kvs sid jti uid"
    and codec: "jwt_codec (ae_jwt env)"
    and "length (ae_uuid env 1) \<le> 255"
  shows "\<exists>tokens. runs (rotate R env (JObj kvs) u x) m d (Inr tokens) m
           (save_session (ae_now env) (x\<lparr>ses_current_refresh_jti := ae_uuid env 1\<rparr>) d)"
proof -
  let ?a = "jw_encode (ae_jwt env) (access_payload env u d sid)"
  let ?r = "jw_encode (ae_jwt env) (refresh_payload env u d sid)"
  have t: "str_value (ae_float_repr env) (JStr sid) = sid" by (simp add: str_value_def)
  have j: "new_jti env ?r = Inr (ae_uuid env 1)"
    using assms(5) jwt_codec.peek_encode [OF codec plain_refresh]
    by (simp add: new_jti_def refresh_payload_def)
  have g: "runs (generate_tokens env u None (Some sid)) m d (Inr (?a, ?r)) m d"
    unfolding generate_tokens_def Let_def prod.case option.case get_or_def
    by (rule runs_ret_bind, rule runs_read)
  have "runs (rotate R env (JObj kvs) u x) m d (Inr (?a, ?r)) m
           (save_session (ae_now env) (x\<lparr>ses_current_refresh_jti := ae_uuid env 1\<rparr>) d)"
    unfolding rotate_def names_sessionD [OF assms(3)] t if_not_P [OF assms(1)] assms(2)
    by (simp only: simp_thms if_False, rule runs_bind [OF g], unfold prod.case j,
        rule runs_lift_bind, rule runs_write_bind [OF refl], rule runs_ret)
  then show ?thesis ..
qed

text \<open>Once a session is revoked no refresh token of it is taken any more.\<close>

lemma refresh_refused:
  assumes "jw_verify (ae_jwt env) (ae_now env) token = Claims kvs" "names_session kvs sid jti uid"
    and "session_by_id sid d = Some x" "ses_is_revoked x" "user_by_id uid d = Some u"
  shows "fst (refresh_token R env token (s, d)) = Inl (validation_exception ''Session has been revoked'')"
  using runs_refresh [OF assms(1,2,5,3) runs_rotate_revoked [OF assms(4)], of "view s"]
  by (auto elim: runsD)

lemma reused:
  assumes codec: "jwt_codec (ae_jwt env)"
    and tok: "jw_verify (ae_jwt env) (ae_now env) token = Claims kvs"
      "jw_verify (ae_jwt env') (ae_now env') token = Claims kvs"
    and names: "names_session kvs sid jti uid"
    and row: "user_by_id uid d = Some u" "session_by_id sid d = Some x" "\<not> ses_is_revoked x"
      "ses_current_refresh_jti x = jti"
    and new: "ae_uuid env 1 \<noteq> jti" "length (ae_uuid env 1) \<le> 255"
  shows "\<exists>tokens s1 d1 s2 d2 y.
    refresh_token R env token (s, d) = (Inr tokens, (s1, d1)) \<and>
    refresh_token R env' token (s1, d1) =
      (Inl (validation_exception ''Token reuse detected. Session revoked.''), (s2, d2)) \<and>
    view s2 (blocklist_key sid) \<noteq> None \<and> session_by_id sid d2 = Some y \<and> ses_is_revoked y \<and> d_users d2 = d_users d"
proof -
  let ?x1 = "x\<lparr>ses_current_refresh_jti := ae_uuid env 1\<rparr>"
  let ?y1 = "?x1\<lparr>ses_last_activity_at := ae_now env\<rparr>"
  let ?d1 = "save_session (ae_now env) ?x1 d"
  from runs_rotate_current [OF row(3,4) names codec new(2)]
  obtain tokens where "runs (rotate R env (JObj kvs) u x) (view s) d (Inr tokens) (view s) ?d1" by blast
  from runs_refresh [OF tok(1) names row(1,2) this] obtain s1 where
    s1: "refresh_token R env token (s, d) = (Inr tokens, (s1, ?d1))" "view s1 = view s" by (rule runsD)
  have x1: "session_by_id sid ?d1 = Some ?y1" by (rule session_saved [OF row(2)]) simp
  have u1: "user_by_id uid ?d1 = Some u" using row(1) by (simp add: user_by_id_frame [OF save_session_users])
  have "\<not> ses_is_revoked ?y1" "ses_current_refresh_jti ?y1 \<noteq> jti" using row(3) new(1) by simp_all
  from runs_refresh [OF tok(2) names u1 x1 runs_rotate_reused [OF this names]] obtain s2 where
    s2: "refresh_token R env' token (s1, ?d1) =
        (Inl (validation_exception ''Token reuse detected. Session revoked.''),
         (s2, save_session (ae_now env') (reuse_detected (ae_now env') ?y1) ?d1))"
      "view s2 = (view s1)(blocklist_key sid \<mapsto> Text ''1'')" by (rule runsD)
  have y: "session_by_id sid (save_session (ae_now env') (reuse_detected (ae_now env') ?y1) ?d1) =
      Some (reuse_detected (ae_now env') ?y1\<lparr>ses_last_activity_at := ae_now env'\<rparr>)"
    by (rule session_saved [OF x1]) (simp add: reuse_detected_def)
  have "ses_is_revoked (reuse_detected (ae_now env') ?y1\<lparr>ses_last_activity_at := ae_now env'\<rparr>)"
    by (simp add: reuse_detected_def)
  moreover have "view s2 (blocklist_key sid) \<noteq> None" using s2(2) by simp
  moreover have "d_users (save_session (ae_now env') (reuse_detected (ae_now env') ?y1) ?d1) = d_users d" by simp
  ultimately show ?thesis using s1(1) s2(1) y by blast
qed

text \<open>What decides about a bearer token.\<close>

lemma bearer:
  assumes "wr_authorization rq = Some (''Bearer '' @ token)" "CHR '' '' \<notin> set token"
    and "jw_verify (ae_jwt env) (ae_now env) token = Claims kvs" "names_session kvs sid jti uid"
  shows "fst (authenticate R env rq (s, d)) =
    (if view s (blocklist_key sid) \<noteq> None then Inl (authentication_failed ''Session has been revoked'')
     else case user_by_id uid d of None \<Rightarrow> Inl (authentication_failed ''Invalid token'')
          | Some u \<Rightarrow> Inr (Some \<lparr>si_user = u, si_claims = JObj kvs\<rparr>))"
proof -
  have tok: "bearer_token (''Bearer '' @ token) = token"
    using assms(2) by (auto simp: bearer_token_def takeWhile_eq_all_conv)
  have sid: "sid \<noteq> []" using assms(4) uuid_not_empty by (auto simp: names_session_def)
  obtain s1 where g: "r_get R (blocklist_key sid) s = (Inr (view s (blocklist_key sid)), s1)" using get_up by blast
  obtain s2 where e: "r_setex R (activity_key sid) 604800 (Text (isoformat (ae_now env))) s1 = (Inr (), s2)"
    using setex_up by blast
  have v: "verify_token env (bearer_token (''Bearer '' @ token)) = Inr (JObj kvs)"
    unfolding tok verify_token_def assms(3) by simp
  have bear: "prefix ''Bearer '' (''Bearer '' @ token)" by simp
  have A: "authenticate R env rq = as_refusal (rbind (authenticate_claims R env (JObj kvs)) (\<lambda>x. rret (Some x)))"
    unfolding authenticate_def Let_def assms(1) get_or_def option.case v
    by (simp only: bear simp_thms if_False rbind_lift)
  have t: "truthy (JStr sid)" "str_value (ae_float_repr env) (JStr sid) = sid"
    using sid by (simp_all add: str_value_def)
  show ?thesis
    unfolding A authenticate_claims_def Let_def names_sessionD(1) [OF assms(4)] t if_True
    using g e sid by (simp add: as_refusal_def rbind_def is_session_revoked_def update_session_activity_def
        rret_def authentication_failed_def names_sessionD(4) [OF assms(4)] split: option.splits)
qed

end

text \<open>The rows of the sessions decide nothing about a bearer token, whatever becomes of them.\<close>

lemma claims_ignore_sessions:
  "authenticate_claims R env claims (s, d\<lparr>d_sessions := xs\<rparr>) =
   (case authenticate_claims R env claims (s, d) of (r, (s', d')) \<Rightarrow> (r, (s', d'\<lparr>d_sessions := xs\<rparr>)))"
  by (simp add: authenticate_claims_def Let_def rbind_def claim_user_def user_by_id_def rret_def
      split: prod.splits sum.splits)

subsection \<open>An account\<close>

definition acme_owner_id :: uuid where
  "acme_owner_id = ''00000000-0000-0000-0000-0000000000c1''"

definition acme_session_id :: uuid where
  "acme_session_id = ''00000000-0000-0000-0000-0000000000c2''"

lemma acme_ids: "is_uuid acme_owner_id" "is_uuid acme_session_id"
  by code_simp+

definition acme_owner :: user where
  "acme_owner = \<lparr>usr_id = acme_owner_id, usr_email = ''a@b.c'', usr_tenant = None, usr_first_name = [],
     usr_last_name = [], usr_role = ''owner'', usr_is_active = True, usr_is_staff = False,
     usr_is_superuser = True, usr_is_superadmin = True, usr_email_verified = True,
     usr_profile_picture_key = None, usr_password = ''hash'', usr_created_at = 0\<rparr>"

definition acme_session :: user_session where
  "acme_session = \<lparr>ses_id = acme_session_id, ses_user = acme_owner_id, ses_tenant = None,
     ses_current_refresh_jti = ''old'', ses_device_name = [], ses_ip_address = ''10.0.0.1'',
     ses_user_agent = [], ses_is_active = True, ses_is_revoked = False, ses_revoked_at = None,
     ses_revoked_reason = [], ses_last_activity_at = 0, ses_created_at = 0, ses_expires_at = seconds 604800\<rparr>"

definition account_db :: db1 where
  "account_db = empty_db1\<lparr>d_users := [acme_owner], d_sessions := [acme_session]\<rparr>"

definition account_env :: auth_env where
  "account_env = \<lparr>ae_now = 0, ae_uuid = (\<lambda>_. ''new''), ae_secret = (\<lambda>_. ''s''), ae_jwt = hex_jwt,
     ae_check_password = (\<lambda>raw hash. raw = ''right''), ae_make_password = (\<lambda>raw. ''hash''),
     ae_password_ok = (\<lambda>_. True), ae_valid_email = (\<lambda>_. True), ae_normalize_email = (\<lambda>e. e),
     ae_is_ip = (\<lambda>_. True), ae_float_repr = (\<lambda>_. [])\<rparr>"

definition idle_redis :: mem where
  "idle_redis = \<lparr>m_store = (\<lambda>_. None), m_now = 0, m_fail = []\<rparr>"

lemma idle_view: "mem_view idle_redis k = None"
  by (simp add: idle_redis_def mem_view_def)

definition account_claims :: "(string \<times> json) list" where
  "account_claims = [(''jti'', JStr ''old''), (''sid'', JStr acme_session_id), (''user_id'', JStr acme_owner_id),
     (''exp'', JInt 604800), (''type'', JStr ''refresh'')]"

lemma account_token:
  "jw_verify (ae_jwt account_env) (ae_now account_env) (hex_token account_claims) = Claims account_claims"
  using hex_jwt.verify_encode [of account_claims 604800 0]
  by (simp add: account_env_def account_claims_def seconds_def hex_jwt_def)

lemma account_names: "names_session account_claims acme_session_id ''old'' acme_owner_id"
  by (simp add: names_session_def account_claims_def acme_ids)

lemma account_rows:
  "user_by_id acme_owner_id account_db = Some acme_owner"
  "session_by_id acme_session_id account_db = Some acme_session"
  "\<not> ses_is_revoked acme_session" "ses_current_refresh_jti acme_session = ''old''"
  "jwt_codec (ae_jwt account_env)" "ae_uuid account_env 1 = ''new''"
  by (simp_all add: account_db_def empty_db1_def user_by_id_def session_by_id_def acme_owner_def acme_session_def
      account_env_def hex_jwt.jwt_codec_axioms)

definition guess :: "string \<Rightarrow> web_request" where
  "guess p = \<lparr>wr_forwarded = None, wr_remote = ''10.0.0.9'', wr_agent = None, wr_authorization = None,
     wr_data = JObj [(''email'', JStr ''a@b.c''), (''password'', JStr p)]\<rparr>"

lemma guess_facts:
  "login_email (wr_data (guess p)) = Inr ''a@b.c''" "get_client_ip (guess p) = ''10.0.0.9''"
  "ae_is_ip account_env (get_client_ip (guess p))"
  by (simp_all add: guess_def login_email_def get_default_def lower_def lower_char_def get_client_ip_def
      account_env_def nonempty_def)

subsection \<open>The properties\<close>

text \<open>Attempts to log in that fail are answered 401 and counted: as long as no key
  expires, the first five attempts for an address from one client are judged by the serializer, and from the
  sixth on every attempt for that address from that client is refused with 429, whatever it brings, and changes
  no table.  (The server answers, the counters are absent at the start, the address fits its column and the
  client's address is one.)\<close>

theorem guessing_limited:
  assumes "live_redis R view"
    and "login_email (wr_data rq) = Inr email" "length email \<le> 254" "ae_is_ip env (get_client_ip rq)"
    and "login_serializer env (wr_data rq) d = Inl errs"
    and "login_counters (view s) email (get_client_ip rq) 0"
    and "w = ((\<lambda>w. snd (login_view R env rq w)) ^^ n) (s, d)"
    and "login_email (wr_data rq') = Inr email" "get_client_ip rq' = get_client_ip rq"
  shows "(n < 5 \<longrightarrow> fst (login_view R env rq w) = Inr (Failure 401 ''auth_error'' errs)) \<and>
    (5 \<le> n \<longrightarrow> fst (login_view R env' rq' w) = Inl (NeuralOpsError 429 ''rate_limit'') \<and>
               snd (snd (login_view R env' rq' w)) = snd w)"
  using live_redis.limited [OF assms] by blast

lemma guessing_limited_witness:
  "fst (login_view live account_env (guess ''right'')
     (((\<lambda>w. snd (login_view live account_env (guess ''wrong'') w)) ^^ 5) (idle_redis, account_db))) =
   Inl (NeuralOpsError 429 ''rate_limit'')"
proof -
  have wrong: "login_serializer account_env (wr_data (guess ''wrong'')) account_db =
      Inl [(''password'', ''Invalid email or password.'')]"
    by code_simp
  have fresh: "login_counters (mem_view idle_redis) ''a@b.c'' (get_client_ip (guess ''wrong'')) 0"
    by (simp add: login_counters_def counter_def idle_view)
  show ?thesis
    using guessing_limited [OF live.live_redis_axioms guess_facts(1) _ guess_facts(3) wrong fresh refl guess_facts(1),
        where n = 5 and env' = account_env] guess_facts(2) by simp
qed

text \<open>C38: a refresh token is good for one rotation.  Presented again it is refused, its
  session is revoked in the table and on the blocklist, and from then on every refresh token of that session
  is refused, the one of the rotation included, as long as the row stays.  (The server answers, PyJWT decodes
  what it has encoded, and the new token has another identifier.)\<close>

theorem reuse_revokes_session:
  assumes "live_redis R view"
    and "jwt_codec (ae_jwt env)"
    and "jw_verify (ae_jwt env) (ae_now env) token = Claims kvs"
      "jw_verify (ae_jwt env') (ae_now env') token = Claims kvs"
    and "names_session kvs sid jti uid"
    and "user_by_id uid d = Some u" "session_by_id sid d = Some x" "\<not> ses_is_revoked x"
      "ses_current_refresh_jti x = jti"
    and "ae_uuid env 1 \<noteq> jti" "length (ae_uuid env 1) \<le> 255"
  shows "\<exists>tokens s1 d1 s2 d2.
    refresh_token R env token (s, d) = (Inr tokens, (s1, d1)) \<and>
    refresh_token R env' token (s1, d1) =
      (Inl (validation_exception ''Token reuse detected. Session revoked.''), (s2, d2)) \<and>
    view s2 (blocklist_key sid) \<noteq> None \<and>
    (\<forall>env'' token'' kvs'' jti'' s3.
       jw_verify (ae_jwt env'') (ae_now env'') token'' = Claims kvs'' \<and> names_session kvs'' sid jti'' uid \<longrightarrow>
       fst (refresh_token R env'' token'' (s3, d2)) = Inl (validation_exception ''Session has been revoked''))"
proof -
  from live_redis.reused [OF assms]
  obtain tokens s1 d1 s2 d2 y where r:
    "refresh_token R env token (s, d) = (Inr tokens, (s1, d1))"
    "refresh_token R env' token (s1, d1) =
      (Inl (validation_exception ''Token reuse detected. Session revoked.''), (s2, d2))"
    "view s2 (blocklist_key sid) \<noteq> None" "session_by_id sid d2 = Some y" "ses_is_revoked y"
    "d_users d2 = d_users d" by blast
  have "user_by_id uid d2 = Some u" using assms(6) by (simp add: user_by_id_frame [OF r(6)])
  then have "fst (refresh_token R env'' token'' (s3, d2)) = Inl (validation_exception ''Session has been revoked'')"
    if "jw_verify (ae_jwt env'') (ae_now env'') token'' = Claims kvs''" "names_session kvs'' sid jti'' uid"
    for env'' token'' kvs'' jti'' s3
    using live_redis.refresh_refused [OF assms(1) that r(4,5)] by blast
  with r(1-3) show ?thesis by blast
qed

lemma reuse_revokes_session_witness:
  "\<exists>tokens w1 w2. refresh_token live account_env (hex_token account_claims) (idle_redis, account_db) = (Inr tokens, w1) \<and>
     refresh_token live account_env (hex_token account_claims) w1 =
       (Inl (validation_exception ''Token reuse detected. Session revoked.''), w2)"
  using reuse_revokes_session [OF live.live_redis_axioms account_rows(5) account_token account_token account_names
      account_rows(1-4), of idle_redis] account_rows(6) by fastforce

text \<open>A request with a bearer token that PyJWT verifies is signed in as the user the token
  names exactly when the blocklist holds no key of its session and the user exists: neither the type of the
  token nor the row of its session nor the activity of the account is consulted.\<close>

theorem bearer_decided:
  assumes "live_redis R view"
    and "wr_authorization rq = Some (''Bearer '' @ token)" "CHR '' '' \<notin> set token"
    and "jw_verify (ae_jwt env) (ae_now env) token = Claims kvs" "names_session kvs sid jti uid"
  shows "fst (authenticate R env rq (s, d)) =
    (if view s (blocklist_key sid) \<noteq> None then Inl (authentication_failed ''Session has been revoked'')
     else case user_by_id uid d of None \<Rightarrow> Inl (authentication_failed ''Invalid token'')
          | Some u \<Rightarrow> Inr (Some \<lparr>si_user = u, si_claims = JObj kvs\<rparr>))"
  by (rule live_redis.bearer [OF assms])


lemma bearer_decided_witness:
  "fst (authenticate live account_env ((guess [])\<lparr>wr_authorization := Some (''Bearer '' @ hex_token account_claims)\<rparr>)
     (idle_redis, account_db)) = Inr (Some \<lparr>si_user = acme_owner, si_claims = JObj account_claims\<rparr>)"
  using bearer_decided [OF live.live_redis_axioms _ _ account_token account_names,
      of "(guess [])\<lparr>wr_authorization := Some (''Bearer '' @ hex_token account_claims)\<rparr>" idle_redis account_db]
  by (simp add: hex_token_def to_hex_no_space idle_view account_rows del: dumps.simps)

text \<open>
  A refresh token is a bearer token like any other: it verifies for seven days, while the key that a log-out
  puts on the blocklist lives as long as the access token that asked for it, a quarter of an hour at most.
\<close>

lemma refresh_payload_names:
  assumes "is_uuid sid" "is_uuid (usr_id u)"
  shows "names_session (refresh_payload env u d sid) sid (ae_uuid env 1) (usr_id u)"
  using assms by (simp add: names_session_def refresh_payload_def)

theorem refresh_token_outlives_logout:
  assumes "live_redis R view" "jwt_codec (ae_jwt env)" "is_uuid sid" "is_uuid (usr_id u)"
    and issued: "token = jw_encode (ae_jwt env) (refresh_payload env0 u d0 sid)" "CHR '' '' \<notin> set token"
    and late: "ae_now env < seconds ((ae_now env0 + seconds (86400 * 7)) div 1000000)"
    and key_gone: "view s (blocklist_key sid) = None"
    and rq: "wr_authorization rq = Some (''Bearer '' @ token)" and user: "user_by_id (usr_id u) d = Some v"
  shows "\<exists>claims. fst (authenticate R env rq (s, d)) = Inr (Some \<lparr>si_user = v, si_claims = claims\<rparr>)"
proof -
  have "jw_verify (ae_jwt env) (ae_now env) token = Claims (refresh_payload env0 u d0 sid)"
    using jwt_codec.verify_encode [OF assms(2) plain_refresh, of env0 u d0 sid
        "(ae_now env0 + seconds (86400 * 7)) div 1000000" "ae_now env"] late issued(1)
    by (simp add: refresh_payload_def JWT_REFRESH_TOKEN_EXPIRE_DAYS_def)
  from live_redis.bearer [OF assms(1) rq issued(2) this refresh_payload_names [OF assms(3,4)]]
  show ?thesis using key_gone user by simp
qed

text \<open>
  Addresses are compared in lower case at every door but the one where they are stored: only a user whose
  stored address has no capital letter ever passes the serializer of the login.
\<close>

lemma lower_strip_lower: "lower (strip (lower e)) = strip (lower e)"
proof -
  have sub: "set (strip s) \<subseteq> set s" for s
    unfolding strip_def using set_dropWhileD by (fastforce dest: set_dropWhileD)
  have "lower_char (lower_char c) = lower_char c" for c
    by (simp add: lower_char_def Let_def)
  then have "lower_char c = c" if "c \<in> set (strip (lower e))" for c
    using subsetD [OF sub that] by (auto simp: lower_def)
  then show ?thesis unfolding lower_def [of "strip (lower e)"] by (simp add: map_idI)
qed

theorem only_lower_case_addresses_sign_in:
  assumes "login_serializer env body d = Inr u" shows "lower (usr_email u) = usr_email u"
proof -
  from assms obtain e p where "validate_login env e p d = Inr u"
    by (auto simp: login_serializer_def Let_def split: if_splits)
  then have "user_by_email (strip (lower e)) d = Some u"
    by (auto simp: validate_login_def split: option.splits if_splits)
  then have "usr_email u = strip (lower e)"
    by (auto simp: user_by_email_def row_at_def find_Some_iff)
  then show ?thesis by (simp add: lower_strip_lower)
qed

end
