(* ===== verification/Credentials_Spec.thy ===== *)
theory Credentials_Spec
  imports Credentials Auth_Spec
begin

text \<open>
  What the second factor and the password reset promise, and what they reveal.
\<close>

lemma rbind_InrE:
  assumes "rbind p f w = (Inr y, w')"
  obtains x w1 where "p w = (Inr x, w1)" "f x w1 = (Inr y, w')"
  using assms by (cases "p w"; cases "fst (p w)") (auto simp: rbind_def)

lemma read_db_eq: "read_db f w = (Inr (f (snd w)), w)"
  by (cases w) simp

lemma rbind_read: "rbind (read_db f) g w = g (f (snd w)) w"
  by (simp add: rbind_def read_db_eq)

lemma write_db_InrE:
  assumes "write_db f w = (Inr u, w')" obtains d' where "f (snd w) = Inr d'" "w' = (fst w, d')"
  using assms by (cases w) (auto split: sum.splits)

lemma on_redis_db: "on_redis p w = (r, w') \<Longrightarrow> snd w' = snd w \<and> p (fst w) = (r, fst w')"
  by (cases w) (auto split: prod.splits)

lemma audit_from_InrD:
  "audit_from is_ip ip a u t e x ok d = Inr d' \<Longrightarrow> \<exists>row. d' = d\<lparr>d_audit := d_audit d @ [row]\<rparr>"
  by (auto simp: audit_from_def audit_def Let_def split: if_splits)

subsection \<open>The second factor\<close>

text \<open>A session may be added, and rows of the log; the tables of the second factor stay.\<close>

definition same_factors :: "db1 \<Rightarrow> db1 \<Rightarrow> bool" where
  "same_factors d d' \<longleftrightarrow> d_mfa_tokens d' = d_mfa_tokens d \<and> d_backup_codes d' = d_backup_codes d \<and>
     d_devices d' = d_devices d \<and> d_users d' = d_users d"

lemma generate_tokens_factors:
  assumes "generate_tokens env u rq sid w = (Inr x, w')" shows "same_factors (snd w) (snd w')"
proof -
  obtain y w1 where p: "(case (rq, sid) of
      (Some q, None) \<Rightarrow> write_db (create_session env (new_session env q u (get_or sid (ae_uuid env 2))))
    | _ \<Rightarrow> rret ()) w = (Inr y, w1)" and r: "snd w' = snd w1"
    using assms unfolding generate_tokens_def Let_def
    by (auto elim!: rbind_InrE simp: read_db_eq split: prod.splits)
  have "same_factors (snd w) (snd w1)"
    using p by (auto simp: rret_def same_factors_def create_session_def split: option.splits if_splits
        elim!: write_db_InrE)
  then show ?thesis by (simp add: r)
qed

lemma mfa_success_rows:
  assumes "mfa_success R env rq u token b w = (Inr x, w')"
  shows "\<exists>access refresh. x = Inr (b, access, refresh)"
    "d_mfa_tokens (snd w') = drop_row mft_token token (d_mfa_tokens (snd w))"
    "d_backup_codes (snd w') = d_backup_codes (snd w)"
proof -
  from assms obtain y1 w1 y2 w2 y3 w3 y4 w4 where
    p1: "on_redis (reset_mfa_attempts R (usr_email u)) w = (Inr y1, w1)"
    and p2: "write_db (\<lambda>d. Inr (delete_mfa_token token d)) w1 = (Inr y2, w2)"
    and p3: "generate_tokens env u (Some rq) None w2 = (Inr y3, w3)"
    and p4: "write_db (audit_from (ae_is_ip env) (Some (first_hop_ip rq)) ''MFA_VERIFIED'' (Some u) None [] [] True) w3
      = (Inr y4, w4)"
    and p5: "(Inr (Inr (b, fst y3, snd y3)), w4) = (Inr x, w')"
    unfolding mfa_success_def by (auto elim!: rbind_InrE simp: rret_def split: prod.splits)
  have w1: "snd w1 = snd w" using on_redis_db [OF p1] by simp
  have w2: "snd w2 = delete_mfa_token token (snd w1)" by (rule write_db_InrE [OF p2]) simp
  obtain row where w4: "snd w4 = (snd w3)\<lparr>d_audit := d_audit (snd w3) @ [row]\<rparr>"
    by (rule write_db_InrE [OF p4]) (auto dest!: audit_from_InrD)
  have w': "w' = w4" using p5 by simp
  show "d_mfa_tokens (snd w') = drop_row mft_token token (d_mfa_tokens (snd w))"
    "d_backup_codes (snd w') = d_backup_codes (snd w)"
    using generate_tokens_factors [OF p3] by (simp_all add: w' w4 w2 w1 same_factors_def delete_mfa_token_def)
  show "\<exists>access refresh. x = Inr (b, access, refresh)" using p5 by auto
qed

lemma mfa_check_code_rows:
  assumes "mfa_check_code R env te rq u token code w = (Inr (Inr (b, tokens)), w')"
  shows "\<exists>dev. device_of u (snd w) = Some dev \<and> row_at mft_token token (d_mfa_tokens (snd w')) = None \<and>
    (if b then \<exists>c c'. first_backup_code u (snd w) = Some c \<and> ae_check_password env code (bkc_code_hash c) \<and>
                 row_at bkc_id (bkc_id c) (d_backup_codes (snd w')) = Some c' \<and> bkc_is_used c'
     else te_verify te (otp_secret_key dev) code)"
proof -
  let ?inc = "rbind (on_redis (increment_mfa_attempts R (usr_email u))) (\<lambda>_. rret (Inl ''invalid_code''))"
  have inc: "\<not> ?inc v = (Inr (Inr (b, tokens)), w')" for v
    by (auto elim!: rbind_InrE simp: rret_def)
  from assms obtain dev where dev: "device_of u (snd w) = Some dev"
    unfolding mfa_check_code_def rbind_read by (auto simp: rfail_def split: option.splits)
  show ?thesis
  proof (cases "te_verify te (otp_secret_key dev) code")
    case True
    with assms dev have run: "mfa_success R env rq u token False w = (Inr (Inr (b, tokens)), w')"
      unfolding mfa_check_code_def rbind_read by simp
    from mfa_success_rows(1) [OF run] have "\<not> b" by auto
    with mfa_success_rows(2) [OF run] dev True show ?thesis by auto
  next
    case False
    with assms dev obtain c where c: "first_backup_code u (snd w) = Some c"
      "ae_check_password env code (bkc_code_hash c)"
      unfolding mfa_check_code_def rbind_read using inc by (auto split: option.splits if_splits)
    with assms dev False obtain y w1 where
      p: "write_db (\<lambda>d. Inr (use_backup_code (ae_now env) c d)) w = (Inr y, w1)"
      and run: "mfa_success R env rq u token True w1 = (Inr (Inr (b, tokens)), w')"
      unfolding mfa_check_code_def rbind_read by (auto elim!: rbind_InrE)
    have w1: "snd w1 = use_backup_code (ae_now env) c (snd w)" by (rule write_db_InrE [OF p]) simp
    let ?c = "c\<lparr>bkc_is_used := True, bkc_used_at := Some (ae_now env)\<rparr>"
    from mfa_success_rows(1) [OF run] have b by auto
    have "d_backup_codes (snd w') = put_row bkc_id ?c (d_backup_codes (snd w))"
      using mfa_success_rows(3) [OF run] w1 by (simp add: use_backup_code_def)
    then have "row_at bkc_id (bkc_id c) (d_backup_codes (snd w')) = Some ?c"
      by simp
    with \<open>b\<close> c dev mfa_success_rows(2) [OF run] show ?thesis by auto
  qed
qed

lemma mfa_verify_rows:
  assumes "mfa_verify R env te rq token code (s, d) = (Inr (Inr (b, tokens)), w')"
  obtains t u n s1 where "row_at mft_token token (d_mfa_tokens d) = Some t" "mfa_token_is_valid (ae_now env) t"
    "user_by_id (mft_user t) d = Some u" "read_count R (mfa_attempts_key (usr_email u)) s = (Inr n, s1)" "n < 5"
    "mfa_check_code R env te rq u token code (s1, d) = (Inr (Inr (b, tokens)), w')"
proof -
  from assms obtain t where t: "row_at mft_token token (d_mfa_tokens d) = Some t"
    unfolding mfa_verify_def rbind_read by (auto simp: rret_def split: option.splits)
  have v: "mfa_token_is_valid (ae_now env) t"
    using assms t unfolding mfa_verify_def rbind_read
    by (rule_tac ccontr) (auto elim!: rbind_InrE simp: rret_def)
  with assms t obtain u where u: "user_by_id (mft_user t) d = Some u"
    unfolding mfa_verify_def rbind_read by (auto simp: rfail_def rbind_read split: option.splits)
  with assms t v obtain n w1 where
    n: "on_redis (read_count R (mfa_attempts_key (usr_email u))) (s, d) = (Inr n, w1)"
    and k: "(if 5 \<le> n then
        rbind (on_redis (r_setex R (mfa_locked_key (usr_email u)) (15 * 60) (Text ''1''))) (\<lambda>_. rret (Inl ''rate_limited''))
      else mfa_check_code R env te rq u token code) w1 = (Inr (Inr (b, tokens)), w')"
    unfolding mfa_verify_def rbind_read by (auto simp: rbind_read elim!: rbind_InrE)
  from k have lt: "n < 5" by (rule_tac ccontr) (auto elim!: rbind_InrE simp: rret_def)
  from on_redis_db [OF n] obtain s1 where w1: "w1 = (s1, d)"
    "read_count R (mfa_attempts_key (usr_email u)) s = (Inr n, s1)" by (cases w1) auto
  from k lt w1(1) have "mfa_check_code R env te rq u token code (s1, d) = (Inr (Inr (b, tokens)), w')" by simp
  from that [OF t v u w1(2) lt this] show thesis .
qed

context live_redis begin

lemma yields_reset_attempts: "yields (reset_mfa_attempts R email) m () (m(mfa_attempts_key email := None))"
  unfolding reset_mfa_attempts_def by (rule yields_delete_bind, rule yields_ret) simp

lemma runs_mfa_totp:
  assumes "row_at mft_token token (d_mfa_tokens d) = Some t" "mfa_token_is_valid (ae_now env) t"
    and "user_by_id (mft_user t) d = Some u" "counter m (mfa_attempts_key (usr_email u)) n" "n < 5"
    and "device_of u d = Some dev" "te_verify te (otp_secret_key dev) code"
    and "create_session env (new_session env rq u (ae_uuid env 2)) (delete_mfa_token token d) = Inr d1"
    and "audit_from (ae_is_ip env) (Some (first_hop_ip rq)) ''MFA_VERIFIED'' (Some u) None [] [] True d1 = Inr d2"
  shows "\<exists>tokens m'. runs (mfa_verify R env te rq token code) m d (Inr (Inr (False, tokens))) m' d2"
proof -
  let ?a = "jw_encode (ae_jwt env) (access_payload env u d1 (ae_uuid env 2))"
  let ?r = "jw_encode (ae_jwt env) (refresh_payload env u d1 (ae_uuid env 2))"
  let ?m = "m(mfa_attempts_key (usr_email u) := None)"
  have gen: "runs (generate_tokens env u (Some rq) None) ?m (delete_mfa_token token d) (Inr (?a, ?r)) ?m d1"
    unfolding generate_tokens_def Let_def prod.case option.case get_or_def
    by (rule runs_write_bind, rule assms(8), rule runs_read)
  have ok: "runs (mfa_success R env rq u token False) m d (Inr (Inr (False, ?a, ?r))) ?m d2"
    unfolding mfa_success_def
    by (rule runs_redis_bind [OF yields_reset_attempts], rule runs_write_bind [OF refl], rule runs_bind [OF gen],
        unfold prod.case, rule runs_write_bind, rule assms(9), rule runs_ret)
  have le: "\<not> 5 \<le> n" using assms(5) by simp
  have "runs (mfa_verify R env te rq token code) m d (Inr (Inr (False, ?a, ?r))) ?m d2"
    unfolding mfa_verify_def
    by (rule runs_read_bind, unfold assms(1) option.case, simp only: assms(2) simp_thms if_False,
        rule runs_read_bind, unfold assms(3) option.case, rule runs_redis_bind [OF yields_count [OF assms(4)]],
        unfold if_not_P [OF le] mfa_check_code_def, rule runs_read_bind, unfold assms(6) option.case
        if_P [OF assms(7)], rule ok)
  then show ?thesis by blast
qed

end

text \<open>C39: tokens are handed out for a temporary token only if it stands in the table, where the
  login puts it, and has not expired, fewer than five attempts are counted for its user, and the code is the one of the user's
  device or, where a backup code has been used, the first unused one, which is marked as used; and the
  temporary token is gone, so that it cannot be exchanged again.  (The server's replies are true.)\<close>

theorem mfa_exchange:
  assumes "mfa_verify R env te rq token code (s, d) = (Inr (Inr (b, tokens)), (s', d'))" "redis_server R view"
  shows "\<exists>t u dev n. row_at mft_token token (d_mfa_tokens d) = Some t \<and> ae_now env \<le> mft_expires_at t \<and>
    user_by_id (mft_user t) d = Some u \<and> device_of u d = Some dev \<and>
    count_of (view s (mfa_attempts_key (usr_email u))) = Inr n \<and> n < 5 \<and>
    (if b then \<exists>c c'. first_backup_code u d = Some c \<and> ae_check_password env code (bkc_code_hash c) \<and>
                 row_at bkc_id (bkc_id c) (d_backup_codes d') = Some c' \<and> bkc_is_used c'
     else te_verify te (otp_secret_key dev) code) \<and>
    row_at mft_token token (d_mfa_tokens d') = None \<and>
    (\<forall>te'' env'' rq'' code'' s''.
       mfa_verify R env'' te'' rq'' token code'' (s'', d') = (Inr (Inl ''invalid_token''), (s'', d')))"
proof -
  from mfa_verify_rows [OF assms(1)] obtain t u n s1 where r:
    "row_at mft_token token (d_mfa_tokens d) = Some t" "mfa_token_is_valid (ae_now env) t"
    "user_by_id (mft_user t) d = Some u" "read_count R (mfa_attempts_key (usr_email u)) s = (Inr n, s1)" "n < 5"
    "mfa_check_code R env te rq u token code (s1, d) = (Inr (Inr (b, tokens)), (s', d'))" .
  from mfa_check_code_rows [OF r(6), unfolded snd_conv] obtain dev where c: "device_of u d = Some dev"
    "row_at mft_token token (d_mfa_tokens d') = None"
    "if b then \<exists>c c'. first_backup_code u d = Some c \<and> ae_check_password env code (bkc_code_hash c) \<and>
                 row_at bkc_id (bkc_id c) (d_backup_codes d') = Some c' \<and> bkc_is_used c'
     else te_verify te (otp_secret_key dev) code" by auto
  from r(4) have "count_of (view s (mfa_attempts_key (usr_email u))) = Inr n"
    unfolding read_count_def
    by (auto elim!: rbind_InrE dest!: redis_server.get_ok [OF assms(2)])
  moreover have "mfa_verify R env'' te'' rq'' token code'' (s'', d') = (Inr (Inl ''invalid_token''), (s'', d'))"
    for te'' env'' rq'' code'' s''
    unfolding mfa_verify_def rbind_read using c(2) by (simp add: rret_def)
  ultimately show ?thesis using r(1,2,3,5) c by (auto simp: mfa_token_is_valid_def)
qed

context live_redis begin

lemma increment_returns:
  assumes "counter (view s) (mfa_attempts_key email) n"
  shows "\<exists>s'. increment_mfa_attempts R email s = (Inr (), s')"
proof -
  have "yields (increment_mfa_attempts R email) (view s) ()
      ((view s)(mfa_attempts_key email \<mapsto> Num (of_int (n + 1))))"
    unfolding increment_mfa_attempts_def
    by (rule yields_bind [OF yields_incr_counter [OF assms] yields_expire])
  then show ?thesis by (auto elim: yieldsE)
qed

end

definition mfa_case_db :: db1 where
  "mfa_case_db = account_db\<lparr>d_mfa_tokens := [\<lparr>mft_token = ''tmp'', mft_user = acme_owner_id, mft_expires_at = 10\<rparr>],
     d_devices := [\<lparr>otp_user = acme_owner_id, otp_secret_key = ''k'', otp_is_confirmed = True, otp_confirmed_at = None\<rparr>]\<rparr>"

definition mfa_case_totp :: totp_env where
  "mfa_case_totp = \<lparr>te_verify = (\<lambda>k c. c = ''123456''), te_secret = [], te_codes = [], te_hash = (\<lambda>_ c. c),
     te_uuid = (\<lambda>_. [])\<rparr>"

lemma mfa_exchange_witness:
  "\<exists>d'. row_at mft_token ''tmp'' (d_mfa_tokens mfa_case_db) \<noteq> None \<and> row_at mft_token ''tmp'' (d_mfa_tokens d') = None \<and>
     (\<exists>s' tokens. mfa_verify live account_env mfa_case_totp (guess []) ''tmp'' ''123456'' (idle_redis, mfa_case_db) =
        (Inr (Inr (False, tokens)), (s', d')))"
proof -
  have rows: "row_at mft_token ''tmp'' (d_mfa_tokens mfa_case_db) =
        Some \<lparr>mft_token = ''tmp'', mft_user = acme_owner_id, mft_expires_at = 10\<rparr>"
    "user_by_id acme_owner_id mfa_case_db = Some acme_owner"
    "device_of acme_owner mfa_case_db = Some \<lparr>otp_user = acme_owner_id, otp_secret_key = ''k'',
        otp_is_confirmed = True, otp_confirmed_at = None\<rparr>"
    by (simp_all add: mfa_case_db_def user_by_id_def device_of_def account_db_def empty_db1_def acme_owner_def)
  have now: "ae_now account_env = 0" by (simp add: account_env_def)
  have c: "counter (mem_view idle_redis) (mfa_attempts_key (usr_email acme_owner)) 0"
    by (simp add: counter_def idle_view)
  obtain d1 where d1: "create_session account_env (new_session account_env (guess []) acme_owner (ae_uuid account_env 2))
      (delete_mfa_token ''tmp'' mfa_case_db) = Inr d1"
    by (simp add: create_session_def new_session_def account_env_def session_by_id_def delete_mfa_token_def
        mfa_case_db_def account_db_def acme_session_def acme_session_id_def)
  have d2: "audit_from (ae_is_ip account_env) (Some (first_hop_ip (guess []))) ''MFA_VERIFIED'' (Some acme_owner) None [] [] True d1
      = Inr (audit ''MFA_VERIFIED'' (Some acme_owner) None [] [] True d1)"
    by (simp add: audit_from_def account_env_def acme_owner_def)
  obtain tokens m' where "live.runs (mfa_verify live account_env mfa_case_totp (guess []) ''tmp'' ''123456'')
      (mem_view idle_redis) mfa_case_db (Inr (Inr (False, tokens))) m' (audit ''MFA_VERIFIED'' (Some acme_owner) None [] [] True d1)"
    using live.runs_mfa_totp [OF rows(1) _ _ c _ rows(3) _ d1 d2] rows(2)
    by (fastforce simp: mfa_token_is_valid_def now mfa_case_totp_def)
  then obtain s' where run: "mfa_verify live account_env mfa_case_totp (guess []) ''tmp'' ''123456'' (idle_redis, mfa_case_db) =
      (Inr (Inr (False, tokens)), (s', audit ''MFA_VERIFIED'' (Some acme_owner) None [] [] True d1))"
    by (rule live.runsD)
  from mfa_exchange [OF run live.redis_server_axioms] run rows(1) show ?thesis by auto
qed

text \<open>
  Only the first unused backup code is compared: another code of the ten that the user has been given is
  refused and counts as a failed attempt.
\<close>

theorem later_backup_codes_refused:
  assumes "live_redis R view" "counter (view s) (mfa_attempts_key (usr_email u)) n"
    and "device_of u d = Some dev" "\<not> te_verify te (otp_secret_key dev) code"
    and "first_backup_code u d = Some b" "\<not> ae_check_password env code (bkc_code_hash b)"
  shows "fst (mfa_check_code R env te rq u token code (s, d)) = Inr (Inl ''invalid_code'')"
proof -
  from live_redis.increment_returns [OF assms(1,2)] obtain s'
    where "increment_mfa_attempts R (usr_email u) s = (Inr (), s')" by blast
  with assms(3-6) show ?thesis
    by (simp add: mfa_check_code_def rbind_read rbind_def rret_def)
qed


subsection \<open>Passwords and addresses\<close>

lemma put_row_other_token:
  assumes "distinct (map pwr_id rows)" "row_at pwr_token tok rows = Some r" "pwr_id r' = pwr_id r" "pwr_token r' = tok"
  shows "row_at pwr_token tok (put_row pwr_id r' rows) = Some r'"
  using assms
proof (induction rows)
  case Nil
  then show ?case by simp
next
  case (Cons x rows)
  show ?case
  proof (cases "pwr_token x = tok")
    case True
    with Cons.prems show ?thesis by simp
  next
    case False
    with Cons.prems have r: "row_at pwr_token tok rows = Some r" by simp
    have "r \<in> set rows" using row_at_Some [OF r] by blast
    with Cons.prems(1,3) have "pwr_id x \<noteq> pwr_id r'" by auto
    with Cons.IH [OF _ r Cons.prems(3,4)] Cons.prems(1) False show ?thesis by simp
  qed
qed

lemma user_after_save:
  "user_by_id x (save_user v d) = (if x = usr_id v then Some v else user_by_id x d)"
  by (simp add: user_by_id_def save_user_def)

lemma user_by_idD: "user_by_id x d = Some u \<Longrightarrow> usr_id u = x"
  by (auto simp: user_by_id_def row_at_def find_Some_iff)

lemma reset_runs:
  assumes "reset_password_view env rq w = (Inr (Success 200 []), w')"
  obtains tok r u where "char_input (ae_float_repr env) plain_rule ''token'' (wr_data rq) = Inr tok"
    "row_at pwr_token (get_or tok []) (d_resets (snd w)) = Some r" "reset_is_valid (ae_now env) r"
    "user_by_id (pwr_user r) (snd w) = Some u" "fst w' = fst w"
    "\<exists>row. snd w' = (save_password env u (field_of (both_passwords env (wr_data rq)) ''new_password'') (snd w))
       \<lparr>d_resets := put_row pwr_id (used_reset (ae_now env) r) (d_resets (snd w)), d_audit := d_audit (snd w) @ [row]\<rparr>"
proof -
  let ?fs = "both_passwords env (wr_data rq)"
  from assms obtain r where r: "reset_field env (wr_data rq) (snd w) = Inr r"
    unfolding reset_password_view_def rbind_read by (auto simp: Let_def rret_def split: sum.splits if_splits)
  from assms r obtain y w1 where
    run: "reset_password env r (field_of ?fs ''new_password'') w = (Inr y, w1)" and w': "w' = w1"
    unfolding reset_password_view_def rbind_read
    by (auto simp: Let_def rret_def elim!: rbind_InrE split: if_splits)
  from run obtain u where u: "user_by_id (pwr_user r) (snd w) = Some u"
    unfolding reset_password_def rbind_read by (auto simp: rfail_def split: option.splits)
  let ?d1 = "save_password env u (field_of ?fs ''new_password'') (snd w)"
  let ?d2 = "?d1\<lparr>d_resets := put_row pwr_id (used_reset (ae_now env) r) (d_resets ?d1)\<rparr>"
  from run u obtain y1 w2 where
    p1: "write_db (\<lambda>d. let d1 = save_password env u (field_of ?fs ''new_password'') d in
                  Inr (d1\<lparr>d_resets := put_row pwr_id (used_reset (ae_now env) r) (d_resets d1)\<rparr>)) w = (Inr y1, w2)"
    and p2: "write_db (password_completed env u) w2 = (Inr y, w1)"
    unfolding reset_password_def rbind_read by (auto elim!: rbind_InrE)
  have w2: "w2 = (fst w, ?d2)" by (rule write_db_InrE [OF p1]) (simp add: Let_def)
  obtain row where w1: "w1 = (fst w, ?d2\<lparr>d_audit := d_audit ?d2 @ [row]\<rparr>)"
    by (rule write_db_InrE [OF p2]) (auto simp: w2 password_completed_def dest!: audit_from_InrD)
  have same: "d_resets ?d1 = d_resets (snd w)" "d_audit ?d2 = d_audit (snd w)"
    by (simp_all add: save_password_def save_user_def Let_def)
  from r obtain tok where "char_input (ae_float_repr env) plain_rule ''token'' (wr_data rq) = Inr tok"
    "row_at pwr_token (get_or tok []) (d_resets (snd w)) = Some r" "reset_is_valid (ae_now env) r"
    by (auto simp: reset_field_def split: sum.splits option.splits if_splits)
  from that [OF this u] w' w1 same show thesis by auto
qed

text \<open>A password reset that is answered with success replaces the password of the user
  whose token was presented, leaves no session of that user in the table, changes no key of Redis, and the
  token is refused from then on.  (The primary keys of the reset rows are distinct.)\<close>

theorem reset_password_once:
  assumes "reset_password_view env rq (s, d) = (Inr (Success 200 []), (s', d'))" "distinct (map pwr_id (d_resets d))"
  shows "\<exists>r u. r \<in> set (d_resets d) \<and> reset_is_valid (ae_now env) r \<and> user_by_id (pwr_user r) d = Some u \<and>
    user_by_id (pwr_user r) d' = Some (u\<lparr>usr_password := ae_make_password env
      (field_of (both_passwords env (wr_data rq)) ''new_password'')\<rparr>) \<and>
    (\<forall>x \<in> set (d_sessions d'). ses_user x \<noteq> usr_id u) \<and> s' = s \<and>
    (\<forall>env' s''. ae_float_repr env' = ae_float_repr env \<longrightarrow>
       (\<exists>errs. reset_password_view env' rq (s'', d') = (Inr (Failure 400 ''validation_error'' errs), (s'', d'))))"
proof -
  from reset_runs [OF assms(1), unfolded fst_conv snd_conv] obtain tok r u row where R:
    "char_input (ae_float_repr env) plain_rule ''token'' (wr_data rq) = Inr tok"
    "row_at pwr_token (get_or tok []) (d_resets d) = Some r" "reset_is_valid (ae_now env) r"
    "user_by_id (pwr_user r) d = Some u" "s' = s"
    "d' = (save_password env u (field_of (both_passwords env (wr_data rq)) ''new_password'') d)
       \<lparr>d_resets := put_row pwr_id (used_reset (ae_now env) r) (d_resets d), d_audit := d_audit d @ [row]\<rparr>" by metis
  have id: "usr_id u = pwr_user r" using user_by_idD [OF R(4)] .
  have mem: "r \<in> set (d_resets d)" and tok: "pwr_token r = get_or tok []"
    using R(2) by (auto simp: row_at_def find_Some_iff)
  have "row_at pwr_token (get_or tok []) (d_resets d') = Some (used_reset (ae_now env) r)"
    using put_row_other_token [OF assms(2) R(2), of "used_reset (ae_now env) r"] tok
    by (simp add: R(6) used_reset_def)
  then have used: "reset_field env' (wr_data rq) d' = Inl ''Token has expired.''"
    if "ae_float_repr env' = ae_float_repr env" for env'
    using R(1) that by (simp add: reset_field_def reset_is_valid_def used_reset_def)
  have again: "\<exists>errs. reset_password_view env' rq (s'', d') = (Inr (Failure 400 ''validation_error'' errs), (s'', d'))"
    if "ae_float_repr env' = ae_float_repr env" for env' s''
    unfolding reset_password_view_def rbind_read using used [OF that] by (simp add: Let_def rret_def)
  have user: "user_by_id (pwr_user r) d' = Some (u\<lparr>usr_password := ae_make_password env
      (field_of (both_passwords env (wr_data rq)) ''new_password'')\<rparr>)"
    using user_after_save [of "pwr_user r" "u\<lparr>usr_password := _\<rparr>" d] id
    by (simp add: R(6) save_password_def Let_def user_by_id_def)
  have "\<forall>x \<in> set (d_sessions d'). ses_user x \<noteq> usr_id u"
    by (simp add: R(6) save_password_def Let_def)
  with mem R(3-5) user again show ?thesis by blast
qed

definition reset_case_db :: db1 where
  "reset_case_db = account_db\<lparr>d_resets := [\<lparr>pwr_id = ''r'', pwr_user = acme_owner_id, pwr_token = ''tok'',
     pwr_status = ''pending'', pwr_expires_at = 10, pwr_used_at = None, pwr_ip_address = None\<rparr>]\<rparr>"

definition reset_case_body :: "(string \<times> json) list" where
  "reset_case_body = [(''token'', JStr ''tok''), (''new_password'', JStr ''better-one''),
     (''new_password_confirm'', JStr ''better-one'')]"

definition reset_case_rq :: web_request where
  "reset_case_rq = (guess [])\<lparr>wr_data := JObj reset_case_body\<rparr>"

lemma reset_case_data: "wr_data reset_case_rq = JObj reset_case_body"
  by (simp add: reset_case_rq_def)

lemma char_input_text:
  "map_of kvs k = Some (JStr s) \<Longrightarrow> check_text c (strip s) = Inr t \<Longrightarrow> char_input f c k (JObj kvs) = Inr (Some t)"
  by (simp add: char_input_def)

lemma reset_case_texts:
  "check_text plain_rule (strip ''tok'') = Inr ''tok''"
  "check_text password_rule (strip ''better-one'') = Inr ''better-one''"
  by code_simp+

lemma reset_case_inputs:
  "char_input f plain_rule ''token'' (wr_data reset_case_rq) = Inr (Some ''tok'')"
  "char_input f password_rule ''new_password'' (wr_data reset_case_rq) = Inr (Some ''better-one'')"
  "char_input f password_rule ''new_password_confirm'' (wr_data reset_case_rq) = Inr (Some ''better-one'')"
  by (rule char_input_text [OF _ reset_case_texts(1), of reset_case_body "''token''" f, folded reset_case_data]
        char_input_text [OF _ reset_case_texts(2), of reset_case_body _ f, folded reset_case_data],
      simp add: reset_case_body_def)+

lemma reset_case_fields:
  "reset_field account_env (wr_data reset_case_rq) reset_case_db = Inr (hd (d_resets reset_case_db))"
  "field_errors (both_passwords account_env (wr_data reset_case_rq)) = []"
  "password_errors account_env (both_passwords account_env (wr_data reset_case_rq)) = []"
  by (simp_all add: reset_field_def both_passwords_def reset_case_inputs get_or_def password_errors_def field_of_def
      field_text_def reset_case_db_def reset_is_valid_def account_env_def)

lemma reset_password_once_witness:
  "\<exists>s' d'. reset_password_view account_env reset_case_rq (idle_redis, reset_case_db) =
      (Inr (Success 200 []), (s', d')) \<and> (\<forall>x \<in> set (d_sessions d'). ses_user x \<noteq> acme_owner_id)"
proof -
  have u: "user_by_id (pwr_user (hd (d_resets reset_case_db))) reset_case_db = Some acme_owner"
    by (simp add: reset_case_db_def user_by_id_def account_db_def acme_owner_def)
  have a: "password_completed account_env acme_owner d = Inr (audit ''PASSWORD_RESET_COMPLETED'' (Some acme_owner) None [] [] True d)" for d
    by (simp add: password_completed_def audit_from_def acme_owner_def)
  have "\<exists>s' d'. reset_password_view account_env reset_case_rq (idle_redis, reset_case_db) = (Inr (Success 200 []), (s', d'))"
    unfolding reset_password_view_def rbind_read snd_conv reset_case_fields(1)
    by (simp add: Let_def reset_case_fields(2,3) reset_password_def rbind_read u a rbind_def rret_def)
  then obtain s' d' where run: "reset_password_view account_env reset_case_rq (idle_redis, reset_case_db) =
      (Inr (Success 200 []), (s', d'))" by blast
  have ids: "distinct (map pwr_id (d_resets reset_case_db))" by (simp add: reset_case_db_def)
  from reset_password_once [OF run ids] u have "\<forall>x \<in> set (d_sessions d'). ses_user x \<noteq> acme_owner_id"
    by (auto simp: reset_case_db_def acme_owner_def)
  with run show ?thesis by blast
qed

text \<open>
  The sessions are gone, the tokens are not: a bearer token that was good before the reset is good after it,
  until it expires.
\<close>

theorem reset_keeps_bearer_tokens:
  assumes "live_redis R view" "reset_password_view env rq (s, d) = (Inr (Success 200 []), (s', d'))"
    and "wr_authorization rq' = Some (''Bearer '' @ token)" "CHR '' '' \<notin> set token"
    and "jw_verify (ae_jwt env') (ae_now env') token = Claims kvs" "names_session kvs sid jti uid"
    and "fst (authenticate R env' rq' (s, d)) = Inr (Some si)"
  shows "\<exists>si'. fst (authenticate R env' rq' (s', d')) = Inr (Some si')"
proof -
  from reset_runs [OF assms(2), unfolded fst_conv snd_conv] obtain r u row where R:
    "user_by_id (pwr_user r) d = Some u" "s' = s"
    "d' = (save_password env u (field_of (both_passwords env (wr_data rq)) ''new_password'') d)
       \<lparr>d_resets := put_row pwr_id (used_reset (ae_now env) r) (d_resets d), d_audit := d_audit d @ [row]\<rparr>" by metis
  from live_redis.bearer [OF assms(1,3-6), of s d] assms(7) obtain v where
    "view s (blocklist_key sid) = None" "user_by_id uid d = Some v"
    by (auto split: if_splits option.splits)
  moreover from this(2) have "\<exists>w. user_by_id uid d' = Some w"
    using user_after_save [of uid "u\<lparr>usr_password := _\<rparr>" d]
    by (auto simp: R(3) save_password_def Let_def user_by_id_def)
  ultimately show ?thesis
    using live_redis.bearer [OF assms(1,3-6), of s' d'] R(2) by auto
qed

text \<open>The view that must not reveal whether an address has an account tells the verified ones apart.\<close>

theorem resend_reveals_verified:
  assumes "address_field env (wr_data rq) = Inr email"
  shows "fst (resend_verification_view env rq w) = Inr (Failure 400 ''already_verified'' []) \<longleftrightarrow>
    (\<exists>u. user_by_email email (snd w) = Some u \<and> usr_email_verified u)"
  using assms
  by (cases w) (auto simp: resend_verification_view_def resend_verification_def rbind_def rret_def split: option.splits)

end
