(* ===== verification/Dj_Gateway_Spec.thy ===== *)
theory Dj_Gateway_Spec
  imports Dj_Gateway Auth_Spec
begin

text \<open>
  What the gateway's headers guarantee: with an access token the context of a request is the token's, whatever
  headers the client sends; with a refresh token, which carries fewer claims, the client chooses its role.
\<close>

lemma map_of_filter_key: "map_of (filter (\<lambda>h. fst h \<noteq> k) hs) k' = (if k' = k then None else map_of hs k')"
  by (induction hs) auto

lemma header_set [simp]:
  "map_of (set_header k v hs) k' = (if k' = k then Some v else map_of hs k')"
  by (simp add: set_header_def map_of_filter_key)

lemma claim_header_text:
  "map_of p c = Some (JStr v) \<Longrightarrow> claim_header p c k b hs = Some (set_header k v hs)"
  by (simp add: claim_header_def)


lemma claim_header_absent: "map_of p c = None \<Longrightarrow> claim_header p c k b hs = Some hs"
  by (simp add: claim_header_def)


lemma inject_refresh:
  assumes "user_tenant u d = Some t"
  shows "inject_claims (refresh_payload env u d sid) hs =
    Some (set_header ''x-plan-tier'' ''free'' (set_header ''x-user-id'' (usr_id u)
      (set_header ''x-tenant-id'' (tnt_id t) hs)))"
proof -
  let ?p = "refresh_payload env u d sid"
  have c: "map_of ?p ''tenant_id'' = Some (JStr (tnt_id t))" "map_of ?p ''user_id'' = Some (JStr (usr_id u))"
    "map_of ?p ''role'' = None" "map_of ?p ''email'' = None" "map_of ?p ''is_superadmin'' = None"
    using assms by (simp_all add: refresh_payload_def jopt_def)
  have n: "\<not> jhas ''plan_tier'' (JObj ?p)" by (simp add: refresh_payload_def)
  show ?thesis
    unfolding inject_claims_def claim_header_text [OF c(1)] claim_header_text [OF c(2)]
      claim_header_absent [OF c(3)] claim_header_absent [OF c(4)] claim_header_absent [OF c(5)] bind.simps if_not_P [OF n] ..
qed




lemma lower_flag: "lower (if b then ''true'' else ''false'') = ''true'' \<longleftrightarrow> b"
  by (simp add: lower_def lower_char_def)




text \<open>
  A refresh token passes the gateway as well (the plugin checks the signature, the issuer and the expiry) and
  has no claim of a role or of the platform flag: these are what the client writes in the headers.
\<close>

theorem refresh_token_picks_role:
  assumes "user_tenant u d = Some t" "tnt_id t \<noteq> []" "usr_id u \<noteq> []"
    and "inject_claims (refresh_payload env u d sid)
           [(''x-user-role'', role), (''x-is-superadmin'', ''true'')] = Some (rq_headers rq)"
  shows "tenant_context env' rq =
      \<lparr>cx_tenant_id = JStr (tnt_id t), cx_user_id = JStr (usr_id u), cx_user_email = JStr [],
       cx_user_role = JStr role, cx_is_superadmin = True\<rparr> \<and>
    rls_context env' rq (tenant_context env' rq) = Bypass"
proof -
  from assms(4) have hs: "rq_headers rq = set_header ''x-plan-tier'' ''free'' (set_header ''x-user-id'' (usr_id u)
      (set_header ''x-tenant-id'' (tnt_id t) [(''x-user-role'', role), (''x-is-superadmin'', ''true'')]))"
    by (simp only: inject_refresh [OF assms(1)] option.inject)
  have h: "header ''x-user-id'' rq = Some (usr_id u)" "header ''x-tenant-id'' rq = Some (tnt_id t)"
    "header ''x-user-email'' rq = None" "header ''x-user-role'' rq = Some role"
    "header ''x-is-superadmin'' rq = Some ''true''"
    unfolding header_def hs by simp_all
  have "tenant_context env' rq =
      \<lparr>cx_tenant_id = JStr (tnt_id t), cx_user_id = JStr (usr_id u), cx_user_email = JStr [],
       cx_user_role = JStr role, cx_is_superadmin = True\<rparr>"
    unfolding tenant_context_def h using assms(2,3) lower_flag [of True]
    by (simp add: nonempty_def get_or_def jopt_def)
  then show ?thesis by (simp add: rls_context_def)
qed

lemma suspended_refused:
  assumes "live_redis R view" "truthy (cx_tenant_id (tenant_context env rq))" "\<not> is_unrestricted rq"
    and "\<not> cx_is_superadmin (tenant_context env rq)" "view s (suspended_key env (tenant_context env rq)) \<noteq> None"
  shows "fst (tenant_middleware R env handler rq (s, d)) = Inr (Reply 403 ''tenant_suspended'')"
proof -
  obtain s' where "r_get R (suspended_key env (tenant_context env rq)) s =
      (Inr (view s (suspended_key env (tenant_context env rq))), s')"
    using live_redis.get_up [OF assms(1)] by blast
  with assms(2-5) show ?thesis
    by (simp add: tenant_middleware_def Let_def rbind_def check_suspension_def rret_def)
qed

end
