(* ===== verification/Team_Spec.thy ===== *)
theory Team_Spec
  imports Team Credentials_Spec Dj_Gateway_Spec Gateway_Spec Collaboration_Spec
begin

text \<open>
  What the management of a team promises: who changes which role, what an invitation makes of the person who
  accepts it, and that a revoked API key is refused by the service that receives the logs.
\<close>

subsection \<open>Signing in changes no table\<close>

lemma authenticate_claims_db:
  "authenticate_claims R env claims w = (r, w') \<Longrightarrow> snd w' = snd w"
  by (cases w) (auto simp: authenticate_claims_def Let_def rbind_def rret_def split: prod.splits sum.splits if_splits)

lemma authenticate_db:
  assumes "authenticate R env rq w = (r, w')" shows "snd w' = snd w"
proof -
  obtain q w1 where a: "authenticate_claims R env c w = (q c, w1 c)" for c
    by (meson surj_pair)
  then have "snd (w1 c) = snd w" for c using authenticate_claims_db by blast
  with a show ?thesis
    using assms
    by (cases w) (auto simp: authenticate_def Let_def as_refusal_def rbind_def rret_def
        split: prod.splits sum.splits exn.splits if_splits)
qed

lemma signed_in_db: "signed_in_user R env rq w = (Inr si, w') \<Longrightarrow> snd w' = snd w"
  by (auto simp: signed_in_user_def rret_def rfail_def elim!: rbind_InrE dest!: authenticate_db split: option.splits)

lemma admin_of_InrD:
  assumes "admin_of R env rq w = (Inr si, w')"
  shows "fst (signed_in_user R env rq w) = Inr si" "IsTenantAdmin (claims_context (si_claims si))" "snd w' = snd w"
proof -
  from assms obtain si' w1 where s: "signed_in_user R env rq w = (Inr si', w1)"
    and k: "(if IsTenantAdmin (claims_context (si_claims si')) then rret si'
      else rfail (permission_denied ''Only tenant admin can access this.'')) w1 = (Inr si, w')"
    unfolding admin_of_def by (rule rbind_InrE)
  from k have "si' = si" "w1 = w'" "IsTenantAdmin (claims_context (si_claims si))"
    by (auto simp: rret_def rfail_def split: if_splits)
  with s signed_in_db [OF s] show "fst (signed_in_user R env rq w) = Inr si"
    "IsTenantAdmin (claims_context (si_claims si))" "snd w' = snd w" by simp_all
qed

subsection \<open>A team\<close>

definition team_owner :: user where
  "team_owner = acme_owner\<lparr>usr_tenant := Some tenant_a\<rparr>"

definition team_member :: user where
  "team_member = acme_owner\<lparr>usr_id := ''m'', usr_email := ''m@b.c'', usr_tenant := Some tenant_a, usr_role := ''viewer''\<rparr>"

definition team_key :: api_key where
  "team_key = \<lparr>apk_id = row_a, apk_tenant = tenant_a, apk_created_by = None, apk_name = ''ci'', apk_key = ''nops_live_1'',
     apk_is_active = True, apk_created_at = 0\<rparr>"

definition team_invitation :: user_invitation where
  "team_invitation = \<lparr>inv_id = ''i'', inv_email = ''n@b.c'', inv_tenant = tenant_a, inv_invited_by = None,
     inv_role = ''engineer'', inv_token = ''tok'', inv_status = ''pending'', inv_accepted_by = None,
     inv_created_at = 0, inv_expires_at = 10, inv_accepted_at = None, inv_cancelled_at = None\<rparr>"

definition team_db :: db1 where
  "team_db = empty_db1\<lparr>d_users := [team_owner, team_member], d_api_keys := [team_key], d_invitations := [team_invitation]\<rparr>"

definition team_claims :: "(string \<times> json) list" where
  "team_claims = [(''jti'', JStr ''old''), (''sid'', JStr acme_session_id), (''user_id'', JStr acme_owner_id),
     (''role'', JStr ''owner''), (''tenant_id'', JStr tenant_a), (''exp'', JInt 604800)]"

definition team_request :: "json \<Rightarrow> web_request" where
  "team_request body = (guess [])\<lparr>wr_authorization := Some (''Bearer '' @ hex_token team_claims), wr_data := body\<rparr>"

lemma team_rows:
  "d_users team_db = [team_owner, team_member]" "d_api_keys team_db = [team_key]" "d_invitations team_db = [team_invitation]"
  "d_outbox team_db = []" "usr_id team_owner = acme_owner_id" "usr_id team_member = ''m''" "usr_role team_owner = ''owner''"
  "usr_role team_member = ''viewer''" "usr_tenant team_owner = Some tenant_a" "usr_tenant team_member = Some tenant_a"
  "usr_is_active team_member" "user_by_id acme_owner_id team_db = Some team_owner"
  by (simp_all add: team_db_def empty_db1_def team_owner_def team_member_def acme_owner_def user_by_id_def)

lemma team_signed_in:
  obtains s1 where "signed_in_user live account_env (team_request body) (idle_redis, team_db) =
    (Inr \<lparr>si_user = team_owner, si_claims = JObj team_claims\<rparr>, (s1, team_db))"
proof -
  have tok: "jw_verify (ae_jwt account_env) (ae_now account_env) (hex_token team_claims) = Claims team_claims"
    using hex_jwt.verify_encode [of team_claims 604800 0]
    by (simp add: account_env_def team_claims_def seconds_def hex_jwt_def)
  have names: "names_session team_claims acme_session_id ''old'' acme_owner_id"
    by (simp add: names_session_def team_claims_def acme_ids)
  have auth: "wr_authorization (team_request body) = Some (''Bearer '' @ hex_token team_claims)"
    by (simp add: team_request_def)
  have sp: "CHR '' '' \<notin> set (hex_token team_claims)"
    unfolding hex_token_def by (rule to_hex_no_space)
  have "fst (authenticate live account_env (team_request body) (idle_redis, team_db)) =
      Inr (Some \<lparr>si_user = team_owner, si_claims = JObj team_claims\<rparr>)"
    using live.bearer [OF auth sp tok names] by (simp add: idle_view team_rows)
  then obtain w1 where a: "authenticate live account_env (team_request body) (idle_redis, team_db) =
      (Inr (Some \<lparr>si_user = team_owner, si_claims = JObj team_claims\<rparr>), w1)" by (metis fst_conv surj_pair)
  have "snd w1 = team_db" using authenticate_db [OF a] by simp
  with a have "signed_in_user live account_env (team_request body) (idle_redis, team_db) =
    (Inr \<lparr>si_user = team_owner, si_claims = JObj team_claims\<rparr>, (fst w1, team_db))"
    by (cases w1) (simp add: signed_in_user_def rbind_def rret_def)
  then show thesis by (rule that)
qed

subsection \<open>Roles\<close>

lemma change_role_InrD:
  assumes "change_role requester m body d = Inr (Inr v')"
  obtains v role where "v \<in> set (d_users d)" "usr_id v = m" "usr_tenant v = usr_tenant requester" "usr_is_active v"
    "usr_id v \<noteq> usr_id requester" "usr_role v \<noteq> ''owner''" "role \<in> set ROLE_CHOICES"
    "role = ''owner'' \<Longrightarrow> usr_role requester = ''owner''" "v' = v\<lparr>usr_role := role\<rparr>"
proof -
  from assms obtain v where v: "List.find (\<lambda>v. usr_id v = m \<and> usr_tenant v = usr_tenant requester \<and> usr_is_active v)
      (d_users d) = Some v" by (auto simp: change_role_def split: option.splits)
  from assms v obtain j where j: "is_one_of j ROLE_CHOICES" "usr_id v \<noteq> usr_id requester" "usr_role v \<noteq> ''owner''"
    "\<not> (j = JStr ''owner'' \<and> usr_role requester \<noteq> ''owner'')" "v' = v\<lparr>usr_role := py_str j\<rparr>"
    by (auto simp: change_role_def bind_res_eq_Inr split: if_splits)
  from j(1) obtain role where role: "role \<in> set ROLE_CHOICES" "j = JStr role" by (auto simp: is_one_of_def)
  from v have "v \<in> set (d_users d)" "usr_id v = m" "usr_tenant v = usr_tenant requester" "usr_is_active v"
    by (auto simp: find_Some_iff)
  from that [OF this j(2,3) role(1)] j(4,5) role(2) show thesis by auto
qed

text \<open>A change of role that is answered with success was asked for by a signed-in user
  whose token carries the role of an administrator or owner, and concerns another, active member of the same
  tenant who is not an owner; the new role is one of the four, and owner only if the one who asks is an owner
  in the database; no other user changes.\<close>

theorem role_change_rules:
  assumes "update_role_view R env m rq (s, d) = (Inr (Success 200 []), (s', d'))"
  shows "\<exists>si v role. fst (signed_in_user R env rq (s, d)) = Inr si \<and>
    IsTenantAdmin (claims_context (si_claims si)) \<and> v \<in> set (d_users d) \<and> usr_id v = m \<and>
    usr_tenant v = usr_tenant (si_user si) \<and> usr_is_active v \<and> m \<noteq> usr_id (si_user si) \<and> usr_role v \<noteq> ''owner'' \<and>
    role \<in> set ROLE_CHOICES \<and> (role = ''owner'' \<longrightarrow> usr_role (si_user si) = ''owner'') \<and>
    (\<forall>x. user_by_id x d' = (if x = m then Some (v\<lparr>usr_role := role\<rparr>) else user_by_id x d))"
proof -
  from assms obtain si w1 where a: "admin_of R env rq (s, d) = (Inr si, w1)"
    and k: "rbind (read_db (change_role (si_user si) m (wr_data rq))) (\<lambda>r. rbind (rlift r) (\<lambda>x. case x of
       Inl reply \<Rightarrow> rret reply
     | Inr v \<Rightarrow>
         rbind (write_db (\<lambda>d. Inr (save_user v d))) (\<lambda>_.
         rbind (write_db (emit_event ''users.role_updated'' [] (role_event v))) (\<lambda>_. rret (Success 200 []))))) w1 =
      (Inr (Success 200 []), (s', d'))"
    unfolding update_role_view_def by (rule rbind_InrE)
  have w1: "snd w1 = d" using admin_of_InrD(3) [OF a] by simp
  have no_reply: "change_role (si_user si) m (wr_data rq) d \<noteq> Inr (Inl (Success 200 []))"
    by (auto simp: change_role_def bind_res_eq_Inr split: option.splits if_splits)
  from k no_reply obtain v' where v': "change_role (si_user si) m (wr_data rq) d = Inr (Inr v')"
    by (auto simp: rbind_read w1 rret_def elim!: rbind_InrE split: sum.splits)
  from k v' obtain y w2 y3 w3 where p: "write_db (\<lambda>d. Inr (save_user v' d)) w1 = (Inr y, w2)"
    "write_db (emit_event ''users.role_updated'' [] (role_event v')) w2 = (Inr y3, w3)" "w3 = (s', d')"
    by (auto simp: rbind_read w1 rret_def elim!: rbind_InrE)
  have w2: "snd w2 = save_user v' d" by (rule write_db_InrE [OF p(1)]) (simp add: w1)
  obtain e where d': "d' = (save_user v' d)\<lparr>d_outbox := e\<rparr>"
    by (rule write_db_InrE [OF p(2)]) (use p(3) w2 in \<open>auto dest!: emit_event_InrD\<close>)
  from change_role_InrD [OF v'] obtain v role where v: "v \<in> set (d_users d)" "usr_id v = m"
    "usr_tenant v = usr_tenant (si_user si)" "usr_is_active v" "usr_id v \<noteq> usr_id (si_user si)" "usr_role v \<noteq> ''owner''"
    "role \<in> set ROLE_CHOICES" "role = ''owner'' \<Longrightarrow> usr_role (si_user si) = ''owner''" "v' = v\<lparr>usr_role := role\<rparr>" by metis
  have "user_by_id x d' = (if x = m then Some (v\<lparr>usr_role := role\<rparr>) else user_by_id x d)" for x
    using user_after_save [of x v' d] v(2,9) by (simp add: d' user_by_id_def)
  with admin_of_InrD(1,2) [OF a] v show ?thesis by blast
qed

lemma role_change_rules_witness:
  "\<exists>s' d'. update_role_view live account_env ''m'' (team_request (JObj [(''role'', JStr ''engineer'')])) (idle_redis, team_db) =
     (Inr (Success 200 []), (s', d')) \<and> user_by_id ''m'' d' = Some (team_member\<lparr>usr_role := ''engineer''\<rparr>)"
proof -
  let ?rq = "team_request (JObj [(''role'', JStr ''engineer'')])"
  have adm: "IsTenantAdmin (claims_context (JObj team_claims))"
    by (simp add: IsTenantAdmin_def claims_context_def team_claims_def is_one_of_def acme_owner_id_def)
  have ne: "acme_owner_id \<noteq> ''m''" by (simp add: acme_owner_id_def)
  have body: "wr_data ?rq = JObj [(''role'', JStr ''engineer'')]" by (simp add: team_request_def)
  have role: "change_role team_owner ''m'' (wr_data ?rq) team_db = Inr (Inr (team_member\<lparr>usr_role := ''engineer''\<rparr>))"
    by (simp add: change_role_def body team_rows ne not_sym [OF ne] dict_get_def unhashable_def is_one_of_def ROLE_CHOICES_def
        bind_res_def)
  obtain s1 where si: "signed_in_user live account_env ?rq (idle_redis, team_db) =
      (Inr \<lparr>si_user = team_owner, si_claims = JObj team_claims\<rparr>, (s1, team_db))" by (rule team_signed_in)
  have "\<exists>s' d'. update_role_view live account_env ''m'' ?rq (idle_redis, team_db) = (Inr (Success 200 []), (s', d'))"
    by (simp add: update_role_view_def admin_of_def si rbind_def adm rret_def role emit_event_def)
  then obtain s' d' where run: "update_role_view live account_env ''m'' ?rq (idle_redis, team_db) =
      (Inr (Success 200 []), (s', d'))" by blast
  from run have "d' = (save_user (team_member\<lparr>usr_role := ''engineer''\<rparr>) team_db)\<lparr>d_outbox :=
      [\<lparr>de_topic = ''users.role_updated'', de_key = [], de_payload = role_event (team_member\<lparr>usr_role := ''engineer''\<rparr>)\<rparr>]\<rparr>"
    by (simp add: update_role_view_def admin_of_def si rbind_def adm rret_def role emit_event_def team_rows save_user_def)
  then have "user_by_id ''m'' d' = Some (team_member\<lparr>usr_role := ''engineer''\<rparr>)"
    using role_change_rules [OF run] by (auto simp: user_by_id_def save_user_def team_rows ne not_sym [OF ne])
  with run show ?thesis by blast
qed

subsection \<open>Joining\<close>

lemma atomic_Inl: "atomic p (s, d) = (Inl e, w') \<Longrightarrow> snd w' = d"
  by (auto simp: atomic_def split: prod.splits sum.splits)

lemma join_failure:
  assumes "join_view env rq (s, d) = (Inr (Failure code why errs), (s', d'))" shows "d' = d"
proof -
  let ?fs = "join_fields env (wr_data rq)"
  show ?thesis
  proof (cases "join_invitation env ?fs d")
    case (Inl x)
    with assms show ?thesis by (simp add: join_view_def Let_def rbind_read rret_def)
  next
    case (Inr i)
    with assms show ?thesis
      unfolding join_view_def Let_def rbind_read
      by (auto simp: join_with_password_def split: prod.splits sum.splits dest!: atomic_Inl)
  qed
qed

lemma save_invitation_InrD:
  "save_invitation i d = Inr d' \<Longrightarrow> d' = d\<lparr>d_invitations := put_row inv_id i (d_invitations d)\<rparr>"
  by (simp add: save_invitation_def split: if_splits)

lemma create_user_InrD:
  "create_user env u pw d = Inr v \<Longrightarrow>
   v = u\<lparr>usr_email := ae_normalize_email env (usr_email u), usr_password := ae_make_password env pw\<rparr>"
  by (auto simp: create_user_def Let_def split: if_splits)

text \<open>Tokens add a session at most.\<close>

lemma generate_tokens_members:
  assumes "generate_tokens env u rq sid w = (Inr x, w')"
  shows "d_users (snd w') = d_users (snd w)" "d_invitations (snd w') = d_invitations (snd w)"
proof -
  obtain y w1 where p: "(case (rq, sid) of
      (Some q, None) \<Rightarrow> write_db (create_session env (new_session env q u (get_or sid (ae_uuid env 2))))
    | _ \<Rightarrow> rret ()) w = (Inr y, w1)" and r: "snd w' = snd w1"
    using assms unfolding generate_tokens_def Let_def
    by (auto elim!: rbind_InrE simp: read_db_eq split: prod.splits)
  show "d_users (snd w') = d_users (snd w)" "d_invitations (snd w') = d_invitations (snd w)"
    using p by (auto simp: r rret_def create_session_def split: option.splits if_splits elim!: write_db_InrE)
qed

lemma join_with_password_rows:
  assumes "join_with_password env rq i pw first last' (s, d) = (Inr (u, tokens), (s', d'))"
  shows "d_users d' = d_users d @ [u]" "d_invitations d' = put_row inv_id (accepted (ae_now env) u i) (d_invitations d)"
    "u = (new_user env (ae_uuid env 3) (inv_email i) (inv_tenant i) first last' (inv_role i) True)
       \<lparr>usr_email := ae_normalize_email env (inv_email i), usr_password := ae_make_password env pw\<rparr>"
proof -
  let ?n = "new_user env (ae_uuid env 3) (inv_email i) (inv_tenant i) first last' (inv_role i) True"
  from assms obtain u' w1 y2 w2 y3 w3 y4 w4 where p:
    "insert_user env ?n pw (s, d) = (Inr u', w1)" "accept_invitation env u' i w1 = (Inr y2, w2)"
    "generate_tokens env u' (Some rq) None w2 = (Inr y3, w3)"
    "write_db (audit_from (ae_is_ip env) (Some (first_hop_ip rq)) ''USER_CREATED'' (Some u') None [] [] True) w3 = (Inr y4, w4)"
    "u' = u" "w4 = (s', d')"
    unfolding join_with_password_def atomic_def
    by (auto simp: rret_def elim!: rbind_InrE split: prod.splits sum.splits)
  from p(1) obtain v w5 y5 where q: "create_user env ?n pw d = Inr v"
    "write_db (\<lambda>d. Inr (d\<lparr>d_users := d_users d @ [v]\<rparr>)) (s, d) = (Inr y5, w5)" "w5 = w1" "v = u'"
    unfolding insert_user_def rbind_read by (auto simp: rret_def elim!: rbind_InrE)
  have w1: "snd w1 = d\<lparr>d_users := d_users d @ [u]\<rparr>"
    by (rule write_db_InrE [OF q(2)]) (use q(3,4) p(5) in auto)
  from p(2) obtain y6 w6 where a: "write_db (save_invitation (accepted (ae_now env) u' i)) w1 = (Inr y6, w6)"
    "write_db (audit_from (ae_is_ip env) None ''USER_INVITE_ACCEPTED'' (Some u') (Some (inv_tenant i)) [] (inv_id i) True) w6
      = (Inr y2, w2)"
    unfolding accept_invitation_def by (auto simp: rfail_def elim!: rbind_InrE split: if_splits)
  have w6: "snd w6 = (snd w1)\<lparr>d_invitations := put_row inv_id (accepted (ae_now env) u i) (d_invitations d)\<rparr>"
    by (rule write_db_InrE [OF a(1)]) (use p(5) w1 in \<open>auto dest!: save_invitation_InrD\<close>)
  obtain row where w2: "snd w2 = (snd w6)\<lparr>d_audit := row\<rparr>"
    by (rule write_db_InrE [OF a(2)]) (auto dest!: audit_from_InrD)
  obtain row' where w4: "snd w4 = (snd w3)\<lparr>d_audit := row'\<rparr>"
    by (rule write_db_InrE [OF p(4)]) (auto dest!: audit_from_InrD)
  from generate_tokens_members [OF p(3)] w1 w6 w2 w4 p(6)
  show "d_users d' = d_users d @ [u]" "d_invitations d' = put_row inv_id (accepted (ae_now env) u i) (d_invitations d)"
    by auto
  show "u = ?n\<lparr>usr_email := ae_normalize_email env (inv_email i), usr_password := ae_make_password env pw\<rparr>"
    using create_user_InrD [OF q(1)] q(4) p(5) by (simp add: new_user_def)
qed

text \<open>A request to join that is answered with success was made with the token of a
  pending invitation that has not expired, and adds one user, with the address, tenant and role of the
  invitation, by whom it is accepted; any other answer leaves all tables as they were.\<close>

theorem invitation_makes_member:
  assumes "join_view env rq (s, d) = (Inr reply, (s', d'))"
  shows "case reply of
      Failure _ _ _ \<Rightarrow> d' = d
    | Success _ _ \<Rightarrow> \<exists>i u. i \<in> set (d_invitations d) \<and> invitation_is_valid (ae_now env) i \<and>
        inv_token i = field_of (join_fields env (wr_data rq)) ''invite_token'' \<and>
        d_users d' = d_users d @ [u] \<and> usr_tenant u = Some (inv_tenant i) \<and> usr_role u = inv_role i \<and>
        usr_email u = ae_normalize_email env (inv_email i) \<and>
        row_at inv_id (inv_id i) (d_invitations d') = Some (accepted (ae_now env) u i)"
proof (cases reply)
  case (Failure code why errs)
  with join_failure assms show ?thesis by simp
next
  case (Success code fields)
  let ?fs = "join_fields env (wr_data rq)"
  from assms Success obtain i where i: "join_invitation env ?fs d = Inr i"
    unfolding join_view_def Let_def rbind_read by (auto simp: rret_def split: sum.splits)
  from i have tok: "invitation_by_token (field_of ?fs ''invite_token'') d = Some i" "invitation_is_valid (ae_now env) i"
    by (auto simp: join_invitation_def split: option.splits if_splits)
  from assms Success i obtain u tokens where
    "join_with_password env rq i (field_of ?fs ''password'') (field_of ?fs ''first_name'') (field_of ?fs ''last_name'') (s, d)
      = (Inr (u, tokens), (s', d'))"
    unfolding join_view_def Let_def rbind_read by (auto split: sum.splits prod.splits)
  from join_with_password_rows [OF this] tok Success row_at_Some [OF tok(1) [unfolded invitation_by_token_def]]
  show ?thesis by (auto simp: new_user_def accepted_def)
qed

subsection \<open>Invitations\<close>

text \<open>
  Each status of an address has one row: the second pending invitation of an address cannot be cancelled once
  another has been, and the cleanup of expired invitations stops at the first address that has expired before.
\<close>

theorem second_cancel_fails:
  assumes "o' \<in> set (d_invitations d)" "inv_id o' \<noteq> inv_id i" "inv_tenant o' = inv_tenant i" "inv_email o' = inv_email i"
    and "inv_status o' = ''cancelled''"
  shows "save_invitation (cancelled now i) d = Inl (IntegrityError ''user_invitations'')"
proof -
  have "invitation_conflict (cancelled now i) d"
    unfolding invitation_conflict_def by (rule bexI [OF _ assms(1)]) (simp add: assms cancelled_def)
  then show ?thesis by (simp add: save_invitation_def)
qed

text \<open>What is found pending is handed out again as it is, expired or not.\<close>

theorem reinvited_stays_expired:
  assumes "invitation_at t email ''pending'' d = Some i"
  shows "get_or_create_invitation env inviter t email role d = (Inr i, d)"
proof -
  have "inv_status i = ''pending''" using assms by (auto simp: invitation_at_def find_Some_iff)
  then show ?thesis using assms by (simp add: get_or_create_invitation_def)
qed

subsection \<open>Revoked keys\<close>

lemma revoked_event:
  assumes "revoke_api_key_view R env x rq (s, d) = (Inr (Success 200 []), (s', d'))"
  obtains k where "k \<in> set (d_api_keys d)" "apk_id k = x"
    "d_outbox d' = d_outbox d @ [\<lparr>de_topic = ''config.api_keys'', de_key = [], de_payload = api_key_event (k\<lparr>apk_is_active := False\<rparr>)\<rparr>]"
    "row_at apk_id x (d_api_keys d') = Some (k\<lparr>apk_is_active := False\<rparr>)"
proof -
  from assms obtain si w1 where a: "signed_in_user R env rq (s, d) = (Inr si, w1)"
    and k: "rbind (read_db (\<lambda>d. List.find (\<lambda>k. apk_id k = x \<and> Some (apk_tenant k) = usr_tenant (si_user si)) (d_api_keys d))) (\<lambda>r.
     case r of
       None \<Rightarrow> rret (Failure 404 ''not_found'' [])
     | Some k \<Rightarrow>
         (let k' = k\<lparr>apk_is_active := False\<rparr> in
          rbind (write_db (\<lambda>d. Inr (d\<lparr>d_api_keys := put_row apk_id k' (d_api_keys d)\<rparr>))) (\<lambda>_.
          rbind (write_db (emit_event ''config.api_keys'' [] (api_key_event k'))) (\<lambda>_. rret (Success 200 []))))) w1 =
      (Inr (Success 200 []), (s', d'))"
    unfolding revoke_api_key_view_def by (rule rbind_InrE)
  have w1: "snd w1 = d" using signed_in_db [OF a] by simp
  from k obtain r where r: "List.find (\<lambda>k. apk_id k = x \<and> Some (apk_tenant k) = usr_tenant (si_user si)) (d_api_keys d) = Some r"
    by (auto simp: rbind_read w1 rret_def split: option.splits)
  let ?r = "r\<lparr>apk_is_active := False\<rparr>"
  from k r obtain y2 w2 y3 w3 where p: "write_db (\<lambda>d. Inr (d\<lparr>d_api_keys := put_row apk_id ?r (d_api_keys d)\<rparr>)) w1 = (Inr y2, w2)"
    "write_db (emit_event ''config.api_keys'' [] (api_key_event ?r)) w2 = (Inr y3, w3)" "w3 = (s', d')"
    by (auto simp: rbind_read w1 rret_def Let_def elim!: rbind_InrE)
  have w2: "snd w2 = d\<lparr>d_api_keys := put_row apk_id ?r (d_api_keys d)\<rparr>" by (rule write_db_InrE [OF p(1)]) (simp add: w1)
  have d': "d' = (snd w2)\<lparr>d_outbox := d_outbox d @ [\<lparr>de_topic = ''config.api_keys'', de_key = [], de_payload = api_key_event ?r\<rparr>]\<rparr>"
    by (rule write_db_InrE [OF p(2)]) (use p(3) w2 in \<open>auto simp: emit_event_def\<close>)
  from r have "r \<in> set (d_api_keys d)" "apk_id r = x" by (auto simp: find_Some_iff)
  from that [OF this] this(2) d' w2 show thesis by simp
qed

lemma switched_off:
  assumes "x \<in> set (put_row ak_id (r\<lparr>ak_is_active := False\<rparr>) rows)" "row_at ak_id i rows = Some r"
    and "distinct (map ak_key rows)" "ak_key x = ak_key r"
  shows "\<not> ak_is_active x"
  using assms
proof (induction rows)
  case Nil
  then show ?case by simp
next
  case (Cons y rows)
  have i: "ak_id r = i" using row_at_Some [OF Cons.prems(2)] by simp
  show ?case
  proof (cases "ak_id y = i")
    case True
    with Cons.prems i have "x = r\<lparr>ak_is_active := False\<rparr> \<or> x \<in> set rows" "y = r" by auto
    moreover have "ak_key r \<notin> ak_key ` set rows" using Cons.prems(3) \<open>y = r\<close> by simp
    then have "x \<notin> set rows" using Cons.prems(4) by (metis imageI)
    ultimately show ?thesis by simp
  next
    case False
    with Cons.prems(2) have row: "row_at ak_id i rows = Some r" by simp
    then have "ak_key r \<in> ak_key ` set rows" using row_at_Some by (metis imageI)
    with Cons.prems(3,4) have "x \<noteq> y" by auto
    with Cons.prems(1) False i have "x \<in> set (put_row ak_id (r\<lparr>ak_is_active := False\<rparr>) rows)" by auto
    from Cons.IH [OF this row] Cons.prems(3,4) show ?thesis by simp
  qed
qed

context live_redis begin

lemma revocation_handled:
  assumes "ce_redis env = R" "ce_db_error env = None" "ce_commit_error env = None"
    and "is_uuid (apk_id k)" "is_uuid (apk_tenant k)" "\<not> apk_is_active k" "length (apk_key k) \<le> 255"
    and "row_at ak_id (apk_id k) (api_key_snapshots db) = Some r" "ak_key r = apk_key k"
    and "distinct (map ak_key (api_key_snapshots db))"
  shows "\<exists>db' s' q. handle_config env ''config.api_keys'' (api_key_event k) db s = (Inr (), db', s', q) \<and>
    fst (tenant_of_key R None db' (apk_key k) s') = Inr None"
proof -
  let ?r = "r\<lparr>ak_is_active := False\<rparr>"
  let ?db = "db\<lparr>api_key_snapshots := put_row ak_id ?r (api_key_snapshots db)\<rparr>"
  have ids: "api_key_ids (api_key_event k) = Inr (Some (apk_id k, apk_tenant k))"
    using assms(4,5) by (simp add: api_key_ids_def api_key_event_def is_uuid_def)
  have get: "get_default ''key'' (api_key_event k) (JStr []) = JStr (apk_key k)"
    "get_default ''is_active'' (api_key_event k) (JBool True) = JBool False"
    using assms(6) by (simp_all add: get_default_def api_key_event_def)
  have up: "upsert_api_key (apk_id k) (apk_tenant k) (JStr (apk_key k)) (JBool False) db = Inr ?db"
    using assms(7,8) by (simp add: upsert_api_key_def bool_col_def)
  obtain n s' where del: "r_delete R (api_key_cache (apk_key k)) s = (Inr n, s')" using delete_up by blast
  have h: "handle_config env ''config.api_keys'' (api_key_event k) db s = (Inr (), ?db, s', [])"
    using del by (simp add: handle_config_def handle_api_keys_event_def ids get up transact_def assms(1-3))
  have gone: "view s' (api_key_cache (apk_key k)) = None" using delete_ok [OF del] by simp
  have "\<not> ak_is_active x" if "x \<in> set (put_row ak_id ?r (api_key_snapshots db))" "ak_key x = apk_key k" for x
    using switched_off [OF that(1) _ assms(10), of "apk_id k"] row_at_Some [OF assms(8)] assms(8,9) that(2) by simp
  then have "List.find (\<lambda>a. ak_key a = apk_key k \<and> ak_is_active a) (put_row ak_id ?r (api_key_snapshots db)) = None"
    by (auto simp: find_None_iff)
  moreover obtain s2 where "r_get R (api_key_cache (apk_key k)) s' = (Inr None, s2)"
    using get_up [of "api_key_cache (apk_key k)" s'] gone by auto
  ultimately have "fst (tenant_of_key R None ?db (apk_key k) s') = Inr None"
    by (simp add: tenant_of_key_def rbind_def rret_def nonempty_def)
  with h show ?thesis by blast
qed

end

text \<open>Revoking an API key in Django makes the service that receives the logs refuse it.
  The view adds one event to the outbox; whatever state that service is in, once its consumer has handled the
  event, the key that is known to it names no tenant any more, neither in the cache nor in the table.  (Redis
  and the database answer, the identifiers are UUIDs, the key fits its column and is unique in the table.)\<close>

theorem revoked_key_refused:
  assumes "revoke_api_key_view R1 env x rq (s1, d) = (Inr (Success 200 []), (s1', d'))"
    and "live_redis R view" "ce_redis cenv = R" "ce_db_error cenv = None" "ce_commit_error cenv = None"
  shows "\<exists>k e. k \<in> set (d_api_keys d) \<and> apk_id k = x \<and> d_outbox d' = d_outbox d @ [e] \<and>
    (\<forall>db s r. is_uuid x \<and> is_uuid (apk_tenant k) \<and> length (apk_key k) \<le> 255 \<and>
       row_at ak_id x (api_key_snapshots db) = Some r \<and> ak_key r = apk_key k \<and>
       distinct (map ak_key (api_key_snapshots db)) \<longrightarrow>
       (\<exists>db' s' q. handle_config cenv (de_topic e) (de_payload e) db s = (Inr (), db', s', q) \<and>
          fst (tenant_of_key R None db' (apk_key k) s') = Inr None))"
proof -
  from revoked_event [OF assms(1)] obtain k where k: "k \<in> set (d_api_keys d)" "apk_id k = x"
    "d_outbox d' = d_outbox d @ [\<lparr>de_topic = ''config.api_keys'', de_key = [], de_payload = api_key_event (k\<lparr>apk_is_active := False\<rparr>)\<rparr>]" .
  let ?k = "k\<lparr>apk_is_active := False\<rparr>"
  have "\<exists>db' s' q. handle_config cenv ''config.api_keys'' (api_key_event ?k) db s = (Inr (), db', s', q) \<and>
      fst (tenant_of_key R None db' (apk_key k) s') = Inr None"
    if "is_uuid x" "is_uuid (apk_tenant k)" "length (apk_key k) \<le> 255" "row_at ak_id x (api_key_snapshots db) = Some r"
      "ak_key r = apk_key k" "distinct (map ak_key (api_key_snapshots db))" for db s r
    using live_redis.revocation_handled [OF assms(2-5), of ?k db r s] that k(2) by simp
  with k show ?thesis by (intro exI conjI) auto
qed

end
