(* ===== verification/Spec2Isabelle.thy ===== *)
theory Spec2Isabelle
  imports Interleaving Workflow_Spec Config_Sync_Spec Raw_Logs Embed_Playbook Gateway_Spec Rate_Limit Log_Events_Spec Github_Pr_Spec Collaboration_Spec Consume_Incidents_Spec Team_Spec
begin

text \<open>
  NeuralOps receives error logs of its tenants, groups them into incidents and lets a workflow of
  language-model agents explain and repair them.  It has two services.  Django (\<open>src/django\<close>) owns the
  configuration: tenants, users, alert rules, playbooks, integrations; every change of it is written
  with an outbox row that Debezium publishes on Kafka.  FastAPI (\<open>src/fastapi\<close>) owns the events: it
  takes logs in, keeps snapshots of the configuration in its own database (DB-2) and runs the workers.

  \<^bold>\<open>Layout.\<close>  \<open>Prelude\<close>, \<open>Json\<close>, \<open>Redis_Api\<close>, \<open>Models\<close> and \<open>Orm\<close> hold what all components share: exceptions
  and the string operations of Python, decoded JSON, the Redis client as a locale of documented laws
  (\<open>redis_server\<close>, instance: the server in memory \<open>mem\<close>, which follows a script of failures; \<open>Redis_Ttl\<close> adds
  the time keys have left), the tables
  of DB-2 with the constraints a commit checks (\<open>app/models\<close>), the checks of column types.

  \<^item> The intake of an event by \<open>run_agent\<close>: \<open>Parsed_Log_Event\<close> (\<open>app/schemas/parse_log.py\<close>), \<open>Fingerprint\<close>
    and \<open>Incident_Service\<close> (\<open>app/services/incidents.py\<close>), \<open>Dedup_Lock\<close> (\<open>app/services/dedup_lock.py\<close>),
    \<open>Run_Agent\<close> (\<open>app/worker/tasks/run_agent.py\<close>).  \<open>Run_Agent_Spec\<close> states what one run does to the
    database and the lock; \<open>Interleaving\<close> what any number of workers do together, as a step relation on
    their atomic actions with key expiry, failures of Redis and resolutions in between.
  \<^item> The workflow: \<open>Agent_State\<close> and the eight nodes of \<open>app/agents/nodes\<close> in \<open>Classifier\<close>, \<open>Playbook_Matcher\<close>,
    \<open>Analyzer\<close>, \<open>Code_Retriever\<close>, \<open>Fix_Generator\<close>, \<open>Scorer\<close> (confidence scorer and action decision) and
    \<open>Patch_Generator\<close>, with \<open>Llm\<close> for what the three model-calling nodes share, and \<open>Circuit_Breaker\<close>
    (\<open>app/agents/circuit_breaker.py\<close>) between them and the model.  \<open>Workflow\<close> is the graph of
    \<open>app/agents/workflow.py\<close> as data, \<open>Workflow_Spec\<close> what it computes under any engine that follows the
    documented rules of LangGraph.
  \<^item> Configuration: \<open>Django_Config\<close> (\<open>apps/alerts\<close>, \<open>apps/playbooks\<close>, the outbox), \<open>Kafka\<close> (the client and the
    loop of a consumer), \<open>Github_Auth\<close>, \<open>Config_Sync\<close> (\<open>app/queue/kafka/consumers/config_sync.py\<close>) and
    \<open>Config_Sync_Spec\<close>, which composes producer and consumer; \<open>Raw_Logs\<close> (\<open>raw_logs.py\<close>) and
    \<open>Embed_Playbook\<close> (\<open>app/worker/tasks/embed_playbook.py\<close>).
  \<^item> The way in: \<open>Gateway\<close> (\<open>app/middleware\<close>, \<open>app/core/security.py\<close>, the stack of \<open>main.py\<close>,
    \<open>app/api/dependencies/tenant.py\<close>) over \<open>Json_Text\<close> (the texts of \<open>json.dumps\<close> and \<open>json.loads\<close>, with the
    round trip of the values a program writes); \<open>Gateway_Spec\<close> composes it with the configuration consumer.
    \<open>Rate_Limit\<close> (\<open>rate_limit.py\<close>) and \<open>Ingest\<close> (\<open>app/api/v1/ingest.py\<close>, \<open>app/schemas/ingest.py\<close>) are the route of
    the SDK; \<open>Ingest_Spec\<close> follows an accepted log to the task it ends in.
  \<^item> Parsing: \<open>Parse_Log\<close> (\<open>app/worker/tasks/parse_log.py\<close>), and \<open>Parse_Log_Spec\<close>, which follows the log on to \<open>run_agent\<close>.
  \<^item> The REST API of incidents: \<open>Incident_Api\<close> (\<open>app/api/v1/incidents.py\<close>, \<open>app/schemas/incidents.py\<close>) and
    \<open>Incident_Api_Spec\<close>: the life cycle under any sequence of updates, the pages of a list, the stored frames.
  \<^item> Pull requests: \<open>Github_Pr\<close> (\<open>app/worker/tasks/github_pr.py\<close>) over a contract of GitHub's branches and commits
    (\<open>git_server\<close>, instance \<open>mem_git\<close>), \<open>Github_Pr_Spec\<close>: what a run can change and what its branch holds.
  \<^item> The log explorer: \<open>Log_Events\<close> (\<open>index_template.py\<close>, \<open>log_event_indexer.py\<close>, \<open>log_search_repository.py\<close> of
    \<open>app/services\<close> and their route) over a contract of Elasticsearch, \<open>Log_Events_Spec\<close>, and \<open>Es_Breaker\<close>
    (\<open>app/services/circuit_breaker.py\<close>) with calls in flight.
  \<^item> Django's own side: \<open>Dj_Models\<close> is its database, DB-1 (the models of \<open>apps/users\<close>, \<open>tenants\<close>, \<open>billing\<close>,
    \<open>collaboration\<close>, \<open>analytics\<close> and \<open>outbox\<close>).  \<open>Collaboration\<close> (\<open>apps/collaboration\<close> and
    \<open>apps/websockets/publisher.py\<close>) holds the discussion threads, \<open>Collaboration_Spec\<close> who can change what in them.  \<open>Consume_Incidents\<close> is the consumer of the
    incident events (\<open>apps/analytics/management/commands/consume_incidents.py\<close>); \<open>Consume_Incidents_Spec\<close> composes it
    with the incident API of FastAPI.
  \<^item> Accounts and teams (\<open>apps/users\<close>, \<open>core/quotas.py\<close>, \<open>core/permissions.py\<close>): \<open>Dj_Web\<close> has programs over Redis and
    DB-1 together, requests, replies and the fields of serializers; \<open>Auth\<close> tokens, sessions, the login limiter,
    refreshing and registering, over a contract of PyJWT (\<open>jwt_codec\<close>, instance \<open>hex_jwt\<close>); \<open>Credentials\<close> passwords,
    verified addresses and second factors; \<open>Dj_Gateway\<close> the headers of Kong and the middleware that trusts them;
    \<open>Team\<close> quotas, invitations, roles and API keys.  \<open>Auth_Spec\<close>, \<open>Credentials_Spec\<close>, \<open>Dj_Gateway_Spec\<close> and
    \<open>Team_Spec\<close> state what they promise; the last follows a revoked API key to the service that refuses it.
  \<^item> \<open>Regex\<close> is a backtracking matcher for the patterns of \<open>re\<close>, sound and complete for their language.

  \<^bold>\<open>Conventions.\<close>  A handler takes the database, the Redis state and the answers of external services and
  returns its result or exception (\<open>exn + 'a\<close>) with the new states and the effects it caused.  Redis,
  Kafka, GitHub, S3, Elasticsearch, the JWT library, the models and their embeddings, the tokenizer, SHA-256, the decoding of JSON texts
  and LangGraph are parameters; what is assumed of them is stated in a locale or as a hypothesis, and
  each has an instance.  Failures of the database, of the broker and of commits are arguments.  Floats are
  exact rationals, strings are lists of ASCII characters, times are microseconds.  A key of Redis expires
  between handlers, never inside one; where the time a key has left matters (the probe lock of the circuit
  breaker) the server of \<open>Redis_Ttl\<close> counts it down.  The database role of the workers is taken to bypass
  row level security.  The engine of the workflow, \<open>Workflow.follow\<close>, has no bound on its steps: \<open>None\<close> is an
  invocation that does not end.  The graph has eight nodes and no cycle, and \<open>workflow_is_pipeline\<close> shows that
  every invocation ends, and with what.

  \<^bold>\<open>Not modelled.\<close>  Logging, metrics, tracing and OpenAPI decoration; start-up, shutdown and reconnection
  of clients; WebSocket calls and, in \<open>run_agent\<close>, Elasticsearch calls (recorded as effects); migrations, apart from the fact
  whether the partial unique index exists; the fixed wording of prompts.  The components of the manifest
  that are not modelled name their reason.
\<close>

end
